(* ===== verification/Prelude.thy ===== *)
theory Prelude
  imports Main "HOL-Library.Word" "HOL-Library.Char_ord" "HOL-Library.List_Lexorder"
    "HOL-Library.Sublist" "HOL-Library.AList"
begin

text \<open>
  The vocabulary every component shares: Go strings as byte strings with the functions of the
  package \<^verbatim>\<open>strings\<close> and \<^verbatim>\<open>strconv\<close> the daemon calls, Go maps as
  association lists, fallible results, and the collections of simplification rules that carry the
  component proofs.

  A Go \<^verbatim>\<open>string\<close> is a sequence of bytes and so is the HOL type \<open>string\<close> (a list of
  8-bit characters); \<open>length\<close> is Go's \<^verbatim>\<open>len\<close> and \<open>(<)\<close> (from \<open>Char_ord\<close> and
  \<open>List_Lexorder\<close>) is Go's bytewise \<^verbatim>\<open><\<close>.
\<close>

named_theorems go_str "definitions of the modelled functions of Go's packages strings and strconv"
named_theorems res_simps "computation rules of the result combinators"

type_synonym byte = "8 word"
type_synonym u16 = "16 word"
type_synonym u32 = "32 word"

section \<open>Results\<close>

text \<open>A call that returns a value or an error: \<open>Inl\<close> is the error return.\<close>

type_synonym ('e, 'a) res = "'e + 'a"

fun rbind :: "('err, 'x) res \<Rightarrow> ('x \<Rightarrow> ('err, 'y) res) \<Rightarrow> ('err, 'y) res" where
  "rbind (Inl e) f = Inl e"
| "rbind (Inr a) f = f a"

fun is_ok :: "'e + 'a \<Rightarrow> bool" where
  "is_ok (Inl e) = False"
| "is_ok (Inr a) = True"

declare rbind.simps [res_simps] is_ok.simps [res_simps]

lemma rbind_eq_Inr: "rbind r f = Inr b \<longleftrightarrow> (\<exists>a. r = Inr a \<and> f a = Inr b)"
  by (cases r) auto

lemma rbind_eq_Inl: "rbind r f = Inl e \<longleftrightarrow> r = Inl e \<or> (\<exists>a. r = Inr a \<and> f a = Inl e)"
  by (cases r) auto

lemma is_ok_iff: "is_ok r \<longleftrightarrow> (\<exists>a. r = Inr a)"
  by (cases r) auto

text \<open>
  A loop that converts each element and returns at the first error, as
  \<^verbatim>\<open>for _, x := range xs { y, err := f(x); if err != nil { return nil, err }; ... }\<close>.
\<close>

fun mapM :: "('x \<Rightarrow> ('err, 'y) res) \<Rightarrow> 'x list \<Rightarrow> ('err, 'y list) res" where
  "mapM f [] = Inr []"
| "mapM f (x # xs) = rbind (f x) (\<lambda>y. rbind (mapM f xs) (\<lambda>ys. Inr (y # ys)))"

lemma mapM_Inr_iff:
  "mapM f xs = Inr ys \<longleftrightarrow> list_all2 (\<lambda>x y. f x = Inr y) xs ys"
  by (induction xs arbitrary: ys) (auto simp: rbind_eq_Inr list_all2_Cons1)

lemma mapM_length: "mapM f xs = Inr ys \<Longrightarrow> length ys = length xs"
  by (auto simp: mapM_Inr_iff dest: list_all2_lengthD)

section \<open>Go maps\<close>

text \<open>
  A Go map is a list of pairs with distinct keys. The order of the list stands for the order in
  which \<^verbatim>\<open>range\<close> visits the map, which Go leaves open: a statement about every such list is
  a statement about every iteration order.
\<close>

type_synonym ('k, 'v) gomap = "('k \<times> 'v) list"

abbreviation get :: "('k, 'v) gomap \<Rightarrow> 'k \<Rightarrow> 'v option" where
  "get m \<equiv> map_of m"

abbreviation put :: "'k \<Rightarrow> 'v \<Rightarrow> ('k, 'v) gomap \<Rightarrow> ('k, 'v) gomap" where
  "put k v m \<equiv> AList.update k v m"

abbreviation del :: "'k \<Rightarrow> ('k, 'v) gomap \<Rightarrow> ('k, 'v) gomap" where
  "del k m \<equiv> AList.delete k m"

abbreviation gomap_ok :: "('k, 'v) gomap \<Rightarrow> bool" where
  "gomap_ok m \<equiv> distinct (map fst m)"

lemma get_put [simp]: "get (put k v m) = (get m)(k \<mapsto> v)"
  by (rule update_conv')

lemma get_del [simp]: "get (del k m) = (get m)(k := None)"
  by (rule delete_conv')

lemma gomap_ok_put [simp]: "gomap_ok m \<Longrightarrow> gomap_ok (put k v m)"
  by (rule distinct_update)

lemma gomap_ok_del [simp]: "gomap_ok m \<Longrightarrow> gomap_ok (del k m)"
  by (rule distinct_delete)

text \<open>Looking a key up with Go's zero value for an absent one (\<^verbatim>\<open>m[k]\<close>).\<close>

definition get_or :: "'v \<Rightarrow> ('k, 'v) gomap \<Rightarrow> 'k \<Rightarrow> 'v" where
  "get_or z m k = (case get m k of None \<Rightarrow> z | Some v \<Rightarrow> v)"

text \<open>The keys of a map in Go's \<^verbatim>\<open>sort.Strings\<close> order.\<close>

definition sorted_keys :: "('k::linorder, 'v) gomap \<Rightarrow> 'k list" where
  "sorted_keys m = sort (map fst m)"

lemma set_sorted_keys [simp]: "set (sorted_keys m) = dom (get m)"
  by (simp add: sorted_keys_def dom_map_of_conv_image_fst)

lemma sorted_keys_sorted: "sorted (sorted_keys m)"
  by (simp add: sorted_keys_def)

lemma sorted_keys_unique:
  assumes "gomap_ok m" and "gomap_ok m'" and "dom (get m) = dom (get m')"
  shows "sorted_keys m = sorted_keys m'"
proof (rule sorted_distinct_set_unique)
  show "sorted (sorted_keys m)" "sorted (sorted_keys m')"
    by (simp_all add: sorted_keys_def)
  show "distinct (sorted_keys m)" "distinct (sorted_keys m')"
    using assms(1,2) by (simp_all add: sorted_keys_def)
  show "set (sorted_keys m) = set (sorted_keys m')"
    using assms(3) by simp
qed

lemma distinct_map_head: "distinct (map f (x # xs)) \<Longrightarrow> y \<in> set xs \<Longrightarrow> f y \<noteq> f x"
  by (auto simp: image_iff)

end
