(* ===== verification/Go_Strings.thy ===== *)
theory Go_Strings
  imports Prelude
begin

text \<open>
  The functions of Go's packages \<^verbatim>\<open>strings\<close>, \<^verbatim>\<open>bytes\<close> and \<^verbatim>\<open>strconv\<close>
  the daemon calls, on byte strings, with the facts the components use of them: what trimming
  leaves, how splitting and joining relate, and that decimal rendering and parsing are inverse.
\<close>

section \<open>Prefixes, suffixes and substrings\<close>

definition HasPrefix :: "string \<Rightarrow> string \<Rightarrow> bool" where
  [go_str]: "HasPrefix s p \<longleftrightarrow> prefix p s"

definition HasSuffix :: "string \<Rightarrow> string \<Rightarrow> bool" where
  [go_str]: "HasSuffix s p \<longleftrightarrow> suffix p s"

definition TrimPrefix :: "string \<Rightarrow> string \<Rightarrow> string" where
  [go_str]: "TrimPrefix s p = (if prefix p s then drop (length p) s else s)"

definition TrimSuffix :: "string \<Rightarrow> string \<Rightarrow> string" where
  [go_str]: "TrimSuffix s p = (if suffix p s then take (length s - length p) s else s)"

fun Contains :: "string \<Rightarrow> string \<Rightarrow> bool" where
  "Contains [] p = (p = [])"
| "Contains (c # s) p = (prefix p (c # s) \<or> Contains s p)"

lemma TrimPrefix_append [simp]: "TrimPrefix (p @ s) p = s"
  by (simp add: TrimPrefix_def)

lemma TrimPrefix_Nil [simp]: "TrimPrefix s [] = s"
  by (simp add: TrimPrefix_def)

lemma TrimSuffix_Nil [simp]: "TrimSuffix s [] = s"
  by (simp add: TrimSuffix_def)

lemma TrimSuffix_append [simp]: "TrimSuffix (s @ p) p = s"
  by (simp add: TrimSuffix_def suffix_def)

lemma suffix_TrimPrefix: "suffix (TrimPrefix s p) s"
  by (simp add: TrimPrefix_def suffix_drop)

lemma prefix_TrimSuffix: "prefix (TrimSuffix s p) s"
  by (simp add: TrimSuffix_def take_is_prefix)

lemma Contains_iff: "Contains s p \<longleftrightarrow> (\<exists>u v. s = u @ p @ v)"
proof (induction s)
  case Nil
  then show ?case by auto
next
  case (Cons c s)
  have "(\<exists>u v. c # s = u @ p @ v) \<longleftrightarrow> (\<exists>v. c # s = p @ v) \<or> (\<exists>u v. s = u @ p @ v)"
    by (metis append_Cons append_Nil list.inject neq_Nil_conv)
  with Cons.IH show ?case by (auto simp: prefix_def)
qed

lemma Contains_byte: "Contains s [c] \<longleftrightarrow> c \<in> set s"
  by (auto simp: Contains_iff in_set_conv_decomp)

section \<open>TrimSpace\<close>

text \<open>
  The UTF-8 encodings of the runes \<^verbatim>\<open>unicode.IsSpace\<close> accepts: the ASCII space
  characters, U+0085, U+00A0, U+1680, U+2000 to U+200A, U+2028, U+2029, U+202F, U+205F and U+3000.
  \<^verbatim>\<open>strings.TrimSpace\<close> removes them from both ends; none of them is a proper suffix or
  prefix of another, and a continuation byte never starts a rune, so removing encodings is
  removing runes.
\<close>

definition space_runes :: "string list" where
  "space_runes =
    [[CHR 0x09], [CHR 0x0A], [CHR 0x0B], [CHR 0x0C], [CHR 0x0D], [CHR 0x20],
     [CHR 0xC2, CHR 0x85], [CHR 0xC2, CHR 0xA0], [CHR 0xE1, CHR 0x9A, CHR 0x80],
     [CHR 0xE2, CHR 0x80, CHR 0x80], [CHR 0xE2, CHR 0x80, CHR 0x81], [CHR 0xE2, CHR 0x80, CHR 0x82],
     [CHR 0xE2, CHR 0x80, CHR 0x83], [CHR 0xE2, CHR 0x80, CHR 0x84], [CHR 0xE2, CHR 0x80, CHR 0x85],
     [CHR 0xE2, CHR 0x80, CHR 0x86], [CHR 0xE2, CHR 0x80, CHR 0x87], [CHR 0xE2, CHR 0x80, CHR 0x88],
     [CHR 0xE2, CHR 0x80, CHR 0x89], [CHR 0xE2, CHR 0x80, CHR 0x8A], [CHR 0xE2, CHR 0x80, CHR 0xA8],
     [CHR 0xE2, CHR 0x80, CHR 0xA9], [CHR 0xE2, CHR 0x80, CHR 0xAF], [CHR 0xE2, CHR 0x81, CHR 0x9F],
     [CHR 0xE3, CHR 0x80, CHR 0x80]]"

text \<open>\<open>strip rs s\<close> removes, as long as there is one, a leading element of \<open>rs\<close>.\<close>

function strip :: "string list \<Rightarrow> string \<Rightarrow> string" where
  "strip rs s = (case find (\<lambda>r. r \<noteq> [] \<and> prefix r s) rs of
     None \<Rightarrow> s | Some r \<Rightarrow> strip rs (drop (length r) s))"
  by pat_completeness auto
termination
  by (relation "measure (\<lambda>(rs, s). length s)")
    (auto simp: find_Some_iff prefix_def)

declare strip.simps [simp del]

definition TrimSpace :: "string \<Rightarrow> string" where
  "TrimSpace s = rev (strip (map rev space_runes) (rev (strip space_runes s)))"

lemma strip_id:
  assumes "\<And>r. r \<in> set rs \<Longrightarrow> r \<noteq> [] \<Longrightarrow> \<not> prefix r s"
  shows "strip rs s = s"
proof -
  have "find (\<lambda>r. r \<noteq> [] \<and> prefix r s) rs = None"
    using assms by (auto simp: find_None_iff)
  then show ?thesis by (simp add: strip.simps [of rs s])
qed

lemma strip_Nil [simp]: "strip rs [] = []"
  by (rule strip_id) simp

lemma suffix_strip: "suffix (strip rs s) s"
proof (induction rs s rule: strip.induct)
  case (1 rs s)
  show ?case
  proof (cases "find (\<lambda>r. r \<noteq> [] \<and> prefix r s) rs")
    case None
    then show ?thesis by (simp add: strip.simps [of rs s])
  next
    case (Some r)
    from "1.IH" [OF Some] have "suffix (strip rs (drop (length r) s)) s"
      by (rule suffix_order.trans) (rule suffix_drop)
    with Some show ?thesis by (simp add: strip.simps [of rs s])
  qed
qed

lemma strip_no_prefix: "r \<in> set rs \<Longrightarrow> r \<noteq> [] \<Longrightarrow> \<not> prefix r (strip rs s)"
proof (induction rs s rule: strip.induct)
  case (1 rs s)
  show ?case
  proof (cases "find (\<lambda>r. r \<noteq> [] \<and> prefix r s) rs")
    case None
    then have "\<not> (r \<noteq> [] \<and> prefix r s)"
      using "1.prems" by (auto simp: find_None_iff)
    with None "1.prems" show ?thesis by (simp add: strip.simps [of rs s])
  next
    case (Some r')
    with "1.IH" [OF Some "1.prems"] show ?thesis by (simp add: strip.simps [of rs s])
  qed
qed

lemma strip_idem [simp]: "strip rs (strip rs s) = strip rs s"
  by (rule strip_id) (rule strip_no_prefix)

lemma TrimSpace_Nil [simp]: "TrimSpace [] = []"
  by (simp add: TrimSpace_def)

text \<open>Only a byte that starts or ends a space rune can be trimmed.\<close>

definition space_head_bytes :: "char set" where
  "space_head_bytes = set (map hd space_runes)"

definition space_last_bytes :: "char set" where
  "space_last_bytes = set (map last space_runes)"

lemma space_head_bytes_eq:
  "space_head_bytes = {CHR 0x09, CHR 0x0A, CHR 0x0B, CHR 0x0C, CHR 0x0D, CHR 0x20,
     CHR 0xC2, CHR 0xE1, CHR 0xE2, CHR 0xE3}"
  by (auto simp: space_head_bytes_def space_runes_def)

lemma space_runes_nonempty: "r \<in> set space_runes \<Longrightarrow> r \<noteq> []"
  by (auto simp: space_runes_def)

lemma prefix_hd: "prefix r s \<Longrightarrow> r \<noteq> [] \<Longrightarrow> s \<noteq> [] \<and> hd s = hd r"
  by (auto simp: prefix_def)

lemma strip_spaces_id:
  assumes "s = [] \<or> hd s \<notin> space_head_bytes"
  shows "strip space_runes s = s"
proof (rule strip_id)
  fix r assume r: "r \<in> set space_runes" "r \<noteq> []"
  then have h: "hd r \<in> space_head_bytes" by (auto simp: space_head_bytes_def)
  show "\<not> prefix r s"
  proof
    assume "prefix r s"
    from prefix_hd [OF this r(2)] h assms show False by metis
  qed
qed

lemma strip_rev_spaces_id:
  assumes "s = [] \<or> last s \<notin> space_last_bytes"
  shows "strip (map rev space_runes) (rev s) = rev s"
proof (rule strip_id)
  fix r assume r: "r \<in> set (map rev space_runes)" "r \<noteq> []"
  then obtain q where q: "q \<in> set space_runes" "r = rev q" by auto
  then have h: "hd r \<in> space_last_bytes" by (auto simp: space_last_bytes_def hd_rev)
  show "\<not> prefix r (rev s)"
  proof
    assume "prefix r (rev s)"
    from prefix_hd [OF this r(2)] h assms show False by (auto simp: hd_rev)
  qed
qed

lemma TrimSpace_id:
  assumes "s = [] \<or> hd s \<notin> space_head_bytes \<and> last s \<notin> space_last_bytes"
  shows "TrimSpace s = s"
  using assms strip_spaces_id [of s] strip_rev_spaces_id [of s]
  by (auto simp: TrimSpace_def)

lemma TrimSpace_sublist: "\<exists>u v. s = u @ TrimSpace s @ v"
proof -
  obtain u where u: "s = u @ strip space_runes s"
    using suffix_strip [of space_runes s] by (auto simp: suffix_def)
  obtain w where "rev (strip space_runes s) = w @ strip (map rev space_runes) (rev (strip space_runes s))"
    using suffix_strip [of "map rev space_runes" "rev (strip space_runes s)"]
    by (auto simp: suffix_def)
  then have "strip space_runes s = TrimSpace s @ rev w"
    unfolding TrimSpace_def by (metis rev_append rev_rev_ident)
  with u show ?thesis by metis
qed

lemma TrimSpace_idem [simp]: "TrimSpace (TrimSpace s) = TrimSpace s"
proof -
  define t where "t = strip space_runes s"
  define u where "u = TrimSpace s"
  have u: "rev u = strip (map rev space_runes) (rev t)"
    by (simp add: u_def t_def TrimSpace_def)
  have pre: "prefix u t"
    using suffix_strip [of "map rev space_runes" "rev t"] by (simp add: u [symmetric] suffix_to_prefix)
  have "strip space_runes u = u"
  proof (rule strip_id)
    fix r assume "r \<in> set space_runes" "r \<noteq> []"
    then have "\<not> prefix r t" unfolding t_def by (rule strip_no_prefix)
    with pre show "\<not> prefix r u" using prefix_order.trans by blast
  qed
  moreover have "strip (map rev space_runes) (rev u) = rev u"
    unfolding u by simp
  ultimately show ?thesis
    unfolding u_def [symmetric] by (simp add: TrimSpace_def)
qed

section \<open>ToLower\<close>

text \<open>
  \<^verbatim>\<open>strings.ToLower\<close> on ASCII, and on the two runes outside ASCII whose lower case is an
  ASCII letter: U+0130 (to \<^verbatim>\<open>i\<close>) and U+212A (to \<^verbatim>\<open>k\<close>). Other runes outside ASCII
  keep their bytes. The daemon only compares the result with ASCII constants, or the results of two
  calls with each other; a string that holds another rune outside ASCII is different from every
  ASCII constant before and after, so the first kind of comparison is exact.
\<close>

definition lower_ascii :: "char \<Rightarrow> char" where
  "lower_ascii c = (if CHR ''A'' \<le> c \<and> c \<le> CHR ''Z'' then char_of (of_char c + (32::nat)) else c)"

fun ToLower :: "string \<Rightarrow> string" where
  "ToLower (c # d # e # s) =
     (if c = CHR 0xC4 \<and> d = CHR 0xB0 then CHR ''i'' # ToLower (e # s)
      else if c = CHR 0xE2 \<and> d = CHR 0x84 \<and> e = CHR 0xAA then CHR ''k'' # ToLower s
      else lower_ascii c # ToLower (d # e # s))"
| "ToLower [c, d] =
     (if c = CHR 0xC4 \<and> d = CHR 0xB0 then [CHR ''i''] else [lower_ascii c, lower_ascii d])"
| "ToLower [c] = [lower_ascii c]"
| "ToLower [] = []"

text \<open>
  \<^verbatim>\<open>strings.EqualFold\<close> compares under simple case folding: the runes outside ASCII that fold to an
  ASCII letter are U+017F (to \<^verbatim>\<open>s\<close>) and U+212A (to \<^verbatim>\<open>k\<close>); U+0130 folds to no other rune. Runes
  outside ASCII that fold to each other are not identified, so the comparison is exact when one
  side is ASCII, as it is where the daemon calls it.
\<close>

fun fold_case :: "string \<Rightarrow> string" where
  "fold_case (c # d # e # s) =
     (if c = CHR 0xC5 \<and> d = CHR 0xBF then CHR ''s'' # fold_case (e # s)
      else if c = CHR 0xE2 \<and> d = CHR 0x84 \<and> e = CHR 0xAA then CHR ''k'' # fold_case s
      else lower_ascii c # fold_case (d # e # s))"
| "fold_case [c, d] =
     (if c = CHR 0xC5 \<and> d = CHR 0xBF then [CHR ''s''] else [lower_ascii c, lower_ascii d])"
| "fold_case [c] = [lower_ascii c]"
| "fold_case [] = []"

definition EqualFold :: "string \<Rightarrow> string \<Rightarrow> bool" where
  "EqualFold s t \<longleftrightarrow> fold_case s = fold_case t"

definition ascii_lower :: "string \<Rightarrow> bool" where
  "ascii_lower s \<longleftrightarrow> list_all (\<lambda>c. c < CHR 0x80 \<and> \<not> (CHR ''A'' \<le> c \<and> c \<le> CHR ''Z'')) s"

lemma ToLower_ascii_lower: "ascii_lower s \<Longrightarrow> ToLower s = s"
  by (induction s rule: ToLower.induct)
    (auto simp: ascii_lower_def lower_ascii_def less_char_def)

section \<open>Splitting and joining\<close>

text \<open>\<^verbatim>\<open>strings.Split\<close> with a one-byte separator.\<close>

fun Split :: "char \<Rightarrow> string \<Rightarrow> string list" where
  "Split c [] = [[]]"
| "Split c (x # xs) =
     (if x = c then [] # Split c xs
      else case Split c xs of [] \<Rightarrow> [[x]] | p # ps \<Rightarrow> (x # p) # ps)"

fun Join :: "string \<Rightarrow> string list \<Rightarrow> string" where
  "Join sep [] = []"
| "Join sep [x] = x"
| "Join sep (x # y # ys) = x @ sep @ Join sep (y # ys)"

text \<open>\<^verbatim>\<open>strings.Cut\<close> with a one-byte separator: \<open>None\<close> when it is absent.\<close>

fun Cut :: "char \<Rightarrow> 'b list \<Rightarrow> ('b \<Rightarrow> char) \<Rightarrow> ('b list \<times> 'b list) option" where
  "Cut c [] h = None"
| "Cut c (x # xs) h =
     (if h x = c then Some ([], xs)
      else map_option (\<lambda>(u, v). (x # u, v)) (Cut c xs h))"

definition CutByte :: "char \<Rightarrow> string \<Rightarrow> (string \<times> string) option" where
  "CutByte c s = Cut c s id"

lemma Split_nonempty [simp]: "Split c s \<noteq> []"
  by (induction s) (auto split: list.splits)

lemma Join_Split [simp]: "Join [c] (Split c s) = s"
proof (induction s)
  case Nil
  then show ?case by simp
next
  case (Cons x xs)
  obtain p ps where p: "Split c xs = p # ps"
    by (cases "Split c xs") auto
  with Cons.IH show ?case
    by (cases ps) auto
qed

lemma Split_no_sep: "c \<notin> set s \<Longrightarrow> Split c s = [s]"
  by (induction s) auto

lemma Split_append: "c \<notin> set u \<Longrightarrow> Split c (u @ c # v) = u # Split c v"
  by (induction u) auto

lemma Split_parts_no_sep: "p \<in> set (Split c s) \<Longrightarrow> c \<notin> set p"
proof (induction s arbitrary: p)
  case Nil
  then show ?case by simp
next
  case (Cons x xs)
  obtain q qs where q: "Split c xs = q # qs"
    by (cases "Split c xs") auto
  with Cons show ?case by (auto split: if_splits)
qed

lemma Cut_SomeD: "Cut c s h = Some (u, v) \<Longrightarrow> \<exists>x. s = u @ x # v \<and> h x = c \<and> (\<forall>y\<in>set u. h y \<noteq> c)"
  by (induction s arbitrary: u) (auto split: if_splits)

lemma Cut_append: "\<forall>y\<in>set u. h y \<noteq> c \<Longrightarrow> h x = c \<Longrightarrow> Cut c (u @ x # v) h = Some (u, v)"
  by (induction u) auto

lemma CutByte_append [simp]: "c \<notin> set u \<Longrightarrow> CutByte c (u @ c # v) = Some (u, v)"
  by (auto simp: CutByte_def intro!: Cut_append)

lemma CutByte_Some_iff: "CutByte c s = Some (u, v) \<longleftrightarrow> s = u @ c # v \<and> c \<notin> set u"
  using Cut_SomeD [of c s id u v] CutByte_append [of c u v] by (auto simp: CutByte_def)

lemma CutByte_None_iff: "CutByte c s = None \<longleftrightarrow> c \<notin> set s"
  unfolding CutByte_def by (induction s) auto

section \<open>Decimal numbers\<close>

fun dec_digits :: "nat \<Rightarrow> string" where
  "dec_digits n = (if n < 10 then [char_of (48 + n)]
     else dec_digits (n div 10) @ [char_of (48 + n mod 10)])"

declare dec_digits.simps [simp del]

definition Itoa :: "int \<Rightarrow> string" where
  "Itoa i = (if i < 0 then CHR ''-'' # dec_digits (nat (- i)) else dec_digits (nat i))"

definition is_digit :: "char \<Rightarrow> bool" where
  "is_digit c \<longleftrightarrow> CHR ''0'' \<le> c \<and> c \<le> CHR ''9''"

definition digit_val :: "char \<Rightarrow> nat" where
  "digit_val c = of_char c - 48"

text \<open>The value of a digit string, as the loop \<^verbatim>\<open>n = n*10 + digit\<close> computes it.\<close>

definition digits_val :: "string \<Rightarrow> nat" where
  "digits_val s = foldl (\<lambda>n c. 10 * n + digit_val c) 0 s"

definition parse_digits :: "string \<Rightarrow> nat option" where
  "parse_digits s = (if s \<noteq> [] \<and> list_all is_digit s then Some (digits_val s) else None)"

text \<open>
  \<^verbatim>\<open>strconv.Atoi\<close>: an optional sign, at least one decimal digit, a value of a 64-bit
  \<^verbatim>\<open>int\<close>; \<^verbatim>\<open>strconv.ParseUint(s, 10, bits)\<close> takes no sign and bounds the value by
  \<open>2 ^ bits\<close>.
\<close>

definition int_in_range :: "int \<Rightarrow> int option" where
  "int_in_range i = (if - (2 ^ 63) \<le> i \<and> i < 2 ^ 63 then Some i else None)"

definition Atoi :: "string \<Rightarrow> int option" where
  "Atoi s = (case s of
       [] \<Rightarrow> None
     | c # ds \<Rightarrow>
         if c = CHR ''-'' then Option.bind (parse_digits ds) (\<lambda>n. int_in_range (- int n))
         else if c = CHR ''+'' then Option.bind (parse_digits ds) (\<lambda>n. int_in_range (int n))
         else Option.bind (parse_digits s) (\<lambda>n. int_in_range (int n)))"

definition ParseUint :: "nat \<Rightarrow> string \<Rightarrow> nat option" where
  "ParseUint bits s = Option.bind (parse_digits s) (\<lambda>n. if n < 2 ^ bits then Some n else None)"

lemma of_char_digit [simp]: "n < 10 \<Longrightarrow> of_char (char_of (48 + n) :: char) = 48 + (n::nat)"
  by simp

lemma is_digit_char_of [simp]: "n < 10 \<Longrightarrow> is_digit (char_of (48 + (n::nat)))"
  by (simp add: is_digit_def less_eq_char_def)

lemma digit_val_char_of [simp]: "n < 10 \<Longrightarrow> digit_val (char_of (48 + (n::nat))) = n"
  by (simp add: digit_val_def)

lemma dec_digits_nonempty [simp]: "dec_digits n \<noteq> []"
  by (subst dec_digits.simps) simp

lemma dec_digits_all_digits: "list_all is_digit (dec_digits n)"
proof (induction n rule: dec_digits.induct)
  case (1 n)
  then show ?case
    by (cases "n < 10") (simp_all add: dec_digits.simps [of n])
qed

lemma digits_val_append: "digits_val (s @ [c]) = 10 * digits_val s + digit_val c"
  by (simp add: digits_val_def)

lemma digits_val_dec_digits: "digits_val (dec_digits n) = n"
proof (induction n rule: dec_digits.induct)
  case (1 n)
  show ?case
  proof (cases "n < 10")
    case True
    then show ?thesis by (simp add: dec_digits.simps [of n] digits_val_def)
  next
    case False
    with "1.IH" show ?thesis
      by (simp add: dec_digits.simps [of n] digits_val_append)
  qed
qed

lemma parse_digits_dec_digits [simp]: "parse_digits (dec_digits n) = Some n"
  by (simp add: parse_digits_def dec_digits_all_digits digits_val_dec_digits)

lemma dec_digits_inj: "dec_digits m = dec_digits n \<Longrightarrow> m = n"
  by (metis digits_val_dec_digits)

lemma dec_digits_not_sign: "dec_digits n = c # ds \<Longrightarrow> c \<noteq> CHR ''-'' \<and> c \<noteq> CHR ''+''"
  using dec_digits_all_digits [of n] by (auto simp: is_digit_def less_eq_char_def)

lemma Atoi_Itoa:
  assumes "- (2 ^ 63) \<le> i" and "i < 2 ^ 63"
  shows "Atoi (Itoa i) = Some i"
proof (cases "i < 0")
  case True
  with assms show ?thesis by (simp add: Itoa_def Atoi_def int_in_range_def)
next
  case False
  obtain c ds where cd: "dec_digits (nat i) = c # ds"
    by (cases "dec_digits (nat i)") auto
  have "Atoi (dec_digits (nat i)) = int_in_range (int (nat i))"
    using dec_digits_not_sign [OF cd] parse_digits_dec_digits [of "nat i"]
    by (simp add: Atoi_def cd)
  with False assms show ?thesis by (simp add: Itoa_def int_in_range_def)
qed

section \<open>Quoting\<close>

text \<open>
  \<^verbatim>\<open>strconv.Quote\<close>, which \<^verbatim>\<open>%q\<close> uses: the named escapes and \<^verbatim>\<open>\xNN\<close> for the
  other control bytes. Bytes of runes outside ASCII are kept, as Quote does for printable runes.
\<close>

definition hex_digit :: "nat \<Rightarrow> char" where
  "hex_digit n = (if n < 10 then char_of (48 + n) else char_of (87 + n))"

definition quote_char :: "char \<Rightarrow> string" where
  "quote_char c =
    (if c = CHR 0x22 \<or> c = CHR 0x5C then [CHR 0x5C, c]
     else if c = CHR 0x07 then [CHR 0x5C, CHR ''a'']
     else if c = CHR 0x08 then [CHR 0x5C, CHR ''b'']
     else if c = CHR 0x0C then [CHR 0x5C, CHR ''f'']
     else if c = CHR 0x0A then [CHR 0x5C, CHR ''n'']
     else if c = CHR 0x0D then [CHR 0x5C, CHR ''r'']
     else if c = CHR 0x09 then [CHR 0x5C, CHR ''t'']
     else if c = CHR 0x0B then [CHR 0x5C, CHR ''v'']
     else if c < CHR 0x20 \<or> c = CHR 0x7F then
       [CHR 0x5C, CHR ''x'', hex_digit (of_char c div 16), hex_digit (of_char c mod 16)]
     else [c])"

definition quote :: "string \<Rightarrow> string" where
  "quote s = CHR 0x22 # concat (map quote_char s) @ [CHR 0x22]"

section \<open>Names\<close>

text \<open>The regular expression \<^verbatim>\<open>^[a-zA-Z0-9][a-zA-Z0-9_.-]*$\<close> of the daemon's name checks.\<close>

definition is_alnum :: "char \<Rightarrow> bool" where
  "is_alnum c \<longleftrightarrow> is_digit c \<or> (let n = of_char c :: nat in 65 \<le> n \<and> n \<le> 90 \<or> 97 \<le> n \<and> n \<le> 122)"

definition name_char :: "char \<Rightarrow> bool" where
  "name_char c \<longleftrightarrow> is_alnum c \<or> c = CHR ''_'' \<or> c = CHR ''.'' \<or> c = CHR ''-''"

fun match_name :: "string \<Rightarrow> bool" where
  "match_name [] = False"
| "match_name (c # cs) = (is_alnum c \<and> list_all name_char cs)"

lemma name_char_not_sep: "name_char c \<Longrightarrow> c \<noteq> CHR ''/'' \<and> c \<noteq> CHR '' '' \<and> c \<noteq> CHR '':''"
  by (auto simp: name_char_def is_alnum_def is_digit_def less_eq_char_def Let_def)

lemma match_name_chars: "match_name s \<Longrightarrow> c \<in> set s \<Longrightarrow> name_char c"
  by (cases s) (auto simp: name_char_def list_all_iff)

lemma match_name_no_slash: "match_name s \<Longrightarrow> CHR ''/'' \<notin> set s"
  using match_name_chars name_char_not_sep by blast

end
