(* ===== verification/Go_Errors.thy ===== *)
theory Go_Errors
  imports Go_Strings
begin

text \<open>
  Go's error values as far as the daemon builds and inspects them: the sentinel errors each package
  declares, errors made in place, chains built by \<^verbatim>\<open>fmt.Errorf\<close> with
  \<^verbatim>\<open>%w\<close>, and the three error types with methods of their own. \<open>errors_is\<close> is
  \<^verbatim>\<open>errors.Is\<close> and \<open>err_msg\<close> is the method \<^verbatim>\<open>Error\<close>.
\<close>

section \<open>Sentinels\<close>

datatype ports_err = PErrNotFound | PErrConflict | PErrInvalidArgument | PErrNotImplemented
  | PErrServerError

datatype ctd_err = CErrNotFound | CErrConflict | CErrInvalidArgument | CErrServerError

datatype domain_err = ErrEmptyIdentity | ErrContainerNotFound | ErrContainerNameConflict
  | ErrEmptyContainerName | ErrNilContext | ErrDuplicateContainerMetadata
  | ErrDuplicateTaskSnapshot | ErrInvalidTaskSnapshot

datatype cni_err = ErrNetworkNotFound | ErrNetworkExists | ErrNetworkInUse | ErrInvalidNetworkName
  | ErrReservedNetworkName | ErrUnsupportedNetworkDriver | ErrUnknownNetworkMode
  | ErrPortPublishWithMode | ErrMissingNetNS | ErrMissingContainer | ErrIPv6Unsupported
  | ErrLinkNotFound | ErrPortInUse | ErrNoFreeHostPort | ErrUnallocatedPort | ErrPortNotReserved
  | ErrUnsupportedProtocol | ErrNilResult

datatype buildkit_err = BErrNotFound | ErrInvalidReference | ErrInvalidContext | ErrNoSolver
  | ErrInvalidAuth | ErrNoStore

datatype streams_err = ErrFrameTooLarge | ErrUnknownStream | ErrWriterUninitialized
  | ErrNotHijackable

datatype config_err = ErrStoreClosed | ErrConfigFileNotSet | ErrConfigWatchStarted
  | ErrEmptySocketPath

datatype std_err = EOF | ErrUnexpectedEOF | ErrShortWrite | ErrClosedPipe | Canceled
  | DeadlineExceeded | EADDRINUSE | ErrNotExist | ErrNetClosed | ErrServerClosed | EINVAL | ENOTTY | ErrHelp

datatype sentinel = Ports ports_err | Ctd ctd_err | Dom domain_err | Cni cni_err
  | Buildkit buildkit_err | Streams streams_err | Conf config_err | Std std_err

fun ports_msg :: "ports_err \<Rightarrow> string" where
  "ports_msg PErrNotFound = ''dockerdless: not found''"
| "ports_msg PErrConflict = ''dockerdless: conflict''"
| "ports_msg PErrInvalidArgument = ''dockerdless: invalid argument''"
| "ports_msg PErrNotImplemented = ''dockerdless: not implemented''"
| "ports_msg PErrServerError = ''dockerdless: server failure''"

fun ctd_msg :: "ctd_err \<Rightarrow> string" where
  "ctd_msg CErrNotFound = ''container runtime: not found''"
| "ctd_msg CErrConflict = ''container runtime: conflict''"
| "ctd_msg CErrInvalidArgument = ''container runtime: invalid argument''"
| "ctd_msg CErrServerError = ''container runtime: server error''"

fun domain_msg :: "domain_err \<Rightarrow> string" where
  "domain_msg ErrEmptyIdentity = ''resource identity must not be empty''"
| "domain_msg ErrContainerNotFound = ''container not found''"
| "domain_msg ErrContainerNameConflict = ''container name already exists''"
| "domain_msg ErrEmptyContainerName = ''container name must not be empty''"
| "domain_msg ErrNilContext = ''context must not be nil''"
| "domain_msg ErrDuplicateContainerMetadata = ''duplicate container metadata''"
| "domain_msg ErrDuplicateTaskSnapshot = ''duplicate task snapshot''"
| "domain_msg ErrInvalidTaskSnapshot = ''invalid task snapshot''"

fun cni_msg :: "cni_err \<Rightarrow> string" where
  "cni_msg ErrNetworkNotFound = ''network not found''"
| "cni_msg ErrNetworkExists = ''network already exists''"
| "cni_msg ErrNetworkInUse = ''network has active endpoints''"
| "cni_msg ErrInvalidNetworkName = ''invalid network name''"
| "cni_msg ErrReservedNetworkName = ''network name is reserved''"
| "cni_msg ErrUnsupportedNetworkDriver = ''unsupported network driver''"
| "cni_msg ErrUnknownNetworkMode = ''unknown network mode''"
| "cni_msg ErrPortPublishWithMode = ''port publishing is not supported with this network mode''"
| "cni_msg ErrMissingNetNS = ''container netns path is required''"
| "cni_msg ErrMissingContainer = ''container id is required''"
| "cni_msg ErrIPv6Unsupported = ''IPv6 networks are not supported yet''"
| "cni_msg ErrLinkNotFound = ''cni: network interface not found''"
| "cni_msg ErrPortInUse = ''host port is already allocated''"
| "cni_msg ErrNoFreeHostPort = ''no free host port found''"
| "cni_msg ErrUnallocatedPort = ''port binding has no allocated host port''"
| "cni_msg ErrPortNotReserved = ''host port is not reserved''"
| "cni_msg ErrUnsupportedProtocol = ''unsupported port protocol''"
| "cni_msg ErrNilResult = ''cni: plugin returned no result''"

fun buildkit_msg :: "buildkit_err \<Rightarrow> string" where
  "buildkit_msg BErrNotFound = ''image not found''"
| "buildkit_msg ErrInvalidReference = ''invalid image reference''"
| "buildkit_msg ErrInvalidContext = ''invalid build context''"
| "buildkit_msg ErrNoSolver = ''buildkit solver is not configured''"
| "buildkit_msg ErrInvalidAuth = ''invalid registry auth''"
| "buildkit_msg ErrNoStore = ''image store is not configured''"

fun streams_msg :: "streams_err \<Rightarrow> string" where
  "streams_msg ErrFrameTooLarge = ''streams: frame exceeds maximum size''"
| "streams_msg ErrUnknownStream = ''streams: unknown stream type''"
| "streams_msg ErrWriterUninitialized = ''streams: writer is not initialized''"
| "streams_msg ErrNotHijackable = ''streams: response writer does not support hijacking''"

fun config_msg :: "config_err \<Rightarrow> string" where
  "config_msg ErrStoreClosed = ''configuration store is closed''"
| "config_msg ErrConfigFileNotSet = ''configuration file is not set''"
| "config_msg ErrConfigWatchStarted = ''configuration watch is already started''"
| "config_msg ErrEmptySocketPath = ''socket path must not be empty''"

fun std_msg :: "std_err \<Rightarrow> string" where
  "std_msg EOF = ''EOF''"
| "std_msg ErrUnexpectedEOF = ''unexpected EOF''"
| "std_msg ErrShortWrite = ''short write''"
| "std_msg ErrClosedPipe = ''io: read/write on closed pipe''"
| "std_msg Canceled = ''context canceled''"
| "std_msg DeadlineExceeded = ''context deadline exceeded''"
| "std_msg EADDRINUSE = ''address already in use''"
| "std_msg ErrNotExist = ''file does not exist''"
| "std_msg ErrNetClosed = ''use of closed network connection''"
| "std_msg ErrServerClosed = ''http: Server closed''"
| "std_msg EINVAL = ''invalid argument''"
| "std_msg ENOTTY = ''inappropriate ioctl for device''"
| "std_msg ErrHelp = ''flag: help requested''"

fun sentinel_msg :: "sentinel \<Rightarrow> string" where
  "sentinel_msg (Ports e) = ports_msg e"
| "sentinel_msg (Ctd e) = ctd_msg e"
| "sentinel_msg (Dom e) = domain_msg e"
| "sentinel_msg (Cni e) = cni_msg e"
| "sentinel_msg (Buildkit e) = buildkit_msg e"
| "sentinel_msg (Streams e) = streams_msg e"
| "sentinel_msg (Conf e) = config_msg e"
| "sentinel_msg (Std e) = std_msg e"

section \<open>Error values\<close>

text \<open>
  \<open>NewErr\<close> is an error without identity the code tests (\<^verbatim>\<open>errors.New\<close> in place, or
  an error of another package); \<open>Wrapf\<close> the result of \<^verbatim>\<open>fmt.Errorf\<close> or
  \<^verbatim>\<open>errors.Join\<close> with the errors its \<^verbatim>\<open>%w\<close> verbs name; \<open>DockerErr\<close> is
  \<^verbatim>\<open>app.dockerError\<close>, \<open>PortInUseError\<close> and \<open>BuildError\<close> the types of those
  names.
\<close>

datatype gerror =
    Sentinel sentinel
  | NewErr string
  | Wrapf string "gerror list"
  | DockerErr sentinel string "gerror option"
  | PortInUseError string string u16
  | BuildError int string gerror

fun err_msg :: "gerror \<Rightarrow> string" where
  "err_msg (Sentinel s) = sentinel_msg s"
| "err_msg (NewErr m) = m"
| "err_msg (Wrapf m es) = m"
| "err_msg (DockerErr k m c) = m"
| "err_msg (PortInUseError p ip port) =
     p @ '' '' @ ip @ '':'' @ dec_digits (unat port) @ '': '' @ cni_msg ErrPortInUse"
| "err_msg (BuildError st m c) = m"

fun errors_is :: "gerror \<Rightarrow> sentinel \<Rightarrow> bool" where
  "errors_is (Sentinel s) t = (s = t)"
| "errors_is (NewErr m) t = False"
| "errors_is (Wrapf m es) t = list_ex (\<lambda>e. errors_is e t) es"
| "errors_is (DockerErr k m c) t = (t = k \<or> (case c of None \<Rightarrow> False | Some e \<Rightarrow> errors_is e t))"
| "errors_is (PortInUseError p ip port) t = (t = Cni ErrPortInUse)"
| "errors_is (BuildError st m c) t = errors_is c t"

text \<open>
  The three shapes of \<^verbatim>\<open>fmt.Errorf\<close> the code uses with one wrapped error:
  \<^verbatim>\<open>"text%w"\<close>, \<^verbatim>\<open>"%wtext"\<close>, and the two-error form \<^verbatim>\<open>"%w: %w"\<close>.
\<close>

definition wrap_pre :: "string \<Rightarrow> gerror \<Rightarrow> gerror" where
  "wrap_pre s e = Wrapf (s @ err_msg e) [e]"

definition wrap_post :: "gerror \<Rightarrow> string \<Rightarrow> gerror" where
  "wrap_post e s = Wrapf (err_msg e @ s) [e]"

definition wrap_two :: "gerror \<Rightarrow> gerror \<Rightarrow> gerror" where
  "wrap_two e e' = Wrapf (err_msg e @ '': '' @ err_msg e') [e, e']"

lemma err_msg_wrap [simp]:
  "err_msg (wrap_pre s e) = s @ err_msg e"
  "err_msg (wrap_post e s) = err_msg e @ s"
  "err_msg (wrap_two e e') = err_msg e @ '': '' @ err_msg e'"
  by (simp_all add: wrap_pre_def wrap_post_def wrap_two_def)

lemma errors_is_wrap [simp]:
  "errors_is (wrap_pre s e) t = errors_is e t"
  "errors_is (wrap_post e s) t = errors_is e t"
  "errors_is (wrap_two e e') t = (errors_is e t \<or> errors_is e' t)"
  by (simp_all add: wrap_pre_def wrap_post_def wrap_two_def)

text \<open>\<^verbatim>\<open>errors.Join\<close>: nil errors are dropped, and without any other the result is nil.\<close>

fun non_nil :: "gerror option list \<Rightarrow> gerror list" where
  "non_nil [] = []"
| "non_nil (None # es) = non_nil es"
| "non_nil (Some e # es) = e # non_nil es"

definition join_errors :: "gerror option list \<Rightarrow> gerror option" where
  "join_errors es = (let xs = non_nil es in
     if xs = [] then None else Some (Wrapf (Join [CHR 0x0A] (map err_msg xs)) xs))"

lemma set_non_nil [simp]: "x \<in> set (non_nil es) \<longleftrightarrow> Some x \<in> set es"
  by (induction es rule: non_nil.induct) auto

lemma join_errors_None_iff: "join_errors es = None \<longleftrightarrow> list_all (\<lambda>e. e = None) es"
proof -
  have "non_nil es = [] \<longleftrightarrow> list_all (\<lambda>e. e = None) es"
    by (induction es rule: non_nil.induct) simp_all
  then show ?thesis by (simp add: join_errors_def Let_def)
qed

lemma join_errors_is:
  assumes "join_errors es = Some e"
  shows "errors_is e t \<longleftrightarrow> (\<exists>x. Some x \<in> set es \<and> errors_is x t)"
proof -
  from assms have "e = Wrapf (Join [CHR 0x0A] (map err_msg (non_nil es))) (non_nil es)"
    by (simp add: join_errors_def Let_def split: if_splits)
  then show ?thesis by (auto simp: list_ex_iff Bex_def)
qed

text \<open>
  \<^verbatim>\<open>errors.AsType[dockerMessenger]\<close>: the first error of the chain, depth first, that has a
  Docker message of its own; only \<open>DockerErr\<close> has the method.
\<close>

fun first_some :: "'a option list \<Rightarrow> 'a option" where
  "first_some [] = None"
| "first_some (None # xs) = first_some xs"
| "first_some (Some a # xs) = Some a"

fun as_messenger :: "gerror \<Rightarrow> string option" where
  "as_messenger (DockerErr k m c) = Some m"
| "as_messenger (Wrapf m es) = first_some (map as_messenger es)"
| "as_messenger (BuildError st m c) = as_messenger c"
| "as_messenger _ = None"

text \<open>\<^verbatim>\<open>errors.AsType[*buildkit.BuildError]\<close>: its status and message.\<close>

fun as_build_error :: "gerror \<Rightarrow> (int \<times> string) option" where
  "as_build_error (BuildError st m c) = Some (st, m)"
| "as_build_error (Wrapf m es) = first_some (map as_build_error es)"
| "as_build_error (DockerErr k m (Some c)) = as_build_error c"
| "as_build_error _ = None"

end
