(* ===== verification/Go_Time.thy ===== *)
theory Go_Time
  imports Go_Strings
begin

text \<open>
  \<^verbatim>\<open>time.Time\<close> as the civil fields Go prints, with the offset of its location in minutes,
  and the layout \<^verbatim>\<open>time.RFC3339Nano\<close>: printing, parsing as \<^verbatim>\<open>time.Parse\<close> does
  (one-digit hours, comma or period before the fraction, extra fraction digits dropped), and the
  instant in nanoseconds that the comparisons use.
\<close>

record gotime =
  t_year :: nat
  t_month :: nat
  t_day :: nat
  t_hour :: nat
  t_min :: nat
  t_sec :: nat
  t_nsec :: nat
  t_off :: int

definition leap_year :: "nat \<Rightarrow> bool" where
  "leap_year y \<longleftrightarrow> y mod 4 = 0 \<and> (y mod 100 \<noteq> 0 \<or> y mod 400 = 0)"

definition days_in_month :: "nat \<Rightarrow> nat \<Rightarrow> nat" where
  "days_in_month y m =
    (if m = 2 then (if leap_year y then 29 else 28)
     else if m \<in> {4, 6, 9, 11} then 30 else 31)"

definition days_before_month :: "nat \<Rightarrow> nat \<Rightarrow> nat" where
  "days_before_month y m = sum_list (map (days_in_month y) [1..<m])"

text \<open>Days from January 1 of year 1, whose midnight in UTC is Go's zero time.\<close>

definition days_before_year :: "nat \<Rightarrow> int" where
  "days_before_year y = (let p = int y - 1 in 365 * p + p div 4 - p div 100 + p div 400)"

definition unix_day :: "nat \<Rightarrow> nat \<Rightarrow> nat \<Rightarrow> int" where
  "unix_day y m d = days_before_year y + int (days_before_month y m) + int d - 1"

definition instant :: "gotime \<Rightarrow> int" where
  "instant t =
    ((((unix_day (t_year t) (t_month t) (t_day t) * 24 + int (t_hour t)) * 60 + int (t_min t)
        - t_off t) * 60 + int (t_sec t)) * 1000000000) + int (t_nsec t)"

definition zero_time :: gotime where
  "zero_time = \<lparr>t_year = 1, t_month = 1, t_day = 1, t_hour = 0, t_min = 0, t_sec = 0,
     t_nsec = 0, t_off = 0\<rparr>"

definition IsZero :: "gotime \<Rightarrow> bool" where
  "IsZero t \<longleftrightarrow> instant t = 0"

definition Before :: "gotime \<Rightarrow> gotime \<Rightarrow> bool" where
  "Before t u \<longleftrightarrow> instant t < instant u"

definition After :: "gotime \<Rightarrow> gotime \<Rightarrow> bool" where
  "After t u \<longleftrightarrow> instant t > instant u"

lemma IsZero_zero_time [simp]: "IsZero zero_time"
  by code_simp

section \<open>Printing\<close>

definition digit :: "nat \<Rightarrow> char" where
  "digit n = char_of (48 + n mod 10)"

definition two :: "nat \<Rightarrow> string" where
  "two n = [digit (n div 10), digit n]"

definition four :: "nat \<Rightarrow> string" where
  "four n = two (n div 100) @ two (n mod 100)"

fun fixed_digits :: "nat \<Rightarrow> nat \<Rightarrow> string" where
  "fixed_digits 0 n = []"
| "fixed_digits (Suc w) n = fixed_digits w (n div 10) @ [digit n]"

definition trim_zeros :: "string \<Rightarrow> string" where
  "trim_zeros s = rev (dropWhile (\<lambda>c. c = CHR ''0'') (rev s))"

definition format_frac :: "nat \<Rightarrow> string" where
  "format_frac ns = (case trim_zeros (fixed_digits 9 ns) of [] \<Rightarrow> [] | f \<Rightarrow> CHR ''.'' # f)"

definition format_zone :: "int \<Rightarrow> string" where
  "format_zone off =
    (if off = 0 then ''Z''
     else (if off < 0 then CHR ''-'' else CHR ''+'') #
       two (nat \<bar>off\<bar> div 60) @ '':'' @ two (nat \<bar>off\<bar> mod 60))"

definition format_rfc3339nano :: "gotime \<Rightarrow> string" where
  "format_rfc3339nano t =
     four (t_year t) @ ''-'' @ two (t_month t) @ ''-'' @ two (t_day t) @ ''T'' @
     two (t_hour t) @ '':'' @ two (t_min t) @ '':'' @ two (t_sec t) @
     format_frac (t_nsec t) @ format_zone (t_off t)"

section \<open>Parsing\<close>

fun get_fixed :: "nat \<Rightarrow> string \<Rightarrow> (nat \<times> string) option" where
  "get_fixed w s =
     (if length s \<ge> w \<and> list_all is_digit (take w s)
      then Some (digits_val (take w s), drop w s) else None)"

text \<open>\<^verbatim>\<open>getnum(s, false)\<close>: one or two digits.\<close>

fun get_short :: "string \<Rightarrow> (nat \<times> string) option" where
  "get_short (c # d # s) =
     (if \<not> is_digit c then None
      else if is_digit d then Some (10 * digit_val c + digit_val d, s)
      else Some (digit_val c, d # s))"
| "get_short [c] = (if is_digit c then Some (digit_val c, []) else None)"
| "get_short [] = None"

fun lit :: "char \<Rightarrow> string \<Rightarrow> string option" where
  "lit c (x # s) = (if x = c then Some s else None)"
| "lit c [] = None"

definition parse_nanos :: "string \<Rightarrow> nat" where
  "parse_nanos ds = (let d = take 9 ds in digits_val d * 10 ^ (9 - length d))"

fun parse_frac :: "string \<Rightarrow> nat \<times> string" where
  "parse_frac (c # d # s) =
     (if (c = CHR ''.'' \<or> c = CHR '','') \<and> is_digit d
      then (parse_nanos (takeWhile is_digit (d # s)), dropWhile is_digit (d # s))
      else (0, c # d # s))"
| "parse_frac s = (0, s)"

fun parse_zone :: "string \<Rightarrow> (int \<times> string) option" where
  "parse_zone [] = None"
| "parse_zone (c # s) =
     (if c = CHR ''Z'' then Some (0, s)
      else if c = CHR ''+'' \<or> c = CHR ''-'' then
        Option.bind (get_fixed 2 s) (\<lambda>(hr, s).
        Option.bind (lit CHR '':'' s) (\<lambda>s.
        Option.bind (get_fixed 2 s) (\<lambda>(mm, s).
          if hr > 24 \<or> mm > 60 then None
          else Some ((if c = CHR ''-'' then - int (hr * 60 + mm) else int (hr * 60 + mm)), s))))
      else None)"

definition parse_rfc3339nano :: "string \<Rightarrow> gotime option" where
  "parse_rfc3339nano v =
    Option.bind (get_fixed 4 v) (\<lambda>(y, v).
    Option.bind (lit CHR ''-'' v) (\<lambda>v.
    Option.bind (get_fixed 2 v) (\<lambda>(mo, v).
    if mo < 1 \<or> mo > 12 then None else
    Option.bind (lit CHR ''-'' v) (\<lambda>v.
    Option.bind (get_fixed 2 v) (\<lambda>(d, v).
    Option.bind (lit CHR ''T'' v) (\<lambda>v.
    Option.bind (get_short v) (\<lambda>(h, v).
    if h \<ge> 24 then None else
    Option.bind (lit CHR '':'' v) (\<lambda>v.
    Option.bind (get_fixed 2 v) (\<lambda>(mi, v).
    if mi \<ge> 60 then None else
    Option.bind (lit CHR '':'' v) (\<lambda>v.
    Option.bind (get_fixed 2 v) (\<lambda>(s, v).
    if s \<ge> 60 then None else
    (case parse_frac v of (ns, v) \<Rightarrow>
    Option.bind (parse_zone v) (\<lambda>(off, v).
    if v \<noteq> [] \<or> d < 1 \<or> d > days_in_month y mo then None
    else Some \<lparr>t_year = y, t_month = mo, t_day = d, t_hour = h, t_min = mi, t_sec = s,
                t_nsec = ns, t_off = off\<rparr>)))))))))))))"

section \<open>Round trip\<close>

text \<open>The times Go's formatter prints in a form its parser reads back.\<close>

definition wf_time :: "gotime \<Rightarrow> bool" where
  "wf_time t \<longleftrightarrow> t_year t < 10000 \<and> 1 \<le> t_month t \<and> t_month t \<le> 12
     \<and> 1 \<le> t_day t \<and> t_day t \<le> days_in_month (t_year t) (t_month t)
     \<and> t_hour t < 24 \<and> t_min t < 60 \<and> t_sec t < 60 \<and> t_nsec t < 1000000000
     \<and> \<bar>t_off t\<bar> < 24 * 60"

lemma is_digit_digit [simp]: "is_digit (digit n)"
  by (simp add: digit_def)

lemma digit_val_digit [simp]: "digit_val (digit n) = n mod 10"
  by (simp add: digit_def)

lemma length_two [simp]: "length (two n) = 2"
  by (simp add: two_def)

lemma get_fixed_two [simp]: "n < 100 \<Longrightarrow> get_fixed 2 (two n @ s) = Some (n, s)"
  by (simp add: two_def digits_val_def numeral_2_eq_2)

lemma digits_val_two: "n < 100 \<Longrightarrow> digits_val (s @ two n) = 100 * digits_val s + n"
  by (simp add: two_def digits_val_def)

lemma digits_val_four: "n < 10000 \<Longrightarrow> digits_val (four n) = n"
  using digits_val_two [of "n div 100" "[]"] digits_val_two [of "n mod 100" "two (n div 100)"]
  by (simp add: four_def digits_val_def)

lemma get_fixed_four [simp]:
  assumes "n < 10000"
  shows "get_fixed 4 (four n @ s) = Some (n, s)"
proof -
  have len: "length (four n) = 4" by (simp add: four_def)
  moreover have "list_all is_digit (four n)"
    by (simp add: four_def two_def)
  ultimately show ?thesis using digits_val_four [OF assms] by simp
qed

lemma get_short_two [simp]: "n < 100 \<Longrightarrow> get_short (two n @ s) = Some (n, s)"
  by (simp add: two_def)

lemma lit_Cons [simp]: "lit c (c # s) = Some s"
  by simp

lemma length_fixed_digits [simp]: "length (fixed_digits w n) = w"
  by (induction w arbitrary: n) auto

lemma fixed_digits_all [simp]: "list_all is_digit (fixed_digits w n)"
  by (induction w arbitrary: n) auto

lemma digits_val_fixed: "n < 10 ^ w \<Longrightarrow> digits_val (fixed_digits w n) = n"
proof (induction w arbitrary: n)
  case 0
  then show ?case by (simp add: digits_val_def)
next
  case (Suc w)
  then have "n div 10 < 10 ^ w" by (simp add: less_mult_imp_div_less)
  with Suc.IH show ?case by (simp add: digits_val_append)
qed

lemma digits_val_zeros: "digits_val (s @ replicate k CHR ''0'') = digits_val s * 10 ^ k"
  by (induction k arbitrary: s)
    (simp_all add: replicate_append_same [symmetric] digits_val_append flip: append_assoc,
     simp add: digit_val_def)

lemma takeWhile_zeros:
  "takeWhile (\<lambda>c. c = CHR ''0'') s = replicate (length (takeWhile (\<lambda>c. c = CHR ''0'') s)) CHR ''0''"
  by (induction s) auto

lemma trim_zeros_append: "trim_zeros s @ replicate (length s - length (trim_zeros s)) CHR ''0'' = s"
proof -
  let ?z = "takeWhile (\<lambda>c. c = CHR ''0'') (rev s)"
  have "rev (?z @ dropWhile (\<lambda>c. c = CHR ''0'') (rev s)) = s"
    by (subst takeWhile_dropWhile_id) simp
  then have eq: "trim_zeros s @ rev ?z = s"
    by (simp only: rev_append trim_zeros_def)
  then have "length s = length (trim_zeros s) + length ?z"
    by (metis length_append length_rev)
  moreover have "rev ?z = replicate (length ?z) CHR ''0''"
    by (subst takeWhile_zeros) (simp only: rev_replicate)
  ultimately show ?thesis using eq by simp
qed

lemma length_trim_zeros: "length (trim_zeros s) \<le> length s"
  using length_dropWhile_le [of _ "rev s"] by (simp add: trim_zeros_def)

lemma trim_zeros_digits: "list_all is_digit s \<Longrightarrow> list_all is_digit (trim_zeros s)"
  by (auto simp: trim_zeros_def list_all_iff dest: set_dropWhileD)

lemma parse_nanos_trim:
  assumes "n < 10 ^ 9"
  shows "parse_nanos (trim_zeros (fixed_digits 9 n)) = n"
proof -
  let ?f = "fixed_digits 9 n"
  have len: "length (trim_zeros ?f) \<le> 9" using length_trim_zeros [of ?f] by simp
  have "digits_val (trim_zeros ?f) * 10 ^ (9 - length (trim_zeros ?f))
      = digits_val (trim_zeros ?f @ replicate (9 - length (trim_zeros ?f)) CHR ''0'')"
    by (simp add: digits_val_zeros)
  also have "\<dots> = digits_val ?f" using trim_zeros_append [of ?f] by simp
  also have "\<dots> = n" using assms by (rule digits_val_fixed)
  finally show ?thesis using len by (simp add: parse_nanos_def)
qed

lemma format_zone_head: "\<exists>c z. format_zone off = c # z \<and> \<not> is_digit c \<and> c \<noteq> CHR ''.'' \<and> c \<noteq> CHR '',''"
  by (simp add: format_zone_def is_digit_def less_eq_char_def)

lemma parse_frac_format:
  assumes "n < 1000000000"
  shows "parse_frac (format_frac n @ format_zone off) = (n, format_zone off)"
proof -
  obtain c z where z: "format_zone off = c # z" "\<not> is_digit c" "c \<noteq> CHR ''.''" "c \<noteq> CHR '',''"
    using format_zone_head by blast
  have n: "parse_nanos (trim_zeros (fixed_digits 9 n)) = n"
    using assms by (intro parse_nanos_trim) simp
  show ?thesis
  proof (cases "trim_zeros (fixed_digits 9 n)")
    case Nil
    with n have "n = 0" by (simp add: parse_nanos_def digits_val_def)
    with Nil z show ?thesis by (cases z) (simp_all add: format_frac_def)
  next
    case (Cons d f)
    have "list_all is_digit (d # f)"
      using trim_zeros_digits [OF fixed_digits_all [of 9 n]] Cons by simp
    with Cons z n show ?thesis
      by (simp add: format_frac_def takeWhile_append2 dropWhile_append2 list_all_iff)
  qed
qed

lemma parse_zone_format:
  assumes "\<bar>off\<bar> < 24 * 60"
  shows "parse_zone (format_zone off) = Some (off, [])"
proof (cases "off = 0")
  case True
  then show ?thesis by (simp add: format_zone_def)
next
  case False
  define m where "m = nat \<bar>off\<bar>"
  have m: "m div 60 < 24" "m mod 60 < 60" using assms by (simp_all add: m_def)
  have "int (m div 60 * 60 + m mod 60) = \<bar>off\<bar>" by (simp add: m_def)
  with False m show ?thesis
    using get_fixed_two [of "m mod 60" "[]"]
    by (simp add: format_zone_def m_def [symmetric] del: get_fixed.simps)
qed

lemma days_in_month_le: "days_in_month y m \<le> 31"
  by (simp add: days_in_month_def)

theorem parse_format_rfc3339nano:
  assumes "wf_time t"
  shows "parse_rfc3339nano (format_rfc3339nano t) = Some t"
proof -
  have "t_day t < 100"
    using assms days_in_month_le [of "t_year t" "t_month t"] by (simp add: wf_time_def)
  with assms show ?thesis
    by (simp add: parse_rfc3339nano_def format_rfc3339nano_def wf_time_def parse_frac_format
        parse_zone_format del: get_fixed.simps)
qed

lemma format_chars: "c \<in> set (format_rfc3339nano t) \<Longrightarrow> c \<noteq> CHR '' '' \<and> c \<noteq> CHR 0x0A"
proof -
  have d: "is_digit x \<Longrightarrow> x \<noteq> CHR '' '' \<and> x \<noteq> CHR 0x0A" for x
    by (auto simp: is_digit_def less_eq_char_def)
  have t: "x \<in> set (two n) \<Longrightarrow> is_digit x" for x n by (auto simp: two_def)
  have f: "x \<in> set (four n) \<Longrightarrow> is_digit x" for x n by (auto simp: four_def t)
  have fr: "x \<in> set (trim_zeros (fixed_digits 9 n)) \<Longrightarrow> is_digit x" for x n
    using trim_zeros_digits [OF fixed_digits_all [of 9 n]] by (simp add: list_all_iff)
  have ff: "x \<in> set (format_frac n) \<Longrightarrow> x = CHR ''.'' \<or> is_digit x" for x n
    using fr [of x n] by (cases "trim_zeros (fixed_digits 9 n)") (auto simp: format_frac_def)
  have fz: "x \<in> set (format_zone n) \<Longrightarrow> x \<in> {CHR ''Z'', CHR ''+'', CHR ''-'', CHR '':''} \<or> is_digit x"
    for x n by (auto simp: format_zone_def dest: t split: if_splits)
  assume "c \<in> set (format_rfc3339nano t)"
  then have "c \<in> {CHR ''Z'', CHR ''+'', CHR ''-'', CHR '':'', CHR ''.'', CHR ''T''} \<or> is_digit c"
    by (auto simp: format_rfc3339nano_def dest: t f ff fz)
  then show ?thesis using d by auto
qed

end
