(* ===== verification/Domain_Model.thy ===== *)
theory Domain_Model
  imports Go_Errors Go_Time
begin

text \<open>
  The data model of \<^verbatim>\<open>internal/domain\<close>: identities, lifecycle states, containers with
  their exec, network, port and health records, task snapshots and the table that maps containerd
  event topics to Docker actions. Field names carry a prefix per struct. States, task states and
  actions are Go string types, so they are strings here too: a runtime may report a value outside
  the constants.
\<close>

type_synonym container_id = string
type_synonym image_id = string
type_synonym network_id = string

section \<open>model.go\<close>

abbreviation ContainerStateUnknown :: string where "ContainerStateUnknown \<equiv> ''unknown''"
abbreviation ContainerStateCreated :: string where "ContainerStateCreated \<equiv> ''created''"
abbreviation ContainerStateRunning :: string where "ContainerStateRunning \<equiv> ''running''"
abbreviation ContainerStatePaused :: string where "ContainerStatePaused \<equiv> ''paused''"
abbreviation ContainerStateRestarting :: string where "ContainerStateRestarting \<equiv> ''restarting''"
abbreviation ContainerStateRemoving :: string where "ContainerStateRemoving \<equiv> ''removing''"
abbreviation ContainerStateExited :: string where "ContainerStateExited \<equiv> ''exited''"
abbreviation ContainerStateDead :: string where "ContainerStateDead \<equiv> ''dead''"

definition IsDockerState :: "string \<Rightarrow> bool" where
  "IsDockerState s \<longleftrightarrow>
     s \<in> set [ContainerStateCreated, ContainerStateRunning, ContainerStatePaused,
       ContainerStateRestarting, ContainerStateRemoving, ContainerStateExited, ContainerStateDead]"

record container_spec =
  cs_Image :: image_id
  cs_Command :: "string list"
  cs_Env :: "(string, string) gomap"

record port_binding =
  pb_ContainerPort :: u16
  pb_Protocol :: string
  pb_HostIP :: string
  pb_HostPort :: u16

record network_attachment =
  na_NetworkID :: network_id
  na_Name :: string
  na_EndpointID :: string
  na_IPAddress :: string
  na_IPPrefixLen :: int
  na_Gateway :: string
  na_GlobalIPv6Address :: string
  na_GlobalIPv6PrefixLen :: int
  na_MACAddress :: string
  na_Aliases :: "string list"

record exec_record =
  er_ID :: string
  er_ContainerID :: container_id
  er_Running :: bool
  er_ExitCode :: "int option"
  er_Command :: "string list"
  er_TTY :: bool
  er_StartedAt :: gotime
  er_FinishedAt :: gotime
  er_OpenStdin :: bool
  er_OpenStdout :: bool
  er_OpenStderr :: bool
  er_CanRemove :: bool
  er_ProcessID :: int

record health_check_result =
  hc_Start :: gotime
  hc_End :: gotime
  hc_ExitCode :: int
  hc_Output :: string

record health =
  h_Status :: string
  h_FailingStreak :: int
  h_Log :: "health_check_result list"

record container =
  c_ID :: container_id
  c_Name :: string
  c_Spec :: container_spec
  c_ImageReference :: image_id
  c_ImageDigest :: image_id
  c_Labels :: "(string, string) gomap"
  c_State :: string
  c_CreatedAt :: gotime
  c_UpdatedAt :: gotime
  c_ExitCode :: int
  c_OOMKilled :: bool
  c_Dead :: bool
  c_Error :: string
  c_StartedAt :: gotime
  c_FinishedAt :: gotime
  c_Health :: "health option"
  c_Execs :: "exec_record list"
  c_PortBindings :: "port_binding list"
  c_Networks :: "network_attachment list"

definition zero_spec :: container_spec where
  "zero_spec = \<lparr>cs_Image = [], cs_Command = [], cs_Env = []\<rparr>"

text \<open>Go's zero value \<^verbatim>\<open>Container{}\<close>.\<close>

definition zero_container :: container where
  "zero_container = \<lparr>c_ID = [], c_Name = [], c_Spec = zero_spec, c_ImageReference = [],
     c_ImageDigest = [], c_Labels = [], c_State = [], c_CreatedAt = zero_time,
     c_UpdatedAt = zero_time, c_ExitCode = 0, c_OOMKilled = False, c_Dead = False, c_Error = [],
     c_StartedAt = zero_time, c_FinishedAt = zero_time, c_Health = None, c_Execs = [],
     c_PortBindings = [], c_Networks = []\<rparr>"

definition NewContainerID :: "string \<Rightarrow> gerror + container_id" where
  "NewContainerID v = (if TrimSpace v = [] then Inl (Sentinel (Dom ErrEmptyIdentity)) else Inr v)"

definition NewImageID :: "string \<Rightarrow> gerror + image_id" where
  "NewImageID v = (if TrimSpace v = [] then Inl (Sentinel (Dom ErrEmptyIdentity)) else Inr v)"

text \<open>
  A container that names only one of its two image fields gets the other; \<^verbatim>\<open>Registry.Save\<close>
  and \<^verbatim>\<open>Reconcile\<close> both do this.
\<close>

definition fill_image :: "container \<Rightarrow> container" where
  "fill_image c0 =
    (let c = (if c_ImageReference c0 = [] then c0\<lparr>c_ImageReference := cs_Image (c_Spec c0)\<rparr> else c0)
     in if cs_Image (c_Spec c) = [] then c\<lparr>c_Spec := (c_Spec c)\<lparr>cs_Image := c_ImageReference c\<rparr>\<rparr>
        else c)"

lemma fill_image_same [simp]:
  "c_ID (fill_image c) = c_ID c" "c_Name (fill_image c) = c_Name c"
  "c_State (fill_image c) = c_State c" "c_Dead (fill_image c) = c_Dead c"
  "c_PortBindings (fill_image c) = c_PortBindings c" "c_Networks (fill_image c) = c_Networks c"
  "c_Execs (fill_image c) = c_Execs c" "c_Labels (fill_image c) = c_Labels c"
  "c_ExitCode (fill_image c) = c_ExitCode c"
  "c_StartedAt (fill_image c) = c_StartedAt c" "c_FinishedAt (fill_image c) = c_FinishedAt c"
  by (simp_all add: fill_image_def Let_def)

lemma fill_image_idem [simp]: "fill_image (fill_image c) = fill_image c"
  by (simp add: fill_image_def Let_def)

lemma fill_image_agree:
  "c_ImageReference (fill_image c) = [] \<longleftrightarrow> cs_Image (c_Spec (fill_image c)) = []"
  by (simp add: fill_image_def Let_def)

section \<open>events.go\<close>

definition containerdEventActions :: "(string, string) gomap" where
  "containerdEventActions =
    [(''/tasks/create'', ''create''), (''/tasks/start'', ''start''), (''/tasks/exit'', ''die''),
     (''/tasks/delete'', ''stop''), (''/tasks/exec-added'', ''exec_create''),
     (''/tasks/exec-started'', ''exec_start''), (''/tasks/paused'', ''pause''),
     (''/tasks/resumed'', ''unpause''), (''/tasks/oom'', ''kill''),
     (''/containers/create'', ''create''), (''/containers/update'', ''update''),
     (''/containers/delete'', ''destroy''), (''/images/create'', ''pull''),
     (''/images/delete'', ''untag'')]"

definition DockerActionForTopic :: "string \<Rightarrow> string" where
  "DockerActionForTopic topic = get_or [] containerdEventActions topic"

definition LookupDockerAction :: "string \<Rightarrow> string \<times> bool" where
  "LookupDockerAction topic = (case get containerdEventActions topic of
     Some a \<Rightarrow> (a, True) | None \<Rightarrow> ([], False))"

section \<open>Contexts\<close>

text \<open>
  A \<^verbatim>\<open>context.Context\<close> argument as a call sees it: nil, live, or done with the error
  \<^verbatim>\<open>ctx.Err()\<close>.
\<close>

datatype ctx = NilCtx | Live | Done gerror

definition contextError :: "ctx \<Rightarrow> gerror option" where
  "contextError ctx = (case ctx of NilCtx \<Rightarrow> Some (Sentinel (Dom ErrNilContext))
     | Live \<Rightarrow> None | Done e \<Rightarrow> Some e)"

lemma contextError_simps [simp]:
  "contextError NilCtx = Some (Sentinel (Dom ErrNilContext))"
  "contextError Live = None" "contextError (Done e) = Some e"
  by (simp_all add: contextError_def)

end
