(* ===== verification/Net_Addr.thy ===== *)
theory Net_Addr
  imports Go_Strings
begin

text \<open>
  IP addresses and prefixes as Go's packages \<^verbatim>\<open>net\<close> and \<^verbatim>\<open>net/netip\<close> parse and
  print them: dotted IPv4, IPv6 with an ellipsis and an embedded IPv4 tail, zones, and IPv4
  prefixes. A parse error is \<open>None\<close>.
\<close>

datatype addr = V4 byte byte byte byte | V6 "byte list" string

section \<open>IPv4\<close>

text \<open>One decimal field: no leading zero, at most 255.\<close>

definition parse_octet :: "string \<Rightarrow> byte option" where
  "parse_octet f =
    (if f = [] \<or> \<not> list_all is_digit f \<or> (hd f = CHR ''0'' \<and> length f > 1) \<or> digits_val f > 255
     then None else Some (word_of_nat (digits_val f)))"

definition parse_v4_bytes :: "string \<Rightarrow> byte list option" where
  "parse_v4_bytes s = (case map parse_octet (Split CHR ''.'' s) of
     [Some a, Some b, Some c, Some d] \<Rightarrow> Some [a, b, c, d] | _ \<Rightarrow> None)"

definition parse_v4 :: "string \<Rightarrow> addr option" where
  "parse_v4 s = (case parse_v4_bytes s of Some [a, b, c, d] \<Rightarrow> Some (V4 a b c d) | _ \<Rightarrow> None)"

definition show_v4 :: "byte \<Rightarrow> byte \<Rightarrow> byte \<Rightarrow> byte \<Rightarrow> string" where
  "show_v4 a b c d = dec_digits (unat a) @ ''.'' @ dec_digits (unat b) @ ''.''
     @ dec_digits (unat c) @ ''.'' @ dec_digits (unat d)"

section \<open>IPv6\<close>

definition hex_val :: "char \<Rightarrow> nat option" where
  "hex_val c = (let n = of_char c :: nat in
     if 48 \<le> n \<and> n \<le> 57 then Some (n - 48)
     else if 97 \<le> n \<and> n \<le> 102 then Some (n - 87)
     else if 65 \<le> n \<and> n \<le> 70 then Some (n - 55)
     else None)"

text \<open>The leading hexadecimal digits of a string and their value.\<close>

definition hex_run :: "string \<Rightarrow> string" where
  "hex_run s = takeWhile (\<lambda>c. hex_val c \<noteq> None) s"

definition hex_group :: "string \<Rightarrow> nat" where
  "hex_group ds = foldl (\<lambda>n c. 16 * n + (case hex_val c of Some v \<Rightarrow> v | None \<Rightarrow> 0)) 0 ds"

text \<open>
  The loop over the groups: \<open>ip\<close> are the bytes so far and \<open>ell\<close> the position of the ellipsis.
  The bound on the number of groups is the length of the string, which shrinks in every round.
\<close>

fun v6_loop :: "nat \<Rightarrow> string \<Rightarrow> byte list \<Rightarrow> nat option \<Rightarrow> (string \<times> byte list \<times> nat option) option" where
  "v6_loop 0 s ip ell = None"
| "v6_loop (Suc fuel) s ip ell =
    (if length ip \<ge> 16 then Some (s, ip, ell)
     else
       let ds = hex_run s; rest = drop (length ds) s in
       if ds = [] \<or> length ds > 4 then None
       else if rest \<noteq> [] \<and> hd rest = CHR ''.'' then
         (if ell = None \<and> length ip \<noteq> 12 \<or> length ip + 4 > 16 then None
          else case parse_v4_bytes s of None \<Rightarrow> None | Some b \<Rightarrow> Some ([], ip @ b, ell))
       else
         let ip' = ip @ [word_of_nat (hex_group ds div 256), word_of_nat (hex_group ds mod 256)] in
         if rest = [] then Some ([], ip', ell)
         else if hd rest \<noteq> CHR '':'' \<or> length rest = 1 then None
         else
           let s' = tl rest in
           if hd s' = CHR '':'' then
             (if ell \<noteq> None then None
              else if tl s' = [] then Some ([], ip', Some (length ip'))
              else v6_loop fuel (tl s') ip' (Some (length ip')))
           else v6_loop fuel s' ip' ell)"

definition expand_ellipsis :: "byte list \<Rightarrow> nat option \<Rightarrow> byte list option" where
  "expand_ellipsis ip ell =
    (if length ip < 16
     then (case ell of None \<Rightarrow> None
            | Some e \<Rightarrow> Some (take e ip @ replicate (16 - length ip) 0 @ drop e ip))
     else if ell \<noteq> None then None else Some ip)"

definition parse_v6 :: "string \<Rightarrow> addr option" where
  "parse_v6 inp =
    (case (case CutByte CHR ''%'' inp of None \<Rightarrow> Some (inp, []) | Some (a, z) \<Rightarrow>
             if z = [] then None else Some (a, z)) of
       None \<Rightarrow> None
     | Some (s, zone) \<Rightarrow>
         let lead = prefix ''::'' s; s1 = (if lead then drop 2 s else s) in
         if lead \<and> s1 = [] then Some (V6 (replicate 16 0) zone)
         else case v6_loop (Suc (length s1)) s1 [] (if lead then Some 0 else None) of
           None \<Rightarrow> None
         | Some (rest, ip, ell) \<Rightarrow>
             if rest \<noteq> [] then None
             else map_option (\<lambda>b. V6 b zone) (expand_ellipsis ip ell))"

text \<open>\<^verbatim>\<open>netip.ParseAddr\<close>: the first separator decides the family.\<close>

definition ParseAddr :: "string \<Rightarrow> addr option" where
  "ParseAddr s = (case find (\<lambda>c. c \<in> {CHR ''.'', CHR '':'', CHR ''%''}) s of
     None \<Rightarrow> None
   | Some c \<Rightarrow> if c = CHR ''.'' then parse_v4 s
               else if c = CHR '':'' then parse_v6 s else None)"

text \<open>\<^verbatim>\<open>net.ParseIP\<close>: the 16-byte form, nothing for an address with a zone.\<close>

definition ParseIP :: "string \<Rightarrow> byte list option" where
  "ParseIP s = (case ParseAddr s of
     None \<Rightarrow> None
   | Some (V4 a b c d) \<Rightarrow> Some (replicate 10 0 @ [255, 255, a, b, c, d])
   | Some (V6 bs zone) \<Rightarrow> if zone = [] then Some bs else None)"

definition IsUnspecified :: "byte list \<Rightarrow> bool" where
  "IsUnspecified ip \<longleftrightarrow> ip = replicate 16 0 \<or> ip = replicate 10 0 @ [255, 255, 0, 0, 0, 0]"

section \<open>Printing and parsing IPv4 addresses\<close>

lemma dec_digits_hd: "dec_digits n = CHR ''0'' # ds \<Longrightarrow> ds = []"
proof (induction n arbitrary: ds rule: dec_digits.induct)
  case (1 n)
  show ?case
  proof (cases "n < 10")
    case True
    with "1.prems" show ?thesis by (simp add: dec_digits.simps [of n])
  next
    case False
    obtain c cs where c: "dec_digits (n div 10) = c # cs"
      by (cases "dec_digits (n div 10)") auto
    with False "1.prems" have "c = CHR ''0''" by (simp add: dec_digits.simps [of n])
    with c "1.IH" [OF False] have "dec_digits (n div 10) = ''0''" by simp
    then have "n div 10 = 0"
      using digits_val_dec_digits [of "n div 10"] by (simp add: digits_val_def digit_val_def)
    with False show ?thesis by simp
  qed
qed

lemma parse_octet_dec_digits:
  assumes "n \<le> 255"
  shows "parse_octet (dec_digits n) = Some (word_of_nat n)"
proof -
  have "\<not> (hd (dec_digits n) = CHR ''0'' \<and> length (dec_digits n) > 1)"
  proof
    assume h: "hd (dec_digits n) = CHR ''0'' \<and> length (dec_digits n) > 1"
    then obtain ds where "dec_digits n = CHR ''0'' # ds" "ds \<noteq> []"
      by (cases "dec_digits n") auto
    with dec_digits_hd show False by blast
  qed
  with assms show ?thesis
    using dec_digits_all_digits [of n] digits_val_dec_digits [of n]
    by (simp add: parse_octet_def)
qed

lemma dec_digits_no_dot: "CHR ''.'' \<notin> set (dec_digits n)"
  using dec_digits_all_digits [of n] by (auto simp: list_all_iff is_digit_def less_eq_char_def)

lemma parse_show_v4: "parse_v4 (show_v4 a b c d) = Some (V4 a b c d)"
proof -
  have b: "unat x \<le> 255" for x :: byte
  proof -
    have "unat x < 2 ^ LENGTH(8)" by (rule unsigned_less)
    then show ?thesis by simp
  qed
  have "Split CHR ''.'' (show_v4 a b c d)
      = [dec_digits (unat a), dec_digits (unat b), dec_digits (unat c), dec_digits (unat d)]"
    by (simp add: show_v4_def Split_append Split_no_sep dec_digits_no_dot)
  then show ?thesis
    by (simp add: parse_v4_def parse_v4_bytes_def parse_octet_dec_digits b)
qed

lemma find_append_first: "list_all (\<lambda>x. \<not> P x) u \<Longrightarrow> P c \<Longrightarrow> find P (u @ c # v) = Some c"
  by (induction u) auto

lemma ParseAddr_show_v4: "ParseAddr (show_v4 a b c d) = Some (V4 a b c d)"
proof -
  have "list_all (\<lambda>x. \<not> (x \<in> {CHR ''.'', CHR '':'', CHR ''%''})) (dec_digits (unat a))"
    using dec_digits_all_digits [of "unat a"]
    by (auto simp: list_all_iff is_digit_def less_eq_char_def)
  from find_append_first [OF this] have
    "find (\<lambda>c. c \<in> {CHR ''.'', CHR '':'', CHR ''%''}) (show_v4 a b c d) = Some CHR ''.''"
    by (simp add: show_v4_def)
  then show ?thesis by (simp add: ParseAddr_def parse_show_v4)
qed

end
