(* ===== verification/Port_Allocator.thy ===== *)
theory Port_Allocator
  imports Domain_Model Net_Addr
begin

text \<open>
  \<^verbatim>\<open>internal/adapters/cni/portmap.go\<close>: reservation of host ports. The set of reserved ports is
  a list without duplicates; the probe that binds a socket is the operating system and so a
  parameter that threads a world state. Every method runs under the allocator's mutex and is one
  step. The locale \<open>port_reservation\<close> states the contract of \<^verbatim>\<open>ports.PortAllocator\<close>.
\<close>

record port_key =
  pk_protocol :: string
  pk_hostIP :: string
  pk_port :: u16

record port_allocation =
  pa_Protocol :: string
  pa_HostIP :: string
  pa_HostPort :: u16

record port_mapping =
  pm_HostPort :: int
  pm_ContainerPort :: int
  pm_Protocol :: string
  pm_HostIP :: string

record allocator =
  al_used :: "port_key list"
  al_attempts :: nat

type_synonym 'w probe = "string \<Rightarrow> string \<Rightarrow> u16 \<Rightarrow> 'w \<Rightarrow> 'w \<times> (gerror + u16)"

definition NewPortAllocator :: allocator where
  "NewPortAllocator = \<lparr>al_used = [], al_attempts = 16\<rparr>"

definition normalizeProtocol :: "string \<Rightarrow> gerror + string" where
  "normalizeProtocol protocol =
    (let p = ToLower (TrimSpace protocol) in
     if p = [] \<or> p = ''tcp'' then Inr ''tcp''
     else if p = ''udp'' then Inr ''udp''
     else Inl (wrap_post (Sentinel (Cni ErrUnsupportedProtocol)) ('': '' @ quote protocol)))"

definition normalizeHostIP :: "string \<Rightarrow> string" where
  "normalizeHostIP ip = (if TrimSpace ip = [] then ''0.0.0.0'' else TrimSpace ip)"

definition isWildcardHost :: "string \<Rightarrow> bool" where
  "isWildcardHost ip = (case ParseIP ip of None \<Rightarrow> True | Some b \<Rightarrow> IsUnspecified b)"

definition isAddrInUse :: "gerror \<Rightarrow> bool" where
  "isAddrInUse e = errors_is e (Std EADDRINUSE)"

definition conflictsLocked :: "port_key list \<Rightarrow> string \<Rightarrow> string \<Rightarrow> u16 \<Rightarrow> bool" where
  "conflictsLocked used protocol hostIP port \<longleftrightarrow>
     list_ex (\<lambda>k. pk_protocol k = protocol \<and> pk_port k = port
       \<and> (pk_hostIP k = hostIP \<or> isWildcardHost (pk_hostIP k) \<or> isWildcardHost hostIP)) used"

abbreviation mk_key :: "string \<Rightarrow> string \<Rightarrow> u16 \<Rightarrow> port_key" where
  "mk_key p ip port \<equiv> \<lparr>pk_protocol = p, pk_hostIP = ip, pk_port = port\<rparr>"

abbreviation mk_alloc :: "string \<Rightarrow> string \<Rightarrow> u16 \<Rightarrow> port_allocation" where
  "mk_alloc p ip port \<equiv> \<lparr>pa_Protocol = p, pa_HostIP = ip, pa_HostPort = port\<rparr>"

definition reserve :: "string \<Rightarrow> string \<Rightarrow> u16 \<Rightarrow> allocator \<Rightarrow> allocator" where
  "reserve p ip port a = a\<lparr>al_used := List.insert (mk_key p ip port) (al_used a)\<rparr>"

text \<open>The dynamic branch: up to \<open>n\<close> probes for any free port.\<close>

fun allocate_any :: "'w probe \<Rightarrow> nat \<Rightarrow> string \<Rightarrow> string \<Rightarrow> allocator \<Rightarrow> 'w \<Rightarrow>
    allocator \<times> 'w \<times> (gerror + port_allocation)" where
  "allocate_any probe 0 proto ip a w =
    (a, w, Inl (wrap_post (Sentinel (Cni ErrNoFreeHostPort))
       ('' after '' @ dec_digits (al_attempts a) @ '' attempts'')))"
| "allocate_any probe (Suc n) proto ip a w = (case probe proto ip 0 w of
     (w', Inl e) \<Rightarrow> (a, w', Inl (wrap_pre ''cni: probing free host port: '' e))
   | (w', Inr port) \<Rightarrow>
       if port = 0 then (a, w', Inl (Sentinel (Cni ErrNoFreeHostPort)))
       else if conflictsLocked (al_used a) proto ip port then allocate_any probe n proto ip a w'
       else (reserve proto ip port a, w', Inr (mk_alloc proto ip port)))"

definition Allocate :: "'w probe \<Rightarrow> string \<Rightarrow> string \<Rightarrow> u16 \<Rightarrow> allocator \<Rightarrow> 'w \<Rightarrow>
    allocator \<times> 'w \<times> (gerror + port_allocation)" where
  "Allocate probe protocol hostIP requested a w = (case normalizeProtocol protocol of
     Inl e \<Rightarrow> (a, w, Inl e)
   | Inr proto \<Rightarrow>
       let ip = normalizeHostIP hostIP in
       if requested \<noteq> 0 then
         (if conflictsLocked (al_used a) proto ip requested
          then (a, w, Inl (PortInUseError proto ip requested))
          else case probe proto ip requested w of
            (w', Inl e) \<Rightarrow>
              if isAddrInUse e then (a, w', Inl (PortInUseError proto ip requested))
              else (a, w', Inl (wrap_pre (''cni: probing host port '' @ dec_digits (unat requested) @ '': '') e))
          | (w', Inr port) \<Rightarrow>
              if port \<noteq> requested
              then (a, w', Inl (wrap_pre (''cni: probe returned port '' @ dec_digits (unat port)
                     @ '' for fixed request '' @ dec_digits (unat requested) @ '': '')
                     (Sentinel (Cni ErrNoFreeHostPort))))
              else (reserve proto ip port a, w', Inr (mk_alloc proto ip port)))
       else allocate_any probe (al_attempts a) proto ip a w)"

fun Release :: "port_allocation list \<Rightarrow> allocator \<Rightarrow> allocator" where
  "Release [] a = a"
| "Release (al # als) a = (case normalizeProtocol (pa_Protocol al) of
     Inl e \<Rightarrow> Release als a
   | Inr proto \<Rightarrow> Release als (a\<lparr>al_used :=
       removeAll (mk_key proto (normalizeHostIP (pa_HostIP al)) (pa_HostPort al)) (al_used a)\<rparr>))"

definition adopt_one :: "allocator \<Rightarrow> port_binding \<Rightarrow> gerror + port_allocation" where
  "adopt_one a b = rbind (normalizeProtocol (pb_Protocol b)) (\<lambda>proto.
     let ip = normalizeHostIP (pb_HostIP b) in
     if mk_key proto ip (pb_HostPort b) \<in> set (al_used a)
     then Inr (mk_alloc proto ip (pb_HostPort b))
     else Inl (wrap_pre (''cni: '' @ ip @ '':'' @ dec_digits (unat (pb_HostPort b)) @ '': '')
            (Sentinel (Cni ErrPortNotReserved))))"

definition AdoptBindings :: "port_binding list \<Rightarrow> allocator \<Rightarrow> gerror + port_allocation list" where
  "AdoptBindings bs a = mapM (adopt_one a) bs"

definition IsUsed :: "string \<Rightarrow> string \<Rightarrow> u16 \<Rightarrow> allocator \<Rightarrow> bool" where
  "IsUsed protocol hostIP port a = (case normalizeProtocol protocol of
     Inl e \<Rightarrow> False
   | Inr proto \<Rightarrow> conflictsLocked (al_used a) proto (normalizeHostIP hostIP) port)"

definition filled_binding :: "port_binding \<Rightarrow> port_allocation \<Rightarrow> port_binding" where
  "filled_binding b al = b\<lparr>pb_Protocol := pa_Protocol al, pb_HostIP := pa_HostIP al,
     pb_HostPort := pa_HostPort al\<rparr>"

fun allocate_bindings :: "'w probe \<Rightarrow> port_binding list \<Rightarrow> port_binding list \<Rightarrow> port_allocation list \<Rightarrow>
    allocator \<Rightarrow> 'w \<Rightarrow> allocator \<times> 'w \<times> (gerror + (port_binding list \<times> port_allocation list))" where
  "allocate_bindings probe [] filled allocs a w = (a, w, Inr (filled, allocs))"
| "allocate_bindings probe (b # bs) filled allocs a w =
    (case Allocate probe (pb_Protocol b) (pb_HostIP b) (pb_HostPort b) a w of
       (a', w', Inl e) \<Rightarrow> (Release allocs a', w',
          Inl (wrap_pre (''cni: host port for container port ''
                 @ dec_digits (unat (pb_ContainerPort b)) @ '': '') e))
     | (a', w', Inr al) \<Rightarrow>
         allocate_bindings probe bs (filled @ [filled_binding b al]) (allocs @ [al]) a' w')"

definition AllocateBindings :: "'w probe \<Rightarrow> port_binding list \<Rightarrow> allocator \<Rightarrow> 'w \<Rightarrow>
    allocator \<times> 'w \<times> (gerror + (port_binding list \<times> port_allocation list))" where
  "AllocateBindings probe bs a w = allocate_bindings probe bs [] [] a w"

definition build_mapping :: "port_binding \<Rightarrow> gerror + port_mapping" where
  "build_mapping b =
    (if pb_HostPort b = 0
     then Inl (wrap_pre (''container port '' @ dec_digits (unat (pb_ContainerPort b)) @ ''/''
                 @ pb_Protocol b @ '': '') (Sentinel (Cni ErrUnallocatedPort)))
     else if pb_ContainerPort b = 0
     then Inl (wrap_pre (''host port '' @ dec_digits (unat (pb_HostPort b))
                 @ '': container port is zero: '') (Sentinel (Cni ErrUnallocatedPort)))
     else rbind (normalizeProtocol (pb_Protocol b)) (\<lambda>proto.
       Inr \<lparr>pm_HostPort = int (unat (pb_HostPort b)), pm_ContainerPort = int (unat (pb_ContainerPort b)),
             pm_Protocol = proto, pm_HostIP = normalizeHostIP (pb_HostIP b)\<rparr>))"

definition BuildPortMappings :: "port_binding list \<Rightarrow> gerror + port_mapping list" where
  "BuildPortMappings bs = mapM build_mapping bs"

section \<open>Normal forms\<close>

lemma normalizeProtocol_Inr: "normalizeProtocol p = Inr q \<Longrightarrow> q = ''tcp'' \<or> q = ''udp''"
  by (auto simp: normalizeProtocol_def Let_def split: if_splits)

lemma normalizeProtocol_tcp [simp]: "normalizeProtocol ''tcp'' = Inr ''tcp''"
  by code_simp

lemma normalizeProtocol_udp [simp]: "normalizeProtocol ''udp'' = Inr ''udp''"
  by code_simp

lemma normalizeProtocol_idem: "normalizeProtocol p = Inr q \<Longrightarrow> normalizeProtocol q = Inr q"
  by (auto dest!: normalizeProtocol_Inr)

lemma TrimSpace_default: "TrimSpace ''0.0.0.0'' = ''0.0.0.0''"
  by code_simp

lemma normalizeHostIP_idem [simp]: "normalizeHostIP (normalizeHostIP ip) = normalizeHostIP ip"
  by (simp add: normalizeHostIP_def TrimSpace_default)

section \<open>The invariant\<close>

text \<open>
  Two reservations clash when they are for the same protocol and port and their addresses are the
  same or one of them covers every address.
\<close>

definition clash :: "port_key \<Rightarrow> port_key \<Rightarrow> bool" where
  "clash k l \<longleftrightarrow> pk_protocol k = pk_protocol l \<and> pk_port k = pk_port l
     \<and> (pk_hostIP k = pk_hostIP l \<or> isWildcardHost (pk_hostIP k) \<or> isWildcardHost (pk_hostIP l))"

definition normal_key :: "port_key \<Rightarrow> bool" where
  "normal_key k \<longleftrightarrow> normalizeProtocol (pk_protocol k) = Inr (pk_protocol k)
     \<and> normalizeHostIP (pk_hostIP k) = pk_hostIP k \<and> pk_port k \<noteq> 0"

definition allocator_ok :: "allocator \<Rightarrow> bool" where
  "allocator_ok a \<longleftrightarrow> distinct (al_used a) \<and> (\<forall>k\<in>set (al_used a). normal_key k)
     \<and> (\<forall>k\<in>set (al_used a). \<forall>l\<in>set (al_used a). clash k l \<longrightarrow> k = l)"

lemma clash_sym: "clash k l \<longleftrightarrow> clash l k"
  by (auto simp: clash_def)

lemma clash_refl [simp]: "clash k k"
  by (simp add: clash_def)

lemma conflictsLocked_iff:
  "conflictsLocked used p ip port \<longleftrightarrow> (\<exists>k\<in>set used. clash k (mk_key p ip port))"
  by (auto simp: conflictsLocked_def clash_def list_ex_iff)

definition key_of :: "port_allocation \<Rightarrow> port_key" where
  "key_of al = mk_key (pa_Protocol al) (pa_HostIP al) (pa_HostPort al)"

lemma reserve_ok:
  assumes "allocator_ok a" and "normal_key (mk_key p ip port)"
    and "\<not> conflictsLocked (al_used a) p ip port"
  shows "allocator_ok (reserve p ip port a)"
    and "al_used (reserve p ip port a) = mk_key p ip port # al_used a"
proof -
  have new: "mk_key p ip port \<notin> set (al_used a)"
    using assms(3) by (auto simp: conflictsLocked_iff)
  then show eq: "al_used (reserve p ip port a) = mk_key p ip port # al_used a"
    by (simp add: reserve_def List.insert_def)
  show "allocator_ok (reserve p ip port a)"
    using assms new unfolding allocator_ok_def eq conflictsLocked_iff
    by (auto simp: clash_sym)
qed

text \<open>What a call of the allocator does: nothing but reserve one new key, or nothing at all.\<close>

definition alloc_effect :: "allocator \<Rightarrow> allocator \<Rightarrow> gerror + port_allocation \<Rightarrow> bool" where
  "alloc_effect a a' res \<longleftrightarrow> (case res of
     Inl e \<Rightarrow> a' = a
   | Inr al \<Rightarrow> normal_key (key_of al) \<and> \<not> (\<exists>k\<in>set (al_used a). clash k (key_of al))
       \<and> al_used a' = key_of al # al_used a \<and> al_attempts a' = al_attempts a \<and> allocator_ok a')"

lemma alloc_effect_reserve:
  assumes "allocator_ok a" and "normalizeProtocol p = Inr p" and "normalizeHostIP ip = ip"
    and "port \<noteq> 0" and "\<not> conflictsLocked (al_used a) p ip port"
  shows "alloc_effect a (reserve p ip port a) (Inr (mk_alloc p ip port))"
proof -
  have "normal_key (mk_key p ip port)" using assms(2-4) by (simp add: normal_key_def)
  with reserve_ok [OF assms(1) this assms(5)] assms(5) show ?thesis
    by (simp add: alloc_effect_def key_of_def conflictsLocked_iff) (simp add: reserve_def)
qed

lemma allocate_any_effect:
  assumes "allocator_ok a" and "normalizeProtocol p = Inr p" and "normalizeHostIP ip = ip"
    and "allocate_any probe n p ip a w = (a', w', res)"
  shows "alloc_effect a a' res"
  using assms(4)
proof (induction n arbitrary: w)
  case 0
  then show ?case by (auto simp: alloc_effect_def)
next
  case (Suc n)
  then show ?case
    by (auto simp: alloc_effect_def [of _ _ "Inl _"] intro!: alloc_effect_reserve [OF assms(1-3)]
        split: prod.splits sum.splits if_splits)
qed

lemma Allocate_effect:
  assumes ok: "allocator_ok a" and "Allocate probe p ip req a w = (a', w', res)"
  shows "alloc_effect a a' res"
proof (cases "normalizeProtocol p")
  case (Inl e)
  with assms show ?thesis by (auto simp: Allocate_def alloc_effect_def)
next
  case (Inr q)
  note q = normalizeProtocol_idem [OF Inr]
  show ?thesis
  proof (cases "req = 0")
    case True
    with Inr assms(2) allocate_any_effect [OF ok q normalizeHostIP_idem] show ?thesis
      by (auto simp: Allocate_def)
  next
    case False
    with Inr assms(2) show ?thesis
      by (auto simp: Allocate_def Let_def alloc_effect_def [of _ _ "Inl _"]
          intro!: alloc_effect_reserve [OF ok q normalizeHostIP_idem]
          split: prod.splits sum.splits if_splits)
  qed
qed

lemma Allocate_matches:
  assumes "Allocate probe p ip req a w = (a', w', Inr al)"
  shows "normalizeProtocol p = Inr (pa_Protocol al) \<and> pa_HostIP al = normalizeHostIP ip
    \<and> (req \<noteq> 0 \<longrightarrow> pa_HostPort al = req)"
proof -
  have any: "allocate_any probe n q i a w = (a', w', Inr al) \<Longrightarrow> pa_Protocol al = q \<and> pa_HostIP al = i"
    for n q i w
    by (induction n arbitrary: w) (auto split: prod.splits sum.splits if_splits)
  show ?thesis
    using assms any
    by (auto simp: Allocate_def Let_def split: prod.splits sum.splits if_splits)
qed

section \<open>Release\<close>

definition released :: "port_allocation \<Rightarrow> port_key option" where
  "released al = (case normalizeProtocol (pa_Protocol al) of Inl e \<Rightarrow> None
     | Inr p \<Rightarrow> Some (mk_key p (normalizeHostIP (pa_HostIP al)) (pa_HostPort al)))"

lemma Release_used:
  "Release als a = a\<lparr>al_used := filter (\<lambda>k. Some k \<notin> set (map released als)) (al_used a)\<rparr>"
proof (induction als arbitrary: a)
  case Nil
  then show ?case by simp
next
  case (Cons al als)
  show ?case
  proof (cases "normalizeProtocol (pa_Protocol al)")
    case (Inl e)
    then have "released al = None" by (simp add: released_def)
    with Inl Cons show ?thesis by simp
  next
    case (Inr p)
    define k0 where "k0 = mk_key p (normalizeHostIP (pa_HostIP al)) (pa_HostPort al)"
    have r: "released al = Some k0" using Inr by (simp add: released_def k0_def)
    have "filter (\<lambda>k. Some k \<notin> set (map released als)) (removeAll k0 xs)
        = filter (\<lambda>k. Some k \<notin> set (map released (al # als))) xs" for xs
      by (induction xs) (auto simp: r)
    with Inr Cons show ?thesis by (simp add: k0_def [symmetric] del: set_map)
  qed
qed

lemma released_normal: "normal_key (key_of al) \<Longrightarrow> released al = Some (key_of al)"
  by (simp add: normal_key_def key_of_def released_def)

lemma Release_ok: "allocator_ok a \<Longrightarrow> allocator_ok (Release als a)"
  by (auto simp: Release_used allocator_ok_def)

lemma Release_normal:
  assumes "\<forall>al\<in>set als. normal_key (key_of al)"
  shows "Release als a = a\<lparr>al_used := filter (\<lambda>k. k \<notin> set (map key_of als)) (al_used a)\<rparr>"
proof -
  have "map released als = map (Some \<circ> key_of) als"
    using assms by (auto simp: released_normal)
  then have "Some k \<notin> set (map released als) \<longleftrightarrow> k \<notin> set (map key_of als)" for k
    by auto
  then show ?thesis by (simp add: Release_used)
qed

section \<open>Reserving a list of bindings\<close>

definition matches :: "port_binding \<Rightarrow> port_allocation \<Rightarrow> bool" where
  "matches b al \<longleftrightarrow> normalizeProtocol (pb_Protocol b) = Inr (pa_Protocol al)
     \<and> pa_HostIP al = normalizeHostIP (pb_HostIP b) \<and> (pb_HostPort b \<noteq> 0 \<longrightarrow> pa_HostPort al = pb_HostPort b)"

text \<open>The allocator after the reservations \<open>allocs\<close> were added to those of \<open>a0\<close>.\<close>

definition extends :: "allocator \<Rightarrow> port_allocation list \<Rightarrow> allocator \<Rightarrow> bool" where
  "extends a0 allocs a \<longleftrightarrow> allocator_ok a \<and> a = a0\<lparr>al_used := rev (map key_of allocs) @ al_used a0\<rparr>
     \<and> (\<forall>al\<in>set allocs. normal_key (key_of al))"

lemma extends_Release:
  assumes "extends a0 allocs a"
  shows "Release allocs a = a0"
proof -
  have a: "a = a0\<lparr>al_used := rev (map key_of allocs) @ al_used a0\<rparr>" "distinct (al_used a)"
    and n: "\<forall>al\<in>set allocs. normal_key (key_of al)"
    using assms unfolding extends_def allocator_ok_def by blast+
  have "filter (\<lambda>k. k \<notin> set (map key_of allocs)) (rev (map key_of allocs)) = []"
    by (simp add: filter_empty_conv)
  moreover have "filter (\<lambda>k. k \<notin> set (map key_of allocs)) (al_used a0) = al_used a0"
    using a(2) unfolding a(1) by (intro filter_True) auto
  ultimately show ?thesis
    unfolding Release_normal [OF n] by (simp add: a(1))
qed

lemma extends_step:
  assumes "extends a0 allocs a" and "alloc_effect a a' (Inr al)"
  shows "extends a0 (allocs @ [al]) a'"
  using assms by (auto simp: extends_def alloc_effect_def)

lemma allocate_bindings_effect:
  assumes "allocate_bindings probe bs filled allocs a w = (a', w', res)" and "extends a0 allocs a"
  shows "case res of Inl e \<Rightarrow> a' = a0
    | Inr (filled', allocs') \<Rightarrow> extends a0 allocs' a' \<and>
       (\<exists>als. allocs' = allocs @ als \<and> list_all2 matches bs als
          \<and> filled' = filled @ map2 filled_binding bs als)"
  using assms
proof (induction bs arbitrary: filled allocs a w)
  case Nil
  then show ?case by auto
next
  case (Cons b bs)
  obtain a1 w1 r1 where r1: "Allocate probe (pb_Protocol b) (pb_HostIP b) (pb_HostPort b) a w = (a1, w1, r1)"
    by (cases "Allocate probe (pb_Protocol b) (pb_HostIP b) (pb_HostPort b) a w") auto
  have eff: "alloc_effect a a1 r1"
    by (rule Allocate_effect [OF _ r1]) (use Cons.prems(2) extends_def in blast)
  show ?case
  proof (cases r1)
    case (Inl e)
    with Cons.prems r1 eff extends_Release [OF Cons.prems(2)] show ?thesis
      by (auto simp: alloc_effect_def)
  next
    case (Inr al)
    have "matches b al" using Allocate_matches r1 Inr by (simp add: matches_def)
    moreover have "extends a0 (allocs @ [al]) a1"
      using extends_step Cons.prems(2) eff Inr by blast
    moreover have "allocate_bindings probe bs (filled @ [filled_binding b al]) (allocs @ [al]) a1 w1 = (a', w', res)"
      using Cons.prems(1) r1 Inr by simp
    ultimately show ?thesis
      using Cons.IH [of "filled @ [filled_binding b al]" "allocs @ [al]" a1 w1]
      by (auto split: sum.splits)
  qed
qed

lemma extends_refl: "allocator_ok a \<Longrightarrow> extends a [] a"
  by (simp add: extends_def)

lemma AllocateBindings_effect:
  assumes "allocator_ok a" and "AllocateBindings probe bs a w = (a', w', res)"
  shows "case res of Inl e \<Rightarrow> a' = a
    | Inr (filled, allocs) \<Rightarrow> extends a allocs a' \<and> list_all2 matches bs allocs
        \<and> filled = map2 filled_binding bs allocs"
  using allocate_bindings_effect [OF assms(2) [unfolded AllocateBindings_def] extends_refl [OF assms(1)]]
  by (auto split: sum.splits)

section \<open>The contract\<close>

text \<open>
  What the application layer relies on: reservations never clash, a failed call leaves them as they
  were, a successful one adds exactly the returned ones, and releasing removes exactly the named
  ones.
\<close>

locale port_reservation =
  fixes inv :: "'s \<Rightarrow> bool"
    and reserved :: "'s \<Rightarrow> port_key set"
    and allocate :: "port_binding list \<Rightarrow> 's \<Rightarrow> 's \<times> (gerror + (port_binding list \<times> port_allocation list))"
    and release :: "port_allocation list \<Rightarrow> 's \<Rightarrow> 's"
  assumes clash_free: "inv s \<Longrightarrow> k \<in> reserved s \<Longrightarrow> l \<in> reserved s \<Longrightarrow> clash k l \<Longrightarrow> k = l"
    and normal: "inv s \<Longrightarrow> k \<in> reserved s \<Longrightarrow> normal_key k"
    and allocate_inv: "inv s \<Longrightarrow> allocate bs s = (s', res) \<Longrightarrow> inv s'"
    and allocate_fail: "inv s \<Longrightarrow> allocate bs s = (s', Inl e) \<Longrightarrow> reserved s' = reserved s"
    and allocate_new: "inv s \<Longrightarrow> allocate bs s = (s', Inr (filled, als)) \<Longrightarrow>
      reserved s' = reserved s \<union> set (map key_of als) \<and> reserved s \<inter> set (map key_of als) = {}
      \<and> filled = map2 filled_binding bs als \<and> list_all2 matches bs als"
    and release_inv: "inv s \<Longrightarrow> inv (release als s)"
    and release_only: "inv s \<Longrightarrow> set (map key_of als) \<subseteq> reserved s \<Longrightarrow>
      reserved (release als s) = reserved s - set (map key_of als)"
begin

lemma allocate_release:
  assumes "inv s" and "allocate bs s = (s', Inr (filled, als))"
  shows "reserved (release als s') = reserved s"
  using allocate_new [OF assms] release_only [OF allocate_inv [OF assms], of als] by auto

lemma allocate_concrete:
  assumes "inv s" and "allocate bs s = (s', Inr (filled, als))"
  shows "length filled = length bs \<and> (\<forall>b\<in>set filled. pb_HostPort b \<noteq> 0)"
proof -
  note new = allocate_new [OF assms]
  have len: "length als = length bs" using new list_all2_lengthD by fastforce
  have "pb_HostPort b \<noteq> 0" if "b \<in> set filled" for b
  proof -
    from that new obtain b0 al where b: "al \<in> set als" "b = filled_binding b0 al"
      by (auto dest: set_zip_rightD)
    with new have "key_of al \<in> reserved s'" by auto
    from normal [OF allocate_inv [OF assms] this] b show ?thesis
      by (simp add: normal_key_def key_of_def filled_binding_def)
  qed
  with new len show ?thesis by simp
qed

end

definition allocate_step :: "'w probe \<Rightarrow> port_binding list \<Rightarrow> allocator \<times> 'w \<Rightarrow>
    (allocator \<times> 'w) \<times> (gerror + (port_binding list \<times> port_allocation list))" where
  "allocate_step probe bs s = (case AllocateBindings probe bs (fst s) (snd s) of
     (a', w', res) \<Rightarrow> ((a', w'), res))"

definition release_step :: "port_allocation list \<Rightarrow> allocator \<times> 'w \<Rightarrow> allocator \<times> 'w" where
  "release_step als s = (Release als (fst s), snd s)"

lemma extends_reserved:
  assumes "extends a als a'"
  shows "set (al_used a') = set (al_used a) \<union> set (map key_of als)"
    and "set (al_used a) \<inter> set (map key_of als) = {}" and "allocator_ok a'"
proof -
  have a: "a' = a\<lparr>al_used := rev (map key_of als) @ al_used a\<rparr>" and ok: "allocator_ok a'"
    using assms extends_def by blast+
  then show "set (al_used a') = set (al_used a) \<union> set (map key_of als)" by auto
  have "distinct (rev (map key_of als) @ al_used a)"
    using ok unfolding allocator_ok_def a by simp
  then show "set (al_used a) \<inter> set (map key_of als) = {}" by auto
  show "allocator_ok a'" by (fact ok)
qed

interpretation alloc: port_reservation "\<lambda>s. allocator_ok (fst s)" "\<lambda>s. set (al_used (fst s))"
  "allocate_step probe" release_step for probe :: "'w probe"
proof unfold_locales
  fix s :: "allocator \<times> 'w"
  assume ok: "allocator_ok (fst s)"
  show "k \<in> set (al_used (fst s)) \<Longrightarrow> l \<in> set (al_used (fst s)) \<Longrightarrow> clash k l \<Longrightarrow> k = l"
    and "k \<in> set (al_used (fst s)) \<Longrightarrow> normal_key k" for k l
    using ok by (auto simp: allocator_ok_def)
  fix bs als s'
  show "allocate_step probe bs s = (s', res) \<Longrightarrow> allocator_ok (fst s')" for res
    using AllocateBindings_effect [OF ok, of probe bs "snd s"] ok extends_reserved(3)
    by (auto simp: allocate_step_def split: prod.splits sum.splits)
  show "allocate_step probe bs s = (s', Inl e) \<Longrightarrow> set (al_used (fst s')) = set (al_used (fst s))" for e
    using AllocateBindings_effect [OF ok, of probe bs "snd s"]
    by (auto simp: allocate_step_def split: prod.splits)
  show "allocate_step probe bs s = (s', Inr (filled, als)) \<Longrightarrow>
      set (al_used (fst s')) = set (al_used (fst s)) \<union> set (map key_of als)
      \<and> set (al_used (fst s)) \<inter> set (map key_of als) = {}
      \<and> filled = map2 filled_binding bs als \<and> list_all2 matches bs als" for filled
    using AllocateBindings_effect [OF ok, of probe bs "snd s"] extends_reserved(1,2)
    by (fastforce simp: allocate_step_def split: prod.splits)
  show "allocator_ok (fst (release_step als s))"
    using Release_ok [OF ok] by (simp add: release_step_def)
  show "set (map key_of als) \<subseteq> set (al_used (fst s)) \<Longrightarrow>
      set (al_used (fst (release_step als s))) = set (al_used (fst s)) - set (map key_of als)"
  proof -
    assume sub: "set (map key_of als) \<subseteq> set (al_used (fst s))"
    then have "\<forall>al\<in>set als. normal_key (key_of al)"
      using ok by (auto simp: allocator_ok_def)
    from Release_normal [OF this, of "fst s"] show ?thesis
      by (auto simp: release_step_def)
  qed
qed

section \<open>Properties\<close>

text \<open>
  A history of the allocator: calls with whatever the probe answers. Beside the allocator it keeps
  the list of the reservations that were handed out and not given back, one entry for each time a
  caller was told that it has a port.
\<close>

datatype port_op = OpAllocate string string u16 | OpBindings "port_binding list"
  | OpRelease "port_allocation list"

fun port_step :: "'w probe \<Rightarrow> port_op \<Rightarrow> (allocator \<times> 'w) \<times> port_allocation list \<Rightarrow> (allocator \<times> 'w) \<times> port_allocation list" where
  "port_step probe (OpAllocate p ip req) ((a, w), held) = (case Allocate probe p ip req a w of
     (a', w', Inl e) \<Rightarrow> ((a', w'), held) | (a', w', Inr al) \<Rightarrow> ((a', w'), held @ [al]))"
| "port_step probe (OpBindings bs) ((a, w), held) = (case AllocateBindings probe bs a w of
     (a', w', Inl e) \<Rightarrow> ((a', w'), held) | (a', w', Inr (filled, als)) \<Rightarrow> ((a', w'), held @ als))"
| "port_step probe (OpRelease als) ((a, w), held) =
     ((Release als a, w), filter (\<lambda>al. released al \<notin> set (map released als)) held)"

definition held_ok :: "(allocator \<times> 'w) \<times> port_allocation list \<Rightarrow> bool" where
  "held_ok s \<longleftrightarrow> allocator_ok (fst (fst s)) \<and> al_used (fst (fst s)) = rev (map key_of (snd s))"

lemma held_normal: "held_ok s \<Longrightarrow> al \<in> set (snd s) \<Longrightarrow> normal_key (key_of al)"
  by (auto simp: held_ok_def allocator_ok_def)

lemma port_step_ok:
  assumes "held_ok s"
  shows "held_ok (port_step probe op s)"
proof -
  obtain a w held where s: "s = ((a, w), held)" by (metis prod.collapse)
  with assms have a: "allocator_ok a" and u: "al_used a = rev (map key_of held)" by (simp_all add: held_ok_def)
  show ?thesis
  proof (cases op)
    case (OpAllocate p ip req)
    obtain a1 w1 r1 where r: "Allocate probe p ip req a w = (a1, w1, r1)"
      by (cases "Allocate probe p ip req a w") auto
    with Allocate_effect [OF a r] OpAllocate a u show ?thesis
      by (cases r1) (simp_all add: s held_ok_def alloc_effect_def)
  next
    case (OpBindings bs)
    obtain a1 w1 r1 where r: "AllocateBindings probe bs a w = (a1, w1, r1)"
      by (cases "AllocateBindings probe bs a w") auto
    with AllocateBindings_effect [OF a r] OpBindings a u show ?thesis
      by (cases r1) (auto simp: s held_ok_def extends_def)
  next
    case (OpRelease als)
    have "released al = Some (key_of al)" if "al \<in> set held" for al
      using released_normal [OF held_normal [OF assms]] that by (simp add: s)
    then have "filter (\<lambda>al. released al \<notin> set (map released als)) held = filter (\<lambda>al. Some (key_of al) \<notin> set (map released als)) held"
      by (intro filter_cong) simp_all
    moreover have "al_used (Release als a) = rev (map key_of (filter (\<lambda>al. Some (key_of al) \<notin> set (map released als)) held))"
      by (simp add: Release_used u rev_filter [symmetric] filter_map comp_def del: set_map)
    ultimately show ?thesis using OpRelease Release_ok [OF a, of als] by (simp add: s held_ok_def del: set_map)
  qed
qed

lemma port_history_ok: "held_ok s \<Longrightarrow> held_ok (fold (port_step probe) ops s)"
  by (induction ops arbitrary: s) (simp_all add: port_step_ok)

lemma held_clash_free:
  assumes "held_ok s"
  shows "sorted_wrt (\<lambda>x y. \<not> clash (key_of x) (key_of y)) (snd s)"
proof -
  have d: "distinct (map key_of (snd s))" and c: "\<And>x y. x \<in> set (snd s) \<Longrightarrow> y \<in> set (snd s) \<Longrightarrow> clash (key_of x) (key_of y) \<Longrightarrow> key_of x = key_of y"
    using assms unfolding held_ok_def allocator_ok_def by (metis distinct_rev, force)
  show ?thesis
    unfolding sorted_wrt_iff_nth_less
  proof (intro allI impI notI)
    fix i j
    assume ij: "i < j" "j < length (snd s)" and "clash (key_of (snd s ! i)) (key_of (snd s ! j))"
    then have "map key_of (snd s) ! i = map key_of (snd s) ! j" using c by simp
    with nth_eq_iff_index_eq [OF d, of i j] ij show False by simp
  qed
qed

lemma NewPortAllocator_ok: "allocator_ok NewPortAllocator"
  by (simp add: allocator_ok_def NewPortAllocator_def)

text \<open>
  C3: no host port is ever handed out twice: after any history of reservations and releases,
  whatever the operating system's probe answers, no two of the reservations that were handed out and
  not given back (two grants of the very same port included) share a protocol and a port on
  addresses that overlap (the same address, or one of them the wildcard), none of them is port zero,
  and the table of the allocator lists exactly them.
\<close>

theorem port_allocator_clash_free:
  "(case fold (port_step probe) ops ((NewPortAllocator, w), []) of ((a, w'), held) \<Rightarrow>
     sorted_wrt (\<lambda>x y. \<not> clash (key_of x) (key_of y)) held \<and> list_all (\<lambda>al. pa_HostPort al \<noteq> 0) held
     \<and> set (al_used a) = key_of ` set held)"
proof -
  have ok: "held_ok (fold (port_step probe) ops ((NewPortAllocator, w), []))"
    by (rule port_history_ok) (simp add: held_ok_def NewPortAllocator_ok, simp add: NewPortAllocator_def)
  obtain a w' held where s: "fold (port_step probe) ops ((NewPortAllocator, w), []) = ((a, w'), held)"
    by (metis prod.collapse)
  have "list_all (\<lambda>al. pa_HostPort al \<noteq> 0) held"
    using held_normal [OF ok] by (auto simp: s list_all_iff normal_key_def key_of_def)
  with held_clash_free [OF ok] ok show ?thesis by (simp add: s held_ok_def)
qed

definition sample_probe :: "nat probe" where
  "sample_probe p ip req w = (Suc w, Inr (if req = 0 then 40000 + word_of_nat w else req))"

definition sample_ops :: "port_op list" where
  "sample_ops = [OpAllocate ''tcp'' ''0.0.0.0'' 8080, OpAllocate ''tcp'' ''0.0.0.0'' 8080, OpAllocate ''TCP'' ''127.0.0.1'' 8080,
     OpAllocate ''udp'' [] 0]"

theorem port_allocator_clash_free_witness:
  "snd (fold (port_step sample_probe) sample_ops ((NewPortAllocator, 0), [])) = [mk_alloc ''tcp'' ''0.0.0.0'' 8080, mk_alloc ''udp'' ''0.0.0.0'' 40001]
   \<and> \<not> clash (mk_key ''tcp'' ''0.0.0.0'' 8080) (mk_key ''udp'' ''0.0.0.0'' 40001)"
proof -
  have u: "snd (fold (port_step sample_probe) sample_ops ((NewPortAllocator, 0), [])) = [mk_alloc ''tcp'' ''0.0.0.0'' 8080, mk_alloc ''udp'' ''0.0.0.0'' 40001]"
    by code_simp
  with port_allocator_clash_free [of sample_probe sample_ops 0] show ?thesis
    by (auto simp: key_of_def split: prod.splits)
qed

text \<open>
  Reserving the ports of a container is all or nothing: when one binding cannot be reserved the
  allocator is exactly as it was before, and otherwise every binding got a concrete host port (the
  requested one where it asked for one) on its normalized address and protocol, keeping its
  container port, all of them reserved now and none before; releasing them restores the allocator.
\<close>

theorem AllocateBindings_all_or_nothing:
  assumes "allocator_ok a" and "AllocateBindings probe bs a w = (a', w', res)"
  shows "case res of
      Inl e \<Rightarrow> a' = a
    | Inr (filled, allocs) \<Rightarrow>
        allocator_ok a' \<and> list_all2 matches bs allocs
        \<and> filled = map2 filled_binding bs allocs \<and> (\<forall>b\<in>set filled. pb_HostPort b \<noteq> 0)
        \<and> set (al_used a') = set (al_used a) \<union> set (map key_of allocs)
        \<and> set (al_used a) \<inter> set (map key_of allocs) = {}
        \<and> Release allocs a' = a"
proof (cases res)
  case (Inl e)
  with AllocateBindings_effect [OF assms] show ?thesis by simp
next
  case (Inr r)
  obtain filled allocs where r: "r = (filled, allocs)" by (cases r)
  have ext: "extends a allocs a'" "list_all2 matches bs allocs" "filled = map2 filled_binding bs allocs"
    using AllocateBindings_effect [OF assms] Inr r by auto
  have "allocate_step probe bs (a, w) = ((a', w'), Inr (filled, allocs))"
    using assms(2) Inr r by (simp add: allocate_step_def)
  from alloc.allocate_concrete [OF _ this] assms(1) have "\<forall>b\<in>set filled. pb_HostPort b \<noteq> 0"
    by simp
  with ext extends_reserved [OF ext(1)] extends_Release [OF ext(1)] show ?thesis
    by (simp add: Inr r)
qed

text \<open>
  Reserved bindings are what CNI and a later attach need: the port mappings of the filled
  bindings can be built when no container port is zero, and adopting the filled bindings returns
  the same reservations.
\<close>

theorem reserved_bindings_usable:
  assumes "allocator_ok a" and "AllocateBindings probe bs a w = (a', w', Inr (filled, allocs))"
    and "list_all (\<lambda>b. pb_ContainerPort b \<noteq> 0) bs"
  shows "AdoptBindings filled a' = Inr allocs
    \<and> BuildPortMappings filled = Inr (map2 (\<lambda>b al. \<lparr>pm_HostPort = int (unat (pa_HostPort al)),
        pm_ContainerPort = int (unat (pb_ContainerPort b)), pm_Protocol = pa_Protocol al,
        pm_HostIP = pa_HostIP al\<rparr>) bs allocs)"
proof -
  have ext: "extends a allocs a'" "list_all2 matches bs allocs" "filled = map2 filled_binding bs allocs"
    using AllocateBindings_effect [OF assms(1,2)] by auto
  have n: "normal_key (key_of al) \<and> key_of al \<in> set (al_used a')" if "al \<in> set allocs" for al
    using that extends_reserved(1,3) [OF ext(1)] by (auto simp: allocator_ok_def)
  have one: "adopt_one a' (filled_binding b al) = Inr al"
    "pb_ContainerPort b \<noteq> 0 \<Longrightarrow> build_mapping (filled_binding b al)
      = Inr \<lparr>pm_HostPort = int (unat (pa_HostPort al)), pm_ContainerPort = int (unat (pb_ContainerPort b)),
          pm_Protocol = pa_Protocol al, pm_HostIP = pa_HostIP al\<rparr>" if "al \<in> set allocs" for b al
    using n [OF that]
    by (simp_all add: adopt_one_def build_mapping_def filled_binding_def normal_key_def key_of_def)
  have len: "length bs = length allocs" using ext(2) by (rule list_all2_lengthD)
  show ?thesis
    unfolding AdoptBindings_def BuildPortMappings_def ext(3) mapM_Inr_iff list_all2_conv_all_nth
    using len one assms(3) by (auto simp: list_all_length)
qed

definition sample_bindings :: "port_binding list" where
  "sample_bindings = [\<lparr>pb_ContainerPort = 80, pb_Protocol = ''tcp'', pb_HostIP = [], pb_HostPort = 8080\<rparr>,
     \<lparr>pb_ContainerPort = 53, pb_Protocol = ''udp'', pb_HostIP = ''127.0.0.1'', pb_HostPort = 0\<rparr>]"

definition sample_filled :: "port_binding list" where
  "sample_filled = [\<lparr>pb_ContainerPort = 80, pb_Protocol = ''tcp'', pb_HostIP = ''0.0.0.0'', pb_HostPort = 8080\<rparr>,
     \<lparr>pb_ContainerPort = 53, pb_Protocol = ''udp'', pb_HostIP = ''127.0.0.1'', pb_HostPort = 40001\<rparr>]"

definition sample_allocs :: "port_allocation list" where
  "sample_allocs = [mk_alloc ''tcp'' ''0.0.0.0'' 8080, mk_alloc ''udp'' ''127.0.0.1'' 40001]"

definition sample_allocated :: allocator where
  "sample_allocated = fst (AllocateBindings sample_probe sample_bindings NewPortAllocator 0)"

lemma sample_AllocateBindings:
  "AllocateBindings sample_probe sample_bindings NewPortAllocator 0
    = (sample_allocated, 2, Inr (sample_filled, sample_allocs))"
  by code_simp

theorem AllocateBindings_all_or_nothing_witness:
  "Release sample_allocs sample_allocated = NewPortAllocator
   \<and> list_all (\<lambda>b. pb_HostPort b \<noteq> 0) sample_filled"
  using AllocateBindings_all_or_nothing [OF NewPortAllocator_ok sample_AllocateBindings]
  by (simp add: list_all_iff)

theorem reserved_bindings_usable_witness:
  "AdoptBindings sample_filled sample_allocated = Inr sample_allocs"
  using reserved_bindings_usable [OF NewPortAllocator_ok sample_AllocateBindings]
  by (simp add: sample_bindings_def)

end
