(* ===== verification/Go_Binary.thy ===== *)
theory Go_Binary
  imports Prelude
begin

text \<open>
  \<^verbatim>\<open>encoding/binary\<close> as far as the daemon uses it: 32-bit words in big-endian order, for
  frame sizes and IPv4 addresses.
\<close>

type_synonym bytes = "byte list"

section \<open>Big-endian sizes\<close>

unbundle bit_operations_syntax

definition PutUint32 :: "u32 \<Rightarrow> bytes" where
  "PutUint32 v = [ucast (drop_bit 24 v), ucast (drop_bit 16 v), ucast (drop_bit 8 v), ucast v]"

definition Uint32 :: "bytes \<Rightarrow> u32" where
  "Uint32 bs = (case bs of
     b0 # b1 # b2 # b3 # _ \<Rightarrow>
       ucast b3 OR push_bit 8 (ucast b2) OR push_bit 16 (ucast b1) OR push_bit 24 (ucast b0)
   | _ \<Rightarrow> 0)"

lemma length_PutUint32 [simp]: "length (PutUint32 v) = 4"
  by (simp add: PutUint32_def)

lemma Uint32_PutUint32 [simp]: "Uint32 (PutUint32 v @ bs) = v"
proof -
  have "bit (Uint32 (PutUint32 v @ bs)) n \<longleftrightarrow> bit v n" if n: "n < 32" for n
  proof -
    consider "n < 8" | "8 \<le> n" "n < 16" | "16 \<le> n" "n < 24" | "24 \<le> n" "n < 32"
      using n by linarith
    then show ?thesis
      by cases (auto simp: Uint32_def PutUint32_def bit_simps)
  qed
  then show ?thesis by (intro bit_word_eqI) simp
qed

end
