(* ===== verification/Go_Sha256.thy ===== *)
theory Go_Sha256
  imports Go_Binary Go_Strings
begin

text \<open>
  \<^verbatim>\<open>crypto/sha256\<close> and \<^verbatim>\<open>encoding/hex\<close>: the digest the daemon derives network and
  bridge names from. Messages are shorter than \<open>2 ^ 32\<close> bits, so the upper half of the length
  field is zero.
\<close>

unbundle bit_operations_syntax

definition sha_k :: "u32 list" where
  "sha_k = [
    1116352408, 1899447441, 3049323471, 3921009573, 961987163, 1508970993, 2453635748, 2870763221,
    3624381080, 310598401, 607225278, 1426881987, 1925078388, 2162078206, 2614888103, 3248222580,
    3835390401, 4022224774, 264347078, 604807628, 770255983, 1249150122, 1555081692, 1996064986,
    2554220882, 2821834349, 2952996808, 3210313671, 3336571891, 3584528711, 113926993, 338241895,
    666307205, 773529912, 1294757372, 1396182291, 1695183700, 1986661051, 2177026350, 2456956037,
    2730485921, 2820302411, 3259730800, 3345764771, 3516065817, 3600352804, 4094571909, 275423344,
    430227734, 506948616, 659060556, 883997877, 958139571, 1322822218, 1537002063, 1747873779,
    1955562222, 2024104815, 2227730452, 2361852424, 2428436474, 2756734187, 3204031479, 3329325298]"

definition sha_init :: "u32 list" where
  "sha_init = [0x6a09e667, 0xbb67ae85, 0x3c6ef372, 0xa54ff53a, 0x510e527f, 0x9b05688c, 0x1f83d9ab, 0x5be0cd19]"

definition rotr :: "nat \<Rightarrow> u32 \<Rightarrow> u32" where
  "rotr n x = drop_bit n x OR push_bit (32 - n) x"

text \<open>One round on the working variables, and the message schedule of a block.\<close>

definition sha_round :: "u32 list \<Rightarrow> u32 \<times> u32 \<Rightarrow> u32 list" where
  "sha_round v kw = (case v of [a, b, c, d, e, f, g, h] \<Rightarrow>
     let s1 = rotr 6 e XOR rotr 11 e XOR rotr 25 e;
         ch = (e AND f) XOR (NOT e AND g);
         t1 = h + s1 + ch + fst kw + snd kw;
         s0 = rotr 2 a XOR rotr 13 a XOR rotr 22 a;
         maj = (a AND b) XOR (a AND c) XOR (b AND c)
     in [t1 + (s0 + maj), a, b, c, d + t1, e, f, g]
   | _ \<Rightarrow> v)"

fun schedule :: "nat \<Rightarrow> u32 list \<Rightarrow> u32 list" where
  "schedule 0 ws = ws"
| "schedule (Suc n) ws =
    (let i = length ws; w15 = ws ! (i - 15); w2 = ws ! (i - 2);
         s0 = rotr 7 w15 XOR rotr 18 w15 XOR drop_bit 3 w15;
         s1 = rotr 17 w2 XOR rotr 19 w2 XOR drop_bit 10 w2
     in schedule n (ws @ [ws ! (i - 16) + s0 + ws ! (i - 7) + s1]))"

fun words_of :: "bytes \<Rightarrow> u32 list" where
  "words_of (a # b # c # d # bs) = Uint32 [a, b, c, d] # words_of bs"
| "words_of bs = []"

definition sha_block :: "u32 list \<Rightarrow> bytes \<Rightarrow> u32 list" where
  "sha_block h block = map2 (+) h (foldl sha_round h (zip sha_k (schedule 48 (words_of block))))"

definition sha_pad :: "bytes \<Rightarrow> bytes" where
  "sha_pad m = m @ [0x80] @ replicate ((119 - length m mod 64) mod 64) 0
     @ replicate 4 0 @ PutUint32 (word_of_nat (8 * length m))"

fun sha_blocks :: "nat \<Rightarrow> u32 list \<Rightarrow> bytes \<Rightarrow> u32 list" where
  "sha_blocks 0 h m = h"
| "sha_blocks (Suc n) h m = sha_blocks n (sha_block h (take 64 m)) (drop 64 m)"

definition sha256 :: "string \<Rightarrow> bytes" where
  "sha256 s = (let m = sha_pad (map (\<lambda>c. word_of_nat (of_char c)) s)
     in concat (map PutUint32 (sha_blocks (length m div 64) sha_init m)))"

definition hex_encode :: "bytes \<Rightarrow> string" where
  "hex_encode bs = concat (map (\<lambda>b. [hex_digit (unat b div 16), hex_digit (unat b mod 16)]) bs)"

definition sha256_hex :: "string \<Rightarrow> string" where
  "sha256_hex s = hex_encode (sha256 s)"

lemma length_hex_encode [simp]: "length (hex_encode bs) = 2 * length bs"
  by (induction bs) (simp_all add: hex_encode_def)

lemma sha_round_length: "length (sha_round v kw) = length v"
  by (auto simp: sha_round_def Let_def split: list.split)

lemma length_sha_block: "length h = 8 \<Longrightarrow> length (sha_block h b) = 8"
proof -
  assume h: "length h = 8"
  have "length (foldl sha_round v kws) = length v" for v kws
    by (induction kws arbitrary: v) (simp_all add: sha_round_length)
  with h show ?thesis by (simp add: sha_block_def)
qed

lemma length_sha256_hex: "length (sha256_hex s) = 64"
proof -
  have "length h = 8 \<Longrightarrow> length (sha_blocks n h m) = 8" for n h m
    by (induction n arbitrary: h m) (simp_all add: length_sha_block)
  then have "length (sha_blocks n sha_init m) = 8" for n m
    by (simp add: sha_init_def)
  moreover have "length (concat (map PutUint32 ws)) = 4 * length ws" for ws
    by (induction ws) simp_all
  ultimately show ?thesis by (simp add: sha256_hex_def sha256_def Let_def)
qed

lemma sha256_hex_nonempty [simp]: "sha256_hex s \<noteq> []"
  using length_sha256_hex [of s] by auto

end
