(* ===== verification/Cni_Config.thy ===== *)
theory Cni_Config
  imports Port_Allocator Go_Sha256
begin

text \<open>
  \<^verbatim>\<open>internal/adapters/cni/networkconfig.go\<close>: the network configuration files the daemon
  writes, the names it derives, and the choice of a subnet for a new network. A configuration file
  is the document it decodes to: encoding and decoding the same Go struct with
  \<^verbatim>\<open>encoding/json\<close> is taken as the identity, and a file that does not decode is a value of
  its own.
\<close>

section \<open>Documents\<close>

record range_item =
  ri_Subnet :: string
  ri_Gateway :: string

record ipam_config =
  ic_Type :: string
  ic_Ranges :: "range_item list list"
  ic_Gateway :: string
  ic_Routes :: "string list"
  ic_DataDir :: string

record plugin_config =
  pc_Type :: string
  pc_Bridge :: string
  pc_IsGateway :: bool
  pc_IPMasq :: bool
  pc_HairpinMode :: bool
  pc_Capabilities :: "(string, bool) gomap"
  pc_IPAM :: "ipam_config option"

record network_config_file =
  nf_CNIVersion :: string
  nf_Name :: string
  nf_DockerdlessID :: string
  nf_DockerdlessLabels :: "(string, string) gomap"
  nf_Plugins :: "plugin_config list"

datatype conf_file = Document network_config_file | NotJSON gerror | Unreadable gerror

type_synonym conf_files = "(string, conf_file) gomap"

datatype net_mode = ModeHost | ModeNone | ModeNetwork

record network =
  nw_ID :: network_id
  nw_Name :: string
  nw_Driver :: string
  nw_Mode :: net_mode
  nw_File :: string
  nw_Bridge :: string
  nw_Subnet :: string
  nw_Gateway :: string
  nw_Labels :: "(string, string) gomap"

abbreviation driverBridge :: string where "driverBridge \<equiv> ''bridge''"
abbreviation DefaultNetworkName :: string where "DefaultNetworkName \<equiv> ''bridge''"

section \<open>Names\<close>

definition networkIDForName :: "string \<Rightarrow> network_id" where
  "networkIDForName name = sha256_hex (''dockerdless-network:'' @ name)"

definition bridgeInterfaceName :: "string \<Rightarrow> string" where
  "bridgeInterfaceName name = ''dls'' @ take 10 (sha256_hex (''dockerdless-bridge:'' @ name))"

text \<open>The pattern as its error message shows it; the backslash-free text of the regular expression.\<close>

definition name_pattern_text :: string where
  "name_pattern_text = ''^[a-zA-Z0-9][a-zA-Z0-9_.-]*$''"

definition validateNetworkName :: "string \<Rightarrow> gerror option" where
  "validateNetworkName name =
    (if name = [] then Some (wrap_post (Sentinel (Cni ErrInvalidNetworkName)) '': name must not be empty'')
     else if length name > 128
     then Some (wrap_post (Sentinel (Cni ErrInvalidNetworkName)) ('': '' @ quote name @ '' exceeds 128 characters''))
     else if \<not> match_name name
     then Some (wrap_post (Sentinel (Cni ErrInvalidNetworkName))
            ('': '' @ quote name @ '' must match '' @ name_pattern_text))
     else None)"

definition isReservedNetworkName :: "string \<Rightarrow> bool" where
  "isReservedNetworkName name \<longleftrightarrow> ToLower name = ''host'' \<or> ToLower name = ''none''"

text \<open>\<^verbatim>\<open>filepath.Join\<close> of a clean directory and a name without a slash.\<close>

definition networkFilePath :: "string \<Rightarrow> string \<Rightarrow> string" where
  "networkFilePath confDir name = confDir @ ''/'' @ ''dockerdless-'' @ name @ ''.conflist''"

definition path_base :: "string \<Rightarrow> string" where
  "path_base p = rev (takeWhile (\<lambda>c. c \<noteq> CHR ''/'') (rev p))"

section \<open>Building and reading a configuration\<close>

definition buildBridgeNetworkConfig ::
  "string \<Rightarrow> string \<Rightarrow> string \<Rightarrow> string \<Rightarrow> (string, string) gomap \<Rightarrow> gerror + network_config_file" where
  "buildBridgeNetworkConfig name subnet gateway ipamDataDir labels =
    (if subnet = [] \<or> gateway = []
     then Inl (NewErr ''cni: bridge network requires a subnet and gateway'')
     else Inr \<lparr>nf_CNIVersion = ''1.0.0'', nf_Name = name, nf_DockerdlessID = networkIDForName name,
       nf_DockerdlessLabels = labels,
       nf_Plugins =
        [\<lparr>pc_Type = driverBridge, pc_Bridge = bridgeInterfaceName name, pc_IsGateway = True,
          pc_IPMasq = True, pc_HairpinMode = True, pc_Capabilities = [],
          pc_IPAM = Some \<lparr>ic_Type = ''host-local'',
            ic_Ranges = [[\<lparr>ri_Subnet = subnet, ri_Gateway = gateway\<rparr>]], ic_Gateway = gateway,
            ic_Routes = [''0.0.0.0/0''], ic_DataDir = ipamDataDir\<rparr>\<rparr>,
         \<lparr>pc_Type = ''portmap'', pc_Bridge = [], pc_IsGateway = False, pc_IPMasq = False,
          pc_HairpinMode = False, pc_Capabilities = [(''portMappings'', True)], pc_IPAM = None\<rparr>,
         \<lparr>pc_Type = ''firewall'', pc_Bridge = [], pc_IsGateway = False, pc_IPMasq = False,
          pc_HairpinMode = False, pc_Capabilities = [], pc_IPAM = None\<rparr>]\<rparr>)"

text \<open>The loop over the plugins: it ends at the first one with a bridge.\<close>

fun scan_plugins :: "plugin_config list \<Rightarrow> network \<Rightarrow> network" where
  "scan_plugins [] n = n"
| "scan_plugins (p # ps) n =
    (if pc_Type p \<noteq> [] \<and> pc_Bridge p = [] then scan_plugins ps (n\<lparr>nw_Driver := pc_Type p\<rparr>)
     else if pc_Bridge p = [] then scan_plugins ps n
     else
       let n1 = n\<lparr>nw_Driver := driverBridge, nw_Bridge := pc_Bridge p\<rparr> in
       case pc_IPAM p of None \<Rightarrow> n1
       | Some i \<Rightarrow>
           let n2 = n1\<lparr>nw_Gateway := ic_Gateway i\<rparr> in
           (case ic_Ranges i of
              (r # rs) # _ \<Rightarrow>
                let n3 = n2\<lparr>nw_Subnet := ri_Subnet r\<rparr> in
                if nw_Gateway n3 = [] then n3\<lparr>nw_Gateway := ri_Gateway r\<rparr> else n3
            | _ \<Rightarrow> n2))"

definition parseNetworkFile :: "conf_files \<Rightarrow> string \<Rightarrow> gerror + network" where
  "parseNetworkFile files path = (case get files path of
     None \<Rightarrow> Inl (wrap_pre (''cni: reading '' @ quote path @ '': '') (NewErr ''no such file or directory''))
   | Some (Unreadable e) \<Rightarrow> Inl (wrap_pre (''cni: reading '' @ quote path @ '': '') e)
   | Some (NotJSON e) \<Rightarrow> Inl (wrap_pre (''cni: parsing '' @ quote path @ '': '') e)
   | Some (Document raw) \<Rightarrow>
       if nf_Name raw = [] then Inl (NewErr (''cni: parsing '' @ quote path @ '': missing network name''))
       else Inr (scan_plugins (nf_Plugins raw)
         \<lparr>nw_ID = (if nf_DockerdlessID raw = [] then networkIDForName (nf_Name raw) else nf_DockerdlessID raw),
          nw_Name = nf_Name raw, nw_Driver = driverBridge, nw_Mode = ModeNetwork, nw_File = path,
          nw_Bridge = [], nw_Subnet = [], nw_Gateway = [], nw_Labels = nf_DockerdlessLabels raw\<rparr>))"

section \<open>Subnets\<close>

text \<open>IPv4 addresses as 32-bit words and prefixes as an address with a length.\<close>

definition addr_word :: "byte \<Rightarrow> byte \<Rightarrow> byte \<Rightarrow> byte \<Rightarrow> u32" where
  "addr_word a b c d = Uint32 [a, b, c, d]"

definition show_addr :: "u32 \<Rightarrow> string" where
  "show_addr v = (case PutUint32 v of [a, b, c, d] \<Rightarrow> show_v4 a b c d | _ \<Rightarrow> [])"

definition addIPv4 :: "u32 \<Rightarrow> u32 \<Rightarrow> u32" where
  "addIPv4 v delta = v + delta"

definition mask_word :: "nat \<Rightarrow> u32" where
  "mask_word bits = push_bit (32 - bits) (mask bits)"

unbundle bit_operations_syntax

definition masked :: "u32 \<Rightarrow> nat \<Rightarrow> u32" where
  "masked v bits = v AND mask_word bits"

definition prefix_contains :: "u32 \<Rightarrow> nat \<Rightarrow> u32 \<Rightarrow> bool" where
  "prefix_contains p bits v \<longleftrightarrow> masked v bits = masked p bits"

definition show_prefix :: "u32 \<Rightarrow> nat \<Rightarrow> string" where
  "show_prefix v bits = show_addr v @ ''/'' @ dec_digits bits"

definition defaultGatewayFor :: "u32 \<Rightarrow> nat \<Rightarrow> string" where
  "defaultGatewayFor v bits = show_addr (addIPv4 (masked v bits) 1)"

text \<open>\<^verbatim>\<open>netip.ParsePrefix\<close>: the address before the last slash and a length without sign or leading zero.\<close>

definition cut_last :: "char \<Rightarrow> string \<Rightarrow> (string \<times> string) option" where
  "cut_last c s = map_option (\<lambda>(u, v). (rev v, rev u)) (CutByte c (rev s))"

definition ParsePrefix :: "string \<Rightarrow> (addr \<times> nat) option" where
  "ParsePrefix s = (case cut_last CHR ''/'' s of
     None \<Rightarrow> None
   | Some (a, b) \<Rightarrow> (case ParseAddr a of
       None \<Rightarrow> None
     | Some ip \<Rightarrow>
         if (case ip of V6 bs z \<Rightarrow> z \<noteq> [] | V4 _ _ _ _ \<Rightarrow> False) then None
         else if length b > 1 \<and> \<not> (CHR ''1'' \<le> hd b \<and> hd b \<le> CHR ''9'') then None
         else case Atoi b of None \<Rightarrow> None
           | Some n \<Rightarrow> if n < 0 \<or> n > (case ip of V4 _ _ _ _ \<Rightarrow> 32 | V6 _ _ \<Rightarrow> 128) then None
                       else Some (ip, nat n)))"

definition subnet_pool :: u32 where
  "subnet_pool = masked (addr_word 10 88 0 0) 16"

definition subnet_step :: u32 where
  "subnet_step = 256"

text \<open>
  The search through the pool; the loop leaves the pool after its last subnet. \<open>fuel\<close> bounds the
  rounds: the pool holds 256 subnets, so 257 rounds always reach a result.
\<close>

fun subnet_loop :: "nat \<Rightarrow> string list \<Rightarrow> u32 \<Rightarrow> u32 option" where
  "subnet_loop 0 used v = None"
| "subnet_loop (Suc fuel) used v =
    (if \<not> prefix_contains subnet_pool 16 v then None
     else if show_prefix v 24 \<in> set used then subnet_loop fuel used (addIPv4 v subnet_step)
     else Some v)"

definition doc_subnets :: "network_config_file \<Rightarrow> string list" where
  "doc_subnets d = concat (map (\<lambda>p. case pc_IPAM p of None \<Rightarrow> []
     | Some i \<Rightarrow> filter (\<lambda>s. s \<noteq> []) (map ri_Subnet (concat (ic_Ranges i)))) (nf_Plugins d))"

definition file_subnets :: "conf_files \<Rightarrow> string \<Rightarrow> string list" where
  "file_subnets files path = (case get files path of Some (Document d) \<Rightarrow> doc_subnets d | _ \<Rightarrow> [])"

text \<open>\<open>listed\<close> is what \<^verbatim>\<open>libcni.ConfFiles\<close> returned for the directory.\<close>

definition usedSubnets :: "conf_files \<Rightarrow> string list \<Rightarrow> string list" where
  "usedSubnets files listed = concat (map (file_subnets files) listed)"

definition allocateSubnet ::
  "string \<Rightarrow> conf_files \<Rightarrow> gerror + string list \<Rightarrow> string \<Rightarrow> string \<Rightarrow> gerror + (string \<times> string)" where
  "allocateSubnet confDir files listed reqSubnet reqGateway =
    (if reqSubnet \<noteq> [] then
       (case ParsePrefix reqSubnet of
          None \<Rightarrow> Inl (wrap_pre (''cni: invalid subnet '' @ quote reqSubnet @ '': '') (NewErr ''netip.ParsePrefix''))
        | Some (V6 bs z, bits) \<Rightarrow> Inl (wrap_post (Sentinel (Cni ErrIPv6Unsupported)) ('': '' @ quote reqSubnet))
        | Some (V4 a b c d, bits) \<Rightarrow>
            let v = masked (addr_word a b c d) bits in
            if reqGateway = [] then Inr (show_prefix v bits, defaultGatewayFor v bits)
            else (case ParseAddr reqGateway of
              None \<Rightarrow> Inl (wrap_pre (''cni: invalid gateway '' @ quote reqGateway @ '': '') (NewErr ''netip.ParseAddr''))
            | Some _ \<Rightarrow> Inr (show_prefix v bits, reqGateway)))
     else (case listed of
       Inl e \<Rightarrow> Inl (wrap_pre (''cni: listing '' @ quote confDir @ '': '') e)
     | Inr ps \<Rightarrow> (case subnet_loop 257 (usedSubnets files ps) subnet_pool of
         Some v \<Rightarrow> Inr (show_prefix v 24, defaultGatewayFor v 24)
       | None \<Rightarrow> Inl (NewErr ''cni: no free subnet in 10.88.0.0/16''))))"

section \<open>The subnets of the pool\<close>

definition subnet_at :: "nat \<Rightarrow> u32" where
  "subnet_at k = subnet_pool + 256 * word_of_nat k"

lemma subnet_at_Suc: "addIPv4 (subnet_at k) subnet_step = subnet_at (Suc k)"
  by (simp add: addIPv4_def subnet_step_def subnet_at_def algebra_simps)

lemma subnet_at_0: "subnet_at 0 = subnet_pool"
  by (simp add: subnet_at_def)

lemma pool_members: "list_all (\<lambda>k. prefix_contains subnet_pool 16 (subnet_at k)) [0..<256]"
  by code_simp

lemma pool_end: "\<not> prefix_contains subnet_pool 16 (subnet_at 256)"
  by code_simp

lemma pool_contains: "k < 256 \<Longrightarrow> prefix_contains subnet_pool 16 (subnet_at k)"
  using pool_members by (simp add: list_all_iff)

lemma subnet_loop_from:
  assumes "k \<le> 256"
  shows "subnet_loop (257 - k) used (subnet_at k)
    = map_option subnet_at (find (\<lambda>j. show_prefix (subnet_at j) 24 \<notin> set used) [k..<256])"
  using assms
proof (induction "256 - k" arbitrary: k)
  case 0
  then have "k = 256" by simp
  then show ?case using pool_end by simp
next
  case (Suc n)
  then have k: "k < 256" by simp
  then have "257 - k = Suc (257 - Suc k)" by simp
  moreover have "[k..<256] = k # [Suc k..<256]" using k by (rule upt_conv_Cons)
  moreover note Suc.hyps(1) [of "Suc k"] Suc.hyps(2) pool_contains [OF k]
  ultimately show ?case by (simp add: subnet_at_Suc)
qed

lemma show_addr_inj:
  assumes "show_addr v = show_addr w"
  shows "v = w"
proof -
  have p: "\<exists>a b c d. PutUint32 x = [a, b, c, d]" for x by (simp add: PutUint32_def)
  obtain a b c d where v: "PutUint32 v = [a, b, c, d]" using p by blast
  obtain a' b' c' d' where w: "PutUint32 w = [a', b', c', d']" using p by blast
  have "show_v4 a b c d = show_v4 a' b' c' d'"
    using assms by (simp add: show_addr_def v w)
  from arg_cong [OF this, of parse_v4] have "PutUint32 v = PutUint32 w"
    by (simp add: parse_show_v4 v w)
  then show ?thesis using Uint32_PutUint32 [of v "[]"] Uint32_PutUint32 [of w "[]"] by simp
qed

lemma show_prefix_inj: "show_prefix v n = show_prefix w n \<Longrightarrow> v = w"
  by (auto simp: show_prefix_def dest: show_addr_inj)

lemma show_prefix_nonempty [simp]: "show_prefix v n \<noteq> []"
  by (simp add: show_prefix_def)

lemma pool_masked: "list_all (\<lambda>k. masked (subnet_at k) 24 = subnet_at k) [0..<256]"
  by code_simp

lemma gateway_at: "k < 256 \<Longrightarrow> defaultGatewayFor (subnet_at k) 24 = show_addr (subnet_at k + 1)"
  using pool_masked by (simp add: list_all_iff defaultGatewayFor_def addIPv4_def)

text \<open>
  A network without a requested subnet gets the first free one of the pool: the lowest of the
  256 /24 networks of 10.88.0.0/16 that no configuration file names, with its first address as the
  gateway; it fails only when all of them are taken.
\<close>

theorem allocateSubnet_first_free:
  "case allocateSubnet confDir files (Inr listed) [] gw of
     Inl e \<Rightarrow> (\<forall>k<256. show_prefix (subnet_at k) 24 \<in> set (usedSubnets files listed))
   | Inr (subnet, gateway) \<Rightarrow> (\<exists>k<256. subnet = show_prefix (subnet_at k) 24
       \<and> gateway = show_addr (subnet_at k + 1)
       \<and> subnet \<notin> set (usedSubnets files listed)
       \<and> (\<forall>j<k. show_prefix (subnet_at j) 24 \<in> set (usedSubnets files listed)))"
proof -
  let ?free = "\<lambda>j. show_prefix (subnet_at j) 24 \<notin> set (usedSubnets files listed)"
  have loop: "subnet_loop 257 (usedSubnets files listed) subnet_pool
      = map_option subnet_at (find ?free [0..<256])"
    using subnet_loop_from [of 0] by (simp add: subnet_at_0)
  show ?thesis
  proof (cases "find ?free [0..<256]")
    case None
    then have "\<forall>k<256. show_prefix (subnet_at k) 24 \<in> set (usedSubnets files listed)"
      by (simp add: find_None_iff)
    with None loop show ?thesis by (simp add: allocateSubnet_def)
  next
    case (Some k)
    then have "k < 256" "?free k" "\<forall>j<k. \<not> ?free j"
      by (auto simp: find_Some_iff)
    with Some loop show ?thesis
      by (auto simp: allocateSubnet_def gateway_at)
  qed
qed

theorem allocateSubnet_first_free_witness:
  "allocateSubnet ''/etc/cni/net.d'' [] (Inr []) [] [] = Inr (''10.88.0.0/24'', ''10.88.0.1'')"
proof -
  have "\<not> (\<forall>k<256. show_prefix (subnet_at k) 24 \<in> set (usedSubnets [] []))"
    by (auto simp: usedSubnets_def intro: exI [of _ 0])
  then obtain s g where sg: "allocateSubnet ''/etc/cni/net.d'' [] (Inr []) [] [] = Inr (s, g)"
    using allocateSubnet_first_free [where confDir = "''/etc/cni/net.d''" and files = "[]" and listed = "[]" and gw = "[]"]
    by (auto split: sum.splits)
  with allocateSubnet_first_free [where confDir = "''/etc/cni/net.d''" and files = "[]" and listed = "[]" and gw = "[]"] obtain k where
    "k < 256" "s = show_prefix (subnet_at k) 24" "g = show_addr (subnet_at k + 1)"
    "\<forall>j<k. show_prefix (subnet_at j) 24 \<in> set (usedSubnets [] [])"
    by auto
  moreover from this have "k = 0" by (auto simp: usedSubnets_def)
  moreover have "show_prefix (subnet_at 0) 24 = ''10.88.0.0/24''" "show_addr (subnet_at 0 + 1) = ''10.88.0.1''"
    by code_simp+
  ultimately show ?thesis using sg by simp
qed

text \<open>
  Reading back what was built: name, identity, subnet, gateway, labels and bridge of a network
  survive the configuration file.
\<close>

lemma bridgeInterfaceName_nonempty [simp]: "bridgeInterfaceName name \<noteq> []"
  by (simp add: bridgeInterfaceName_def)

lemma networkIDForName_nonempty [simp]: "networkIDForName name \<noteq> []"
  by (simp add: networkIDForName_def)

lemma parse_built_network:
  assumes "buildBridgeNetworkConfig name subnet gateway dir labels = Inr doc"
    and "get files path = Some (Document doc)" and "name \<noteq> []"
  shows "parseNetworkFile files path = Inr \<lparr>nw_ID = networkIDForName name, nw_Name = name,
    nw_Driver = driverBridge, nw_Mode = ModeNetwork, nw_File = path,
    nw_Bridge = bridgeInterfaceName name, nw_Subnet = subnet, nw_Gateway = gateway,
    nw_Labels = labels\<rparr>"
  using assms
  by (auto simp: buildBridgeNetworkConfig_def parseNetworkFile_def split: if_splits)

lemma built_subnets:
  assumes "buildBridgeNetworkConfig name subnet gateway dir labels = Inr doc"
  shows "doc_subnets doc = [subnet]"
  using assms by (auto simp: buildBridgeNetworkConfig_def doc_subnets_def split: if_splits)

end
