(* ===== verification/Cni_Adapter.thy ===== *)
theory Cni_Adapter
  imports Cni_Config
begin

text \<open>
  \<^verbatim>\<open>internal/adapters/cni/adapter.go\<close> and the result conversion of \<^verbatim>\<open>inspect.go\<close>: the
  Docker networks as files in the CNI configuration directory, and the attachment of containers to
  them. The state is the directory, the port allocator and the table of attachments. The CNI
  library, its plugins, the kernel's links and the network namespaces are outside the repository:
  they are the fields of \<open>cni_env\<close>, functions on a world that the operations thread through.
\<close>

section \<open>Types\<close>

record cni_cfg =
  cf_confDir :: string
  cf_ipamDataDir :: string

record attachment_state =
  as_allocations :: "port_allocation list"
  as_ports :: "port_binding list"
  as_netns :: string
  as_ifName :: string

type_synonym attachment_key = "container_id \<times> string"

record cni_state =
  st_files :: conf_files
  st_alloc :: allocator
  st_attachments :: "(attachment_key, attachment_state) gomap"

record create_network_request =
  cn_Name :: string
  cn_Driver :: string
  cn_Subnet :: string
  cn_Gateway :: string
  cn_EnableIPv6 :: bool
  cn_Labels :: "(string, string) gomap"

record connect_request =
  cr_Network :: string
  cr_Container :: container_id
  cr_NetNS :: string
  cr_IfName :: string
  cr_Ports :: "port_binding list"
  cr_Aliases :: "string list"

record connect_result =
  co_Attachment :: network_attachment
  co_Ports :: "port_binding list"

record disconnect_request =
  dr_Network :: string
  dr_Container :: container_id
  dr_NetNS :: string
  dr_IfName :: string

record runtime_conf =
  rc_ContainerID :: string
  rc_NetNS :: string
  rc_IfName :: string
  rc_PortMappings :: "port_mapping list"

text \<open>
  A plugin result: addresses with the text \<^verbatim>\<open>IP.String()\<close> renders, and interfaces. A nil
  entry of the Go slices is \<open>None\<close>.
\<close>

record ip_config =
  ip_is4 :: bool
  ip_text :: string
  ip_prefix_len :: int
  ip_gateway :: "string option"
  ip_interface :: "int option"
  ip_link_local :: bool

record cni_interface =
  if_Name :: string
  if_Mac :: string
  if_Sandbox :: string

record cni_result =
  res_IPs :: "ip_config option list"
  res_Interfaces :: "cni_interface option list"

record interface_info =
  ii_IPAddresses :: "ip_config option list"
  ii_MAC :: string

record 'w cni_env =
  ce_confFiles :: "conf_files \<Rightarrow> gerror + string list"
  ce_mkdir :: "gerror option"
  ce_write :: "string \<Rightarrow> gerror option"
  ce_remove :: "string \<Rightarrow> gerror option"
  ce_loadConf :: "conf_files \<Rightarrow> string \<Rightarrow> gerror option"
  ce_cached :: "'w \<Rightarrow> gerror + string list"
  ce_add :: "string \<Rightarrow> runtime_conf \<Rightarrow> 'w \<Rightarrow> 'w \<times> (gerror + (gerror + cni_result) option)"
  ce_del :: "string \<Rightarrow> runtime_conf \<Rightarrow> 'w \<Rightarrow> 'w \<times> gerror option"
  ce_cachedConf :: "string \<Rightarrow> runtime_conf \<Rightarrow> 'w \<Rightarrow> (port_mapping list \<times> string) option"
  ce_deleteLink :: "string \<Rightarrow> 'w \<Rightarrow> 'w \<times> gerror option"
  ce_netns :: "string \<Rightarrow> string \<Rightarrow> 'w \<Rightarrow> gerror + interface_info"
  ce_probe :: "'w probe"

section \<open>Networks\<close>

definition ParseNetworkMode :: "string \<Rightarrow> gerror + net_mode" where
  "ParseNetworkMode mode =
    (let m = ToLower (TrimSpace mode) in
     if m = [] \<or> m = ''default'' \<or> m = driverBridge then Inr ModeNetwork
     else if m = ''host'' then Inr ModeHost
     else if m = ''none'' then Inr ModeNone
     else if Contains mode '':'' then Inl (wrap_post (Sentinel (Cni ErrUnknownNetworkMode)) ('': '' @ quote mode))
     else Inr ModeNetwork)"

text \<open>
  One step from the listing of the networks to the written file. The code holds no lock in between, so
  this is the behaviour of calls that do not overlap.
\<close>

definition CreateNetwork ::
  "'w cni_env \<Rightarrow> cni_cfg \<Rightarrow> ctx \<Rightarrow> create_network_request \<Rightarrow> cni_state \<Rightarrow> cni_state \<times> (gerror + network_id)" where
  "CreateNetwork env cfg ctx req st = (case contextError ctx of
     Some e \<Rightarrow> (st, Inl e)
   | None \<Rightarrow>
      let name = TrimSpace (cn_Name req) in
      case validateNetworkName name of Some e \<Rightarrow> (st, Inl e)
      | None \<Rightarrow>
        if isReservedNetworkName name
        then (st, Inl (wrap_post (Sentinel (Cni ErrReservedNetworkName)) ('': '' @ quote name)))
        else
          let driver0 = ToLower (TrimSpace (cn_Driver req));
              driver = (if driver0 = [] then driverBridge else driver0) in
          if driver \<noteq> driverBridge
          then (st, Inl (wrap_post (Sentinel (Cni ErrUnsupportedNetworkDriver)) ('': '' @ quote (cn_Driver req))))
          else if cn_EnableIPv6 req
          then (st, Inl (wrap_post (Sentinel (Cni ErrIPv6Unsupported)) ('': network '' @ quote name)))
          else case ce_mkdir env of
            Some e \<Rightarrow> (st, Inl (wrap_pre (''cni: creating '' @ quote (cf_confDir cfg) @ '': '') e))
          | None \<Rightarrow> (case allocateSubnet (cf_confDir cfg) (st_files st) (ce_confFiles env (st_files st))
                            (cn_Subnet req) (cn_Gateway req) of
              Inl e \<Rightarrow> (st, Inl e)
            | Inr (subnet, gateway) \<Rightarrow>
                (case buildBridgeNetworkConfig name subnet gateway (cf_ipamDataDir cfg) (cn_Labels req) of
                   Inl e \<Rightarrow> (st, Inl e)
                 | Inr doc \<Rightarrow>
                     let path = networkFilePath (cf_confDir cfg) name in
                     if get (st_files st) path \<noteq> None
                     then (st, Inl (wrap_post (Sentinel (Cni ErrNetworkExists)) ('': '' @ quote name)))
                     else case ce_write env path of
                       Some e \<Rightarrow> (st, Inl (wrap_pre (''cni: writing '' @ quote path @ '': '') e))
                     | None \<Rightarrow> (st\<lparr>st_files := put path (Document doc) (st_files st)\<rparr>,
                                 Inr (networkIDForName name)))))"

definition is_own_file :: "string \<Rightarrow> bool" where
  "is_own_file path \<longleftrightarrow> HasPrefix (path_base path) ''dockerdless-''"

definition list_networks :: "'w cni_env \<Rightarrow> cni_cfg \<Rightarrow> ctx \<Rightarrow> cni_state \<Rightarrow> gerror + network list" where
  "list_networks env cfg ctx st = (case contextError ctx of
     Some e \<Rightarrow> Inl e
   | None \<Rightarrow> (case ce_confFiles env (st_files st) of
       Inl e \<Rightarrow> Inl (wrap_pre (''cni: listing '' @ quote (cf_confDir cfg) @ '': '') e)
     | Inr files \<Rightarrow> rbind (mapM (parseNetworkFile (st_files st)) (filter is_own_file files))
         (\<lambda>ns. Inr (sort_key nw_Name ns))))"

definition Resolve :: "'w cni_env \<Rightarrow> cni_cfg \<Rightarrow> ctx \<Rightarrow> string \<Rightarrow> cni_state \<Rightarrow> gerror + network" where
  "Resolve env cfg ctx ref0 st = (case contextError ctx of
     Some e \<Rightarrow> Inl e
   | None \<Rightarrow>
      let ref = (if TrimSpace ref0 = [] then DefaultNetworkName else TrimSpace ref0) in
      case ParseNetworkMode ref of
        Inl e \<Rightarrow> Inl e
      | Inr ModeHost \<Rightarrow> Inr \<lparr>nw_ID = networkIDForName ref, nw_Name = ref, nw_Driver = ref, nw_Mode = ModeHost,
          nw_File = [], nw_Bridge = [], nw_Subnet = [], nw_Gateway = [], nw_Labels = []\<rparr>
      | Inr ModeNone \<Rightarrow> Inr \<lparr>nw_ID = networkIDForName ref, nw_Name = ref, nw_Driver = ref, nw_Mode = ModeNone,
          nw_File = [], nw_Bridge = [], nw_Subnet = [], nw_Gateway = [], nw_Labels = []\<rparr>
      | Inr ModeNetwork \<Rightarrow> rbind (list_networks env cfg ctx st) (\<lambda>networks.
          case find (\<lambda>n. nw_Name n = ref \<or> nw_ID n = ref) networks of
            Some n \<Rightarrow> Inr n
          | None \<Rightarrow>
              (case (if length ref \<ge> 12 then find (\<lambda>n. HasPrefix (nw_ID n) ref) networks else None) of
                 Some n \<Rightarrow> Inr n
               | None \<Rightarrow> Inl (wrap_post (Sentinel (Cni ErrNetworkNotFound)) ('': '' @ quote ref)))))"

definition bridge_request :: "string \<Rightarrow> create_network_request" where
  "bridge_request name = \<lparr>cn_Name = name, cn_Driver = driverBridge, cn_Subnet = [], cn_Gateway = [],
     cn_EnableIPv6 = False, cn_Labels = []\<rparr>"

definition cni_Create ::
  "'w cni_env \<Rightarrow> cni_cfg \<Rightarrow> ctx \<Rightarrow> string \<Rightarrow> cni_state \<Rightarrow> cni_state \<times> (gerror + network_id)" where
  "cni_Create env cfg ctx name st = CreateNetwork env cfg ctx (bridge_request name) st"

definition EnsureDefaultNetwork ::
  "'w cni_env \<Rightarrow> cni_cfg \<Rightarrow> ctx \<Rightarrow> cni_state \<Rightarrow> cni_state \<times> (gerror + network_id)" where
  "EnsureDefaultNetwork env cfg ctx st = (case Resolve env cfg ctx DefaultNetworkName st of
     Inr n \<Rightarrow> (st, Inr (networkIDForName DefaultNetworkName))
   | Inl e \<Rightarrow> if \<not> errors_is e (Cni ErrNetworkNotFound) then (st, Inl e)
       else CreateNetwork env cfg ctx (bridge_request DefaultNetworkName) st)"

definition networkInUse :: "'w cni_env \<Rightarrow> string \<Rightarrow> cni_state \<Rightarrow> 'w \<Rightarrow> gerror + bool" where
  "networkInUse env name st w =
    (if list_ex (\<lambda>(k, s). snd k = name) (st_attachments st) then Inr True
     else case ce_cached env w of
       Inl e \<Rightarrow> Inl (wrap_pre ''cni: reading cached attachments: '' e)
     | Inr names \<Rightarrow> Inr (name \<in> set names))"

definition network_Remove ::
  "'w cni_env \<Rightarrow> cni_cfg \<Rightarrow> ctx \<Rightarrow> network_id \<Rightarrow> cni_state \<Rightarrow> 'w \<Rightarrow> cni_state \<times> 'w \<times> gerror option" where
  "network_Remove env cfg ctx i st w = (case Resolve env cfg ctx i st of
     Inl e \<Rightarrow> (st, w, Some e)
   | Inr n \<Rightarrow>
      if nw_Mode n \<noteq> ModeNetwork \<or> nw_File n = []
      then (st, w, Some (wrap_post (Sentinel (Cni ErrReservedNetworkName)) ('': '' @ quote (nw_Name n))))
      else case networkInUse env (nw_Name n) st w of
        Inl e \<Rightarrow> (st, w, Some e)
      | Inr True \<Rightarrow> (st, w, Some (wrap_post (Sentinel (Cni ErrNetworkInUse)) ('': '' @ quote (nw_Name n))))
      | Inr False \<Rightarrow>
          (case (if nw_Bridge n \<noteq> [] then ce_deleteLink env (nw_Bridge n) w else (w, None)) of
             (w', err) \<Rightarrow>
               if (case err of Some e \<Rightarrow> \<not> errors_is e (Cni ErrLinkNotFound) | None \<Rightarrow> False)
               then (st, w', Some (wrap_pre (''cni: removing bridge '' @ quote (nw_Bridge n) @ '': '') (the err)))
               else if get (st_files st) (nw_File n) = None
               then (st, w', Some (wrap_post (Sentinel (Cni ErrNetworkNotFound)) ('': '' @ quote (nw_Name n))))
               else (case ce_remove env (nw_File n) of
                 Some e \<Rightarrow> (st, w', Some (wrap_pre (''cni: removing '' @ quote (nw_File n) @ '': '') e))
               | None \<Rightarrow> (st\<lparr>st_files := del (nw_File n) (st_files st)\<rparr>, w', None))))"

section \<open>Plugin results\<close>

definition zero_attachment :: network_attachment where
  "zero_attachment = \<lparr>na_NetworkID = [], na_Name = [], na_EndpointID = [], na_IPAddress = [],
     na_IPPrefixLen = 0, na_Gateway = [], na_GlobalIPv6Address = [], na_GlobalIPv6PrefixLen = 0,
     na_MACAddress = [], na_Aliases = []\<rparr>"

text \<open>The loop over the addresses: the first of each family wins.\<close>

fun take_ips :: "ip_config option list \<Rightarrow> network_attachment \<Rightarrow> network_attachment" where
  "take_ips [] a = a"
| "take_ips (None # ips) a = take_ips ips a"
| "take_ips (Some c # ips) a =
    (if ip_is4 c then
       (if na_IPAddress a \<noteq> [] then take_ips ips a
        else take_ips ips (let a1 = a\<lparr>na_IPAddress := ip_text c, na_IPPrefixLen := ip_prefix_len c\<rparr>
             in case ip_gateway c of None \<Rightarrow> a1 | Some g \<Rightarrow> a1\<lparr>na_Gateway := g\<rparr>))
     else if na_GlobalIPv6Address a \<noteq> [] then take_ips ips a
     else take_ips ips (a\<lparr>na_GlobalIPv6Address := ip_text c, na_GlobalIPv6PrefixLen := ip_prefix_len c\<rparr>))"

fun interfaceMACByIPConfig :: "ip_config option list \<Rightarrow> cni_interface option list \<Rightarrow> string" where
  "interfaceMACByIPConfig [] ifs = []"
| "interfaceMACByIPConfig (None # ips) ifs = interfaceMACByIPConfig ips ifs"
| "interfaceMACByIPConfig (Some c # ips) ifs = (case ip_interface c of
     None \<Rightarrow> interfaceMACByIPConfig ips ifs
   | Some i \<Rightarrow>
       if i < 0 \<or> i \<ge> int (length ifs) then interfaceMACByIPConfig ips ifs
       else (case ifs ! nat i of
         Some f \<Rightarrow> if if_Mac f \<noteq> [] then if_Mac f else interfaceMACByIPConfig ips ifs
       | None \<Rightarrow> interfaceMACByIPConfig ips ifs))"

fun sandboxInterfaceMAC :: "cni_interface option list \<Rightarrow> string \<Rightarrow> string \<Rightarrow> string" where
  "sandboxInterfaceMAC [] preferred fallback = fallback"
| "sandboxInterfaceMAC (None # ifs) preferred fallback = sandboxInterfaceMAC ifs preferred fallback"
| "sandboxInterfaceMAC (Some f # ifs) preferred fallback =
    (if if_Mac f = [] \<or> if_Sandbox f = [] then sandboxInterfaceMAC ifs preferred fallback
     else if if_Name f = preferred then if_Mac f
     else sandboxInterfaceMAC ifs preferred (if fallback = [] then if_Mac f else fallback))"

fun namedInterfaceMAC :: "cni_interface option list \<Rightarrow> string \<Rightarrow> string" where
  "namedInterfaceMAC [] preferred = []"
| "namedInterfaceMAC (None # ifs) preferred = namedInterfaceMAC ifs preferred"
| "namedInterfaceMAC (Some f # ifs) preferred =
    (if if_Mac f \<noteq> [] \<and> if_Name f = preferred then if_Mac f else namedInterfaceMAC ifs preferred)"

definition containerInterfaceMAC :: "cni_result \<Rightarrow> string \<Rightarrow> string" where
  "containerInterfaceMAC r preferred =
    (let m1 = interfaceMACByIPConfig (res_IPs r) (res_Interfaces r);
         m2 = sandboxInterfaceMAC (res_Interfaces r) preferred []
     in if m1 \<noteq> [] then m1 else if m2 \<noteq> [] then m2
        else namedInterfaceMAC (res_Interfaces r) preferred)"

definition AttachmentFromResult ::
  "network_id \<Rightarrow> string \<Rightarrow> string \<Rightarrow> string list \<Rightarrow> (gerror + cni_result) option \<Rightarrow> gerror + network_attachment" where
  "AttachmentFromResult netID name ifName aliases result = (case result of
     None \<Rightarrow> Inl (Sentinel (Cni ErrNilResult))
   | Some (Inl e) \<Rightarrow> Inl (wrap_pre ''cni: decoding plugin result: '' e)
   | Some (Inr r) \<Rightarrow> Inr ((take_ips (res_IPs r)
        (zero_attachment\<lparr>na_NetworkID := netID, na_Name := name, na_Aliases := aliases\<rparr>))
        \<lparr>na_MACAddress := containerInterfaceMAC r ifName\<rparr>))"

fun fill_ips :: "ip_config option list \<Rightarrow> network_attachment \<Rightarrow> network_attachment" where
  "fill_ips [] a = a"
| "fill_ips (None # ips) a = fill_ips ips a"
| "fill_ips (Some c # ips) a =
    (if ip_is4 c then
       fill_ips ips (if na_IPAddress a = []
         then a\<lparr>na_IPAddress := ip_text c, na_IPPrefixLen := ip_prefix_len c\<rparr> else a)
     else fill_ips ips (if na_GlobalIPv6Address a = [] \<and> \<not> ip_link_local c
         then a\<lparr>na_GlobalIPv6Address := ip_text c, na_GlobalIPv6PrefixLen := ip_prefix_len c\<rparr> else a))"

definition FillFromNetNS ::
  "(string \<Rightarrow> string \<Rightarrow> gerror + interface_info) \<Rightarrow> string \<Rightarrow> string \<Rightarrow> network_attachment \<Rightarrow>
    network_attachment \<times> gerror option" where
  "FillFromNetNS probe netns ifName a =
    (if netns = [] \<or> ifName = [] then (a, None)
     else case probe netns ifName of
       Inl e \<Rightarrow> (a, Some e)
     | Inr info \<Rightarrow> (fill_ips (ii_IPAddresses info)
         (if na_MACAddress a = [] then a\<lparr>na_MACAddress := ii_MAC info\<rparr> else a), None))"

section \<open>Connecting\<close>

definition normalizeIfName :: "string \<Rightarrow> string" where
  "normalizeIfName name = (if TrimSpace name \<noteq> [] then TrimSpace name else ''eth0'')"

fun mode_text :: "net_mode \<Rightarrow> string" where
  "mode_text ModeHost = ''host''"
| "mode_text ModeNone = ''none''"
| "mode_text ModeNetwork = ''network''"

definition connectDirect :: "network \<Rightarrow> port_binding list \<Rightarrow> gerror + connect_result" where
  "connectDirect n ps =
    (if ps \<noteq> [] then Inl (wrap_post (Sentinel (Cni ErrPortPublishWithMode)) ('': '' @ mode_text (nw_Mode n)))
     else Inr \<lparr>co_Attachment = zero_attachment\<lparr>na_NetworkID := nw_ID n, na_Name := nw_Name n\<rparr>, co_Ports = []\<rparr>)"

definition prepareConnectPorts ::
  "'w probe \<Rightarrow> port_binding list \<Rightarrow> port_allocation list option \<Rightarrow> allocator \<Rightarrow> 'w \<Rightarrow>
    allocator \<times> 'w \<times> (gerror + (port_binding list \<times> port_allocation list))" where
  "prepareConnectPorts probe ps reserved a w = (case reserved of
     Some allocs \<Rightarrow> (a, w, Inr (ps, allocs))
   | None \<Rightarrow> AllocateBindings probe ps a w)"

definition addContainerNetwork ::
  "'w cni_env \<Rightarrow> network \<Rightarrow> connect_request \<Rightarrow> string \<Rightarrow> port_binding list \<Rightarrow> 'w \<Rightarrow>
    'w \<times> (gerror + network_attachment)" where
  "addContainerNetwork env n req ifName filled w = (case BuildPortMappings filled of
     Inl e \<Rightarrow> (w, Inl e)
   | Inr mappings \<Rightarrow>
      let rt = \<lparr>rc_ContainerID = cr_Container req, rc_NetNS = cr_NetNS req, rc_IfName = ifName,
                rc_PortMappings = mappings\<rparr> in
      case ce_add env (nw_File n) rt w of
        (w1, Inl e) \<Rightarrow> (w1, Inl (wrap_pre (''cni: connecting container '' @ cr_Container req @ '' to ''
                          @ quote (nw_Name n) @ '': '') e))
      | (w1, Inr result) \<Rightarrow>
          (case AttachmentFromResult (nw_ID n) (nw_Name n) ifName (cr_Aliases req) result of
             Inl e \<Rightarrow> (fst (ce_del env (nw_File n) rt w1), Inl e)
           | Inr a \<Rightarrow> (w1, Inr a)))"

definition trackAttachment :: "attachment_key \<Rightarrow> attachment_state \<Rightarrow> cni_state \<Rightarrow> cni_state" where
  "trackAttachment k s st = st\<lparr>st_attachments := put k s (st_attachments st)\<rparr>"

text \<open>
  \<open>reserved = Some allocs\<close> is the call with ports the caller reserved before; those stay with
  the caller when the call fails.
\<close>

definition connect ::
  "'w cni_env \<Rightarrow> cni_cfg \<Rightarrow> ctx \<Rightarrow> connect_request \<Rightarrow> port_allocation list option \<Rightarrow> cni_state \<Rightarrow> 'w \<Rightarrow>
    cni_state \<times> 'w \<times> (gerror + connect_result)" where
  "connect env cfg ctx req reserved st w = (case contextError ctx of
     Some e \<Rightarrow> (st, w, Inl e)
   | None \<Rightarrow>
      if TrimSpace (cr_Container req) = [] then (st, w, Inl (Sentinel (Cni ErrMissingContainer)))
      else case Resolve env cfg ctx (cr_Network req) st of
        Inl e \<Rightarrow> (st, w, Inl e)
      | Inr n \<Rightarrow>
         if nw_Mode n = ModeHost \<or> nw_Mode n = ModeNone then (st, w, connectDirect n (cr_Ports req))
         else if nw_File n = []
         then (st, w, Inl (wrap_post (Sentinel (Cni ErrNetworkNotFound)) ('': '' @ quote (nw_Name n))))
         else if TrimSpace (cr_NetNS req) = [] then (st, w, Inl (Sentinel (Cni ErrMissingNetNS)))
         else
           let ifName = normalizeIfName (cr_IfName req) in
           case ce_loadConf env (st_files st) (nw_File n) of
             Some e \<Rightarrow> (st, w, Inl (wrap_pre (''cni: loading network '' @ quote (nw_Name n) @ '': '') e))
           | None \<Rightarrow>
              (case prepareConnectPorts (ce_probe env) (cr_Ports req) reserved (st_alloc st) w of
                 (a1, w1, Inl e) \<Rightarrow> (st\<lparr>st_alloc := a1\<rparr>, w1, Inl e)
               | (a1, w1, Inr (filled, allocs)) \<Rightarrow>
                  (case addContainerNetwork env n req ifName filled w1 of
                     (w2, Inl e) \<Rightarrow>
                       (st\<lparr>st_alloc := (if reserved = None then Release allocs a1 else a1)\<rparr>, w2, Inl e)
                   | (w2, Inr att) \<Rightarrow>
                       let att' = fst (FillFromNetNS (\<lambda>p i. ce_netns env p i w2) (cr_NetNS req) ifName att) in
                       (trackAttachment (cr_Container req, nw_Name n)
                          \<lparr>as_allocations = allocs, as_ports = filled, as_netns = cr_NetNS req,
                           as_ifName = ifName\<rparr> (st\<lparr>st_alloc := a1\<rparr>),
                        w2, Inr \<lparr>co_Attachment = att', co_Ports = filled\<rparr>))))"

definition Connect ::
  "'w cni_env \<Rightarrow> cni_cfg \<Rightarrow> ctx \<Rightarrow> connect_request \<Rightarrow> cni_state \<Rightarrow> 'w \<Rightarrow>
    cni_state \<times> 'w \<times> (gerror + connect_result)" where
  "Connect env cfg ctx req st w = connect env cfg ctx req None st w"

definition ConnectReserved ::
  "'w cni_env \<Rightarrow> cni_cfg \<Rightarrow> ctx \<Rightarrow> connect_request \<Rightarrow> cni_state \<Rightarrow> 'w \<Rightarrow>
    cni_state \<times> 'w \<times> (gerror + connect_result)" where
  "ConnectReserved env cfg ctx req st w = (case AdoptBindings (cr_Ports req) (st_alloc st) of
     Inl e \<Rightarrow> (st, w, Inl e)
   | Inr allocs \<Rightarrow> connect env cfg ctx (req\<lparr>cr_IfName := []\<rparr>) (Some allocs) st w)"

section \<open>Disconnecting\<close>

definition disconnectRuntimeConf :: "'w cni_env \<Rightarrow> string \<Rightarrow> disconnect_request \<Rightarrow> string \<Rightarrow> 'w \<Rightarrow> runtime_conf" where
  "disconnectRuntimeConf env file req ifName w =
    (let rt = \<lparr>rc_ContainerID = dr_Container req, rc_NetNS = dr_NetNS req, rc_IfName = ifName, rc_PortMappings = []\<rparr>
     in case ce_cachedConf env file rt w of None \<Rightarrow> rt
        | Some (mappings, netns) \<Rightarrow>
            rt\<lparr>rc_PortMappings := mappings, rc_NetNS := (if rc_NetNS rt = [] then netns else rc_NetNS rt)\<rparr>)"

definition forgetAttachment :: "attachment_key \<Rightarrow> attachment_state option \<Rightarrow> cni_state \<Rightarrow> cni_state" where
  "forgetAttachment k tracked st =
    (let st1 = st\<lparr>st_attachments := del k (st_attachments st)\<rparr>
     in case tracked of None \<Rightarrow> st1
        | Some s \<Rightarrow> st1\<lparr>st_alloc := Release (as_allocations s) (st_alloc st1)\<rparr>)"

definition Disconnect ::
  "'w cni_env \<Rightarrow> cni_cfg \<Rightarrow> ctx \<Rightarrow> disconnect_request \<Rightarrow> cni_state \<Rightarrow> 'w \<Rightarrow> cni_state \<times> 'w \<times> gerror option" where
  "Disconnect env cfg ctx req st w = (case Resolve env cfg ctx (dr_Network req) st of
     Inl e \<Rightarrow> (st, w, Some e)
   | Inr n \<Rightarrow>
      if nw_Mode n = ModeHost \<or> nw_Mode n = ModeNone then (st, w, None)
      else if TrimSpace (dr_Container req) = [] then (st, w, Some (Sentinel (Cni ErrMissingContainer)))
      else case ce_loadConf env (st_files st) (nw_File n) of
        Some e \<Rightarrow> (st, w, Some (wrap_pre (''cni: loading network '' @ quote (nw_Name n) @ '': '') e))
      | None \<Rightarrow>
         let ifName = normalizeIfName (dr_IfName req);
             k = (dr_Container req, nw_Name n);
             tracked = get (st_attachments st) k;
             rt0 = disconnectRuntimeConf env (nw_File n) req ifName w;
             rt = (case tracked of
                 Some s \<Rightarrow> if rc_PortMappings rt0 = [] \<and> as_ports s \<noteq> [] then
                     (case BuildPortMappings (as_ports s) of Inr ms \<Rightarrow> rt0\<lparr>rc_PortMappings := ms\<rparr> | Inl e \<Rightarrow> rt0)
                   else rt0
               | None \<Rightarrow> rt0)
         in case ce_del env (nw_File n) rt w of
              (w', delErr) \<Rightarrow>
                (forgetAttachment k tracked st, w',
                 map_option (\<lambda>e. wrap_pre (''cni: disconnecting container '' @ dr_Container req @ '' from ''
                   @ quote (nw_Name n) @ '': '') e) delErr))"

fun disconnect_keys ::
  "'w cni_env \<Rightarrow> cni_cfg \<Rightarrow> ctx \<Rightarrow> container_id \<Rightarrow> (attachment_key \<times> attachment_state) list \<Rightarrow>
    cni_state \<Rightarrow> 'w \<Rightarrow> cni_state \<times> 'w \<times> gerror list" where
  "disconnect_keys env cfg ctx c [] st w = (st, w, [])"
| "disconnect_keys env cfg ctx c ((k, s) # ks) st w =
    (case Disconnect env cfg ctx \<lparr>dr_Network = snd k, dr_Container = c, dr_NetNS = as_netns s,
            dr_IfName = as_ifName s\<rparr> st w of
       (st1, w1, err) \<Rightarrow> (case disconnect_keys env cfg ctx c ks st1 w1 of
         (st2, w2, errs) \<Rightarrow> (st2, w2, (case err of None \<Rightarrow> errs | Some e \<Rightarrow> e # errs))))"

definition DisconnectAll ::
  "'w cni_env \<Rightarrow> cni_cfg \<Rightarrow> ctx \<Rightarrow> container_id \<Rightarrow> cni_state \<Rightarrow> 'w \<Rightarrow> cni_state \<times> 'w \<times> gerror list" where
  "DisconnectAll env cfg ctx c st w =
     disconnect_keys env cfg ctx c (filter (\<lambda>(k, s). fst k = c) (st_attachments st)) st w"

end
