(* ===== verification/Cni_Networks.thy ===== *)
theory Cni_Networks
  imports Cni_Adapter
begin

text \<open>
  What the network directory promises: the names and identities a client gets from creating
  networks find them again, names stay unique, and automatically chosen subnets never overlap,
  over every history of creations and removals.
\<close>

section \<open>The directory\<close>

text \<open>
  What \<^verbatim>\<open>libcni.ConfFiles\<close> documents: the files of the directory with one of the two
  extensions, each once.
\<close>

definition conf_ext :: "string \<Rightarrow> bool" where
  "conf_ext p \<longleftrightarrow> HasSuffix p ''.conflist'' \<or> HasSuffix p ''.conf''"

definition lists_conf :: "(conf_files \<Rightarrow> gerror + string list) \<Rightarrow> bool" where
  "lists_conf l \<longleftrightarrow> (\<forall>fs. \<exists>ps. l fs = Inr ps \<and> distinct ps
     \<and> (\<forall>p. p \<in> set ps \<longleftrightarrow> conf_ext p \<and> get fs p \<noteq> None))"

definition built_network :: "string \<Rightarrow> string \<Rightarrow> string \<Rightarrow> (string, string) gomap \<Rightarrow> string \<Rightarrow> network" where
  "built_network name subnet gateway labels path = \<lparr>nw_ID = networkIDForName name, nw_Name = name,
     nw_Driver = driverBridge, nw_Mode = ModeNetwork, nw_File = path,
     nw_Bridge = bridgeInterfaceName name, nw_Subnet = subnet, nw_Gateway = gateway, nw_Labels = labels\<rparr>"

definition good_name :: "string \<Rightarrow> bool" where
  "good_name name \<longleftrightarrow> TrimSpace name = name \<and> validateNetworkName name = None \<and> \<not> isReservedNetworkName name"

definition daemon_entry :: "cni_cfg \<Rightarrow> string \<Rightarrow> conf_file \<Rightarrow> bool" where
  "daemon_entry cfg p f \<longleftrightarrow> (\<exists>name subnet gateway labels doc. f = Document doc \<and> good_name name
     \<and> buildBridgeNetworkConfig name subnet gateway (cf_ipamDataDir cfg) labels = Inr doc
     \<and> p = networkFilePath (cf_confDir cfg) name)"

text \<open>Every file with the daemon's prefix was written by the daemon; other files may be there.\<close>

definition daemon_dir :: "cni_cfg \<Rightarrow> conf_files \<Rightarrow> bool" where
  "daemon_dir cfg fs \<longleftrightarrow> (\<forall>p f. get fs p = Some f \<longrightarrow> is_own_file p \<longrightarrow> daemon_entry cfg p f)"

definition disjoint_subnets :: "conf_files \<Rightarrow> bool" where
  "disjoint_subnets fs \<longleftrightarrow> (\<forall>p q. is_own_file p \<longrightarrow> is_own_file q \<longrightarrow>
     set (file_subnets fs p) \<inter> set (file_subnets fs q) \<noteq> {} \<longrightarrow> p = q)"

lemma networkFilePath_inj [simp]: "networkFilePath d a = networkFilePath d b \<longleftrightarrow> a = b"
  by (simp add: networkFilePath_def)

lemma good_name_simps:
  assumes "good_name name"
  shows "match_name name" "name \<noteq> []" "TrimSpace name = name"
  using assms by (auto simp: good_name_def validateNetworkName_def split: if_splits)

lemma own_networkFilePath: "good_name name \<Longrightarrow> is_own_file (networkFilePath d name)"
proof -
  assume "good_name name"
  then have n: "CHR ''/'' \<notin> set name" by (simp add: good_name_simps match_name_no_slash)
  define b where "b = ''dockerdless-'' @ name @ ''.conflist''"
  have b: "\<forall>c\<in>set (rev b). c \<noteq> CHR ''/''" using n by (auto simp: b_def)
  have "takeWhile (\<lambda>c. c \<noteq> CHR ''/'') (rev b @ CHR ''/'' # rev d) = rev b"
    by (subst takeWhile_append2) (use b in auto)
  then have "path_base (networkFilePath d name) = b"
    by (simp add: path_base_def networkFilePath_def b_def)
  then show ?thesis by (simp add: is_own_file_def HasPrefix_def b_def)
qed

lemma conf_ext_networkFilePath [simp]: "conf_ext (networkFilePath d name)"
proof -
  have "networkFilePath d name = (d @ ''/'' @ ''dockerdless-'' @ name) @ ''.conflist''"
    by (simp add: networkFilePath_def)
  then have "suffix ''.conflist'' (networkFilePath d name)" unfolding suffix_def by blast
  then show ?thesis by (simp add: conf_ext_def HasSuffix_def)
qed

lemma own_parse:
  assumes "daemon_dir cfg fs" and "get fs p = Some f" and "is_own_file p"
  obtains name subnet gateway labels where "good_name name"
    "p = networkFilePath (cf_confDir cfg) name" "subnet \<noteq> []" "file_subnets fs p = [subnet]"
    "parseNetworkFile fs p = Inr (built_network name subnet gateway labels p)"
proof -
  obtain name subnet gateway labels doc where e: "f = Document doc" "good_name name"
    "buildBridgeNetworkConfig name subnet gateway (cf_ipamDataDir cfg) labels = Inr doc"
    "p = networkFilePath (cf_confDir cfg) name"
    using assms unfolding daemon_dir_def daemon_entry_def by blast
  have "subnet \<noteq> []" using e(3) by (auto simp: buildBridgeNetworkConfig_def split: if_splits)
  moreover have "file_subnets fs p = [subnet]"
    using assms(2) e(1) built_subnets [OF e(3)] by (simp add: file_subnets_def)
  moreover have "parseNetworkFile fs p = Inr (built_network name subnet gateway labels p)"
    unfolding built_network_def
    by (rule parse_built_network [OF e(3)]) (use assms(2) e good_name_simps in auto)
  ultimately show ?thesis using that e(2,4) by blast
qed

section \<open>Listing and resolving\<close>

lemma list_networks_ok:
  assumes "lists_conf (ce_confFiles env)" and "daemon_dir cfg (st_files st)"
  shows "\<exists>ns. list_networks env cfg Live st = Inr ns \<and> distinct (map nw_Name ns) \<and> sorted (map nw_Name ns)
    \<and> (\<forall>n. n \<in> set ns \<longleftrightarrow> (\<exists>p. is_own_file p \<and> parseNetworkFile (st_files st) p = Inr n))"
proof -
  let ?fs = "st_files st"
  obtain ps where ps: "ce_confFiles env ?fs = Inr ps" "distinct ps"
    "\<And>p. p \<in> set ps \<longleftrightarrow> conf_ext p \<and> get ?fs p \<noteq> None"
    using assms(1) unfolding lists_conf_def by blast
  define net where "net p = (SOME n. parseNetworkFile ?fs p = Inr n)" for p
  define own where "own = filter is_own_file ps"
  have present: "get ?fs p \<noteq> None" if "parseNetworkFile ?fs p = Inr n" for p n
    using that by (auto simp: parseNetworkFile_def split: option.splits)
  have net: "parseNetworkFile ?fs p = Inr (net p) \<and> p = networkFilePath (cf_confDir cfg) (nw_Name (net p))"
    if own_p: "is_own_file p" "get ?fs p \<noteq> None" for p
  proof -
    from own_p obtain f where "get ?fs p = Some f" by auto
    from own_parse [OF assms(2) this own_p(1)] obtain name subnet gateway labels where
      "p = networkFilePath (cf_confDir cfg) name"
      "parseNetworkFile ?fs p = Inr (built_network name subnet gateway labels p)" by metis
    then show ?thesis by (simp add: net_def built_network_def)
  qed
  have own: "\<And>p. p \<in> set own \<longleftrightarrow> is_own_file p \<and> get ?fs p \<noteq> None" "distinct own"
    using ps net by (auto simp: own_def) (metis conf_ext_networkFilePath option.distinct(1))
  have inj: "distinct (map (nw_Name \<circ> net) own)"
    unfolding distinct_map using own net by (auto intro!: inj_onI) (metis option.distinct(1))
  have "mapM (parseNetworkFile ?fs) own = Inr (map net own)"
    unfolding mapM_Inr_iff list_all2_map2 list_all2_same using own(1) net by blast
  then have "list_networks env cfg Live st = Inr (sort_key nw_Name (map net own))"
    by (simp add: list_networks_def ps(1) own_def)
  moreover have "distinct (map nw_Name (sort_key nw_Name (map net own)))"
  proof -
    have "distinct (map net own)" "inj_on nw_Name (set (map net own))"
      using inj unfolding map_map [symmetric] distinct_map by blast+
    then show ?thesis unfolding distinct_map set_sort distinct_sort by blast
  qed
  moreover have "n \<in> set (map net own) \<longleftrightarrow> (\<exists>p. is_own_file p \<and> parseNetworkFile ?fs p = Inr n)" for n
    using own net present by (auto simp: image_iff) (metis sum.inject(2))+
  ultimately show ?thesis by (simp del: map_map)
qed

lemma ParseNetworkMode_good:
  assumes "good_name name"
  shows "ParseNetworkMode name = Inr ModeNetwork"
proof -
  have "\<not> Contains s '':''" if "CHR '':'' \<notin> set s" for s
    using that by (induction s) auto
  moreover have "CHR '':'' \<notin> set name"
    using good_name_simps(1) [OF assms] match_name_chars name_char_not_sep by blast
  ultimately show ?thesis
    using assms by (simp add: ParseNetworkMode_def good_name_def isReservedNetworkName_def Let_def)
qed

lemma find_unique:
  assumes "x \<in> set xs" and "P x" and "\<And>y. y \<in> set xs \<Longrightarrow> P y \<Longrightarrow> y = x"
  shows "find P xs = Some x"
  using assms
proof (induction xs)
  case (Cons a xs)
  show ?case
  proof (cases "P a")
    case True
    then show ?thesis using Cons.prems(3) [of a] by simp
  next
    case False
    with Cons.prems(1,2) have "x \<in> set xs" by auto
    then have "find P xs = Some x"
      using Cons.IH Cons.prems(2,3) by (meson list.set_intros(2))
    with False show ?thesis by simp
  qed
qed simp

lemma Resolve_name:
  assumes "list_networks env cfg Live st = Inr ns" and "distinct (map nw_Name ns)" and "n \<in> set ns"
    and "good_name (nw_Name n)" and "\<forall>m\<in>set ns. nw_ID m \<noteq> nw_Name n"
  shows "Resolve env cfg Live (nw_Name n) st = Inr n"
proof -
  have "find (\<lambda>m. nw_Name m = nw_Name n \<or> nw_ID m = nw_Name n) ns = Some n"
    by (rule find_unique) (use assms in \<open>auto simp: distinct_map inj_on_def\<close>)
  with assms good_name_simps [OF assms(4)] ParseNetworkMode_good [OF assms(4)] show ?thesis
    by (simp add: Resolve_def)
qed

section \<open>Creating and removing\<close>

lemma CreateNetwork_effect:
  assumes "CreateNetwork env cfg ctx req st = (st', r)"
  shows "case r of Inl e \<Rightarrow> st' = st
    | Inr i \<Rightarrow> let name = TrimSpace (cn_Name req); path = networkFilePath (cf_confDir cfg) name in
        i = networkIDForName name \<and> good_name name \<and> get (st_files st) path = None
        \<and> (\<exists>subnet gateway doc.
             allocateSubnet (cf_confDir cfg) (st_files st) (ce_confFiles env (st_files st))
               (cn_Subnet req) (cn_Gateway req) = Inr (subnet, gateway)
             \<and> buildBridgeNetworkConfig name subnet gateway (cf_ipamDataDir cfg) (cn_Labels req) = Inr doc
             \<and> st' = st\<lparr>st_files := put path (Document doc) (st_files st)\<rparr>)"
  using assms unfolding CreateNetwork_def Let_def good_name_def
  by (auto split: option.splits if_splits sum.splits prod.splits)

lemma network_Remove_effect:
  assumes "network_Remove env cfg ctx i st w = (st', w', err)"
  shows "(err \<noteq> None \<and> st' = st) \<or> (err = None \<and> (\<exists>n. Resolve env cfg ctx i st = Inr n
    \<and> networkInUse env (nw_Name n) st w = Inr False \<and> st' = st\<lparr>st_files := del (nw_File n) (st_files st)\<rparr>))"
  using assms unfolding network_Remove_def
  by (auto split: option.splits if_splits sum.splits prod.splits bool.splits)

lemma daemon_dir_put:
  assumes "daemon_dir cfg fs" and "good_name name"
    and "buildBridgeNetworkConfig name subnet gateway (cf_ipamDataDir cfg) labels = Inr doc"
  shows "daemon_dir cfg (put (networkFilePath (cf_confDir cfg) name) (Document doc) fs)"
  using assms unfolding daemon_dir_def daemon_entry_def by (auto split: if_splits)

lemma daemon_dir_del: "daemon_dir cfg fs \<Longrightarrow> daemon_dir cfg (del p fs)"
  by (auto simp: daemon_dir_def)

lemma file_subnets_put: "file_subnets (put p f fs) q = (if q = p then (case f of Document d \<Rightarrow> doc_subnets d | _ \<Rightarrow> [])
    else file_subnets fs q)"
  by (simp add: file_subnets_def split: conf_file.split)

lemma file_subnets_del: "file_subnets (del p fs) q = (if q = p then [] else file_subnets fs q)"
  by (simp add: file_subnets_def)

lemma disjoint_subnets_del: "disjoint_subnets fs \<Longrightarrow> disjoint_subnets (del p fs)"
  unfolding disjoint_subnets_def file_subnets_del by (auto split: if_splits)

lemma allocateSubnet_auto:
  assumes "allocateSubnet d fs (Inr ps) [] gw = Inr (subnet, gateway)"
  shows "subnet \<notin> set (usedSubnets fs ps)"
proof -
  have "show_prefix v 24 \<notin> set used" if "subnet_loop n used u = Some v" for n used u v
    using that by (induction n used u rule: subnet_loop.induct) (auto split: if_splits)
  then show ?thesis
    using assms by (auto simp: allocateSubnet_def split: option.splits)
qed

lemma own_subnets_used:
  assumes "lists_conf l" and "l fs = Inr ps" and "daemon_dir cfg fs" and "is_own_file q"
  shows "set (file_subnets fs q) \<subseteq> set (usedSubnets fs ps)"
proof (cases "get fs q")
  case None
  then show ?thesis by (simp add: file_subnets_def)
next
  case (Some f)
  from own_parse [OF assms(3) Some assms(4)] obtain name where
    "q = networkFilePath (cf_confDir cfg) name" by metis
  then have "conf_ext q" by simp
  then have "q \<in> set ps"
    using assms(1,2) Some unfolding lists_conf_def by (metis option.distinct(1) sum.inject(2))
  then show ?thesis by (auto simp: usedSubnets_def)
qed

lemma disjoint_subnets_put:
  assumes "disjoint_subnets fs" and "doc_subnets doc = [subnet]"
    and "\<And>q. is_own_file q \<Longrightarrow> subnet \<notin> set (file_subnets fs q)"
  shows "disjoint_subnets (put p (Document doc) fs)"
  using assms unfolding disjoint_subnets_def file_subnets_put by (auto split: if_splits)

definition networks_ok :: "bool \<Rightarrow> cni_cfg \<Rightarrow> conf_files \<Rightarrow> bool" where
  "networks_ok auto_only cfg fs \<longleftrightarrow> daemon_dir cfg fs \<and> (auto_only \<longrightarrow> disjoint_subnets fs)"

lemma CreateNetwork_networks_ok:
  assumes "lists_conf (ce_confFiles env)" and "networks_ok b cfg (st_files st)" and "b \<longrightarrow> cn_Subnet req = []"
    and "CreateNetwork env cfg ctx req st = (st', r)"
  shows "networks_ok b cfg (st_files st') \<and> st_alloc st' = st_alloc st \<and> st_attachments st' = st_attachments st"
proof (cases r)
  case (Inl e)
  with CreateNetwork_effect [OF assms(4)] assms(2) show ?thesis by simp
next
  case (Inr i)
  define name where "name = TrimSpace (cn_Name req)"
  obtain subnet gateway doc where c: "good_name name"
    "allocateSubnet (cf_confDir cfg) (st_files st) (ce_confFiles env (st_files st)) (cn_Subnet req) (cn_Gateway req)
       = Inr (subnet, gateway)"
    "buildBridgeNetworkConfig name subnet gateway (cf_ipamDataDir cfg) (cn_Labels req) = Inr doc"
    "st' = st\<lparr>st_files := put (networkFilePath (cf_confDir cfg) name) (Document doc) (st_files st)\<rparr>"
    using CreateNetwork_effect [OF assms(4)] Inr by (auto simp: Let_def name_def)
  obtain ps where ps: "ce_confFiles env (st_files st) = Inr ps"
    using assms(1) unfolding lists_conf_def by blast
  have dir: "daemon_dir cfg (st_files st)" using assms(2) by (simp add: networks_ok_def)
  have "disjoint_subnets (st_files st')" if b: b
  proof -
    have "subnet \<notin> set (usedSubnets (st_files st) ps)"
      using allocateSubnet_auto c(2) assms(3) b ps by auto
    then show ?thesis
      using own_subnets_used [OF assms(1) ps dir] assms(2) b c(4)
      by (auto simp: networks_ok_def intro!: disjoint_subnets_put [OF _ built_subnets [OF c(3)]])
  qed
  with daemon_dir_put [OF dir c(1,3)] c(4) show ?thesis by (simp add: networks_ok_def)
qed

lemma network_Remove_networks_ok:
  assumes "networks_ok b cfg (st_files st)" and "network_Remove env cfg ctx i st w = (st', w', err)"
  shows "networks_ok b cfg (st_files st') \<and> st_alloc st' = st_alloc st \<and> st_attachments st' = st_attachments st"
  using network_Remove_effect [OF assms(2)] assms(1)
  by (auto simp: networks_ok_def daemon_dir_del disjoint_subnets_del)

section \<open>Connecting and disconnecting\<close>

text \<open>
  A successful \<open>connect\<close> in one statement: the network it resolved, the reservations it took over or
  made, and the attachment it recorded.
\<close>

definition prepared :: "port_binding list \<Rightarrow> port_allocation list option \<Rightarrow> allocator \<Rightarrow> allocator \<Rightarrow>
    port_binding list \<Rightarrow> port_allocation list \<Rightarrow> bool" where
  "prepared ps reserved a a' filled allocs \<longleftrightarrow> (case reserved of
     None \<Rightarrow> extends a allocs a' \<and> list_all2 matches ps allocs \<and> filled = map2 filled_binding ps allocs
   | Some als \<Rightarrow> allocs = als \<and> a' = a \<and> filled = ps)"

lemma extends_allocator_ok: "extends a allocs a' \<Longrightarrow> allocator_ok a'"
  unfolding extends_def by blast

lemma prepareConnectPorts_effect:
  assumes "prepareConnectPorts probe ps reserved a w = (a', w', r)" and "allocator_ok a"
  shows "case r of Inl e \<Rightarrow> a' = a
    | Inr (filled, allocs) \<Rightarrow> allocator_ok a' \<and> prepared ps reserved a a' filled allocs
        \<and> (if reserved = None then Release allocs a' else a') = a"
proof (cases reserved)
  case None
  then have "AllocateBindings probe ps a w = (a', w', r)"
    using assms(1) by (simp add: prepareConnectPorts_def)
  from AllocateBindings_effect [OF assms(2) this] None show ?thesis
    by (auto simp: prepared_def extends_Release dest: extends_allocator_ok split: sum.splits)
next
  case (Some als)
  with assms show ?thesis by (auto simp: prepareConnectPorts_def prepared_def)
qed

lemma connect_effect:
  assumes "connect env cfg ctx req reserved st w = (st', w', r)" and "allocator_ok (st_alloc st)"
  shows "case r of Inl e \<Rightarrow> st' = st
     | Inr res \<Rightarrow> \<exists>n. Resolve env cfg ctx (cr_Network req) st = Inr n
        \<and> (nw_Mode n \<noteq> ModeNetwork \<and> st' = st \<and> co_Ports res = []
           \<or> nw_Mode n = ModeNetwork \<and> (\<exists>allocs a'. allocator_ok a' \<and> ce_loadConf env (st_files st) (nw_File n) = None
             \<and> nw_File n \<noteq> [] \<and> TrimSpace (cr_Container req) \<noteq> []
             \<and> prepared (cr_Ports req) reserved (st_alloc st) a' (co_Ports res) allocs
             \<and> st' = trackAttachment (cr_Container req, nw_Name n)
                 \<lparr>as_allocations = allocs, as_ports = co_Ports res, as_netns = cr_NetNS req,
                  as_ifName = normalizeIfName (cr_IfName req)\<rparr> (st\<lparr>st_alloc := a'\<rparr>)))"
proof -
  obtain a1 w1 r1 where p: "prepareConnectPorts (ce_probe env) (cr_Ports req) reserved (st_alloc st) w = (a1, w1, r1)"
    by (cases "prepareConnectPorts (ce_probe env) (cr_Ports req) reserved (st_alloc st) w") auto
  note eff = prepareConnectPorts_effect [OF p assms(2)]
  have modes: "m \<noteq> ModeHost \<Longrightarrow> m \<noteq> ModeNone \<Longrightarrow> m = ModeNetwork" for m by (cases m) auto
  show ?thesis
  proof (cases r)
    case (Inl e)
    with assms(1) eff p show ?thesis unfolding connect_def Let_def
      by (cases r1) (auto split: option.splits if_splits sum.splits prod.splits)
  next
    case (Inr res)
    with assms(1) obtain n where n: "Resolve env cfg ctx (cr_Network req) st = Inr n"
      unfolding connect_def Let_def by (auto split: option.splits if_splits sum.splits)
    show ?thesis
    proof (cases "nw_Mode n = ModeNetwork")
      case True
      with assms(1) Inr n p obtain filled allocs where "r1 = Inr (filled, allocs)" "co_Ports res = filled"
        "ce_loadConf env (st_files st) (nw_File n) = None" "TrimSpace (cr_Container req) \<noteq> []" "nw_File n \<noteq> []"
        "st' = trackAttachment (cr_Container req, nw_Name n)
                 \<lparr>as_allocations = allocs, as_ports = filled, as_netns = cr_NetNS req,
                  as_ifName = normalizeIfName (cr_IfName req)\<rparr> (st\<lparr>st_alloc := a1\<rparr>)"
        unfolding connect_def Let_def by (auto split: option.splits if_splits sum.splits prod.splits)
      with n True eff Inr show ?thesis by auto
    next
      case False
      with modes have "nw_Mode n = ModeHost \<or> nw_Mode n = ModeNone" by blast
      with assms(1) Inr n False show ?thesis
        unfolding connect_def connectDirect_def by (auto split: option.splits if_splits)
    qed
  qed
qed

lemma Disconnect_attached:
  assumes "Resolve env cfg ctx (dr_Network req) st = Inr n" and "nw_Mode n = ModeNetwork"
    and "TrimSpace (dr_Container req) \<noteq> []" and "ce_loadConf env (st_files st) (nw_File n) = None"
  shows "fst (Disconnect env cfg ctx req st w) = forgetAttachment (dr_Container req, nw_Name n)
      (get (st_attachments st) (dr_Container req, nw_Name n)) st"
  using assms by (simp add: Disconnect_def Let_def split: prod.split)

lemma Disconnect_effect:
  "fst (Disconnect env cfg ctx req st w) = st \<or> (\<exists>k. fst (Disconnect env cfg ctx req st w)
      = forgetAttachment k (get (st_attachments st) k) st)"
proof (cases "Resolve env cfg ctx (dr_Network req) st")
  case (Inl e)
  then show ?thesis by (simp add: Disconnect_def)
next
  case (Inr n)
  show ?thesis
  proof (cases "nw_Mode n = ModeNetwork \<and> TrimSpace (dr_Container req) \<noteq> [] \<and> ce_loadConf env (st_files st) (nw_File n) = None")
    case True
    with Disconnect_attached [OF Inr] show ?thesis by blast
  next
    case False
    with Inr show ?thesis by (cases "nw_Mode n") (auto simp: Disconnect_def)
  qed
qed

lemma forgetAttachment_simps [simp]:
  "st_files (forgetAttachment k t st) = st_files st"
  "st_attachments (forgetAttachment k t st) = del k (st_attachments st)"
  "st_alloc (forgetAttachment k t st) = (case t of None \<Rightarrow> st_alloc st
     | Some s \<Rightarrow> Release (as_allocations s) (st_alloc st))"
  by (cases t; simp add: forgetAttachment_def)+

lemma trackAttachment_simps [simp]:
  "st_files (trackAttachment k s st) = st_files st"
  "st_attachments (trackAttachment k s st) = put k s (st_attachments st)"
  "st_alloc (trackAttachment k s st) = st_alloc st"
  by (simp_all add: trackAttachment_def)

lemma Resolve_files:
  assumes "st_files a = st_files b"
  shows "Resolve env cfg ctx r a = Resolve env cfg ctx r b"
proof -
  have "list_networks env cfg ctx a = list_networks env cfg ctx b"
    unfolding list_networks_def assms by (rule refl)
  then show ?thesis by (simp only: Resolve_def)
qed

text \<open>Only creating and removing touch the directory; every operation keeps the reservations clash free.\<close>

definition frame_ok :: "cni_state \<Rightarrow> cni_state \<Rightarrow> bool" where
  "frame_ok st st' \<longleftrightarrow> st_files st' = st_files st \<and> allocator_ok (st_alloc st')
     \<and> (gomap_ok (st_attachments st) \<longrightarrow> gomap_ok (st_attachments st'))"

lemma connect_frame:
  assumes "connect env cfg ctx req reserved st w = (st', w', r)" and "allocator_ok (st_alloc st)"
  shows "frame_ok st st'"
  using connect_effect [OF assms] assms(2) by (auto simp: frame_ok_def split: sum.splits)

lemma ConnectReserved_frame:
  assumes "ConnectReserved env cfg ctx req st w = (st', w', r)" and "allocator_ok (st_alloc st)"
  shows "frame_ok st st'"
  using assms
  by (auto simp: ConnectReserved_def frame_ok_def split: sum.splits
      dest: connect_frame [OF _ assms(2), unfolded frame_ok_def])

lemma Disconnect_frame:
  assumes "Disconnect env cfg ctx req st w = (st', w', err)" and "allocator_ok (st_alloc st)"
  shows "frame_ok st st'"
  using Disconnect_effect [of env cfg ctx req st w] assms(2)
  by (auto simp: assms(1) frame_ok_def Release_ok split: option.splits)

lemma disconnect_keys_frame:
  assumes "disconnect_keys env cfg ctx c ks st w = (st', w', errs)" and "allocator_ok (st_alloc st)"
  shows "frame_ok st st'"
  using assms
proof (induction ks arbitrary: st w errs)
  case Nil
  then show ?case by (simp add: frame_ok_def)
next
  case (Cons ks1 ks)
  obtain k s where ks1: "ks1 = (k, s)" by (cases ks1)
  obtain st1 w1 e1 where d: "Disconnect env cfg ctx \<lparr>dr_Network = snd k, dr_Container = c, dr_NetNS = as_netns s,
      dr_IfName = as_ifName s\<rparr> st w = (st1, w1, e1)"
    by (metis prod_cases3)
  obtain errs' where r: "disconnect_keys env cfg ctx c ks st1 w1 = (st', w', errs')"
    using Cons.prems(1) d by (auto simp: ks1 split: prod.splits)
  have f: "frame_ok st st1" by (rule Disconnect_frame [OF d Cons.prems(2)])
  with Cons.IH [OF r] show ?case by (auto simp: frame_ok_def)
qed

section \<open>Histories of the adapter\<close>

datatype cni_op =
    OpCreate ctx create_network_request
  | OpEnsureDefault ctx
  | OpRemove ctx network_id
  | OpConnect ctx connect_request
  | OpConnectReserved ctx connect_request
  | OpDisconnect ctx disconnect_request
  | OpDisconnectAll ctx container_id

fun cni_step :: "'w cni_env \<Rightarrow> cni_cfg \<Rightarrow> cni_op \<Rightarrow> cni_state \<times> 'w \<Rightarrow> cni_state \<times> 'w" where
  "cni_step env cfg (OpCreate ctx req) (st, w) = (fst (CreateNetwork env cfg ctx req st), w)"
| "cni_step env cfg (OpEnsureDefault ctx) (st, w) = (fst (EnsureDefaultNetwork env cfg ctx st), w)"
| "cni_step env cfg (OpRemove ctx i) (st, w) = (case network_Remove env cfg ctx i st w of (st', w', e) \<Rightarrow> (st', w'))"
| "cni_step env cfg (OpConnect ctx req) (st, w) = (case Connect env cfg ctx req st w of (st', w', r) \<Rightarrow> (st', w'))"
| "cni_step env cfg (OpConnectReserved ctx req) (st, w) =
    (case ConnectReserved env cfg ctx req st w of (st', w', r) \<Rightarrow> (st', w'))"
| "cni_step env cfg (OpDisconnect ctx req) (st, w) = (case Disconnect env cfg ctx req st w of (st', w', e) \<Rightarrow> (st', w'))"
| "cni_step env cfg (OpDisconnectAll ctx c) (st, w) = (case DisconnectAll env cfg ctx c st w of (st', w', e) \<Rightarrow> (st', w'))"

text \<open>A creation that leaves the subnet to the daemon, as \<^verbatim>\<open>docker network create\<close> does by default.\<close>

fun auto_op :: "cni_op \<Rightarrow> bool" where
  "auto_op (OpCreate ctx req) = (cn_Subnet req = [])"
| "auto_op op = True"

definition adapter_ok :: "bool \<Rightarrow> cni_cfg \<Rightarrow> cni_state \<Rightarrow> bool" where
  "adapter_ok b cfg st \<longleftrightarrow> networks_ok b cfg (st_files st) \<and> allocator_ok (st_alloc st)
     \<and> gomap_ok (st_attachments st)"

lemma frame_adapter_ok: "adapter_ok b cfg st \<Longrightarrow> frame_ok st st' \<Longrightarrow> adapter_ok b cfg st'"
  by (simp add: adapter_ok_def frame_ok_def)

lemma create_adapter_ok:
  assumes "lists_conf (ce_confFiles env)" and "adapter_ok b cfg st" and "b \<longrightarrow> cn_Subnet req = []"
  shows "adapter_ok b cfg (fst (CreateNetwork env cfg ctx req st))"
  using CreateNetwork_networks_ok [OF assms(1) _ assms(3)] assms(2)
  by (cases "CreateNetwork env cfg ctx req st") (auto simp: adapter_ok_def)

lemma cni_step_ok:
  assumes "lists_conf (ce_confFiles env)" and "adapter_ok b cfg st" and "b \<longrightarrow> auto_op op"
  shows "adapter_ok b cfg (fst (cni_step env cfg op (st, w)))"
proof -
  have a: "allocator_ok (st_alloc st)" using assms(2) by (simp add: adapter_ok_def)
  note frame = frame_adapter_ok [OF assms(2)]
  show ?thesis
  proof (cases op)
    case (OpCreate ctx req)
    with create_adapter_ok [OF assms(1,2)] assms(3) show ?thesis by simp
  next
    case (OpEnsureDefault ctx)
    with create_adapter_ok [OF assms(1,2)] assms(2) show ?thesis
      by (auto simp: EnsureDefaultNetwork_def bridge_request_def split: sum.split)
  next
    case (OpRemove ctx i)
    with network_Remove_networks_ok assms(2) show ?thesis
      by (cases "network_Remove env cfg ctx i st w") (fastforce simp: adapter_ok_def)
  next
    case (OpConnect ctx req)
    then show ?thesis
      by (cases "connect env cfg ctx req None st w") (auto simp: Connect_def intro: frame connect_frame [OF _ a])
  next
    case (OpConnectReserved ctx req)
    then show ?thesis
      by (cases "ConnectReserved env cfg ctx req st w") (auto intro: frame ConnectReserved_frame [OF _ a])
  next
    case (OpDisconnect ctx req)
    then show ?thesis
      by (cases "Disconnect env cfg ctx req st w") (auto intro: frame Disconnect_frame [OF _ a])
  next
    case (OpDisconnectAll ctx c)
    then show ?thesis
      by (cases "DisconnectAll env cfg ctx c st w")
        (auto simp: DisconnectAll_def intro: frame disconnect_keys_frame [OF _ a])
  qed
qed

lemma cni_history_ok:
  assumes "lists_conf (ce_confFiles env)" and "adapter_ok b cfg (fst s)" and "b \<longrightarrow> list_all auto_op ops"
  shows "adapter_ok b cfg (fst (fold (cni_step env cfg) ops s))"
  using assms(2,3)
proof (induction ops arbitrary: s)
  case (Cons op ops)
  with cni_step_ok [OF assms(1), of b cfg "fst s" op "snd s"] show ?case by simp
qed simp

section \<open>Properties\<close>

text \<open>A network found in the listing: its name resolves to it, and its subnet is its file's.\<close>

lemma listed_network:
  assumes "daemon_dir cfg (st_files st)" and "is_own_file p" and "parseNetworkFile (st_files st) p = Inr n"
  shows "good_name (nw_Name n) \<and> p = networkFilePath (cf_confDir cfg) (nw_Name n)
    \<and> file_subnets (st_files st) p = [nw_Subnet n] \<and> length (nw_ID n) = 64"
proof -
  obtain f where "get (st_files st) p = Some f"
    using assms(3) by (auto simp: parseNetworkFile_def split: option.splits)
  from own_parse [OF assms(1) this assms(2)] obtain name subnet gateway labels where
    "good_name name" "p = networkFilePath (cf_confDir cfg) name" "file_subnets (st_files st) p = [subnet]"
    "parseNetworkFile (st_files st) p = Inr (built_network name subnet gateway labels p)" by metis
  with assms(3) show ?thesis
    by (auto simp: built_network_def networkIDForName_def length_sha256_hex)
qed

lemma listing_resolves:
  assumes "lists_conf (ce_confFiles env)" and "daemon_dir cfg (st_files st)"
    and "list_networks env cfg Live st = Inr ns" and "n \<in> set ns" and "length (nw_Name n) < 64"
  shows "Resolve env cfg Live (nw_Name n) st = Inr n"
proof -
  from list_networks_ok [OF assms(1,2)] assms(3) have ns: "distinct (map nw_Name ns)"
    "\<And>m. m \<in> set ns \<longleftrightarrow> (\<exists>p. is_own_file p \<and> parseNetworkFile (st_files st) p = Inr m)" by auto
  then have "\<And>m. m \<in> set ns \<Longrightarrow> good_name (nw_Name m) \<and> length (nw_ID m) = 64"
    using listed_network [OF assms(2)] by blast
  then show ?thesis
    using assms(4,5) by (intro Resolve_name [OF assms(3) ns(1)]) fastforce+
qed

lemma listing_subnets:
  assumes "networks_ok True cfg (st_files st)"
    and "distinct (map nw_Name ns)"
    and "\<And>m. m \<in> set ns \<longleftrightarrow> (\<exists>p. is_own_file p \<and> parseNetworkFile (st_files st) p = Inr m)"
  shows "distinct (map nw_Subnet ns)"
proof -
  have dir: "daemon_dir cfg (st_files st)" "disjoint_subnets (st_files st)"
    using assms(1) by (auto simp: networks_ok_def)
  have "m = n" if m: "m \<in> set ns" and n: "n \<in> set ns" and eq: "nw_Subnet m = nw_Subnet n" for m n
  proof -
    obtain p q where p: "is_own_file p" "parseNetworkFile (st_files st) p = Inr m"
      and q: "is_own_file q" "parseNetworkFile (st_files st) q = Inr n"
      using m n assms(3) by blast
    have "file_subnets (st_files st) p = [nw_Subnet m]" "file_subnets (st_files st) q = [nw_Subnet n]"
      using listed_network [OF dir(1) p] listed_network [OF dir(1) q] by blast+
    then have "set (file_subnets (st_files st) p) \<inter> set (file_subnets (st_files st) q) \<noteq> {}"
      by (simp add: eq)
    then have "p = q" using dir(2) p(1) q(1) unfolding disjoint_subnets_def by blast
    with p(2) q(2) show ?thesis by simp
  qed
  then show ?thesis using assms(2) by (auto simp: distinct_map intro!: inj_onI)
qed

text \<open>
  C16: after any history of the adapter on a directory without networks of its own (foreign
  configuration files may be there), the listing succeeds and is sorted, network names are unique,
  every name that is not as long as an identity resolves to its network, and as long as clients
  leave the choice to the daemon no two networks share a subnet.
\<close>

theorem network_history:
  assumes "lists_conf (ce_confFiles env)" and "\<forall>p. is_own_file p \<longrightarrow> get (st_files st0) p = None"
    and "st_alloc st0 = NewPortAllocator" and "st_attachments st0 = []"
    and "fold (cni_step env cfg) ops (st0, w0) = (st, w)"
  shows "\<exists>ns. list_networks env cfg Live st = Inr ns \<and> sorted (map nw_Name ns) \<and> distinct (map nw_Name ns)
    \<and> (\<forall>n\<in>set ns. length (nw_Name n) < 64 \<longrightarrow> Resolve env cfg Live (nw_Name n) st = Inr n)
    \<and> (list_all auto_op ops \<longrightarrow> distinct (map nw_Subnet ns))"
proof -
  have "adapter_ok b cfg st0" for b
    using assms(2-4) NewPortAllocator_ok
    by (auto simp: adapter_ok_def networks_ok_def daemon_dir_def disjoint_subnets_def file_subnets_def)
  with cni_history_ok [OF assms(1), of _ cfg "(st0, w0)" ops] assms(5)
  have ok: "b \<longrightarrow> list_all auto_op ops \<Longrightarrow> adapter_ok b cfg st" for b by simp
  have dir: "daemon_dir cfg (st_files st)" using ok [of False] by (simp add: adapter_ok_def networks_ok_def)
  from list_networks_ok [OF assms(1) dir] obtain ns where ns: "list_networks env cfg Live st = Inr ns"
    "distinct (map nw_Name ns)" "sorted (map nw_Name ns)"
    "\<And>n. n \<in> set ns \<longleftrightarrow> (\<exists>p. is_own_file p \<and> parseNetworkFile (st_files st) p = Inr n)" by blast
  have "distinct (map nw_Subnet ns)" if "list_all auto_op ops"
    using ok [of True] that by (intro listing_subnets [OF _ ns(2,4), of cfg]) (simp add: adapter_ok_def)
  with ns listing_resolves [OF assms(1) dir ns(1)] show ?thesis by blast
qed

text \<open>
  A network that was created can be found by its name with everything the client asked for
  (identity, labels, and a subnet with a gateway), and creating the same name again is refused and
  changes nothing.
\<close>

theorem create_then_resolve:
  assumes "lists_conf (ce_confFiles env)" and "daemon_dir cfg (st_files st)"
    and "CreateNetwork env cfg Live req st = (st', Inr i)" and "length (TrimSpace (cn_Name req)) < 64"
  shows "(\<exists>n. Resolve env cfg Live (cn_Name req) st' = Inr n \<and> nw_ID n = i
      \<and> nw_Name n = TrimSpace (cn_Name req) \<and> nw_Labels n = cn_Labels req
      \<and> allocateSubnet (cf_confDir cfg) (st_files st) (ce_confFiles env (st_files st))
            (cn_Subnet req) (cn_Gateway req) = Inr (nw_Subnet n, nw_Gateway n))
    \<and> (TrimSpace (cn_Name req') = TrimSpace (cn_Name req)
        \<longrightarrow> (\<exists>e. CreateNetwork env cfg ctx req' st' = (st', Inl e)))"
proof -
  define name where "name = TrimSpace (cn_Name req)"
  define path where "path = networkFilePath (cf_confDir cfg) name"
  obtain subnet gateway doc where c: "i = networkIDForName name" "good_name name"
    "allocateSubnet (cf_confDir cfg) (st_files st) (ce_confFiles env (st_files st)) (cn_Subnet req) (cn_Gateway req)
       = Inr (subnet, gateway)"
    "buildBridgeNetworkConfig name subnet gateway (cf_ipamDataDir cfg) (cn_Labels req) = Inr doc"
    "st' = st\<lparr>st_files := put path (Document doc) (st_files st)\<rparr>"
    using CreateNetwork_effect [OF assms(3)] by (auto simp: Let_def name_def path_def)
  have dir: "daemon_dir cfg (st_files st')"
    using daemon_dir_put [OF assms(2) c(2,4)] c(5) by (simp add: path_def)
  define n where "n = built_network name subnet gateway (cn_Labels req) path"
  have "parseNetworkFile (st_files st') path = Inr n"
    unfolding n_def built_network_def
    by (rule parse_built_network [OF c(4)]) (use c(5) good_name_simps [OF c(2)] in auto)
  moreover have "is_own_file path" using own_networkFilePath [OF c(2)] by (simp add: path_def)
  ultimately obtain ns where ns: "list_networks env cfg Live st' = Inr ns" "n \<in> set ns"
    using list_networks_ok [OF assms(1) dir] by blast
  have "Resolve env cfg Live name st' = Inr n"
    using listing_resolves [OF assms(1) dir ns] assms(4) by (simp add: n_def built_network_def name_def)
  moreover have "Resolve env cfg Live (TrimSpace r) st' = Resolve env cfg Live r st'" for r
    unfolding Resolve_def TrimSpace_idem by (rule refl)
  ultimately have "Resolve env cfg Live (cn_Name req) st' = Inr n"
    by (simp add: name_def)
  moreover have "\<exists>e. CreateNetwork env cfg ctx req' st' = (st', Inl e)"
    if "TrimSpace (cn_Name req') = TrimSpace (cn_Name req)"
  proof -
    obtain st2 r where r: "CreateNetwork env cfg ctx req' st' = (st2, r)"
      by (cases "CreateNetwork env cfg ctx req' st'")
    have "get (st_files st') path \<noteq> None" using c(5) by simp
    with CreateNetwork_effect [OF r] that show ?thesis
      using r by (cases r) (auto simp: Let_def path_def name_def)
  qed
  ultimately show ?thesis using c by (simp add: n_def built_network_def name_def)
qed

text \<open>
  Attaching a container is all or nothing, and detaching undoes it: a failing attach leaves
  the adapter as it was; after a successful one the network cannot be removed, and disconnecting
  the container, whatever the plugin answers to the delete, forgets the attachment and restores
  the host port reservations.
\<close>

theorem connect_disconnect:
  assumes "allocator_ok (st_alloc st)" and "Resolve env cfg ctx (cr_Network req) st = Inr n"
    and "nw_Mode n = ModeNetwork" and "get (st_attachments st) (cr_Container req, nw_Name n) = None"
    and "Connect env cfg ctx req st w = (st1, w1, res)"
  shows "case res of Inl e \<Rightarrow> st1 = st
    | Inr r \<Rightarrow> length (co_Ports r) = length (cr_Ports req) \<and> list_all (\<lambda>b. pb_HostPort b \<noteq> 0) (co_Ports r)
      \<and> (\<exists>e. network_Remove env cfg ctx (cr_Network req) st1 w2 = (st1, w2, Some e)
            \<and> errors_is e (Cni ErrNetworkInUse))
      \<and> (let st2 = fst (Disconnect env cfg ctx \<lparr>dr_Network = cr_Network req, dr_Container = cr_Container req,
                 dr_NetNS = netns, dr_IfName = ifName\<rparr> st1 w2)
         in st_alloc st2 = st_alloc st \<and> st_files st2 = st_files st
            \<and> get (st_attachments st2) = get (st_attachments st))"
proof (cases res)
  case (Inl e)
  with connect_effect [OF assms(5) [unfolded Connect_def] assms(1)] show ?thesis by simp
next
  case (Inr r)
  obtain allocs a' where c: "ce_loadConf env (st_files st) (nw_File n) = None" "TrimSpace (cr_Container req) \<noteq> []"
    "nw_File n \<noteq> []" "prepared (cr_Ports req) None (st_alloc st) a' (co_Ports r) allocs"
    "st1 = trackAttachment (cr_Container req, nw_Name n)
       \<lparr>as_allocations = allocs, as_ports = co_Ports r, as_netns = cr_NetNS req,
        as_ifName = normalizeIfName (cr_IfName req)\<rparr> (st\<lparr>st_alloc := a'\<rparr>)"
    using connect_effect [OF assms(5) [unfolded Connect_def] assms(1)] assms(2,3) Inr by auto
  then have ext: "extends (st_alloc st) allocs a'" "list_all2 matches (cr_Ports req) allocs"
    "co_Ports r = map2 filled_binding (cr_Ports req) allocs"
    by (auto simp: prepared_def)
  have len: "length (cr_Ports req) = length allocs" using ext(2) by (rule list_all2_lengthD)
  have ports: "pb_HostPort b \<noteq> 0" if b: "b \<in> set (co_Ports r)" for b
  proof -
    obtain al where "al \<in> set allocs" "pb_HostPort b = pa_HostPort al"
      using b unfolding ext(3) by (auto simp: filled_binding_def dest: set_zip_rightD)
    moreover have "\<forall>al\<in>set allocs. normal_key (key_of al)" using ext(1) unfolding extends_def by blast
    ultimately show ?thesis by (auto simp: normal_key_def key_of_def)
  qed
  have res: "Resolve env cfg ctx (cr_Network req) st1 = Inr n"
    using Resolve_files [of st1 st env] assms(2) c(5) by simp
  obtain s where "get (st_attachments st1) (cr_Container req, nw_Name n) = Some s" by (simp add: c(5))
  then have "((cr_Container req, nw_Name n), s) \<in> set (st_attachments st1)" by (rule map_of_SomeD)
  then have "list_ex (\<lambda>(k, s). snd k = nw_Name n) (st_attachments st1)"
    unfolding list_ex_iff by (rule bexI [rotated]) simp
  then have "networkInUse env (nw_Name n) st1 w2 = Inr True" by (simp add: networkInUse_def)
  then have "network_Remove env cfg ctx (cr_Network req) st1 w2
      = (st1, w2, Some (wrap_post (Sentinel (Cni ErrNetworkInUse)) ('': '' @ quote (nw_Name n))))"
    using res assms(3) c(3) by (simp add: network_Remove_def)
  moreover have "fst (Disconnect env cfg ctx \<lparr>dr_Network = cr_Network req, dr_Container = cr_Container req,
                 dr_NetNS = netns, dr_IfName = ifName\<rparr> st1 w2)
      = forgetAttachment (cr_Container req, nw_Name n) (get (st_attachments st1) (cr_Container req, nw_Name n)) st1"
    using Disconnect_attached [of env cfg ctx _ st1 n] res assms(3) c(1,2,5) by simp
  moreover have "length (co_Ports r) = length (cr_Ports req)" using len by (simp add: ext(3))
  moreover have "(get (st_attachments st))(k := None) = get (st_attachments st)"
    if "get (st_attachments st) k = None" for k using that by auto
  ultimately show ?thesis
    using assms(4) c(5) extends_Release [OF ext(1)] ports
    by (simp add: Inr list_all_iff)
qed

section \<open>A concrete adapter\<close>

definition sample_cni_env :: "nat cni_env" where
  "sample_cni_env = \<lparr>ce_confFiles = (\<lambda>fs. Inr (filter conf_ext (remdups (map fst fs)))), ce_mkdir = None,
     ce_write = (\<lambda>p. None), ce_remove = (\<lambda>p. None), ce_loadConf = (\<lambda>fs p. None), ce_cached = (\<lambda>w. Inr []),
     ce_add = (\<lambda>p rt w. (w, Inr (Some (Inr \<lparr>res_IPs = [Some \<lparr>ip_is4 = True, ip_text = ''10.88.0.2'',
        ip_prefix_len = 24, ip_gateway = Some ''10.88.0.1'', ip_interface = None, ip_link_local = False\<rparr>],
        res_Interfaces = []\<rparr>)))),
     ce_del = (\<lambda>p rt w. (w, Some (NewErr ''plugin failed''))), ce_cachedConf = (\<lambda>p rt w. None),
     ce_deleteLink = (\<lambda>b w. (w, None)), ce_netns = (\<lambda>p i w. Inl (NewErr ''no namespace'')),
     ce_probe = sample_probe\<rparr>"

definition sample_cfg :: cni_cfg where
  "sample_cfg = \<lparr>cf_confDir = ''/etc/cni/net.d'', cf_ipamDataDir = []\<rparr>"

definition empty_cni_state :: cni_state where
  "empty_cni_state = \<lparr>st_files = [], st_alloc = NewPortAllocator, st_attachments = []\<rparr>"

definition sample_cni_ops :: "cni_op list" where
  "sample_cni_ops = [OpCreate Live (bridge_request ''web''), OpEnsureDefault Live,
     OpCreate Live (bridge_request ''db''), OpRemove Live ''web'']"

lemma sample_lists_conf: "lists_conf (ce_confFiles sample_cni_env)"
  by (auto simp: lists_conf_def sample_cni_env_def map_of_eq_None_iff)

theorem network_history_witness:
  "\<exists>ns. list_networks sample_cni_env sample_cfg Live
      (fst (fold (cni_step sample_cni_env sample_cfg) sample_cni_ops (empty_cni_state, 0))) = Inr ns
    \<and> distinct (map nw_Name ns) \<and> distinct (map nw_Subnet ns)"
  using network_history [OF sample_lists_conf, of empty_cni_state sample_cfg sample_cni_ops 0]
  by (auto simp: empty_cni_state_def sample_cni_ops_def bridge_request_def
      simp del: fold_simps list.map split: prod.splits)

definition sample_created :: cni_state where
  "sample_created = fst (CreateNetwork sample_cni_env sample_cfg Live (bridge_request ''web'') empty_cni_state)"

lemma sample_CreateNetwork:
  "CreateNetwork sample_cni_env sample_cfg Live (bridge_request ''web'') empty_cni_state
    = (sample_created, Inr (networkIDForName ''web''))"
proof -
  have "allocateSubnet ''/etc/cni/net.d'' [] (Inr []) [] [] = Inr (''10.88.0.0/24'', ''10.88.0.1'')"
    "TrimSpace ''web'' = ''web''" "validateNetworkName ''web'' = None" "\<not> isReservedNetworkName ''web''"
    "ToLower (TrimSpace driverBridge) = driverBridge"
    by code_simp+
  then show ?thesis
    by (simp add: sample_created_def CreateNetwork_def bridge_request_def empty_cni_state_def
        sample_cni_env_def sample_cfg_def buildBridgeNetworkConfig_def Let_def)
qed

theorem create_then_resolve_witness:
  "\<exists>n. Resolve sample_cni_env sample_cfg Live ''web'' sample_created = Inr n
     \<and> nw_ID n = networkIDForName ''web'' \<and> nw_Labels n = []"
proof -
  have "daemon_dir sample_cfg (st_files empty_cni_state)"
    by (simp add: daemon_dir_def empty_cni_state_def)
  moreover have "TrimSpace ''web'' = ''web''" by code_simp
  ultimately show ?thesis
    using create_then_resolve [OF sample_lists_conf _ sample_CreateNetwork, of undefined undefined]
    by (auto simp: bridge_request_def)
qed

definition sample_net_doc :: network_config_file where
  "sample_net_doc = \<lparr>nf_CNIVersion = ''1.0.0'', nf_Name = ''web'', nf_DockerdlessID = ''f00d'',
     nf_DockerdlessLabels = [], nf_Plugins = []\<rparr>"

definition sample_cni_state :: cni_state where
  "sample_cni_state = empty_cni_state\<lparr>st_files := [(''/etc/cni/net.d/dockerdless-web.conflist'', Document sample_net_doc)]\<rparr>"

definition sample_network :: network where
  "sample_network = \<lparr>nw_ID = ''f00d'', nw_Name = ''web'', nw_Driver = driverBridge, nw_Mode = ModeNetwork,
     nw_File = ''/etc/cni/net.d/dockerdless-web.conflist'', nw_Bridge = [], nw_Subnet = [], nw_Gateway = [],
     nw_Labels = []\<rparr>"

definition sample_connect :: connect_request where
  "sample_connect = \<lparr>cr_Network = ''web'', cr_Container = ''c1'', cr_NetNS = ''/run/netns/c1'', cr_IfName = [],
     cr_Ports = sample_bindings, cr_Aliases = []\<rparr>"

definition sample_connected :: cni_state where
  "sample_connected = fst (Connect sample_cni_env sample_cfg Live sample_connect sample_cni_state 0)"

lemma sample_Resolve: "Resolve sample_cni_env sample_cfg Live ''web'' sample_cni_state = Inr sample_network"
  by code_simp

lemma sample_Connect:
  "Connect sample_cni_env sample_cfg Live sample_connect sample_cni_state 0
     = (sample_connected, 2, Inr \<lparr>co_Attachment = zero_attachment\<lparr>na_NetworkID := ''f00d'', na_Name := ''web'',
         na_IPAddress := ''10.88.0.2'', na_IPPrefixLen := 24, na_Gateway := ''10.88.0.1''\<rparr>,
         co_Ports = sample_filled\<rparr>)"
proof -
  have facts: "TrimSpace ''c1'' = ''c1''" "TrimSpace ''/run/netns/c1'' = ''/run/netns/c1''" "TrimSpace [] = []"
    "is_ok (BuildPortMappings sample_filled)"
    by code_simp+
  then obtain ms where "BuildPortMappings sample_filled = Inr ms" by (auto simp: is_ok_iff)
  with facts sample_Resolve sample_AllocateBindings show ?thesis
    unfolding sample_connected_def
    by (simp add: Connect_def connect_def sample_connect_def sample_network_def sample_cni_state_def
        empty_cni_state_def prepareConnectPorts_def addContainerNetwork_def AttachmentFromResult_def
        containerInterfaceMAC_def FillFromNetNS_def normalizeIfName_def sample_cni_env_def zero_attachment_def Let_def)
qed

theorem connect_disconnect_witness:
  "fst (network_Remove sample_cni_env sample_cfg Live ''web'' sample_connected 5) = sample_connected
   \<and> st_alloc (fst (Disconnect sample_cni_env sample_cfg Live \<lparr>dr_Network = ''web'', dr_Container = ''c1'',
        dr_NetNS = [], dr_IfName = []\<rparr> sample_connected 5)) = NewPortAllocator"
proof -
  have r: "Resolve sample_cni_env sample_cfg Live (cr_Network sample_connect) sample_cni_state = Inr sample_network"
    using sample_Resolve by (simp add: sample_connect_def)
  from connect_disconnect [OF _ r _ _ sample_Connect, of 5 "[]" "[]"] show ?thesis
    by (auto simp: sample_cni_state_def empty_cni_state_def NewPortAllocator_ok sample_network_def
        sample_connect_def Let_def)
qed

end
