(* ===== verification/Ports_Types.thy ===== *)
theory Ports_Types
  imports Domain_Model
begin

text \<open>
  \<^verbatim>\<open>internal/ports/ports.go\<close>: the transport-neutral requests and results that pass between the
  HTTP handlers, the application service and the adapters. Readers, writers and callbacks of the Go
  structs belong to the operations that use them.
\<close>

abbreviation LabelTTY :: string where "LabelTTY \<equiv> ''io.dockerdless.tty''"
abbreviation LabelMounts :: string where "LabelMounts \<equiv> ''io.dockerdless.mounts''"

record registry_auth =
  ra_Username :: string
  ra_Password :: string
  ra_IdentityToken :: string
  ra_RegistryToken :: string
  ra_ServerAddress :: string

record pull_request =
  pl_Reference :: string
  pl_Platform :: string
  pl_Auth :: "registry_auth option"

text \<open>The build context is the bytes of the tar archive, absent for a nil reader.\<close>

record build_request =
  br_Context :: "string option"
  br_Tag :: string
  br_Dockerfile :: string
  br_Platform :: string
  br_BuildArgs :: "(string, string) gomap"
  br_Target :: string
  br_NoCache :: bool
  br_Auth :: "registry_auth option"

record mount =
  mt_Type :: string
  mt_Source :: string
  mt_Destination :: string
  mt_ReadOnly :: bool
  mt_Options :: "string list"

record container_create_request =
  cc_Name :: string
  cc_Image :: string
  cc_Command :: "string list"
  cc_Entrypoint :: "string list"
  cc_Env :: "(string, string) gomap"
  cc_WorkingDir :: string
  cc_User :: string
  cc_Hostname :: string
  cc_Labels :: "(string, string) gomap"
  cc_TTY :: bool
  cc_OpenStdin :: bool
  cc_NetworkMode :: string
  cc_PortBindings :: "port_binding list"
  cc_Mounts :: "mount list"

record container_create_spec =
  sp_ID :: string
  sp_Name :: string
  sp_Image :: image_id
  sp_Command :: "string list"
  sp_Entrypoint :: "string list"
  sp_Env :: "(string, string) gomap"
  sp_WorkingDir :: string
  sp_User :: string
  sp_Hostname :: string
  sp_Labels :: "(string, string) gomap"
  sp_Mounts :: "mount list"
  sp_TTY :: bool
  sp_OpenStdin :: bool
  sp_Snapshotter :: string

record image_config =
  imc_User :: string
  imc_ExposedPorts :: "string list"
  imc_Env :: "string list"
  imc_Entrypoint :: "string list"
  imc_Cmd :: "string list"
  imc_Volumes :: "string list"
  imc_WorkingDir :: string
  imc_Labels :: "(string, string) gomap"
  imc_StopSignal :: string

record image_detail =
  id_ID :: image_id
  id_RepoTags :: "string list"
  id_RepoDigests :: "string list"
  id_Platform :: string
  id_Size :: int
  id_Created :: gotime
  id_Labels :: "(string, string) gomap"
  id_Config :: "image_config option"

record image_remove_result =
  ir_ID :: image_id
  ir_Untagged :: string
  ir_Deleted :: string

record process_exit =
  pe_ExitCode :: u32
  pe_ExitedAt :: gotime

record exec_create_request =
  xc_Command :: "string list"
  xc_Env :: "(string, string) gomap"
  xc_WorkingDir :: string
  xc_User :: string
  xc_TTY :: bool
  xc_AttachStdin :: bool
  xc_AttachStdout :: bool
  xc_AttachStderr :: bool

record exec_result =
  xr_ID :: string
  xr_ExitCode :: "int option"
  xr_Running :: bool
  xr_Pid :: int
  xr_StartedAt :: gotime
  xr_FinishedAt :: gotime

text \<open>The attached streams are present or absent; Go's \<^verbatim>\<open>uint\<close> has 64 bits.\<close>

record exec_start_request =
  xs_Detach :: bool
  xs_TTY :: bool
  xs_Width :: "64 word"
  xs_Height :: "64 word"
  xs_Stdin :: bool
  xs_Stdout :: bool
  xs_Stderr :: bool

record network_detail =
  nd_ID :: network_id
  nd_Name :: string
  nd_Driver :: string
  nd_Mode :: string
  nd_Subnet :: string
  nd_Gateway :: string
  nd_Labels :: "(string, string) gomap"

record network_create_request =
  ncr_Name :: string
  ncr_Driver :: string
  ncr_EnableIPv6 :: bool
  ncr_Labels :: "(string, string) gomap"

record network_connect_request =
  nc_Network :: string
  nc_Container :: container_id
  nc_NetNS :: string
  nc_IfName :: string
  nc_Ports :: "port_binding list"
  nc_Aliases :: "string list"

record log_request =
  lr_Follow :: bool
  lr_Tail :: int
  lr_Since :: gotime
  lr_Until :: gotime
  lr_Timestamps :: bool
  lr_Stdout :: bool
  lr_Stderr :: bool

record system_status =
  ss_Containers :: int
  ss_ContainersRunning :: int
  ss_ContainersPaused :: int
  ss_ContainersStopped :: int
  ss_Images :: int
  ss_Namespace :: string
  ss_ContainerdSocket :: string
  ss_BuildKitSocket :: string
  ss_Snapshotter :: string
  ss_Warnings :: "string list"

record port_reservation_rec =
  pr_Protocol :: string
  pr_HostIP :: string
  pr_HostPort :: u16

end
