(* ===== verification/Registry.thy ===== *)
theory Registry
  imports Domain_Model "HOL-Library.Multiset"
begin

text \<open>
  \<^verbatim>\<open>internal/domain/registry.go\<close>: the in-memory index of containers by ID and by name, as a
  record of two maps. Each method runs under the registry's mutex, so a method is one step on the
  record; a method that fails leaves the record as it was, which the model shows by returning the
  new record only in the success case. The defensive copies the Go code makes are the value
  semantics of HOL. The locale \<open>container_store\<close> is the contract the rest of the daemon relies
  on (the port \<^verbatim>\<open>ports.State\<close> with the name lookup and the listing); the registry is its
  interpretation.
\<close>

record registry =
  byID :: "(container_id, container) gomap"
  byName :: "(string, container_id) gomap"

definition NewRegistry :: registry where
  "NewRegistry = \<lparr>byID = [], byName = []\<rparr>"

definition Get :: "ctx \<Rightarrow> container_id \<Rightarrow> registry \<Rightarrow> gerror + container" where
  "Get ctx i r = (case contextError ctx of Some e \<Rightarrow> Inl e
     | None \<Rightarrow> (case get (byID r) i of
         None \<Rightarrow> Inl (Sentinel (Dom ErrContainerNotFound)) | Some c \<Rightarrow> Inr c))"

definition GetByName :: "string \<Rightarrow> registry \<Rightarrow> gerror + container" where
  "GetByName name r = (case get (byName r) name of
     None \<Rightarrow> Inl (Sentinel (Dom ErrContainerNotFound))
   | Some i \<Rightarrow> Inr (get_or zero_container (byID r) i))"

definition List :: "registry \<Rightarrow> container list" where
  "List r = sort_key c_ID (map snd (byID r))"

definition Rename :: "container_id \<Rightarrow> string \<Rightarrow> registry \<Rightarrow> gerror + registry" where
  "Rename i name r =
    (if name = [] then Inl (Sentinel (Dom ErrEmptyContainerName))
     else case get (byID r) i of
       None \<Rightarrow> Inl (Sentinel (Dom ErrContainerNotFound))
     | Some c \<Rightarrow>
         if (case get (byName r) name of None \<Rightarrow> False | Some j \<Rightarrow> j \<noteq> i)
         then Inl (Sentinel (Dom ErrContainerNameConflict))
         else let names = (if c_Name c \<noteq> [] then del (c_Name c) (byName r) else byName r)
              in Inr \<lparr>byID = put i (c\<lparr>c_Name := name\<rparr>) (byID r), byName = put name i names\<rparr>)"

definition Save :: "ctx \<Rightarrow> container \<Rightarrow> registry \<Rightarrow> gerror + registry" where
  "Save ctx c0 r = (case contextError ctx of Some e \<Rightarrow> Inl e
     | None \<Rightarrow>
         if c_ID c0 = [] then Inl (Sentinel (Dom ErrEmptyIdentity))
         else let c = fill_image c0 in
           if (case get (byName r) (c_Name c) of None \<Rightarrow> False
                | Some j \<Rightarrow> c_Name c \<noteq> [] \<and> j \<noteq> c_ID c)
           then Inl (Sentinel (Dom ErrContainerNameConflict))
           else
             let names1 = (case get (byID r) (c_ID c) of None \<Rightarrow> byName r
                   | Some p \<Rightarrow> if c_Name p \<noteq> [] \<and> c_Name p \<noteq> c_Name c
                                then del (c_Name p) (byName r) else byName r);
                 names2 = (if c_Name c \<noteq> [] then put (c_Name c) (c_ID c) names1 else names1)
             in Inr \<lparr>byID = put (c_ID c) c (byID r), byName = names2\<rparr>)"

definition Remove :: "ctx \<Rightarrow> container_id \<Rightarrow> registry \<Rightarrow> gerror + registry" where
  "Remove ctx i r = (case contextError ctx of Some e \<Rightarrow> Inl e
     | None \<Rightarrow> (case get (byID r) i of
         None \<Rightarrow> Inl (Sentinel (Dom ErrContainerNotFound))
       | Some c \<Rightarrow> Inr \<lparr>byID = del i (byID r),
           byName = (if c_Name c \<noteq> [] then del (c_Name c) (byName r) else byName r)\<rparr>))"

section \<open>The invariant\<close>

text \<open>
  The two maps agree: a stored container sits under its own ID, and the name index has exactly the
  names of the stored containers that have one, each with the ID of its owner.
\<close>

definition name_index :: "(container_id \<rightharpoonup> container) \<Rightarrow> (string \<rightharpoonup> container_id) \<Rightarrow> bool" where
  "name_index M N \<longleftrightarrow>
     (\<forall>n i. N n = Some i \<longleftrightarrow> n \<noteq> [] \<and> (\<exists>c. M i = Some c \<and> c_Name c = n))"

definition registry_ok :: "registry \<Rightarrow> bool" where
  "registry_ok r \<longleftrightarrow>
     gomap_ok (byID r) \<and> gomap_ok (byName r)
     \<and> (\<forall>i c. get (byID r) i = Some c \<longrightarrow> c_ID c = i \<and> i \<noteq> [])
     \<and> name_index (get (byID r)) (get (byName r))"

lemma name_indexD:
  "name_index M N \<Longrightarrow> N n = Some i \<longleftrightarrow> n \<noteq> [] \<and> (\<exists>c. M i = Some c \<and> c_Name c = n)"
  by (simp add: name_index_def)

text \<open>
  Every write of the registry is one update of this form: the ID gets a container or loses its
  own, the names that pointed to the ID go, and the name of the new container is entered.
\<close>

definition reindex :: "container_id \<Rightarrow> container option \<Rightarrow> (string \<rightharpoonup> container_id) \<Rightarrow> (string \<rightharpoonup> container_id)"
  where
  "reindex i x N = (\<lambda>n. if n \<noteq> [] \<and> map_option c_Name x = Some n then Some i
     else if N n = Some i then None else N n)"

lemma name_index_reindex:
  assumes inv: "name_index M N"
    and free: "\<And>d. x = Some d \<Longrightarrow> c_Name d \<noteq> [] \<Longrightarrow> N (c_Name d) = None \<or> N (c_Name d) = Some i"
  shows "name_index (M(i := x)) (reindex i x N)"
  unfolding name_index_def
proof (intro allI)
  fix n j
  show "(reindex i x N n = Some j) =
    (n \<noteq> [] \<and> (\<exists>c. (M(i := x)) j = Some c \<and> c_Name c = n))"
  proof (cases "j = i")
    case True
    then show ?thesis by (auto simp: reindex_def)
  next
    case False
    have "n \<noteq> [] \<and> map_option c_Name x = Some n \<Longrightarrow> N n \<noteq> Some j"
      using free False by fastforce
    with False have "reindex i x N n = Some j \<longleftrightarrow> N n = Some j"
      by (auto simp: reindex_def)
    with False show ?thesis by (simp add: name_indexD [OF inv])
  qed
qed

text \<open>Deleting the old name and entering the new one is reindexing.\<close>

lemma del_is_reindex:
  assumes "name_index M N" and "M i = Some c"
  shows "reindex i None N = (if c_Name c \<noteq> [] then N(c_Name c := None) else N)"
proof
  fix n
  have "N n = Some i \<longleftrightarrow> n \<noteq> [] \<and> c_Name c = n"
    using assms(2) by (simp add: name_indexD [OF assms(1)])
  then show "reindex i None N n = (if c_Name c \<noteq> [] then N(c_Name c := None) else N) n"
    by (auto simp: reindex_def)
qed

lemma absent_is_reindex:
  assumes "name_index M N" and "M i = None"
  shows "reindex i None N = N"
proof
  fix n
  have "N n \<noteq> Some i"
    using assms(2) by (simp add: name_indexD [OF assms(1)])
  then show "reindex i None N n = N n" by (auto simp: reindex_def)
qed

lemma reindex_Some:
  "reindex i (Some d) N
    = (if c_Name d \<noteq> [] then (reindex i None N)(c_Name d \<mapsto> i) else reindex i None N)"
  by (rule ext) (auto simp: reindex_def)

lemma registry_okD:
  assumes "registry_ok r"
  shows "gomap_ok (byID r)" and "gomap_ok (byName r)"
    and "get (byID r) i = Some c \<Longrightarrow> c_ID c = i"
    and "get (byID r) i = Some c \<Longrightarrow> i \<noteq> []"
    and "name_index (get (byID r)) (get (byName r))"
  using assms by (simp_all add: registry_ok_def)

lemma registry_okI:
  assumes "registry_ok r" and "gomap_ok (byID r')" and "gomap_ok (byName r')"
    and "get (byID r') = (get (byID r))(i := x)"
    and "get (byName r') = reindex i x (get (byName r))"
    and "\<And>d. x = Some d \<Longrightarrow> c_ID d = i \<and> i \<noteq> [] \<and>
      (c_Name d \<noteq> [] \<longrightarrow> get (byName r) (c_Name d) = None \<or> get (byName r) (c_Name d) = Some i)"
  shows "registry_ok r'"
  unfolding registry_ok_def
proof (intro conjI)
  show "name_index (get (byID r')) (get (byName r'))"
    unfolding assms(4,5)
    by (rule name_index_reindex [OF registry_okD(5) [OF assms(1)]]) (use assms(6) in blast)
  show "\<forall>j c. get (byID r') j = Some c \<longrightarrow> c_ID c = j \<and> j \<noteq> []"
    using assms(6) registry_okD(3,4) [OF assms(1)] by (auto simp: assms(4))
qed (rule assms(2), rule assms(3))

lemma NewRegistry_ok: "registry_ok NewRegistry"
  by (simp add: registry_ok_def NewRegistry_def name_index_def)

section \<open>Effect of the operations\<close>

text \<open>
  The abstract view: a registry is the map from IDs to containers, with the names as a partial
  function determined by it. Each write succeeds exactly under the conditions shown and then is
  one update of that view.
\<close>

definition name_free :: "container_id \<Rightarrow> string \<Rightarrow> registry \<Rightarrow> bool" where
  "name_free i n r \<longleftrightarrow> n = [] \<or> get (byName r) n = None \<or> get (byName r) n = Some i"

lemma Save_Inr_iff:
  "(\<exists>r'. Save ctx c r = Inr r') \<longleftrightarrow> ctx = Live \<and> c_ID c \<noteq> [] \<and> name_free (c_ID c) (c_Name c) r"
  by (cases ctx) (auto simp: Save_def name_free_def Let_def split: option.splits)

lemma Save_effect:
  assumes ok: "registry_ok r" and s: "Save ctx c r = Inr r'"
  shows "get (byID r') = (get (byID r))(c_ID c \<mapsto> fill_image c)"
    and "get (byName r') = reindex (c_ID c) (Some (fill_image c)) (get (byName r))"
    and "gomap_ok (byID r')" and "gomap_ok (byName r')"
    and "ctx = Live" and "c_ID c \<noteq> []" and "name_free (c_ID c) (c_Name c) r"
proof -
  note N = registry_okD(5) [OF ok]
  show a: "ctx = Live" "c_ID c \<noteq> []" "name_free (c_ID c) (c_Name c) r"
    using s Save_Inr_iff [of ctx c r] by auto
  have e: "r' = \<lparr>byID = put (c_ID c) (fill_image c) (byID r), byName =
      (let names = (case get (byID r) (c_ID c) of None \<Rightarrow> byName r
         | Some p \<Rightarrow> if c_Name p \<noteq> [] \<and> c_Name p \<noteq> c_Name c
                      then del (c_Name p) (byName r) else byName r)
       in if c_Name c \<noteq> [] then put (c_Name c) (c_ID c) names else names)\<rparr>"
    using s a by (auto simp: Save_def Let_def split: option.splits if_splits)
  show "get (byID r') = (get (byID r))(c_ID c \<mapsto> fill_image c)"
    by (simp add: e)
  show "get (byName r') = reindex (c_ID c) (Some (fill_image c)) (get (byName r))"
  proof (cases "get (byID r) (c_ID c)")
    case None
    then show ?thesis by (simp add: e reindex_Some absent_is_reindex [OF N])
  next
    case (Some p)
    then show ?thesis by (auto simp: e reindex_Some del_is_reindex [OF N Some] Let_def)
  qed
  show "gomap_ok (byID r')" "gomap_ok (byName r')"
    using registry_okD(1,2) [OF ok] by (simp_all add: e Let_def split: option.split)
qed

lemma Save_ok:
  assumes "registry_ok r" and "Save ctx c r = Inr r'"
  shows "registry_ok r'"
  using Save_effect [OF assms]
  by (intro registry_okI [OF assms(1), of r' "c_ID c" "Some (fill_image c)"])
    (auto simp: name_free_def)

lemma Rename_Inr_iff:
  "(\<exists>r'. Rename i n r = Inr r') \<longleftrightarrow> n \<noteq> [] \<and> (\<exists>c. get (byID r) i = Some c) \<and> name_free i n r"
  by (auto simp: Rename_def name_free_def Let_def split: option.splits)

lemma Rename_effect:
  assumes ok: "registry_ok r" and s: "Rename i n r = Inr r'"
  obtains c where "get (byID r) i = Some c" and "n \<noteq> []" and "name_free i n r"
    and "get (byID r') = (get (byID r))(i \<mapsto> c\<lparr>c_Name := n\<rparr>)"
    and "get (byName r') = reindex i (Some (c\<lparr>c_Name := n\<rparr>)) (get (byName r))"
    and "gomap_ok (byID r')" and "gomap_ok (byName r')"
proof -
  note N = registry_okD(5) [OF ok]
  from s Rename_Inr_iff [of i n r] obtain c where
    c: "n \<noteq> []" "get (byID r) i = Some c" "name_free i n r" by auto
  have e: "r' = \<lparr>byID = put i (c\<lparr>c_Name := n\<rparr>) (byID r),
      byName = put n i (if c_Name c \<noteq> [] then del (c_Name c) (byName r) else byName r)\<rparr>"
    using s c(1,2) by (auto simp: Rename_def Let_def split: option.splits if_splits)
  show ?thesis
    by (rule that [OF c(2,1,3)])
      (use registry_okD(1,2) [OF ok] c in
        \<open>auto simp: e reindex_Some del_is_reindex [OF N c(2)]\<close>)
qed

lemma Rename_ok:
  assumes "registry_ok r" and "Rename i n r = Inr r'"
  shows "registry_ok r'"
proof (rule Rename_effect [OF assms])
  fix c
  assume "get (byID r) i = Some c" "n \<noteq> []" "name_free i n r"
    "get (byID r') = (get (byID r))(i \<mapsto> c\<lparr>c_Name := n\<rparr>)"
    "get (byName r') = reindex i (Some (c\<lparr>c_Name := n\<rparr>)) (get (byName r))"
    "gomap_ok (byID r')" "gomap_ok (byName r')"
  then show ?thesis
    using registry_okD(3,4) [OF assms(1)]
    by (intro registry_okI [OF assms(1), of r' i "Some (c\<lparr>c_Name := n\<rparr>)"])
      (auto simp: name_free_def)
qed

lemma Remove_Inr_iff:
  "(\<exists>r'. Remove ctx i r = Inr r') \<longleftrightarrow> ctx = Live \<and> (\<exists>c. get (byID r) i = Some c)"
  by (cases ctx) (auto simp: Remove_def split: option.splits)

lemma Remove_effect:
  assumes ok: "registry_ok r" and s: "Remove ctx i r = Inr r'"
  shows "get (byID r') = (get (byID r))(i := None)"
    and "get (byName r') = reindex i None (get (byName r))"
    and "gomap_ok (byID r')" and "gomap_ok (byName r')"
proof -
  note N = registry_okD(5) [OF ok]
  from s Remove_Inr_iff [of ctx i r] obtain c where
    c: "ctx = Live" "get (byID r) i = Some c" by auto
  have e: "r' = \<lparr>byID = del i (byID r),
      byName = (if c_Name c \<noteq> [] then del (c_Name c) (byName r) else byName r)\<rparr>"
    using s c by (auto simp: Remove_def split: if_splits)
  show "get (byID r') = (get (byID r))(i := None)"
    and "get (byName r') = reindex i None (get (byName r))"
    and "gomap_ok (byID r')" and "gomap_ok (byName r')"
    using registry_okD(1,2) [OF ok] by (simp_all add: e del_is_reindex [OF N c(2)])
qed

lemma Remove_ok:
  assumes "registry_ok r" and "Remove ctx i r = Inr r'"
  shows "registry_ok r'"
  using Remove_effect [OF assms]
  by (intro registry_okI [OF assms(1), of r' i None]) simp_all

section \<open>The contract\<close>

text \<open>
  A store of containers: what the daemon's services assume of the registry. \<open>owner\<close> is the
  name index, \<open>lookup\<close> the container of an ID.
\<close>

locale container_store =
  fixes ok :: "'s \<Rightarrow> bool"
    and lookup :: "'s \<Rightarrow> container_id \<Rightarrow> container option"
    and owner :: "'s \<Rightarrow> string \<Rightarrow> container_id option"
    and save :: "container \<Rightarrow> 's \<Rightarrow> gerror + 's"
    and remove :: "container_id \<Rightarrow> 's \<Rightarrow> gerror + 's"
  assumes owner_iff: "ok s \<Longrightarrow>
      owner s n = Some i \<longleftrightarrow> n \<noteq> [] \<and> (\<exists>c. lookup s i = Some c \<and> c_Name c = n)"
    and save_iff: "ok s \<Longrightarrow> (\<exists>s'. save c s = Inr s') \<longleftrightarrow> c_ID c \<noteq> [] \<and>
      (c_Name c = [] \<or> owner s (c_Name c) = None \<or> owner s (c_Name c) = Some (c_ID c))"
    and save_ok: "ok s \<Longrightarrow> save c s = Inr s' \<Longrightarrow> ok s'"
    and lookup_save: "ok s \<Longrightarrow> save c s = Inr s' \<Longrightarrow>
      lookup s' = (lookup s)(c_ID c \<mapsto> fill_image c)"
    and remove_iff: "ok s \<Longrightarrow> (\<exists>s'. remove i s = Inr s') \<longleftrightarrow> lookup s i \<noteq> None"
    and remove_ok: "ok s \<Longrightarrow> remove i s = Inr s' \<Longrightarrow> ok s'"
    and lookup_remove: "ok s \<Longrightarrow> remove i s = Inr s' \<Longrightarrow> lookup s' = (lookup s)(i := None)"

text \<open>
  The loop that saves containers one after the other and stops at the first error, which it wraps;
  what was saved before the error stays saved.
\<close>

fun save_loop :: "('c \<Rightarrow> 's \<Rightarrow> 'e + 's) \<Rightarrow> ('c \<Rightarrow> 'e \<Rightarrow> 'f) \<Rightarrow> 'c list \<Rightarrow> 's \<Rightarrow> 's \<times> 'f option" where
  "save_loop sv wrap [] s = (s, None)"
| "save_loop sv wrap (c # cs) s = (case sv c s of Inl e \<Rightarrow> (s, Some (wrap c e))
     | Inr s' \<Rightarrow> save_loop sv wrap cs s')"

definition names_distinct :: "container list \<Rightarrow> bool" where
  "names_distinct cs \<longleftrightarrow> distinct (map c_ID cs) \<and> distinct (filter (\<lambda>n. n \<noteq> []) (map c_Name cs))
     \<and> list_all (\<lambda>c. c_ID c \<noteq> []) cs"

lemma names_distinct_Cons:
  "names_distinct (c # cs) \<longleftrightarrow> c_ID c \<noteq> [] \<and> names_distinct cs \<and>
     (\<forall>d\<in>set cs. c_ID d \<noteq> c_ID c \<and> (c_Name c \<noteq> [] \<longrightarrow> c_Name d \<noteq> c_Name c))"
proof -
  have "c_ID c \<notin> set (map c_ID cs) \<longleftrightarrow> (\<forall>d\<in>set cs. c_ID d \<noteq> c_ID c)"
    and "c_Name c \<notin> set (map c_Name cs) \<longleftrightarrow> (\<forall>d\<in>set cs. c_Name d \<noteq> c_Name c)"
    by (simp_all add: image_iff eq_commute)
  then show ?thesis by (auto simp: names_distinct_def)
qed

context container_store
begin

lemma save_named:
  assumes "ok s" and "save c s = Inr s'" and "c_Name c \<noteq> []"
  shows "owner s' (c_Name c) = Some (c_ID c)"
  using assms owner_iff [OF save_ok [OF assms(1,2)]] lookup_save [OF assms(1,2)] by simp

lemma remove_frees_name:
  assumes "ok s" and "remove i s = Inr s'" and "lookup s i = Some c"
  shows "owner s' (c_Name c) = None"
proof (rule ccontr)
  assume "owner s' (c_Name c) \<noteq> None"
  then obtain j where "owner s' (c_Name c) = Some j" by auto
  then obtain d where j: "c_Name c \<noteq> []" "lookup s j = Some d" "c_Name d = c_Name c" "j \<noteq> i"
    using owner_iff [OF remove_ok [OF assms(1,2)]] lookup_remove [OF assms(1,2)]
    by (auto split: if_splits)
  then have "owner s (c_Name c) = Some j" and "owner s (c_Name c) = Some i"
    using owner_iff [OF assms(1)] assms(3) by auto
  with j(4) show False by simp
qed

lemma save_loop_all:
  assumes "ok s" and "names_distinct cs"
    and "\<And>c. c \<in> set cs \<Longrightarrow> lookup s (c_ID c) = None \<and> owner s (c_Name c) = None"
  shows "\<exists>s'. save_loop save wrap cs s = (s', None) \<and> ok s'
    \<and> lookup s' = (\<lambda>i. case map_of (map (\<lambda>c. (c_ID c, fill_image c)) cs) i of
         Some c \<Rightarrow> Some c | None \<Rightarrow> lookup s i)"
  using assms
proof (induction cs arbitrary: s)
  case Nil
  then show ?case by simp
next
  case (Cons c cs)
  obtain s1 where s1: "save c s = Inr s1"
    using save_iff [OF Cons.prems(1), of c] Cons.prems(2,3) by (auto simp: names_distinct_Cons)
  note ok1 = save_ok [OF Cons.prems(1) s1] and l1 = lookup_save [OF Cons.prems(1) s1]
  have free: "lookup s1 (c_ID d) = None \<and> owner s1 (c_Name d) = None" if "d \<in> set cs" for d
  proof -
    have ne: "c_ID d \<noteq> c_ID c \<and> (c_Name d \<noteq> [] \<longrightarrow> c_Name d \<noteq> c_Name c)"
      using Cons.prems(2) that by (auto simp: names_distinct_Cons)
    have "owner s1 (c_Name d) \<noteq> Some j" for j
      using owner_iff [OF ok1, of "c_Name d" j] owner_iff [OF Cons.prems(1), of "c_Name d" j]
        Cons.prems(3) [of d] that ne by (auto simp: l1 split: if_splits)
    with ne Cons.prems(3) [of d] that show ?thesis by (auto simp: l1)
  qed
  have nd: "names_distinct cs" using Cons.prems(2) by (simp add: names_distinct_Cons)
  from Cons.IH [OF ok1 nd free] obtain s' where s':
    "save_loop save wrap cs s1 = (s', None)" "ok s'"
    "lookup s' = (\<lambda>i. case map_of (map (\<lambda>c. (c_ID c, fill_image c)) cs) i of
         Some c \<Rightarrow> Some c | None \<Rightarrow> lookup s1 i)"
    by blast
  moreover have "\<forall>d\<in>set cs. c_ID d \<noteq> c_ID c"
    using Cons.prems(2) by (simp add: names_distinct_Cons)
  then have "map_of (map (\<lambda>c. (c_ID c, fill_image c)) cs) (c_ID c) = None"
    by (auto simp: map_of_eq_None_iff)
  ultimately show ?case
    by (auto simp: s1 l1 intro!: ext split: option.split)
qed

end

interpretation reg: container_store registry_ok "\<lambda>r. get (byID r)" "\<lambda>r. get (byName r)"
  "Save Live" "Remove Live"
proof unfold_locales
  fix r :: registry
  assume ok: "registry_ok r"
  show "get (byName r) n = Some i \<longleftrightarrow> n \<noteq> [] \<and> (\<exists>c. get (byID r) i = Some c \<and> c_Name c = n)" for n i
    using registry_okD(5) [OF ok] by (rule name_indexD)
  show "(\<exists>s'. Save Live c r = Inr s') \<longleftrightarrow> c_ID c \<noteq> [] \<and>
      (c_Name c = [] \<or> get (byName r) (c_Name c) = None \<or> get (byName r) (c_Name c) = Some (c_ID c))"
    for c by (simp add: Save_Inr_iff name_free_def)
  show "Save Live c r = Inr r' \<Longrightarrow> registry_ok r'" for c r'
    by (rule Save_ok [OF ok])
  show "Save Live c r = Inr r' \<Longrightarrow> get (byID r') = (get (byID r))(c_ID c \<mapsto> fill_image c)" for c r'
    by (rule Save_effect [OF ok])
  show "(\<exists>r'. Remove Live i r = Inr r') \<longleftrightarrow> get (byID r) i \<noteq> None" for i
    by (simp add: Remove_Inr_iff)
  show "Remove Live i r = Inr r' \<Longrightarrow> registry_ok r'" for i r'
    by (rule Remove_ok [OF ok])
  show "Remove Live i r = Inr r' \<Longrightarrow> get (byID r') = (get (byID r))(i := None)" for i r'
    by (rule Remove_effect [OF ok])
qed

section \<open>Refinement of a plain map\<close>

text \<open>
  The specification of the registry: one partial function from IDs to containers in which no two
  containers share a name. The name index is gone: a name clashes when another container has it.
\<close>

type_synonym container_map = "container_id \<Rightarrow> container option"

definition name_taken :: "container_id \<Rightarrow> string \<Rightarrow> container_map \<Rightarrow> bool" where
  "name_taken i n M \<longleftrightarrow> n \<noteq> [] \<and> (\<exists>j c. M j = Some c \<and> c_Name c = n \<and> j \<noteq> i)"

definition spec_Save :: "ctx \<Rightarrow> container \<Rightarrow> container_map \<Rightarrow> gerror + container_map" where
  "spec_Save ctx c M = (case contextError ctx of Some e \<Rightarrow> Inl e
     | None \<Rightarrow> if c_ID c = [] then Inl (Sentinel (Dom ErrEmptyIdentity))
              else if name_taken (c_ID c) (c_Name c) M
                then Inl (Sentinel (Dom ErrContainerNameConflict))
              else Inr (M(c_ID c \<mapsto> fill_image c)))"

definition spec_Rename :: "container_id \<Rightarrow> string \<Rightarrow> container_map \<Rightarrow> gerror + container_map" where
  "spec_Rename i n M =
    (if n = [] then Inl (Sentinel (Dom ErrEmptyContainerName))
     else case M i of None \<Rightarrow> Inl (Sentinel (Dom ErrContainerNotFound))
       | Some c \<Rightarrow> if name_taken i n M then Inl (Sentinel (Dom ErrContainerNameConflict))
                   else Inr (M(i \<mapsto> c\<lparr>c_Name := n\<rparr>)))"

definition spec_Remove :: "ctx \<Rightarrow> container_id \<Rightarrow> container_map \<Rightarrow> gerror + container_map" where
  "spec_Remove ctx i M = (case contextError ctx of Some e \<Rightarrow> Inl e
     | None \<Rightarrow> (case M i of None \<Rightarrow> Inl (Sentinel (Dom ErrContainerNotFound))
         | Some c \<Rightarrow> Inr (M(i := None))))"

definition abs_registry :: "registry \<Rightarrow> container_map" where
  "abs_registry r = get (byID r)"

lemma name_taken_iff:
  assumes "registry_ok r"
  shows "name_taken i n (abs_registry r) \<longleftrightarrow> \<not> name_free i n r"
proof -
  have "name_taken i n (abs_registry r) \<longleftrightarrow> (\<exists>j. get (byName r) n = Some j \<and> j \<noteq> i)"
    unfolding name_taken_def abs_registry_def reg.owner_iff [OF assms] by blast
  also have "\<dots> \<longleftrightarrow> \<not> name_free i n r"
    using reg.owner_iff [OF assms, of "[]"] by (cases "n = []") (auto simp: name_free_def)
  finally show ?thesis .
qed

lemma Save_error:
  assumes "\<not> (\<exists>r'. Save ctx c r = Inr r')"
  shows "Save ctx c r = Inl (case contextError ctx of Some e \<Rightarrow> e
     | None \<Rightarrow> if c_ID c = [] then Sentinel (Dom ErrEmptyIdentity)
              else Sentinel (Dom ErrContainerNameConflict))"
  using assms by (cases ctx) (auto simp: Save_def Let_def split: option.splits if_splits)

lemma Rename_error:
  assumes "\<not> (\<exists>r'. Rename i n r = Inr r')"
  shows "Rename i n r = Inl (if n = [] then Sentinel (Dom ErrEmptyContainerName)
     else case get (byID r) i of None \<Rightarrow> Sentinel (Dom ErrContainerNotFound)
       | Some c \<Rightarrow> Sentinel (Dom ErrContainerNameConflict))"
  using assms by (auto simp: Rename_def Let_def split: option.splits if_splits)

lemma Save_refines:
  assumes ok: "registry_ok r"
  shows "map_sum id abs_registry (Save ctx c r) = spec_Save ctx c (abs_registry r)"
proof (cases "\<exists>r'. Save ctx c r = Inr r'")
  case True
  then obtain r' where s: "Save ctx c r = Inr r'" by blast
  from Save_effect [OF ok s] s show ?thesis
    by (simp add: spec_Save_def name_taken_iff [OF ok]) (simp add: abs_registry_def)
next
  case False
  then show ?thesis
    using Save_Inr_iff [of ctx c r]
    unfolding Save_error [OF False] spec_Save_def name_taken_iff [OF ok] by (cases ctx) auto
qed

lemma Rename_refines:
  assumes ok: "registry_ok r"
  shows "map_sum id abs_registry (Rename i n r) = spec_Rename i n (abs_registry r)"
proof (cases "Rename i n r")
  case (Inr r')
  then show ?thesis
    by (rule Rename_effect [OF ok])
      (use Inr name_taken_iff [OF ok] in \<open>simp add: spec_Rename_def abs_registry_def\<close>)
next
  case (Inl e)
  then have f: "\<not> (\<exists>r'. Rename i n r = Inr r')" by simp
  with Rename_Inr_iff [of i n r] name_taken_iff [OF ok, of i n] show ?thesis
    by (auto simp: Rename_error [OF f] spec_Rename_def abs_registry_def split: option.splits)
qed

lemma Remove_refines:
  assumes ok: "registry_ok r"
  shows "map_sum id abs_registry (Remove ctx i r) = spec_Remove ctx i (abs_registry r)"
proof (cases "Remove ctx i r")
  case (Inr r')
  with Remove_effect(1) [OF ok Inr] Remove_Inr_iff [of ctx i r] show ?thesis
    by (auto simp: spec_Remove_def abs_registry_def)
next
  case (Inl e)
  then show ?thesis
    by (cases ctx) (auto simp: spec_Remove_def abs_registry_def Remove_def split: option.splits)
qed

section \<open>Sequences of operations\<close>

datatype registry_op = OpSave ctx container | OpRename container_id string
  | OpRemove ctx container_id

text \<open>One call on a shared registry: a failing call changes nothing.\<close>

fun exec_op :: "registry_op \<Rightarrow> registry \<Rightarrow> gerror + registry" where
  "exec_op (OpSave ctx c) r = Save ctx c r"
| "exec_op (OpRename i n) r = Rename i n r"
| "exec_op (OpRemove ctx i) r = Remove ctx i r"

definition apply_op :: "registry \<Rightarrow> registry_op \<Rightarrow> registry" where
  "apply_op r op = (case exec_op op r of Inl e \<Rightarrow> r | Inr r' \<Rightarrow> r')"

fun spec_op :: "registry_op \<Rightarrow> container_map \<Rightarrow> gerror + container_map" where
  "spec_op (OpSave ctx c) M = spec_Save ctx c M"
| "spec_op (OpRename i n) M = spec_Rename i n M"
| "spec_op (OpRemove ctx i) M = spec_Remove ctx i M"

definition spec_apply :: "container_map \<Rightarrow> registry_op \<Rightarrow> container_map" where
  "spec_apply M op = (case spec_op op M of Inl e \<Rightarrow> M | Inr M' \<Rightarrow> M')"

lemma exec_op_ok: "registry_ok r \<Longrightarrow> exec_op op r = Inr r' \<Longrightarrow> registry_ok r'"
  by (cases op) (auto intro: Save_ok Rename_ok Remove_ok)

lemma exec_op_refines:
  "registry_ok r \<Longrightarrow> map_sum id abs_registry (exec_op op r) = spec_op op (abs_registry r)"
  by (cases op) (simp_all add: Save_refines Rename_refines Remove_refines)

lemma apply_op_ok: "registry_ok r \<Longrightarrow> registry_ok (apply_op r op)"
  by (auto simp: apply_op_def intro: exec_op_ok split: sum.split)

lemma apply_op_refines:
  "registry_ok r \<Longrightarrow> abs_registry (apply_op r op) = spec_apply (abs_registry r) op"
  using exec_op_refines [of r op]
  by (cases "exec_op op r") (auto simp: apply_op_def spec_apply_def dest: sym)

lemma run_ops_ok: "registry_ok r \<Longrightarrow> registry_ok (foldl apply_op r ops)"
  by (induction ops arbitrary: r) (simp_all add: apply_op_ok)

lemma run_ops_refines:
  "registry_ok r \<Longrightarrow> abs_registry (foldl apply_op r ops) = foldl spec_apply (abs_registry r) ops"
  by (induction ops arbitrary: r) (simp_all add: apply_op_ok apply_op_refines)

lemma abs_NewRegistry [simp]: "abs_registry NewRegistry = Map.empty"
  by (simp add: abs_registry_def NewRegistry_def)

text \<open>
  C4: whatever sequence of saves, renames and removals the daemon's handlers issue on a fresh
  registry, both indexes stay consistent, the contents are those of one map without a name index
  run through the same calls, and the next call returns the error or the new contents of the
  specification.
\<close>

theorem registry_refines_map:
  "registry_ok (foldl apply_op NewRegistry ops)
   \<and> abs_registry (foldl apply_op NewRegistry ops) = foldl spec_apply Map.empty ops
   \<and> map_sum id abs_registry (exec_op op (foldl apply_op NewRegistry ops))
     = spec_op op (foldl spec_apply Map.empty ops)"
  using run_ops_ok [OF NewRegistry_ok, of ops] run_ops_refines [OF NewRegistry_ok, of ops]
    exec_op_refines [OF run_ops_ok [OF NewRegistry_ok]]
  by simp

section \<open>Reading\<close>

lemma set_List: "registry_ok r \<Longrightarrow> set (List r) = ran (get (byID r))"
  by (simp add: List_def ran_distinct registry_okD(1))

lemma List_ids: "registry_ok r \<Longrightarrow> map c_ID (List r) = sorted_keys (byID r)"
proof -
  assume ok: "registry_ok r"
  have "map c_ID (map snd (byID r)) = map fst (byID r)"
    using registry_okD(3) [OF ok] map_of_is_SomeI [OF registry_okD(1) [OF ok]]
    by (auto simp: list.map_comp intro!: map_cong)
  moreover have "map c_ID (sort_key c_ID (map snd (byID r))) = sort (map c_ID (map snd (byID r)))"
    by (rule properties_for_sort [symmetric]) (simp_all add: image_mset.compositionality)
  ultimately show ?thesis unfolding List_def sorted_keys_def by (simp only:)
qed

text \<open>
  Reads agree with each other on a consistent registry: the listing is strictly sorted by ID
  and holds exactly the containers \<^verbatim>\<open>Get\<close> returns, and \<^verbatim>\<open>GetByName\<close> returns a
  container exactly when it carries the name asked for, which is not empty, and \<^verbatim>\<open>Get\<close>
  returns the same container for its ID.
\<close>

theorem registry_reads_agree:
  assumes ok: "registry_ok r"
  shows "sorted_wrt (<) (map c_ID (List r))
    \<and> set (List r) = {c. Get Live (c_ID c) r = Inr c}
    \<and> (GetByName n r = Inr c \<longleftrightarrow> n \<noteq> [] \<and> c_Name c = n \<and> Get Live (c_ID c) r = Inr c)"
proof (intro conjI)
  have "distinct (map c_ID (List r))"
    using registry_okD(1) [OF ok] by (simp add: List_ids [OF ok] sorted_keys_def)
  moreover have "sorted (map c_ID (List r))"
    by (simp add: List_ids [OF ok] sorted_keys_sorted)
  ultimately show "sorted_wrt (<) (map c_ID (List r))"
    by (simp add: strict_sorted_iff)
  have get: "Get Live i r = Inr d \<longleftrightarrow> get (byID r) i = Some d" for i d
    by (simp add: Get_def split: option.split)
  show "set (List r) = {c. Get Live (c_ID c) r = Inr c}"
    unfolding set_List [OF ok] get ran_def using registry_okD(3) [OF ok] by blast
  show "GetByName n r = Inr c \<longleftrightarrow> n \<noteq> [] \<and> c_Name c = n \<and> Get Live (c_ID c) r = Inr c"
  proof (cases "get (byName r) n")
    case None
    then have "\<not> (n \<noteq> [] \<and> c_Name c = n \<and> get (byID r) (c_ID c) = Some c)"
      using reg.owner_iff [OF ok, of n "c_ID c"] by auto
    with None show ?thesis by (simp add: GetByName_def get)
  next
    case (Some i)
    with reg.owner_iff [OF ok, of n i] obtain d where
      d: "n \<noteq> []" "get (byID r) i = Some d" "c_Name d = n" by auto
    have "c = d \<longleftrightarrow> c_Name c = n \<and> get (byID r) (c_ID c) = Some c"
    proof
      assume "c = d"
      with d registry_okD(3) [OF ok d(2)] show "c_Name c = n \<and> get (byID r) (c_ID c) = Some c"
        by simp
    next
      assume c: "c_Name c = n \<and> get (byID r) (c_ID c) = Some c"
      with d(1) have "get (byName r) n = Some (c_ID c)" by (simp add: reg.owner_iff [OF ok])
      with Some d(2) c show "c = d" by simp
    qed
    with Some d show ?thesis by (auto simp: GetByName_def get get_or_def)
  qed
qed

definition sample_container :: "string \<Rightarrow> string \<Rightarrow> container" where
  "sample_container i n = zero_container\<lparr>c_ID := i, c_Name := n, c_ImageReference := ''alpine''\<rparr>"

definition sample_registry :: registry where
  "sample_registry = foldl apply_op NewRegistry
    [OpSave Live (sample_container ''b2'' ''db''), OpSave Live (sample_container ''a1'' ''web'')]"

theorem registry_reads_agree_witness:
  "registry_ok sample_registry
   \<and> map c_ID (List sample_registry) = [''a1'', ''b2'']
   \<and> set (List sample_registry) = {c. Get Live (c_ID c) sample_registry = Inr c}"
proof (intro conjI)
  show ok: "registry_ok sample_registry"
    unfolding sample_registry_def by (rule run_ops_ok [OF NewRegistry_ok])
  show "map c_ID (List sample_registry) = [''a1'', ''b2'']"
    by code_simp
  show "set (List sample_registry) = {c. Get Live (c_ID c) sample_registry = Inr c}"
    using registry_reads_agree [OF ok] by blast
qed

end
