(* ===== verification/Error_Mapping.thy ===== *)
theory Error_Mapping
  imports Go_Errors
begin

text \<open>
  The three layers an error crosses on its way to the client: the containerd adapter classifies
  what the runtime client returned (\<^verbatim>\<open>mapError\<close>), the application layer maps adapter
  sentinels onto the canonical ones of \<^verbatim>\<open>internal/ports\<close> (\<^verbatim>\<open>translateError\<close>),
  and the HTTP layer renders them as a Docker status and message (\<^verbatim>\<open>mapServiceError\<close>).
  The predicates of the package \<^verbatim>\<open>errdefs\<close>, which is not part of the repository, are a
  parameter.
\<close>

section \<open>internal/adapters/containerd/errors.go\<close>

record errdefs =
  IsNotFound :: "gerror \<Rightarrow> bool"
  IsAlreadyExists :: "gerror \<Rightarrow> bool"
  IsConflict :: "gerror \<Rightarrow> bool"
  IsFailedPrecondition :: "gerror \<Rightarrow> bool"
  IsInvalidArgument :: "gerror \<Rightarrow> bool"
  IsOutOfRange :: "gerror \<Rightarrow> bool"
  IsUnavailable :: "gerror \<Rightarrow> bool"
  IsInternal :: "gerror \<Rightarrow> bool"
  IsUnknown :: "gerror \<Rightarrow> bool"
  IsAborted :: "gerror \<Rightarrow> bool"
  IsDataLoss :: "gerror \<Rightarrow> bool"

definition mapError :: "errdefs \<Rightarrow> gerror \<Rightarrow> gerror" where
  "mapError d err =
    (if errors_is err (Ctd CErrNotFound) \<or> errors_is err (Ctd CErrConflict)
        \<or> errors_is err (Ctd CErrInvalidArgument) \<or> errors_is err (Ctd CErrServerError) then err
     else if IsNotFound d err then wrap_two (Sentinel (Ctd CErrNotFound)) err
     else if IsAlreadyExists d err \<or> IsConflict d err \<or> IsFailedPrecondition d err then
       wrap_two (Sentinel (Ctd CErrConflict)) err
     else if IsInvalidArgument d err \<or> IsOutOfRange d err then
       wrap_two (Sentinel (Ctd CErrInvalidArgument)) err
     else if IsUnavailable d err \<or> IsInternal d err \<or> IsUnknown d err \<or> IsAborted d err
        \<or> IsDataLoss d err then
       wrap_two (Sentinel (Ctd CErrServerError)) err
     else err)"

definition StatusCode :: "gerror option \<Rightarrow> int" where
  "StatusCode err = (case err of None \<Rightarrow> 200
     | Some e \<Rightarrow>
         if errors_is e (Ctd CErrNotFound) then 404
         else if errors_is e (Ctd CErrConflict) then 409
         else if errors_is e (Ctd CErrInvalidArgument) then 400
         else if errors_is e (Ctd CErrServerError) then 500
         else 500)"

section \<open>internal/app/errors.go\<close>

definition newDockerError :: "sentinel \<Rightarrow> string \<Rightarrow> gerror option \<Rightarrow> gerror" where
  "newDockerError kind message cause =
     DockerErr kind (if TrimSpace message = [] then sentinel_msg kind else message) cause"

definition isCanonicalError :: "gerror \<Rightarrow> bool" where
  "isCanonicalError err \<longleftrightarrow>
     errors_is err (Ports PErrNotFound) \<or> errors_is err (Ports PErrConflict)
     \<or> errors_is err (Ports PErrInvalidArgument) \<or> errors_is err (Ports PErrNotImplemented)
     \<or> errors_is err (Ports PErrServerError)"

definition adapter_prefixes :: "string list" where
  "adapter_prefixes =
    [''container runtime: not found: '', ''container runtime: conflict: '',
     ''container runtime: invalid argument: '', ''container runtime: server error: '',
     ''image not found: '', ''invalid image reference: '', ''invalid build context: '']"

definition cleanAdapterMessage :: "gerror \<Rightarrow> string" where
  "cleanAdapterMessage err = foldl TrimPrefix (err_msg err) adapter_prefixes"

text \<open>The sentinels of the first three cases of the switch, in the order of the code.\<close>

definition not_found_sentinels :: "sentinel list" where
  "not_found_sentinels =
    [Ctd CErrNotFound, Buildkit BErrNotFound, Cni ErrNetworkNotFound, Dom ErrContainerNotFound]"

definition conflict_sentinels :: "sentinel list" where
  "conflict_sentinels =
    [Ctd CErrConflict, Dom ErrContainerNameConflict, Cni ErrNetworkExists, Cni ErrNetworkInUse,
     Cni ErrReservedNetworkName, Cni ErrPortInUse]"

definition invalid_sentinels :: "sentinel list" where
  "invalid_sentinels =
    [Ctd CErrInvalidArgument, Dom ErrEmptyIdentity, Dom ErrEmptyContainerName,
     Buildkit ErrInvalidReference, Buildkit ErrInvalidContext, Buildkit ErrInvalidAuth,
     Cni ErrInvalidNetworkName, Cni ErrUnsupportedNetworkDriver, Cni ErrUnknownNetworkMode,
     Cni ErrPortPublishWithMode, Cni ErrMissingNetNS, Cni ErrMissingContainer,
     Cni ErrIPv6Unsupported, Cni ErrUnallocatedPort, Cni ErrUnsupportedProtocol]"

definition server_sentinels :: "sentinel list" where
  "server_sentinels = [Ctd CErrServerError, Cni ErrNoFreeHostPort, Cni ErrNilResult]"

definition is_any :: "gerror \<Rightarrow> sentinel list \<Rightarrow> bool" where
  "is_any err ss \<longleftrightarrow> list_ex (errors_is err) ss"

definition translateError :: "gerror \<Rightarrow> gerror" where
  "translateError err =
    (if isCanonicalError err then err
     else if is_any err not_found_sentinels then
       newDockerError (Ports PErrNotFound) (cleanAdapterMessage err) (Some err)
     else if is_any err conflict_sentinels then
       newDockerError (Ports PErrConflict) (cleanAdapterMessage err) (Some err)
     else if is_any err invalid_sentinels then
       newDockerError (Ports PErrInvalidArgument) (cleanAdapterMessage err) (Some err)
     else if errors_is err (Buildkit ErrNoSolver) then
       newDockerError (Ports PErrNotImplemented) (err_msg err) (Some err)
     else if is_any err server_sentinels then
       newDockerError (Ports PErrServerError) (cleanAdapterMessage err) (Some err)
     else if errors_is err (Std Canceled) then
       newDockerError (Ports PErrServerError) ''request canceled'' (Some err)
     else if errors_is err (Std DeadlineExceeded) then
       newDockerError (Ports PErrServerError) ''request timed out'' (Some err)
     else newDockerError (Ports PErrServerError) (err_msg err) (Some err))"

definition kindForStatus :: "int \<Rightarrow> sentinel" where
  "kindForStatus status =
    (if status = 400 then Ports PErrInvalidArgument
     else if status = 404 then Ports PErrNotFound
     else if status = 409 then Ports PErrConflict
     else if status = 501 then Ports PErrNotImplemented
     else Ports PErrServerError)"

definition notFoundError :: "string \<Rightarrow> gerror" where
  "notFoundError m = newDockerError (Ports PErrNotFound) m None"

definition conflictError :: "string \<Rightarrow> gerror" where
  "conflictError m = newDockerError (Ports PErrConflict) m None"

definition invalidError :: "string \<Rightarrow> gerror" where
  "invalidError m = newDockerError (Ports PErrInvalidArgument) m None"

definition serverError :: "string \<Rightarrow> gerror" where
  "serverError m = newDockerError (Ports PErrServerError) m None"

section \<open>internal/api/errors.go\<close>

datatype error_kind = KindNotFound | KindConflict | KindInvalidParameter | KindNotImplemented
  | KindServer

record docker_error =
  de_status :: int
  de_kind :: error_kind
  de_message :: string

definition api_newDockerError :: "int \<Rightarrow> error_kind \<Rightarrow> string \<Rightarrow> string \<Rightarrow> docker_error" where
  "api_newDockerError status kind message fallback =
     \<lparr>de_status = status, de_kind = kind,
      de_message = (if message = [] then fallback else message)\<rparr>"

definition NewNotFound :: "string \<Rightarrow> docker_error" where
  "NewNotFound m = api_newDockerError 404 KindNotFound m ''page not found''"

definition NewConflict :: "string \<Rightarrow> docker_error" where
  "NewConflict m = api_newDockerError 409 KindConflict m ''request conflicts with current state''"

definition NewInvalidParameter :: "string \<Rightarrow> docker_error" where
  "NewInvalidParameter m = api_newDockerError 400 KindInvalidParameter m ''invalid parameter''"

definition NewNotImplemented :: "string \<Rightarrow> docker_error" where
  "NewNotImplemented m = api_newDockerError 501 KindNotImplemented m ''operation not implemented''"

definition NewServerError :: "string \<Rightarrow> docker_error" where
  "NewServerError m = api_newDockerError 500 KindServer m ''internal server error''"

definition NewDockerError :: "int \<Rightarrow> string \<Rightarrow> docker_error" where
  "NewDockerError status message =
    (if status = 404 then NewNotFound message
     else if status = 409 then NewConflict message
     else if status = 400 then NewInvalidParameter message
     else if status = 501 then NewNotImplemented message
     else if status = 500 then NewServerError message
     else NewServerError message)"

definition docker_error_StatusCode :: "docker_error option \<Rightarrow> int" where
  "docker_error_StatusCode e = (case e of None \<Rightarrow> 500
     | Some d \<Rightarrow> if de_status d < 400 then 500 else de_status d)"

definition service_prefixes :: "string list" where
  "service_prefixes =
    [''dockerdless: not found: '', ''dockerdless: conflict: '',
     ''dockerdless: invalid argument: '', ''dockerdless: not implemented: '',
     ''dockerdless: server failure: '']"

definition cleanServiceMessage :: "string \<Rightarrow> string" where
  "cleanServiceMessage m = foldl TrimPrefix m service_prefixes"

definition serviceMessage :: "gerror option \<Rightarrow> string" where
  "serviceMessage err = (case err of None \<Rightarrow> []
     | Some e \<Rightarrow> (case as_messenger e of Some m \<Rightarrow> cleanServiceMessage m
                   | None \<Rightarrow> cleanServiceMessage (err_msg e)))"

definition mapServiceError :: "gerror option \<Rightarrow> docker_error" where
  "mapServiceError err0 =
    (let err = (case err0 of None \<Rightarrow> NewErr [] | Some e \<Rightarrow> e);
         message = cleanServiceMessage
           (case as_messenger err of Some m \<Rightarrow> m | None \<Rightarrow> err_msg err)
     in if errors_is err (Ports PErrNotFound) then NewNotFound message
        else if errors_is err (Ports PErrConflict) then NewConflict message
        else if errors_is err (Ports PErrInvalidArgument) then NewInvalidParameter message
        else if errors_is err (Ports PErrNotImplemented) then NewNotImplemented message
        else if errors_is err (Std DeadlineExceeded) then NewServerError ''request timed out''
        else if errors_is err (Std Canceled) then NewServerError ''request canceled''
        else NewServerError message)"

text \<open>What \<^verbatim>\<open>WriteDockerError\<close> sends: the status line and the message of the envelope.\<close>

definition WriteDockerError :: "docker_error option \<Rightarrow> int \<times> string" where
  "WriteDockerError apiError =
    (let e = (case apiError of None \<Rightarrow> NewServerError [] | Some d \<Rightarrow> d)
     in (docker_error_StatusCode (Some e), de_message e))"

definition WriteServiceError :: "gerror option \<Rightarrow> int \<times> string" where
  "WriteServiceError err = WriteDockerError (Some (mapServiceError err))"

lemmas api_error_defs = NewNotFound_def NewConflict_def NewInvalidParameter_def
  NewNotImplemented_def NewServerError_def api_newDockerError_def

section \<open>Classification\<close>

lemma errors_is_newDockerError [simp]:
  "errors_is (newDockerError k m c) t \<longleftrightarrow> t = k \<or> (\<exists>e. c = Some e \<and> errors_is e t)"
  by (auto simp: newDockerError_def split: option.splits)

lemma as_messenger_newDockerError [simp]:
  "as_messenger (newDockerError k m c) = Some (if TrimSpace m = [] then sentinel_msg k else m)"
  by (simp add: newDockerError_def)

lemma translateError_canonical: "isCanonicalError (translateError err)"
  by (auto simp: translateError_def isCanonicalError_def Let_def)

lemma translateError_canonical_id: "isCanonicalError err \<Longrightarrow> translateError err = err"
  by (simp add: translateError_def)

lemma translateError_idem: "translateError (translateError err) = translateError err"
  by (rule translateError_canonical_id) (rule translateError_canonical)

lemma translateError_keeps_chain: "errors_is err t \<Longrightarrow> errors_is (translateError err) t"
  by (auto simp: translateError_def)

lemma mapError_keeps_chain: "errors_is err t \<Longrightarrow> errors_is (mapError d err) t"
  by (auto simp: mapError_def)

lemma mapError_idem: "mapError d (mapError d err) = mapError d err"
proof (cases "mapError d err = err")
  case True
  then show ?thesis by simp
next
  case False
  then obtain c where "mapError d err = wrap_two (Sentinel (Ctd c)) err"
    by (auto simp: mapError_def split: if_splits)
  then show ?thesis by (cases c) (simp_all add: mapError_def)
qed

lemma no_prefix_foldl:
  "(\<And>p. p \<in> set ps \<Longrightarrow> \<not> prefix p m) \<Longrightarrow> foldl TrimPrefix m ps = m"
  by (induction ps) (auto simp: TrimPrefix_def)

definition plain_message :: "string \<Rightarrow> bool" where
  "plain_message m \<longleftrightarrow> TrimSpace m \<noteq> [] \<and>
     list_all (\<lambda>p. \<not> prefix p m) adapter_prefixes \<and> list_all (\<lambda>p. \<not> prefix p m) service_prefixes"

lemma plain_message_clean [simp]:
  assumes "plain_message m"
  shows "foldl TrimPrefix m adapter_prefixes = m" and "cleanServiceMessage m = m"
  using assms no_prefix_foldl [of adapter_prefixes m] no_prefix_foldl [of service_prefixes m]
  by (auto simp: plain_message_def cleanServiceMessage_def list_all_iff)

lemma cleanAdapterMessage_ctd:
  assumes "plain_message (err_msg e)"
  shows "cleanAdapterMessage (wrap_two (Sentinel (Ctd c)) e) = err_msg e"
proof -
  have "foldl TrimPrefix (err_msg (wrap_two (Sentinel (Ctd c)) e)) adapter_prefixes
      = foldl TrimPrefix (err_msg e) adapter_prefixes"
    using assms
    by (cases c)
      (simp_all add: adapter_prefixes_def plain_message_def TrimPrefix_def prefix_def)
  with assms show ?thesis by (simp add: cleanAdapterMessage_def)
qed

text \<open>The status and message of an error the application layer already classified.\<close>

definition canonical_status :: "ports_err \<Rightarrow> int" where
  "canonical_status k = (case k of PErrNotFound \<Rightarrow> 404 | PErrConflict \<Rightarrow> 409
     | PErrInvalidArgument \<Rightarrow> 400 | PErrNotImplemented \<Rightarrow> 501 | PErrServerError \<Rightarrow> 500)"

lemma WriteServiceError_foreign_cause:
  assumes "\<forall>p. \<not> errors_is e (Ports p)"
    and "\<not> errors_is e (Std DeadlineExceeded)" and "\<not> errors_is e (Std Canceled)"
    and "plain_message m"
  shows "WriteServiceError (Some (newDockerError (Ports k) m (Some e))) = (canonical_status k, m)"
proof -
  have "TrimSpace m \<noteq> []" and "m \<noteq> []"
    using assms(4) by (auto simp: plain_message_def)
  with assms show ?thesis
    by (cases k) (simp_all add: WriteServiceError_def WriteDockerError_def mapServiceError_def
      docker_error_StatusCode_def api_error_defs canonical_status_def)
qed

lemma WriteServiceError_status_message:
  "fst (WriteServiceError e) \<in> {400, 404, 409, 500, 501} \<and> snd (WriteServiceError e) \<noteq> []"
  by (simp add: WriteServiceError_def WriteDockerError_def mapServiceError_def Let_def
      docker_error_StatusCode_def api_error_defs)

definition runtime_class :: "errdefs \<Rightarrow> gerror \<Rightarrow> ports_err" where
  "runtime_class d e =
    (if IsNotFound d e then PErrNotFound
     else if IsAlreadyExists d e \<or> IsConflict d e \<or> IsFailedPrecondition d e then PErrConflict
     else if IsInvalidArgument d e \<or> IsOutOfRange d e then PErrInvalidArgument
     else PErrServerError)"

lemma translateError_mapError_foreign:
  assumes "\<forall>s. \<not> errors_is e s" and "plain_message (err_msg e)"
  shows "\<exists>c. translateError (mapError d e)
           = newDockerError (Ports (runtime_class d e)) (err_msg e) (Some c)
         \<and> (\<forall>p. \<not> errors_is c (Ports p)) \<and> (\<forall>p. \<not> errors_is c (Std p))"
proof -
  have "translateError (mapError d e)
      = newDockerError (Ports (runtime_class d e)) (err_msg e) (Some (mapError d e))"
    using assms
    by (simp add: translateError_def mapError_def runtime_class_def isCanonicalError_def is_any_def
        not_found_sentinels_def conflict_sentinels_def invalid_sentinels_def server_sentinels_def
        cleanAdapterMessage_ctd)
  moreover have "\<forall>p. \<not> errors_is (mapError d e) (Ports p)"
    and "\<forall>p. \<not> errors_is (mapError d e) (Std p)"
    using assms(1) by (simp_all add: mapError_def)
  ultimately show ?thesis by blast
qed

text \<open>
  C32: an error of the runtime client that carries no sentinel of the daemon reaches the HTTP
  client as the status of its \<^verbatim>\<open>errdefs\<close> class (404 for not found, 409 for already
  exists, conflict and failed precondition, 400 for invalid argument and out of range, 500 for
  everything else) with the runtime's own message, without the prefixes the layers in between add.
\<close>

theorem runtime_error_response:
  assumes "\<forall>s. \<not> errors_is e s" and "plain_message (err_msg e)"
  shows "WriteServiceError (Some (translateError (mapError d e)))
    = (canonical_status (runtime_class d e), err_msg e)"
proof -
  from translateError_mapError_foreign [OF assms] obtain c where
    "translateError (mapError d e)
       = newDockerError (Ports (runtime_class d e)) (err_msg e) (Some c)"
    "\<forall>p. \<not> errors_is c (Ports p)" "\<forall>p. \<not> errors_is c (Std p)"
    by blast
  with WriteServiceError_foreign_cause assms(2) show ?thesis by simp
qed

definition sample_errdefs :: errdefs where
  "sample_errdefs = \<lparr>IsNotFound = (\<lambda>e. e = NewErr ''no such task''),
     IsAlreadyExists = (\<lambda>e. False), IsConflict = (\<lambda>e. False), IsFailedPrecondition = (\<lambda>e. False),
     IsInvalidArgument = (\<lambda>e. False), IsOutOfRange = (\<lambda>e. False), IsUnavailable = (\<lambda>e. False),
     IsInternal = (\<lambda>e. False), IsUnknown = (\<lambda>e. False), IsAborted = (\<lambda>e. False),
     IsDataLoss = (\<lambda>e. False)\<rparr>"

lemma sample_message_plain: "plain_message ''no such task''"
  by code_simp

theorem runtime_error_response_witness:
  "WriteServiceError (Some (translateError (mapError sample_errdefs (NewErr ''no such task''))))
    = (404, ''no such task'')"
  using runtime_error_response [of "NewErr ''no such task''" sample_errdefs] sample_message_plain
  by (simp add: runtime_class_def canonical_status_def sample_errdefs_def)

text \<open>
  The application layer's classification is total and stable: every error it returns is
  canonical, a second translation changes nothing, no sentinel of the chain is lost (so the layers
  above can still ask for it), and the response to any error is a status Docker clients know with
  a message that is not empty.
\<close>

theorem translateError_total:
  "isCanonicalError (translateError err) \<and> translateError (translateError err) = translateError err
   \<and> {s. errors_is err s} \<subseteq> {s. errors_is (translateError err) s}
   \<and> fst (WriteServiceError (Some (translateError err))) \<in> {400, 404, 409, 500, 501}
   \<and> snd (WriteServiceError (Some (translateError err))) \<noteq> []"
  using translateError_canonical [of err] translateError_idem [of err]
    translateError_keeps_chain [of err] WriteServiceError_status_message
  by blast

end
