(* ===== verification/App_Service.thy ===== *)
theory App_Service
  imports Ports_Types Registry Error_Mapping Cni_Networks
begin

text \<open>
  \<^verbatim>\<open>internal/app/service.go\<close>, \<^verbatim>\<open>adapters.go\<close>, \<^verbatim>\<open>containers.go\<close> and the sink
  bookkeeping of \<^verbatim>\<open>logs.go\<close>: the use cases on containers, composed of the registry, the CNI
  adapter with its port allocator, and the runtime, image and task ports.

  The state of the service is the registry, the state of the CNI adapter, the table of pending
  execs and the open log sinks. The port allocator of the service and of the CNI adapter is one
  object (\<^verbatim>\<open>main.go\<close> passes the same one to both), so it is the \<open>st_alloc\<close> of the adapter's
  state. The runtime, the image store, the clock and the file system are the fields of
  \<open>service_env\<close>, functions on the world that the operations thread through; the request context
  is read from the world because a deadline may pass between two calls; a call of an adapter
  sees one value of it. Requests are modelled one
  after the other. The optional dependencies are present, as the daemon wires them, and the network
  port is the CNI adapter, so the reserved connect path is always available.
\<close>

section \<open>State\<close>

record pending_exec =
  px_id :: string
  px_container :: container_id
  px_command :: "string list"
  px_env :: "(string, string) gomap"
  px_workingDir :: string
  px_user :: string
  px_tty :: bool
  px_attachIn :: bool
  px_attachOut :: bool
  px_attachErr :: bool
  px_started :: bool
  px_record :: exec_record

record service_state =
  sv_registry :: registry
  sv_cni :: cni_state
  sv_execs :: "(string, pending_exec) gomap"
  sv_logs :: "container_id list"

text \<open>Attached streams of an exec are present or absent here.\<close>

record exec_request =
  xq_ID :: string
  xq_Command :: "string list"
  xq_Env :: "(string, string) gomap"
  xq_WorkingDir :: string
  xq_User :: string
  xq_TTY :: bool
  xq_Detach :: bool
  xq_Width :: u32
  xq_Height :: u32
  xq_Stdin :: bool
  xq_Stdout :: bool
  xq_Stderr :: bool

record 'w service_env =
  se_ctx :: "'w \<Rightarrow> ctx"
  se_CreateContainer :: "container_create_spec \<Rightarrow> 'w \<Rightarrow> 'w \<times> (gerror + container_id)"
  se_StartWithIO :: "container_id \<Rightarrow> 'w \<Rightarrow> 'w \<times> gerror option"
  se_Stop :: "container_id \<Rightarrow> int \<Rightarrow> 'w \<Rightarrow> 'w \<times> gerror option"
  se_Remove :: "container_id \<Rightarrow> 'w \<Rightarrow> 'w \<times> gerror option"
  se_Status :: "container_id \<Rightarrow> 'w \<Rightarrow> 'w \<times> (gerror + string)"
  se_Wait :: "container_id \<Rightarrow> 'w \<Rightarrow> 'w \<times> (gerror + process_exit)"
  se_Exec :: "container_id \<Rightarrow> exec_request \<Rightarrow> 'w \<Rightarrow> 'w \<times> (gerror + exec_result)"
  se_ExecRecord :: "string \<Rightarrow> 'w \<Rightarrow> exec_record option"
  se_ImageInspect :: "string \<Rightarrow> 'w \<Rightarrow> 'w \<times> (gerror + image_detail)"
  se_ImageList :: "'w \<Rightarrow> 'w \<times> (gerror + image_detail list)"
  se_ImageRemove :: "string \<Rightarrow> 'w \<Rightarrow> 'w \<times> gerror option"
  se_ImageConfig :: "string \<Rightarrow> 'w \<Rightarrow> 'w \<times> (gerror + image_config)"
  se_PullImage :: "string \<Rightarrow> pull_request \<Rightarrow> 'w \<Rightarrow> 'w \<times> (gerror + image_id)"
  se_BuildImage :: "build_request \<Rightarrow> 'w \<Rightarrow> 'w \<times> gerror option"
  se_TaskPID :: "container_id \<Rightarrow> 'w \<Rightarrow> 'w \<times> (gerror + int)"
  se_openLog :: "container_id \<Rightarrow> 'w \<Rightarrow> 'w \<times> gerror option"
  se_removeLog :: "container_id \<Rightarrow> 'w \<Rightarrow> 'w"
  se_now :: "'w \<Rightarrow> 'w \<times> gotime"
  se_newID :: "'w \<Rightarrow> 'w \<times> (gerror + string)"
  se_NormalizeReference :: "string \<Rightarrow> gerror + string"
  se_encodeCommand :: "string list \<Rightarrow> string"
  se_encodeMounts :: "mount list \<Rightarrow> string"
  se_cni :: "'w cni_env"
  se_cfg :: cni_cfg
  se_stopTimeout :: int
  se_namespace :: string
  se_snapshotter :: string
  se_containerdSocket :: string
  se_buildkitSocket :: string

type_synonym 'w svc = "service_state \<times> 'w"

section \<open>service.go\<close>

definition reservationsFor :: "port_binding list \<Rightarrow> port_allocation list" where
  "reservationsFor bindings = map (\<lambda>b. mk_alloc (pb_Protocol b) (pb_HostIP b) (pb_HostPort b)) bindings"

definition releaseBindings :: "port_binding list \<Rightarrow> service_state \<Rightarrow> service_state" where
  "releaseBindings bindings st =
    (if bindings = [] then st
     else st\<lparr>sv_cni := (sv_cni st)\<lparr>st_alloc := Release (reservationsFor bindings) (st_alloc (sv_cni st))\<rparr>\<rparr>)"

definition resolveContainer :: "'w service_env \<Rightarrow> string \<Rightarrow> 'w svc \<Rightarrow> gerror + container" where
  "resolveContainer env ref0 s = (case s of (st, w) \<Rightarrow>
    let ref = TrimPrefix (TrimSpace ref0) ''/'' in
    if ref = [] then Inl (invalidError ''container id or name must not be empty'')
    else case Get (se_ctx env w) ref (sv_registry st) of
      Inr c \<Rightarrow> Inr c
    | Inl e \<Rightarrow>
        if \<not> errors_is e (Dom ErrContainerNotFound) then Inl (translateError e)
        else (case GetByName ref (sv_registry st) of
          Inr c \<Rightarrow> Inr c
        | Inl _ \<Rightarrow>
            (case (if length ref \<ge> 3 then filter (\<lambda>c. HasPrefix (c_ID c) ref) (List (sv_registry st)) else []) of
               [] \<Rightarrow> Inl (notFoundError (''No such container: '' @ ref))
             | [c] \<Rightarrow> Inr c
             | _ \<Rightarrow> Inl (invalidError (''multiple containers match prefix '' @ ref)))))"

definition svc_save :: "'w service_env \<Rightarrow> container \<Rightarrow> 'w svc \<Rightarrow> 'w svc" where
  "svc_save env c s = (case s of (st, w) \<Rightarrow>
    (case se_now env w of (w1, t) \<Rightarrow>
      (case Save (se_ctx env w1) (c\<lparr>c_UpdatedAt := t\<rparr>) (sv_registry st) of
         Inr r \<Rightarrow> (st\<lparr>sv_registry := r\<rparr>, w1)
       | Inl e \<Rightarrow> (st, w1))))"

section \<open>logs.go: the sinks\<close>

definition openLogSink :: "'w service_env \<Rightarrow> container_id \<Rightarrow> 'w svc \<Rightarrow> 'w svc \<times> gerror option" where
  "openLogSink env i s = (case s of (st, w) \<Rightarrow>
    if i \<in> set (sv_logs st) then (s, None)
    else case se_openLog env i w of
      (w1, Some e) \<Rightarrow> ((st, w1), Some e)
    | (w1, None) \<Rightarrow> ((st\<lparr>sv_logs := i # sv_logs st\<rparr>, w1), None))"

definition closeLogSink :: "container_id \<Rightarrow> service_state \<Rightarrow> service_state" where
  "closeLogSink i st = st\<lparr>sv_logs := removeAll i (sv_logs st)\<rparr>"

definition discardLogs :: "'w service_env \<Rightarrow> container_id \<Rightarrow> 'w svc \<Rightarrow> 'w svc" where
  "discardLogs env i s = (case s of (st, w) \<Rightarrow> (closeLogSink i st, se_removeLog env i w))"

section \<open>containers.go: create\<close>

definition containerNamePattern_text :: string where
  "containerNamePattern_text = ''^[a-zA-Z0-9][a-zA-Z0-9_.-]*$''"

definition validateContainerCreate :: "string \<Rightarrow> string \<Rightarrow> registry \<Rightarrow> gerror option" where
  "validateContainerCreate name img r =
    (if name \<noteq> [] \<and> \<not> match_name name
     then Some (invalidError (''Invalid container name ('' @ name @ ''), only '' @ containerNamePattern_text @ '' are allowed''))
     else if TrimSpace img = [] then Some (invalidError ''No image specified'')
     else if name \<noteq> [] then
       (case GetByName name r of
          Inr existing \<Rightarrow> Some (conflictError (''Conflict. The container name '' @ [CHR 0x22] @ ''/'' @ name @ [CHR 0x22]
            @ '' is already in use by container '' @ quote (c_ID existing)
            @ ''. You have to remove (or rename) that container to be able to reuse that name.''))
        | Inl _ \<Rightarrow> None)
     else None)"

definition imageNotFound :: "string \<Rightarrow> gerror \<Rightarrow> gerror" where
  "imageNotFound ref err = (let mapped = translateError err in
     if errors_is mapped (Ports PErrNotFound)
     then newDockerError (Ports PErrNotFound) (''No such image: '' @ ref) (Some err) else mapped)"

definition inspectCreateImage :: "'w service_env \<Rightarrow> string \<Rightarrow> 'w \<Rightarrow> 'w \<times> (gerror + image_detail)" where
  "inspectCreateImage env ref w = (case se_ImageInspect env ref w of
     (w1, Inr d) \<Rightarrow> (w1, Inr d) | (w1, Inl e) \<Rightarrow> (w1, Inl (imageNotFound ref e)))"

definition networkDetail :: "network \<Rightarrow> network_detail" where
  "networkDetail n = \<lparr>nd_ID = nw_ID n, nd_Name = nw_Name n, nd_Driver = nw_Driver n, nd_Mode = mode_text (nw_Mode n),
     nd_Subnet = nw_Subnet n, nd_Gateway = nw_Gateway n, nd_Labels = nw_Labels n\<rparr>"

definition zero_network_detail :: network_detail where
  "zero_network_detail = \<lparr>nd_ID = [], nd_Name = [], nd_Driver = [], nd_Mode = [], nd_Subnet = [], nd_Gateway = [], nd_Labels = []\<rparr>"

definition networkNameFor :: "string \<Rightarrow> string" where
  "networkNameFor mode = (let trimmed = TrimSpace mode; low = ToLower trimmed in
     if low = [] \<or> low = ''default'' \<or> low = DefaultNetworkName then DefaultNetworkName else trimmed)"

definition networkAttachment :: "net_mode \<Rightarrow> network_detail \<Rightarrow> network_attachment" where
  "networkAttachment mode n =
    (if mode \<noteq> ModeNetwork then zero_attachment\<lparr>na_Name := mode_text mode\<rparr>
     else zero_attachment\<lparr>na_NetworkID := nd_ID n, na_Name := nd_Name n\<rparr>)"

definition resolveCreateNetwork ::
  "'w service_env \<Rightarrow> string \<Rightarrow> 'w svc \<Rightarrow> service_state \<times> (gerror + (net_mode \<times> network_detail))" where
  "resolveCreateNetwork env networkMode s = (case s of (st, w) \<Rightarrow>
    (case ParseNetworkMode networkMode of
       Inl e \<Rightarrow> (st, Inl (translateError e))
     | Inr mode \<Rightarrow>
        if mode \<noteq> ModeNetwork then (st, Inr (mode, zero_network_detail))
        else
          let networkName = networkNameFor networkMode;
              ensured = (if networkName = DefaultNetworkName
                then EnsureDefaultNetwork (se_cni env) (se_cfg env) (se_ctx env w) (sv_cni st)
                else (sv_cni st, Inr [])) in
          case ensured of
            (cni1, Inl e) \<Rightarrow> (st\<lparr>sv_cni := cni1\<rparr>, Inl (translateError e))
          | (cni1, Inr _) \<Rightarrow>
              (st\<lparr>sv_cni := cni1\<rparr>,
               case Resolve (se_cni env) (se_cfg env) (se_ctx env w) networkName cni1 of
                 Inl e \<Rightarrow> Inl (let mapped = translateError e in
                   if errors_is mapped (Ports PErrNotFound)
                   then newDockerError (Ports PErrNotFound) (''network '' @ networkName @ '' not found'') (Some e)
                   else mapped)
               | Inr n \<Rightarrow> Inr (mode, networkDetail n))))"

definition prepareCreateBindings ::
  "'w service_env \<Rightarrow> port_binding list \<Rightarrow> net_mode \<Rightarrow> 'w svc \<Rightarrow> 'w svc \<times> (gerror + port_binding list)" where
  "prepareCreateBindings env bindings mode s = (case s of (st, w) \<Rightarrow>
    if bindings = [] then (s, Inr [])
    else if mode \<noteq> ModeNetwork
    then (s, Inl (invalidError ''conflicting options: port publishing and the container type network mode''))
    else case AllocateBindings (ce_probe (se_cni env)) bindings (st_alloc (sv_cni st)) w of
      (a1, w1, Inl e) \<Rightarrow> ((st\<lparr>sv_cni := (sv_cni st)\<lparr>st_alloc := a1\<rparr>\<rparr>, w1), Inl (translateError e))
    | (a1, w1, Inr (filled, _)) \<Rightarrow> ((st\<lparr>sv_cni := (sv_cni st)\<lparr>st_alloc := a1\<rparr>\<rparr>, w1), Inr filled))"

abbreviation containerImageDigestLabel :: string where
  "containerImageDigestLabel \<equiv> ''io.dockerdless.image-digest''"

abbreviation containerCommandLabel :: string where
  "containerCommandLabel \<equiv> ''io.dockerdless.command''"

definition buildCreateLabels ::
  "'w service_env \<Rightarrow> container_create_request \<Rightarrow> image_detail \<Rightarrow> (string, string) gomap" where
  "buildCreateLabels env req d =
    (let l1 = (if cc_Mounts req \<noteq> [] then put LabelMounts (se_encodeMounts env (cc_Mounts req)) (cc_Labels req) else cc_Labels req);
         l2 = (if cc_TTY req then put LabelTTY ''true'' l1 else l1)
     in put containerCommandLabel (se_encodeCommand env (cc_Command req)) (put containerImageDigestLabel (id_ID d) l2))"

fun first_normalized :: "(string \<Rightarrow> gerror + string) \<Rightarrow> string list \<Rightarrow> string option" where
  "first_normalized norm [] = None"
| "first_normalized norm (c # cs) = (case norm c of Inr n \<Rightarrow> Some n | Inl _ \<Rightarrow> first_normalized norm cs)"

definition runtimeImageReference :: "'w service_env \<Rightarrow> string \<Rightarrow> image_detail \<Rightarrow> string" where
  "runtimeImageReference env requested d =
    (case first_normalized (se_NormalizeReference env) (id_RepoTags d @ id_RepoDigests d @ [requested]) of
       Some n \<Rightarrow> n | None \<Rightarrow> requested)"

definition create_spec :: "'w service_env \<Rightarrow> string \<Rightarrow> container_create_request \<Rightarrow> image_detail \<Rightarrow> container_create_spec" where
  "create_spec env name req d =
    \<lparr>sp_ID = [], sp_Name = name, sp_Image = runtimeImageReference env (cc_Image req) d,
     sp_Command = cc_Command req, sp_Entrypoint = cc_Entrypoint req, sp_Env = cc_Env req,
     sp_WorkingDir = cc_WorkingDir req, sp_User = cc_User req, sp_Hostname = cc_Hostname req,
     sp_Labels = buildCreateLabels env req d, sp_Mounts = cc_Mounts req, sp_TTY = cc_TTY req,
     sp_OpenStdin = cc_OpenStdin req, sp_Snapshotter = []\<rparr>"

definition created_container ::
  "'w service_env \<Rightarrow> container_id \<Rightarrow> string \<Rightarrow> container_create_request \<Rightarrow> image_detail \<Rightarrow> gotime \<Rightarrow>
    port_binding list \<Rightarrow> network_attachment \<Rightarrow> container" where
  "created_container env i name req d now bindings att = zero_container
    \<lparr>c_ID := i, c_Name := name,
     c_Spec := \<lparr>cs_Image = cc_Image req, cs_Command = cc_Command req, cs_Env = cc_Env req\<rparr>,
     c_ImageReference := cc_Image req, c_ImageDigest := id_ID d, c_Labels := buildCreateLabels env req d,
     c_State := ContainerStateCreated, c_CreatedAt := now, c_UpdatedAt := now, c_PortBindings := bindings,
     c_Networks := [att]\<rparr>"

definition createConflict :: "string \<Rightarrow> gerror \<Rightarrow> gerror" where
  "createConflict name err = (let mapped = translateError err in
     if errors_is mapped (Ports PErrConflict) \<and> name \<noteq> []
     then conflictError (''Conflict. The container name '' @ [CHR 0x22] @ ''/'' @ name @ [CHR 0x22]
       @ '' is already in use. You have to remove (or rename) that container to be able to reuse that name.'')
     else mapped)"

text \<open>The part of the operation after the ports are reserved.\<close>

definition provision ::
  "'w service_env \<Rightarrow> string \<Rightarrow> container_create_request \<Rightarrow> image_detail \<Rightarrow> net_mode \<Rightarrow> network_detail \<Rightarrow>
    port_binding list \<Rightarrow> 'w svc \<Rightarrow> 'w svc \<times> (gerror + container_id)" where
  "provision env name req d mode n bindings s = (case s of (st, w) \<Rightarrow>
    (case se_CreateContainer env (create_spec env name req d) w of
       (w1, Inl e) \<Rightarrow> ((releaseBindings bindings st, w1), Inl (createConflict name e))
     | (w1, Inr i) \<Rightarrow>
        (case se_now env w1 of (w2, now) \<Rightarrow>
          (case Save (se_ctx env w2) (created_container env i name req d now bindings (networkAttachment mode n))
                  (sv_registry st) of
             Inl e \<Rightarrow> ((releaseBindings bindings st, fst (se_Remove env i w2)), Inl (translateError e))
           | Inr r \<Rightarrow> ((st\<lparr>sv_registry := r\<rparr>, w2), Inr i)))))"

definition ContainerCreate ::
  "'w service_env \<Rightarrow> container_create_request \<Rightarrow> 'w svc \<Rightarrow> 'w svc \<times> (gerror + container_id)" where
  "ContainerCreate env req s = (case s of (st, w) \<Rightarrow>
    let name = TrimPrefix (TrimSpace (cc_Name req)) ''/'' in
    case validateContainerCreate name (cc_Image req) (sv_registry st) of
      Some e \<Rightarrow> (s, Inl e)
    | None \<Rightarrow> (case inspectCreateImage env (cc_Image req) w of
        (w1, Inl e) \<Rightarrow> ((st, w1), Inl e)
      | (w1, Inr d) \<Rightarrow> (case resolveCreateNetwork env (cc_NetworkMode req) (st, w1) of
          (st1, Inl e) \<Rightarrow> ((st1, w1), Inl e)
        | (st1, Inr (mode, n)) \<Rightarrow> (case prepareCreateBindings env (cc_PortBindings req) mode (st1, w1) of
            (s2, Inl e) \<Rightarrow> (s2, Inl e)
          | (s2, Inr bindings) \<Rightarrow> provision env name req d mode n bindings s2))))"

section \<open>containers.go: refresh, list, inspect\<close>

definition containerHasExited :: "string \<Rightarrow> bool" where
  "containerHasExited state \<longleftrightarrow> state = ContainerStateExited \<or> state = ContainerStateDead"

definition apply_exit :: "gerror + process_exit \<Rightarrow> bool \<Rightarrow> container \<Rightarrow> container" where
  "apply_exit r touch c = (case r of Inl e \<Rightarrow> c
     | Inr x \<Rightarrow> let c1 = c\<lparr>c_ExitCode := int (unat (pe_ExitCode x))\<rparr> in
         if IsZero (pe_ExitedAt x) then c1
         else let c2 = c1\<lparr>c_FinishedAt := pe_ExitedAt x\<rparr> in
           if touch then c2\<lparr>c_UpdatedAt := pe_ExitedAt x\<rparr> else c2)"

definition refresh :: "'w service_env \<Rightarrow> container \<Rightarrow> 'w svc \<Rightarrow> 'w svc \<times> container \<times> bool" where
  "refresh env c s = (case s of (st, w) \<Rightarrow>
    (case se_Status env (c_ID c) w of
       (w1, Inl e) \<Rightarrow> ((st, w1), c, False)
     | (w1, Inr state) \<Rightarrow>
        if c_State c = ContainerStateCreated \<and> state \<noteq> ContainerStateRunning then ((st, w1), c, False)
        else if c_State c = state \<and> state = ContainerStateRunning then ((st, w1), c, False)
        else
          let updated = c\<lparr>c_State := state\<rparr>;
              stepped = (if state \<noteq> ContainerStateRunning \<and> state \<noteq> ContainerStateCreated
                then (case se_Wait env (c_ID c) w1 of (w2, x) \<Rightarrow> ((closeLogSink (c_ID c) st, w2), apply_exit x True updated))
                else ((st, w1), updated)) in
          case stepped of (s', u) \<Rightarrow>
            (s', u, c_State u \<noteq> c_State c \<or> c_ExitCode u \<noteq> c_ExitCode c
               \<or> instant (c_FinishedAt u) \<noteq> instant (c_FinishedAt c))))"

definition normalizeContainerTimestamps :: "container \<Rightarrow> gotime \<Rightarrow> container" where
  "normalizeContainerTimestamps c now =
    (let c1 = (if (c_State c = ContainerStateRunning \<or> c_State c = ContainerStatePaused) \<and> IsZero (c_StartedAt c)
           then c\<lparr>c_StartedAt := (if IsZero (c_CreatedAt c) then now else c_CreatedAt c)\<rparr> else c)
     in if c_State c1 = ContainerStateExited \<and> IsZero (c_FinishedAt c1)
        then c1\<lparr>c_FinishedAt := (if IsZero (c_CreatedAt c1) then now else c_CreatedAt c1)\<rparr> else c1)"

text \<open>The steps list and inspect share: refresh, fill in timestamps, persist a change.\<close>

definition refresh_and_save :: "'w service_env \<Rightarrow> container \<Rightarrow> 'w svc \<Rightarrow> 'w svc \<times> container" where
  "refresh_and_save env c s = (case refresh env c s of
     ((st1, w1), updated, changed) \<Rightarrow> (case se_now env w1 of (w2, now) \<Rightarrow>
        let normalized = normalizeContainerTimestamps updated now;
            changed' = (changed \<or> c_StartedAt normalized \<noteq> c_StartedAt updated
                         \<or> c_FinishedAt normalized \<noteq> c_FinishedAt updated)
        in (if changed' then svc_save env normalized (st1, w2) else (st1, w2), normalized)))"

fun list_loop :: "'w service_env \<Rightarrow> bool \<Rightarrow> container list \<Rightarrow> 'w svc \<Rightarrow> 'w svc \<times> container list" where
  "list_loop env all [] s = (s, [])"
| "list_loop env all (c # cs) s = (case refresh_and_save env c s of (s1, u) \<Rightarrow>
     (case list_loop env all cs s1 of (s2, us) \<Rightarrow>
        (s2, if \<not> all \<and> c_State u \<noteq> ContainerStateRunning then us else u # us)))"

definition ContainerList :: "'w service_env \<Rightarrow> bool \<Rightarrow> 'w svc \<Rightarrow> 'w svc \<times> container list" where
  "ContainerList env all s = list_loop env all (List (sv_registry (fst s))) s"

definition ContainerInspect :: "'w service_env \<Rightarrow> string \<Rightarrow> 'w svc \<Rightarrow> 'w svc \<times> (gerror + container)" where
  "ContainerInspect env ref s = (case resolveContainer env ref s of
     Inl e \<Rightarrow> (s, Inl e)
   | Inr c \<Rightarrow> (case refresh_and_save env c s of (s1, u) \<Rightarrow> (s1, Inr u)))"

section \<open>containers.go: start\<close>

definition containerIsRunning :: "'w service_env \<Rightarrow> container \<Rightarrow> 'w \<Rightarrow> 'w \<times> bool" where
  "containerIsRunning env c w = (case se_Status env (c_ID c) w of
     (w1, Inr state) \<Rightarrow> (w1, state = ContainerStateRunning) | (w1, Inl _) \<Rightarrow> (w1, False))"

definition startContainerTask :: "'w service_env \<Rightarrow> container \<Rightarrow> 'w svc \<Rightarrow> 'w svc \<times> gerror option" where
  "startContainerTask env c s = (case openLogSink env (c_ID c) s of
     (s1, Some e) \<Rightarrow> (s1, Some (serverError (''failed to open container logs: '' @ err_msg e)))
   | ((st1, w1), None) \<Rightarrow> (case se_StartWithIO env (c_ID c) w1 of
       (w2, Some e) \<Rightarrow> ((closeLogSink (c_ID c) st1, w2), Some (translateError e))
     | (w2, None) \<Rightarrow> ((st1, w2), None)))"

definition isHostOrNoneNetwork :: "string \<Rightarrow> bool" where
  "isHostOrNoneNetwork name \<longleftrightarrow> name = [] \<or> name = ''host'' \<or> name = ''none''"

definition attachableNetwork :: "container \<Rightarrow> network_attachment option" where
  "attachableNetwork c = (case c_Networks c of
     [] \<Rightarrow> None | n # _ \<Rightarrow> if isHostOrNoneNetwork (na_Name n) then None else Some n)"

definition connect_request_of :: "string \<Rightarrow> container_id \<Rightarrow> int \<Rightarrow> port_binding list \<Rightarrow> string list \<Rightarrow> connect_request" where
  "connect_request_of net i pid ps aliases = \<lparr>cr_Network = net, cr_Container = i,
     cr_NetNS = ''/proc/'' @ Itoa pid @ ''/ns/net'', cr_IfName = [], cr_Ports = ps, cr_Aliases = aliases\<rparr>"

definition restorePortReservations :: "'w service_env \<Rightarrow> container \<Rightarrow> 'w svc \<Rightarrow> 'w svc" where
  "restorePortReservations env c s = (case s of (st, w) \<Rightarrow>
    if c_PortBindings c = [] then s
    else case AllocateBindings (ce_probe (se_cni env)) (c_PortBindings c) (st_alloc (sv_cni st)) w of
      (a1, w1, _) \<Rightarrow> (st\<lparr>sv_cni := (sv_cni st)\<lparr>st_alloc := a1\<rparr>\<rparr>, w1))"

definition attachNetwork ::
  "'w service_env \<Rightarrow> container \<Rightarrow> 'w svc \<Rightarrow> 'w svc \<times> (gerror + connect_result option)" where
  "attachNetwork env c s = (case attachableNetwork c of
     None \<Rightarrow> (s, Inr None)
   | Some net \<Rightarrow> (case s of (st, w) \<Rightarrow>
      (case se_TaskPID env (c_ID c) w of
         (w1, Inl e) \<Rightarrow> ((st, w1), Inl (translateError e))
       | (w1, Inr pid) \<Rightarrow>
          (case ConnectReserved (se_cni env) (se_cfg env) (se_ctx env w1)
                  (connect_request_of (na_Name net) (c_ID c) pid (c_PortBindings c) []) (sv_cni st) w1 of
             (cni1, w2, Inl e) \<Rightarrow> (restorePortReservations env c (st\<lparr>sv_cni := cni1\<rparr>, w2), Inl e)
           | (cni1, w2, Inr res) \<Rightarrow> ((st\<lparr>sv_cni := cni1\<rparr>, w2), Inr (Some res))))))"

definition joinContainerNetwork ::
  "'w service_env \<Rightarrow> container \<Rightarrow> 'w svc \<Rightarrow> 'w svc \<times> (gerror + connect_result option)" where
  "joinContainerNetwork env c s = (case attachNetwork env c s of
     (s1, Inr a) \<Rightarrow> (s1, Inr a)
   | ((st1, w1), Inl e) \<Rightarrow> (case se_Status env (c_ID c) w1 of (w2, r) \<Rightarrow>
       if (case r of Inr state \<Rightarrow> containerHasExited state | Inl _ \<Rightarrow> False)
       then ((releaseBindings (c_PortBindings c) st1, w2), Inr None)
       else ((closeLogSink (c_ID c) st1, fst (se_Stop env (c_ID c) (se_stopTimeout env) w2)),
             Inl (translateError e))))"

definition finalizeAlreadyExitedStart :: "'w service_env \<Rightarrow> container \<Rightarrow> 'w svc \<Rightarrow> 'w svc \<times> bool" where
  "finalizeAlreadyExitedStart env c s = (case s of (st, w) \<Rightarrow>
    (case se_Status env (c_ID c) w of
       (w1, Inl e) \<Rightarrow> ((st, w1), False)
     | (w1, Inr state) \<Rightarrow>
        if state = ContainerStateRunning \<or> state = ContainerStateCreated then ((st, w1), False)
        else (case se_Wait env (c_ID c) w1 of (w2, x) \<Rightarrow>
          (svc_save env (apply_exit x False (c\<lparr>c_State := state\<rparr>)) (closeLogSink (c_ID c) st, w2), True))))"

definition running_container :: "container \<Rightarrow> connect_result option \<Rightarrow> gotime \<Rightarrow> container" where
  "running_container c att now =
    (let c1 = (case att of None \<Rightarrow> c
           | Some r \<Rightarrow> let c0 = c\<lparr>c_Networks := [co_Attachment r]\<rparr>
                        in if co_Ports r \<noteq> [] then c0\<lparr>c_PortBindings := co_Ports r\<rparr> else c0)
     in c1\<lparr>c_State := ContainerStateRunning, c_StartedAt := now, c_FinishedAt := zero_time, c_ExitCode := 0\<rparr>)"

definition markContainerRunning ::
  "'w service_env \<Rightarrow> container \<Rightarrow> connect_result option \<Rightarrow> 'w svc \<Rightarrow> 'w svc" where
  "markContainerRunning env c att s = (case s of (st, w) \<Rightarrow>
    (case se_now env w of (w1, now) \<Rightarrow> svc_save env (running_container c att now) (st, w1)))"

definition ContainerStart :: "'w service_env \<Rightarrow> string \<Rightarrow> 'w svc \<Rightarrow> 'w svc \<times> gerror option" where
  "ContainerStart env ref s = (case resolveContainer env ref s of
     Inl e \<Rightarrow> (s, Some e)
   | Inr c \<Rightarrow> (case s of (st, w) \<Rightarrow> (case containerIsRunning env c w of
       (w1, True) \<Rightarrow> ((st, w1), None)
     | (w1, False) \<Rightarrow> (case startContainerTask env c (st, w1) of
         (s2, Some e) \<Rightarrow> (s2, Some e)
       | (s2, None) \<Rightarrow> (case joinContainerNetwork env c s2 of
           (s3, Inl e) \<Rightarrow> (s3, Some e)
         | (s3, Inr att) \<Rightarrow> (case finalizeAlreadyExitedStart env c s3 of
             (s4, True) \<Rightarrow> (s4, None)
           | (s4, False) \<Rightarrow> (markContainerRunning env c att s4, None)))))))"

section \<open>containers.go: stop and remove\<close>

definition ContainerStop :: "'w service_env \<Rightarrow> string \<Rightarrow> int option \<Rightarrow> 'w svc \<Rightarrow> 'w svc \<times> gerror option" where
  "ContainerStop env ref timeout s = (case resolveContainer env ref s of
     Inl e \<Rightarrow> (s, Some e)
   | Inr c \<Rightarrow>
      if c_State c = ContainerStateCreated then (s, None)
      else (case s of (st, w) \<Rightarrow>
        let effective = (case timeout of Some t \<Rightarrow> if t \<ge> 0 then t else se_stopTimeout env | None \<Rightarrow> se_stopTimeout env) in
        (case se_Stop env (c_ID c) effective w of
           (w1, Some e) \<Rightarrow> ((st, w1), Some (translateError e))
         | (w1, None) \<Rightarrow> (case refresh env c (st, w1) of
             ((st2, w2), updated, refreshed) \<Rightarrow>
               (svc_save env ((if refreshed then updated else c)\<lparr>c_State := ContainerStateExited\<rparr>)
                  (closeLogSink (c_ID c) st2, w2), None)))))"

definition ContainerRemove :: "'w service_env \<Rightarrow> string \<Rightarrow> bool \<Rightarrow> 'w svc \<Rightarrow> 'w svc \<times> gerror option" where
  "ContainerRemove env ref force s = (case resolveContainer env ref s of
     Inl e \<Rightarrow> (s, Some e)
   | Inr c \<Rightarrow> (case s of (st, w) \<Rightarrow> (case se_Status env (c_ID c) w of
       (w1, Inl e) \<Rightarrow> ((st, w1), Some (translateError e))
     | (w1, Inr state0) \<Rightarrow>
        let forced = (force \<and> state0 \<noteq> ContainerStateExited);
            w2 = (if forced then fst (se_Stop env (c_ID c) 0 w1) else w1);
            state = (if forced then ContainerStateExited else state0) in
        if state = ContainerStateRunning \<or> state = ContainerStatePaused \<or> state = ContainerStateRestarting
        then ((st, w2), Some (conflictError (''You cannot remove a running container '' @ c_ID c
               @ ''. Stop the container before attempting removal or force remove'')))
        else (case DisconnectAll (se_cni env) (se_cfg env) (se_ctx env w2) (c_ID c) (sv_cni st) w2 of
          (cni1, w3, _) \<Rightarrow>
            let st3 = st\<lparr>sv_cni := cni1\<rparr>;
                st4 = (if c_State c = ContainerStateCreated then releaseBindings (c_PortBindings c) st3 else st3) in
            (case se_Remove env (c_ID c) w3 of
               (w4, Some e) \<Rightarrow> ((st4, w4), Some (translateError e))
             | (w4, None) \<Rightarrow> (case Remove (se_ctx env w4) (c_ID c) (sv_registry st4) of
                 Inr r \<Rightarrow> (discardLogs env (c_ID c) (st4\<lparr>sv_registry := r\<rparr>, w4), None)
               | Inl e \<Rightarrow> if errors_is e (Dom ErrContainerNotFound)
                           then (discardLogs env (c_ID c) (st4, w4), None)
                           else ((st4, w4), Some (translateError e))))))))"

end
