(* ===== verification/App_Lifecycle.thy ===== *)
theory App_Lifecycle
  imports App_Service
begin

text \<open>
  What the use cases on containers promise: every operation keeps the registry, the network
  directory and the port reservations consistent; creating is all or nothing; starting, stopping
  and removing change exactly the container they name; and removing a container gives back the host
  ports it was created with.
\<close>

section \<open>The invariant\<close>

definition service_ok :: "'w service_env \<Rightarrow> service_state \<Rightarrow> bool" where
  "service_ok env st \<longleftrightarrow> registry_ok (sv_registry st) \<and> adapter_ok True (se_cfg env) (sv_cni st)"

lemma service_okD:
  assumes "service_ok env st"
  shows "registry_ok (sv_registry st)" "adapter_ok True (se_cfg env) (sv_cni st)"
    "allocator_ok (st_alloc (sv_cni st))"
  using assms by (auto simp: service_ok_def adapter_ok_def)

lemma service_ok_cni [simp]:
  "service_ok env (st\<lparr>sv_logs := l\<rparr>) = service_ok env st"
  "service_ok env (st\<lparr>sv_execs := x\<rparr>) = service_ok env st"
  by (simp_all add: service_ok_def)

lemma adapter_ok_alloc:
  "adapter_ok b cfg cni \<Longrightarrow> allocator_ok a \<Longrightarrow> adapter_ok b cfg (cni\<lparr>st_alloc := a\<rparr>)"
  by (simp add: adapter_ok_def)

lemma releaseBindings_simps [simp]:
  "sv_registry (releaseBindings bs st) = sv_registry st"
  "sv_logs (releaseBindings bs st) = sv_logs st"
  "sv_execs (releaseBindings bs st) = sv_execs st"
  "st_files (sv_cni (releaseBindings bs st)) = st_files (sv_cni st)"
  "st_attachments (sv_cni (releaseBindings bs st)) = st_attachments (sv_cni st)"
  "st_alloc (sv_cni (releaseBindings bs st)) = Release (reservationsFor bs) (st_alloc (sv_cni st))"
  by (simp_all add: releaseBindings_def reservationsFor_def)

lemma releaseBindings_ok: "service_ok env st \<Longrightarrow> service_ok env (releaseBindings bs st)"
  by (simp add: service_ok_def adapter_ok_def Release_ok)

lemma closeLogSink_simps [simp]:
  "sv_registry (closeLogSink i st) = sv_registry st" "sv_cni (closeLogSink i st) = sv_cni st"
  "sv_execs (closeLogSink i st) = sv_execs st" "i \<notin> set (sv_logs (closeLogSink i st))"
  "service_ok env (closeLogSink i st) = service_ok env st"
  by (simp_all add: closeLogSink_def)

lemma Save_service_ok:
  "service_ok env st \<Longrightarrow> Save ctx c (sv_registry st) = Inr r \<Longrightarrow> service_ok env (st\<lparr>sv_registry := r\<rparr>)"
  by (auto simp: service_ok_def intro: Save_ok)

lemma svc_save_ok: "service_ok env (fst s) \<Longrightarrow> service_ok env (fst (svc_save env c s))"
  by (cases s) (auto simp: svc_save_def intro: Save_service_ok split: prod.split sum.split)

lemma svc_save_simps [simp]:
  "sv_cni (fst (svc_save env c s)) = sv_cni (fst s)" "sv_logs (fst (svc_save env c s)) = sv_logs (fst s)"
  "sv_execs (fst (svc_save env c s)) = sv_execs (fst s)"
  by (cases s; simp add: svc_save_def split: prod.split sum.split)+

text \<open>With a live context a container the registry knows under this ID and name can always be saved.\<close>

lemma svc_save_live:
  assumes "registry_ok (sv_registry (fst s))" and "\<And>w. se_ctx env w = Live"
    and "get (byID (sv_registry (fst s))) (c_ID c) = Some c0" and "c_Name c = c_Name c0"
  shows "\<exists>t. get (byID (sv_registry (fst (svc_save env c s))))
    = (get (byID (sv_registry (fst s))))(c_ID c \<mapsto> fill_image (c\<lparr>c_UpdatedAt := t\<rparr>))"
proof -
  obtain st w where s: "s = (st, w)" by (cases s)
  obtain w1 t where t: "se_now env w = (w1, t)" by (cases "se_now env w")
  let ?c = "c\<lparr>c_UpdatedAt := t\<rparr>"
  have ok: "registry_ok (sv_registry st)" using assms(1) s by simp
  have "c_ID c \<noteq> [] \<and> name_free (c_ID c) (c_Name c) (sv_registry st)"
    using registry_okD [OF ok] assms(3,4) s by (auto simp: name_free_def name_index_def)
  then obtain r where r: "Save Live ?c (sv_registry st) = Inr r"
    using Save_Inr_iff [of Live ?c "sv_registry st"] by auto
  then have "fst (svc_save env c s) = st\<lparr>sv_registry := r\<rparr>"
    by (simp add: svc_save_def s t assms(2))
  with Save_effect(1) [OF ok r] show ?thesis by (auto simp: s)
qed

lemma GetByName_stored:
  assumes "GetByName name r = Inr c" and "registry_ok r"
  shows "get (byID r) (c_ID c) = Some c \<and> c_Name c = name"
  using assms name_indexD [OF registry_okD(5) [OF assms(2)]] registry_okD(3) [OF assms(2)]
  by (auto simp: GetByName_def get_or_def split: option.splits)

lemma List_stored: "registry_ok r \<Longrightarrow> c \<in> set (List r) \<longleftrightarrow> get (byID r) (c_ID c) = Some c"
  using registry_okD(3) by (fastforce simp: set_List ran_def)

lemma resolveContainer_stored:
  assumes "resolveContainer env ref (st, w) = Inr c" and "registry_ok (sv_registry st)"
  shows "get (byID (sv_registry st)) (c_ID c) = Some c"
proof -
  define name where "name = TrimPrefix (TrimSpace ref) ''/''"
  define ms where "ms = (if length name \<ge> 3 then filter (\<lambda>c. HasPrefix (c_ID c) name) (List (sv_registry st)) else [])"
  have "Get (se_ctx env w) name (sv_registry st) = Inr c \<or> GetByName name (sv_registry st) = Inr c \<or> ms = [c]"
    using assms(1) unfolding resolveContainer_def name_def [symmetric] Let_def
    by (auto simp: ms_def split: if_splits sum.splits list.splits)
  moreover have "get (byID (sv_registry st)) (c_ID c) = Some c" if "Get (se_ctx env w) name (sv_registry st) = Inr c"
    using that registry_okD(3) [OF assms(2)] by (auto simp: Get_def split: option.splits)
  moreover have "c \<in> set (List (sv_registry st))" if "ms = [c]"
    using that unfolding ms_def by (metis list.set_intros(1) filter_is_subset subsetD empty_iff list.set(1))
  ultimately show ?thesis
    using GetByName_stored assms(2) List_stored by blast
qed

section \<open>Creating\<close>

lemma reservationsFor_filled:
  assumes "length bs = length allocs"
  shows "reservationsFor (map2 filled_binding bs allocs) = allocs"
  using assms
  by (induction bs allocs rule: list_induct2) (simp_all add: reservationsFor_def filled_binding_def)

text \<open>The state after the network lookup: only the default network may have been created.\<close>

lemma EnsureDefaultNetwork_ok:
  assumes "lists_conf (ce_confFiles env)" and "adapter_ok b cfg cni"
    and "EnsureDefaultNetwork env cfg ctx cni = (cni', r)"
  shows "adapter_ok b cfg cni' \<and> st_alloc cni' = st_alloc cni \<and> st_attachments cni' = st_attachments cni"
proof (cases "cni' = cni")
  case False
  then have "CreateNetwork env cfg ctx (bridge_request DefaultNetworkName) cni = (cni', r)"
    using assms(3) by (auto simp: EnsureDefaultNetwork_def split: sum.splits if_splits)
  from CreateNetwork_networks_ok [OF assms(1) _ _ this, of b] assms(2) show ?thesis
    by (simp add: adapter_ok_def bridge_request_def)
qed (use assms(2) in simp)

lemma resolveCreateNetwork_effect:
  assumes "lists_conf (ce_confFiles (se_cni env))" and "service_ok env st"
    and "resolveCreateNetwork env mode (st, w) = (st', r)"
  shows "service_ok env st' \<and> (\<exists>cni'. st' = st\<lparr>sv_cni := cni'\<rparr> \<and> st_alloc cni' = st_alloc (sv_cni st)
    \<and> st_attachments cni' = st_attachments (sv_cni st))"
proof (cases "st' = st")
  case True
  then show ?thesis using assms(2) by (intro conjI exI [of _ "sv_cni st"]) simp_all
next
  case False
  obtain cni1 r1 where e: "EnsureDefaultNetwork (se_cni env) (se_cfg env) (se_ctx env w) (sv_cni st) = (cni1, r1)"
    by (cases "EnsureDefaultNetwork (se_cni env) (se_cfg env) (se_ctx env w) (sv_cni st)")
  have "st' = st\<lparr>sv_cni := cni1\<rparr>"
    using assms(3) False e unfolding resolveCreateNetwork_def Let_def
    by (auto split: sum.splits if_splits)
  then show ?thesis
    using EnsureDefaultNetwork_ok [OF assms(1) service_okD(2) [OF assms(2)] e] assms(2)
    by (auto simp: service_ok_def)
qed

lemma prepareCreateBindings_effect:
  assumes "service_ok env st" and "prepareCreateBindings env bs mode (st, w) = ((st', w'), r)"
  shows "case r of Inl e \<Rightarrow> st' = st
    | Inr filled \<Rightarrow> \<exists>allocs a'. st' = st\<lparr>sv_cni := (sv_cni st)\<lparr>st_alloc := a'\<rparr>\<rparr> \<and> extends (st_alloc (sv_cni st)) allocs a'
        \<and> length allocs = length bs \<and> filled = map2 filled_binding bs allocs"
proof (cases "bs = [] \<or> mode \<noteq> ModeNetwork")
  case True
  have "\<exists>allocs a'. st = st\<lparr>sv_cni := (sv_cni st)\<lparr>st_alloc := a'\<rparr>\<rparr> \<and> extends (st_alloc (sv_cni st)) allocs a'
      \<and> allocs = []"
    using extends_refl [OF service_okD(3) [OF assms(1)]]
    by (intro exI [of _ "[]"] exI [of _ "st_alloc (sv_cni st)"]) simp
  then show ?thesis
    using assms(2) True by (auto simp: prepareCreateBindings_def split: if_splits)
next
  case False
  obtain a1 w1 r1 where a: "AllocateBindings (ce_probe (se_cni env)) bs (st_alloc (sv_cni st)) w = (a1, w1, r1)"
    by (cases "AllocateBindings (ce_probe (se_cni env)) bs (st_alloc (sv_cni st)) w") auto
  note eff = AllocateBindings_effect [OF service_okD(3) [OF assms(1)] a]
  show ?thesis
  proof (cases r1)
    case (Inl e)
    with eff a assms(2) False show ?thesis by (auto simp: prepareCreateBindings_def)
  next
    case (Inr x)
    obtain filled allocs where x: "x = (filled, allocs)" by (cases x)
    with eff Inr have "extends (st_alloc (sv_cni st)) allocs a1" "filled = map2 filled_binding bs allocs"
      "length allocs = length bs" by (auto dest: list_all2_lengthD)
    moreover from Inr x a assms(2) False have "r = Inr filled" "st' = st\<lparr>sv_cni := (sv_cni st)\<lparr>st_alloc := a1\<rparr>\<rparr>"
      by (auto simp: prepareCreateBindings_def)
    ultimately show ?thesis by auto
  qed
qed

text \<open>What a successful create leaves behind, as a predicate of the states before and after.\<close>

definition created_effect ::
  "'w service_env \<Rightarrow> container_create_request \<Rightarrow> service_state \<Rightarrow> service_state \<Rightarrow> container_id \<Rightarrow> container \<Rightarrow> bool" where
  "created_effect env req st st' i c \<longleftrightarrow>
     get (byID (sv_registry st')) = (get (byID (sv_registry st)))(i \<mapsto> c)
     \<and> c_ID c = i \<and> c_Name c = TrimPrefix (TrimSpace (cc_Name req)) ''/'' \<and> c_State c = ContainerStateCreated
     \<and> c_ImageReference c = cc_Image req
     \<and> length (c_PortBindings c) = length (cc_PortBindings req)
     \<and> list_all (\<lambda>b. pb_HostPort b \<noteq> 0) (c_PortBindings c)
     \<and> set (map key_of (reservationsFor (c_PortBindings c))) \<inter> set (al_used (st_alloc (sv_cni st))) = {}
     \<and> set (al_used (st_alloc (sv_cni st')))
         = set (map key_of (reservationsFor (c_PortBindings c))) \<union> set (al_used (st_alloc (sv_cni st)))
     \<and> Release (reservationsFor (c_PortBindings c)) (st_alloc (sv_cni st')) = st_alloc (sv_cni st)"

lemma provision_effect:
  assumes "service_ok env st" and "service_ok env st0" and "sv_registry st = sv_registry st0"
    and "st_alloc (sv_cni st) = a'" and "extends (st_alloc (sv_cni st0)) allocs a'"
    and "length allocs = length bs" and "filled = map2 filled_binding bs allocs"
    and "bs = cc_PortBindings req" and "name = TrimPrefix (TrimSpace (cc_Name req)) ''/''" and "cc_Image req \<noteq> []"
    and "provision env name req d mode n filled (st, w) = ((st', w'), r)"
  shows "service_ok env st' \<and> st_files (sv_cni st') = st_files (sv_cni st)
    \<and> st_attachments (sv_cni st') = st_attachments (sv_cni st) \<and>
    (case r of Inl e \<Rightarrow> sv_registry st' = sv_registry st0 \<and> st_alloc (sv_cni st') = st_alloc (sv_cni st0)
    | Inr i \<Rightarrow> \<exists>c. created_effect env req st0 st' i c)"
proof -
  have res: "reservationsFor filled = allocs" using assms(6,7) by (simp add: reservationsFor_filled)
  have rel: "Release (reservationsFor filled) a' = st_alloc (sv_cni st0)"
    using extends_Release [OF assms(5)] by (simp add: res)
  obtain w1 r1 where c1: "se_CreateContainer env (create_spec env name req d) w = (w1, r1)"
    by (cases "se_CreateContainer env (create_spec env name req d) w")
  obtain w2 t where t: "se_now env w1 = (w2, t)" by (cases "se_now env w1")
  show ?thesis
  proof (cases r1)
    case (Inl e)
    then show ?thesis
      using assms(1,3,4,11) c1 rel releaseBindings_ok [OF assms(1)] by (auto simp: provision_def)
  next
    case (Inr i)
    define c where "c = created_container env i name req d t filled (networkAttachment mode n)"
    show ?thesis
    proof (cases "Save (se_ctx env w2) c (sv_registry st)")
      case (Inl e)
      then show ?thesis
        using assms(1,3,4,11) c1 t Inr rel releaseBindings_ok [OF assms(1)] by (auto simp: provision_def c_def)
    next
      case (Inr reg)
      have st': "st' = st\<lparr>sv_registry := reg\<rparr>" "r = Inr i"
        using assms(11) c1 t \<open>r1 = Inr i\<close> Inr by (auto simp: provision_def c_def)
      have fill: "fill_image c = c" using assms(10) by (simp add: fill_image_def c_def created_container_def Let_def)
      have "list_all (\<lambda>b. pb_HostPort b \<noteq> 0) filled"
      proof -
        have "\<forall>al\<in>set allocs. normal_key (key_of al)" using assms(5) unfolding extends_def by blast
        then show ?thesis
          unfolding assms(7) list_all_iff
          by (auto simp: filled_binding_def normal_key_def key_of_def dest!: set_zip_rightD)
      qed
      moreover have "set (map key_of allocs) \<inter> set (al_used (st_alloc (sv_cni st0))) = {}"
        "set (al_used a') = set (map key_of allocs) \<union> set (al_used (st_alloc (sv_cni st0)))"
        using extends_reserved [OF assms(5)] by auto
      ultimately have "created_effect env req st0 st' i c"
        using Save_effect(1) [OF service_okD(1) [OF assms(1)] Inr] fill rel res assms(3,4,6-9) st'
        unfolding created_effect_def by (auto simp: c_def created_container_def)
      then show ?thesis
        using st' Save_service_ok [OF assms(1) Inr] by auto
    qed
  qed
qed

lemma validateContainerCreate_image: "validateContainerCreate name img r = None \<Longrightarrow> img \<noteq> []"
  by (auto simp: validateContainerCreate_def split: if_splits)

lemma ContainerCreate_effect:
  assumes "lists_conf (ce_confFiles (se_cni env))" and "service_ok env st"
    and "ContainerCreate env req (st, w) = ((st', w'), r)"
  shows "service_ok env st' \<and> st_attachments (sv_cni st') = st_attachments (sv_cni st) \<and>
    (case r of Inl e \<Rightarrow> sv_registry st' = sv_registry st \<and> st_alloc (sv_cni st') = st_alloc (sv_cni st)
    | Inr i \<Rightarrow> \<exists>c. created_effect env req st st' i c)"
proof (cases "validateContainerCreate (TrimPrefix (TrimSpace (cc_Name req)) ''/'') (cc_Image req) (sv_registry st)")
  case (Some e)
  with assms(2,3) show ?thesis by (auto simp: ContainerCreate_def)
next
  case None
  note valid = this
  obtain w1 r1 where insp: "inspectCreateImage env (cc_Image req) w = (w1, r1)"
    by (cases "inspectCreateImage env (cc_Image req) w")
  show ?thesis
  proof (cases r1)
    case (Inl e)
    with valid insp assms(2,3) show ?thesis by (auto simp: ContainerCreate_def)
  next
    case (Inr d)
    note d = this
    obtain st1 r2 where net: "resolveCreateNetwork env (cc_NetworkMode req) (st, w1) = (st1, r2)"
      by (cases "resolveCreateNetwork env (cc_NetworkMode req) (st, w1)")
    from resolveCreateNetwork_effect [OF assms(1,2) net] obtain cni1 where
      st1: "service_ok env st1" "st1 = st\<lparr>sv_cni := cni1\<rparr>" "st_alloc cni1 = st_alloc (sv_cni st)"
      "st_attachments cni1 = st_attachments (sv_cni st)" by auto
    show ?thesis
    proof (cases r2)
      case (Inl e)
      with valid insp d net st1 assms(3) show ?thesis by (auto simp: ContainerCreate_def)
    next
      case (Inr mn)
      obtain mode n where mn: "mn = (mode, n)" by (cases mn)
      obtain st2 w2 r3 where prep: "prepareCreateBindings env (cc_PortBindings req) mode (st1, w1) = ((st2, w2), r3)"
        by (metis prod_cases3 surj_pair)
      note eff = prepareCreateBindings_effect [OF st1(1) prep]
      show ?thesis
      proof (cases r3)
        case (Inl e)
        with eff prep valid insp d net Inr mn st1 assms(3) show ?thesis by (auto simp: ContainerCreate_def)
      next
        case (Inr filled)
        with eff obtain allocs a' where st2: "st2 = st1\<lparr>sv_cni := (sv_cni st1)\<lparr>st_alloc := a'\<rparr>\<rparr>"
          "extends (st_alloc (sv_cni st1)) allocs a'" "length allocs = length (cc_PortBindings req)"
          "filled = map2 filled_binding (cc_PortBindings req) allocs" by auto
        have "service_ok env st2"
          using st1(1) st2(1) extends_allocator_ok [OF st2(2)] by (simp add: service_ok_def adapter_ok_alloc)
        moreover have "provision env (TrimPrefix (TrimSpace (cc_Name req)) ''/'') req d mode n filled (st2, w2) = ((st', w'), r)"
          using assms(3) valid insp d net \<open>r2 = Inr mn\<close> mn prep Inr by (simp add: ContainerCreate_def)
        moreover have "extends (st_alloc (sv_cni st)) allocs a'" using st2(2) st1(2,3) by simp
        ultimately show ?thesis
          using provision_effect [of env st2 st a' allocs "cc_PortBindings req" filled req] assms(2) st1 st2
            validateContainerCreate_image [OF valid] by auto
      qed
    qed
  qed
qed

text \<open>
  C2: creating a container is all or nothing. When any step fails (an invalid or taken name, a
  missing image or network, a port that cannot be bound, the runtime, or persisting the identity
  because the deadline passed) the registry and the port reservations are as before. Otherwise the
  registry has exactly one container more, in state created and under its name, and each
  requested port got its own concrete host port that nobody held; releasing these restores the
  reservations.
\<close>

theorem create_all_or_nothing:
  assumes "lists_conf (ce_confFiles (se_cni env))" and "service_ok env st"
    and "ContainerCreate env req (st, w) = ((st', w'), r)"
  shows "service_ok env st' \<and>
    (case r of Inl e \<Rightarrow> sv_registry st' = sv_registry st \<and> st_alloc (sv_cni st') = st_alloc (sv_cni st)
    | Inr i \<Rightarrow> (\<exists>c. created_effect env req st st' i c
        \<and> (c_Name c = [] \<or> GetByName (c_Name c) (sv_registry st') = Inr c)))"
proof -
  note eff = ContainerCreate_effect [OF assms]
  have "c_Name c = [] \<or> GetByName (c_Name c) (sv_registry st') = Inr c"
    if "created_effect env req st st' i c" for i c
  proof -
    have "get (byID (sv_registry st')) i = Some c" "c_ID c = i" using that by (auto simp: created_effect_def)
    moreover have "name_index (get (byID (sv_registry st'))) (get (byName (sv_registry st')))"
      using eff service_okD(1) registry_okD(5) by blast
    ultimately have "c_Name c \<noteq> [] \<Longrightarrow> get (byName (sv_registry st')) (c_Name c) = Some i"
      by (simp add: name_indexD)
    then show ?thesis
      using \<open>get (byID (sv_registry st')) i = Some c\<close>
      by (cases "c_Name c = []") (simp_all add: GetByName_def get_or_def)
  qed
  with eff show ?thesis by (cases r) auto
qed

section \<open>Steps that leave the registry alone\<close>

definition quiet :: "'w service_env \<Rightarrow> service_state \<Rightarrow> service_state \<Rightarrow> bool" where
  "quiet env st st' \<longleftrightarrow> sv_registry st' = sv_registry st \<and> sv_execs st' = sv_execs st
     \<and> (service_ok env st \<longrightarrow> service_ok env st')"

lemma quiet_refl [simp]: "quiet env st st"
  by (simp add: quiet_def)

lemma quiet_trans: "quiet env a b \<Longrightarrow> quiet env b c \<Longrightarrow> quiet env a c"
  by (simp add: quiet_def)

lemma quiet_simps [simp]:
  "quiet env st (closeLogSink i st)" "quiet env st (releaseBindings bs st)"
  by (simp_all add: quiet_def releaseBindings_ok)

lemma quiet_close: "quiet env a b \<Longrightarrow> quiet env a (closeLogSink i b)"
  by (simp add: quiet_def)

lemma quiet_release: "quiet env a b \<Longrightarrow> quiet env a (releaseBindings bs b)"
  by (simp add: quiet_def releaseBindings_ok)

lemma refresh_effect:
  assumes "refresh env c (st, w) = ((st', w'), u, changed)"
  shows "(st' = st \<or> st' = closeLogSink (c_ID c) st) \<and> c_ID u = c_ID c \<and> c_Name u = c_Name c
    \<and> c_PortBindings u = c_PortBindings c \<and> c_Networks u = c_Networks c"
  using assms unfolding refresh_def apply_exit_def Let_def
  by (auto split: prod.splits sum.splits if_splits)

lemma startContainerTask_effect:
  assumes "startContainerTask env c (st, w) = ((st', w'), r)"
  shows "quiet env st st' \<and> sv_cni st' = sv_cni st
    \<and> (case r of None \<Rightarrow> c_ID c \<in> set (sv_logs st') | Some e \<Rightarrow> c_ID c \<notin> set (sv_logs st'))"
  using assms unfolding startContainerTask_def openLogSink_def quiet_def
  by (auto split: prod.splits option.splits if_splits)

lemma restorePortReservations_effect:
  assumes "restorePortReservations env c (st, w) = (st', w')"
  shows "quiet env st st' \<and> sv_logs st' = sv_logs st \<and> st_attachments (sv_cni st') = st_attachments (sv_cni st)
    \<and> (service_ok env st \<longrightarrow> set (al_used (st_alloc (sv_cni st))) \<subseteq> set (al_used (st_alloc (sv_cni st'))))"
proof (cases "c_PortBindings c = []")
  case True
  with assms show ?thesis by (simp add: restorePortReservations_def)
next
  case False
  obtain a1 w1 r1 where a: "AllocateBindings (ce_probe (se_cni env)) (c_PortBindings c) (st_alloc (sv_cni st)) w = (a1, w1, r1)"
    by (cases "AllocateBindings (ce_probe (se_cni env)) (c_PortBindings c) (st_alloc (sv_cni st)) w") auto
  then have st': "st' = st\<lparr>sv_cni := (sv_cni st)\<lparr>st_alloc := a1\<rparr>\<rparr>"
    using assms False by (simp add: restorePortReservations_def)
  have "allocator_ok a1 \<and> set (al_used (st_alloc (sv_cni st))) \<subseteq> set (al_used a1)" if "service_ok env st"
    using AllocateBindings_effect [OF service_okD(3) [OF that] a] service_okD(3) [OF that] extends_reserved
    by (auto split: sum.splits)
  then show ?thesis by (auto simp: st' quiet_def service_ok_def adapter_ok_def)
qed

lemma attachNetwork_effect:
  assumes "attachNetwork env c (st, w) = ((st', w'), r)" and "service_ok env st"
  shows "quiet env st st' \<and> sv_logs st' = sv_logs st"
proof (cases "attachableNetwork c")
  case None
  with assms show ?thesis by (simp add: attachNetwork_def)
next
  case (Some net)
  obtain w1 p where pid: "se_TaskPID env (c_ID c) w = (w1, p)" by (cases "se_TaskPID env (c_ID c) w")
  show ?thesis
  proof (cases p)
    case (Inl e)
    with assms Some pid show ?thesis by (simp add: attachNetwork_def)
  next
    case (Inr pid')
    obtain cni1 w2 r2 where con: "ConnectReserved (se_cni env) (se_cfg env) (se_ctx env w1)
        (connect_request_of (na_Name net) (c_ID c) pid' (c_PortBindings c) []) (sv_cni st) w1 = (cni1, w2, r2)"
      by (metis prod_cases3)
    have "frame_ok (sv_cni st) cni1"
      by (rule ConnectReserved_frame [OF con service_okD(3) [OF assms(2)]])
    then have ok: "service_ok env (st\<lparr>sv_cni := cni1\<rparr>)"
      using assms(2) frame_adapter_ok by (auto simp: service_ok_def)
    show ?thesis
    proof (cases r2)
      case (Inl e)
      then have "restorePortReservations env c (st\<lparr>sv_cni := cni1\<rparr>, w2) = (st', w')"
        using assms(1) Some pid Inr con by (simp add: attachNetwork_def)
      with restorePortReservations_effect [OF this] ok show ?thesis by (simp add: quiet_def)
    next
      case (Inr res)
      then show ?thesis
        using assms Some pid \<open>p = Inr pid'\<close> con ok by (auto simp: attachNetwork_def quiet_def)
    qed
  qed
qed

lemma joinContainerNetwork_effect:
  assumes "joinContainerNetwork env c (st, w) = ((st', w'), r)" and "service_ok env st"
  shows "quiet env st st' \<and> (case r of Inl e \<Rightarrow> c_ID c \<notin> set (sv_logs st') | Inr _ \<Rightarrow> sv_logs st' = sv_logs st)"
proof -
  obtain st1 w1 r1 where a: "attachNetwork env c (st, w) = ((st1, w1), r1)" by (metis prod_cases3 surj_pair)
  note eff = attachNetwork_effect [OF a assms(2)]
  show ?thesis
    using assms(1) a eff unfolding joinContainerNetwork_def
    by (auto split: sum.splits prod.splits if_splits intro: quiet_close quiet_release)
qed

section \<open>Preservation\<close>

lemma finalizeAlreadyExitedStart_ok:
  "service_ok env (fst s) \<Longrightarrow> service_ok env (fst (fst (finalizeAlreadyExitedStart env c s)))"
  by (cases s) (auto simp: finalizeAlreadyExitedStart_def intro!: svc_save_ok split: prod.split sum.split)

lemma markContainerRunning_ok:
  "service_ok env (fst s) \<Longrightarrow> service_ok env (fst (markContainerRunning env c att s))"
  by (cases s) (auto simp: markContainerRunning_def intro!: svc_save_ok split: prod.split)

lemma refresh_and_save_ok:
  assumes "service_ok env (fst s)"
  shows "service_ok env (fst (fst (refresh_and_save env c s)))"
proof -
  obtain st w where s: "s = (st, w)" by (cases s)
  obtain st1 w1 u ch where r: "refresh env c (st, w) = ((st1, w1), u, ch)" by (metis prod_cases3 surj_pair)
  have "service_ok env st1" using refresh_effect [OF r] assms s by auto
  then show ?thesis
    by (auto simp: refresh_and_save_def s r Let_def intro!: svc_save_ok split: prod.split)
qed

lemma list_loop_ok: "service_ok env (fst s) \<Longrightarrow> service_ok env (fst (fst (list_loop env all cs s)))"
proof (induction cs arbitrary: s)
  case (Cons c cs)
  obtain s1 u where r: "refresh_and_save env c s = (s1, u)" by (cases "refresh_and_save env c s")
  with refresh_and_save_ok [OF Cons.prems, of c] have "service_ok env (fst s1)" by simp
  with Cons.IH [of s1] r show ?case by (simp add: case_prod_beta)
qed simp

lemma ContainerInspect_ok:
  "service_ok env (fst s) \<Longrightarrow> service_ok env (fst (fst (ContainerInspect env ref s)))"
  using refresh_and_save_ok [of env s] by (simp add: ContainerInspect_def case_prod_beta split: sum.split)

lemma ContainerStart_ok:
  assumes "service_ok env st" and "ContainerStart env ref (st, w) = ((st', w'), r)"
  shows "service_ok env st'"
proof (cases "resolveContainer env ref (st, w)")
  case (Inl e)
  with assms show ?thesis by (simp add: ContainerStart_def)
next
  case (Inr c)
  obtain w1 b where run: "containerIsRunning env c w = (w1, b)" by (cases "containerIsRunning env c w")
  obtain st2 w2 r2 where task: "startContainerTask env c (st, w1) = ((st2, w2), r2)" by (metis prod_cases3 surj_pair)
  obtain st3 w3 r3 where join: "joinContainerNetwork env c (st2, w2) = ((st3, w3), r3)" by (metis prod_cases3 surj_pair)
  have ok2: "service_ok env st2" using startContainerTask_effect [OF task] assms(1) by (simp add: quiet_def)
  have ok3: "service_ok env st3" using joinContainerNetwork_effect [OF join ok2] ok2 by (simp add: quiet_def)
  obtain s4 b4 where fin: "finalizeAlreadyExitedStart env c (st3, w3) = (s4, b4)"
    by (cases "finalizeAlreadyExitedStart env c (st3, w3)")
  have ok4: "service_ok env (fst s4)" using finalizeAlreadyExitedStart_ok [of env "(st3, w3)" c] ok3 fin by simp
  have "service_ok env (fst (markContainerRunning env c att s4))" for att
    by (rule markContainerRunning_ok [OF ok4])
  then show ?thesis
    using assms Inr run task join fin ok2 ok3 ok4
    by (auto simp: ContainerStart_def split: bool.splits option.splits sum.splits) (metis fst_conv)+
qed

lemma ContainerStop_ok:
  assumes "service_ok env (fst s)"
  shows "service_ok env (fst (fst (ContainerStop env ref timeout s)))"
proof -
  obtain st w where s: "s = (st, w)" by (cases s)
  have "service_ok env st'" if "refresh env c (st, w1) = ((st', w'), u, ch)" for c w1 st' w' u ch
    using refresh_effect [OF that] assms s by auto
  then show ?thesis
    using assms by (auto simp: ContainerStop_def s Let_def intro!: svc_save_ok split: sum.split prod.split option.split)
qed

text \<open>Removal up to the registry: the attachments are torn down and the ports of a never started container freed.\<close>

lemma DisconnectAll_ok:
  assumes "DisconnectAll env cfg ctx c cni w = (cni', w', errs)" and "adapter_ok b cfg cni"
  shows "adapter_ok b cfg cni'"
proof -
  have "allocator_ok (st_alloc cni)" using assms(2) by (simp add: adapter_ok_def)
  then show ?thesis
    by (rule frame_adapter_ok [OF assms(2) disconnect_keys_frame [OF assms(1) [unfolded DisconnectAll_def]]])
qed

definition detached :: "container \<Rightarrow> service_state \<Rightarrow> cni_state \<Rightarrow> service_state" where
  "detached c st cni1 = (if c_State c = ContainerStateCreated
     then releaseBindings (c_PortBindings c) (st\<lparr>sv_cni := cni1\<rparr>) else st\<lparr>sv_cni := cni1\<rparr>)"

lemma detached_simps [simp]:
  "sv_registry (detached c st cni1) = sv_registry st" "sv_logs (detached c st cni1) = sv_logs st"
  "sv_execs (detached c st cni1) = sv_execs st"
  "st_attachments (sv_cni (detached c st cni1)) = st_attachments cni1"
  by (simp_all add: detached_def)

lemma detached_ok:
  "service_ok env st \<Longrightarrow> adapter_ok True (se_cfg env) cni1 \<Longrightarrow> service_ok env (detached c st cni1)"
proof -
  assume "service_ok env st" and "adapter_ok True (se_cfg env) cni1"
  then have "service_ok env (st\<lparr>sv_cni := cni1\<rparr>)" by (simp add: service_ok_def)
  then show ?thesis by (simp add: detached_def releaseBindings_ok)
qed

lemma ContainerRemove_effect:
  assumes "resolveContainer env ref (st, w) = Inr c"
    and "ContainerRemove env ref force (st, w) = ((st', w'), r)"
  obtains (refused) "st' = st" "r \<noteq> None"
  | (failed) cni1 ctx w2 w3 errs where
      "DisconnectAll (se_cni env) (se_cfg env) ctx (c_ID c) (sv_cni st) w2 = (cni1, w3, errs)"
      "st' = detached c st cni1" "r \<noteq> None"
  | (removed) cni1 ctx w2 w3 w4 errs reg where
      "DisconnectAll (se_cni env) (se_cfg env) ctx (c_ID c) (sv_cni st) w2 = (cni1, w3, errs)"
      "Remove (se_ctx env w4) (c_ID c) (sv_registry st) = Inr reg"
      "st' = closeLogSink (c_ID c) ((detached c st cni1)\<lparr>sv_registry := reg\<rparr>)" "r = None"
  | (absent) cni1 ctx w2 w3 w4 errs e where
      "DisconnectAll (se_cni env) (se_cfg env) ctx (c_ID c) (sv_cni st) w2 = (cni1, w3, errs)"
      "Remove (se_ctx env w4) (c_ID c) (sv_registry st) = Inl e" "errors_is e (Dom ErrContainerNotFound)"
      "st' = closeLogSink (c_ID c) (detached c st cni1)" "r = None"
proof -
  obtain w1 r1 where status: "se_Status env (c_ID c) w = (w1, r1)" by (cases "se_Status env (c_ID c) w")
  show ?thesis
  proof (cases r1)
    case (Inl e)
    with assms status refused show ?thesis by (auto simp: ContainerRemove_def)
  next
    case (Inr state0)
    define forced where "forced = (force \<and> state0 \<noteq> ContainerStateExited)"
    define w2 where "w2 = (if forced then fst (se_Stop env (c_ID c) 0 w1) else w1)"
    define state where "state = (if forced then ContainerStateExited else state0)"
    obtain cni1 w3 errs where d: "DisconnectAll (se_cni env) (se_cfg env) (se_ctx env w2) (c_ID c) (sv_cni st) w2 = (cni1, w3, errs)"
      by (metis prod_cases3)
    obtain w4 r4 where rm: "se_Remove env (c_ID c) w3 = (w4, r4)" by (cases "se_Remove env (c_ID c) w3")
    show ?thesis
    proof (cases "state = ContainerStateRunning \<or> state = ContainerStatePaused \<or> state = ContainerStateRestarting")
      case True
      then have "st' = st \<and> r \<noteq> None"
        using assms status Inr unfolding ContainerRemove_def Let_def
        by (simp add: forced_def [symmetric] w2_def [symmetric] state_def [symmetric]) auto
      then show ?thesis using refused by simp
    next
      case False
      then have eq: "(case r4 of
          Some e \<Rightarrow> ((detached c st cni1, w4), Some (translateError e))
        | None \<Rightarrow> (case Remove (se_ctx env w4) (c_ID c) (sv_registry st) of
            Inr reg \<Rightarrow> (discardLogs env (c_ID c) ((detached c st cni1)\<lparr>sv_registry := reg\<rparr>, w4), None)
          | Inl e \<Rightarrow> if errors_is e (Dom ErrContainerNotFound)
              then (discardLogs env (c_ID c) (detached c st cni1, w4), None)
              else ((detached c st cni1, w4), Some (translateError e)))) = ((st', w'), r)"
        using assms status Inr d rm
        unfolding ContainerRemove_def Let_def detached_def [symmetric]
        by (simp add: forced_def [symmetric] w2_def [symmetric] state_def [symmetric])
      show ?thesis
      proof (cases r4)
        case (Some e)
        with eq failed [OF d] show ?thesis by auto
      next
        case None
        show ?thesis
        proof (cases "Remove (se_ctx env w4) (c_ID c) (sv_registry st)")
          case (Inr reg)
          with eq None removed [OF d Inr] show ?thesis by (auto simp: discardLogs_def)
        next
          case (Inl e)
          with eq None failed [OF d] absent [OF d Inl] show ?thesis
            by (auto simp: discardLogs_def split: if_splits)
        qed
      qed
    qed
  qed
qed

lemma ContainerRemove_ok:
  assumes "service_ok env st" and "ContainerRemove env ref force (st, w) = ((st', w'), r)"
  shows "service_ok env st'"
proof (cases "resolveContainer env ref (st, w)")
  case (Inl e)
  with assms show ?thesis by (simp add: ContainerRemove_def)
next
  case (Inr c)
  have ok: "service_ok env (detached c st cni1)"
    if "DisconnectAll (se_cni env) (se_cfg env) ctx (c_ID c) (sv_cni st) w2 = (cni1, w3, errs)" for cni1 ctx w2 w3 errs
    using detached_ok [OF assms(1) DisconnectAll_ok [OF that service_okD(2) [OF assms(1)]]] .
  from Inr assms(2) show ?thesis
  proof (cases rule: ContainerRemove_effect)
    case (removed cni1 ctx w2 w3 w4 errs reg)
    have "service_ok env ((detached c st cni1)\<lparr>sv_registry := reg\<rparr>)"
      using ok [OF removed(1)] Remove_ok [OF service_okD(1) [OF assms(1)] removed(2)] by (simp add: service_ok_def)
    with removed(3) show ?thesis by simp
  qed (use assms(1) ok in auto)
qed

section \<open>Histories\<close>

datatype container_op =
    CoCreate container_create_request
  | CoList bool
  | CoInspect string
  | CoStart string
  | CoStop string "int option"
  | CoRemove string bool

fun container_step :: "'w service_env \<Rightarrow> container_op \<Rightarrow> 'w svc \<Rightarrow> 'w svc" where
  "container_step env (CoCreate req) s = fst (ContainerCreate env req s)"
| "container_step env (CoList all) s = fst (ContainerList env all s)"
| "container_step env (CoInspect ref) s = fst (ContainerInspect env ref s)"
| "container_step env (CoStart ref) s = fst (ContainerStart env ref s)"
| "container_step env (CoStop ref t) s = fst (ContainerStop env ref t s)"
| "container_step env (CoRemove ref force) s = fst (ContainerRemove env ref force s)"

lemma container_step_ok:
  assumes "lists_conf (ce_confFiles (se_cni env))" and "service_ok env (fst s)"
  shows "service_ok env (fst (container_step env op s))"
proof (cases op)
  case (CoCreate req)
  obtain st w where s: "s = (st, w)" by (cases s)
  obtain st' w' r where c: "ContainerCreate env req (st, w) = ((st', w'), r)" by (metis prod_cases3 surj_pair)
  with ContainerCreate_effect [OF assms(1) _ c] assms(2) s CoCreate show ?thesis by simp
next
  case (CoStart ref)
  obtain st w where s: "s = (st, w)" by (cases s)
  obtain st' w' r where c: "ContainerStart env ref (st, w) = ((st', w'), r)" by (metis prod_cases3 surj_pair)
  with ContainerStart_ok [OF _ c] assms(2) s CoStart show ?thesis by simp
next
  case (CoRemove ref force)
  obtain st w where s: "s = (st, w)" by (cases s)
  obtain st' w' r where c: "ContainerRemove env ref force (st, w) = ((st', w'), r)" by (metis prod_cases3 surj_pair)
  with ContainerRemove_ok [OF _ c] assms(2) s CoRemove show ?thesis by simp
qed (use assms(2) in \<open>simp_all add: ContainerList_def list_loop_ok ContainerInspect_ok ContainerStop_ok\<close>)

section \<open>A concrete service\<close>

text \<open>A runtime that answers every call; the world counts the containers it has created.\<close>

definition sample_image :: image_detail where
  "sample_image = \<lparr>id_ID = ''sha256:feed'', id_RepoTags = [''redis:7''], id_RepoDigests = [], id_Platform = [], id_Size = 0,
     id_Created = zero_time, id_Labels = [], id_Config = None\<rparr>"

definition sample_service_env :: "string \<Rightarrow> nat service_env" where
  "sample_service_env state = \<lparr>se_ctx = (\<lambda>w. Live), se_CreateContainer = (\<lambda>sp w. (Suc w, Inr (''c'' @ dec_digits w))),
     se_StartWithIO = (\<lambda>i w. (w, None)), se_Stop = (\<lambda>i t w. (w, None)), se_Remove = (\<lambda>i w. (w, None)),
     se_Status = (\<lambda>i w. (w, Inr state)), se_Wait = (\<lambda>i w. (w, Inr \<lparr>pe_ExitCode = 3, pe_ExitedAt = zero_time\<rparr>)),
     se_Exec = (\<lambda>i q w. (w, Inl (NewErr ''no exec''))), se_ExecRecord = (\<lambda>i w. None),
     se_ImageInspect = (\<lambda>r w. (w, Inr sample_image)), se_ImageList = (\<lambda>w. (w, Inr [sample_image])),
     se_ImageRemove = (\<lambda>r w. (w, None)), se_ImageConfig = (\<lambda>r w. (w, Inl (NewErr ''no config''))),
     se_PullImage = (\<lambda>r a w. (w, Inr ''sha256:feed'')), se_BuildImage = (\<lambda>q w. (w, None)),
     se_TaskPID = (\<lambda>i w. (w, Inr 42)), se_openLog = (\<lambda>i w. (w, None)), se_removeLog = (\<lambda>i w. w),
     se_now = (\<lambda>w. (w, zero_time)), se_newID = (\<lambda>w. (w, Inr ''e1'')), se_NormalizeReference = (\<lambda>r. Inr r),
     se_encodeCommand = (\<lambda>c. ''[]''), se_encodeMounts = (\<lambda>m. ''[]''), se_cni = sample_cni_env, se_cfg = sample_cfg,
     se_stopTimeout = 10, se_namespace = ''moby'', se_snapshotter = [], se_containerdSocket = [], se_buildkitSocket = []\<rparr>"

definition sample_service :: service_state where
  "sample_service = \<lparr>sv_registry = NewRegistry, sv_cni = empty_cni_state, sv_execs = [], sv_logs = []\<rparr>"

definition sample_request :: container_create_request where
  "sample_request = \<lparr>cc_Name = ''/web'', cc_Image = ''redis:7'', cc_Command = [], cc_Entrypoint = [], cc_Env = [],
     cc_WorkingDir = [], cc_User = [], cc_Hostname = [], cc_Labels = [], cc_TTY = False, cc_OpenStdin = False,
     cc_NetworkMode = ''host'', cc_PortBindings = [], cc_Mounts = []\<rparr>"

definition sample_after_create :: service_state where
  "sample_after_create = fst (fst (ContainerCreate (sample_service_env []) sample_request (sample_service, 7)))"

lemma sample_ContainerCreate:
  "ContainerCreate (sample_service_env []) sample_request (sample_service, 7) = ((sample_after_create, 8), Inr ''c7'')"
  by code_simp

lemma sample_service_ok: "service_ok env sample_service"
  by (simp add: service_ok_def sample_service_def NewRegistry_ok adapter_ok_def networks_ok_def daemon_dir_def
      disjoint_subnets_def file_subnets_def empty_cni_state_def NewPortAllocator_ok)

lemma sample_env_simps [simp]:
  "se_cni (sample_service_env x) = sample_cni_env" "se_cfg (sample_service_env x) = sample_cfg"
  "se_ctx (sample_service_env x) w = Live" "se_Status (sample_service_env x) i w = (w, Inr x)"
  by (simp_all add: sample_service_env_def)

theorem create_all_or_nothing_witness:
  "\<exists>c. get (byID (sv_registry sample_after_create)) ''c7'' = Some c \<and> c_Name c = ''web''
     \<and> c_State c = ContainerStateCreated"
proof -
  have "TrimPrefix (TrimSpace ''/web'') ''/'' = ''web''" by code_simp
  then show ?thesis
    using create_all_or_nothing [OF _ sample_service_ok sample_ContainerCreate] sample_lists_conf
    by (auto simp: created_effect_def sample_request_def)
qed

end
