(* ===== verification/App_Effects.thy ===== *)
theory App_Effects
  imports App_Lifecycle
begin

text \<open>
  What a client can rely on after each request on a container: how a reference selects a container,
  and the exact change of start, stop and remove. The requests are not cut off by their deadline
  here (\<open>live\<close>); \<open>App_Lifecycle\<close> shows that the state stays consistent when they are.
\<close>

definition live :: "'w service_env \<Rightarrow> bool" where
  "live env \<longleftrightarrow> (\<forall>w. se_ctx env w = Live)"

lemma liveD [simp]: "live env \<Longrightarrow> se_ctx env w = Live"
  by (simp add: live_def)

text \<open>The registry of the second state differs from the first at most at one container.\<close>

definition replaced :: "service_state \<Rightarrow> service_state \<Rightarrow> container \<Rightarrow> container \<Rightarrow> bool" where
  "replaced st st' c c' \<longleftrightarrow> get (byID (sv_registry st')) = (get (byID (sv_registry st)))(c_ID c \<mapsto> c')
     \<and> c_ID c' = c_ID c \<and> c_Name c' = c_Name c"

lemma svc_save_replaced:
  assumes "live env" and "registry_ok (sv_registry st)" and "get (byID (sv_registry st)) (c_ID c) = Some c"
    and "sv_registry st1 = sv_registry st" and "c_ID d = c_ID c" and "c_Name d = c_Name c"
  shows "\<exists>t. replaced st (fst (svc_save env d (st1, w))) c (fill_image (d\<lparr>c_UpdatedAt := t\<rparr>))"
  using svc_save_live [of "(st1, w)" env d c] assms by (auto simp: replaced_def)

lemma apply_exit_same [simp]:
  "c_ID (apply_exit x b c) = c_ID c" "c_Name (apply_exit x b c) = c_Name c" "c_State (apply_exit x b c) = c_State c"
  by (simp_all add: apply_exit_def Let_def split: sum.split)

lemma running_container_same [simp]:
  "c_ID (running_container c a t) = c_ID c" "c_Name (running_container c a t) = c_Name c"
  "c_State (running_container c a t) = ContainerStateRunning" "c_ExitCode (running_container c a t) = 0"
  "c_FinishedAt (running_container c a t) = zero_time"
  by (simp_all add: running_container_def Let_def split: option.split)

section \<open>References\<close>

lemma WriteServiceError_docker:
  "fst (WriteServiceError (Some (notFoundError m))) = 404" "fst (WriteServiceError (Some (invalidError m))) = 400"
  "fst (WriteServiceError (Some (conflictError m))) = 409"
  by (simp_all add: WriteServiceError_def WriteDockerError_def mapServiceError_def notFoundError_def invalidError_def
      conflictError_def Let_def docker_error_StatusCode_def api_error_defs)

lemma GetByName_found_iff:
  assumes "registry_ok r"
  shows "GetByName name r = Inr c \<longleftrightarrow> name \<noteq> [] \<and> c \<in> set (List r) \<and> c_Name c = name"
    and "(\<exists>e. GetByName name r = Inl e) \<longleftrightarrow> name = [] \<or> name \<notin> set (map c_Name (List r))"
proof -
  have found: "GetByName name r = Inr c \<longleftrightarrow> name \<noteq> [] \<and> c \<in> set (List r) \<and> c_Name c = name" for c
  proof
    assume l: "GetByName name r = Inr c"
    then have "name \<noteq> []"
      using name_indexD [OF registry_okD(5) [OF assms]] by (auto simp: GetByName_def split: option.splits)
    with GetByName_stored [OF l assms] List_stored [OF assms]
    show "name \<noteq> [] \<and> c \<in> set (List r) \<and> c_Name c = name" by simp
  next
    assume r: "name \<noteq> [] \<and> c \<in> set (List r) \<and> c_Name c = name"
    then have c: "get (byID r) (c_ID c) = Some c" using List_stored [OF assms] by simp
    with r have "get (byName r) name = Some (c_ID c)"
      using name_indexD [OF registry_okD(5) [OF assms], of name "c_ID c"] by blast
    with c show "GetByName name r = Inr c" by (simp add: GetByName_def get_or_def)
  qed
  then show "GetByName name r = Inr c \<longleftrightarrow> name \<noteq> [] \<and> c \<in> set (List r) \<and> c_Name c = name" .
  have "(\<exists>e. GetByName name r = Inl e) \<longleftrightarrow> \<not> (\<exists>c. GetByName name r = Inr c)"
    by (cases "GetByName name r") auto
  then show "(\<exists>e. GetByName name r = Inl e) \<longleftrightarrow> name = [] \<or> name \<notin> set (map c_Name (List r))"
    unfolding found by auto
qed

text \<open>
  A reference to a container is resolved the way Docker does it: an exact ID wins over a name,
  a name over an abbreviated ID of at least three characters, and an abbreviation must be
  unambiguous. Otherwise the client gets status 404 when nothing hits and 400 when several
  containers do or the reference is empty.
\<close>

theorem container_reference_resolution:
  assumes "registry_ok (sv_registry st)" and "se_ctx env w = Live"
    and "name = TrimPrefix (TrimSpace ref) ''/''"
    and "cs = List (sv_registry st)" and "hits = filter (\<lambda>c. HasPrefix (c_ID c) name) cs"
  shows "case resolveContainer env ref (st, w) of
      Inr c \<Rightarrow> c \<in> set cs \<and> (c_ID c = name \<or> name \<notin> set (map c_ID cs) \<and>
        (c_Name c = name \<or> name \<notin> set (map c_Name cs) \<and> 3 \<le> length name \<and> hits = [c]))
    | Inl e \<Rightarrow> (name = [] \<or> name \<notin> set (map c_ID cs) \<and> name \<notin> set (map c_Name cs))
        \<and> fst (WriteServiceError (Some e)) = (if name = [] \<or> 3 \<le> length name \<and> 1 < length hits then 400 else 404)
        \<and> (fst (WriteServiceError (Some e)) = 404 \<longrightarrow> length name < 3 \<or> hits = [])"
proof (cases "name = []")
  case True
  then show ?thesis
    using assms(3) by (simp add: resolveContainer_def Let_def WriteServiceError_docker)
next
  case False
  note ok = assms(1)
  have stored: "get (byID (sv_registry st)) (c_ID c) = Some c \<longleftrightarrow> c \<in> set cs" for c
    using List_stored [OF ok] assms(4) by simp
  show ?thesis
  proof (cases "get (byID (sv_registry st)) name")
    case (Some c)
    then have "resolveContainer env ref (st, w) = Inr c" "c_ID c = name"
      using False assms(2,3) registry_okD(3) [OF ok] by (simp_all add: resolveContainer_def Get_def Let_def)
    with Some stored [of c] show ?thesis by simp
  next
    case None
    then have "name \<notin> set (map c_ID cs)" by (auto simp: stored [symmetric])
    moreover have eq: "resolveContainer env ref (st, w) = (case GetByName name (sv_registry st) of
          Inr c \<Rightarrow> Inr c
        | Inl _ \<Rightarrow> (case (if length name \<ge> 3 then hits else []) of
               [] \<Rightarrow> Inl (notFoundError (''No such container: '' @ name))
             | [c] \<Rightarrow> Inr c
             | _ \<Rightarrow> Inl (invalidError (''multiple containers match prefix '' @ name))))"
      using False None unfolding assms(4,5)
      by (simp add: resolveContainer_def Get_def Let_def assms(2) assms(3) [symmetric])
    moreover have "c \<in> set cs" if "hits = [c]" for c
      using that assms(5) by (metis filter_is_subset list.set_intros(1) subsetD)
    ultimately show ?thesis
      using False GetByName_found_iff [OF ok, of name] assms(4)
      by (cases "GetByName name (sv_registry st)")
        (auto simp: WriteServiceError_docker split: list.split)
  qed
qed

section \<open>Starting\<close>

lemma finalizeAlreadyExitedStart_cases:
  assumes "finalizeAlreadyExitedStart env c (st, w) = ((st', w'), b)"
  obtains (running) "\<not> b" "st' = st"
  | (exited) state x w1 where "b" "state \<noteq> ContainerStateRunning" "state \<noteq> ContainerStateCreated"
      "st' = fst (svc_save env (apply_exit x False (c\<lparr>c_State := state\<rparr>)) (closeLogSink (c_ID c) st, w1))"
  using assms unfolding finalizeAlreadyExitedStart_def
  by (auto split: prod.splits sum.splits if_splits) (metis fst_conv)

definition started_as :: "service_state \<Rightarrow> container \<Rightarrow> bool" where
  "started_as st' c' \<longleftrightarrow>
     (c_State c' = ContainerStateRunning \<and> c_ExitCode c' = 0 \<and> IsZero (c_FinishedAt c') \<and> c_ID c' \<in> set (sv_logs st'))
   \<or> (c_State c' \<noteq> ContainerStateRunning \<and> c_State c' \<noteq> ContainerStateCreated \<and> c_ID c' \<notin> set (sv_logs st'))"

lemma start_outcome:
  assumes "live env" and "registry_ok (sv_registry st)" and "get (byID (sv_registry st)) (c_ID c) = Some c"
    and "sv_registry st3 = sv_registry st" and "c_ID c \<in> set (sv_logs st3)"
    and "finalizeAlreadyExitedStart env c (st3, w3) = ((st4, w4), b)"
    and "st' = (if b then st4 else fst (markContainerRunning env c att (st4, w4)))"
  shows "\<exists>c'. replaced st st' c c' \<and> started_as st' c'"
  using assms(6)
proof (cases rule: finalizeAlreadyExitedStart_cases)
  case running
  obtain w5 t where t: "se_now env w4 = (w5, t)" by (cases "se_now env w4")
  with running assms(7) have st': "st' = fst (svc_save env (running_container c att t) (st3, w5))"
    by (simp add: markContainerRunning_def)
  obtain u where "replaced st st' c (fill_image ((running_container c att t)\<lparr>c_UpdatedAt := u\<rparr>))"
    using svc_save_replaced [OF assms(1-4), of "running_container c att t" w5] st' by auto
  then show ?thesis using assms(5) st' by (auto simp: started_as_def)
next
  case (exited state x w1)
  let ?d = "apply_exit x False (c\<lparr>c_State := state\<rparr>)"
  obtain u where "replaced st st' c (fill_image (?d\<lparr>c_UpdatedAt := u\<rparr>))"
    using svc_save_replaced [OF assms(1-3), of "closeLogSink (c_ID c) st3" ?d w1] exited assms(4,7) by auto
  with exited assms(7) show ?thesis by (auto simp: started_as_def)
qed

text \<open>
  C13: starting a container either fails and then leaves the registry as it was, with the log of the
  container closed, or succeeds and then changes exactly this container: it is recorded as running
  with a fresh exit status and its log open, or, when the process has already ended, in the state the
  runtime reports with its log closed. Starting a running container changes nothing.
\<close>

theorem start_effect:
  assumes "service_ok env st" and "live env" and "resolveContainer env ref (st, w) = Inr c"
    and "ContainerStart env ref (st, w) = ((st', w'), r)"
  shows "case r of
      Some e \<Rightarrow> sv_registry st' = sv_registry st \<and> c_ID c \<notin> set (sv_logs st')
    | None \<Rightarrow> (if snd (containerIsRunning env c w) then st' = st
        else \<exists>c'. replaced st st' c c' \<and> started_as st' c')"
proof -
  note reg = service_okD(1) [OF assms(1)]
  note stored = resolveContainer_stored [OF assms(3) reg]
  obtain w1 b where run: "containerIsRunning env c w = (w1, b)" by (cases "containerIsRunning env c w")
  obtain st2 w2 r2 where task: "startContainerTask env c (st, w1) = ((st2, w2), r2)" by (metis prod_cases3 surj_pair)
  obtain st3 w3 r3 where join: "joinContainerNetwork env c (st2, w2) = ((st3, w3), r3)" by (metis prod_cases3 surj_pair)
  obtain st4 w4 b4 where fin: "finalizeAlreadyExitedStart env c (st3, w3) = ((st4, w4), b4)" by (metis prod_cases3 surj_pair)
  note eff2 = startContainerTask_effect [OF task]
  have ok2: "service_ok env st2" using eff2 assms(1) by (simp add: quiet_def)
  note eff3 = joinContainerNetwork_effect [OF join ok2]
  note unfolded = assms(3,4) run task join fin
  show ?thesis
  proof (cases b)
    case True
    with unfolded show ?thesis by (auto simp: ContainerStart_def)
  next
    case False
    show ?thesis
    proof (cases "r2 = None \<and> (\<exists>att. r3 = Inr att)")
      case True
      then obtain att where att: "r2 = None" "r3 = Inr att" by auto
      have "r = None \<and> st' = (if b4 then st4 else fst (markContainerRunning env c att (st4, w4)))"
        using unfolded False att by (cases b4) (auto simp: ContainerStart_def)
      moreover have "sv_registry st3 = sv_registry st" "c_ID c \<in> set (sv_logs st3)"
        using eff2 eff3 att by (auto simp: quiet_def)
      ultimately show ?thesis
        using start_outcome [OF assms(2) reg stored _ _ fin] False run by auto
    next
      case failed: False
      then show ?thesis
        using unfolded False eff2 eff3
        by (cases r2; cases r3) (auto simp: ContainerStart_def quiet_def)
    qed
  qed
qed

section \<open>Stopping\<close>

lemma ContainerStop_effect:
  assumes "service_ok env st" and "live env" and "resolveContainer env ref (st, w) = Inr c"
    and "ContainerStop env ref timeout (st, w) = ((st', w'), r)"
  shows "sv_cni st' = sv_cni st \<and> (case r of
      Some e \<Rightarrow> st' = st
    | None \<Rightarrow> (if c_State c = ContainerStateCreated then st' = st
        else c_ID c \<notin> set (sv_logs st') \<and> (\<exists>c'. replaced st st' c c' \<and> c_State c' = ContainerStateExited)))"
proof (cases "c_State c = ContainerStateCreated")
  case True
  with assms(3,4) show ?thesis by (auto simp: ContainerStop_def)
next
  case False
  note reg = service_okD(1) [OF assms(1)]
  note stored = resolveContainer_stored [OF assms(3) reg]
  define eff where "eff = (case timeout of Some t \<Rightarrow> if t \<ge> 0 then t else se_stopTimeout env | None \<Rightarrow> se_stopTimeout env)"
  obtain w1 r1 where stop: "se_Stop env (c_ID c) eff w = (w1, r1)" by (cases "se_Stop env (c_ID c) eff w")
  obtain st2 w2 u ch where ref: "refresh env c (st, w1) = ((st2, w2), u, ch)" by (metis prod_cases3 surj_pair)
  note quiet = refresh_effect [OF ref]
  let ?d = "(if ch then u else c)\<lparr>c_State := ContainerStateExited\<rparr>"
  have ids: "c_ID (if ch then u else c) = c_ID c" "c_Name (if ch then u else c) = c_Name c" using quiet by auto
  show ?thesis
  proof (cases r1)
    case (Some e)
    with assms(3,4) False stop show ?thesis by (auto simp: ContainerStop_def Let_def eff_def [symmetric])
  next
    case None
    then have "r = None" and st': "st' = fst (svc_save env ?d (closeLogSink (c_ID c) st2, w2))"
      using assms(3,4) False stop ref by (auto simp: ContainerStop_def Let_def eff_def [symmetric])
    moreover obtain t where "replaced st st' c (fill_image (?d\<lparr>c_UpdatedAt := t\<rparr>))"
      using svc_save_replaced [OF assms(2) reg stored, of "closeLogSink (c_ID c) st2" ?d w2] quiet ids st' by auto
    ultimately show ?thesis using False quiet by auto
  qed
qed

text \<open>
  Stopping a container either fails and changes nothing, or leaves a never started container
  alone, or records exactly this container as exited and closes its log; the networks and port
  reservations are not touched.
\<close>

theorem stop_effect:
  assumes "service_ok env st" and "live env" and "resolveContainer env ref (st, w) = Inr c"
    and "ContainerStop env ref timeout (st, w) = ((st', w'), r)"
  shows "sv_cni st' = sv_cni st \<and> (case r of
      Some e \<Rightarrow> st' = st
    | None \<Rightarrow> (if c_State c = ContainerStateCreated then st' = st
        else c_ID c \<notin> set (sv_logs st') \<and> (\<exists>c'. replaced st st' c c' \<and> c_State c' = ContainerStateExited)))"
  by (rule ContainerStop_effect [OF assms])

section \<open>Removing\<close>

lemma removed_released:
  assumes "c_State c = ContainerStateCreated"
  shows "st_alloc (sv_cni (detached c st cni1)) = Release (reservationsFor (c_PortBindings c)) (st_alloc cni1)"
  using assms by (simp add: detached_def)

lemma Release_frees:
  assumes "al \<in> set als" and "released al = Some k"
  shows "k \<notin> set (al_used (Release als a))"
  using assms by (auto simp: Release_used image_iff) (metis)

text \<open>
  C14: removing a container either fails with the registry as it was or removes exactly this
  container with its name, closes its log and frees the host ports of a never started container.
  Without force a container the runtime reports as running is never touched.
\<close>

theorem remove_effect:
  assumes "service_ok env st" and "live env" and "resolveContainer env ref (st, w) = Inr c"
    and "ContainerRemove env ref force (st, w) = ((st', w'), r)"
  shows "(case r of
      Some e \<Rightarrow> sv_registry st' = sv_registry st
    | None \<Rightarrow> get (byID (sv_registry st')) = (get (byID (sv_registry st)))(c_ID c := None)
        \<and> (c_Name c = [] \<or> get (byName (sv_registry st')) (c_Name c) = None)
        \<and> c_ID c \<notin> set (sv_logs st')
        \<and> (c_State c \<noteq> ContainerStateCreated \<or> (\<forall>al k. al \<in> set (reservationsFor (c_PortBindings c)) \<and> released al = Some k
              \<longrightarrow> k \<notin> set (al_used (st_alloc (sv_cni st'))))))
    \<and> (force \<or> snd (se_Status env (c_ID c) w) \<noteq> Inr ContainerStateRunning \<or> st' = st \<and> r \<noteq> None)"
proof -
  note reg = service_okD(1) [OF assms(1)]
  note stored = resolveContainer_stored [OF assms(3) reg]
  have refuse: "force \<or> snd (se_Status env (c_ID c) w) \<noteq> Inr ContainerStateRunning \<or> st' = st \<and> r \<noteq> None"
    using assms(3,4) by (auto simp: ContainerRemove_def Let_def split: prod.splits sum.splits if_splits)
  have freed: "k \<notin> set (al_used (st_alloc (sv_cni (detached c st cni1))))"
    if "c_State c = ContainerStateCreated" "al \<in> set (reservationsFor (c_PortBindings c))" "released al = Some k" for al k cni1
    using Release_frees that removed_released by simp
  from assms(3,4) show ?thesis
  proof (cases rule: ContainerRemove_effect)
    case (removed cni1 ctx w2 w3 w4 errs reg')
    note rm = Remove_effect [OF reg removed(2)]
    have "c_Name c = [] \<or> get (byName reg') (c_Name c) = None"
    proof (cases "c_Name c = []")
      case False
      have "registry_ok reg'" by (rule Remove_ok [OF reg removed(2)])
      then have N: "name_index (get (byID reg')) (get (byName reg'))" by (rule registry_okD(5))
      have "get (byName (sv_registry st)) (c_Name c) = Some (c_ID c)"
        using name_indexD [OF registry_okD(5) [OF reg]] stored False by blast
      then have "i = c_ID c" if "get (byName (sv_registry st)) (c_Name c) = Some i" for i using that by simp
      with name_indexD [OF N] name_indexD [OF registry_okD(5) [OF reg]] rm(1) False show ?thesis
        by (cases "get (byName reg') (c_Name c)") (auto split: if_splits)
    qed simp
    with removed rm(1) refuse freed show ?thesis by auto
  next
    case (absent cni1 ctx w2 w3 w4 errs e)
    have "\<exists>r. Remove (se_ctx env w4) (c_ID c) (sv_registry st) = Inr r"
      using Remove_Inr_iff [of "se_ctx env w4" "c_ID c" "sv_registry st"] stored assms(2) by simp
    with absent(2) show ?thesis by auto
  qed (use refuse in auto)
qed

section \<open>Create, then remove\<close>

lemma resolveContainer_by_id:
  assumes "get (byID (sv_registry st)) i = Some c" and "i \<noteq> []" and "TrimPrefix (TrimSpace i) ''/'' = i"
    and "se_ctx env w = Live"
  shows "resolveContainer env i (st, w) = Inr c"
  using assms by (simp add: resolveContainer_def Get_def Let_def)

text \<open>
  C15: removing a container that was created and never started undoes the creation: the registry
  holds the containers it held before, and the port reservations and network attachments are the
  ones from before.
\<close>

theorem create_then_remove:
  assumes "lists_conf (ce_confFiles (se_cni env))" and "service_ok env st" and "live env"
    and "ContainerCreate env req (st, w) = ((st1, w1), Inr i)"
    and "get (byID (sv_registry st)) i = None" and "i \<notin> set (map (fst \<circ> fst) (st_attachments (sv_cni st)))"
    and "TrimPrefix (TrimSpace i) ''/'' = i"
    and "ContainerRemove env i force (st1, w1) = ((st2, w2), None)"
  shows "get (byID (sv_registry st2)) = get (byID (sv_registry st))
    \<and> st_alloc (sv_cni st2) = st_alloc (sv_cni st) \<and> st_attachments (sv_cni st2) = st_attachments (sv_cni st)"
proof -
  from ContainerCreate_effect [OF assms(1,2,4)] obtain c where
    ok1: "service_ok env st1" and att1: "st_attachments (sv_cni st1) = st_attachments (sv_cni st)"
    and c: "created_effect env req st st1 i c" by auto
  have stored: "get (byID (sv_registry st1)) i = Some c" and created: "c_State c = ContainerStateCreated"
    and id: "c_ID c = i" using c by (auto simp: created_effect_def)
  have res: "resolveContainer env i (st1, w1) = Inr c"
    using resolveContainer_by_id [OF stored _ assms(7), of env w1] registry_okD(4) [OF service_okD(1) [OF ok1] stored] assms(3)
    by simp
  have none: "filter (\<lambda>(k, s). fst k = i) (st_attachments (sv_cni st1)) = []"
    using assms(6) unfolding att1 by (force simp: filter_empty_conv)
  have gone: "get (byID (sv_registry st2)) = (get (byID (sv_registry st1)))(i := None)"
    using remove_effect [OF ok1 assms(3) res assms(8)] id by simp
  from res assms(8) have "\<exists>st3. st2 = closeLogSink i st3 \<and> sv_cni st3 = sv_cni (detached c st1 (sv_cni st1))"
  proof (cases rule: ContainerRemove_effect)
    case (removed cni1 ctx w2 w3 w4 errs reg)
    then have "cni1 = sv_cni st1" using none id by (simp add: DisconnectAll_def)
    with removed id show ?thesis by auto
  next
    case (absent cni1 ctx w2 w3 w4 errs e)
    then have "cni1 = sv_cni st1" using none id by (simp add: DisconnectAll_def)
    with absent id show ?thesis by auto
  qed simp_all
  then have "sv_cni st2 = sv_cni (detached c st1 (sv_cni st1))" by auto
  with c gone created assms(5) att1 show ?thesis
    by (auto simp: created_effect_def removed_released fun_upd_idem)
qed

section \<open>Concrete requests\<close>

lemma sample_live [simp]: "live (sample_service_env x)"
  by (simp add: live_def)

lemma sample_after_create_ok: "service_ok (sample_service_env x) sample_after_create"
  using ContainerCreate_effect [OF _ sample_service_ok sample_ContainerCreate] sample_lists_conf
  by (simp add: service_ok_def)

definition sample_container :: container where
  "sample_container = created_container (sample_service_env []) ''c7'' ''web'' sample_request sample_image zero_time []
     (networkAttachment ModeHost zero_network_detail)"

lemma sample_registry: "sv_registry sample_after_create = \<lparr>byID = [(''c7'', sample_container)], byName = [(''web'', ''c7'')]\<rparr>"
  by code_simp

lemma sample_list [simp]: "List (sv_registry sample_after_create) = [sample_container]"
  by (simp add: sample_registry List_def)

lemma sample_container_simps [simp]:
  "c_ID sample_container = ''c7''" "c_Name sample_container = ''web''" "c_State sample_container = ContainerStateCreated"
  by (simp_all add: sample_container_def created_container_def)

lemma sample_resolve: "resolveContainer (sample_service_env x) ''web'' (sample_after_create, w) = Inr sample_container"
proof -
  have "TrimPrefix (TrimSpace ''web'') ''/'' = ''web''" by code_simp
  then show ?thesis by (simp add: resolveContainer_def Get_def GetByName_def sample_registry get_or_def Let_def)
qed

theorem container_reference_resolution_witness:
  "resolveContainer (sample_service_env []) ''/web'' (sample_after_create, 8) = Inr sample_container"
proof -
  have "TrimPrefix (TrimSpace ''/web'') ''/'' = ''web''" by code_simp
  then show ?thesis
    using container_reference_resolution [OF service_okD(1) [OF sample_after_create_ok], of "sample_service_env []" 8 "''web''" "''/web''"
        "[sample_container]"] by (auto split: sum.splits)
qed

theorem start_effect_witness:
  "\<exists>c'. replaced sample_after_create
      (fst (fst (ContainerStart (sample_service_env ''created'') ''web'' (sample_after_create, 8)))) sample_container c'
    \<and> c_State c' \<noteq> ContainerStateCreated"
proof -
  have "snd (ContainerStart (sample_service_env ''created'') ''web'' (sample_after_create, 8)) = None" by code_simp
  moreover have "\<not> snd (containerIsRunning (sample_service_env ''created'') sample_container 8)" by code_simp
  ultimately show ?thesis
    using start_effect [OF sample_after_create_ok sample_live sample_resolve, of "''created''" 8]
    by (auto simp: started_as_def prod_eq_iff)
qed

theorem stop_effect_witness:
  "fst (fst (ContainerStop (sample_service_env ''created'') ''web'' None (sample_after_create, 8))) = sample_after_create"
proof -
  have "snd (ContainerStop (sample_service_env ''created'') ''web'' None (sample_after_create, 8)) = None" by code_simp
  then show ?thesis
    using stop_effect [OF sample_after_create_ok sample_live sample_resolve, of "''created''" None 8]
    by (auto simp: prod_eq_iff)
qed

theorem remove_effect_witness:
  "fst (fst (ContainerRemove (sample_service_env ''running'') ''web'' False (sample_after_create, 8))) = sample_after_create
   \<and> get (byID (sv_registry (fst (fst (ContainerRemove (sample_service_env ''running'') ''web'' True (sample_after_create, 8)))))) ''c7'' = None"
proof -
  have "snd (ContainerRemove (sample_service_env ''running'') ''web'' True (sample_after_create, 8)) = None" by code_simp
  then show ?thesis
    using remove_effect [OF sample_after_create_ok sample_live sample_resolve, of "''running''" False 8]
      remove_effect [OF sample_after_create_ok sample_live sample_resolve, of "''running''" True 8]
    by (auto simp: prod_eq_iff)
qed

theorem create_then_remove_witness:
  "get (byID (sv_registry (fst (fst (ContainerRemove (sample_service_env []) ''c7'' False (sample_after_create, 8)))))) = get []"
proof -
  have "snd (ContainerRemove (sample_service_env []) ''c7'' False (sample_after_create, 8)) = None"
    "TrimPrefix (TrimSpace ''c7'') ''/'' = ''c7''" "get (byID (sv_registry sample_service)) ''c7'' = None"
    "st_attachments (sv_cni sample_service) = []" by code_simp+
  then show ?thesis
    using create_then_remove [OF _ sample_service_ok sample_live sample_ContainerCreate] sample_lists_conf
    by (auto simp: prod_eq_iff sample_service_def NewRegistry_def)
qed

end
