(* ===== verification/App_Resources.thy ===== *)
theory App_Resources
  imports App_Service
begin

text \<open>
  \<^verbatim>\<open>internal/app/exec.go\<close>, \<^verbatim>\<open>networks.go\<close>, \<^verbatim>\<open>images.go\<close> and
  \<^verbatim>\<open>Service.Info\<close>: the use cases on processes inside containers, on networks and on
  images, over the state and environment of \<open>App_Service\<close>. The progress a pull writes is
  returned as the list of its status lines, in order.
\<close>

section \<open>exec.go\<close>

definition new_pending :: "string \<Rightarrow> container_id \<Rightarrow> exec_create_request \<Rightarrow> pending_exec" where
  "new_pending i c req = \<lparr>px_id = i, px_container = c, px_command = xc_Command req, px_env = xc_Env req,
     px_workingDir = xc_WorkingDir req, px_user = xc_User req, px_tty = xc_TTY req, px_attachIn = xc_AttachStdin req,
     px_attachOut = xc_AttachStdout req, px_attachErr = xc_AttachStderr req, px_started = False,
     px_record = \<lparr>er_ID = i, er_ContainerID = c, er_Running = False, er_ExitCode = None, er_Command = xc_Command req,
       er_TTY = xc_TTY req, er_StartedAt = zero_time, er_FinishedAt = zero_time, er_OpenStdin = xc_AttachStdin req,
       er_OpenStdout = xc_AttachStdout req, er_OpenStderr = xc_AttachStderr req, er_CanRemove = True, er_ProcessID = 0\<rparr>\<rparr>"

definition ExecCreate :: "'w service_env \<Rightarrow> string \<Rightarrow> exec_create_request \<Rightarrow> 'w svc \<Rightarrow> 'w svc \<times> (gerror + string)" where
  "ExecCreate env ref req s = (case resolveContainer env ref s of
     Inl e \<Rightarrow> (s, Inl e)
   | Inr c \<Rightarrow>
      if xc_Command req = [] then (s, Inl (invalidError ''No exec command specified''))
      else (case s of (st, w) \<Rightarrow> (case se_Status env (c_ID c) w of (w1, r) \<Rightarrow>
        if (case r of Inr state \<Rightarrow> state \<noteq> ContainerStateRunning | Inl _ \<Rightarrow> False)
        then ((st, w1), Inl (conflictError (''Container '' @ c_ID c @ '' is not running'')))
        else (case se_newID env w1 of
          (w2, Inl e) \<Rightarrow> ((st, w2), Inl (serverError (''failed to generate exec id: '' @ err_msg e)))
        | (w2, Inr i) \<Rightarrow> ((st\<lparr>sv_execs := put i (new_pending i (c_ID c) req) (sv_execs st)\<rparr>, w2), Inr i)))))"

definition pendingExec :: "string \<Rightarrow> service_state \<Rightarrow> gerror + pending_exec" where
  "pendingExec i st = (case get (sv_execs st) i of
     None \<Rightarrow> Inl (notFoundError (''No such exec instance: '' @ i)) | Some p \<Rightarrow> Inr p)"

definition recordExecStarted :: "'w service_env \<Rightarrow> string \<Rightarrow> exec_result \<Rightarrow> 'w svc \<Rightarrow> 'w svc" where
  "recordExecStarted env i res s = (case s of (st, w) \<Rightarrow>
    (case get (sv_execs st) i of
       None \<Rightarrow> s
     | Some p \<Rightarrow>
        let record' = (case se_ExecRecord env i w of Some r \<Rightarrow> r
              | None \<Rightarrow> (px_record p)\<lparr>er_Running := xr_Running res, er_ProcessID := xr_Pid res,
                  er_StartedAt := xr_StartedAt res, er_FinishedAt := xr_FinishedAt res, er_ExitCode := xr_ExitCode res\<rparr>)
        in (st\<lparr>sv_execs := put i (p\<lparr>px_started := True, px_record := record'\<rparr>) (sv_execs st)\<rparr>, w)))"

definition exec_request_of :: "string \<Rightarrow> pending_exec \<Rightarrow> exec_start_request \<Rightarrow> exec_request" where
  "exec_request_of i p req = \<lparr>xq_ID = i, xq_Command = px_command p, xq_Env = px_env p, xq_WorkingDir = px_workingDir p,
     xq_User = px_user p, xq_TTY = px_tty p, xq_Detach = xs_Detach req, xq_Width = ucast (xs_Width req),
     xq_Height = ucast (xs_Height req), xq_Stdin = (xs_Stdin req \<and> px_attachIn p),
     xq_Stdout = (xs_Stdout req \<and> px_attachOut p), xq_Stderr = (xs_Stderr req \<and> px_attachErr p \<and> \<not> px_tty p)\<rparr>"

definition ExecStart :: "'w service_env \<Rightarrow> string \<Rightarrow> exec_start_request \<Rightarrow> 'w svc \<Rightarrow> 'w svc \<times> (gerror + int)" where
  "ExecStart env i req s = (case s of (st, w) \<Rightarrow>
    (case pendingExec i st of
       Inl e \<Rightarrow> (s, Inl e)
     | Inr p \<Rightarrow> (case se_Exec env (px_container p) (exec_request_of i p req) w of
         (w1, Inl e) \<Rightarrow> ((st, w1), Inl (translateError e))
       | (w1, Inr res) \<Rightarrow> (recordExecStarted env i res (st, w1),
           Inr (case xr_ExitCode res of Some code \<Rightarrow> code | None \<Rightarrow> 0)))))"

definition ExecInspect :: "'w service_env \<Rightarrow> string \<Rightarrow> 'w svc \<Rightarrow> gerror + exec_record" where
  "ExecInspect env i s = (case s of (st, w) \<Rightarrow>
    (case se_ExecRecord env i w of
       Some r \<Rightarrow> Inr r
     | None \<Rightarrow> (case pendingExec i st of Inl e \<Rightarrow> Inl e | Inr p \<Rightarrow> Inr (px_record p))))"

section \<open>networks.go\<close>

definition network_Resolve :: "'w service_env \<Rightarrow> string \<Rightarrow> 'w svc \<Rightarrow> gerror + network_detail" where
  "network_Resolve env ref s = (case s of (st, w) \<Rightarrow>
     map_sum id networkDetail (Resolve (se_cni env) (se_cfg env) (se_ctx env w) ref (sv_cni st)))"

definition network_List :: "'w service_env \<Rightarrow> 'w svc \<Rightarrow> gerror + network_detail list" where
  "network_List env s = (case s of (st, w) \<Rightarrow>
     map_sum id (map networkDetail) (list_networks (se_cni env) (se_cfg env) (se_ctx env w) (sv_cni st)))"

definition ensure_default :: "'w service_env \<Rightarrow> 'w svc \<Rightarrow> 'w svc \<times> (gerror + network_id)" where
  "ensure_default env s = (case s of (st, w) \<Rightarrow>
     (case EnsureDefaultNetwork (se_cni env) (se_cfg env) (se_ctx env w) (sv_cni st) of
        (cni1, r) \<Rightarrow> ((st\<lparr>sv_cni := cni1\<rparr>, w), r)))"

definition predefinedNetworks :: "string list" where
  "predefinedNetworks = [DefaultNetworkName, mode_text ModeHost, mode_text ModeNone]"

definition NetworkList :: "'w service_env \<Rightarrow> 'w svc \<Rightarrow> 'w svc \<times> (gerror + network_detail list)" where
  "NetworkList env s = (case ensure_default env s of
     (s1, Inl e) \<Rightarrow> (s1, Inl (translateError e))
   | (s1, Inr _) \<Rightarrow>
      (s1, case mapM (\<lambda>ref. network_Resolve env ref s1) predefinedNetworks of
         Inl e \<Rightarrow> Inl (translateError e)
       | Inr details \<Rightarrow> (case network_List env s1 of
           Inl e \<Rightarrow> Inl (translateError e)
         | Inr listed \<Rightarrow>
             let seen = map nd_Name details
             in Inr (sort_key nd_Name (details @ filter (\<lambda>d. nd_Name d \<notin> set seen) listed)))))"

definition networkNotFound :: "string \<Rightarrow> gerror \<Rightarrow> gerror" where
  "networkNotFound ref err = (let mapped = translateError err in
     if errors_is mapped (Ports PErrNotFound)
     then newDockerError (Ports PErrNotFound) (''network '' @ ref @ '' not found'') (Some err) else mapped)"

definition NetworkInspect :: "'w service_env \<Rightarrow> string \<Rightarrow> 'w svc \<Rightarrow> 'w svc \<times> (gerror + network_detail)" where
  "NetworkInspect env ref0 s = (let ref = TrimSpace ref0 in
     if ref = [] then (s, Inl (invalidError ''network id or name must not be empty''))
     else case network_Resolve env ref s of
       Inr d \<Rightarrow> (s, Inr d)
     | Inl err \<Rightarrow>
        if ref = DefaultNetworkName \<or> EqualFold ref ''default''
        then (case ensure_default env s of
          (s1, Inl e) \<Rightarrow> (s1, Inl (translateError e))
        | (s1, Inr _) \<Rightarrow> (s1, map_sum (networkNotFound ref) id (network_Resolve env ref s1)))
        else (s, Inl (networkNotFound ref err)))"

definition create_network_request_of :: "network_create_request \<Rightarrow> create_network_request" where
  "create_network_request_of req = \<lparr>cn_Name = ncr_Name req, cn_Driver = ncr_Driver req, cn_Subnet = [], cn_Gateway = [],
     cn_EnableIPv6 = ncr_EnableIPv6 req, cn_Labels = ncr_Labels req\<rparr>"

definition NetworkCreate :: "'w service_env \<Rightarrow> network_create_request \<Rightarrow> 'w svc \<Rightarrow> 'w svc \<times> (gerror + network_id)" where
  "NetworkCreate env req s = (case s of (st, w) \<Rightarrow>
    if TrimSpace (ncr_Name req) = [] then (s, Inl (invalidError ''network name must not be empty''))
    else case CreateNetwork (se_cni env) (se_cfg env) (se_ctx env w) (create_network_request_of req) (sv_cni st) of
      (cni1, Inl e) \<Rightarrow> ((st\<lparr>sv_cni := cni1\<rparr>, w),
         Inl (let mapped = translateError e in
           if errors_is mapped (Ports PErrConflict)
           then conflictError (''network with name '' @ ncr_Name req @ '' already exists'') else mapped))
    | (cni1, Inr i) \<Rightarrow> ((st\<lparr>sv_cni := cni1\<rparr>, w), Inr i))"

fun replace_attachment :: "network_attachment list \<Rightarrow> network_attachment \<Rightarrow> network_attachment list option" where
  "replace_attachment [] a = None"
| "replace_attachment (b # bs) a =
    (if na_Name b = na_Name a then Some (a # bs) else map_option ((#) b) (replace_attachment bs a))"

definition upsertAttachment :: "network_attachment list \<Rightarrow> network_attachment \<Rightarrow> network_attachment list" where
  "upsertAttachment as a = (case replace_attachment as a of Some as' \<Rightarrow> as' | None \<Rightarrow> as @ [a])"

definition NetworkConnect :: "'w service_env \<Rightarrow> network_connect_request \<Rightarrow> 'w svc \<Rightarrow> 'w svc \<times> gerror option" where
  "NetworkConnect env req s = (case resolveContainer env (nc_Container req) s of
     Inl e \<Rightarrow> (s, Some e)
   | Inr c \<Rightarrow> (case s of (st, w) \<Rightarrow> (case se_Status env (c_ID c) w of (w1, r) \<Rightarrow>
       if (case r of Inr state \<Rightarrow> state \<noteq> ContainerStateRunning | Inl _ \<Rightarrow> False)
       then ((st, w1), Some (conflictError (''Container '' @ c_ID c @ '' is not running'')))
       else (case se_TaskPID env (c_ID c) w1 of
         (w2, Inl e) \<Rightarrow> ((st, w2), Some (translateError e))
       | (w2, Inr pid) \<Rightarrow>
          (case Connect (se_cni env) (se_cfg env) (se_ctx env w2)
                  (connect_request_of (nc_Network req) (c_ID c) pid [] (nc_Aliases req)) (sv_cni st) w2 of
             (cni1, w3, Inl e) \<Rightarrow> ((st\<lparr>sv_cni := cni1\<rparr>, w3), Some (translateError e))
           | (cni1, w3, Inr res) \<Rightarrow>
               (svc_save env (c\<lparr>c_Networks := upsertAttachment (c_Networks c) (co_Attachment res)\<rparr>)
                  (st\<lparr>sv_cni := cni1\<rparr>, w3), None))))))"

definition NetworkRemove :: "'w service_env \<Rightarrow> string \<Rightarrow> 'w svc \<Rightarrow> 'w svc \<times> gerror option" where
  "NetworkRemove env ref s = (case s of (st, w) \<Rightarrow>
    (case network_Remove (se_cni env) (se_cfg env) (se_ctx env w) (TrimSpace ref) (sv_cni st) w of
       (cni1, w1, r) \<Rightarrow> ((st\<lparr>sv_cni := cni1\<rparr>, w1), map_option translateError r)))"

section \<open>images.go\<close>

definition attachImageConfig :: "'w service_env \<Rightarrow> image_detail \<Rightarrow> 'w \<Rightarrow> 'w \<times> image_detail" where
  "attachImageConfig env d w = (case se_ImageConfig env (id_ID d) w of
     (w1, Inr cfg) \<Rightarrow> (w1, d\<lparr>id_Config := Some cfg\<rparr>) | (w1, Inl _) \<Rightarrow> (w1, d))"

definition ImageInspect :: "'w service_env \<Rightarrow> string \<Rightarrow> 'w \<Rightarrow> 'w \<times> (gerror + image_detail)" where
  "ImageInspect env ref w = (case se_ImageInspect env ref w of
     (w1, Inl e) \<Rightarrow> (w1, Inl (imageNotFound ref e))
   | (w1, Inr d) \<Rightarrow> map_prod id Inr (attachImageConfig env d w1))"

definition digestsMatch :: "string \<Rightarrow> string \<Rightarrow> bool" where
  "digestsMatch candidate0 wanted0 =
    (let candidate = TrimPrefix candidate0 ''sha256:''; wanted = TrimPrefix wanted0 ''sha256:'' in
     candidate \<noteq> [] \<and> wanted \<noteq> [] \<and>
     (candidate = wanted \<or> HasPrefix candidate wanted \<or> HasPrefix wanted candidate))"

definition sameImageReference :: "(string \<Rightarrow> gerror + string) \<Rightarrow> string \<Rightarrow> string \<Rightarrow> bool" where
  "sameImageReference norm left0 right0 =
    (let l = TrimSpace left0; r = TrimSpace right0 in
     if l = [] \<or> r = [] then False
     else case (norm l, norm r) of
       (Inr nl, Inr nr) \<Rightarrow> nl = nr
     | _ \<Rightarrow> TrimPrefix l ''docker.io/library/'' = TrimPrefix r ''docker.io/library/'')"

definition containerUsesImage :: "(string \<Rightarrow> gerror + string) \<Rightarrow> container \<Rightarrow> image_detail \<Rightarrow> bool" where
  "containerUsesImage norm c d =
    (digestsMatch (c_ImageDigest c) (id_ID d) \<or>
     TrimSpace (c_ImageReference c) \<noteq> [] \<and>
     list_ex (sameImageReference norm (c_ImageReference c)) (id_RepoTags d @ id_RepoDigests d))"

definition shortImageID :: "string \<Rightarrow> string" where
  "shortImageID i = (let v = TrimPrefix i ''sha256:'' in if length v > 12 then take 12 v else v)"

fun checkImageInUse ::
  "(string \<Rightarrow> gerror + string) \<Rightarrow> image_detail \<Rightarrow> bool \<Rightarrow> container list \<Rightarrow> gerror option" where
  "checkImageInUse norm d force [] = None"
| "checkImageInUse norm d force (c # cs) =
    (if \<not> containerUsesImage norm c d then checkImageInUse norm d force cs
     else if c_State c = ContainerStateRunning then
       Some (conflictError (''conflict: unable to delete '' @ shortImageID (id_ID d)
         @ '' (cannot be forced) - image is being used by running container '' @ shortImageID (c_ID c)))
     else if \<not> force then
       Some (conflictError (''conflict: unable to delete '' @ shortImageID (id_ID d)
         @ '' (must be forced) - image is being used by stopped container '' @ shortImageID (c_ID c)))
     else checkImageInUse norm d force cs)"

definition matchingImageTag :: "(string \<Rightarrow> gerror + string) \<Rightarrow> string \<Rightarrow> string list \<Rightarrow> string option" where
  "matchingImageTag norm ref tags =
     find (\<lambda>tag. sameImageReference norm tag ref \<or> TrimPrefix tag ''docker.io/library/'' = ref) tags"

definition ImageRemove :: "'w service_env \<Rightarrow> string \<Rightarrow> bool \<Rightarrow> 'w svc \<Rightarrow> 'w \<times> (gerror + image_remove_result)" where
  "ImageRemove env ref0 force s = (case s of (st, w) \<Rightarrow>
    let ref = TrimPrefix (TrimSpace ref0) ''/''; norm = se_NormalizeReference env in
    if ref = [] then (w, Inl (invalidError ''image reference must not be empty''))
    else case se_ImageInspect env ref w of
      (w1, Inl e) \<Rightarrow> (w1, Inl (imageNotFound ref e))
    | (w1, Inr d) \<Rightarrow> (case checkImageInUse norm d force (List (sv_registry st)) of
        Some e \<Rightarrow> (w1, Inl e)
      | None \<Rightarrow> (case se_ImageRemove env ref w1 of
          (w2, Some e) \<Rightarrow> (w2, Inl (translateError e))
        | (w2, None) \<Rightarrow> (w2, Inr (case matchingImageTag norm ref (id_RepoTags d) of
            Some tag \<Rightarrow> \<lparr>ir_ID = id_ID d, ir_Untagged = tag, ir_Deleted = []\<rparr>
          | None \<Rightarrow> \<lparr>ir_ID = id_ID d, ir_Untagged = [], ir_Deleted = id_ID d\<rparr>)))))"

definition ImageList :: "'w service_env \<Rightarrow> 'w \<Rightarrow> 'w \<times> (gerror + image_detail list)" where
  "ImageList env w = (case se_ImageList env w of
     (w1, Inl e) \<Rightarrow> (w1, Inl (translateError e)) | (w1, Inr ds) \<Rightarrow> (w1, Inr ds))"

definition ImagePull :: "'w service_env \<Rightarrow> pull_request \<Rightarrow> 'w \<Rightarrow> 'w \<times> string list \<times> gerror option" where
  "ImagePull env req w =
    (let reference = TrimSpace (pl_Reference req) in
     if reference = [] then (w, [], Some (invalidError ''fromImage is required''))
     else case se_NormalizeReference env reference of
       Inl e \<Rightarrow> (w, [], Some (translateError e))
     | Inr _ \<Rightarrow>
        let first = [''Pulling from '' @ reference] in
        (case se_PullImage env reference req w of
           (w1, Inl e) \<Rightarrow> (w1, first, Some (translateError e))
         | (w1, Inr _) \<Rightarrow> (case se_ImageInspect env reference w1 of (w2, r) \<Rightarrow>
             (w2, first @ (case r of Inr d \<Rightarrow> map (\<lambda>g. ''Digest: '' @ g) (id_RepoDigests d) | Inl _ \<Rightarrow> [])
                @ [''Status: Downloaded newer image for '' @ reference], None))))"

definition ImageBuild :: "'w service_env \<Rightarrow> build_request \<Rightarrow> 'w \<Rightarrow> 'w \<times> gerror option" where
  "ImageBuild env req w =
    (if br_Context req = None then (w, Some (invalidError ''build context is required''))
     else case se_BuildImage env req w of
       (w1, None) \<Rightarrow> (w1, None)
     | (w1, Some e) \<Rightarrow> (w1, Some (case as_build_error e of
         Some (status, message) \<Rightarrow> newDockerError (kindForStatus status) message (Some e)
       | None \<Rightarrow> translateError e)))"

section \<open>service.go: Info\<close>

definition count_state :: "system_status \<Rightarrow> container \<Rightarrow> system_status" where
  "count_state s c =
    (if c_State c = ContainerStateRunning then s\<lparr>ss_ContainersRunning := ss_ContainersRunning s + 1\<rparr>
     else if c_State c = ContainerStatePaused then s\<lparr>ss_ContainersPaused := ss_ContainersPaused s + 1\<rparr>
     else s\<lparr>ss_ContainersStopped := ss_ContainersStopped s + 1\<rparr>)"

definition svc_Info :: "'w service_env \<Rightarrow> 'w svc \<Rightarrow> 'w svc \<times> system_status" where
  "svc_Info env s = (case ContainerList env True s of ((st1, w1), cs) \<Rightarrow>
     let status = foldl count_state \<lparr>ss_Containers = int (length cs), ss_ContainersRunning = 0, ss_ContainersPaused = 0,
           ss_ContainersStopped = 0, ss_Images = 0, ss_Namespace = se_namespace env,
           ss_ContainerdSocket = se_containerdSocket env, ss_BuildKitSocket = se_buildkitSocket env,
           ss_Snapshotter = se_snapshotter env, ss_Warnings = []\<rparr> cs
     in case se_ImageList env w1 of
          (w2, Inl e) \<Rightarrow> ((st1, w2), status\<lparr>ss_Warnings := [''image list failed: '' @ err_msg e]\<rparr>)
        | (w2, Inr ds) \<Rightarrow> ((st1, w2), status\<lparr>ss_Images := int (length ds)\<rparr>))"

end
