(* ===== verification/App_Usage.thy ===== *)
theory App_Usage
  imports App_Effects App_Resources
begin

text \<open>
  What the use cases on processes, networks and images promise, and the invariant of the whole
  service: any sequence of requests, of every kind, keeps the registry, the network directory and
  the port reservations consistent.
\<close>

section \<open>Histories of requests\<close>

datatype service_op =
    OnContainers container_op
  | OpExecCreate string exec_create_request
  | OpExecStart string exec_start_request
  | OpNetworkList
  | OpNetworkInspect string
  | OpNetworkCreate network_create_request
  | OpNetworkConnect network_connect_request
  | OpNetworkRemove string
  | OpImageRemove string bool
  | OpImagePull pull_request
  | OpInfo

fun service_step :: "'w service_env \<Rightarrow> service_op \<Rightarrow> 'w svc \<Rightarrow> 'w svc" where
  "service_step env (OnContainers op) s = container_step env op s"
| "service_step env (OpExecCreate ref req) s = fst (ExecCreate env ref req s)"
| "service_step env (OpExecStart i req) s = fst (ExecStart env i req s)"
| "service_step env OpNetworkList s = fst (NetworkList env s)"
| "service_step env (OpNetworkInspect ref) s = fst (NetworkInspect env ref s)"
| "service_step env (OpNetworkCreate req) s = fst (NetworkCreate env req s)"
| "service_step env (OpNetworkConnect req) s = fst (NetworkConnect env req s)"
| "service_step env (OpNetworkRemove ref) s = fst (NetworkRemove env ref s)"
| "service_step env (OpImageRemove ref force) s = (fst s, fst (ImageRemove env ref force s))"
| "service_step env (OpImagePull req) s = (fst s, fst (ImagePull env req (snd s)))"
| "service_step env OpInfo s = fst (svc_Info env s)"

lemma service_ok_sv_cni:
  "service_ok env st \<Longrightarrow> adapter_ok True (se_cfg env) cni1 \<Longrightarrow> service_ok env (st\<lparr>sv_cni := cni1\<rparr>)"
  by (simp add: service_ok_def)

lemma ensure_default_ok:
  assumes "lists_conf (ce_confFiles (se_cni env))" and "service_ok env st"
    and "ensure_default env (st, w) = ((st1, w1), r)"
  shows "service_ok env st1 \<and> sv_registry st1 = sv_registry st \<and> sv_execs st1 = sv_execs st \<and> w1 = w"
proof -
  obtain cni1 r1 where e: "EnsureDefaultNetwork (se_cni env) (se_cfg env) (se_ctx env w) (sv_cni st) = (cni1, r1)"
    by (cases "EnsureDefaultNetwork (se_cni env) (se_cfg env) (se_ctx env w) (sv_cni st)")
  with EnsureDefaultNetwork_ok [OF assms(1) service_okD(2) [OF assms(2)] e] assms(2,3) show ?thesis
    by (auto simp: ensure_default_def service_ok_sv_cni)
qed

lemma NetworkConnect_ok:
  assumes "service_ok env st"
  shows "service_ok env (fst (fst (NetworkConnect env req (st, w))))"
proof -
  have "adapter_ok True (se_cfg env) cni1" if "Connect (se_cni env) (se_cfg env) ctx q (sv_cni st) w2 = (cni1, w3, r)"
    for ctx q w2 cni1 w3 r
    using frame_adapter_ok [OF service_okD(2) [OF assms] connect_frame [OF that [unfolded Connect_def] service_okD(3) [OF assms]]] .
  then have "service_ok env (st\<lparr>sv_cni := cni1\<rparr>)"
    if "Connect (se_cni env) (se_cfg env) ctx q (sv_cni st) w2 = (cni1, w3, r)" for ctx q w2 cni1 w3 r
    using that service_ok_sv_cni [OF assms] by blast
  then show ?thesis
    using assms by (auto simp: NetworkConnect_def intro!: svc_save_ok split: sum.split prod.split)
qed

lemma NetworkCreate_ok:
  assumes "lists_conf (ce_confFiles (se_cni env))" and "service_ok env st"
  shows "service_ok env (fst (fst (NetworkCreate env req (st, w))))"
  using create_adapter_ok [OF assms(1) service_okD(2) [OF assms(2)], of "create_network_request_of req" "se_ctx env w"] assms(2)
  by (auto simp: NetworkCreate_def create_network_request_of_def intro!: service_ok_sv_cni split: prod.split sum.split)

lemma NetworkRemove_ok:
  assumes "service_ok env st"
  shows "service_ok env (fst (fst (NetworkRemove env ref (st, w))))"
proof -
  obtain cni1 w1 r where n: "network_Remove (se_cni env) (se_cfg env) (se_ctx env w) (TrimSpace ref) (sv_cni st) w = (cni1, w1, r)"
    by (metis prod_cases3)
  have "networks_ok True (se_cfg env) (st_files (sv_cni st))" using service_okD(2) [OF assms] by (simp add: adapter_ok_def)
  from network_Remove_networks_ok [OF this n] service_okD(2) [OF assms] have "adapter_ok True (se_cfg env) cni1"
    by (simp add: adapter_ok_def)
  with n assms show ?thesis by (simp add: NetworkRemove_def service_ok_sv_cni)
qed

lemma service_step_ok:
  assumes conf: "lists_conf (ce_confFiles (se_cni env))" and "service_ok env (fst s)"
  shows "service_ok env (fst (service_step env op s))"
proof -
  obtain st w where s: "s = (st, w)" by (cases s)
  have ok: "service_ok env st" using assms(2) s by simp
  have ens: "service_ok env (fst (fst (ensure_default env (st, w))))"
    by (cases "ensure_default env (st, w)") (use ensure_default_ok [OF conf ok] in \<open>auto\<close>)
  show ?thesis
  proof (cases op)
    case OpNetworkList
    with ens s show ?thesis by (auto simp: NetworkList_def split: prod.splits sum.splits)
  next
    case (OpNetworkInspect ref)
    with ens ok s show ?thesis by (auto simp: NetworkInspect_def Let_def split: prod.splits sum.splits)
  next
    case OpInfo
    have "service_ok env (fst (fst (ContainerList env True s)))" using ok s by (simp add: ContainerList_def list_loop_ok)
    with OpInfo show ?thesis by (auto simp: svc_Info_def Let_def split: prod.splits sum.splits)
  qed (use ok s assms NetworkCreate_ok NetworkConnect_ok NetworkRemove_ok in
    \<open>auto simp: container_step_ok ExecCreate_def ExecStart_def recordExecStarted_def Let_def split: sum.split prod.split option.split\<close>)
qed

lemma service_history_ok:
  assumes "lists_conf (ce_confFiles (se_cni env))" and "service_ok env (fst s)"
  shows "service_ok env (fst (fold (service_step env) ops s))"
  using assms(2) by (induction ops arbitrary: s) (simp_all add: service_step_ok [OF assms(1)])

text \<open>
  C1: after any history of requests on containers, processes, networks and images, whatever the
  runtime, the plugins, the file system and the deadlines do, the state of the daemon is consistent:
  the two indexes of the registry agree and names are unique, no two reserved host ports clash, the
  network directory holds only files the daemon can read back, and no two networks share a subnet.
\<close>

theorem service_history_consistent:
  assumes "lists_conf (ce_confFiles (se_cni env))" and "service_ok env st0"
    and "fold (service_step env) ops (st0, w0) = (st, w)"
  shows "service_ok env st \<and> sorted (map c_ID (List (sv_registry st))) \<and> distinct (map c_ID (List (sv_registry st)))
    \<and> (\<forall>c\<in>set (List (sv_registry st)). Get Live (c_ID c) (sv_registry st) = Inr c
         \<and> (c_Name c = [] \<or> GetByName (c_Name c) (sv_registry st) = Inr c))
    \<and> (\<exists>ns. list_networks (se_cni env) (se_cfg env) Live (sv_cni st) = Inr ns \<and> distinct (map nw_Name ns)
         \<and> distinct (map nw_Subnet ns))"
proof -
  have ok: "service_ok env st"
    using service_history_ok [OF assms(1), of "(st0, w0)" ops] assms(2,3) by simp
  note r = service_okD(1) [OF ok]
  have "c_Name c = [] \<or> GetByName (c_Name c) (sv_registry st) = Inr c" "Get Live (c_ID c) (sv_registry st) = Inr c"
    if "c \<in> set (List (sv_registry st))" for c
    using that GetByName_found_iff(1) [OF r] List_stored [OF r] by (auto simp: Get_def)
  moreover have "map c_ID (List (sv_registry st)) = sorted_keys (byID (sv_registry st))" by (rule List_ids [OF r])
  moreover have "distinct (sorted_keys (byID (sv_registry st)))"
    using registry_okD(1) [OF r] by (simp add: sorted_keys_def)
  moreover have net: "networks_ok True (se_cfg env) (st_files (sv_cni st))"
    using service_okD(2) [OF ok] by (simp add: adapter_ok_def)
  obtain ns where ns: "list_networks (se_cni env) (se_cfg env) Live (sv_cni st) = Inr ns" "distinct (map nw_Name ns)"
      "\<And>n. n \<in> set ns \<longleftrightarrow> (\<exists>p. is_own_file p \<and> parseNetworkFile (st_files (sv_cni st)) p = Inr n)"
    using list_networks_ok [OF assms(1), of "se_cfg env" "sv_cni st"] net by (auto simp: networks_ok_def)
  moreover have "distinct (map nw_Subnet ns)" by (rule listing_subnets [OF net ns(2,3)])
  ultimately show ?thesis using ok sorted_keys_sorted by simp
qed

section \<open>Processes in containers\<close>

lemma ExecCreate_Inr:
  assumes "ExecCreate env ref req (st, w) = ((st1, w1), Inr i)"
  obtains c where "resolveContainer env ref (st, w) = Inr c" "xc_Command req \<noteq> []"
    "st1 = st\<lparr>sv_execs := put i (new_pending i (c_ID c) req) (sv_execs st)\<rparr>"
  using assms by (auto simp: ExecCreate_def split: sum.splits if_splits prod.splits)

text \<open>
  C36: a process created in a container is known under its identity from then on: inspecting it shows
  its command and container, not running and without exit code. Starting it runs this command in
  this container with only the streams that both the creation and the start ask for (and no separate
  error stream on a terminal), returns the exit code, and from then on inspection shows the record of
  the runtime, or the result when the runtime keeps none. A start that fails leaves the process as it
  was, and no other process is affected.
\<close>

theorem exec_lifecycle:
  assumes "ExecCreate env ref req (st, w) = ((st1, w1), Inr i)" and "resolveContainer env ref (st, w) = Inr c"
    and "se_ExecRecord env i w1 = None" and "ExecStart env i sreq (st1, w1) = ((st2, w2), r)"
  shows "(\<exists>rec. ExecInspect env i (st1, w1) = Inr rec \<and> er_Command rec = xc_Command req \<and> er_ContainerID rec = c_ID c
        \<and> \<not> er_Running rec \<and> er_ExitCode rec = None)
    \<and> (case r of
        Inl e \<Rightarrow> st2 = st1
      | Inr code \<Rightarrow> \<exists>q res. se_Exec env (c_ID c) q w1 = (w2, Inr res) \<and> xq_ID q = i \<and> xq_Command q = xc_Command req
          \<and> xq_Stdin q = (xs_Stdin sreq \<and> xc_AttachStdin req) \<and> xq_Stdout q = (xs_Stdout sreq \<and> xc_AttachStdout req)
          \<and> xq_Stderr q = (xs_Stderr sreq \<and> xc_AttachStderr req \<and> \<not> xc_TTY req)
          \<and> code = (case xr_ExitCode res of Some x \<Rightarrow> x | None \<Rightarrow> 0)
          \<and> (\<exists>rec. ExecInspect env i (st2, w2) = Inr rec \<and> (se_ExecRecord env i w2 = Some rec
                \<or> se_ExecRecord env i w2 = None \<and> er_ID rec = i \<and> er_Command rec = xc_Command req
                   \<and> er_Running rec = xr_Running res \<and> er_ExitCode rec = xr_ExitCode res)))
    \<and> (\<forall>j. j \<noteq> i \<longrightarrow> get (sv_execs st2) j = get (sv_execs st) j) \<and> sv_registry st2 = sv_registry st"
proof -
  have st1: "st1 = st\<lparr>sv_execs := put i (new_pending i (c_ID c) req) (sv_execs st)\<rparr>"
    using assms(1,2) by (auto elim: ExecCreate_Inr)
  then have p: "pendingExec i st1 = Inr (new_pending i (c_ID c) req)" by (simp add: pendingExec_def)
  let ?q = "exec_request_of i (new_pending i (c_ID c) req) sreq"
  obtain w3 r3 where x: "se_Exec env (c_ID c) ?q w1 = (w3, r3)" by (cases "se_Exec env (c_ID c) ?q w1")
  have "px_container (new_pending i (c_ID c) req) = c_ID c" by (simp add: new_pending_def)
  note start = assms(4) [unfolded ExecStart_def prod.case p sum.case this x]
  show ?thesis
  proof (cases r3)
    case (Inl e)
    with start p assms(3) st1 show ?thesis by (auto simp: ExecInspect_def new_pending_def)
  next
    case (Inr res)
    define code where "code = (case xr_ExitCode res of Some x \<Rightarrow> x | None \<Rightarrow> 0)"
    from Inr start have r: "r = Inr code" and st2: "recordExecStarted env i res (st1, w3) = (st2, w2)"
      by (auto simp: code_def)
    then have w: "w3 = w2" by (auto simp: recordExecStarted_def st1 Let_def)
    have "\<exists>rec. ExecInspect env i (st2, w2) = Inr rec \<and> (se_ExecRecord env i w2 = Some rec
          \<or> se_ExecRecord env i w2 = None \<and> er_ID rec = i \<and> er_Command rec = xc_Command req
             \<and> er_Running rec = xr_Running res \<and> er_ExitCode rec = xr_ExitCode res)"
      using st2 w by (auto simp: recordExecStarted_def st1 ExecInspect_def pendingExec_def new_pending_def Let_def
          split: option.splits)
    moreover have "sv_registry st2 = sv_registry st" "\<forall>j. j \<noteq> i \<longrightarrow> get (sv_execs st2) j = get (sv_execs st) j"
      using st2 by (auto simp: recordExecStarted_def st1 Let_def)
    moreover have "xq_ID ?q = i" "xq_Command ?q = xc_Command req" "xq_Stdin ?q = (xs_Stdin sreq \<and> xc_AttachStdin req)"
      "xq_Stdout ?q = (xs_Stdout sreq \<and> xc_AttachStdout req)"
      "xq_Stderr ?q = (xs_Stderr sreq \<and> xc_AttachStderr req \<and> \<not> xc_TTY req)"
      by (simp_all add: exec_request_of_def new_pending_def)
    ultimately show ?thesis
      using r x Inr w p assms(3) code_def by (auto simp: ExecInspect_def new_pending_def)
  qed
qed

section \<open>Images\<close>

lemma checkImageInUse_None:
  "checkImageInUse norm d force cs = None \<longleftrightarrow>
    list_all (\<lambda>c. containerUsesImage norm c d \<longrightarrow> force \<and> c_State c \<noteq> ContainerStateRunning) cs"
  by (induction cs) auto

lemma checkImageInUse_conflict:
  "checkImageInUse norm d force cs = Some e \<Longrightarrow> fst (WriteServiceError (Some e)) = 409"
  by (induction cs) (auto simp: WriteServiceError_docker split: if_splits)

text \<open>
  The decision of a removal, for the image the reference is inspected as: the store is asked to remove
  the reference only when no running container uses that image and, without force, when no container
  does; otherwise the client gets a conflict. A removal answers with the tag that was named or with
  the identity of the inspected image.
\<close>

theorem image_remove_decision:
  assumes "ref = TrimPrefix (TrimSpace ref0) ''/''" and "ref \<noteq> []" and "se_ImageInspect env ref w = (w1, Inr d)"
    and "in_use = filter (\<lambda>c. containerUsesImage (se_NormalizeReference env) c d) (List (sv_registry st))"
    and "ImageRemove env ref0 force (st, w) = (w', r)"
  shows "if in_use = [] \<or> force \<and> list_all (\<lambda>c. c_State c \<noteq> ContainerStateRunning) in_use
    then (case se_ImageRemove env ref w1 of
        (w2, Some e) \<Rightarrow> w' = w2 \<and> r = Inl (translateError e)
      | (w2, None) \<Rightarrow> w' = w2 \<and> (\<exists>res. r = Inr res \<and> ir_ID res = id_ID d
          \<and> (ir_Deleted res = id_ID d \<and> ir_Untagged res = [] \<or> ir_Deleted res = [] \<and> ir_Untagged res \<in> set (id_RepoTags d))))
    else w' = w1 \<and> (\<exists>e. r = Inl e \<and> fst (WriteServiceError (Some e)) = 409)"
proof -
  define check where "check = checkImageInUse (se_NormalizeReference env) d force (List (sv_registry st))"
  have "check = None \<longleftrightarrow> in_use = [] \<or> force \<and> list_all (\<lambda>c. c_State c \<noteq> ContainerStateRunning) in_use"
    unfolding check_def checkImageInUse_None assms(4) by (auto simp: list_all_iff filter_empty_conv)
  moreover have "fst (WriteServiceError (Some e)) = 409" if "check = Some e" for e
    using that checkImageInUse_conflict by (simp add: check_def)
  moreover have "tag \<in> set tags" if "matchingImageTag norm ref tags = Some tag" for norm tag tags
    using that by (auto simp: matchingImageTag_def find_Some_iff in_set_conv_nth)
  ultimately show ?thesis
    using assms(1,2,3,5) by (auto simp: ImageRemove_def check_def [symmetric] Let_def split: option.splits prod.splits)
qed

section \<open>Networks\<close>

lemma daemon_listing:
  assumes "lists_conf (ce_confFiles (se_cni env))" and "service_ok env st"
  obtains ns where "list_networks (se_cni env) (se_cfg env) Live (sv_cni st) = Inr ns"
    "distinct (map nw_Name ns)" "\<And>n. n \<in> set ns \<Longrightarrow> good_name (nw_Name n) \<and> length (nw_ID n) = 64"
proof -
  have dir: "daemon_dir (se_cfg env) (st_files (sv_cni st))"
    using service_okD(2) [OF assms(2)] by (simp add: adapter_ok_def networks_ok_def)
  with list_networks_ok [OF assms(1) dir] listed_network [OF dir] that show ?thesis by blast
qed

text \<open>A short reference that is not a predefined mode selects a network of the directory by its name.\<close>

lemma Resolve_short:
  assumes "list_networks env cfg Live cni = Inr ns" and "\<And>n. n \<in> set ns \<Longrightarrow> length (nw_ID n) = 64"
    and "TrimSpace ref = ref" and "ref \<noteq> []" and "length ref < 12" and "ParseNetworkMode ref = Inr ModeNetwork"
  shows "case Resolve env cfg Live ref cni of
      Inr n \<Rightarrow> n \<in> set ns \<and> nw_Name n = ref
    | Inl e \<Rightarrow> ref \<notin> set (map nw_Name ns) \<and> errors_is e (Cni ErrNetworkNotFound)"
proof -
  have id: "nw_ID n \<noteq> ref" if "n \<in> set ns" for n using assms(2) [OF that] assms(5) by auto
  have eq: "Resolve env cfg Live ref cni = (case find (\<lambda>n. nw_Name n = ref \<or> nw_ID n = ref) ns of
      Some n \<Rightarrow> Inr n | None \<Rightarrow> Inl (wrap_post (Sentinel (Cni ErrNetworkNotFound)) ('': '' @ quote ref)))"
    using assms by (auto simp: Resolve_def split: option.split)
  show ?thesis
  proof (cases "find (\<lambda>n. nw_Name n = ref \<or> nw_ID n = ref) ns")
    case None
    then have "ref \<notin> set (map nw_Name ns)" by (auto simp: find_None_iff)
    with eq None show ?thesis by simp
  next
    case (Some n)
    then have "n \<in> set ns \<and> (nw_Name n = ref \<or> nw_ID n = ref)" by (metis (mono_tags, lifting) find_Some_iff nth_mem)
    with eq Some id [of n] show ?thesis by simp
  qed
qed

lemma predefined_parse:
  "ParseNetworkMode DefaultNetworkName = Inr ModeNetwork" "ParseNetworkMode ''default'' = Inr ModeNetwork"
  "TrimSpace DefaultNetworkName = DefaultNetworkName" "TrimSpace ''default'' = ''default''"
  "isReservedNetworkName ''host''" "isReservedNetworkName ''none''"
  by code_simp+

lemma Resolve_mode:
  "Resolve env cfg Live ''host'' cni = Inr \<lparr>nw_ID = networkIDForName ''host'', nw_Name = ''host'', nw_Driver = ''host'',
     nw_Mode = ModeHost, nw_File = [], nw_Bridge = [], nw_Subnet = [], nw_Gateway = [], nw_Labels = []\<rparr>"
  "Resolve env cfg Live ''none'' cni = Inr \<lparr>nw_ID = networkIDForName ''none'', nw_Name = ''none'', nw_Driver = ''none'',
     nw_Mode = ModeNone, nw_File = [], nw_Bridge = [], nw_Subnet = [], nw_Gateway = [], nw_Labels = []\<rparr>"
proof -
  have "TrimSpace ''host'' = ''host''" "ParseNetworkMode ''host'' = Inr ModeHost"
    "TrimSpace ''none'' = ''none''" "ParseNetworkMode ''none'' = Inr ModeNone" by code_simp+
  then show "Resolve env cfg Live ''host'' cni = Inr \<lparr>nw_ID = networkIDForName ''host'', nw_Name = ''host'', nw_Driver = ''host'',
       nw_Mode = ModeHost, nw_File = [], nw_Bridge = [], nw_Subnet = [], nw_Gateway = [], nw_Labels = []\<rparr>"
    "Resolve env cfg Live ''none'' cni = Inr \<lparr>nw_ID = networkIDForName ''none'', nw_Name = ''none'', nw_Driver = ''none'',
       nw_Mode = ModeNone, nw_File = [], nw_Bridge = [], nw_Subnet = [], nw_Gateway = [], nw_Labels = []\<rparr>"
    by (simp_all add: Resolve_def Let_def)
qed

lemma networkDetail_Name [simp]: "nd_Name (networkDetail n) = nw_Name n"
  by (simp add: networkDetail_def)

lemma ensure_default_bridge:
  assumes "lists_conf (ce_confFiles (se_cni env))" and "service_ok env st" and "live env"
    and "ensure_default env (st, w) = ((st1, w1), Inr i)"
  shows "\<exists>b. Resolve (se_cni env) (se_cfg env) Live DefaultNetworkName (sv_cni st1) = Inr b"
proof (cases "Resolve (se_cni env) (se_cfg env) Live DefaultNetworkName (sv_cni st)")
  case (Inr b)
  with assms(3,4) show ?thesis by (auto simp: ensure_default_def EnsureDefaultNetwork_def)
next
  case (Inl e)
  let ?path = "networkFilePath (cf_confDir (se_cfg env)) DefaultNetworkName"
  have "CreateNetwork (se_cni env) (se_cfg env) Live (bridge_request DefaultNetworkName) (sv_cni st) = (sv_cni st1, Inr i)"
    using assms(3,4) Inl by (auto simp: ensure_default_def EnsureDefaultNetwork_def split: if_splits prod.splits)
  from CreateNetwork_effect [OF this] obtain doc where
    name: "good_name DefaultNetworkName" and conf: "get (st_files (sv_cni st1)) ?path = Some (Document doc)"
    by (auto simp: bridge_request_def predefined_parse Let_def)
  have ok1: "service_ok env st1" using ensure_default_ok [OF assms(1,2,4)] by simp
  have dir: "daemon_dir (se_cfg env) (st_files (sv_cni st1))"
    using service_okD(2) [OF ok1] by (simp add: adapter_ok_def networks_ok_def)
  have own: "is_own_file ?path" by (rule own_networkFilePath [OF name])
  obtain n where n: "parseNetworkFile (st_files (sv_cni st1)) ?path = Inr n"
    using own_parse [OF dir conf own] by metis
  then have "nw_Name n = DefaultNetworkName" using listed_network [OF dir own n] by simp
  moreover obtain ns where ns: "list_networks (se_cni env) (se_cfg env) Live (sv_cni st1) = Inr ns"
    "\<And>n. n \<in> set ns \<longleftrightarrow> (\<exists>p. is_own_file p \<and> parseNetworkFile (st_files (sv_cni st1)) p = Inr n)"
    using list_networks_ok [OF assms(1) dir] by blast
  ultimately have "DefaultNetworkName \<in> set (map nw_Name ns)" using n own by force
  then show ?thesis
    using Resolve_short [OF ns(1), of DefaultNetworkName] ns(2) listed_network [OF dir] predefined_parse
    by (cases "Resolve (se_cni env) (se_cfg env) Live DefaultNetworkName (sv_cni st1)") auto
qed

text \<open>
  Once the default network exists or can be created, the network listing succeeds; it shows
  Docker's predefined networks bridge, host and none exactly once each and every network of the
  directory exactly once, sorted by name.
\<close>

theorem network_listing_complete:
  assumes "lists_conf (ce_confFiles (se_cni env))" and "service_ok env st" and "live env"
    and "ensure_default env (st, w) = ((st1, w1), Inr i)"
  shows "\<exists>ds ns. NetworkList env (st, w) = ((st1, w1), Inr ds) \<and> sorted (map nd_Name ds) \<and> distinct (map nd_Name ds)
    \<and> set predefinedNetworks \<subseteq> set (map nd_Name ds)
    \<and> list_networks (se_cni env) (se_cfg env) Live (sv_cni st1) = Inr ns
    \<and> set (map nd_Name ds) = set (map nw_Name ns) \<union> {''host'', ''none''} \<and> set (map networkDetail ns) \<subseteq> set ds"
proof -
  note e = assms(4)
  have ok1: "service_ok env st1" using ensure_default_ok [OF assms(1,2) e] by simp
  from daemon_listing [OF assms(1) ok1] obtain ns where
    ns: "list_networks (se_cni env) (se_cfg env) Live (sv_cni st1) = Inr ns" "distinct (map nw_Name ns)"
    "\<And>n. n \<in> set ns \<Longrightarrow> good_name (nw_Name n) \<and> length (nw_ID n) = 64" by metis
  obtain b where b: "Resolve (se_cni env) (se_cfg env) Live DefaultNetworkName (sv_cni st1) = Inr b"
    using ensure_default_bridge [OF assms] by auto
  have notres: "nw_Name n \<noteq> ''host'' \<and> nw_Name n \<noteq> ''none''" if "n \<in> set ns" for n
    using ns(3) [OF that] predefined_parse by (auto simp: good_name_def)
  define h where "h = networkDetail (projr (Resolve (se_cni env) (se_cfg env) Live ''host'' (sv_cni st1)))"
  define no where "no = networkDetail (projr (Resolve (se_cni env) (se_cfg env) Live ''none'' (sv_cni st1)))"
  have modes: "nd_Name h = ''host''" "nd_Name no = ''none''" by (simp_all add: h_def no_def Resolve_mode)
  define ds where "ds = sort_key nd_Name ([networkDetail b, h, no] @ filter (\<lambda>d. nd_Name d \<notin> {nw_Name b, ''host'', ''none''}) (map networkDetail ns))"
  have "network_Resolve env ''host'' (st1, w1) = Inr h" "network_Resolve env ''none'' (st1, w1) = Inr no"
    "network_Resolve env DefaultNetworkName (st1, w1) = Inr (networkDetail b)"
    "network_List env (st1, w1) = Inr (map networkDetail ns)"
    using assms(3) ns(1) b by (simp_all add: network_Resolve_def network_List_def h_def no_def Resolve_mode)
  then have listed: "NetworkList env (st, w) = ((st1, w1), Inr ds)"
    using e modes by (simp add: NetworkList_def predefinedNetworks_def ds_def)
  note ds = ds_def
  have b_in: "b \<in> set ns" "nw_Name b = DefaultNetworkName"
    using Resolve_short [OF ns(1), of DefaultNetworkName] ns(3) b predefined_parse by auto
  have mem: "d \<in> set ds \<longleftrightarrow> d = h \<or> d = no \<or> d \<in> set (map networkDetail ns)" for d
  proof -
    have "m = b" if "m \<in> set ns" "nw_Name m = nw_Name b" for m
      using that b_in ns(2) by (auto simp: distinct_map inj_on_def)
    moreover have "set ds = {networkDetail b, h, no} \<union> {networkDetail n |n. n \<in> set ns \<and> nw_Name n \<noteq> nw_Name b
        \<and> nw_Name n \<noteq> ''host'' \<and> nw_Name n \<noteq> ''none''}" unfolding ds set_sort by auto
    ultimately show ?thesis using b_in(1) notres by (simp add: image_iff) blast
  qed
  have "distinct (map nw_Name (b # filter (\<lambda>n. nw_Name n \<noteq> nw_Name b) ns))"
    using ns(2) by (auto simp: distinct_map_filter)
  then have "distinct (map nd_Name ([networkDetail b, h, no] @ filter (\<lambda>d. nd_Name d \<notin> {nw_Name b, ''host'', ''none''}) (map networkDetail ns)))"
    using b_in modes ns(2) by (auto simp: filter_map comp_def distinct_map_filter)
  then have "distinct (map nd_Name ds)" unfolding ds by (simp only: distinct_map distinct_sort set_sort)
  moreover have "sorted (map nd_Name ds)" unfolding ds by (rule sorted_sort_key)
  moreover have "set (map nd_Name ds) = set (map nw_Name ns) \<union> {''host'', ''none''}"
  proof -
    have "set ds = {h, no} \<union> set (map networkDetail ns)" using mem by auto
    then show ?thesis using modes by (simp add: image_image)
  qed
  moreover have "set predefinedNetworks \<subseteq> set (map nw_Name ns) \<union> {''host'', ''none''}"
    using b_in by (auto simp: predefinedNetworks_def image_iff intro: bexI [of _ b])
  moreover have "set (map networkDetail ns) \<subseteq> set ds" using mem by blast
  ultimately show ?thesis using ns(1) listed by (intro exI [of _ ds] exI [of _ ns]) simp
qed

lemma ensure_default_files:
  assumes "ensure_default env (st, w) = ((st1, w1), r)" and "p \<noteq> networkFilePath (cf_confDir (se_cfg env)) DefaultNetworkName"
  shows "get (st_files (sv_cni st1)) p = get (st_files (sv_cni st)) p"
proof -
  obtain cni1 r1 where e: "EnsureDefaultNetwork (se_cni env) (se_cfg env) (se_ctx env w) (sv_cni st) = (cni1, r1)"
    by (cases "EnsureDefaultNetwork (se_cni env) (se_cfg env) (se_ctx env w) (sv_cni st)")
  have "TrimSpace DefaultNetworkName = DefaultNetworkName" by code_simp
  with e assms(2) CreateNetwork_effect [of "se_cni env" "se_cfg env" "se_ctx env w" "bridge_request DefaultNetworkName" "sv_cni st" cni1 r1]
  have "get (st_files cni1) p = get (st_files (sv_cni st)) p"
    by (auto simp: EnsureDefaultNetwork_def bridge_request_def Let_def split: sum.splits if_splits)
  with e assms(1) show ?thesis by (auto simp: ensure_default_def)
qed

lemma no_network_file:
  assumes "lists_conf (ce_confFiles (se_cni env))" and "service_ok env st" and "live env"
    and "get (st_files (sv_cni st)) (networkFilePath (cf_confDir (se_cfg env)) ''default'') = None"
  shows "\<exists>e. network_Resolve env ''default'' (st, w) = Inl e"
proof -
  have dir: "daemon_dir (se_cfg env) (st_files (sv_cni st))"
    using service_okD(2) [OF assms(2)] by (simp add: adapter_ok_def networks_ok_def)
  from list_networks_ok [OF assms(1) dir] obtain ns where
    ns: "list_networks (se_cni env) (se_cfg env) Live (sv_cni st) = Inr ns"
    "\<And>n. n \<in> set ns \<longleftrightarrow> (\<exists>p. is_own_file p \<and> parseNetworkFile (st_files (sv_cni st)) p = Inr n)" by blast
  have "nw_Name n \<noteq> ''default'' \<and> length (nw_ID n) = 64" if "n \<in> set ns" for n
  proof -
    obtain p where p: "is_own_file p" "parseNetworkFile (st_files (sv_cni st)) p = Inr n" using ns(2) \<open>n \<in> set ns\<close> by blast
    then have "get (st_files (sv_cni st)) p \<noteq> None" by (auto simp: parseNetworkFile_def split: option.splits)
    with listed_network [OF dir p] assms(4) show ?thesis by auto
  qed
  then show ?thesis
    using Resolve_short [OF ns(1), of "''default''"] predefined_parse assms(3)
    by (auto simp: network_Resolve_def split: sum.splits)
qed

text \<open>
  Inspecting the network \<^verbatim>\<open>default\<close> fails unless a user network has this very name: the
  alias makes the daemon create the bridge network, but the reference is then looked up again under
  the alias and not under the name of the bridge network.
\<close>

theorem network_inspect_default_fails:
  assumes "lists_conf (ce_confFiles (se_cni env))" and "service_ok env st" and "live env"
    and "get (st_files (sv_cni st)) (networkFilePath (cf_confDir (se_cfg env)) ''default'') = None"
  shows "\<exists>e. snd (NetworkInspect env ''default'' (st, w)) = Inl e"
proof -
  obtain st1 w1 r where e: "ensure_default env (st, w) = ((st1, w1), r)" by (metis prod_cases3 surj_pair)
  have "get (st_files (sv_cni st1)) (networkFilePath (cf_confDir (se_cfg env)) ''default'') = None"
    using ensure_default_files [OF e] assms(4) by simp
  with no_network_file [OF assms(1) _ assms(3), of st1 w1] ensure_default_ok [OF assms(1,2) e]
    no_network_file [OF assms, of w] e show ?thesis
    by (auto simp: NetworkInspect_def Let_def predefined_parse split: sum.split)
qed

section \<open>Concrete requests\<close>

theorem service_history_consistent_witness:
  "distinct (map c_ID (List (sv_registry (fst (fold (service_step (sample_service_env ''running''))
     [OnContainers (CoCreate sample_request), OnContainers (CoStart ''web''), OpNetworkList, OpInfo,
      OnContainers (CoRemove ''web'' True)] (sample_service, 0))))))"
proof -
  let ?ops = "[OnContainers (CoCreate sample_request), OnContainers (CoStart ''web''), OpNetworkList, OpInfo,
      OnContainers (CoRemove ''web'' True)]"
  obtain st w where "fold (service_step (sample_service_env ''running'')) ?ops (sample_service, 0) = (st, w)"
    by (cases "fold (service_step (sample_service_env ''running'')) ?ops (sample_service, 0)")
  with service_history_consistent [OF _ sample_service_ok this] sample_lists_conf show ?thesis
    by (simp del: fold_simps)
qed

definition sample_exec_env :: "nat service_env" where
  "sample_exec_env = (sample_service_env ''running'')\<lparr>se_Exec := (\<lambda>i q w. (w, Inr \<lparr>xr_ID = xq_ID q, xr_ExitCode = Some 3,
     xr_Running = False, xr_Pid = 7, xr_StartedAt = zero_time, xr_FinishedAt = zero_time\<rparr>))\<rparr>"

definition sample_exec :: exec_create_request where
  "sample_exec = \<lparr>xc_Command = [''ls''], xc_Env = [], xc_WorkingDir = [], xc_User = [], xc_TTY = False,
     xc_AttachStdin = False, xc_AttachStdout = True, xc_AttachStderr = True\<rparr>"

definition sample_exec_start :: exec_start_request where
  "sample_exec_start = \<lparr>xs_Detach = False, xs_TTY = False, xs_Width = 0, xs_Height = 0, xs_Stdin = True,
     xs_Stdout = True, xs_Stderr = True\<rparr>"

definition sample_with_exec :: service_state where
  "sample_with_exec = fst (fst (ExecCreate sample_exec_env ''web'' sample_exec (sample_after_create, 8)))"

theorem exec_lifecycle_witness:
  "\<exists>rec. ExecInspect sample_exec_env ''e1'' (fst (ExecStart sample_exec_env ''e1'' sample_exec_start (sample_with_exec, 8))) = Inr rec
     \<and> er_ExitCode rec = Some 3"
proof -
  have create: "ExecCreate sample_exec_env ''web'' sample_exec (sample_after_create, 8) = ((sample_with_exec, 8), Inr ''e1'')"
    and res: "resolveContainer sample_exec_env ''web'' (sample_after_create, 8) = Inr sample_container"
    and start: "snd (ExecStart sample_exec_env ''e1'' sample_exec_start (sample_with_exec, 8)) = Inr 3"
    and none: "se_ExecRecord sample_exec_env ''e1'' 8 = None" by code_simp+
  obtain st2 w2 where s: "ExecStart sample_exec_env ''e1'' sample_exec_start (sample_with_exec, 8) = ((st2, w2), Inr 3)"
    using start by (metis prod.collapse)
  have norec: "se_ExecRecord sample_exec_env i v = None" for i v
    by (simp add: sample_exec_env_def sample_service_env_def)
  obtain q res rec where rec: "se_Exec sample_exec_env (c_ID sample_container) q 8 = (w2, Inr res)"
    "ExecInspect sample_exec_env ''e1'' (st2, w2) = Inr rec" "er_ExitCode rec = xr_ExitCode res"
    using exec_lifecycle [OF create res none s] unfolding sum.case norec by blast
  have "xr_ExitCode res = Some 3" using rec(1) by (auto simp: sample_exec_env_def)
  with rec s show ?thesis by simp
qed

theorem image_remove_decision_witness:
  "\<exists>e. snd (ImageRemove (sample_service_env []) ''redis:7'' False (sample_after_create, 8)) = Inl e
     \<and> fst (WriteServiceError (Some e)) = 409"
proof -
  have "TrimPrefix (TrimSpace ''redis:7'') ''/'' = ''redis:7''"
    "se_ImageInspect (sample_service_env []) ''redis:7'' 8 = (8, Inr sample_image)"
    "filter (\<lambda>c. containerUsesImage (se_NormalizeReference (sample_service_env [])) c sample_image)
       (List (sv_registry sample_after_create)) \<noteq> []" by code_simp+
  with image_remove_decision [of "''redis:7''" "''redis:7''" "sample_service_env []" 8 8 sample_image _ sample_after_create False]
  show ?thesis by (cases "ImageRemove (sample_service_env []) ''redis:7'' False (sample_after_create, 8)") auto
qed

definition sample_with_bridge :: cni_state where
  "sample_with_bridge = fst (CreateNetwork sample_cni_env sample_cfg Live (bridge_request DefaultNetworkName) empty_cni_state)"

lemma sample_create_bridge:
  "CreateNetwork sample_cni_env sample_cfg Live (bridge_request DefaultNetworkName) empty_cni_state
    = (sample_with_bridge, Inr (networkIDForName DefaultNetworkName))"
proof -
  have "allocateSubnet ''/etc/cni/net.d'' [] (Inr []) [] [] = Inr (''10.88.0.0/24'', ''10.88.0.1'')"
    "TrimSpace DefaultNetworkName = DefaultNetworkName" "validateNetworkName DefaultNetworkName = None"
    "\<not> isReservedNetworkName DefaultNetworkName" "ToLower (TrimSpace driverBridge) = driverBridge"
    by code_simp+
  then show ?thesis
    by (simp add: sample_with_bridge_def CreateNetwork_def bridge_request_def empty_cni_state_def
        sample_cni_env_def sample_cfg_def buildBridgeNetworkConfig_def Let_def)
qed

lemma sample_no_bridge:
  "Resolve sample_cni_env sample_cfg Live DefaultNetworkName empty_cni_state
    = Inl (wrap_post (Sentinel (Cni ErrNetworkNotFound)) ('': '' @ quote DefaultNetworkName))"
  by code_simp

theorem network_listing_complete_witness:
  "\<exists>ds. snd (NetworkList (sample_service_env []) (sample_service, 0)) = Inr ds \<and> ''none'' \<in> set (map nd_Name ds)"
proof -
  have "ensure_default (sample_service_env []) (sample_service, 0)
      = ((sample_service\<lparr>sv_cni := sample_with_bridge\<rparr>, 0), Inr (networkIDForName DefaultNetworkName))"
    using sample_create_bridge sample_no_bridge
    by (simp add: ensure_default_def EnsureDefaultNetwork_def sample_service_def)
  from network_listing_complete [OF _ sample_service_ok sample_live this, unfolded sample_env_simps, OF sample_lists_conf]
  obtain ds where "snd (NetworkList (sample_service_env []) (sample_service, 0)) = Inr ds"
    "set predefinedNetworks \<subseteq> set (map nd_Name ds)" by (elim exE conjE) (simp only: snd_conv)
  moreover have "''none'' \<in> set predefinedNetworks" by code_simp
  ultimately show ?thesis by (intro exI [of _ ds] conjI) (auto dest: subsetD)
qed

theorem network_inspect_default_fails_witness:
  "\<exists>e. snd (NetworkInspect (sample_service_env []) ''default'' (sample_service, 0)) = Inl e"
  using network_inspect_default_fails [OF _ sample_service_ok sample_live, of "[]" 0] sample_lists_conf
  by (simp add: sample_service_def empty_cni_state_def)

end
