(* ===== verification/Ctd_Spec.thy ===== *)
theory Ctd_Spec
  imports Ports_Types Error_Mapping
begin

text \<open>
  \<^verbatim>\<open>internal/adapters/containerd/spec.go\<close>: the translation of a Docker-shaped container
  configuration and an OCI image configuration into the options from which containerd generates the
  OCI runtime spec. The option functions of containerd's \<^verbatim>\<open>oci\<close> package are the
  constructors of \<open>spec_opt\<close>, in the order they are applied; generating the spec from them is a
  parameter.
\<close>

record ctd_mount =
  cm_Type :: string
  cm_Source :: string
  cm_Destination :: string
  cm_ReadOnly :: bool
  cm_Options :: "string list"

record ctd_config =
  cg_ID :: string
  cg_Name :: string
  cg_Image :: image_id
  cg_Command :: "string list"
  cg_Entrypoint :: "string list"
  cg_Env :: "(string, string) gomap"
  cg_WorkingDir :: string
  cg_User :: string
  cg_Hostname :: string
  cg_Labels :: "(string, string) gomap"
  cg_Mounts :: "ctd_mount list"
  cg_Terminal :: bool
  cg_OpenStdin :: bool
  cg_Snapshotter :: string
  cg_SnapshotID :: string

text \<open>The fields of \<^verbatim>\<open>ocispec.ImageConfig\<close> and \<^verbatim>\<open>specs.Mount\<close> the adapter uses.\<close>

record oci_image_config =
  oi_User :: string
  oi_Env :: "string list"
  oi_Entrypoint :: "string list"
  oi_Cmd :: "string list"
  oi_WorkingDir :: string

record oci_mount =
  om_Destination :: string
  om_Type :: string
  om_Source :: string
  om_Options :: "string list"

datatype spec_opt =
    WithEnv "string list"
  | WithProcessArgs "string list"
  | WithUser u32 u32
  | WithProcessCwd string
  | WithHostname string
  | WithAnnotations "(string, string) gomap"
  | WithMounts "oci_mount list"
  | WithTTY

abbreviation invalid_argument :: "string \<Rightarrow> gerror" where
  "invalid_argument m \<equiv> wrap_post (Sentinel (Ctd CErrInvalidArgument)) m"

section \<open>Arguments, user, environment\<close>

definition resolveArgs :: "string list \<Rightarrow> string list \<Rightarrow> string list \<Rightarrow> string list \<Rightarrow> string list" where
  "resolveArgs entrypoint command imageEntrypoint imageCmd =
    (if entrypoint = [] then imageEntrypoint else entrypoint) @ (if command = [] then imageCmd else command)"

definition resolveUser :: "string \<Rightarrow> string \<Rightarrow> gerror + string" where
  "resolveUser override imageUser =
    (let user = (if override = [] then imageUser else override);
         refused = Inl (invalid_argument ('': user '' @ quote user @ '': only numeric uid[:gid] is supported'')) in
     if user = [] then Inr []
     else let parts = Split CHR '':'' user in
       if length parts > 2 then refused
       else if list_all (\<lambda>p. ParseUint 32 p \<noteq> None) parts then Inr user else refused)"

definition userSpecOpt :: "string \<Rightarrow> gerror + spec_opt option" where
  "userSpecOpt user =
    (if user = [] then Inr None
     else let parts = Split CHR '':'' user in
       case ParseUint 32 (parts ! 0) of
         None \<Rightarrow> Inl (invalid_argument ('': user '' @ quote user @ '': invalid uid''))
       | Some uid \<Rightarrow>
           if length parts = 2
           then (case ParseUint 32 (parts ! 1) of
               None \<Rightarrow> Inl (invalid_argument ('': user '' @ quote user @ '': invalid gid''))
             | Some gid \<Rightarrow> Inr (Some (WithUser (word_of_nat uid) (word_of_nat gid))))
           else Inr (Some (WithUser (word_of_nat uid) 0)))"

definition ctd_envSlice :: "(string, string) gomap \<Rightarrow> string list" where
  "ctd_envSlice env = map (\<lambda>k. k @ ''='' @ get_or [] env k) (sorted_keys env)"

section \<open>Mounts\<close>

definition appendIfMissing :: "string list \<Rightarrow> string \<Rightarrow> string list" where
  "appendIfMissing options option = (if option \<in> set options then options else options @ [option])"

definition mountOptions :: "ctd_mount \<Rightarrow> string \<Rightarrow> string list" where
  "mountOptions m mountType =
    (let o1 = (if mountType = ''bind'' \<and> ''bind'' \<notin> set (cm_Options m)
               then appendIfMissing (cm_Options m) ''rbind'' else cm_Options m)
     in if cm_ReadOnly m then appendIfMissing o1 ''ro''
        else if mountType = ''bind'' then appendIfMissing o1 ''rw'' else o1)"

definition translateMount :: "ctd_mount \<Rightarrow> gerror + oci_mount" where
  "translateMount m =
    (if \<not> HasPrefix (cm_Destination m) ''/''
     then Inl (invalid_argument ('': mount destination '' @ quote (cm_Destination m) @ '' must be absolute''))
     else let mountType = (if cm_Type m = [] then ''bind'' else cm_Type m);
              source = (if mountType = ''tmpfs'' \<and> cm_Source m = [] then ''tmpfs'' else cm_Source m)
          in Inr \<lparr>om_Destination = cm_Destination m, om_Type = mountType, om_Source = source,
                  om_Options = mountOptions m mountType\<rparr>)"

definition translateMounts :: "ctd_mount list \<Rightarrow> gerror + oci_mount list" where
  "translateMounts ms = mapM translateMount ms"

section \<open>The options\<close>

definition shortHostname :: "string \<Rightarrow> string" where
  "shortHostname i = (if length i > 12 then take 12 i else i)"

definition containerHostname :: "ctd_config \<Rightarrow> string" where
  "containerHostname cfg = (if cg_Hostname cfg \<noteq> [] then cg_Hostname cfg else shortHostname (cg_ID cfg))"

fun firstNonEmpty :: "string list \<Rightarrow> string" where
  "firstNonEmpty [] = []"
| "firstNonEmpty (v # vs) = (if v \<noteq> [] then v else firstNonEmpty vs)"

definition resolveSpecInputs ::
  "ctd_config \<Rightarrow> oci_image_config \<Rightarrow> gerror + (string list \<times> spec_opt option \<times> oci_mount list)" where
  "resolveSpecInputs cfg img =
    (let args = resolveArgs (cg_Entrypoint cfg) (cg_Command cfg) (oi_Entrypoint img) (oi_Cmd img) in
     if args = [] then Inl (invalid_argument '': no command specified'')
     else rbind (resolveUser (cg_User cfg) (oi_User img)) (\<lambda>user.
       rbind (userSpecOpt user) (\<lambda>userOpt.
       rbind (translateMounts (cg_Mounts cfg)) (\<lambda>mounts. Inr (args, userOpt, mounts)))))"

definition buildSpecOpts ::
  "ctd_config \<Rightarrow> oci_image_config \<Rightarrow> string list \<Rightarrow> spec_opt option \<Rightarrow> oci_mount list \<Rightarrow> spec_opt list" where
  "buildSpecOpts cfg img args userOpt mounts =
    (let cwd = firstNonEmpty [cg_WorkingDir cfg, oi_WorkingDir img]; hostname = containerHostname cfg in
     [WithEnv (oi_Env img), WithEnv (ctd_envSlice (cg_Env cfg)), WithProcessArgs args]
     @ (case userOpt of Some u \<Rightarrow> [u] | None \<Rightarrow> [])
     @ (if cwd \<noteq> [] then [WithProcessCwd cwd] else [])
     @ (if hostname \<noteq> [] then [WithHostname hostname] else [])
     @ (if cg_Labels cfg \<noteq> [] then [WithAnnotations (cg_Labels cfg)] else [])
     @ (if mounts \<noteq> [] then [WithMounts mounts] else [])
     @ (if cg_Terminal cfg then [WithTTY] else []))"

text \<open>
  \<^verbatim>\<open>oci.GenerateSpecWithPlatform\<close> as a function of the namespace of the context, the
  container identity, the image and the options.
\<close>

type_synonym 'spec spec_generator = "string \<Rightarrow> string \<Rightarrow> image_id \<Rightarrow> spec_opt list \<Rightarrow> gerror + 'spec"

abbreviation namespaces_Default :: string where "namespaces_Default \<equiv> ''default''"

definition buildSpec ::
  "'spec spec_generator \<Rightarrow> string option \<Rightarrow> ctd_config \<Rightarrow> oci_image_config \<Rightarrow> string \<Rightarrow> gerror + 'spec" where
  "buildSpec gen ctxNamespace cfg img namespace =
    (if cg_ID cfg = [] then Inl (invalid_argument '': container id is required'')
     else let ns = (if namespace = [] then namespaces_Default else namespace);
              effective = (case ctxNamespace of Some n \<Rightarrow> n | None \<Rightarrow> ns) in
       if TrimSpace (cg_Image cfg) = [] then Inl (invalid_argument '': image reference is required'')
       else rbind (resolveSpecInputs cfg img) (\<lambda>(args, userOpt, mounts).
         gen effective (cg_ID cfg) (cg_Image cfg) (buildSpecOpts cfg img args userOpt mounts)))"

section \<open>What a valid configuration becomes\<close>

lemma ParseUint_dec: "n < 2 ^ b \<Longrightarrow> ParseUint b (dec_digits n) = Some n"
  by (simp add: ParseUint_def)

lemma ParseUint_bound: "ParseUint b s = Some n \<Longrightarrow> n < 2 ^ b"
  by (auto simp: ParseUint_def bind_eq_Some_conv split: if_splits)

text \<open>The user a configuration asks for, as numbers: none, a uid, or a uid and a gid.\<close>

definition numeric_user :: "string \<Rightarrow> spec_opt option \<Rightarrow> bool" where
  "numeric_user user opt \<longleftrightarrow>
     (user = [] \<and> opt = None)
   \<or> (\<exists>uid. ParseUint 32 user = Some uid \<and> opt = Some (WithUser (word_of_nat uid) 0))
   \<or> (\<exists>u g uid gid. user = u @ '':'' @ g \<and> ParseUint 32 u = Some uid \<and> ParseUint 32 g = Some gid
        \<and> opt = Some (WithUser (word_of_nat uid) (word_of_nat gid)))"

lemma ParseUint_no_colon: "ParseUint b s = Some n \<Longrightarrow> CHR '':'' \<notin> set s \<and> s \<noteq> []"
  by (auto simp: ParseUint_def parse_digits_def bind_eq_Some_conv list_all_iff is_digit_def split: if_splits)

lemma Split_two: "CHR '':'' \<notin> set u \<Longrightarrow> CHR '':'' \<notin> set g \<Longrightarrow> Split CHR '':'' (u @ '':'' @ g) = [u, g]"
  by (simp add: Split_append Split_no_sep)

lemma numeric_user_computed:
  assumes "numeric_user user opt"
  shows "resolveUser user img = Inr user \<or> user = []" and "userSpecOpt user = Inr opt"
proof -
  have one: "Split CHR '':'' user = [user]" if "ParseUint 32 user = Some uid" for uid
    using ParseUint_no_colon [OF that] by (simp add: Split_no_sep)
  have two: "Split CHR '':'' (u @ '':'' @ g) = [u, g]" if "ParseUint 32 u = Some uid" "ParseUint 32 g = Some gid" for u g uid gid
    using ParseUint_no_colon [OF that(1)] ParseUint_no_colon [OF that(2)] by (intro Split_two) auto
  from assms show "resolveUser user img = Inr user \<or> user = []"
    unfolding numeric_user_def
    by (elim disjE exE conjE) (simp_all add: resolveUser_def Let_def one two [simplified])
  from assms show "userSpecOpt user = Inr opt"
    unfolding numeric_user_def
    by (elim disjE exE conjE) (auto simp: userSpecOpt_def Let_def one two [simplified] dest: ParseUint_no_colon)
qed

lemma computed_numeric_user:
  assumes "resolveUser user img = Inr user" and "userSpecOpt user = Inr opt"
  shows "numeric_user user opt"
proof (cases "user = []")
  case True
  with assms(2) show ?thesis by (simp add: userSpecOpt_def numeric_user_def)
next
  case False
  have join: "Join '':'' (Split CHR '':'' user) = user" by (rule Join_Split)
  from False assms(1) have "length (Split CHR '':'' user) \<le> 2" by (auto simp: resolveUser_def Let_def split: if_splits)
  then consider u where "Split CHR '':'' user = [u]" | u g where "Split CHR '':'' user = [u, g]"
    using Split_nonempty [of "CHR '':''" user]
    by (cases "Split CHR '':'' user" rule: remdups_adj.cases) auto
  then show ?thesis
  proof cases
    case 1
    with join have "u = user" by simp
    with 1 False assms(2) show ?thesis by (auto simp: userSpecOpt_def numeric_user_def Let_def split: option.splits)
  next
    case (2 u g)
    with join have "user = u @ '':'' @ g" by simp
    moreover from 2 False assms(2) obtain uid gid where "ParseUint 32 u = Some uid" "ParseUint 32 g = Some gid"
      "opt = Some (WithUser (word_of_nat uid) (word_of_nat gid))"
      by (auto simp: userSpecOpt_def Let_def split: option.splits)
    ultimately show ?thesis unfolding numeric_user_def by blast
  qed
qed

lemma user_spec_iff:
  "rbind (resolveUser override img) userSpecOpt = Inr opt \<longleftrightarrow> numeric_user (if override = [] then img else override) opt"
proof -
  define user where "user = (if override = [] then img else override)"
  have eq: "resolveUser override img = resolveUser user []" by (simp add: resolveUser_def user_def Let_def)
  have "resolveUser user [] = Inr u \<Longrightarrow> u = user" for u
    by (auto simp: resolveUser_def Let_def split: if_splits)
  moreover have "user = [] \<Longrightarrow> resolveUser user [] = Inr user" by (simp add: resolveUser_def)
  ultimately have "rbind (resolveUser user []) userSpecOpt = Inr opt \<longleftrightarrow> numeric_user user opt"
    using numeric_user_computed(1) [of user opt "[]"] numeric_user_computed(2) [of user opt] computed_numeric_user [of user "[]" opt]
    by (auto simp: rbind_eq_Inr)
  then show ?thesis by (simp add: eq user_def)
qed

definition mount_as :: "ctd_mount \<Rightarrow> oci_mount \<Rightarrow> bool" where
  "mount_as m o' \<longleftrightarrow> HasPrefix (cm_Destination m) ''/'' \<and> om_Destination o' = cm_Destination m
     \<and> om_Type o' = (if cm_Type m = [] then ''bind'' else cm_Type m)
     \<and> prefix (cm_Options m) (om_Options o')
     \<and> (if cm_ReadOnly m then ''ro'' \<in> set (om_Options o')
        else om_Type o' \<noteq> ''bind'' \<or> ''rw'' \<in> set (om_Options o'))
     \<and> (om_Type o' \<noteq> ''bind'' \<or> ''bind'' \<in> set (om_Options o') \<or> ''rbind'' \<in> set (om_Options o'))"

lemma appendIfMissing_prefix:
  "prefix xs (appendIfMissing ys x) \<longleftrightarrow> prefix xs ys \<or> x \<notin> set ys \<and> xs = ys @ [x]"
  "x \<in> set (appendIfMissing ys x)" "y \<in> set ys \<Longrightarrow> y \<in> set (appendIfMissing ys x)"
  by (auto simp: appendIfMissing_def prefix_snoc)

lemma translateMount_Inr: "translateMount m = Inr o' \<Longrightarrow> mount_as m o'"
  by (auto simp: translateMount_def mount_as_def mountOptions_def Let_def appendIfMissing_prefix split: if_splits)

lemma translateMount_Inl:
  "translateMount m = Inl e \<longleftrightarrow> \<not> HasPrefix (cm_Destination m) ''/'' \<and>
     e = invalid_argument ('': mount destination '' @ quote (cm_Destination m) @ '' must be absolute'')"
  by (auto simp: translateMount_def Let_def)

lemma translateMounts_cases:
  "case translateMounts ms of
     Inr os \<Rightarrow> list_all2 mount_as ms os
   | Inl e \<Rightarrow> \<not> list_all (\<lambda>m. HasPrefix (cm_Destination m) ''/'') ms \<and> errors_is e (Ctd CErrInvalidArgument)"
proof (induction ms)
  case (Cons m ms)
  show ?case
  proof (cases "translateMount m")
    case (Inl e)
    then have "\<not> HasPrefix (cm_Destination m) ''/'' \<and> errors_is e (Ctd CErrInvalidArgument)" by (simp add: translateMount_Inl)
    with Inl show ?thesis by (simp add: translateMounts_def)
  next
    case (Inr o')
    with Cons translateMount_Inr [OF Inr] show ?thesis
      by (cases "translateMounts ms") (auto simp: translateMounts_def)
  qed
qed (simp add: translateMounts_def)

lemma user_spec_error:
  "rbind (resolveUser override img) userSpecOpt = Inl e \<Longrightarrow> errors_is e (Ctd CErrInvalidArgument)"
  by (auto simp: rbind_eq_Inl resolveUser_def userSpecOpt_def Let_def split: if_splits option.splits)

text \<open>
  A configuration is translated exactly when the container and its image give a command, the
  requested (or else the image's) user is empty or numeric, uid or uid:gid in 32 bits, and every
  mount has an absolute destination; anything else is refused as an invalid argument. The
  command is the entrypoint followed by the arguments, each taken from the request if given there and
  from the image otherwise; the numbers of the user are the ones written; every mount keeps its
  destination and options, a read-only one is mounted read-only and a writable bind mount writable.
\<close>

theorem spec_inputs_translated:
  "case resolveSpecInputs cfg img of
     Inr (args, userOpt, mounts) \<Rightarrow>
       args = (if cg_Entrypoint cfg = [] then oi_Entrypoint img else cg_Entrypoint cfg)
              @ (if cg_Command cfg = [] then oi_Cmd img else cg_Command cfg)
       \<and> args \<noteq> [] \<and> numeric_user (if cg_User cfg = [] then oi_User img else cg_User cfg) userOpt
       \<and> list_all2 mount_as (cg_Mounts cfg) mounts
   | Inl e \<Rightarrow> errors_is e (Ctd CErrInvalidArgument) \<and>
       (resolveArgs (cg_Entrypoint cfg) (cg_Command cfg) (oi_Entrypoint img) (oi_Cmd img) = []
        \<or> (\<nexists>u. numeric_user (if cg_User cfg = [] then oi_User img else cg_User cfg) u)
        \<or> \<not> list_all (\<lambda>m. HasPrefix (cm_Destination m) ''/'') (cg_Mounts cfg))"
proof -
  define args where "args = resolveArgs (cg_Entrypoint cfg) (cg_Command cfg) (oi_Entrypoint img) (oi_Cmd img)"
  define ru where "ru = rbind (resolveUser (cg_User cfg) (oi_User img)) userSpecOpt"
  have eq: "resolveSpecInputs cfg img = (if args = [] then Inl (invalid_argument '': no command specified'')
      else rbind ru (\<lambda>u. rbind (translateMounts (cg_Mounts cfg)) (\<lambda>ms. Inr (args, u, ms))))"
    by (cases "resolveUser (cg_User cfg) (oi_User img)") (simp_all add: resolveSpecInputs_def args_def ru_def Let_def)
  show ?thesis
  proof (cases "args = []")
    case True
    then show ?thesis by (simp add: eq args_def [symmetric])
  next
    case False
    show ?thesis
    proof (cases ru)
      case (Inl e)
      then have "errors_is e (Ctd CErrInvalidArgument)" using user_spec_error by (simp add: ru_def)
      moreover have "\<nexists>u. numeric_user (if cg_User cfg = [] then oi_User img else cg_User cfg) u"
        using Inl user_spec_iff [of "cg_User cfg" "oi_User img"] by (auto simp: ru_def)
      ultimately show ?thesis using False Inl by (simp add: eq)
    next
      case (Inr u)
      then have "numeric_user (if cg_User cfg = [] then oi_User img else cg_User cfg) u"
        using user_spec_iff [of "cg_User cfg" "oi_User img" u] by (simp add: ru_def)
      with Inr False translateMounts_cases [of "cg_Mounts cfg"] show ?thesis
        by (auto simp: eq args_def resolveArgs_def split: sum.splits)
    qed
  qed
qed

definition sample_ctd_config :: ctd_config where
  "sample_ctd_config = \<lparr>cg_ID = ''c1'', cg_Name = [], cg_Image = ''redis:7'', cg_Command = [''--port'', ''1''], cg_Entrypoint = [],
     cg_Env = [], cg_WorkingDir = [], cg_User = ''1000:50'', cg_Hostname = [], cg_Labels = [],
     cg_Mounts = [\<lparr>cm_Type = [], cm_Source = ''/srv'', cm_Destination = ''/data'', cm_ReadOnly = True, cm_Options = []\<rparr>],
     cg_Terminal = False, cg_OpenStdin = False, cg_Snapshotter = [], cg_SnapshotID = []\<rparr>"

definition sample_image_config :: oci_image_config where
  "sample_image_config = \<lparr>oi_User = [], oi_Env = [], oi_Entrypoint = [''redis-server''], oi_Cmd = [''--help''], oi_WorkingDir = []\<rparr>"

theorem spec_inputs_translated_witness:
  "\<exists>u ms. resolveSpecInputs sample_ctd_config sample_image_config = Inr ([''redis-server'', ''--port'', ''1''], u, ms)
     \<and> numeric_user ''1000:50'' u \<and> list_all2 mount_as (cg_Mounts sample_ctd_config) ms"
proof -
  have "dec_digits 1000 = ''1000''" "dec_digits 50 = ''50''" by code_simp+
  then have "ParseUint 32 ''1000'' = Some 1000" "ParseUint 32 ''50'' = Some 50"
    using ParseUint_dec [of 1000 32] ParseUint_dec [of 50 32] by simp_all
  moreover have "''1000:50'' = ''1000'' @ '':'' @ ''50''" by simp
  ultimately have user: "\<exists>u. numeric_user ''1000:50'' u" unfolding numeric_user_def by blast
  have fields: "cg_User sample_ctd_config = ''1000:50''" "cg_Entrypoint sample_ctd_config = []" "cg_Command sample_ctd_config = [''--port'', ''1'']"
    "oi_Entrypoint sample_image_config = [''redis-server'']" by (simp_all add: sample_ctd_config_def sample_image_config_def)
  have abs: "list_all (\<lambda>m. HasPrefix (cm_Destination m) ''/'') (cg_Mounts sample_ctd_config)"
    by (simp add: sample_ctd_config_def HasPrefix_def)
  show ?thesis
    using spec_inputs_translated [of sample_ctd_config sample_image_config] user abs
    by (cases "resolveSpecInputs sample_ctd_config sample_image_config") (auto simp: fields resolveArgs_def)
qed

end
