(* ===== verification/Ctd_Adapter.thy ===== *)
theory Ctd_Adapter
  imports Ctd_Spec Registry
begin

text \<open>
  \<^verbatim>\<open>internal/adapters/containerd/adapter.go\<close>, \<^verbatim>\<open>exec.go\<close> and the interfaces
  of \<^verbatim>\<open>client.go\<close>: container lifecycle and processes on containerd.

  The seam \<^verbatim>\<open>Client\<close> with its handles is the record \<open>ctd_client\<close>: a handle is
  the identity it stands for (a container, or a container with the identity of a process in it), and
  each method is a function on the world. A \<^verbatim>\<open>select\<close> over the exit channel, the context
  and a timer is the function \<open>cl_await\<close> or \<open>cl_awaitTimer\<close> of the world: which case is
  ready is decided there. The state of the adapter is the set of detached input pipes and the
  recorded processes.
\<close>

section \<open>client.go\<close>

datatype task_status = TsUnknown | TsCreated | TsRunning | TsStopped | TsPaused | TsPausing

type_synonym process_handle = "container_id \<times> string option"

text \<open>\<^verbatim>\<open>ExitStatus.Result\<close>: an error, or the exit code with its time.\<close>

type_synonym exit_status = "gerror + (u32 \<times> gotime)"

datatype awaited = GotExit exit_status | ChanClosed | CtxDone gerror

record task_io =
  io_Stdin :: bool
  io_Stdout :: bool
  io_Stderr :: bool
  io_Terminal :: bool

record 'spec new_container_request =
  nr_ID :: string
  nr_Image :: string
  nr_Snapshotter :: string
  nr_SnapshotID :: string
  nr_Spec :: 'spec
  nr_Labels :: "(string, string) gomap"

text \<open>The fields of the OCI process the daemon sets; \<^verbatim>\<open>oci.ApplyOpts\<close> is a parameter.\<close>

record oci_process =
  op_Args :: "string list"
  op_Terminal :: bool
  op_Env :: "string list"
  op_Cwd :: string
  op_UID :: u32
  op_GID :: u32

record ('w, 'spec) ctd_client =
  cl_errdefs :: errdefs
  cl_GetImage :: "string \<Rightarrow> 'w \<Rightarrow> 'w \<times> gerror option"
  cl_ImageSpec :: "string \<Rightarrow> 'w \<Rightarrow> 'w \<times> (gerror + oci_image_config)"
  cl_IsUnpacked :: "string \<Rightarrow> string \<Rightarrow> 'w \<Rightarrow> 'w \<times> (gerror + bool)"
  cl_Unpack :: "string \<Rightarrow> string \<Rightarrow> 'w \<Rightarrow> 'w \<times> gerror option"
  cl_NewContainer :: "'spec new_container_request \<Rightarrow> 'w \<Rightarrow> 'w \<times> gerror option"
  cl_LoadContainer :: "container_id \<Rightarrow> 'w \<Rightarrow> 'w \<times> (gerror + (string \<times> string))"
  cl_FindContainerByName :: "string \<Rightarrow> 'w \<Rightarrow> 'w \<times> gerror option"
  cl_RemoveSnapshot :: "string \<Rightarrow> string \<Rightarrow> 'w \<Rightarrow> 'w \<times> gerror option"
  cl_Labels :: "container_id \<Rightarrow> 'w \<Rightarrow> 'w \<times> (gerror + (string, string) gomap)"
  cl_Process :: "container_id \<Rightarrow> 'w \<Rightarrow> 'w \<times> (gerror + oci_process option)"
  cl_NewTask :: "container_id \<Rightarrow> task_io \<Rightarrow> 'w \<Rightarrow> 'w \<times> gerror option"
  cl_Task :: "container_id \<Rightarrow> 'w \<Rightarrow> 'w \<times> gerror option"
  cl_DeleteContainer :: "container_id \<Rightarrow> 'w \<Rightarrow> 'w \<times> gerror option"
  cl_Exec :: "container_id \<Rightarrow> string \<Rightarrow> oci_process \<Rightarrow> task_io \<Rightarrow> 'w \<Rightarrow> 'w \<times> gerror option"
  cl_Pid :: "process_handle \<Rightarrow> 'w \<Rightarrow> u32"
  cl_Start :: "process_handle \<Rightarrow> 'w \<Rightarrow> 'w \<times> gerror option"
  cl_Wait :: "process_handle \<Rightarrow> 'w \<Rightarrow> 'w \<times> gerror option"
  cl_Kill :: "process_handle \<Rightarrow> int \<Rightarrow> 'w \<Rightarrow> 'w \<times> gerror option"
  cl_Resize :: "process_handle \<Rightarrow> u32 \<Rightarrow> u32 \<Rightarrow> 'w \<Rightarrow> 'w \<times> gerror option"
  cl_CloseIO :: "process_handle \<Rightarrow> 'w \<Rightarrow> 'w \<times> gerror option"
  cl_Delete :: "process_handle \<Rightarrow> 'w \<Rightarrow> 'w \<times> (gerror + exit_status)"
  cl_Status :: "process_handle \<Rightarrow> 'w \<Rightarrow> 'w \<times> (gerror + task_status)"
  cl_await :: "process_handle \<Rightarrow> 'w \<Rightarrow> 'w \<times> awaited"
  cl_awaitTimer :: "process_handle \<Rightarrow> int \<Rightarrow> 'w \<Rightarrow> 'w \<times> awaited option"
  cl_now :: "'w \<Rightarrow> gotime"
  cl_newID :: "'w \<Rightarrow> 'w \<times> (gerror + string)"
  cl_generate :: "'spec spec_generator"
  cl_applyOpts :: "oci_process \<Rightarrow> spec_opt list \<Rightarrow> gerror + oci_process"
  cl_ctxNamespace :: "string option"
  cl_namespace :: string
  cl_snapshotter :: string

record ctd_state =
  ct_stdin :: "container_id list"
  ct_execs :: "(string, exec_record) gomap"

type_synonym 'w ctd = "ctd_state \<times> 'w"

abbreviation SIGTERM :: int where "SIGTERM \<equiv> 15"
abbreviation SIGKILL :: int where "SIGKILL \<equiv> 9"

section \<open>adapter.go: helpers\<close>

definition rememberStdin :: "container_id \<Rightarrow> ctd_state \<Rightarrow> ctd_state" where
  "rememberStdin i st = st\<lparr>ct_stdin := List.insert i (ct_stdin st)\<rparr>"

definition releaseStdin :: "container_id \<Rightarrow> ctd_state \<Rightarrow> ctd_state" where
  "releaseStdin i st = st\<lparr>ct_stdin := removeAll i (ct_stdin st)\<rparr>"

definition namespaceContext :: "('w, 'spec) ctd_client \<Rightarrow> string" where
  "namespaceContext cl = (case cl_ctxNamespace cl of Some n \<Rightarrow> n | None \<Rightarrow> cl_namespace cl)"

definition loadContainer :: "('w, 'spec) ctd_client \<Rightarrow> container_id \<Rightarrow> 'w \<Rightarrow> 'w \<times> (gerror + (string \<times> string))" where
  "loadContainer cl i w = (case cl_LoadContainer cl i w of
     (w1, Inl e) \<Rightarrow> (w1, Inl (mapError (cl_errdefs cl) e)) | (w1, Inr h) \<Rightarrow> (w1, Inr h))"

definition validateIdentity :: "ctd_config \<Rightarrow> gerror option" where
  "validateIdentity cfg =
    (if cg_ID cfg \<noteq> [] \<and> \<not> match_name (cg_ID cfg)
     then Some (invalid_argument ('': invalid container id '' @ quote (cg_ID cfg)))
     else if cg_Name cfg \<noteq> [] \<and> \<not> match_name (cg_Name cfg)
     then Some (invalid_argument ('': invalid container name '' @ quote (cg_Name cfg)))
     else None)"

abbreviation labelName :: string where "labelName \<equiv> ''io.dockerdless.name''"
abbreviation labelTerminal :: string where "labelTerminal \<equiv> ''io.dockerdless.terminal''"
abbreviation labelOpenStdin :: string where "labelOpenStdin \<equiv> ''io.dockerdless.open-stdin''"

definition containerLabels :: "ctd_config \<Rightarrow> (string, string) gomap" where
  "containerLabels cfg =
    (let l1 = (if cg_Name cfg \<noteq> [] then put labelName (cg_Name cfg) [] else []);
         l2 = (if cg_Terminal cfg then put labelTerminal ''true'' l1 else l1)
     in if cg_OpenStdin cfg then put labelOpenStdin ''true'' l2 else l2)"

definition ensureUnpacked :: "('w, 'spec) ctd_client \<Rightarrow> string \<Rightarrow> string \<Rightarrow> 'w \<Rightarrow> 'w \<times> gerror option" where
  "ensureUnpacked cl img snapshotter w = (case cl_IsUnpacked cl img snapshotter w of
     (w1, Inl e) \<Rightarrow> (w1, Some (mapError (cl_errdefs cl) e))
   | (w1, Inr True) \<Rightarrow> (w1, None)
   | (w1, Inr False) \<Rightarrow> map_prod id (map_option (mapError (cl_errdefs cl))) (cl_Unpack cl img snapshotter w1))"

definition removeSnapshot :: "('w, 'spec) ctd_client \<Rightarrow> string \<Rightarrow> string \<Rightarrow> 'w \<Rightarrow> 'w \<times> gerror option" where
  "removeSnapshot cl snapshotter key w = (case cl_RemoveSnapshot cl snapshotter key w of
     (w1, Some e) \<Rightarrow> if IsNotFound (cl_errdefs cl) e then (w1, None) else (w1, Some (mapError (cl_errdefs cl) e))
   | (w1, None) \<Rightarrow> (w1, None))"

section \<open>adapter.go: create and start\<close>

definition create_checked :: "('w, 'spec) ctd_client \<Rightarrow> ctd_config \<Rightarrow> 'w \<Rightarrow> 'w \<times> (gerror + container_id)" where
  "create_checked cl cfg w = (case cl_GetImage cl (cg_Image cfg) w of
     (w1, Some e) \<Rightarrow> (w1, Inl (mapError (cl_errdefs cl) e))
   | (w1, None) \<Rightarrow> (case ensureUnpacked cl (cg_Image cfg) (cg_Snapshotter cfg) w1 of
       (w2, Some e) \<Rightarrow> (w2, Inl e)
     | (w2, None) \<Rightarrow> (case cl_ImageSpec cl (cg_Image cfg) w2 of
         (w3, Inl e) \<Rightarrow> (w3, Inl (mapError (cl_errdefs cl) e))
       | (w3, Inr img) \<Rightarrow>
          (case buildSpec (cl_generate cl) (Some (namespaceContext cl)) cfg img (cl_namespace cl) of
             Inl e \<Rightarrow> (w3, Inl e)
           | Inr spec \<Rightarrow>
              (case cl_NewContainer cl \<lparr>nr_ID = cg_ID cfg, nr_Image = cg_Image cfg, nr_Snapshotter = cg_Snapshotter cfg,
                      nr_SnapshotID = cg_SnapshotID cfg, nr_Spec = spec, nr_Labels = containerLabels cfg\<rparr> w3 of
                 (w4, Some e) \<Rightarrow> (w4, Inl (mapError (cl_errdefs cl) e))
               | (w4, None) \<Rightarrow> (w4, Inr (cg_ID cfg)))))))"

definition CreateContainer :: "('w, 'spec) ctd_client \<Rightarrow> ctd_config \<Rightarrow> 'w \<Rightarrow> 'w \<times> (gerror + container_id)" where
  "CreateContainer cl cfg0 w = (case validateIdentity cfg0 of
     Some e \<Rightarrow> (w, Inl e)
   | None \<Rightarrow>
      if TrimSpace (cg_Image cfg0) = [] then (w, Inl (invalid_argument '': image reference is required''))
      else case (if cg_ID cfg0 = [] then cl_newID cl w else (w, Inr (cg_ID cfg0))) of
        (w1, Inl e) \<Rightarrow> (w1, Inl (wrap_pre ''generate container id: '' e))
      | (w1, Inr i) \<Rightarrow>
          let cfg = cfg0\<lparr>cg_ID := i, cg_Snapshotter := (if cg_Snapshotter cfg0 = [] then cl_snapshotter cl else cg_Snapshotter cfg0)\<rparr> in
          if cg_Name cfg = [] then create_checked cl cfg w1
          else (case cl_FindContainerByName cl (cg_Name cfg) w1 of
            (w2, None) \<Rightarrow> (w2, Inl (wrap_pre (''container name '' @ quote (cg_Name cfg) @ '' is already in use: '') (Sentinel (Ctd CErrConflict))))
          | (w2, Some e) \<Rightarrow> if \<not> IsNotFound (cl_errdefs cl) e then (w2, Inl (mapError (cl_errdefs cl) e))
              else create_checked cl cfg w2))"

definition ctd_Create :: "('w, 'spec) ctd_client \<Rightarrow> container_spec \<Rightarrow> 'w \<Rightarrow> 'w \<times> (gerror + container_id)" where
  "ctd_Create cl sp = CreateContainer cl \<lparr>cg_ID = [], cg_Name = [], cg_Image = cs_Image sp, cg_Command = cs_Command sp,
     cg_Entrypoint = [], cg_Env = cs_Env sp, cg_WorkingDir = [], cg_User = [], cg_Hostname = [], cg_Labels = [], cg_Mounts = [],
     cg_Terminal = False, cg_OpenStdin = False, cg_Snapshotter = cl_snapshotter cl, cg_SnapshotID = []\<rparr>"

definition discardStaleTask :: "('w, 'spec) ctd_client \<Rightarrow> container_id \<Rightarrow> 'w \<Rightarrow> 'w \<times> gerror option" where
  "discardStaleTask cl i w = (case cl_Task cl i w of
     (w1, Some e) \<Rightarrow> if IsNotFound (cl_errdefs cl) e then (w1, None) else (w1, Some (mapError (cl_errdefs cl) e))
   | (w1, None) \<Rightarrow> (case cl_Status cl (i, None) w1 of
       (w2, Inl e) \<Rightarrow> (w2, Some (mapError (cl_errdefs cl) e))
     | (w2, Inr s) \<Rightarrow>
        if s \<in> {TsRunning, TsPaused, TsPausing}
        then (w2, Some (wrap_pre (''container '' @ i @ '' is already running: '') (Sentinel (Ctd CErrConflict))))
        else (case cl_Delete cl (i, None) w2 of
          (w3, Inl e) \<Rightarrow> if IsNotFound (cl_errdefs cl) e then (w3, None) else (w3, Some (mapError (cl_errdefs cl) e))
        | (w3, Inr _) \<Rightarrow> (w3, None))))"

definition startTaskIO :: "container_id \<Rightarrow> task_io \<Rightarrow> bool \<Rightarrow> bool \<Rightarrow> ctd_state \<Rightarrow> ctd_state \<times> task_io" where
  "startTaskIO i opts terminal openStdin st =
    (let io = opts\<lparr>io_Terminal := terminal\<rparr> in
     if \<not> io_Stdin io \<and> \<not> io_Stdout io \<and> \<not> io_Stderr io \<and> openStdin \<and> \<not> terminal
     then (rememberStdin i st, io\<lparr>io_Stdin := True\<rparr>) else (st, io))"

definition waitAndStartTask :: "('w, 'spec) ctd_client \<Rightarrow> container_id \<Rightarrow> 'w ctd \<Rightarrow> 'w ctd \<times> gerror option" where
  "waitAndStartTask cl i s = (case s of (st, w) \<Rightarrow> (case cl_Wait cl (i, None) w of
     (w1, Some e) \<Rightarrow> ((releaseStdin i st, fst (cl_Delete cl (i, None) w1)), Some (mapError (cl_errdefs cl) e))
   | (w1, None) \<Rightarrow> (case cl_Start cl (i, None) w1 of
       (w2, Some e) \<Rightarrow> ((releaseStdin i st, fst (cl_Delete cl (i, None) w2)), Some (mapError (cl_errdefs cl) e))
     | (w2, None) \<Rightarrow> ((st, w2), None))))"

definition StartWithOptions :: "('w, 'spec) ctd_client \<Rightarrow> container_id \<Rightarrow> task_io \<Rightarrow> 'w ctd \<Rightarrow> 'w ctd \<times> gerror option" where
  "StartWithOptions cl i opts s = (case s of (st, w) \<Rightarrow> (case loadContainer cl i w of
     (w1, Inl e) \<Rightarrow> ((st, w1), Some e)
   | (w1, Inr _) \<Rightarrow> (case cl_Labels cl i w1 of
       (w2, Inl e) \<Rightarrow> ((st, w2), Some (mapError (cl_errdefs cl) e))
     | (w2, Inr labels) \<Rightarrow> (case discardStaleTask cl i w2 of
         (w3, Some e) \<Rightarrow> ((st, w3), Some e)
       | (w3, None) \<Rightarrow>
          (case startTaskIO i opts (get labels labelTerminal = Some ''true'') (get labels labelOpenStdin = Some ''true'') st of
             (st1, io) \<Rightarrow> (case cl_NewTask cl i io w3 of
               (w4, Some e) \<Rightarrow> ((releaseStdin i st1, w4), Some (mapError (cl_errdefs cl) e))
             | (w4, None) \<Rightarrow> waitAndStartTask cl i (st1, w4)))))))"

definition ctd_Start :: "('w, 'spec) ctd_client \<Rightarrow> container_id \<Rightarrow> 'w ctd \<Rightarrow> 'w ctd \<times> gerror option" where
  "ctd_Start cl i = StartWithOptions cl i \<lparr>io_Stdin = False, io_Stdout = False, io_Stderr = False, io_Terminal = False\<rparr>"

text \<open>Whether the write side of a detached input pipe is there to be attached.\<close>

definition ctd_Stdin :: "container_id \<Rightarrow> ctd_state \<Rightarrow> bool" where
  "ctd_Stdin i st \<longleftrightarrow> i \<in> set (ct_stdin st)"

section \<open>adapter.go: stop, kill, wait, remove, status\<close>

definition stoppableTask ::
  "('w, 'spec) ctd_client \<Rightarrow> container_id \<Rightarrow> 'w ctd \<Rightarrow> 'w ctd \<times> (gerror + bool)" where
  "stoppableTask cl i s = (case s of (st, w) \<Rightarrow> (case cl_Task cl i w of
     (w1, Some e) \<Rightarrow> if IsNotFound (cl_errdefs cl) e then ((releaseStdin i st, w1), Inr True)
                    else ((st, w1), Inl (mapError (cl_errdefs cl) e))
   | (w1, None) \<Rightarrow> (case cl_Status cl (i, None) w1 of
       (w2, Inl e) \<Rightarrow> ((st, w2), Inl (mapError (cl_errdefs cl) e))
     | (w2, Inr status) \<Rightarrow>
        if status = TsCreated \<or> status = TsStopped
        then (case cl_CloseIO cl (i, None) w2 of
          (w3, Some e) \<Rightarrow> if IsNotFound (cl_errdefs cl) e then ((releaseStdin i st, w3), Inr True)
                         else ((st, w3), Inl (mapError (cl_errdefs cl) e))
        | (w3, None) \<Rightarrow> ((releaseStdin i st, w3), Inr True))
        else ((st, w2), Inr False))))"

definition waitForExit :: "('w, 'spec) ctd_client \<Rightarrow> container_id \<Rightarrow> 'w ctd \<Rightarrow> 'w ctd \<times> gerror option" where
  "waitForExit cl i s = (case s of (st, w) \<Rightarrow> (case cl_await cl (i, None) w of
     (w1, CtxDone e) \<Rightarrow> ((st, w1), Some e)
   | (w1, _) \<Rightarrow> ((releaseStdin i st, w1), None)))"

definition terminateWithTimeout ::
  "('w, 'spec) ctd_client \<Rightarrow> container_id \<Rightarrow> int \<Rightarrow> 'w ctd \<Rightarrow> 'w ctd \<times> (gerror + bool)" where
  "terminateWithTimeout cl i timeout s = (case s of (st, w) \<Rightarrow> (case cl_Kill cl (i, None) SIGTERM w of
     (w1, Some e) \<Rightarrow> ((st, w1), Inl (mapError (cl_errdefs cl) e))
   | (w1, None) \<Rightarrow> (case cl_awaitTimer cl (i, None) timeout w1 of
       (w2, None) \<Rightarrow> ((st, w2), Inr False)
     | (w2, Some (CtxDone e)) \<Rightarrow> ((st, w2), Inl e)
     | (w2, Some _) \<Rightarrow> ((releaseStdin i st, w2), Inr True))))"

definition kill_and_wait :: "('w, 'spec) ctd_client \<Rightarrow> container_id \<Rightarrow> 'w ctd \<Rightarrow> 'w ctd \<times> gerror option" where
  "kill_and_wait cl i s = (case s of (st, w) \<Rightarrow> (case cl_Kill cl (i, None) SIGKILL w of
     (w1, Some e) \<Rightarrow> ((st, w1), Some (mapError (cl_errdefs cl) e))
   | (w1, None) \<Rightarrow> waitForExit cl i (st, w1)))"

definition Stop :: "('w, 'spec) ctd_client \<Rightarrow> container_id \<Rightarrow> int \<Rightarrow> 'w ctd \<Rightarrow> 'w ctd \<times> gerror option" where
  "Stop cl i timeout s = (case s of (st, w) \<Rightarrow> (case loadContainer cl i w of
     (w1, Inl e) \<Rightarrow> ((st, w1), Some e)
   | (w1, Inr _) \<Rightarrow> (case stoppableTask cl i (st, w1) of
       (s2, Inl e) \<Rightarrow> (s2, Some e)
     | (s2, Inr True) \<Rightarrow> (s2, None)
     | ((st2, w2), Inr False) \<Rightarrow> (case cl_Wait cl (i, None) w2 of
         (w3, Some e) \<Rightarrow> ((st2, w3), Some (mapError (cl_errdefs cl) e))
       | (w3, None) \<Rightarrow>
          if timeout > 0 then (case terminateWithTimeout cl i timeout (st2, w3) of
              (s4, Inl e) \<Rightarrow> (s4, Some e)
            | (s4, Inr True) \<Rightarrow> (s4, None)
            | (s4, Inr False) \<Rightarrow> kill_and_wait cl i s4)
          else kill_and_wait cl i (st2, w3)))))"

definition ctd_Kill :: "('w, 'spec) ctd_client \<Rightarrow> container_id \<Rightarrow> int \<Rightarrow> 'w \<Rightarrow> 'w \<times> gerror option" where
  "ctd_Kill cl i signal w =
    (if signal \<le> 0 then (w, Some (invalid_argument '': signal must be positive''))
     else case loadContainer cl i w of
       (w1, Inl e) \<Rightarrow> (w1, Some e)
     | (w1, Inr _) \<Rightarrow> (case cl_Task cl i w1 of
         (w2, Some e) \<Rightarrow> (w2, Some (mapError (cl_errdefs cl) e))
       | (w2, None) \<Rightarrow> (case cl_Status cl (i, None) w2 of
           (w3, Inl e) \<Rightarrow> (w3, Some (mapError (cl_errdefs cl) e))
         | (w3, Inr status) \<Rightarrow>
            if status \<in> {TsRunning, TsPaused, TsPausing}
            then map_prod id (map_option (mapError (cl_errdefs cl))) (cl_Kill cl (i, None) signal w3)
            else (w3, Some (wrap_pre (''container '' @ i @ '' is not running: '') (Sentinel (Ctd CErrConflict)))))))"

definition ctd_Wait :: "('w, 'spec) ctd_client \<Rightarrow> container_id \<Rightarrow> 'w ctd \<Rightarrow> 'w ctd \<times> (gerror + process_exit)" where
  "ctd_Wait cl i s = (case s of (st, w) \<Rightarrow> (case loadContainer cl i w of
     (w1, Inl e) \<Rightarrow> ((st, w1), Inl e)
   | (w1, Inr _) \<Rightarrow> (case cl_Task cl i w1 of
       (w2, Some e) \<Rightarrow> ((st, w2), Inl (mapError (cl_errdefs cl) e))
     | (w2, None) \<Rightarrow> (case cl_Wait cl (i, None) w2 of
         (w3, Some e) \<Rightarrow> ((st, w3), Inl (mapError (cl_errdefs cl) e))
       | (w3, None) \<Rightarrow> (case cl_await cl (i, None) w3 of
           (w4, CtxDone e) \<Rightarrow> ((st, w4), Inl e)
         | (w4, ChanClosed) \<Rightarrow> ((st, w4), Inl (wrap_pre (''wait for container '' @ i @ '': exit channel closed: '') (Sentinel (Ctd CErrServerError))))
         | (w4, GotExit (Inl e)) \<Rightarrow> ((st, w4), Inl (mapError (cl_errdefs cl) e))
         | (w4, GotExit (Inr (code, exitedAt))) \<Rightarrow>
             ((releaseStdin i st, w4), Inr \<lparr>pe_ExitCode = code, pe_ExitedAt = exitedAt\<rparr>))))))"

definition delete_task :: "('w, 'spec) ctd_client \<Rightarrow> container_id \<Rightarrow> 'w \<Rightarrow> 'w \<times> gerror option" where
  "delete_task cl i w = (case cl_Task cl i w of
     (w1, Some e) \<Rightarrow> if IsNotFound (cl_errdefs cl) e then (w1, None) else (w1, Some (mapError (cl_errdefs cl) e))
   | (w1, None) \<Rightarrow> (case cl_Delete cl (i, None) w1 of
       (w2, Inl e) \<Rightarrow> if IsNotFound (cl_errdefs cl) e then (w2, None) else (w2, Some (mapError (cl_errdefs cl) e))
     | (w2, Inr _) \<Rightarrow> (w2, None)))"

definition ctd_Remove :: "('w, 'spec) ctd_client \<Rightarrow> container_id \<Rightarrow> 'w ctd \<Rightarrow> 'w ctd \<times> gerror option" where
  "ctd_Remove cl i s = (case s of (st, w) \<Rightarrow> (case loadContainer cl i w of
     (w1, Inl e) \<Rightarrow> if \<not> errors_is e (Ctd CErrNotFound) then ((st, w1), Some e) else ((releaseStdin i st, w1), None)
   | (w1, Inr (snapshotter, key)) \<Rightarrow> (case delete_task cl i w1 of
       (w2, Some e) \<Rightarrow> ((st, w2), Some e)
     | (w2, None) \<Rightarrow> (case cl_DeleteContainer cl i w2 of (w3, r) \<Rightarrow>
         if (case r of Some e \<Rightarrow> \<not> IsNotFound (cl_errdefs cl) e | None \<Rightarrow> False)
         then ((st, w3), map_option (mapError (cl_errdefs cl)) r)
         else if key = [] then ((releaseStdin i st, w3), None)
         else (case removeSnapshot cl snapshotter key w3 of (w4, r') \<Rightarrow> ((releaseStdin i st, w4), r'))))))"

fun docker_state :: "task_status \<Rightarrow> string" where
  "docker_state TsRunning = ContainerStateRunning"
| "docker_state TsPaused = ContainerStatePaused"
| "docker_state TsCreated = ContainerStateCreated"
| "docker_state TsStopped = ContainerStateExited"
| "docker_state _ = ContainerStateUnknown"

definition ctd_Status :: "('w, 'spec) ctd_client \<Rightarrow> container_id \<Rightarrow> 'w \<Rightarrow> 'w \<times> (gerror + string)" where
  "ctd_Status cl i w = (case loadContainer cl i w of
     (w1, Inl e) \<Rightarrow> (w1, Inl e)
   | (w1, Inr _) \<Rightarrow> (case cl_Task cl i w1 of
       (w2, Some e) \<Rightarrow> if IsNotFound (cl_errdefs cl) e then (w2, Inr ContainerStateExited)
                      else (w2, Inl (mapError (cl_errdefs cl) e))
     | (w2, None) \<Rightarrow> (case cl_Status cl (i, None) w2 of
         (w3, Inl e) \<Rightarrow> (w3, Inl (mapError (cl_errdefs cl) e))
       | (w3, Inr status) \<Rightarrow> (w3, Inr (docker_state status)))))"

definition ctd_Resize :: "('w, 'spec) ctd_client \<Rightarrow> container_id \<Rightarrow> u32 \<Rightarrow> u32 \<Rightarrow> 'w \<Rightarrow> 'w \<times> gerror option" where
  "ctd_Resize cl i width height w = (case loadContainer cl i w of
     (w1, Inl e) \<Rightarrow> (w1, Some e)
   | (w1, Inr _) \<Rightarrow> (case cl_Task cl i w1 of
       (w2, Some e) \<Rightarrow> (w2, Some (mapError (cl_errdefs cl) e))
     | (w2, None) \<Rightarrow> map_prod id (map_option (mapError (cl_errdefs cl))) (cl_Resize cl (i, None) width height w2)))"

section \<open>exec.go\<close>

record exec_config =
  ec_ID :: string
  ec_Command :: "string list"
  ec_Env :: "(string, string) gomap"
  ec_WorkingDir :: string
  ec_User :: string
  ec_Terminal :: bool
  ec_Stdin :: bool
  ec_Stdout :: bool
  ec_Stderr :: bool
  ec_Detach :: bool
  ec_Width :: u32
  ec_Height :: u32

record ctd_exec_result =
  ex_ID :: string
  ex_Pid :: u32
  ex_ExitCode :: "int option"
  ex_StartedAt :: gotime
  ex_FinishedAt :: gotime
  ex_Detached :: bool

definition validateExecConfig :: "exec_config \<Rightarrow> gerror option" where
  "validateExecConfig cfg =
    (if ec_Command cfg = [] then Some (invalid_argument '': exec command is required'')
     else if ec_ID cfg \<noteq> [] \<and> \<not> match_name (ec_ID cfg)
     then Some (invalid_argument ('': invalid exec id '' @ quote (ec_ID cfg)))
     else None)"

definition runningTask :: "('w, 'spec) ctd_client \<Rightarrow> container_id \<Rightarrow> 'w \<Rightarrow> 'w \<times> gerror option" where
  "runningTask cl i w = (case loadContainer cl i w of
     (w1, Inl e) \<Rightarrow> (w1, Some e)
   | (w1, Inr _) \<Rightarrow> (case cl_Task cl i w1 of
       (w2, Some e) \<Rightarrow> (w2, Some (mapError (cl_errdefs cl) e))
     | (w2, None) \<Rightarrow> (case cl_Status cl (i, None) w2 of
         (w3, Inl e) \<Rightarrow> (w3, Some (mapError (cl_errdefs cl) e))
       | (w3, Inr status) \<Rightarrow> if status = TsRunning then (w3, None)
           else (w3, Some (wrap_pre (''container '' @ i @ '' is not running: '') (Sentinel (Ctd CErrConflict)))))))"

definition resolveExecID :: "('w, 'spec) ctd_client \<Rightarrow> string \<Rightarrow> 'w \<Rightarrow> 'w \<times> (gerror + string)" where
  "resolveExecID cl i w = (if i \<noteq> [] then (w, Inr i)
     else case cl_newID cl w of (w1, Inl e) \<Rightarrow> (w1, Inl (wrap_pre ''generate exec id: '' e)) | (w1, Inr x) \<Rightarrow> (w1, Inr x))"

definition buildExecProcessSpec :: "('w, 'spec) ctd_client \<Rightarrow> oci_process option \<Rightarrow> exec_config \<Rightarrow> gerror + oci_process" where
  "buildExecProcessSpec cl base cfg = (case base of
     None \<Rightarrow> Inl (wrap_post (Sentinel (Ctd CErrServerError)) '': container spec has no process'')
   | Some p \<Rightarrow>
      let process = p\<lparr>op_Args := ec_Command cfg, op_Terminal := ec_Terminal cfg\<rparr>;
          o1 = (if ec_Terminal cfg then [WithTTY] else []);
          o2 = (if ctd_envSlice (ec_Env cfg) \<noteq> [] then o1 @ [WithEnv (ctd_envSlice (ec_Env cfg))] else o1);
          o3 = (if ec_WorkingDir cfg \<noteq> [] then o2 @ [WithProcessCwd (ec_WorkingDir cfg)] else o2) in
      case userSpecOpt (ec_User cfg) of
        Inl e \<Rightarrow> Inl e
      | Inr u \<Rightarrow> (case cl_applyOpts cl process (o3 @ (case u of Some opt \<Rightarrow> [opt] | None \<Rightarrow> [])) of
          Inl e \<Rightarrow> Inl (mapError (cl_errdefs cl) e) | Inr q \<Rightarrow> Inr q))"

definition newExecRecord :: "container_id \<Rightarrow> ctd_exec_result \<Rightarrow> exec_config \<Rightarrow> bool \<Rightarrow> exec_record" where
  "newExecRecord c res cfg running = \<lparr>er_ID = ex_ID res, er_ContainerID = c, er_Running = running,
     er_ExitCode = ex_ExitCode res, er_Command = ec_Command cfg, er_TTY = ec_Terminal cfg,
     er_StartedAt = ex_StartedAt res, er_FinishedAt = ex_FinishedAt res, er_OpenStdin = ec_Stdin cfg,
     er_OpenStdout = ec_Stdout cfg, er_OpenStderr = ec_Stderr cfg, er_CanRemove = (\<not> running),
     er_ProcessID = int (unat (ex_Pid res))\<rparr>"

definition recordExec :: "exec_record \<Rightarrow> ctd_state \<Rightarrow> ctd_state" where
  "recordExec r st = st\<lparr>ct_execs := put (er_ID r) r (ct_execs st)\<rparr>"

definition zero_exec_result :: "string \<Rightarrow> ctd_exec_result" where
  "zero_exec_result i = \<lparr>ex_ID = i, ex_Pid = 0, ex_ExitCode = None, ex_StartedAt = zero_time, ex_FinishedAt = zero_time,
     ex_Detached = False\<rparr>"

definition execDetached ::
  "('w, 'spec) ctd_client \<Rightarrow> container_id \<Rightarrow> string \<Rightarrow> exec_config \<Rightarrow> 'w ctd \<Rightarrow> 'w ctd \<times> (gerror + ctd_exec_result)" where
  "execDetached cl c x cfg s = (case s of (st, w) \<Rightarrow> (case cl_Start cl (c, Some x) w of
     (w1, Some e) \<Rightarrow> ((st, fst (cl_Delete cl (c, Some x) w1)), Inl (mapError (cl_errdefs cl) e))
   | (w1, None) \<Rightarrow>
      let res = (zero_exec_result x)\<lparr>ex_Detached := True, ex_Pid := cl_Pid cl (c, Some x) w1, ex_StartedAt := cl_now cl w1\<rparr>
      in ((recordExec (newExecRecord c res cfg True) st, w1), Inr res)))"

definition resizeExecProcess ::
  "('w, 'spec) ctd_client \<Rightarrow> process_handle \<Rightarrow> exec_config \<Rightarrow> 'w \<Rightarrow> 'w \<times> gerror option" where
  "resizeExecProcess cl p cfg w =
    (if \<not> ec_Terminal cfg \<or> ec_Width cfg = 0 \<or> ec_Height cfg = 0 then (w, None)
     else case cl_Resize cl p (ec_Width cfg) (ec_Height cfg) w of
       (w1, Some e) \<Rightarrow> (fst (cl_Delete cl p w1), Some (mapError (cl_errdefs cl) e))
     | (w1, None) \<Rightarrow> (w1, None))"

definition with_exit :: "exit_status \<Rightarrow> ctd_exec_result \<Rightarrow> ctd_exec_result" where
  "with_exit x res = (case x of Inl e \<Rightarrow> res
     | Inr (code, t) \<Rightarrow> res\<lparr>ex_ExitCode := Some (int (unat code)), ex_FinishedAt := t\<rparr>)"

definition cancelExec ::
  "('w, 'spec) ctd_client \<Rightarrow> process_handle \<Rightarrow> exec_config \<Rightarrow> ctd_exec_result \<Rightarrow> 'w ctd \<Rightarrow> 'w ctd" where
  "cancelExec cl p cfg res s = (case s of (st, w) \<Rightarrow>
     (case cl_Delete cl p (fst (cl_CloseIO cl p w)) of (w1, r) \<Rightarrow>
        let res' = (case r of Inr x \<Rightarrow> with_exit x res | Inl _ \<Rightarrow> res)
        in (recordExec (newExecRecord (fst p) res' cfg False) st, w1)))"

definition finishExec ::
  "('w, 'spec) ctd_client \<Rightarrow> process_handle \<Rightarrow> exec_config \<Rightarrow> ctd_exec_result \<Rightarrow> 'w ctd \<Rightarrow> 'w ctd \<times> (gerror + ctd_exec_result)" where
  "finishExec cl p cfg res s = (case s of (st, w) \<Rightarrow>
     ((recordExec (newExecRecord (fst p) res cfg False) st, fst (cl_Delete cl p (fst (cl_CloseIO cl p w)))), Inr res))"

definition execAttached ::
  "('w, 'spec) ctd_client \<Rightarrow> container_id \<Rightarrow> string \<Rightarrow> exec_config \<Rightarrow> 'w ctd \<Rightarrow> 'w ctd \<times> (gerror + ctd_exec_result)" where
  "execAttached cl c x cfg s = (case s of (st, w) \<Rightarrow> let p = (c, Some x) in (case cl_Wait cl p w of
     (w1, Some e) \<Rightarrow> ((st, fst (cl_Delete cl p w1)), Inl (mapError (cl_errdefs cl) e))
   | (w1, None) \<Rightarrow> (case cl_Start cl p w1 of
       (w2, Some e) \<Rightarrow> ((st, fst (cl_Delete cl p w2)), Inl (mapError (cl_errdefs cl) e))
     | (w2, None) \<Rightarrow>
        let res = (zero_exec_result x)\<lparr>ex_Pid := cl_Pid cl p w2, ex_StartedAt := cl_now cl w2\<rparr> in
        (case resizeExecProcess cl p cfg w2 of
           (w3, Some e) \<Rightarrow> ((st, w3), Inl e)
         | (w3, None) \<Rightarrow> (case cl_await cl p w3 of
             (w4, CtxDone e) \<Rightarrow> (cancelExec cl p cfg res (st, w4), Inl e)
           | (w4, ChanClosed) \<Rightarrow> ((st, w4), Inl (wrap_pre (''exec '' @ x @ '': exit channel closed: '') (Sentinel (Ctd CErrServerError))))
           | (w4, GotExit (Inl e)) \<Rightarrow> ((st, w4), Inl (mapError (cl_errdefs cl) e))
           | (w4, GotExit (Inr y)) \<Rightarrow> finishExec cl p cfg (with_exit (Inr y) res) (st, w4))))))"

definition Exec :: "('w, 'spec) ctd_client \<Rightarrow> container_id \<Rightarrow> exec_config \<Rightarrow> 'w ctd \<Rightarrow> 'w ctd \<times> (gerror + ctd_exec_result)" where
  "Exec cl c cfg s = (case validateExecConfig cfg of
     Some e \<Rightarrow> (s, Inl e)
   | None \<Rightarrow> (case s of (st, w) \<Rightarrow> (case runningTask cl c w of
       (w1, Some e) \<Rightarrow> ((st, w1), Inl e)
     | (w1, None) \<Rightarrow> (case cl_Process cl c w1 of
         (w2, Inl e) \<Rightarrow> ((st, w2), Inl (mapError (cl_errdefs cl) e))
       | (w2, Inr base) \<Rightarrow> (case buildExecProcessSpec cl base cfg of
           Inl e \<Rightarrow> ((st, w2), Inl e)
         | Inr process \<Rightarrow> (case resolveExecID cl (ec_ID cfg) w2 of
             (w3, Inl e) \<Rightarrow> ((st, w3), Inl e)
           | (w3, Inr x) \<Rightarrow>
              (case cl_Exec cl c x process \<lparr>io_Stdin = ec_Stdin cfg, io_Stdout = ec_Stdout cfg, io_Stderr = ec_Stderr cfg,
                      io_Terminal = ec_Terminal cfg\<rparr> w3 of
                 (w4, Some e) \<Rightarrow> ((st, w4), Inl (mapError (cl_errdefs cl) e))
               | (w4, None) \<Rightarrow> (if ec_Detach cfg then execDetached cl c x cfg (st, w4) else execAttached cl c x cfg (st, w4)))))))))"

definition ExecRecord :: "string \<Rightarrow> ctd_state \<Rightarrow> exec_record option" where
  "ExecRecord x st = get (ct_execs st) x"

text \<open>Started earlier first, then by identity; the identities are distinct.\<close>

definition ExecRecords :: "container_id \<Rightarrow> ctd_state \<Rightarrow> exec_record list" where
  "ExecRecords c st = sort_key (\<lambda>r. instant (er_StartedAt r))
     (sort_key er_ID (filter (\<lambda>r. er_ContainerID r = c) (map snd (ct_execs st))))"

end
