(* ===== verification/App_Runtime.thy ===== *)
theory App_Runtime
  imports App_Usage Ctd_Adapter
begin

text \<open>
  \<^verbatim>\<open>internal/app/adapters.go\<close> (the runtime port) and the task locator of
  \<^verbatim>\<open>cmd/dockerdless/main.go\<close>: the use cases of the service run on the containerd adapter.
  The world of the service is then the state of the adapter with the world of containerd, and
  \<open>with_runtime\<close> puts the adapter's operations in the place of the runtime port.
\<close>

section \<open>adapters.go\<close>

definition ctd_mount_of :: "mount \<Rightarrow> ctd_mount" where
  "ctd_mount_of m = \<lparr>cm_Type = mt_Type m, cm_Source = mt_Source m, cm_Destination = mt_Destination m,
     cm_ReadOnly = mt_ReadOnly m, cm_Options = mt_Options m\<rparr>"

definition ctd_config_of :: "container_create_spec \<Rightarrow> ctd_config" where
  "ctd_config_of sp = \<lparr>cg_ID = sp_ID sp, cg_Name = sp_Name sp, cg_Image = sp_Image sp, cg_Command = sp_Command sp,
     cg_Entrypoint = sp_Entrypoint sp, cg_Env = sp_Env sp, cg_WorkingDir = sp_WorkingDir sp, cg_User = sp_User sp,
     cg_Hostname = sp_Hostname sp, cg_Labels = sp_Labels sp, cg_Mounts = map ctd_mount_of (sp_Mounts sp),
     cg_Terminal = sp_TTY sp, cg_OpenStdin = sp_OpenStdin sp, cg_Snapshotter = sp_Snapshotter sp, cg_SnapshotID = []\<rparr>"

definition exec_config_of :: "exec_request \<Rightarrow> exec_config" where
  "exec_config_of q = \<lparr>ec_ID = xq_ID q, ec_Command = xq_Command q, ec_Env = xq_Env q, ec_WorkingDir = xq_WorkingDir q,
     ec_User = xq_User q, ec_Terminal = xq_TTY q, ec_Stdin = xq_Stdin q, ec_Stdout = xq_Stdout q, ec_Stderr = xq_Stderr q,
     ec_Detach = xq_Detach q, ec_Width = xq_Width q, ec_Height = xq_Height q\<rparr>"

definition exec_result_of :: "ctd_exec_result \<Rightarrow> exec_result" where
  "exec_result_of r = \<lparr>xr_ID = ex_ID r, xr_ExitCode = ex_ExitCode r, xr_Running = (ex_Detached r \<or> ex_ExitCode r = None),
     xr_Pid = int (unat (ex_Pid r)), xr_StartedAt = ex_StartedAt r, xr_FinishedAt = ex_FinishedAt r\<rparr>"

definition translateLookupError :: "errdefs \<Rightarrow> gerror \<Rightarrow> gerror" where
  "translateLookupError d err =
    (if IsNotFound d err then Wrapf (ports_msg PErrNotFound @ '': container task: '' @ err_msg err) [Sentinel (Ports PErrNotFound), err]
     else Wrapf (ports_msg PErrServerError @ '': container task lookup: '' @ err_msg err) [Sentinel (Ports PErrServerError), err])"

definition TaskPID :: "('w, 'spec) ctd_client \<Rightarrow> container_id \<Rightarrow> 'w \<Rightarrow> 'w \<times> (gerror + int)" where
  "TaskPID cl i w = (case cl_LoadContainer cl i w of
     (w1, Inl e) \<Rightarrow> (w1, Inl (translateLookupError (cl_errdefs cl) e))
   | (w1, Inr _) \<Rightarrow> (case cl_Task cl i w1 of
       (w2, Some e) \<Rightarrow> (w2, Inl (translateLookupError (cl_errdefs cl) e))
     | (w2, None) \<Rightarrow> (w2, Inr (int (unat (cl_Pid cl (i, None) w2))))))"

text \<open>An operation that only touches the world of containerd.\<close>

definition on_world :: "('w \<Rightarrow> 'w \<times> 'r) \<Rightarrow> 'w ctd \<Rightarrow> 'w ctd \<times> 'r" where
  "on_world f s = (case f (snd s) of (w', r) \<Rightarrow> ((fst s, w'), r))"

definition with_runtime :: "('w, 'spec) ctd_client \<Rightarrow> 'w ctd service_env \<Rightarrow> 'w ctd service_env" where
  "with_runtime cl env = env\<lparr>
     se_CreateContainer := (\<lambda>sp. on_world (CreateContainer cl (ctd_config_of sp))),
     se_StartWithIO := (\<lambda>i. StartWithOptions cl i \<lparr>io_Stdin = False, io_Stdout = True, io_Stderr = True, io_Terminal = False\<rparr>),
     se_Stop := (\<lambda>i t. Stop cl i t),
     se_Remove := (\<lambda>i. ctd_Remove cl i),
     se_Status := (\<lambda>i. on_world (ctd_Status cl i)),
     se_Wait := (\<lambda>i. ctd_Wait cl i),
     se_Exec := (\<lambda>i q s. map_prod id (map_sum id exec_result_of) (Exec cl i (exec_config_of q) s)),
     se_ExecRecord := (\<lambda>x s. ExecRecord x (fst s)),
     se_TaskPID := (\<lambda>i. on_world (TaskPID cl i))\<rparr>"

lemma with_runtime_simps [simp]:
  "se_ctx (with_runtime cl env) = se_ctx env" "se_cni (with_runtime cl env) = se_cni env"
  "se_cfg (with_runtime cl env) = se_cfg env" "se_now (with_runtime cl env) = se_now env"
  "se_stopTimeout (with_runtime cl env) = se_stopTimeout env"
  "se_Stop (with_runtime cl env) i t = Stop cl i t" "se_Wait (with_runtime cl env) i = ctd_Wait cl i"
  "se_Status (with_runtime cl env) i = on_world (ctd_Status cl i)"
  by (simp_all add: with_runtime_def)

lemma resolveContainer_with_runtime [simp]: "resolveContainer (with_runtime cl env) = resolveContainer env"
  by (intro ext) (simp add: resolveContainer_def Let_def split: prod.split)

lemma service_ok_with_runtime [simp]: "service_ok (with_runtime cl env) st = service_ok env st"
  by (simp add: service_ok_def)

lemma live_with_runtime [simp]: "live (with_runtime cl env) = live env"
  unfolding live_def by simp

section \<open>Stopping ends the process\<close>

text \<open>
  What containerd documents of one task, for a predicate \<open>gone\<close> of its world that says that no
  process of the container is running. No call brings a process back; a missing task, a created or
  stopped one and an exit status on the wait channel all mean that nothing is running. No call is
  assumed to succeed. The last two laws say that what the wait channel carries is an exit status:
  the adapter takes every receipt from it for an exit (\<open>broken_wait_taken_for_exit\<close> below).
\<close>

definition keeps :: "('w \<Rightarrow> bool) \<Rightarrow> ('w \<Rightarrow> 'w \<times> 'r) \<Rightarrow> bool" where
  "keeps gone f \<longleftrightarrow> (\<forall>w. gone w \<longrightarrow> gone (fst (f w)))"

definition exit_event :: "awaited \<Rightarrow> bool" where
  "exit_event a = (case a of CtxDone e \<Rightarrow> False | _ \<Rightarrow> True)"

definition task_laws :: "('w, 'spec) ctd_client \<Rightarrow> container_id \<Rightarrow> ('w \<Rightarrow> bool) \<Rightarrow> bool" where
  "task_laws cl i gone \<longleftrightarrow>
     keeps gone (cl_LoadContainer cl i) \<and> keeps gone (cl_Task cl i) \<and> keeps gone (cl_Status cl (i, None))
   \<and> keeps gone (cl_Wait cl (i, None)) \<and> keeps gone (cl_CloseIO cl (i, None)) \<and> keeps gone (cl_await cl (i, None))
   \<and> (\<forall>w w' e. cl_Task cl i w = (w', Some e) \<and> IsNotFound (cl_errdefs cl) e \<longrightarrow> gone w')
   \<and> (\<forall>w w' s. cl_Status cl (i, None) w = (w', Inr s) \<and> (s = TsCreated \<or> s = TsStopped) \<longrightarrow> gone w')
   \<and> (\<forall>w w' a. cl_await cl (i, None) w = (w', a) \<and> exit_event a \<longrightarrow> gone w')
   \<and> (\<forall>t w w' a. cl_awaitTimer cl (i, None) t w = (w', Some a) \<and> exit_event a \<longrightarrow> gone w')"

text \<open>
  A runtime that is up: a call succeeds, or it is refused with \<^verbatim>\<open>NotFound\<close> because the
  process has finished in the meantime (signalling a finished process is such a call); and after
  \<^verbatim>\<open>SIGKILL\<close> the exit arrives before the request's context is done.
\<close>

definition finished_error :: "('w, 'spec) ctd_client \<Rightarrow> gerror \<Rightarrow> bool" where
  "finished_error cl e \<longleftrightarrow> IsNotFound (cl_errdefs cl) e \<and> (\<forall>s. \<not> errors_is e s)"

definition refuses :: "('w, 'spec) ctd_client \<Rightarrow> ('w \<Rightarrow> bool) \<Rightarrow> ('w \<Rightarrow> 'w \<times> 'r) \<Rightarrow> ('r \<Rightarrow> gerror option) \<Rightarrow> bool" where
  "refuses cl gone f err \<longleftrightarrow> (\<forall>w w' r e. f w = (w', r) \<and> err r = Some e \<longrightarrow> finished_error cl e \<and> gone w')"

definition result_error :: "gerror + 'a \<Rightarrow> gerror option" where
  "result_error r = (case r of Inl e \<Rightarrow> Some e | Inr x \<Rightarrow> None)"

definition responsive :: "('w, 'spec) ctd_client \<Rightarrow> container_id \<Rightarrow> ('w \<Rightarrow> bool) \<Rightarrow> bool" where
  "responsive cl i gone \<longleftrightarrow>
     refuses cl gone (cl_LoadContainer cl i) result_error \<and> refuses cl gone (cl_Task cl i) id
   \<and> refuses cl gone (cl_Status cl (i, None)) result_error \<and> refuses cl gone (cl_Wait cl (i, None)) id
   \<and> refuses cl gone (cl_CloseIO cl (i, None)) id \<and> (\<forall>sig. refuses cl gone (cl_Kill cl (i, None) sig) id)
   \<and> (\<forall>t w w' e. cl_awaitTimer cl (i, None) t w \<noteq> (w', Some (CtxDone e)))
   \<and> (\<forall>w w1 w' e. cl_Kill cl (i, None) SIGKILL w = (w1, None) \<longrightarrow> cl_await cl (i, None) w1 \<noteq> (w', CtxDone e))"

lemma keepsD: "keeps gone f \<Longrightarrow> f w = (w', r) \<Longrightarrow> gone w \<Longrightarrow> gone w'"
  unfolding keeps_def by (metis fst_conv)

lemma refusesD:
  "refuses cl gone f id \<Longrightarrow> f w = (w', Some e) \<Longrightarrow> finished_error cl e \<and> gone w'"
  "refuses cl gone g result_error \<Longrightarrow> g w = (w', Inl e) \<Longrightarrow> finished_error cl e \<and> gone w'"
  unfolding refuses_def result_error_def by (metis id_apply, metis sum.case(1))

lemma task_lawsD:
  assumes "task_laws cl i gone"
  shows "keeps gone (cl_LoadContainer cl i)" "keeps gone (cl_Task cl i)" "keeps gone (cl_Status cl (i, None))"
    "keeps gone (cl_Wait cl (i, None))" "keeps gone (cl_CloseIO cl (i, None))" "keeps gone (cl_await cl (i, None))"
    "\<And>w w' e. cl_Task cl i w = (w', Some e) \<Longrightarrow> IsNotFound (cl_errdefs cl) e \<Longrightarrow> gone w'"
    "\<And>w w' s. cl_Status cl (i, None) w = (w', Inr s) \<Longrightarrow> s = TsCreated \<or> s = TsStopped \<Longrightarrow> gone w'"
    "\<And>w w' a. cl_await cl (i, None) w = (w', a) \<Longrightarrow> exit_event a \<Longrightarrow> gone w'"
    "\<And>t w w' a. cl_awaitTimer cl (i, None) t w = (w', Some a) \<Longrightarrow> exit_event a \<Longrightarrow> gone w'"
  using assms unfolding task_laws_def by blast+

lemma responsiveD:
  assumes "responsive cl i gone"
  shows "refuses cl gone (cl_LoadContainer cl i) result_error" "refuses cl gone (cl_Task cl i) id"
    "refuses cl gone (cl_Status cl (i, None)) result_error" "refuses cl gone (cl_Wait cl (i, None)) id"
    "refuses cl gone (cl_CloseIO cl (i, None)) id" "refuses cl gone (cl_Kill cl (i, None) sig) id"
    "\<And>t w w' e. cl_awaitTimer cl (i, None) t w \<noteq> (w', Some (CtxDone e))"
    "\<And>w w1 w' e. cl_Kill cl (i, None) SIGKILL w = (w1, None) \<Longrightarrow> cl_await cl (i, None) w1 \<noteq> (w', CtxDone e)"
  using assms unfolding responsive_def by blast+

text \<open>
  How a step of the stop may end: done with the process gone and the pipe closed, or refused; a
  responsive runtime refuses only when the process is gone, and with its not-found error.
\<close>

definition stop_done :: "container_id \<Rightarrow> ('w \<Rightarrow> bool) \<Rightarrow> 'w ctd \<Rightarrow> bool" where
  "stop_done i gone s \<longleftrightarrow> gone (snd s) \<and> i \<notin> set (ct_stdin (fst s))"

definition stop_refused :: "('w, 'spec) ctd_client \<Rightarrow> container_id \<Rightarrow> ('w \<Rightarrow> bool) \<Rightarrow> 'w ctd \<Rightarrow> gerror \<Rightarrow> bool" where
  "stop_refused cl i gone s e \<longleftrightarrow> (responsive cl i gone \<longrightarrow>
     gone (snd s) \<and> (\<exists>e'. finished_error cl e' \<and> e = mapError (cl_errdefs cl) e'))"

lemma refused_calls:
  "cl_LoadContainer cl i w = (w', Inl e) \<Longrightarrow> stop_refused cl i gone (st, w') (mapError (cl_errdefs cl) e)"
  "cl_Task cl i w = (w', Some e) \<Longrightarrow> stop_refused cl i gone (st, w') (mapError (cl_errdefs cl) e)"
  "cl_Status cl (i, None) w = (w', Inl e) \<Longrightarrow> stop_refused cl i gone (st, w') (mapError (cl_errdefs cl) e)"
  "cl_Wait cl (i, None) w = (w', Some e) \<Longrightarrow> stop_refused cl i gone (st, w') (mapError (cl_errdefs cl) e)"
  "cl_CloseIO cl (i, None) w = (w', Some e) \<Longrightarrow> stop_refused cl i gone (st, w') (mapError (cl_errdefs cl) e)"
  "cl_Kill cl (i, None) sig w = (w', Some e) \<Longrightarrow> stop_refused cl i gone (st, w') (mapError (cl_errdefs cl) e)"
  unfolding stop_refused_def snd_conv
  by (blast dest: responsiveD(1) responsiveD(2) responsiveD(3) responsiveD(4) responsiveD(5)
      responsiveD(6) [of cl i gone sig] refusesD(1) refusesD(2))+

lemma released_done: "gone w \<Longrightarrow> stop_done i gone (releaseStdin i st, w)"
  by (simp add: stop_done_def releaseStdin_def)

lemma stoppableTask_outcome:
  assumes laws: "task_laws cl i gone" and run: "stoppableTask cl i (st, w) = (s', r)"
  shows "case r of Inl e \<Rightarrow> stop_refused cl i gone s' e | Inr b \<Rightarrow> b \<longrightarrow> stop_done i gone s'"
proof -
  note L = task_lawsD [OF laws]
  obtain w1 x where t: "cl_Task cl i w = (w1, x)" by fastforce
  obtain w2 y where u: "cl_Status cl (i, None) w1 = (w2, y)" by fastforce
  obtain w3 z where v: "cl_CloseIO cl (i, None) w2 = (w3, z)" by fastforce
  show ?thesis
  proof (cases x)
    case (Some e)
    with run t show ?thesis
      by (auto simp: stoppableTask_def intro!: released_done intro: L(7) refused_calls split: if_splits)
  next
    case None
    have "gone w3" if "y = Inr s" "s = TsCreated \<or> s = TsStopped" for s
      using L(8) u v that keepsD [OF L(5)] by blast
    with None run t u v show ?thesis
      by (auto simp: stoppableTask_def intro!: released_done intro: refused_calls
          split: if_splits sum.splits option.splits)
  qed
qed

lemma kill_and_wait_outcome:
  assumes laws: "task_laws cl i gone" and run: "kill_and_wait cl i (st, w) = (s', r)"
  shows "case r of None \<Rightarrow> stop_done i gone s' | Some e \<Rightarrow> stop_refused cl i gone s' e"
proof -
  note L = task_lawsD [OF laws]
  obtain w1 x where k: "cl_Kill cl (i, None) SIGKILL w = (w1, x)" by fastforce
  obtain w2 a where a: "cl_await cl (i, None) w1 = (w2, a)" by fastforce
  show ?thesis
  proof (cases x)
    case (Some e)
    with run k show ?thesis
      by (auto simp: kill_and_wait_def intro: refused_calls)
  next
    case None
    have "gone w2" if "exit_event a" using L(9) a that by blast
    moreover have "stop_refused cl i gone s e" if "a = CtxDone e" for s e
      using that a k None responsiveD(8) [of cl i gone w w1 w2 e] by (auto simp: stop_refused_def)
    ultimately show ?thesis using None run k a
      by (auto simp: kill_and_wait_def waitForExit_def exit_event_def intro!: released_done split: awaited.splits)
  qed
qed

lemma terminateWithTimeout_outcome:
  assumes laws: "task_laws cl i gone" and run: "terminateWithTimeout cl i t (st, w) = (s', r)"
  shows "case r of Inl e \<Rightarrow> stop_refused cl i gone s' e | Inr b \<Rightarrow> b \<longrightarrow> stop_done i gone s'"
proof -
  note L = task_lawsD [OF laws]
  obtain w1 x where k: "cl_Kill cl (i, None) SIGTERM w = (w1, x)" by fastforce
  obtain w2 a where a: "cl_awaitTimer cl (i, None) t w1 = (w2, a)" by fastforce
  show ?thesis
  proof (cases x)
    case (Some e)
    with run k show ?thesis
      by (auto simp: terminateWithTimeout_def intro: refused_calls)
  next
    case None
    have "gone w2" if "a = Some b" "exit_event b" for b using L(10) a that by blast
    moreover have "stop_refused cl i gone s e" if "a = Some (CtxDone e)" for s e
      using that a responsiveD(7) [of cl i gone t w1 w2 e] by (auto simp: stop_refused_def)
    ultimately show ?thesis using None run k a
      by (auto simp: terminateWithTimeout_def exit_event_def intro!: released_done split: option.splits awaited.splits)
  qed
qed

lemma Stop_outcome:
  assumes laws: "task_laws cl i gone" and run: "Stop cl i timeout (st, w) = (s', r)"
  shows "case r of None \<Rightarrow> stop_done i gone s' | Some e \<Rightarrow> stop_refused cl i gone s' e"
proof -
  obtain w1 h where l: "cl_LoadContainer cl i w = (w1, h)" by fastforce
  show ?thesis
  proof (cases h)
    case (Inl e)
    with run l show ?thesis
      by (auto simp: Stop_def loadContainer_def intro: refused_calls)
  next
    case (Inr c)
    obtain st2 w2 b where t: "stoppableTask cl i (st, w1) = ((st2, w2), b)" by (metis prod.collapse)
    note stoppable = stoppableTask_outcome [OF laws t]
    obtain w3 x where v: "cl_Wait cl (i, None) w2 = (w3, x)" by fastforce
    obtain s4 y where m: "terminateWithTimeout cl i timeout (st2, w3) = (s4, y)" by fastforce
    note polite = terminateWithTimeout_outcome [OF laws m]
    have kill: "kill_and_wait cl i s = (s', r) \<Longrightarrow> ?thesis" for s
      using kill_and_wait_outcome [OF laws, of "fst s" "snd s" s' r] by simp
    have wait: "x = Some e \<Longrightarrow> stop_refused cl i gone (st2, w3) (mapError (cl_errdefs cl) e)" for e
      using v by (auto intro: refused_calls)
    from run l Inr t v m show ?thesis
      using stoppable polite kill wait
      by (cases b; cases x; cases y)
        (auto simp: Stop_def loadContainer_def split: if_splits bool.splits)
  qed
qed

text \<open>The refresh after the stop brings no process and no input pipe back.\<close>

lemma ctd_Status_keeps:
  assumes "task_laws cl i gone"
  shows "keeps gone (ctd_Status cl i)"
proof -
  note L = task_lawsD [OF assms]
  show ?thesis
    unfolding keeps_def
    by (auto simp: ctd_Status_def loadContainer_def split: prod.split sum.split option.split
        dest: keepsD [OF L(1)] keepsD [OF L(2)] keepsD [OF L(3)])
qed

lemma ctd_Wait_keeps:
  assumes "task_laws cl i gone" and "stop_done i gone s"
  shows "stop_done i gone (fst (ctd_Wait cl i s))"
proof -
  note L = task_lawsD [OF assms(1)]
  obtain cs w where s: "s = (cs, w)" by fastforce
  obtain w1 h where 1: "cl_LoadContainer cl i w = (w1, h)" by fastforce
  obtain w2 x where 2: "cl_Task cl i w1 = (w2, x)" by fastforce
  obtain w3 y where 3: "cl_Wait cl (i, None) w2 = (w3, y)" by fastforce
  obtain w4 a where 4: "cl_await cl (i, None) w3 = (w4, a)" by fastforce
  have g: "gone w1" "gone w2" "gone w3" "gone w4"
    using assms(2) s keepsD [OF L(1) 1] keepsD [OF L(2) 2] keepsD [OF L(4) 3] keepsD [OF L(6) 4]
    by (auto simp: stop_done_def)
  with assms(2) s 1 2 3 4 show ?thesis
    by (auto simp: ctd_Wait_def loadContainer_def stop_done_def releaseStdin_def
        split: sum.split option.split awaited.split)
qed

lemma refresh_keeps:
  assumes "task_laws cl (c_ID c) gone" and "stop_done (c_ID c) gone s"
    and "refresh (with_runtime cl env) c (st, s) = ((st', s'), u, ch)"
  shows "stop_done (c_ID c) gone s'"
proof -
  obtain w1 x where q: "ctd_Status cl (c_ID c) (snd s) = (w1, x)" by fastforce
  have d: "stop_done (c_ID c) gone (fst s, w1)"
    using keepsD [OF ctd_Status_keeps [OF assms(1)] q] assms(2) by (simp add: stop_done_def)
  with ctd_Wait_keeps [OF assms(1) this] assms(3) q show ?thesis
    by (auto simp: refresh_def on_world_def Let_def split: sum.splits if_splits prod.splits)
qed

lemma finished_error_not_found:
  assumes "finished_error cl e"
  shows "errors_is (translateError (mapError (cl_errdefs cl) e)) (Ports PErrNotFound)"
  using assms
  by (simp add: finished_error_def mapError_def translateError_def isCanonicalError_def is_any_def not_found_sentinels_def
      newDockerError_def wrap_two_def)

text \<open>
  C5: stopping ends the process. Whatever the timeout and whatever calls the runtime refuses: when
  a stop of a container that has been started returns without an error, no process of it is
  running, its input pipe is closed and the registry records exactly this container as exited;
  when it returns an error, the records of the service are untouched. And on a responsive runtime
  no process is left in either case: the only error is then a not-found one, of a process that
  finished on its own while it was being stopped.
\<close>

theorem stop_ends_process:
  assumes "service_ok env st" and "live env" and "resolveContainer env ref (st, (cs, w)) = Inr c"
    and "c_State c \<noteq> ContainerStateCreated" and "task_laws cl (c_ID c) gone" and "\<forall>s. fst (se_now env s) = s"
    and "ContainerStop (with_runtime cl env) ref timeout (st, (cs, w)) = ((st', (cs', w')), r)"
  shows "(case r of
      None \<Rightarrow> gone w' \<and> c_ID c \<notin> set (ct_stdin cs') \<and> (\<exists>c'. replaced st st' c c' \<and> c_State c' = ContainerStateExited)
    | Some e \<Rightarrow> st' = st)
    \<and> (responsive cl (c_ID c) gone \<longrightarrow> gone w' \<and> (\<forall>e. r = Some e \<longrightarrow> errors_is e (Ports PErrNotFound)))"
proof -
  let ?env = "with_runtime cl env"
  define t where "t = (case timeout of Some t \<Rightarrow> if t \<ge> 0 then t else se_stopTimeout ?env | None \<Rightarrow> se_stopTimeout ?env)"
  obtain s1 x where stop: "Stop cl (c_ID c) t (cs, w) = (s1, x)" by fastforce
  note outcome = Stop_outcome [OF assms(5) stop]
  have ok: "service_ok ?env st" "live ?env" "resolveContainer ?env ref (st, (cs, w)) = Inr c"
    using assms(1-3) by simp_all
  note effect = ContainerStop_effect [OF ok assms(7)]
  show ?thesis
  proof (cases x)
    case (Some e)
    with assms(3,4,7) stop have "s1 = (cs', w')" "r = Some (translateError e)"
      by (auto simp: ContainerStop_def Let_def t_def [symmetric])
    with effect outcome Some show ?thesis
      by (auto simp: stop_refused_def intro: finished_error_not_found)
  next
    case None
    obtain st2 s2 u ch where ref: "refresh ?env c (st, s1) = ((st2, s2), u, ch)" by (metis prod.collapse)
    have fin: "stop_done (c_ID c) gone s2" using refresh_keeps [OF assms(5) _ ref] outcome None by simp
    have saved: "snd (svc_save ?env d (st1, v)) = v" for d st1 v
    proof -
      obtain n where "se_now env v = (v, n)" using assms(6) by (metis prod.collapse)
      then show ?thesis
        by (cases "Save (se_ctx env v) (d\<lparr>c_UpdatedAt := n\<rparr>) (sv_registry st1)") (simp_all add: svc_save_def)
    qed
    have "((st', (cs', w')), r) = (svc_save ?env ((if ch then u else c)\<lparr>c_State := ContainerStateExited\<rparr>)
        (closeLogSink (c_ID c) st2, s2), None)"
      using assms(3,4,7) stop None ref by (simp add: ContainerStop_def Let_def t_def [symmetric])
    then have "r = None" "(cs', w') = s2" using saved by (metis prod.inject snd_conv)+
    with fin effect assms(4) show ?thesis by (auto simp: stop_done_def)
  qed
qed

section \<open>A concrete runtime\<close>

text \<open>
  A container whose process ignores the polite signal; the world says whether it is still there, and
  signalling it afterwards is refused.
\<close>

definition finished :: gerror where
  "finished = NewErr ''process already finished''"

definition sample_client :: "(bool, unit) ctd_client" where
  "sample_client = \<lparr>cl_errdefs = \<lparr>IsNotFound = (\<lambda>e. e = finished), IsAlreadyExists = (\<lambda>e. False), IsConflict = (\<lambda>e. False),
       IsFailedPrecondition = (\<lambda>e. False), IsInvalidArgument = (\<lambda>e. False), IsOutOfRange = (\<lambda>e. False),
       IsUnavailable = (\<lambda>e. False), IsInternal = (\<lambda>e. False), IsUnknown = (\<lambda>e. False), IsAborted = (\<lambda>e. False),
       IsDataLoss = (\<lambda>e. False)\<rparr>,
     cl_GetImage = (\<lambda>r w. (w, None)), cl_ImageSpec = (\<lambda>r w. (w, Inl (NewErr ''none''))), cl_IsUnpacked = (\<lambda>r s w. (w, Inr True)),
     cl_Unpack = (\<lambda>r s w. (w, None)), cl_NewContainer = (\<lambda>r w. (w, None)), cl_LoadContainer = (\<lambda>i w. (w, Inr ([], []))),
     cl_FindContainerByName = (\<lambda>n w. (w, None)), cl_RemoveSnapshot = (\<lambda>s k w. (w, None)), cl_Labels = (\<lambda>i w. (w, Inr [])),
     cl_Process = (\<lambda>i w. (w, Inr None)), cl_NewTask = (\<lambda>i io w. (w, None)), cl_Task = (\<lambda>i w. (w, None)),
     cl_DeleteContainer = (\<lambda>i w. (w, None)), cl_Exec = (\<lambda>i x p io w. (w, None)), cl_Pid = (\<lambda>p w. 42),
     cl_Start = (\<lambda>p w. (w, None)), cl_Wait = (\<lambda>p w. (w, None)), 
     cl_Kill = (\<lambda>p sig w. (w \<and> sig \<noteq> SIGKILL, if w then None else Some finished)),
     cl_Resize = (\<lambda>p a b w. (w, None)), cl_CloseIO = (\<lambda>p w. (w, None)), cl_Delete = (\<lambda>p w. (w, Inr (Inr (137, zero_time)))),
     cl_Status = (\<lambda>p w. (w, Inr (if w then TsRunning else TsStopped))),
     cl_await = (\<lambda>p w. (False, GotExit (Inr (137, zero_time)))),
     cl_awaitTimer = (\<lambda>p t w. (w, if w then None else Some (GotExit (Inr (137, zero_time))))),
     cl_now = (\<lambda>w. zero_time), cl_newID = (\<lambda>w. (w, Inr ''c1'')), cl_generate = (\<lambda>n i m os. Inr ()),
     cl_applyOpts = (\<lambda>p os. Inr p), cl_ctxNamespace = None, cl_namespace = ''moby'', cl_snapshotter = []\<rparr>"

lemma sample_laws: "task_laws sample_client i Not"
  by (auto simp: task_laws_def keeps_def sample_client_def exit_event_def finished_def split: if_splits)

lemma sample_responsive: "responsive sample_client i Not"
  by (auto simp: responsive_def refuses_def result_error_def finished_error_def sample_client_def finished_def
      split: if_splits)

text \<open>
  The race of a stop: a process that finishes by itself when the grace period ends is gone before
  \<^verbatim>\<open>SIGKILL\<close> is sent, and the stop of a container that has stopped answers a not-found error.
\<close>

lemma stop_race_not_found:
  "Stop (sample_client\<lparr>cl_awaitTimer := (\<lambda>p t w. (False, None))\<rparr>) i 5 (cs, True)
    = ((cs, False), Some (wrap_two (Sentinel (Ctd CErrNotFound)) finished))"
  by (simp add: Stop_def loadContainer_def stoppableTask_def terminateWithTimeout_def kill_and_wait_def
      sample_client_def mapError_def finished_def)

text \<open>
  A status on the wait channel that carries the error of a broken wait is taken for the exit: the
  stop succeeds although the process is still there.
\<close>

lemma broken_wait_taken_for_exit:
  "Stop (sample_client\<lparr>cl_Kill := (\<lambda>p sig w. (w, None)), cl_await := (\<lambda>p w. (w, GotExit (Inl (NewErr ''connection lost''))))\<rparr>) i 0 (cs, True)
    = ((releaseStdin i cs, True), None)"
  by (simp add: Stop_def loadContainer_def stoppableTask_def kill_and_wait_def waitForExit_def sample_client_def)

definition runtime_cni_env :: "'w cni_env" where
  "runtime_cni_env = \<lparr>ce_confFiles = (\<lambda>fs. Inr []), ce_mkdir = None, ce_write = (\<lambda>p. None), ce_remove = (\<lambda>p. None),
     ce_loadConf = (\<lambda>fs p. None), ce_cached = (\<lambda>w. Inr []), ce_add = (\<lambda>p rt w. (w, Inl (NewErr ''no plugin''))),
     ce_del = (\<lambda>p rt w. (w, None)), ce_cachedConf = (\<lambda>p rt w. None), ce_deleteLink = (\<lambda>b w. (w, None)),
     ce_netns = (\<lambda>p i w. Inl (NewErr ''no namespace'')), ce_probe = (\<lambda>p ip req w. (w, Inr req))\<rparr>"

definition runtime_env :: "'w service_env" where
  "runtime_env = \<lparr>se_ctx = (\<lambda>w. Live), se_CreateContainer = (\<lambda>sp w. (w, Inr ''c7'')),
     se_StartWithIO = (\<lambda>i w. (w, None)), se_Stop = (\<lambda>i t w. (w, None)), se_Remove = (\<lambda>i w. (w, None)),
     se_Status = (\<lambda>i w. (w, Inr ContainerStateRunning)), se_Wait = (\<lambda>i w. (w, Inr \<lparr>pe_ExitCode = 0, pe_ExitedAt = zero_time\<rparr>)),
     se_Exec = (\<lambda>i q w. (w, Inl (NewErr ''no exec''))), se_ExecRecord = (\<lambda>i w. None),
     se_ImageInspect = (\<lambda>r w. (w, Inr sample_image)), se_ImageList = (\<lambda>w. (w, Inr [sample_image])),
     se_ImageRemove = (\<lambda>r w. (w, None)), se_ImageConfig = (\<lambda>r w. (w, Inl (NewErr ''no config''))),
     se_PullImage = (\<lambda>r a w. (w, Inr ''sha256:feed'')), se_BuildImage = (\<lambda>q w. (w, None)),
     se_TaskPID = (\<lambda>i w. (w, Inr 42)), se_openLog = (\<lambda>i w. (w, None)), se_removeLog = (\<lambda>i w. w),
     se_now = (\<lambda>w. (w, zero_time)), se_newID = (\<lambda>w. (w, Inr ''e1'')), se_NormalizeReference = (\<lambda>r. Inr r),
     se_encodeCommand = (\<lambda>c. ''[]''), se_encodeMounts = (\<lambda>m. ''[]''), se_cni = runtime_cni_env, se_cfg = sample_cfg,
     se_stopTimeout = 10, se_namespace = ''moby'', se_snapshotter = [], se_containerdSocket = [], se_buildkitSocket = []\<rparr>"

definition web_container :: container where
  "web_container = sample_container\<lparr>c_State := ContainerStateRunning\<rparr>"

definition web_service :: service_state where
  "web_service = sample_service\<lparr>sv_registry := \<lparr>byID = [(''c7'', web_container)], byName = [(''web'', ''c7'')]\<rparr>\<rparr>"

lemma web_saved: "Save Live web_container NewRegistry = Inr (sv_registry web_service)"
  by code_simp

lemma web_service_ok: "service_ok (runtime_env :: 'w service_env) web_service"
  using sample_service_ok [of "runtime_env :: 'w service_env"] Save_ok [OF NewRegistry_ok web_saved]
  by (simp add: service_ok_def web_service_def)

lemma web_resolve: "resolveContainer runtime_env ''web'' (web_service, v) = Inr web_container"
proof -
  have "TrimPrefix (TrimSpace ''web'') ''/'' = ''web''" by code_simp
  then show ?thesis
    by (simp add: resolveContainer_def Get_def GetByName_def web_service_def get_or_def Let_def runtime_env_def)
qed

theorem stop_ends_process_witness:
  "case ContainerStop (with_runtime sample_client runtime_env) ''web'' (Some 5)
       (web_service, (\<lparr>ct_stdin = [''c7''], ct_execs = []\<rparr>, True)) of
     ((st', (cs', w')), r) \<Rightarrow> r = None \<and> \<not> w' \<and> ''c7'' \<notin> set (ct_stdin cs')"
proof -
  let ?cs = "\<lparr>ct_stdin = [''c7''], ct_execs = []\<rparr>"
  obtain st' cs' w' r where run: "ContainerStop (with_runtime sample_client runtime_env) ''web'' (Some 5) (web_service, (?cs, True))
      = ((st', (cs', w')), r)" by (metis prod.collapse)
  have live: "live (runtime_env :: bool ctd service_env)" unfolding live_def by (simp add: runtime_env_def)
  have now: "\<forall>s :: bool ctd. fst (se_now runtime_env s) = s" by (simp add: runtime_env_def)
  have c: "c_ID web_container = ''c7''" "c_State web_container \<noteq> ContainerStateCreated"
    by (simp_all add: web_container_def)
  have stop: "snd (Stop sample_client ''c7'' 5 (?cs, True)) = None"
    by (simp add: Stop_def loadContainer_def stoppableTask_def terminateWithTimeout_def kill_and_wait_def
        waitForExit_def sample_client_def)
  have "r = None"
    using run c stop web_resolve [of "(?cs, True)"]
    by (auto simp: ContainerStop_def Let_def split: prod.splits option.splits)
  with stop_ends_process [OF web_service_ok live web_resolve c(2) sample_laws now run] run c show ?thesis
    by simp
qed

end
