(* ===== verification/Go_Path.thy ===== *)
theory Go_Path
  imports Go_Strings
begin

text \<open>
  The functions of Go's package \<^verbatim>\<open>path/filepath\<close> on Unix the daemon calls. A path is
  cleaned by reading its elements from left to right onto a stack: an empty element and
  \<^verbatim>\<open>.\<close> are dropped and \<^verbatim>\<open>..\<close> removes the element before it.
\<close>

definition IsAbs :: "string \<Rightarrow> bool" where
  "IsAbs p \<longleftrightarrow> HasPrefix p ''/''"

fun clean_elems :: "bool \<Rightarrow> string list \<Rightarrow> string list \<Rightarrow> string list" where
  "clean_elems rooted stack [] = rev stack"
| "clean_elems rooted stack (e # es) =
     (if e = [] \<or> e = ''.'' then clean_elems rooted stack es
      else if e = ''..'' then
        (case stack of
           [] \<Rightarrow> clean_elems rooted (if rooted then [] else [''..'']) es
         | t # ts \<Rightarrow> clean_elems rooted (if t = ''..'' then ''..'' # stack else ts) es)
      else clean_elems rooted (e # stack) es)"

definition Clean :: "string \<Rightarrow> string" where
  "Clean p = (let rooted = IsAbs p; out = Join ''/'' (clean_elems rooted [] (Split CHR ''/'' p))
     in if rooted then ''/'' @ out else if out = [] then ''.'' else out)"

text \<open>\<^verbatim>\<open>filepath.Dir\<close>: all but the last element, cleaned.\<close>

definition Dir :: "string \<Rightarrow> string" where
  "Dir p = Clean (rev (dropWhile (\<lambda>c. c \<noteq> CHR ''/'') (rev p)))"

text \<open>\<^verbatim>\<open>filepath.Abs\<close>, the working directory (or the error of \<^verbatim>\<open>os.Getwd\<close>) being the first argument.\<close>

definition Abs :: "'e + string \<Rightarrow> string \<Rightarrow> 'e + string" where
  "Abs wd p = (if IsAbs p then Inr (Clean p)
     else case wd of Inl e \<Rightarrow> Inl e | Inr d \<Rightarrow> Inr (Clean (d @ ''/'' @ p)))"

section \<open>A cleaned path is clean\<close>

text \<open>The elements a cleaned path has: \<^verbatim>\<open>..\<close> only at the front, and never in a rooted path.\<close>

definition clean_stack :: "bool \<Rightarrow> string list \<Rightarrow> bool" where
  "clean_stack rooted es \<longleftrightarrow> (\<forall>e\<in>set es. e \<noteq> [] \<and> e \<noteq> ''.'' \<and> CHR ''/'' \<notin> set e)
     \<and> (\<exists>k ns. es = replicate k ''..'' @ ns \<and> ''..'' \<notin> set ns \<and> (rooted \<longrightarrow> k = 0))"

lemma clean_stackI:
  "\<forall>e\<in>set (replicate k ''..'' @ ns). e \<noteq> [] \<and> e \<noteq> ''.'' \<and> CHR ''/'' \<notin> set e \<Longrightarrow> ''..'' \<notin> set ns
    \<Longrightarrow> (rooted \<longrightarrow> k = 0) \<Longrightarrow> clean_stack rooted (replicate k ''..'' @ ns)"
  by (auto simp: clean_stack_def)

lemma clean_stack_push:
  assumes "clean_stack r es" and "e \<noteq> []" "e \<noteq> ''.''" "e \<noteq> ''..''" "CHR ''/'' \<notin> set e"
  shows "clean_stack r (es @ [e])"
proof -
  obtain k ns where "es = replicate k ''..'' @ ns" "''..'' \<notin> set ns" "r \<longrightarrow> k = 0"
    using assms(1) by (auto simp: clean_stack_def)
  then show ?thesis using assms clean_stackI [of k "ns @ [e]" r] by (auto simp: clean_stack_def)
qed

lemma clean_stack_pop:
  assumes "clean_stack r (es @ [t])" and "t \<noteq> ''..''"
  shows "clean_stack r es"
proof -
  obtain k ns where ns: "es @ [t] = replicate k ''..'' @ ns" "''..'' \<notin> set ns" "r \<longrightarrow> k = 0"
    using assms(1) by (auto simp: clean_stack_def)
  show ?thesis
  proof (cases ns rule: rev_cases)
    case Nil
    with ns(1) have "t \<in> set (replicate k ''..'')" by (metis append.right_neutral in_set_conv_decomp)
    with assms(2) show ?thesis by simp
  next
    case (snoc ms m)
    then show ?thesis using ns assms(1) clean_stackI [of k ms r] by (auto simp: clean_stack_def)
  qed
qed

lemma clean_stack_up:
  assumes "clean_stack r es" and "es = [] \<or> last es = ''..''" and "\<not> r \<or> es \<noteq> []"
  shows "clean_stack r (es @ [''..''])"
proof -
  obtain k ns where ns: "es = replicate k ''..'' @ ns" "''..'' \<notin> set ns" "r \<longrightarrow> k = 0"
    using assms(1) by (auto simp: clean_stack_def)
  have "ns = []" using ns(1,2) assms(2) by (metis append_is_Nil_conv last_appendR last_in_set)
  then have "es @ [''..''] = replicate (Suc k) ''..'' @ []" using ns(1) by (simp add: replicate_append_same)
  moreover have "\<not> r" using assms(3) ns \<open>ns = []\<close> by auto
  ultimately show ?thesis using clean_stackI [of "Suc k" "[]" r] by auto
qed

lemma clean_elems_stack:
  assumes "clean_stack r (rev st)" and "\<forall>e\<in>set es. CHR ''/'' \<notin> set e"
  shows "clean_stack r (clean_elems r st es)"
  using assms
proof (induction r st es rule: clean_elems.induct)
  case (2 r st e es)
  show ?case
  proof (cases "e = ''..''")
    case True
    show ?thesis
    proof (cases st)
      case Nil
      have "clean_stack r (rev (if r then [] else [''..'']))"
        using clean_stack_up [of r "[]"] 2(5) Nil by (cases r) auto
      then show ?thesis using 2(2) [OF _ True Nil] True Nil 2(6) by simp
    next
      case (Cons t ts)
      have "clean_stack r (rev (if t = ''..'' then ''..'' # st else ts))"
        using clean_stack_up [of r "rev st"] clean_stack_pop [of r "rev ts" t] 2(5) Cons by auto
      then show ?thesis using 2(3) [OF _ True Cons] True Cons 2(6) by (simp split: if_splits)
    qed
  next
    case False
    then show ?thesis using 2 clean_stack_push [of r "rev st" e] by auto
  qed
qed simp

lemma clean_elems_replicate:
  assumes "st = [] \<or> hd st = ''..''"
  shows "clean_elems False st (replicate k ''..'' @ es) = clean_elems False (replicate k ''..'' @ st) es"
  using assms
proof (induction k arbitrary: st)
  case (Suc k)
  then show ?case
    by (cases st) (simp_all add: replicate_app_Cons_same)
qed simp

lemma clean_elems_plain:
  "\<forall>e\<in>set es. e \<noteq> [] \<and> e \<noteq> ''.'' \<and> e \<noteq> ''..'' \<Longrightarrow> clean_elems r st es = rev st @ es"
  by (induction es arbitrary: st) auto

lemma clean_elems_id:
  assumes "clean_stack r es"
  shows "clean_elems r [] es = es"
proof -
  obtain k ns where ns: "es = replicate k ''..'' @ ns" "''..'' \<notin> set ns" "r \<longrightarrow> k = 0"
    using assms by (auto simp: clean_stack_def)
  have plain: "\<forall>e\<in>set ns. e \<noteq> [] \<and> e \<noteq> ''.'' \<and> e \<noteq> ''..''"
    using assms ns by (auto simp: clean_stack_def)
  show ?thesis
    using ns clean_elems_plain [OF plain] clean_elems_replicate [of "[]" k ns] by (cases r) auto
qed

lemma Split_Join:
  "es \<noteq> [] \<Longrightarrow> \<forall>e\<in>set es. c \<notin> set e \<Longrightarrow> Split c (Join [c] es) = es"
proof (induction es rule: induct_list012)
  case (3 x y zs)
  then show ?case by (simp add: Split_append)
qed (auto simp: Split_no_sep)

lemma clean_elems_Split_Join:
  assumes "clean_stack r es"
  shows "clean_elems r [] (Split CHR ''/'' (Join ''/'' es)) = es"
  using assms clean_elems_id [OF assms] Split_Join [of es "CHR ''/''"]
  by (cases "es = []") (auto simp: clean_stack_def)

lemma Join_not_abs:
  assumes "clean_stack r es"
  shows "\<not> IsAbs (Join ''/'' es)"
proof (cases es rule: remdups_adj.cases)
  case (2 x)
  then show ?thesis using assms by (cases x) (auto simp: clean_stack_def IsAbs_def HasPrefix_def)
next
  case (3 x y zs)
  then show ?thesis using assms by (cases x) (auto simp: clean_stack_def IsAbs_def HasPrefix_def)
qed (simp add: IsAbs_def HasPrefix_def)

theorem Clean_idem: "Clean (Clean p) = Clean p"
proof -
  define es where "es = clean_elems (IsAbs p) [] (Split CHR ''/'' p)"
  have cs: "clean_stack (IsAbs p) es"
    unfolding es_def by (rule clean_elems_stack) (auto simp: clean_stack_def dest: Split_parts_no_sep)
  show ?thesis
  proof (cases "IsAbs p")
    case True
    then have eq: "Clean p = CHR ''/'' # Join ''/'' es" by (simp add: Clean_def es_def)
    then have "Split CHR ''/'' (Clean p) = [] # Split CHR ''/'' (Join ''/'' es)" "IsAbs (Clean p)"
      by (simp_all add: IsAbs_def HasPrefix_def)
    then have "Clean (Clean p) = CHR ''/'' # Join ''/'' (clean_elems True [] (Split CHR ''/'' (Join ''/'' es)))"
      by (simp add: Clean_def)
    then show ?thesis using clean_elems_Split_Join [of True es] cs True eq by simp
  next
    case False
    show ?thesis
    proof (cases "Join ''/'' es = []")
      case True
      then have "Clean p = ''.''" using False by (simp add: Clean_def es_def)
      then show ?thesis by (simp add: Clean_def IsAbs_def HasPrefix_def)
    next
      case nonempty: False
      then have eq: "Clean p = Join ''/'' es" using False by (simp add: Clean_def es_def)
      then show ?thesis
        using clean_elems_Split_Join [OF cs] Join_not_abs [OF cs] False nonempty by (simp add: Clean_def)
    qed
  qed
qed

end
