(* ===== verification/Go_Local.thy ===== *)
theory Go_Local
  imports Go_Path
begin

text \<open>
  \<^verbatim>\<open>filepath.Join\<close> and \<^verbatim>\<open>filepath.IsLocal\<close> on Unix, and what \<^verbatim>\<open>IsLocal\<close> means: read
  element by element from a directory, the path never leaves it.
\<close>

definition PathJoin :: "string list \<Rightarrow> string" where
  "PathJoin es = (case dropWhile (\<lambda>e. e = []) es of [] \<Rightarrow> [] | f # fs \<Rightarrow> Clean (Join ''/'' (f # fs)))"

definition IsLocal :: "string \<Rightarrow> bool" where
  "IsLocal p \<longleftrightarrow> (if IsAbs p \<or> p = [] then False
     else let hasDots = list_ex (\<lambda>part. part = ''.'' \<or> part = ''..'') (Split CHR ''/'' p);
              q = (if hasDots then Clean p else p)
          in \<not> (q = ''..'' \<or> HasPrefix q ''../''))"

text \<open>A relative path whose resolution leaves no \<^verbatim>\<open>..\<close> behind.\<close>

definition inside :: "string \<Rightarrow> bool" where
  "inside p \<longleftrightarrow> \<not> IsAbs p \<and> ''..'' \<notin> set (clean_elems False [] (Split CHR ''/'' p))"

lemma clean_stack_elems: "clean_stack r (clean_elems r [] (Split CHR ''/'' p))"
  by (rule clean_elems_stack) (auto simp: clean_stack_def dest: Split_parts_no_sep)

lemma prefix_dotdot:
  assumes "CHR ''/'' \<notin> set e"
  shows "HasPrefix (e @ CHR ''/'' # s) ''../'' \<longleftrightarrow> e = ''..''"
proof
  assume "HasPrefix (e @ CHR ''/'' # s) ''../''"
  then obtain t where t: "e @ CHR ''/'' # s = ''..'' @ CHR ''/'' # t" by (auto simp: HasPrefix_def prefix_def)
  have "takeWhile (\<lambda>c. c \<noteq> CHR ''/'') (e @ CHR ''/'' # s) = e"
    using assms by (subst takeWhile_append2) auto
  with t show "e = ''..''" by simp
qed (simp add: HasPrefix_def)

lemma no_slash_prefix: "CHR ''/'' \<notin> set e \<Longrightarrow> \<not> HasPrefix e ''../''"
  by (auto simp: HasPrefix_def prefix_def)

lemma Join_dotdot:
  assumes "clean_stack r es"
  shows "Join ''/'' es = ''..'' \<or> HasPrefix (Join ''/'' es) ''../'' \<longleftrightarrow> es \<noteq> [] \<and> hd es = ''..''"
proof (cases es rule: remdups_adj.cases)
  case (2 x)
  then have "CHR ''/'' \<notin> set x" using assms by (simp add: clean_stack_def)
  then show ?thesis using 2 no_slash_prefix [of x] by simp
next
  case (3 x y zs)
  then have x: "CHR ''/'' \<notin> set x" using assms by (simp add: clean_stack_def)
  have j: "Join ''/'' es = x @ CHR ''/'' # Join ''/'' (y # zs)" using 3 by simp
  have "Join ''/'' es \<noteq> ''..''"
  proof
    assume "Join ''/'' es = ''..''"
    then have "CHR ''/'' \<in> set ''..''" using j by (metis in_set_conv_decomp)
    then show False by simp
  qed
  then show ?thesis using prefix_dotdot [OF x] j 3 by simp
qed (simp add: HasPrefix_def)

lemma clean_stack_dotdot: "clean_stack r es \<Longrightarrow> ''..'' \<in> set es \<longleftrightarrow> es \<noteq> [] \<and> hd es = ''..''"
proof -
  assume "clean_stack r es"
  then obtain k ns where "es = replicate k ''..'' @ ns" "''..'' \<notin> set ns" by (auto simp: clean_stack_def)
  then show ?thesis by (cases k; cases ns) auto
qed

lemma clean_elems_subset: "''..'' \<notin> set es \<Longrightarrow> set (clean_elems r st es) \<subseteq> set st \<union> set es"
  by (induction r st es rule: clean_elems.induct) (auto split: if_splits)

lemma Split_dotdot_prefix: "HasPrefix p ''../'' \<Longrightarrow> ''..'' \<in> set (Split CHR ''/'' p)"
  by (auto simp: HasPrefix_def prefix_def)

theorem IsLocal_inside: "IsLocal p \<longleftrightarrow> p \<noteq> [] \<and> inside p"
proof (cases "IsAbs p \<or> p = []")
  case True
  then show ?thesis by (auto simp: IsLocal_def inside_def)
next
  case False
  let ?es = "clean_elems False [] (Split CHR ''/'' p)"
  have cs: "clean_stack False ?es" by (rule clean_stack_elems)
  show ?thesis
  proof (cases "list_ex (\<lambda>part. part = ''.'' \<or> part = ''..'') (Split CHR ''/'' p)")
    case True
    have "Clean p = (if Join ''/'' ?es = [] then ''.'' else Join ''/'' ?es)" using False by (simp add: Clean_def Let_def)
    then have "Clean p = ''..'' \<or> HasPrefix (Clean p) ''../'' \<longleftrightarrow> Join ''/'' ?es = ''..'' \<or> HasPrefix (Join ''/'' ?es) ''../''"
      by (auto simp: HasPrefix_def)
    then show ?thesis
      using False True Join_dotdot [OF cs] clean_stack_dotdot [OF cs] by (auto simp: IsLocal_def inside_def Let_def)
  next
    case plain: False
    then have "''..'' \<notin> set (Split CHR ''/'' p)" by (auto simp: list_ex_iff)
    moreover from this have "''..'' \<notin> set ?es" using clean_elems_subset [of "Split CHR ''/'' p" False "[]"] by auto
    moreover have "p \<noteq> ''..''" using calculation(1) by auto
    ultimately show ?thesis using False plain Split_dotdot_prefix [of p] by (auto simp: IsLocal_def inside_def)
  qed
qed

lemma not_abs_Clean: "\<not> IsAbs p \<Longrightarrow> \<not> IsAbs (Clean p)"
  using Join_not_abs [OF clean_stack_elems [of False p]] by (auto simp: Clean_def Let_def IsAbs_def HasPrefix_def)

lemma inside_Clean: "inside p \<Longrightarrow> inside (Clean p)"
proof -
  assume p: "inside p"
  let ?es = "clean_elems False [] (Split CHR ''/'' p)"
  have "Clean p = (if Join ''/'' ?es = [] then ''.'' else Join ''/'' ?es)" using p by (simp add: Clean_def Let_def inside_def)
  then have "clean_elems False [] (Split CHR ''/'' (Clean p)) = (if Join ''/'' ?es = [] then [] else ?es)"
    using clean_elems_Split_Join [OF clean_stack_elems [of False p]] by simp
  then show ?thesis using p not_abs_Clean by (auto simp: inside_def)
qed

lemma clean_elems_dotdot_kept: "''..'' \<in> set st \<Longrightarrow> last st = ''..'' \<Longrightarrow> ''..'' \<in> set (clean_elems False st es)"
proof (induction es arbitrary: st)
  case (Cons e es)
  obtain t ts where st: "st = t # ts" using Cons.prems by (cases st) auto
  have "''..'' \<in> set ts \<and> last ts = ''..''" if "t \<noteq> ''..''"
    using Cons.prems st that by (cases ts) auto
  then show ?case using Cons st by (auto simp: last_ConsR)
qed simp

lemma Split_sep: "Split c (u @ c # t) = Split c u @ Split c t"
  by (induction u rule: Split.induct) (auto simp: neq_Nil_conv split: list.splits)

lemma clean_elems_append:
  "clean_elems False st (es @ fs) = clean_elems False (rev (clean_elems False st es)) fs"
  by (induction "False" st es rule: clean_elems.induct) (auto split: list.splits)

lemma clean_elems_take:
  assumes "''..'' \<notin> set (clean_elems False [] (es @ fs))" and "\<forall>e\<in>set es. CHR ''/'' \<notin> set e"
  shows "''..'' \<notin> set (clean_elems False [] es)"
proof
  assume dots: "''..'' \<in> set (clean_elems False [] es)"
  have "clean_stack False (clean_elems False [] es)"
    by (rule clean_elems_stack) (use assms(2) in \<open>auto simp: clean_stack_def\<close>)
  then have "last (rev (clean_elems False [] es)) = ''..''"
    using dots clean_stack_dotdot by (metis last_rev)
  then show False using clean_elems_dotdot_kept [of "rev (clean_elems False [] es)" fs] dots assms(1)
    by (simp add: clean_elems_append)
qed

lemma inside_Dir:
  assumes "inside p"
  shows "inside (Dir p)"
proof -
  define q where "q = rev (dropWhile (\<lambda>c. c \<noteq> CHR ''/'') (rev p))"
  define t where "t = rev (takeWhile (\<lambda>c. c \<noteq> CHR ''/'') (rev p))"
  have p: "p = q @ t"
    by (metis q_def t_def rev_append rev_rev_ident takeWhile_dropWhile_id)
  have "inside q"
  proof (cases "q = []")
    case False
    then have "dropWhile (\<lambda>c. c \<noteq> CHR ''/'') (rev p) \<noteq> []" unfolding q_def by blast
    from hd_dropWhile [OF this] have "last q = CHR ''/''" unfolding q_def last_rev by blast
    then obtain u where u: "q = u @ [CHR ''/'']" using False by (metis append_butlast_last_id)
    have "Split CHR ''/'' p = Split CHR ''/'' u @ Split CHR ''/'' t" "Split CHR ''/'' q = Split CHR ''/'' u @ [[]]"
      using p u by (simp_all add: Split_sep)
    moreover have "\<forall>e\<in>set (Split CHR ''/'' u). CHR ''/'' \<notin> set e" by (auto dest: Split_parts_no_sep)
    ultimately have "''..'' \<notin> set (clean_elems False [] (Split CHR ''/'' u))"
      using assms clean_elems_take by (auto simp: inside_def)
    then have "''..'' \<notin> set (clean_elems False [] (Split CHR ''/'' q))"
      using \<open>Split CHR ''/'' q = _\<close> by (simp add: clean_elems_append)
    moreover have "\<not> IsAbs q" using assms p False by (cases q) (auto simp: inside_def IsAbs_def HasPrefix_def)
    ultimately show ?thesis by (simp add: inside_def)
  qed (simp add: inside_def IsAbs_def HasPrefix_def)
  then show ?thesis using inside_Clean by (simp add: Dir_def q_def)
qed

end
