(* ===== verification/Bk_Context.thy ===== *)
theory Bk_Context
  imports Go_Local Go_Errors
begin

text \<open>
  \<^verbatim>\<open>internal/adapters/buildkit/build.go\<close>, the build context: the entries of the request's tar
  archive are written below a temporary directory through an \<^verbatim>\<open>os.Root\<close>. The file system and the
  decoding of the archive are parameters (\<open>context_env\<close>): an archive is the headers and bodies
  \<^verbatim>\<open>archive/tar\<close> reads, then the end or the error that stops it. A body is its bytes and the
  error its reader ends with, if any. Closing the descriptors, whose errors the code drops, is left
  out.
\<close>

unbundle bit_operations_syntax

datatype typeflag = TypeDir | TypeReg | TypeSymlink | TypeLink | TypeOther

record tar_header =
  th_Name :: string
  th_Linkname :: string
  th_Typeflag :: typeflag
  th_Mode :: int

type_synonym tar_body = "string \<times> gerror option"
type_synonym tar_stream = "(tar_header \<times> tar_body) list \<times> gerror option"

datatype stat_result = StatOk | StatNotExist gerror | StatErr gerror

record 'w context_env =
  ce_tar :: "string \<Rightarrow> tar_stream"
  ce_MkdirTemp :: "string \<Rightarrow> string \<Rightarrow> 'w \<Rightarrow> 'w \<times> (gerror + string)"
  ce_RemoveAll :: "string \<Rightarrow> 'w \<Rightarrow> 'w \<times> gerror option"
  ce_Stat :: "string \<Rightarrow> 'w \<Rightarrow> stat_result"
  ce_OpenRoot :: "string \<Rightarrow> 'w \<Rightarrow> gerror option"
  ce_MkdirAll :: "string \<Rightarrow> string \<Rightarrow> int \<Rightarrow> 'w \<Rightarrow> 'w \<times> gerror option"
  ce_OpenFile :: "string \<Rightarrow> string \<Rightarrow> int \<Rightarrow> 'w \<Rightarrow> 'w \<times> gerror option"
  ce_Copy :: "string \<Rightarrow> string \<Rightarrow> tar_body \<Rightarrow> 'w \<Rightarrow> 'w \<times> gerror option"
  ce_Symlink :: "string \<Rightarrow> string \<Rightarrow> string \<Rightarrow> 'w \<Rightarrow> 'w \<times> gerror option"
  ce_Link :: "string \<Rightarrow> string \<Rightarrow> string \<Rightarrow> 'w \<Rightarrow> 'w \<times> gerror option"

abbreviation invalid_context :: "string \<Rightarrow> gerror" where
  "invalid_context m \<equiv> wrap_post (Sentinel (Buildkit ErrInvalidContext)) ('': '' @ m)"

definition invalid_context_err :: "string \<Rightarrow> gerror \<Rightarrow> gerror" where
  "invalid_context_err m e =
     Wrapf (buildkit_msg ErrInvalidContext @ '': '' @ m @ '': '' @ err_msg e) [Sentinel (Buildkit ErrInvalidContext), e]"

text \<open>A call whose error is reported with a text of its own.\<close>

definition io_err :: "string \<Rightarrow> 'w \<times> gerror option \<Rightarrow> 'w \<times> gerror option" where
  "io_err m r = (case r of (w, None) \<Rightarrow> (w, None) | (w, Some e) \<Rightarrow> (w, Some (invalid_context_err m e)))"

definition io_then :: "'w \<times> gerror option \<Rightarrow> ('w \<Rightarrow> 'w \<times> gerror option) \<Rightarrow> 'w \<times> gerror option" where
  "io_then r f = (case r of (w, None) \<Rightarrow> f w | (w, Some e) \<Rightarrow> (w, Some e))"

definition dockerfileName :: "string \<Rightarrow> string" where
  "dockerfileName value = (let v = TrimSpace value in if v = [] then ''Dockerfile'' else v)"

definition directoryMode :: "tar_header \<Rightarrow> int" where
  "directoryMode h = (let mode = th_Mode h AND 511; mode = (if mode = 0 then 493 else mode) in mode OR 448)"

definition fileMode :: "tar_header \<Rightarrow> int" where
  "fileMode h = (let mode = th_Mode h AND 511 in if mode = 0 then 420 else mode)"

definition safeTarPath :: "string \<Rightarrow> gerror + string" where
  "safeTarPath name = (let cleaned = Clean (TrimPrefix name ''./'') in
     if \<not> IsLocal cleaned then Inl (invalid_context (''archive entry '' @ quote name @ '' escapes the build context''))
     else Inr cleaned)"

definition ensureParent :: "'w context_env \<Rightarrow> string \<Rightarrow> string \<Rightarrow> 'w \<Rightarrow> 'w \<times> gerror option" where
  "ensureParent env root name w = (let parent = Dir name in
     if parent = ''.'' then (w, None)
     else io_err (''create directory '' @ quote parent) (ce_MkdirAll env root parent 493 w))"

definition writeTarFile :: "'w context_env \<Rightarrow> string \<Rightarrow> string \<Rightarrow> tar_header \<Rightarrow> tar_body \<Rightarrow> 'w \<Rightarrow> 'w \<times> gerror option" where
  "writeTarFile env root name h body w =
     io_then (io_then (ensureParent env root name w)
       (\<lambda>w. io_err (''create file '' @ quote name) (ce_OpenFile env root name (fileMode h) w)))
       (\<lambda>w. io_err (''write file '' @ quote name) (ce_Copy env root name body w))"

definition createTarSymlink :: "'w context_env \<Rightarrow> string \<Rightarrow> string \<Rightarrow> string \<Rightarrow> 'w \<Rightarrow> 'w \<times> gerror option" where
  "createTarSymlink env root name target w =
    (if IsAbs target then (w, Some (invalid_context (''symlink '' @ quote name @ '' has absolute target '' @ quote target)))
     else let resolved = PathJoin [Dir name, target] in
       if \<not> IsLocal resolved then (w, Some (invalid_context (''symlink '' @ quote name @ '' escapes the context'')))
       else io_then (ensureParent env root name w)
         (\<lambda>w. io_err (''create symlink '' @ quote name) (ce_Symlink env root target name w)))"

definition extractTarHardlink :: "'w context_env \<Rightarrow> string \<Rightarrow> string \<Rightarrow> tar_header \<Rightarrow> 'w \<Rightarrow> 'w \<times> gerror option" where
  "extractTarHardlink env root name h w = (case safeTarPath (th_Linkname h) of
     Inl e \<Rightarrow> (w, Some e)
   | Inr link \<Rightarrow> io_then (ensureParent env root name w)
       (\<lambda>w. io_err (''link '' @ quote name @ '' to '' @ quote link) (ce_Link env root link name w)))"

definition extractTarEntry :: "'w context_env \<Rightarrow> string \<Rightarrow> tar_header \<Rightarrow> tar_body \<Rightarrow> 'w \<Rightarrow> 'w \<times> gerror option" where
  "extractTarEntry env root h body w = (case safeTarPath (th_Name h) of
     Inl e \<Rightarrow> (w, Some e)
   | Inr name \<Rightarrow>
      if name = ''.'' then (w, None)
      else (case th_Typeflag h of
        TypeDir \<Rightarrow> io_err (''create directory '' @ quote name) (ce_MkdirAll env root name (directoryMode h) w)
      | TypeReg \<Rightarrow> writeTarFile env root name h body w
      | TypeSymlink \<Rightarrow> createTarSymlink env root name (th_Linkname h) w
      | TypeLink \<Rightarrow> extractTarHardlink env root name h w
      | TypeOther \<Rightarrow> (w, None)))"

fun extract_entries :: "'w context_env \<Rightarrow> string \<Rightarrow> (tar_header \<times> tar_body) list \<Rightarrow> gerror option \<Rightarrow> 'w
    \<Rightarrow> 'w \<times> gerror option" where
  "extract_entries env root [] None w = (w, None)"
| "extract_entries env root [] (Some e) w = (w, Some (invalid_context_err ''read tar stream'' e))"
| "extract_entries env root ((h, b) # es) r w =
     io_then (extractTarEntry env root h b w) (extract_entries env root es r)"

definition extractTarContext :: "'w context_env \<Rightarrow> string \<Rightarrow> string \<Rightarrow> 'w \<Rightarrow> 'w \<times> gerror option" where
  "extractTarContext env reader root w = (case ce_OpenRoot env root w of
     Some e \<Rightarrow> (w, Some (invalid_context_err ''open context root'' e))
   | None \<Rightarrow> (case ce_tar env reader of (es, r) \<Rightarrow> extract_entries env root es r w))"

definition cleanupContext :: "'w context_env \<Rightarrow> string \<Rightarrow> 'w \<Rightarrow> 'w" where
  "cleanupContext env dir w = (if dir = [] then w else fst (ce_RemoveAll env dir w))"

definition check_dockerfile :: "'w context_env \<Rightarrow> string \<Rightarrow> string \<Rightarrow> 'w \<Rightarrow> gerror option" where
  "check_dockerfile env dir name w =
    (if \<not> IsLocal name then Some (invalid_context (''invalid Dockerfile path '' @ quote name))
     else case ce_Stat env (PathJoin [dir, name]) w of
       StatOk \<Rightarrow> None
     | StatNotExist e \<Rightarrow> Some (invalid_context (''cannot locate specified Dockerfile: '' @ name))
     | StatErr e \<Rightarrow> Some (invalid_context_err ''stat Dockerfile'' e))"

definition materializeContext :: "'w context_env \<Rightarrow> string \<Rightarrow> string \<Rightarrow> string \<Rightarrow> 'w \<Rightarrow> 'w \<times> (gerror + string)" where
  "materializeContext env tempRoot reader dockerfile w =
    (case ce_MkdirTemp env tempRoot ''dockerdless-build-*'' w of
       (w1, Inl e) \<Rightarrow> (w1, Inl (invalid_context_err ''create temp context'' e))
     | (w1, Inr dir) \<Rightarrow>
        (case extractTarContext env reader dir w1 of
           (w2, Some e) \<Rightarrow> (cleanupContext env dir w2, Inl e)
         | (w2, None) \<Rightarrow>
            (case check_dockerfile env dir (dockerfileName dockerfile) w2 of
               Some e \<Rightarrow> (cleanupContext env dir w2, Inl e)
             | None \<Rightarrow> (w2, Inr dir))))"

section \<open>Nothing is written outside the context\<close>

text \<open>
  A property of the world that the operations below \<open>root\<close> keep when they are given names that stay
  inside it and links whose targets do.
\<close>

definition safe_link :: "string \<Rightarrow> string \<Rightarrow> bool" where
  "safe_link name target \<longleftrightarrow> inside name \<and> \<not> IsAbs target \<and> inside (PathJoin [Dir name, target])"

definition confined :: "'w context_env \<Rightarrow> string \<Rightarrow> ('w \<Rightarrow> bool) \<Rightarrow> bool" where
  "confined env root I \<longleftrightarrow>
     (\<forall>name mode w. inside name \<longrightarrow> I w \<longrightarrow> I (fst (ce_MkdirAll env root name mode w)))
   \<and> (\<forall>name mode w. inside name \<longrightarrow> I w \<longrightarrow> I (fst (ce_OpenFile env root name mode w)))
   \<and> (\<forall>name body w. inside name \<longrightarrow> I w \<longrightarrow> I (fst (ce_Copy env root name body w)))
   \<and> (\<forall>name target w. safe_link name target \<longrightarrow> I w \<longrightarrow> I (fst (ce_Symlink env root target name w)))
   \<and> (\<forall>name link w. inside name \<longrightarrow> inside link \<longrightarrow> I w \<longrightarrow> I (fst (ce_Link env root link name w)))"

lemma confinedD:
  assumes "confined env root I" and "inside name" and "I w"
  shows "I (fst (ce_MkdirAll env root name mode w))" and "I (fst (ce_OpenFile env root name mode w))"
    and "I (fst (ce_Copy env root name body w))"
    and "safe_link name target \<Longrightarrow> I (fst (ce_Symlink env root target name w))"
    and "inside link \<Longrightarrow> I (fst (ce_Link env root link name w))"
  using assms unfolding confined_def by blast+

lemma fst_io_err [simp]: "fst (io_err m r) = fst r"
  by (auto simp: io_err_def split: prod.splits option.splits)

lemma io_then_inv: "I (fst r) \<Longrightarrow> (\<And>w. I w \<Longrightarrow> I (fst (f w))) \<Longrightarrow> I (fst (io_then r f))"
  by (auto simp: io_then_def split: prod.splits option.splits)

lemma safeTarPath_iff:
  "safeTarPath name = Inr p \<longleftrightarrow> p = Clean (TrimPrefix name ''./'') \<and> inside p"
proof -
  have "Clean q \<noteq> []" for q by (simp add: Clean_def Let_def)
  then show ?thesis by (auto simp: safeTarPath_def Let_def IsLocal_inside)
qed

lemma ensureParent_inv: "confined env root I \<Longrightarrow> inside name \<Longrightarrow> I w \<Longrightarrow> I (fst (ensureParent env root name w))"
  using inside_Dir [of name] by (auto simp: ensureParent_def confined_def Let_def)

lemma extractTarEntry_inv:
  assumes "confined env root I" and "I w"
  shows "I (fst (extractTarEntry env root h body w))"
proof (cases "safeTarPath (th_Name h)")
  case (Inr name)
  then have name: "inside name" by (auto simp: safeTarPath_iff)
  note parent = ensureParent_inv [OF assms(1) name assms(2)]
  have "I (fst (writeTarFile env root name h body w))"
    unfolding writeTarFile_def
    by (rule io_then_inv [where I = I, OF io_then_inv [where I = I, OF parent]]) (simp_all add: confinedD [OF assms(1) name])
  moreover have "I (fst (createTarSymlink env root name (th_Linkname h) w))"
  proof (cases "IsAbs (th_Linkname h) \<or> \<not> IsLocal (PathJoin [Dir name, th_Linkname h])")
    case False
    then have "safe_link name (th_Linkname h)" using name by (simp add: safe_link_def IsLocal_inside)
    then have "I (fst (io_then (ensureParent env root name w)
        (\<lambda>w. io_err (''create symlink '' @ quote name) (ce_Symlink env root (th_Linkname h) name w))))"
      by (intro io_then_inv [where I = I, OF parent]) (simp add: confinedD [OF assms(1) name])
    then show ?thesis using False by (simp add: createTarSymlink_def)
  qed (use assms(2) in \<open>auto simp: createTarSymlink_def\<close>)
  moreover have "I (fst (extractTarHardlink env root name h w))"
  proof (cases "safeTarPath (th_Linkname h)")
    case (Inr link)
    then have "inside link" by (auto simp: safeTarPath_iff)
    then have "I (fst (io_then (ensureParent env root name w)
        (\<lambda>w. io_err (''link '' @ quote name @ '' to '' @ quote link) (ce_Link env root link name w))))"
      by (intro io_then_inv [where I = I, OF parent]) (simp add: confinedD [OF assms(1) name])
    then show ?thesis using Inr by (simp add: extractTarHardlink_def)
  qed (use assms(2) in \<open>simp add: extractTarHardlink_def\<close>)
  moreover have "I (fst (ce_MkdirAll env root name (directoryMode h) w))" using assms name by (simp add: confinedD)
  ultimately show ?thesis using Inr assms(2) by (simp add: extractTarEntry_def split: typeflag.split)
qed (use assms(2) in \<open>simp add: extractTarEntry_def\<close>)

lemma extract_entries_inv:
  "confined env root I \<Longrightarrow> I w \<Longrightarrow> I (fst (extract_entries env root es r w))"
proof (induction es arbitrary: w)
  case (Cons e es)
  obtain h b where e: "e = (h, b)" by (cases e)
  have "I (fst (io_then (extractTarEntry env root h b w) (extract_entries env root es r)))"
    by (rule io_then_inv [where I = I]) (simp_all add: Cons extractTarEntry_inv)
  then show ?case by (simp add: e)
qed (cases r; simp)

lemma extractTarContext_inv:
  "confined env root I \<Longrightarrow> I w \<Longrightarrow> I (fst (extractTarContext env reader root w))"
  using extract_entries_inv [of env root I w] by (auto simp: extractTarContext_def split: option.splits prod.splits)

text \<open>
  C23: whatever archive a client sends, extracting it keeps every property of the world that the
  operations on the context's own tree keep: each path handed to the file system stays inside the
  context directory, parents, hard links and the targets of symbolic links included.
\<close>

theorem context_confined:
  assumes "confined env root I" and "I w"
  shows "I (fst (extractTarContext env reader root w))"
  using assms by (rule extractTarContext_inv)


text \<open>A world that records the paths it is given, and an archive with one entry of each kind.\<close>

definition path_log :: "string list context_env" where
  "path_log = \<lparr>ce_tar = (\<lambda>r.
       ([(\<lparr>th_Name = ''./app/'', th_Linkname = [], th_Typeflag = TypeDir, th_Mode = 0\<rparr>, ([], None)),
         (\<lparr>th_Name = ''app/x/../Dockerfile'', th_Linkname = [], th_Typeflag = TypeReg, th_Mode = 420\<rparr>, (''FROM scratch'', None)),
         (\<lparr>th_Name = ''app/link'', th_Linkname = ''../Dockerfile'', th_Typeflag = TypeSymlink, th_Mode = 0\<rparr>, ([], None)),
         (\<lparr>th_Name = ''hard'', th_Linkname = ''app/Dockerfile'', th_Typeflag = TypeLink, th_Mode = 0\<rparr>, ([], None)),
         (\<lparr>th_Name = ''app/../../evil'', th_Linkname = [], th_Typeflag = TypeReg, th_Mode = 0\<rparr>, (''x'', None))], None)),
     ce_MkdirTemp = (\<lambda>r p w. (w, Inr ''/tmp/ctx'')), ce_RemoveAll = (\<lambda>d w. ([], None)), ce_Stat = (\<lambda>p w. StatOk),
     ce_OpenRoot = (\<lambda>d w. None), ce_MkdirAll = (\<lambda>d n m w. (w @ [n], None)), ce_OpenFile = (\<lambda>d n m w. (w @ [n], None)),
     ce_Copy = (\<lambda>d n b w. (w @ [n], None)), ce_Symlink = (\<lambda>d t n w. (w @ [n, PathJoin [Dir n, t]], None)),
     ce_Link = (\<lambda>d l n w. (w @ [l, n], None))\<rparr>"

lemma path_log_confined: "confined path_log d (list_all inside)"
  by (simp add: confined_def path_log_def safe_link_def)

theorem context_confined_witness:
  "list_all inside (fst (extractTarContext path_log [] ''/tmp/ctx'' []))
   \<and> fst (extractTarContext path_log [] ''/tmp/ctx'' [])
     = [''app'', ''app'', ''app/Dockerfile'', ''app/Dockerfile'', ''app'', ''app/link'', ''Dockerfile'', ''app/Dockerfile'', ''hard'']"
proof
  show "list_all inside (fst (extractTarContext path_log [] ''/tmp/ctx'' []))"
    by (rule context_confined [OF path_log_confined]) simp
qed code_simp

end
