(* ===== verification/Bk_Progress.thy ===== *)
theory Bk_Progress
  imports Go_Errors Go_Time
begin

text \<open>
  \<^verbatim>\<open>internal/adapters/buildkit/progress.go\<close>: the writer of Docker's JSON progress stream and
  the translation of BuildKit's status batches into its messages. The writer's output is the list
  of the complete documents written so far; \<open>pw_enc\<close> is the \<^verbatim>\<open>io.Writer\<close> behind the encoder:
  the error it answers, if any, to the next document. The digest library, the human-readable sizes
  and the formatting of a float are parameters (\<open>progress_env\<close>).
\<close>

section \<open>The progress stream\<close>

record dockerMessage =
  dm_Stream :: string
  dm_Status :: string
  dm_Progress :: string
  dm_ProgressDetail :: "(int \<times> int) option"
  dm_ID :: string
  dm_Aux :: "string option"
  dm_ErrorDetail :: "(int \<times> string) option"
  dm_ErrorMessage :: string

definition emptyMessage :: dockerMessage where
  "emptyMessage = \<lparr>dm_Stream = [], dm_Status = [], dm_Progress = [], dm_ProgressDetail = None, dm_ID = [],
     dm_Aux = None, dm_ErrorDetail = None, dm_ErrorMessage = []\<rparr>"

record ProgressWriter =
  pw_lines :: "dockerMessage list"
  pw_enc :: "dockerMessage list \<Rightarrow> dockerMessage \<Rightarrow> gerror option"
  pw_written :: bool

definition NewProgressWriter :: "(dockerMessage list \<Rightarrow> dockerMessage \<Rightarrow> gerror option) \<Rightarrow> ProgressWriter" where
  "NewProgressWriter out = \<lparr>pw_lines = [], pw_enc = out, pw_written = False\<rparr>"

definition pw_write :: "dockerMessage \<Rightarrow> ProgressWriter \<Rightarrow> ProgressWriter \<times> gerror option" where
  "pw_write m p = (case pw_enc p (pw_lines p) m of
     Some e \<Rightarrow> (p, Some (wrap_pre ''write progress message: '' e))
   | None \<Rightarrow> (p\<lparr>pw_lines := pw_lines p @ [m], pw_written := True\<rparr>, None))"

definition pw_Stream :: "string \<Rightarrow> ProgressWriter \<Rightarrow> ProgressWriter \<times> gerror option" where
  "pw_Stream t = pw_write (emptyMessage\<lparr>dm_Stream := t\<rparr>)"

definition pw_Status :: "string \<Rightarrow> string \<Rightarrow> int \<Rightarrow> int \<Rightarrow> ProgressWriter \<Rightarrow> ProgressWriter \<times> gerror option" where
  "pw_Status status progress current tot =
     pw_write (emptyMessage\<lparr>dm_Status := status, dm_Progress := progress,
       dm_ProgressDetail := (if current > 0 \<or> tot > 0 then Some (current, tot) else None)\<rparr>)"

definition pw_Aux :: "string \<Rightarrow> ProgressWriter \<Rightarrow> ProgressWriter \<times> gerror option" where
  "pw_Aux i p = (if i = [] then (p, None) else pw_write (emptyMessage\<lparr>dm_Aux := Some i\<rparr>) p)"

definition pw_ErrorDetail :: "int \<Rightarrow> string \<Rightarrow> ProgressWriter \<Rightarrow> ProgressWriter \<times> gerror option" where
  "pw_ErrorDetail code m =
     pw_write (emptyMessage\<lparr>dm_ErrorDetail := Some (code, m), dm_ErrorMessage := m\<rparr>)"

definition errorDetailCode :: int where
  "errorDetailCode = 1"

section \<open>BuildKit's status batches\<close>

type_synonym digest = string

record vertex =
  v_Digest :: digest
  v_Name :: string
  v_Error :: string
  v_Cached :: bool
  v_Started :: "gotime option"
  v_Completed :: "gotime option"

record vertex_status =
  vs_ID :: string
  vs_Vertex :: digest
  vs_Name :: string
  vs_Current :: int
  vs_Total :: int
  vs_Completed :: "gotime option"

record vertex_warning =
  vw_Short :: string
  vw_Detail :: "string list"

record solve_status =
  st_Vertexes :: "vertex list"
  st_Statuses :: "vertex_status list"
  st_Logs :: "string list"
  st_Warnings :: "vertex_warning list"

record progress_env =
  pe_Encoded :: "digest \<Rightarrow> string"
  pe_HumanSize :: "int \<Rightarrow> string"
  pe_percent :: "int \<Rightarrow> int \<Rightarrow> string"

text \<open>
  \<open>pe_Encoded\<close> is \<^verbatim>\<open>digest.Encoded\<close> on well-formed digests. The Go method panics on a text without an
  algorithm; the digests BuildKit reports have one, and that panic is outside the model.
\<close>

definition shorthandDigest :: "progress_env \<Rightarrow> digest \<Rightarrow> string" where
  "shorthandDigest env d = (let t = pe_Encoded env d in if length t \<le> 12 then t else take 12 t)"

definition formatProgress :: "progress_env \<Rightarrow> int \<Rightarrow> int \<Rightarrow> string" where
  "formatProgress env current tot =
    (if tot \<le> 0 \<and> current \<le> 0 then []
     else if tot \<le> 0 then pe_HumanSize env current
     else pe_HumanSize env current @ ''/'' @ pe_HumanSize env tot
        @ '' ('' @ pe_percent env current tot @ ''%)'')"

section \<open>The translator\<close>

record buildStep =
  bs_number :: int
  bs_label :: string

record buildProgress =
  bp_writer :: ProgressWriter
  bp_steps :: "(digest, buildStep) gomap"
  bp_announced :: "(digest, bool) gomap"
  bp_completed :: "(digest, bool) gomap"
  bp_statuses :: "(string, string) gomap"
  bp_sawError :: bool

definition newBuildProgress :: "ProgressWriter \<Rightarrow> buildProgress" where
  "newBuildProgress w = \<lparr>bp_writer = w, bp_steps = [], bp_announced = [], bp_completed = [],
     bp_statuses = [], bp_sawError = False\<rparr>"

text \<open>A call of the writer from the translator.\<close>

definition bp_emit ::
  "(ProgressWriter \<Rightarrow> ProgressWriter \<times> gerror option) \<Rightarrow> buildProgress \<Rightarrow> buildProgress \<times> gerror option" where
  "bp_emit f p = (case f (bp_writer p) of (w, r) \<Rightarrow> (p\<lparr>bp_writer := w\<rparr>, r))"

definition shouldAnnounce :: "vertex \<Rightarrow> bool" where
  "shouldAnnounce v \<longleftrightarrow> (if v_Cached v then False else v_Started v \<noteq> None \<or> v_Completed v \<noteq> None)"

definition step_label :: "progress_env \<Rightarrow> int \<Rightarrow> vertex \<Rightarrow> string" where
  "step_label env n v = (let name = (if v_Name v = [] then shorthandDigest env (v_Digest v) else v_Name v)
     in ''#'' @ Itoa n @ '' '' @ name)"

definition vertex_step :: "progress_env \<Rightarrow> vertex \<Rightarrow> buildProgress \<Rightarrow> buildStep \<times> buildProgress" where
  "vertex_step env v p = (case get (bp_steps p) (v_Digest v) of
     Some s \<Rightarrow> (s, p)
   | None \<Rightarrow> let n = int (length (bp_steps p)) + 1;
                s = \<lparr>bs_number = n, bs_label = step_label env n v\<rparr>
            in (s, p\<lparr>bp_steps := put (v_Digest v) s (bp_steps p)\<rparr>))"

definition vertex_announce :: "vertex \<Rightarrow> buildStep \<Rightarrow> buildProgress \<Rightarrow> buildProgress \<times> gerror option" where
  "vertex_announce v step p =
    (if \<not> get_or False (bp_announced p) (v_Digest v) \<and> shouldAnnounce v
     then bp_emit (pw_Stream (bs_label step @ [CHR 0x0A]))
            (p\<lparr>bp_announced := put (v_Digest v) True (bp_announced p)\<rparr>)
     else (p, None))"

definition vertex_finish :: "vertex \<Rightarrow> buildStep \<Rightarrow> buildProgress \<Rightarrow> buildProgress \<times> gerror option" where
  "vertex_finish v step p =
    (if v_Error v \<noteq> [] then
       (if get_or False (bp_completed p) (v_Digest v) then (p, None)
        else bp_emit (pw_ErrorDetail errorDetailCode (v_Error v))
               (p\<lparr>bp_completed := put (v_Digest v) True (bp_completed p), bp_sawError := True\<rparr>))
     else if v_Completed v \<noteq> None then
       (if get_or False (bp_completed p) (v_Digest v) then (p, None)
        else bp_emit (pw_Stream (''#'' @ Itoa (bs_number step) @ '' ''
                 @ (if v_Cached v then ''CACHED'' else ''DONE'') @ [CHR 0x0A]))
               (p\<lparr>bp_completed := put (v_Digest v) True (bp_completed p)\<rparr>))
     else (p, None))"

definition bp_vertex :: "progress_env \<Rightarrow> vertex \<Rightarrow> buildProgress \<Rightarrow> buildProgress \<times> gerror option" where
  "bp_vertex env v p = (case vertex_step env v p of (step, p1) \<Rightarrow>
     (case vertex_announce v step p1 of
        (p2, Some e) \<Rightarrow> (p2, Some e)
      | (p2, None) \<Rightarrow> vertex_finish v step p2))"

definition status_name :: "progress_env \<Rightarrow> vertex_status \<Rightarrow> string" where
  "status_name env s = (let name = vs_Name s; name = (if name = [] then vs_ID s else name)
     in if name = [] then shorthandDigest env (vs_Vertex s) else name)"

definition status_progress :: "progress_env \<Rightarrow> vertex_status \<Rightarrow> string" where
  "status_progress env s = (let progress = formatProgress env (vs_Current s) (vs_Total s)
     in if progress = [] \<and> vs_Completed s \<noteq> None then ''done'' else progress)"

definition bp_vertexStatus :: "progress_env \<Rightarrow> vertex_status \<Rightarrow> buildProgress \<Rightarrow> buildProgress \<times> gerror option" where
  "bp_vertexStatus env s p = (let progress = status_progress env s in
     if get_or [] (bp_statuses p) (vs_ID s) = progress then (p, None)
     else bp_emit (pw_Status (status_name env s) progress (vs_Current s) (vs_Total s))
            (p\<lparr>bp_statuses := put (vs_ID s) progress (bp_statuses p)\<rparr>))"

definition ensure_newline :: "string \<Rightarrow> string" where
  "ensure_newline t = (if HasSuffix t [CHR 0x0A] then t else t @ [CHR 0x0A])"

definition bp_log :: "string \<Rightarrow> buildProgress \<Rightarrow> buildProgress \<times> gerror option" where
  "bp_log d p = (if d = [] then (p, None) else bp_emit (pw_Stream (ensure_newline d)) p)"

definition warning_text :: "vertex_warning \<Rightarrow> string" where
  "warning_text w = (case vw_Detail w of
     d # _ \<Rightarrow> if d \<noteq> [] then vw_Short w @ '': '' @ d else vw_Short w | [] \<Rightarrow> vw_Short w)"

definition bp_warning :: "vertex_warning \<Rightarrow> buildProgress \<Rightarrow> buildProgress \<times> gerror option" where
  "bp_warning w p = (let t = warning_text w in
     if t = [] then (p, None) else bp_emit (pw_Stream (''WARNING: '' @ ensure_newline t)) p)"

text \<open>A loop over the entries of a batch that stops at the first error.\<close>

fun each :: "('x \<Rightarrow> buildProgress \<Rightarrow> buildProgress \<times> gerror option) \<Rightarrow> 'x list \<Rightarrow> buildProgress
    \<Rightarrow> buildProgress \<times> gerror option" where
  "each f [] p = (p, None)"
| "each f (x # xs) p = (case f x p of (p1, Some e) \<Rightarrow> (p1, Some e) | (p1, None) \<Rightarrow> each f xs p1)"

definition bp_then :: "buildProgress \<times> gerror option \<Rightarrow> (buildProgress \<Rightarrow> buildProgress \<times> gerror option)
    \<Rightarrow> buildProgress \<times> gerror option" where
  "bp_then r f = (case r of (p, Some e) \<Rightarrow> (p, Some e) | (p, None) \<Rightarrow> f p)"

definition Translate :: "progress_env \<Rightarrow> solve_status option \<Rightarrow> buildProgress \<Rightarrow> buildProgress \<times> gerror option" where
  "Translate env status p = (case status of None \<Rightarrow> (p, None)
     | Some b \<Rightarrow>
        bp_then (bp_then (bp_then (each (bp_vertex env) (st_Vertexes b) p)
          (each (bp_vertexStatus env) (st_Statuses b)))
          (each bp_log (st_Logs b)))
          (each bp_warning (st_Warnings b)))"

text \<open>The translator goroutine of \<^verbatim>\<open>solveBuild\<close>: the channel is drained, nothing is translated after an error.\<close>

fun translate_all :: "progress_env \<Rightarrow> solve_status option list \<Rightarrow> buildProgress \<times> gerror option
    \<Rightarrow> buildProgress \<times> gerror option" where
  "translate_all env [] r = r"
| "translate_all env (s # ss) (p, None) = translate_all env ss (Translate env s p)"
| "translate_all env (s # ss) (p, Some e) = translate_all env ss (p, Some e)"


section \<open>What the translator writes\<close>

text \<open>
  The stream described without the translator's maps: the events of all batches in the order they
  are handled, and for each event the lines it adds given the events before it. A step is numbered
  by the digests reported before its first report and named by that report; it is announced by its
  first event that may announce it, and finished by its first event that reports an error or a
  completion; a status is written when its progress text differs from the previous one of its ID.
\<close>

datatype progress_event = EvVertex vertex | EvStatus vertex_status | EvLog string | EvWarning vertex_warning

definition batch_events :: "solve_status option \<Rightarrow> progress_event list" where
  "batch_events s = (case s of None \<Rightarrow> [] | Some b \<Rightarrow>
     map EvVertex (st_Vertexes b) @ map EvStatus (st_Statuses b) @ map EvLog (st_Logs b)
       @ map EvWarning (st_Warnings b))"

fun vertices :: "progress_event list \<Rightarrow> vertex list" where
  "vertices [] = []"
| "vertices (EvVertex v # es) = v # vertices es"
| "vertices (e # es) = vertices es"

fun statuses :: "progress_event list \<Rightarrow> vertex_status list" where
  "statuses [] = []"
| "statuses (EvStatus s # es) = s # statuses es"
| "statuses (e # es) = statuses es"

definition step_of :: "progress_env \<Rightarrow> vertex list \<Rightarrow> digest \<Rightarrow> buildStep option" where
  "step_of env vs d = (case find (\<lambda>v. v_Digest v = d) vs of None \<Rightarrow> None
     | Some v \<Rightarrow> let n = int (card (set (map v_Digest (takeWhile (\<lambda>v. v_Digest v \<noteq> d) vs)))) + 1
               in Some \<lparr>bs_number = n, bs_label = step_label env n v\<rparr>)"

definition finished :: "vertex \<Rightarrow> bool" where
  "finished v \<longleftrightarrow> v_Error v \<noteq> [] \<or> v_Completed v \<noteq> None"

definition reported :: "(vertex \<Rightarrow> bool) \<Rightarrow> vertex list \<Rightarrow> digest \<Rightarrow> bool" where
  "reported P vs d \<longleftrightarrow> list_ex (\<lambda>u. v_Digest u = d \<and> P u) vs"

definition finish_line :: "buildStep \<Rightarrow> vertex \<Rightarrow> dockerMessage" where
  "finish_line step v = (if v_Error v \<noteq> []
     then emptyMessage\<lparr>dm_ErrorDetail := Some (errorDetailCode, v_Error v), dm_ErrorMessage := v_Error v\<rparr>
     else emptyMessage\<lparr>dm_Stream := ''#'' @ Itoa (bs_number step) @ '' ''
            @ (if v_Cached v then ''CACHED'' else ''DONE'') @ [CHR 0x0A]\<rparr>)"

definition last_progress :: "progress_env \<Rightarrow> vertex_status list \<Rightarrow> string \<Rightarrow> string" where
  "last_progress env ss i = last ([] # map (status_progress env) (filter (\<lambda>s. vs_ID s = i) ss))"

fun event_lines :: "progress_env \<Rightarrow> progress_event list \<Rightarrow> progress_event \<Rightarrow> dockerMessage list" where
  "event_lines env es (EvVertex v) =
    (case step_of env (vertices es @ [v]) (v_Digest v) of None \<Rightarrow> [] | Some step \<Rightarrow>
      (if shouldAnnounce v \<and> \<not> reported shouldAnnounce (vertices es) (v_Digest v)
       then [emptyMessage\<lparr>dm_Stream := bs_label step @ [CHR 0x0A]\<rparr>] else [])
      @ (if finished v \<and> \<not> reported finished (vertices es) (v_Digest v)
         then [finish_line step v] else []))"
| "event_lines env es (EvStatus s) =
    (if status_progress env s = last_progress env (statuses es) (vs_ID s) then []
     else [emptyMessage\<lparr>dm_Status := status_name env s, dm_Progress := status_progress env s,
       dm_ProgressDetail := (if vs_Current s > 0 \<or> vs_Total s > 0 then Some (vs_Current s, vs_Total s)
         else None)\<rparr>])"
| "event_lines env es (EvLog d) = (if d = [] then [] else [emptyMessage\<lparr>dm_Stream := ensure_newline d\<rparr>])"
| "event_lines env es (EvWarning w) = (if warning_text w = [] then []
     else [emptyMessage\<lparr>dm_Stream := ''WARNING: '' @ ensure_newline (warning_text w)\<rparr>])"

fun stream_lines :: "progress_env \<Rightarrow> progress_event list \<Rightarrow> progress_event list \<Rightarrow> dockerMessage list" where
  "stream_lines env seen [] = []"
| "stream_lines env seen (e # es) = event_lines env seen e @ stream_lines env (seen @ [e]) es"

definition handle :: "progress_env \<Rightarrow> progress_event \<Rightarrow> buildProgress \<Rightarrow> buildProgress \<times> gerror option" where
  "handle env e = (case e of EvVertex v \<Rightarrow> bp_vertex env v | EvStatus s \<Rightarrow> bp_vertexStatus env s
     | EvLog d \<Rightarrow> bp_log d | EvWarning w \<Rightarrow> bp_warning w)"

lemma each_append: "each f (xs @ ys) p = bp_then (each f xs p) (each f ys)"
  by (induction xs arbitrary: p) (auto simp: bp_then_def split: prod.splits option.splits)

lemma each_map: "each f (map g xs) p = each (\<lambda>x. f (g x)) xs p"
  by (induction xs arbitrary: p) (auto split: prod.splits option.splits)

lemma Translate_events: "Translate env s p = each (handle env) (batch_events s) p"
  by (auto simp: Translate_def batch_events_def each_append each_map handle_def bp_then_def
      split: option.splits prod.splits)

lemma vertices_append [simp]: "vertices (es @ fs) = vertices es @ vertices fs"
  by (induction es rule: vertices.induct) auto

lemma statuses_append [simp]: "statuses (es @ fs) = statuses es @ statuses fs"
  by (induction es rule: statuses.induct) auto

lemma stream_lines_append:
  "stream_lines env seen (es @ fs) = stream_lines env seen es @ stream_lines env (seen @ es) fs"
  by (induction es arbitrary: seen) auto

text \<open>The translator's maps after the events \<open>es\<close>, its output being \<open>ls\<close>.\<close>

definition tracks :: "progress_env \<Rightarrow> progress_event list \<Rightarrow> dockerMessage list \<Rightarrow> buildProgress \<Rightarrow> bool" where
  "tracks env es ls p \<longleftrightarrow>
     (\<forall>d. get (bp_steps p) d = step_of env (vertices es) d)
   \<and> length (bp_steps p) = card (set (map v_Digest (vertices es)))
   \<and> (\<forall>d. get_or False (bp_announced p) d = reported shouldAnnounce (vertices es) d)
   \<and> (\<forall>d. get_or False (bp_completed p) d = reported finished (vertices es) d)
   \<and> (\<forall>i. get_or [] (bp_statuses p) i = last_progress env (statuses es) i)
   \<and> bp_sawError p = list_ex (\<lambda>m. dm_ErrorDetail m \<noteq> None) ls
   \<and> pw_lines (bp_writer p) = ls \<and> pw_enc (bp_writer p) = (\<lambda>_ _. None)"

lemma find_snoc: "find P (xs @ [x]) = (case find P xs of Some y \<Rightarrow> Some y | None \<Rightarrow> if P x then Some x else None)"
  by (induction xs) auto

lemma step_of_None: "step_of env vs d = None \<longleftrightarrow> d \<notin> v_Digest ` set vs"
  by (auto simp: step_of_def Let_def find_None_iff find_Some_iff image_iff split: option.split)

lemma step_of_snoc_old:
  assumes "d \<in> v_Digest ` set vs"
  shows "step_of env (vs @ [v]) d = step_of env vs d"
proof -
  obtain u where u: "u \<in> set vs" "v_Digest u = d" using assms by blast
  have t: "takeWhile (\<lambda>v. v_Digest v \<noteq> d) (vs @ [v]) = takeWhile (\<lambda>v. v_Digest v \<noteq> d) vs"
    by (rule takeWhile_append1 [OF u(1)]) (simp add: u(2))
  obtain x where "find (\<lambda>v. v_Digest v = d) vs = Some x"
    using u by (cases "find (\<lambda>v. v_Digest v = d) vs") (auto simp: find_None_iff)
  then show ?thesis unfolding step_of_def t find_snoc by simp
qed

lemma step_of_snoc_new:
  assumes "d \<notin> v_Digest ` set vs"
  shows "step_of env (vs @ [v]) d = (if v_Digest v = d then
       (let n = int (card (set (map v_Digest vs))) + 1 in Some \<lparr>bs_number = n, bs_label = step_label env n v\<rparr>)
     else None)"
proof -
  have t: "takeWhile (\<lambda>v. v_Digest v \<noteq> d) (vs @ [v]) = vs @ takeWhile (\<lambda>v. v_Digest v \<noteq> d) [v]"
    by (rule takeWhile_append2) (use assms in blast)
  have "find (\<lambda>v. v_Digest v = d) vs = None" using assms by (auto simp: find_None_iff)
  then show ?thesis unfolding step_of_def t find_snoc by simp
qed

lemma get_or_put [simp]: "get_or z (put k v m) k' = (if k' = k then v else get_or z m k')"
  by (auto simp: get_or_def update_conv)

lemma put_new: "get m k = None \<Longrightarrow> put k v m = m @ [(k, v)]"
  by (induction m) (auto split: if_splits)

lemma vertex_step_tracks:
  assumes "tracks env es ls p"
  obtains step sm where "vertex_step env v p = (step, p\<lparr>bp_steps := sm\<rparr>)"
    and "step_of env (vertices es @ [v]) (v_Digest v) = Some step"
    and "\<forall>d. get sm d = step_of env (vertices es @ [v]) d"
    and "length sm = card (set (map v_Digest (vertices es @ [v])))"
proof (cases "v_Digest v \<in> v_Digest ` set (vertices es)")
  case True
  then obtain s where s: "step_of env (vertices es) (v_Digest v) = Some s"
    using step_of_None [of env "vertices es" "v_Digest v"] by (cases "step_of env (vertices es) (v_Digest v)") simp_all
  have g: "get (bp_steps p) = step_of env (vertices es)" using assms by (auto simp: tracks_def)
  have "step_of env (vertices es @ [v]) d = step_of env (vertices es) d" for d
    using True step_of_snoc_old [of d "vertices es" env v] step_of_snoc_new [of d "vertices es" env v]
      step_of_None [of env "vertices es" d] by (cases "d \<in> v_Digest ` set (vertices es)") auto
  moreover have "vertex_step env v p = (s, p)" using s g by (simp add: vertex_step_def)
  moreover have "set (map v_Digest (vertices es @ [v])) = set (map v_Digest (vertices es))" using True by auto
  ultimately show thesis using that [of s "bp_steps p"] s g assms by (simp add: tracks_def)
next
  case False
  let ?n = "int (card (set (map v_Digest (vertices es)))) + 1"
  let ?s = "\<lparr>bs_number = ?n, bs_label = step_label env ?n v\<rparr>"
  have g: "get (bp_steps p) = step_of env (vertices es)" using assms by (auto simp: tracks_def)
  have none: "get (bp_steps p) (v_Digest v) = None" using False g step_of_None by metis
  have len: "length (bp_steps p) = card (set (map v_Digest (vertices es)))" using assms by (simp add: tracks_def)
  have vs: "vertex_step env v p = (?s, p\<lparr>bp_steps := put (v_Digest v) ?s (bp_steps p)\<rparr>)"
    using none len by (simp add: vertex_step_def Let_def)
  have "get (put (v_Digest v) ?s (bp_steps p)) d = step_of env (vertices es @ [v]) d" for d
  proof (cases "d \<in> v_Digest ` set (vertices es)")
    case True
    then have "d \<noteq> v_Digest v" using False by blast
    then show ?thesis using step_of_snoc_old [OF True, of env v] g by (simp add: update_conv)
  next
    case new: False
    then show ?thesis
      using step_of_snoc_new [OF new, of env v] g step_of_None [of env "vertices es" d] by (simp add: update_conv Let_def)
  qed
  moreover have "length (put (v_Digest v) ?s (bp_steps p)) = Suc (length (bp_steps p))"
    using put_new [OF none] by simp
  moreover have "card (set (map v_Digest (vertices es @ [v]))) = Suc (card (set (map v_Digest (vertices es))))"
    using False by simp
  ultimately show thesis
    using that [of ?s "put (v_Digest v) ?s (bp_steps p)"] vs len step_of_snoc_new [OF False, of env v] by (simp add: Let_def)
qed


lemma pw_write_ok: "pw_enc w = (\<lambda>_ _. None) \<Longrightarrow> pw_write m w = (w\<lparr>pw_lines := pw_lines w @ [m], pw_written := True\<rparr>, None)"
  by (simp add: pw_write_def)

lemmas emits = bp_emit_def pw_Stream_def pw_ErrorDetail_def pw_Status_def pw_write_ok

lemma emptyMessage_error [simp]: "dm_ErrorDetail emptyMessage = None"
  by (simp add: emptyMessage_def)

lemma reported_snoc [simp]: "reported P (vs @ [v]) d \<longleftrightarrow> reported P vs d \<or> v_Digest v = d \<and> P v"
  by (auto simp: reported_def)

lemma reported_same: "\<not> (P v \<and> \<not> reported P vs (v_Digest v)) \<Longrightarrow> reported P (vs @ [v]) = reported P vs"
  by (auto simp: fun_eq_iff)

lemma vertex_announce_ok:
  assumes "pw_enc (bp_writer p) = (\<lambda>_ _. None)" and "\<forall>d. get_or False (bp_announced p) d = reported shouldAnnounce vs d"
  obtains p' where "vertex_announce v step p = (p', None)"
    and "p' = p\<lparr>bp_announced := bp_announced p', bp_writer := bp_writer p'\<rparr>"
    and "\<forall>d. get_or False (bp_announced p') d = reported shouldAnnounce (vs @ [v]) d"
    and "pw_lines (bp_writer p') = pw_lines (bp_writer p)
      @ (if shouldAnnounce v \<and> \<not> reported shouldAnnounce vs (v_Digest v)
         then [emptyMessage\<lparr>dm_Stream := bs_label step @ [CHR 0x0A]\<rparr>] else [])"
    and "pw_enc (bp_writer p') = (\<lambda>_ _. None)"
proof (cases "shouldAnnounce v \<and> \<not> reported shouldAnnounce vs (v_Digest v)")
  case True
  then show thesis using assms that by (auto simp: vertex_announce_def emits)
next
  case False
  then have "vertex_announce v step p = (p, None)" using assms(2) by (auto simp: vertex_announce_def)
  then show thesis using assms reported_same [OF False] by (intro that [of p]) (simp_all add: False del: reported_snoc)
qed

lemma vertex_finish_ok:
  assumes "pw_enc (bp_writer p) = (\<lambda>_ _. None)" and "\<forall>d. get_or False (bp_completed p) d = reported finished vs d"
  obtains p' where "vertex_finish v step p = (p', None)"
    and "p' = p\<lparr>bp_completed := bp_completed p', bp_sawError := bp_sawError p', bp_writer := bp_writer p'\<rparr>"
    and "\<forall>d. get_or False (bp_completed p') d = reported finished (vs @ [v]) d"
    and "pw_lines (bp_writer p') = pw_lines (bp_writer p)
      @ (if finished v \<and> \<not> reported finished vs (v_Digest v) then [finish_line step v] else [])"
    and "bp_sawError p' \<longleftrightarrow> bp_sawError p \<or> finished v \<and> \<not> reported finished vs (v_Digest v) \<and> v_Error v \<noteq> []"
    and "pw_enc (bp_writer p') = (\<lambda>_ _. None)"
proof (cases "finished v \<and> \<not> reported finished vs (v_Digest v)")
  case True
  then show thesis
    using assms that by (cases "v_Error v = []") (auto simp: vertex_finish_def emits finished_def finish_line_def)
next
  case False
  then have "vertex_finish v step p = (p, None)" using assms(2) by (auto simp: vertex_finish_def finished_def)
  then show thesis
    using assms False reported_same [OF False] by (intro that [of p]) (auto simp del: reported_snoc)
qed

lemma finish_line_error: "dm_ErrorDetail (finish_line step v) \<noteq> None \<longleftrightarrow> v_Error v \<noteq> []"
  by (simp add: finish_line_def)

lemma handle_vertex:
  assumes "tracks env es ls p"
  shows "\<exists>p'. bp_vertex env v p = (p', None) \<and> tracks env (es @ [EvVertex v]) (ls @ event_lines env es (EvVertex v)) p'"
proof -
  obtain step sm where st: "vertex_step env v p = (step, p\<lparr>bp_steps := sm\<rparr>)"
      "step_of env (vertices es @ [v]) (v_Digest v) = Some step"
      "\<forall>d. get (sm) d = step_of env (vertices es @ [v]) d"
      "length (sm) = card (set (map v_Digest (vertices es @ [v])))"
    using vertex_step_tracks [OF assms] by blast
  let ?p = "p\<lparr>bp_steps := sm\<rparr>"
  have "pw_enc (bp_writer ?p) = (\<lambda>_ _. None)" "\<forall>d. get_or False (bp_announced ?p) d = reported shouldAnnounce (vertices es) d"
    using assms by (simp_all add: tracks_def)
  then obtain p2 where p2: "vertex_announce v step ?p = (p2, None)"
      "p2 = ?p\<lparr>bp_announced := bp_announced p2, bp_writer := bp_writer p2\<rparr>"
      "\<forall>d. get_or False (bp_announced p2) d = reported shouldAnnounce (vertices es @ [v]) d"
      "pw_lines (bp_writer p2) = pw_lines (bp_writer ?p) @ (if shouldAnnounce v \<and> \<not> reported shouldAnnounce (vertices es) (v_Digest v)
         then [emptyMessage\<lparr>dm_Stream := bs_label step @ [CHR 0x0A]\<rparr>] else [])"
      "pw_enc (bp_writer p2) = (\<lambda>_ _. None)"
    by (rule vertex_announce_ok)
  have upd: "bp_completed p2 = bp_completed p" "bp_sawError p2 = bp_sawError p" "bp_statuses p2 = bp_statuses p"
      "bp_steps p2 = sm"
    by (subst p2(2), simp)+
  have "\<forall>d. get_or False (bp_completed p2) d = reported finished (vertices es) d"
    using assms upd by (simp add: tracks_def)
  then obtain p3 where p3: "vertex_finish v step p2 = (p3, None)"
      "p3 = p2\<lparr>bp_completed := bp_completed p3, bp_sawError := bp_sawError p3, bp_writer := bp_writer p3\<rparr>"
      "\<forall>d. get_or False (bp_completed p3) d = reported finished (vertices es @ [v]) d"
      "pw_lines (bp_writer p3) = pw_lines (bp_writer p2)
        @ (if finished v \<and> \<not> reported finished (vertices es) (v_Digest v) then [finish_line step v] else [])"
      "bp_sawError p3 \<longleftrightarrow> bp_sawError p2 \<or> finished v \<and> \<not> reported finished (vertices es) (v_Digest v) \<and> v_Error v \<noteq> []"
      "pw_enc (bp_writer p3) = (\<lambda>_ _. None)"
    using vertex_finish_ok [OF p2(5)] by blast
  have upd3: "bp_announced p3 = bp_announced p2" "bp_statuses p3 = bp_statuses p2" "bp_steps p3 = bp_steps p2"
    by (subst p3(2), simp)+
  have "bp_vertex env v p = (p3, None)" using st(1) p2(1) p3(1) by (simp add: bp_vertex_def)
  moreover have "tracks env (es @ [EvVertex v]) (ls @ event_lines env es (EvVertex v)) p3"
    using assms st p2(3,4) p3(3-6) finish_line_error [of step v] unfolding tracks_def upd3 upd by auto
  ultimately show ?thesis by blast
qed

lemma last_progress_snoc:
  "last_progress env (ss @ [s]) i = (if vs_ID s = i then status_progress env s else last_progress env ss i)"
  by (simp add: last_progress_def)

lemma handle_event:
  assumes "tracks env es ls p"
  shows "\<exists>p'. handle env e p = (p', None) \<and> tracks env (es @ [e]) (ls @ event_lines env es e) p'"
proof (cases e)
  case (EvVertex v)
  then show ?thesis using handle_vertex [OF assms] by (simp add: handle_def)
next
  case (EvStatus s)
  then show ?thesis using assms
    by (auto simp: handle_def bp_vertexStatus_def emits tracks_def last_progress_snoc Let_def)
next
  case (EvLog d)
  then show ?thesis using assms by (auto simp: handle_def bp_log_def emits tracks_def)
next
  case (EvWarning w)
  then show ?thesis using assms by (auto simp: handle_def bp_warning_def emits tracks_def Let_def)
qed

lemma each_tracks:
  assumes "tracks env es ls p"
  shows "\<exists>p'. each (handle env) fs p = (p', None) \<and> tracks env (es @ fs) (ls @ stream_lines env es fs) p'"
  using assms
proof (induction fs arbitrary: es ls p)
  case (Cons e fs)
  obtain p1 where "handle env e p = (p1, None)" "tracks env (es @ [e]) (ls @ event_lines env es e) p1"
    using handle_event [OF Cons.prems] by blast
  then show ?case using Cons.IH by fastforce
qed simp

lemma translate_tracks:
  assumes "tracks env es ls p"
  shows "\<exists>p'. translate_all env ss (p, None) = (p', None)
    \<and> tracks env (es @ concat (map batch_events ss)) (ls @ stream_lines env es (concat (map batch_events ss))) p'"
  using assms
proof (induction ss arbitrary: es ls p)
  case (Cons s ss)
  obtain p1 where "Translate env s p = (p1, None)"
      "tracks env (es @ batch_events s) (ls @ stream_lines env es (batch_events s)) p1"
    using each_tracks [OF Cons.prems] by (auto simp: Translate_events)
  then show ?case using Cons.IH by (fastforce simp: stream_lines_append)
qed simp

lemma tracks_new: "tracks env [] [] (newBuildProgress (NewProgressWriter (\<lambda>_ _. None)))"
  by (simp add: tracks_def newBuildProgress_def NewProgressWriter_def step_of_def get_or_def last_progress_def reported_def)

text \<open>
  C24: whatever batches BuildKit reports, the translator writes exactly the stream described event by
  event: steps numbered in the order of their first report, each announced at most once and finished
  at most once, a status only when its progress changed; and it remembers an error exactly when it
  has written an \<^verbatim>\<open>errorDetail\<close> message.
\<close>

theorem progress_stream:
  "\<exists>p. translate_all env ss (newBuildProgress (NewProgressWriter (\<lambda>_ _. None)), None) = (p, None)
     \<and> pw_lines (bp_writer p) = stream_lines env [] (concat (map batch_events ss))
     \<and> bp_sawError p = list_ex (\<lambda>m. dm_ErrorDetail m \<noteq> None) (pw_lines (bp_writer p))"
  using translate_tracks [OF tracks_new, of env ss] by (auto simp: tracks_def)

end
