(* ===== verification/Bk_Auth.thy ===== *)
theory Bk_Auth
  imports Ports_Types
begin

text \<open>
  \<^verbatim>\<open>internal/adapters/buildkit/auth.go\<close>: registry credentials, the hosts they are sent to and
  their redacted rendering. The decoder of the \<^verbatim>\<open>X-Registry-Auth\<close> header, containerd's token
  endpoints and \<^verbatim>\<open>url.Parse\<close> are parameters: \<open>url_Host v\<close> is the host of the URL \<open>v\<close>, absent when
  it does not parse.
\<close>

section \<open>Standard base64\<close>

text \<open>
  \<^verbatim>\<open>base64.StdEncoding.DecodeString\<close>: line ends are skipped, the text is read in groups of four
  characters and only the last may be padded; the unused bits of a padded group are not checked.
\<close>

definition b64_val :: "char \<Rightarrow> nat option" where
  "b64_val c = (let n = of_char c :: nat in
     if 65 \<le> n \<and> n \<le> 90 then Some (n - 65)
     else if 97 \<le> n \<and> n \<le> 122 then Some (n - 71)
     else if 48 \<le> n \<and> n \<le> 57 then Some (n + 4)
     else if c = CHR ''+'' then Some 62 else if c = CHR ''/'' then Some 63 else None)"

definition b64_bytes :: "nat \<Rightarrow> nat \<Rightarrow> nat \<Rightarrow> nat \<Rightarrow> string" where
  "b64_bytes a b c d = map char_of [4 * a + b div 16, 16 * (b mod 16) + c div 4, 64 * (c mod 4) + d]"

fun b64_groups :: "string \<Rightarrow> string option" where
  "b64_groups [] = Some []"
| "b64_groups (p # q # r # s # rest) =
    (case (b64_val p, b64_val q) of
       (Some a, Some b) \<Rightarrow>
         if r = CHR ''='' then (if s = CHR ''='' \<and> rest = [] then Some (take 1 (b64_bytes a b 0 0)) else None)
         else (case b64_val r of None \<Rightarrow> None
           | Some c \<Rightarrow> if s = CHR ''='' then (if rest = [] then Some (take 2 (b64_bytes a b c 0)) else None)
               else (case b64_val s of None \<Rightarrow> None
                 | Some d \<Rightarrow> map_option (\<lambda>t. b64_bytes a b c d @ t) (b64_groups rest)))
     | _ \<Rightarrow> None)"
| "b64_groups _ = None"

definition DecodeString :: "string \<Rightarrow> string option" where
  "DecodeString s = b64_groups (filter (\<lambda>c. c \<noteq> CHR 0x0A \<and> c \<noteq> CHR 0x0D) s)"

section \<open>Credentials\<close>

record RegistryAuth =
  ba_Username :: string
  ba_Password :: string
  ba_IdentityToken :: string
  ba_RegistryToken :: string
  ba_ServerAddress :: string

record AuthConfig =
  ac_Username :: string
  ac_Password :: string
  ac_Auth :: string
  ac_ServerAddress :: string
  ac_IdentityToken :: string
  ac_RegistryToken :: string

definition bool_text :: "bool \<Rightarrow> string" where
  "bool_text b = (if b then ''true'' else ''false'')"

definition auth_String :: "RegistryAuth \<Rightarrow> string" where
  "auth_String a = ''RegistryAuth{server_address='' @ quote (ba_ServerAddress a)
     @ '', username_set='' @ bool_text (ba_Username a \<noteq> []) @ '', password_set='' @ bool_text (ba_Password a \<noteq> [])
     @ '', identity_token_set='' @ bool_text (ba_IdentityToken a \<noteq> [])
     @ '', registry_token_set='' @ bool_text (ba_RegistryToken a \<noteq> []) @ ''}''"

definition GoString :: "RegistryAuth \<Rightarrow> string" where
  "GoString a = auth_String a"

datatype log_field = LogString string string | LogBool string bool

definition MarshalLogObject :: "RegistryAuth \<Rightarrow> log_field list" where
  "MarshalLogObject a = [LogString ''server_address'' (ba_ServerAddress a), LogBool ''username_set'' (ba_Username a \<noteq> []),
     LogBool ''password_set'' (ba_Password a \<noteq> []), LogBool ''identity_token_set'' (ba_IdentityToken a \<noteq> []),
     LogBool ''registry_token_set'' (ba_RegistryToken a \<noteq> [])]"

definition FromAuthConfig :: "AuthConfig option \<Rightarrow> RegistryAuth option" where
  "FromAuthConfig config = (case config of None \<Rightarrow> None | Some c \<Rightarrow>
     let auth = \<lparr>ba_Username = ac_Username c, ba_Password = ac_Password c, ba_IdentityToken = ac_IdentityToken c,
           ba_RegistryToken = ac_RegistryToken c, ba_ServerAddress = ac_ServerAddress c\<rparr>;
         auth = (if ba_Username auth = [] \<and> ba_Password auth = [] \<and> ac_Auth c \<noteq> [] then
             (case DecodeString (ac_Auth c) of None \<Rightarrow> auth
              | Some decoded \<Rightarrow> (case CutByte CHR '':'' decoded of None \<Rightarrow> auth
                  | Some (username, password) \<Rightarrow> auth\<lparr>ba_Username := username, ba_Password := password\<rparr>))
           else auth)
     in if ba_Username auth = [] \<and> ba_Password auth = [] \<and> ba_IdentityToken auth = [] \<and> ba_RegistryToken auth = []
        then None else Some auth)"

definition ParseAuthHeader :: "(string \<Rightarrow> gerror + AuthConfig option) \<Rightarrow> string \<Rightarrow> gerror + RegistryAuth option" where
  "ParseAuthHeader decode header =
    (if TrimSpace header = [] then Inr None
     else case decode header of
       Inl e \<Rightarrow> Inl (wrap_two (Sentinel (Buildkit ErrInvalidAuth)) e)
     | Inr c \<Rightarrow> Inr (FromAuthConfig c))"

definition usernameAndSecret :: "RegistryAuth option \<Rightarrow> string \<times> string" where
  "usernameAndSecret au = (case au of None \<Rightarrow> ([], [])
     | Some a \<Rightarrow> if ba_IdentityToken a \<noteq> [] then ([], ba_IdentityToken a) else (ba_Username a, ba_Password a))"

section \<open>Registry hosts\<close>

definition referenceHost :: "string \<Rightarrow> string" where
  "referenceHost ref0 = (let ref = TrimSpace ref0 in
     if ref = [] then []
     else let ref = (if CHR ''@'' \<in> set ref then rev (tl (dropWhile (\<lambda>c. c \<noteq> CHR ''@'') (rev ref))) else ref)
       in case CutByte CHR ''/'' ref of
         Some (first, _) \<Rightarrow> if list_ex (\<lambda>c. c = CHR ''.'' \<or> c = CHR '':'') first \<or> first = ''localhost'' then first
           else ''docker.io''
       | None \<Rightarrow> ''docker.io'')"

definition normalizeRegistryHost :: "(string \<Rightarrow> string option) \<Rightarrow> string \<Rightarrow> string" where
  "normalizeRegistryHost url_Host value0 = (let value = ToLower (TrimSpace value0) in
     if value = [] then []
     else let
       value = (if Contains value ''://'' then
           (case url_Host value of Some h \<Rightarrow> if h \<noteq> [] then h else value | None \<Rightarrow> value) else value);
       value = TrimPrefix value ''//'';
       value = TrimSuffix value ''/''
     in (case CutByte CHR ''/'' value of Some (before, _) \<Rightarrow> before | None \<Rightarrow> value))"

definition registryHostAlias :: "string \<Rightarrow> string" where
  "registryHostAlias host =
    (if host \<in> set [''docker.io'', ''index.docker.io'', ''registry-1.docker.io'', ''registry.docker.io'']
     then ''registry-1.docker.io'' else host)"

definition matchesHost :: "(string \<Rightarrow> string option) \<Rightarrow> RegistryAuth option \<Rightarrow> string \<Rightarrow> string \<Rightarrow> bool" where
  "matchesHost url_Host au refHost host = (case au of None \<Rightarrow> False | Some a \<Rightarrow>
     let configured = normalizeRegistryHost url_Host (ba_ServerAddress a);
         configured = (if configured = [] then normalizeRegistryHost url_Host refHost else configured)
     in if configured = [] then True
        else registryHostAlias configured = registryHostAlias (normalizeRegistryHost url_Host host))"

section \<open>The resolver of a pull\<close>

text \<open>
  What \<^verbatim>\<open>newResolver\<close> hands to containerd: the credential callback, if any, and the token every
  resolved host's authorizer is built with, if any.
\<close>

record resolver =
  rs_Credentials :: "(string \<Rightarrow> string \<times> string) option"
  rs_bearer :: "string option"

definition newResolver :: "(string \<Rightarrow> string option) \<Rightarrow> RegistryAuth option \<Rightarrow> string \<Rightarrow> resolver" where
  "newResolver url_Host au ref = (let refHost = referenceHost ref in
     \<lparr>rs_Credentials = (if au \<noteq> None then Some (\<lambda>host.
          if \<not> matchesHost url_Host au refHost host then ([], []) else usernameAndSecret au) else None),
      rs_bearer = (case au of Some a \<Rightarrow> if ba_RegistryToken a \<noteq> [] then Some (ba_RegistryToken a) else None
        | None \<Rightarrow> None)\<rparr>)"

text \<open>\<^verbatim>\<open>bearerAuthorizer.Authorize\<close>: the \<^verbatim>\<open>Authorization\<close> header it sets on a request, if it sets one.\<close>

definition Authorize :: "(string \<Rightarrow> string option) \<Rightarrow> string \<Rightarrow> string \<Rightarrow> string \<Rightarrow> string option" where
  "Authorize url_Host authorizer_host bearer req_host =
    (if normalizeRegistryHost url_Host req_host \<noteq> normalizeRegistryHost url_Host authorizer_host then None
     else Some (''Bearer '' @ bearer))"

section \<open>The BuildKit session\<close>

definition Credentials :: "(string \<Rightarrow> string option) \<Rightarrow> RegistryAuth option \<Rightarrow> string \<Rightarrow> string \<times> string" where
  "Credentials url_Host creds host = (case creds of None \<Rightarrow> ([], []) | Some a \<Rightarrow>
     if \<not> matchesHost url_Host creds [] host then ([], [])
     else if ba_RegistryToken a \<noteq> [] then ([], ba_RegistryToken a)
     else (case usernameAndSecret creds of (username, secret) \<Rightarrow>
       if username = [] \<and> secret = [] then ([], []) else (username, secret)))"

record token_request =
  tr_Host :: string
  tr_Realm :: string
  tr_Service :: string
  tr_Scopes :: "string list"

record token_options =
  to_Realm :: string
  to_Service :: string
  to_Scopes :: "string list"
  to_Username :: string
  to_Secret :: string

record token_response =
  tk_Token :: string
  tk_ExpiresIn :: int
  tk_IssuedAt :: int

text \<open>The two token endpoints are calls to the registry named by the options' realm.\<close>

record token_env =
  te_OAuth :: "token_options \<Rightarrow> gerror + token_response"
  te_Fetch :: "token_options \<Rightarrow> gerror + token_response"

definition token_request_options :: "RegistryAuth option \<Rightarrow> token_request \<Rightarrow> token_options" where
  "token_request_options creds req = (case (if creds \<noteq> None then usernameAndSecret creds else ([], [])) of (u, s) \<Rightarrow>
     \<lparr>to_Realm = tr_Realm req, to_Service = tr_Service req, to_Scopes = tr_Scopes req, to_Username = u, to_Secret = s\<rparr>)"

definition fetch_options :: "token_env \<Rightarrow> token_options \<Rightarrow> gerror + token_response" where
  "fetch_options env opts =
    (if to_Username opts \<noteq> [] \<or> to_Secret opts \<noteq> [] then
       (case te_OAuth env opts of Inr r \<Rightarrow> Inr r | Inl _ \<Rightarrow> te_Fetch env opts)
     else te_Fetch env opts)"

definition FetchToken :: "token_env \<Rightarrow> RegistryAuth option \<Rightarrow> token_request \<Rightarrow> gerror + token_response" where
  "FetchToken env creds req =
    (case creds of
       Some a \<Rightarrow> if ba_RegistryToken a \<noteq> [] then Inr \<lparr>tk_Token = ba_RegistryToken a, tk_ExpiresIn = 0, tk_IssuedAt = 0\<rparr>
         else fetch_options env (token_request_options creds req)
     | None \<Rightarrow> fetch_options env (token_request_options creds req))"


section \<open>Where credentials go\<close>

text \<open>
  Hosts as they appear in requests, the names of Docker Hub, and what a server address and an image
  reference name. A server address is a host, a host with a path, or a URL whose host
  \<^verbatim>\<open>url.Parse\<close> reports, in any case and with white space around it; a reference names the host
  before its first slash when that has a dot or a colon or is \<^verbatim>\<open>localhost\<close>, else Docker Hub.
\<close>

definition host_chars :: string where
  "host_chars = ''abcdefghijklmnopqrstuvwxyz0123456789.-:''"

definition plain_host :: "string \<Rightarrow> bool" where
  "plain_host h \<longleftrightarrow> h \<noteq> [] \<and> list_all (\<lambda>c. c \<in> set host_chars) h"

definition hub_hosts :: "string list" where
  "hub_hosts = [''docker.io'', ''index.docker.io'', ''registry-1.docker.io'', ''registry.docker.io'']"

definition same_registry :: "string \<Rightarrow> string \<Rightarrow> bool" where
  "same_registry g h \<longleftrightarrow> g = h \<or> g \<in> set hub_hosts \<and> h \<in> set hub_hosts"

definition server_host :: "(string \<Rightarrow> string option) \<Rightarrow> string \<Rightarrow> string \<Rightarrow> bool" where
  "server_host u s h \<longleftrightarrow> plain_host h \<and> (let v = ToLower (TrimSpace s) in
     if Contains v ''://'' then u v = Some h else v = h \<or> (\<exists>path. v = h @ CHR ''/'' # path))"

definition explicit_host :: "string \<Rightarrow> bool" where
  "explicit_host h \<longleftrightarrow> CHR ''.'' \<in> set h \<or> CHR '':'' \<in> set h \<or> h = ''localhost''"

definition names_registry :: "string \<Rightarrow> string \<Rightarrow> bool" where
  "names_registry ref h \<longleftrightarrow> plain_host h \<and> TrimSpace ref = ref \<and> ref \<noteq> [] \<and>
     ((\<exists>path. ref = h @ CHR ''/'' # path) \<and> explicit_host h
      \<or> h = ''docker.io'' \<and> CHR ''@'' \<notin> set ref
        \<and> (CHR ''/'' \<notin> set ref \<or> (\<exists>f path. ref = f @ CHR ''/'' # path \<and> CHR ''/'' \<notin> set f \<and> \<not> explicit_host f)))"

definition basic_secret :: "RegistryAuth \<Rightarrow> string \<times> string" where
  "basic_secret a = (if ba_IdentityToken a \<noteq> [] then ([], ba_IdentityToken a) else (ba_Username a, ba_Password a))"

definition session_secret :: "RegistryAuth \<Rightarrow> string \<times> string" where
  "session_secret a = (if ba_RegistryToken a \<noteq> [] then ([], ba_RegistryToken a) else basic_secret a)"

lemma plain_host_chars:
  assumes "plain_host h"
  shows "CHR ''/'' \<notin> set h" "CHR ''@'' \<notin> set h" "ToLower h = h" "TrimSpace h = h"
proof -
  have c: "\<And>x. x \<in> set h \<Longrightarrow> x \<in> set host_chars" and ne: "h \<noteq> []"
    using assms by (auto simp: plain_host_def list_all_iff)
  have "CHR ''/'' \<notin> set host_chars" "CHR ''@'' \<notin> set host_chars" by code_simp+
  then show "CHR ''/'' \<notin> set h" "CHR ''@'' \<notin> set h" using c by blast+
  have "list_all (\<lambda>c. c < CHR 0x80 \<and> \<not> (CHR ''A'' \<le> c \<and> c \<le> CHR ''Z'')) host_chars" by code_simp
  then have "ascii_lower h" using c unfolding ascii_lower_def list_all_iff by blast
  then show "ToLower h = h" by (rule ToLower_ascii_lower)
  have "list_all (\<lambda>c. c \<notin> set (map hd space_runes) \<and> c \<notin> set (map last space_runes)) host_chars" by code_simp
  then have "x \<notin> space_head_bytes \<and> x \<notin> space_last_bytes" if "x \<in> set h" for x
    using c [OF that] unfolding space_head_bytes_def space_last_bytes_def list_all_iff by blast
  then show "TrimSpace h = h" using ne hd_in_set last_in_set by (intro TrimSpace_id) blast
qed

lemma normalize_server:
  assumes "server_host u s h"
  shows "normalizeRegistryHost u s = h"
proof -
  have plain: "plain_host h" using assms by (simp add: server_host_def)
  note h = plain_host_chars [OF plain]
  have ne: "h \<noteq> []" using plain by (simp add: plain_host_def)
  have tail: "(let value = TrimPrefix v ''//''; value = TrimSuffix value ''/'' in
      case CutByte CHR ''/'' value of Some (before, _) \<Rightarrow> before | None \<Rightarrow> value) = h"
    if "v = h \<or> (\<exists>path. v = h @ CHR ''/'' # path)" for v
  proof -
    have "\<not> prefix ''//'' v" using that h(1) ne by (cases h) (auto simp: prefix_def)
    then have p: "TrimPrefix v ''//'' = v" by (simp add: TrimPrefix_def)
    have "TrimSuffix v ''/'' = h \<or> (\<exists>path. TrimSuffix v ''/'' = h @ CHR ''/'' # path)"
    proof (cases "v = h")
      case True
      then have "\<not> suffix ''/'' v" using h(1) by (auto simp: suffix_def)
      with True show ?thesis by (simp add: TrimSuffix_def)
    next
      case False
      with that obtain path where v: "v = h @ CHR ''/'' # path" by blast
      then show ?thesis
        by (cases path rule: rev_cases) (auto simp: TrimSuffix_def suffix_def butlast_append simp flip: butlast_conv_take)
    qed
    moreover have "CutByte CHR ''/'' h = None" using h(1) by (simp add: CutByte_None_iff)
    moreover have "CutByte CHR ''/'' (h @ CHR ''/'' # path) = Some (h, path)" for path
      using h(1) by (simp add: CutByte_Some_iff)
    ultimately show ?thesis unfolding p Let_def by (elim disjE exE) simp_all
  qed
  let ?v = "ToLower (TrimSpace s)"
  show ?thesis
  proof (cases "Contains ?v ''://''")
    case True
    then have "u ?v = Some h" "?v \<noteq> []" using assms by (auto simp: server_host_def Let_def)
    with True ne tail [of h] show ?thesis by (simp add: normalizeRegistryHost_def Let_def)
  next
    case False
    then have v: "?v = h \<or> (\<exists>path. ?v = h @ CHR ''/'' # path)" using assms by (simp add: server_host_def Let_def)
    then have "?v \<noteq> []" using ne by auto
    with False tail [OF v] show ?thesis by (simp add: normalizeRegistryHost_def Let_def)
  qed
qed

lemma normalize_plain: "plain_host h \<Longrightarrow> normalizeRegistryHost u h = h"
proof (rule normalize_server)
  assume "plain_host h"
  note h = plain_host_chars [OF this]
  have "\<not> Contains h ''://''" using h(1) by (auto simp: Contains_iff)
  with \<open>plain_host h\<close> h show "server_host u h h" by (simp add: server_host_def)
qed

lemma alias_same: "registryHostAlias g = registryHostAlias h \<longleftrightarrow> same_registry g h"
  by (auto simp: registryHostAlias_def same_registry_def hub_hosts_def)

lemma cut_digest: "CHR ''@'' \<notin> set q \<Longrightarrow> rev (tl (dropWhile (\<lambda>c. c \<noteq> CHR ''@'') (rev (x @ CHR ''@'' # q)))) = x"
proof -
  assume "CHR ''@'' \<notin> set q"
  then have "dropWhile (\<lambda>c. c \<noteq> CHR ''@'') (rev q @ CHR ''@'' # rev x) = CHR ''@'' # rev x"
    by (subst dropWhile_append2) auto
  then show ?thesis by simp
qed

lemma referenceHost_cut:
  assumes "TrimSpace ref = ref" and "ref \<noteq> []"
    and "name = (if CHR ''@'' \<in> set ref then rev (tl (dropWhile (\<lambda>c. c \<noteq> CHR ''@'') (rev ref))) else ref)"
  shows "referenceHost ref = (case CutByte CHR ''/'' name of
      Some (first, _) \<Rightarrow> if explicit_host first then first else ''docker.io'' | None \<Rightarrow> ''docker.io'')"
proof -
  have e: "list_ex (\<lambda>c. c = CHR ''.'' \<or> c = CHR '':'') f \<or> f = ''localhost'' \<longleftrightarrow> explicit_host f" for f
    unfolding explicit_host_def list_ex_iff by blast
  show ?thesis unfolding referenceHost_def Let_def assms(1) e if_not_P [OF assms(2)] assms(3) by (rule refl)
qed

lemma referenceHost_named:
  assumes "names_registry ref h"
  shows "referenceHost ref = h"
proof -
  have t: "TrimSpace ref = ref" "ref \<noteq> []" and plain: "plain_host h" using assms by (simp_all add: names_registry_def)
  note chars = plain_host_chars [OF plain]
  consider (explicit) path where "ref = h @ CHR ''/'' # path" "explicit_host h"
    | (hub) "h = ''docker.io''" "CHR ''@'' \<notin> set ref"
        "CHR ''/'' \<notin> set ref \<or> (\<exists>f path. ref = f @ CHR ''/'' # path \<and> CHR ''/'' \<notin> set f \<and> \<not> explicit_host f)"
    using assms unfolding names_registry_def by blast
  then show ?thesis
  proof cases
    case explicit
    have "\<exists>p. (if CHR ''@'' \<in> set ref then rev (tl (dropWhile (\<lambda>c. c \<noteq> CHR ''@'') (rev ref))) else ref) = h @ CHR ''/'' # p"
    proof (cases "CHR ''@'' \<in> set ref")
      case True
      with explicit(1) chars(2) have "CHR ''@'' \<in> set path" by auto
      then obtain p q where pq: "path = p @ CHR ''@'' # q" "CHR ''@'' \<notin> set q" by (metis split_list_last)
      then have "ref = (h @ CHR ''/'' # p) @ CHR ''@'' # q" using explicit(1) by simp
      then show ?thesis using True cut_digest [OF pq(2), of "h @ CHR ''/'' # p"] by metis
    qed (use explicit(1) in simp)
    then obtain p where p: "h @ CHR ''/'' # p
        = (if CHR ''@'' \<in> set ref then rev (tl (dropWhile (\<lambda>c. c \<noteq> CHR ''@'') (rev ref))) else ref)" by metis
    have "CutByte CHR ''/'' (h @ CHR ''/'' # p) = Some (h, p)" using chars(1) by (simp add: CutByte_Some_iff)
    then show ?thesis unfolding referenceHost_cut [OF t p] by (simp add: explicit(2))
  next
    case hub
    then have c: "ref = (if CHR ''@'' \<in> set ref then rev (tl (dropWhile (\<lambda>c. c \<noteq> CHR ''@'') (rev ref))) else ref)" by simp
    have "CutByte CHR ''/'' ref = None \<or> (\<exists>f path. CutByte CHR ''/'' ref = Some (f, path) \<and> \<not> explicit_host f)"
      using hub(3) unfolding CutByte_None_iff CutByte_Some_iff by blast
    then show ?thesis unfolding referenceHost_cut [OF t c] hub(1) by (elim disjE exE conjE) simp_all
  qed
qed

lemma matchesHost_server:
  assumes "server_host u (ba_ServerAddress a) sh" and "plain_host host"
  shows "matchesHost u (Some a) refHost host \<longleftrightarrow> same_registry sh host"
proof -
  have "sh \<noteq> []" using assms(1) by (simp add: server_host_def plain_host_def)
  then show ?thesis
    using normalize_server [OF assms(1)] normalize_plain [OF assms(2)] by (simp add: matchesHost_def Let_def alias_same)
qed

lemma matchesHost_unset:
  assumes "ba_ServerAddress a = []" and "plain_host host"
  shows "plain_host rh \<Longrightarrow> matchesHost u (Some a) rh host \<longleftrightarrow> same_registry rh host"
    and "matchesHost u (Some a) [] host"
proof -
  have e: "normalizeRegistryHost u [] = []" by (simp add: normalizeRegistryHost_def)
  show "matchesHost u (Some a) [] host" using assms(1) e by (simp add: matchesHost_def)
  assume "plain_host rh"
  then show "matchesHost u (Some a) rh host \<longleftrightarrow> same_registry rh host"
    using assms(1) e normalize_plain [OF \<open>plain_host rh\<close>] normalize_plain [OF assms(2)]
    by (simp add: matchesHost_def Let_def alias_same plain_host_def)
qed

text \<open>
  C38: where the credentials of a request go. Credentials with a server address are answered for the
  registry of that address and for no other host, both in a build session and in the resolver of a
  pull; the names of Docker Hub are one registry. Without a server address the resolver answers
  for the registry the pulled reference names, the session for every host. Two ways do not look at
  the address: a registry token is put on the requests to every host the resolver resolves (each
  request only to its own host), and the token exchange of a session is the same whichever host
  asked for it. Without credentials nothing is sent.
\<close>

theorem credentials_destinations:
  assumes "server_host u (ba_ServerAddress a) sh" and "plain_host host" and "plain_host other"
    and "names_registry ref rh" and "b = a\<lparr>ba_ServerAddress := []\<rparr>"
  shows "Credentials u (Some a) host = (if same_registry sh host then session_secret a else ([], []))
    \<and> Credentials u (Some b) host = session_secret a
    \<and> map_option (\<lambda>f. f host) (rs_Credentials (newResolver u (Some a) ref))
        = Some (if same_registry sh host then basic_secret a else ([], []))
    \<and> map_option (\<lambda>f. f host) (rs_Credentials (newResolver u (Some b) ref))
        = Some (if same_registry rh host then basic_secret a else ([], []))
    \<and> rs_bearer (newResolver u (Some a) ref) = (if ba_RegistryToken a = [] then None else Some (ba_RegistryToken a))
    \<and> Authorize u host token other = (if other = host then Some (''Bearer '' @ token) else None)
    \<and> FetchToken env (Some a) req = FetchToken env (Some a) (req\<lparr>tr_Host := host\<rparr>)
    \<and> rs_Credentials (newResolver u None ref) = None \<and> rs_bearer (newResolver u None ref) = None
    \<and> Credentials u None host = ([], [])"
proof (intro conjI)
  note server = matchesHost_server [OF assms(1,2)]
  have b: "ba_ServerAddress b = []" "ba_RegistryToken b = ba_RegistryToken a" "basic_secret b = basic_secret a"
    using assms(5) by (simp_all add: basic_secret_def)
  note unset = matchesHost_unset [OF b(1) assms(2)]
  have secret: "usernameAndSecret (Some x) = basic_secret x" for x by (simp add: usernameAndSecret_def basic_secret_def)
  have rh: "plain_host rh" using assms(4) by (simp add: names_registry_def)
  show "Credentials u (Some a) host = (if same_registry sh host then session_secret a else ([], []))"
    by (auto simp: Credentials_def server secret session_secret_def split: prod.split)
  show "Credentials u (Some b) host = session_secret a"
    by (auto simp: Credentials_def unset(2) secret session_secret_def b(2,3) split: prod.split)
  show "map_option (\<lambda>f. f host) (rs_Credentials (newResolver u (Some a) ref))
        = Some (if same_registry sh host then basic_secret a else ([], []))"
    by (simp add: newResolver_def server secret)
  show "map_option (\<lambda>f. f host) (rs_Credentials (newResolver u (Some b) ref))
        = Some (if same_registry rh host then basic_secret a else ([], []))"
    by (simp add: newResolver_def referenceHost_named [OF assms(4)] unset(1) [OF rh] secret b(3))
  show "Authorize u host token other = (if other = host then Some (''Bearer '' @ token) else None)"
    by (simp add: Authorize_def normalize_plain [OF assms(2)] normalize_plain [OF assms(3)])
qed (simp_all add: newResolver_def Credentials_def FetchToken_def token_request_options_def Let_def)

definition hub_auth :: RegistryAuth where
  "hub_auth = \<lparr>ba_Username = ''me'', ba_Password = ''pw'', ba_IdentityToken = [], ba_RegistryToken = [],
     ba_ServerAddress = ''https://index.docker.io/v1/''\<rparr>"

definition hub_url :: "string \<Rightarrow> string option" where
  "hub_url v = (if v = ''https://index.docker.io/v1/'' then Some ''index.docker.io'' else None)"

theorem credentials_destinations_witness:
  "Credentials hub_url (Some hub_auth) ''registry-1.docker.io'' = (''me'', ''pw'')
   \<and> Credentials hub_url (Some hub_auth) ''ghcr.io'' = ([], [])
   \<and> map_option (\<lambda>f. f ''ghcr.io'') (rs_Credentials (newResolver hub_url (Some (hub_auth\<lparr>ba_ServerAddress := []\<rparr>)) ''ghcr.io/a/b:1''))
       = Some (''me'', ''pw'')"
proof -
  have "ToLower (TrimSpace ''https://index.docker.io/v1/'') = ''https://index.docker.io/v1/''"
    "Contains ''https://index.docker.io/v1/'' ''://''" by code_simp+
  then have s: "server_host hub_url (ba_ServerAddress hub_auth) ''index.docker.io''"
    by (simp add: server_host_def hub_auth_def hub_url_def plain_host_def host_chars_def)
  have p: "plain_host ''registry-1.docker.io''" "plain_host ''ghcr.io''" by (simp_all add: plain_host_def host_chars_def)
  have "TrimSpace ''ghcr.io/a/b:1'' = ''ghcr.io/a/b:1''" by code_simp
  then have r: "names_registry ''ghcr.io/a/b:1'' ''ghcr.io''"
    by (simp add: names_registry_def explicit_host_def p)
  show ?thesis
    using credentials_destinations [OF s p(1) p(1) r refl] credentials_destinations [OF s p(2) p(2) r refl]
    by (simp add: same_registry_def hub_hosts_def session_secret_def basic_secret_def) (simp add: hub_auth_def)
qed

text \<open>
  The renderings of credentials for logs and errors carry no secret: they are the same for any
  two credentials of one server address in which the same fields are set.
\<close>

theorem auth_redacted:
  assumes "ba_ServerAddress a = ba_ServerAddress b"
    and "ba_Username a = [] \<longleftrightarrow> ba_Username b = []" and "ba_Password a = [] \<longleftrightarrow> ba_Password b = []"
    and "ba_IdentityToken a = [] \<longleftrightarrow> ba_IdentityToken b = []"
    and "ba_RegistryToken a = [] \<longleftrightarrow> ba_RegistryToken b = []"
  shows "auth_String a = auth_String b \<and> GoString a = GoString b \<and> MarshalLogObject a = MarshalLogObject b"
  using assms by (simp add: auth_String_def GoString_def MarshalLogObject_def)

theorem auth_redacted_witness:
  "auth_String hub_auth = auth_String (hub_auth\<lparr>ba_Username := ''you'', ba_Password := ''other''\<rparr>)
   \<and> MarshalLogObject hub_auth = MarshalLogObject (hub_auth\<lparr>ba_Username := ''you'', ba_Password := ''other''\<rparr>)"
  using auth_redacted [of hub_auth "hub_auth\<lparr>ba_Username := ''you'', ba_Password := ''other''\<rparr>"]
  by (simp add: hub_auth_def)

text \<open>The token exchange of a session does not look at the requested host.\<close>

lemma FetchToken_any_host: "FetchToken env creds req = FetchToken env creds (req\<lparr>tr_Host := host\<rparr>)"
  by (cases creds) (simp_all add: FetchToken_def token_request_options_def)

text \<open>Nor does the static bearer token of a resolver: every resolved host gets it.\<close>

lemma resolver_bearer_any_host:
  "ba_RegistryToken a \<noteq> [] \<Longrightarrow> rs_bearer (newResolver u (Some a) ref) = Some (ba_RegistryToken a)
     \<and> Authorize u host (ba_RegistryToken a) host = Some (''Bearer '' @ ba_RegistryToken a)"
  by (simp add: newResolver_def Authorize_def Let_def)

text \<open>The legacy \<^verbatim>\<open>auth\<close> field: the base64 form of \<^verbatim>\<open>user:pass\<close>.\<close>

lemma FromAuthConfig_legacy:
  "FromAuthConfig (Some \<lparr>ac_Username = [], ac_Password = [], ac_Auth = ''dXNlcjpwYXNz'', ac_ServerAddress = ''r.io'',
      ac_IdentityToken = [], ac_RegistryToken = []\<rparr>)
    = Some \<lparr>ba_Username = ''user'', ba_Password = ''pass'', ba_IdentityToken = [], ba_RegistryToken = [], ba_ServerAddress = ''r.io''\<rparr>"
  by code_simp

end
