(* ===== verification/Bk_Store.thy ===== *)
theory Bk_Store
  imports Bk_Auth
begin

text \<open>
  \<^verbatim>\<open>internal/adapters/buildkit/client.go\<close> (the image store) and \<^verbatim>\<open>adapter.go\<close> (pull, inspect,
  list and removal), and the adapter of \<^verbatim>\<open>internal/app/adapters.go\<close> that puts them behind the
  image port. The reference grammar and the containerd client are parameters: \<open>store_env\<close> holds the
  calls on a world \<open>'w\<close>, the images of the configured namespace.
\<close>

section \<open>References\<close>

text \<open>
  The functions of \<^verbatim>\<open>distribution/reference\<close> and \<^verbatim>\<open>go-digest\<close> the code calls. \<open>rf_Normalized\<close> is
  \<^verbatim>\<open>TagNameOnly(ParseNormalizedNamed(s)).String()\<close>, \<open>rf_Familiar\<close> the familiar form of a name that
  parses and whether it carries a digest, \<open>rf_WithDigest\<close> the familiar form of the name, its tag
  dropped, with a digest.
\<close>

record reference_env =
  rf_Normalized :: "string \<Rightarrow> gerror + string"
  rf_Familiar :: "string \<Rightarrow> (string \<times> bool) option"
  rf_WithDigest :: "string \<Rightarrow> string \<Rightarrow> string option"
  rf_ParseDigest :: "string \<Rightarrow> bool"

definition NormalizeReference :: "reference_env \<Rightarrow> string \<Rightarrow> gerror + string" where
  "NormalizeReference rf ref = (case rf_Normalized rf (TrimSpace ref) of
     Inl e \<Rightarrow> Inl (Wrapf (buildkit_msg ErrInvalidReference @ '': '' @ quote ref @ '': '' @ err_msg e)
                [Sentinel (Buildkit ErrInvalidReference), e])
   | Inr n \<Rightarrow> Inr n)"

definition familiarName :: "reference_env \<Rightarrow> string \<Rightarrow> string" where
  "familiarName rf ref = (case rf_Familiar rf ref of None \<Rightarrow> ref | Some (f, _) \<Rightarrow> f)"

section \<open>The image store\<close>

record oci_platform =
  pf_OS :: string
  pf_Architecture :: string
  pf_Variant :: string

record PullOptions =
  po_Platform :: string
  po_Auth :: "RegistryAuth option"

record ImageRecord =
  ir_Name :: string
  ir_TargetDigest :: string
  ir_ConfigDigest :: string
  ir_RepoTags :: "string list"
  ir_RepoDigests :: "string list"
  ir_Platform :: oci_platform
  ir_Size :: int
  ir_CreatedAt :: gotime
  ir_Labels :: "(string, string) gomap"

text \<open>A containerd image: its metadata, and what reading its content answers.\<close>

record ctd_image =
  cti_Name :: string
  cti_Target :: string
  cti_CreatedAt :: gotime
  cti_Labels :: "(string, string) gomap"
  cti_Config :: "gerror + string"
  cti_Spec :: "gerror + (gotime option \<times> oci_platform)"
  cti_Size :: "gerror + int"

record 'w store_env =
  sv_ref :: reference_env
  sv_url_Host :: "string \<Rightarrow> string option"
  sv_snapshotter :: string
  sv_platform :: string
  sv_IsNotFound :: "gerror \<Rightarrow> bool"
  sv_Pull :: "string \<Rightarrow> resolver \<Rightarrow> string option \<Rightarrow> string option \<Rightarrow> 'w \<Rightarrow> 'w \<times> (gerror + ctd_image)"
  sv_GetImage :: "string \<Rightarrow> 'w \<Rightarrow> gerror + ctd_image"
  sv_ListImages :: "'w \<Rightarrow> gerror + ctd_image list"
  sv_Delete :: "string \<Rightarrow> 'w \<Rightarrow> 'w \<times> gerror option"

definition translateStoreErr :: "'w store_env \<Rightarrow> gerror \<Rightarrow> gerror" where
  "translateStoreErr env e = (if sv_IsNotFound env e then wrap_two (Sentinel (Buildkit BErrNotFound)) e else e)"

definition translatePullError :: "'w store_env \<Rightarrow> string \<Rightarrow> gerror \<Rightarrow> gerror" where
  "translatePullError env ref e = (let message = ToLower (err_msg e) in
     if Contains message ''pull access denied'' \<or> Contains message ''insufficient_scope''
        \<or> Contains message ''authorization failed''
     then Wrapf (buildkit_msg BErrNotFound @ '': pull access denied for '' @ familiarName (sv_ref env) ref
            @ '', repository does not exist or may require '' @ [CHR 0x27] @ ''docker login'' @ [CHR 0x27] @ '': '' @ err_msg e)
            [Sentinel (Buildkit BErrNotFound), e]
     else if sv_IsNotFound env e then wrap_two (Sentinel (Buildkit BErrNotFound)) e
     else e)"

definition recordFromImage :: "ctd_image \<Rightarrow> gerror + ImageRecord" where
  "recordFromImage img = (case cti_Config img of
     Inl e \<Rightarrow> Inl (wrap_pre ''read image config descriptor: '' e)
   | Inr config \<Rightarrow> (case cti_Spec img of
       Inl e \<Rightarrow> Inl (wrap_pre ''read image spec: '' e)
     | Inr (created, platform) \<Rightarrow> (case cti_Size img of
         Inl e \<Rightarrow> Inl (wrap_pre ''read image size: '' e)
       | Inr sz \<Rightarrow> Inr \<lparr>ir_Name = cti_Name img, ir_TargetDigest = cti_Target img, ir_ConfigDigest = config,
           ir_RepoTags = [], ir_RepoDigests = [], ir_Platform = platform, ir_Size = sz,
           ir_CreatedAt = (case created of Some t \<Rightarrow> t | None \<Rightarrow> cti_CreatedAt img), ir_Labels = cti_Labels img\<rparr>)))"

fun appendUnique :: "string list \<Rightarrow> string list \<Rightarrow> string list" where
  "appendUnique values [] = values"
| "appendUnique values (v # vs) = appendUnique (if v = [] \<or> v \<in> set values then values else values @ [v]) vs"

definition add_sibling :: "reference_env \<Rightarrow> string \<Rightarrow> string \<Rightarrow> ImageRecord \<Rightarrow> ImageRecord" where
  "add_sibling rf target name r = (case rf_Familiar rf name of
     None \<Rightarrow> r\<lparr>ir_RepoTags := appendUnique (ir_RepoTags r) [name]\<rparr>
   | Some (familiar, digested) \<Rightarrow>
      let r1 = r\<lparr>ir_RepoTags := appendUnique (ir_RepoTags r) [familiar]\<rparr> in
      if digested then r1\<lparr>ir_RepoDigests := appendUnique (ir_RepoDigests r1) [familiar]\<rparr>
      else (case rf_WithDigest rf name target of
        None \<Rightarrow> r1
      | Some d \<Rightarrow> r1\<lparr>ir_RepoDigests := appendUnique (ir_RepoDigests r1) [d]\<rparr>))"

text \<open>
  The loop over the target digests in Go's map order: a record is changed by its own group only, so
  the order is not observable and each record collects the names of its group in list order.
\<close>

definition attachSiblingReferences :: "reference_env \<Rightarrow> ImageRecord list \<Rightarrow> ImageRecord list" where
  "attachSiblingReferences rf rs = map (\<lambda>r.
     let target = ir_TargetDigest r in
     if target = [] \<or> \<not> rf_ParseDigest rf target then r
     else fold (\<lambda>s. add_sibling rf target (ir_Name s)) (filter (\<lambda>s. ir_TargetDigest s = target) rs) r) rs"

definition store_records :: "'w store_env \<Rightarrow> 'w \<Rightarrow> gerror + ImageRecord list" where
  "store_records env w = (case sv_ListImages env w of
     Inl e \<Rightarrow> Inl (translateStoreErr env e)
   | Inr imgs \<Rightarrow> (case mapM recordFromImage imgs of
       Inl e \<Rightarrow> Inl e | Inr rs \<Rightarrow> Inr (attachSiblingReferences (sv_ref env) rs)))"

definition recordMatchesID :: "ImageRecord \<Rightarrow> string \<Rightarrow> bool" where
  "recordMatchesID r i = (if i = [] then False
     else list_ex (\<lambda>candidate. candidate = i
       \<or> (let v = TrimPrefix candidate ''sha256:'' in v \<noteq> [] \<and> HasPrefix v i)) [ir_ConfigDigest r, ir_TargetDigest r])"

definition store_Pull :: "'w store_env \<Rightarrow> string \<Rightarrow> PullOptions \<Rightarrow> 'w \<Rightarrow> 'w \<times> (gerror + ImageRecord)" where
  "store_Pull env ref opts w = (case NormalizeReference (sv_ref env) ref of
     Inl e \<Rightarrow> (w, Inl e)
   | Inr normalized \<Rightarrow>
      let snapshotter = (if sv_snapshotter env \<noteq> [] then Some (sv_snapshotter env) else None);
          platform = (if po_Platform opts = [] then sv_platform env else po_Platform opts)
      in (case sv_Pull env normalized (newResolver (sv_url_Host env) (po_Auth opts) normalized) snapshotter
             (if platform \<noteq> [] then Some platform else None) w of
           (w1, Inl e) \<Rightarrow> (w1, Inl (translatePullError env normalized e))
         | (w1, Inr img) \<Rightarrow> (w1, (case store_records env w1 of
             Inl e \<Rightarrow> Inl e
           | Inr rs \<Rightarrow> (case find (\<lambda>r. ir_Name r = cti_Name img) rs of
               Some r \<Rightarrow> Inr r | None \<Rightarrow> recordFromImage img)))))"

text \<open>The first part of \<^verbatim>\<open>Get\<close>: a lookup by name, which may answer, fail, or leave the search to the digests.\<close>

definition get_by_name :: "'w store_env \<Rightarrow> string \<Rightarrow> 'w \<Rightarrow> (gerror + ImageRecord) option" where
  "get_by_name env refOrID w = (case NormalizeReference (sv_ref env) refOrID of
     Inl _ \<Rightarrow> None
   | Inr normalized \<Rightarrow> (case sv_GetImage env normalized w of
       Inr img \<Rightarrow> (case store_records env w of
         Inl _ \<Rightarrow> None
       | Inr rs \<Rightarrow> map_option Inr (find (\<lambda>r. ir_Name r = cti_Name img) rs))
     | Inl e \<Rightarrow> if sv_IsNotFound env e then None else Some (Inl (translateStoreErr env e))))"

definition store_Get :: "'w store_env \<Rightarrow> string \<Rightarrow> 'w \<Rightarrow> gerror + ImageRecord" where
  "store_Get env refOrID w = (case get_by_name env refOrID w of
     Some r \<Rightarrow> r
   | None \<Rightarrow> (case store_records env w of
       Inl e \<Rightarrow> Inl e
     | Inr rs \<Rightarrow> (case find (\<lambda>r. recordMatchesID r (TrimSpace refOrID)) rs of
         Some r \<Rightarrow> Inr r
       | None \<Rightarrow> Inl (wrap_post (Sentinel (Buildkit BErrNotFound)) ('': '' @ refOrID)))))"

definition store_List :: "'w store_env \<Rightarrow> 'w \<Rightarrow> gerror + ImageRecord list" where
  "store_List env w = store_records env w"

definition delete_raw :: "'w store_env \<Rightarrow> string \<Rightarrow> 'w \<Rightarrow> 'w \<times> gerror option" where
  "delete_raw env ref w = (case sv_Delete env ref w of
     (w1, None) \<Rightarrow> (w1, None)
   | (w1, Some e) \<Rightarrow> (w1, Some (if sv_IsNotFound env e then wrap_post (Sentinel (Buildkit BErrNotFound)) ('': '' @ ref)
       else translateStoreErr env e)))"

definition store_Delete :: "'w store_env \<Rightarrow> string \<Rightarrow> 'w \<Rightarrow> 'w \<times> gerror option" where
  "store_Delete env ref w = (case NormalizeReference (sv_ref env) ref of
     Inl _ \<Rightarrow> delete_raw env ref w
   | Inr normalized \<Rightarrow> (case sv_Delete env normalized w of
       (w1, None) \<Rightarrow> (w1, None)
     | (w1, Some e) \<Rightarrow> if \<not> sv_IsNotFound env e then (w1, Some (translateStoreErr env e))
         else delete_raw env ref w1))"

section \<open>The image adapter\<close>

record bk_image_detail =
  bd_ID :: string
  bd_RepoTags :: "string list"
  bd_RepoDigests :: "string list"
  bd_Platform :: string
  bd_Size :: int
  bd_Created :: gotime
  bd_Labels :: "(string, string) gomap"

text \<open>\<^verbatim>\<open>platforms.Format\<close> is a parameter; the store may be absent.\<close>

record 'w image_adapter =
  ia_store :: "'w store_env option"
  ia_Format :: "oci_platform \<Rightarrow> string"

definition formatPlatform :: "'w image_adapter \<Rightarrow> oci_platform \<Rightarrow> string" where
  "formatPlatform ia p = (if pf_OS p = [] \<or> pf_Architecture p = [] then [] else ia_Format ia p)"

definition record_id :: "ImageRecord \<Rightarrow> string" where
  "record_id r = (if ir_ConfigDigest r = [] then ir_TargetDigest r else ir_ConfigDigest r)"

definition detailFromRecord :: "'w image_adapter \<Rightarrow> ImageRecord \<Rightarrow> bk_image_detail" where
  "detailFromRecord ia r = \<lparr>bd_ID = record_id r, bd_RepoTags = ir_RepoTags r, bd_RepoDigests = ir_RepoDigests r,
     bd_Platform = formatPlatform ia (ir_Platform r), bd_Size = ir_Size r, bd_Created = ir_CreatedAt r,
     bd_Labels = ir_Labels r\<rparr>"

definition ErrNoStore_err :: gerror where
  "ErrNoStore_err = Sentinel (Buildkit ErrNoStore)"

definition PullImage :: "'w image_adapter \<Rightarrow> string \<Rightarrow> PullOptions \<Rightarrow> 'w \<Rightarrow> 'w \<times> (gerror + string)" where
  "PullImage ia ref opts w = (case ia_store ia of None \<Rightarrow> (w, Inl ErrNoStore_err)
   | Some env \<Rightarrow> (case store_Pull env ref opts w of
       (w1, Inl e) \<Rightarrow> (w1, Inl (wrap_pre (''pull image '' @ quote ref @ '': '') e))
     | (w1, Inr r) \<Rightarrow> (w1, (if record_id r = []
         then Inl (NewErr (''pull image '' @ quote ref @ '': store returned an empty image id''))
         else Inr (record_id r)))))"

definition ia_Pull :: "'w image_adapter \<Rightarrow> string \<Rightarrow> 'w \<Rightarrow> 'w \<times> (gerror + string)" where
  "ia_Pull ia ref w = PullImage ia ref \<lparr>po_Platform = [], po_Auth = None\<rparr> w"

definition ia_Inspect :: "'w image_adapter \<Rightarrow> string \<Rightarrow> 'w \<Rightarrow> gerror + bk_image_detail" where
  "ia_Inspect ia refOrID w = (case ia_store ia of None \<Rightarrow> Inl ErrNoStore_err
   | Some env \<Rightarrow> (case store_Get env refOrID w of
       Inl e \<Rightarrow> Inl (wrap_pre (''inspect image '' @ quote refOrID @ '': '') e)
     | Inr r \<Rightarrow> Inr (detailFromRecord ia r)))"

definition list_key :: "ImageRecord \<Rightarrow> string" where
  "list_key r = (if record_id r = [] then ir_Name r else record_id r)"

fun group_details :: "'w image_adapter \<Rightarrow> ImageRecord list \<Rightarrow> (string, bk_image_detail) gomap \<Rightarrow> string list
    \<Rightarrow> (string, bk_image_detail) gomap \<times> string list" where
  "group_details ia [] grouped order = (grouped, order)"
| "group_details ia (r # rs) grouped order =
    (let detail = detailFromRecord ia r; key = list_key r in
     case get grouped key of
       None \<Rightarrow> group_details ia rs (put key detail grouped) (order @ [key])
     | Some existing \<Rightarrow> group_details ia rs (put key
         (existing\<lparr>bd_RepoTags := appendUnique (bd_RepoTags existing) (bd_RepoTags detail),
                   bd_RepoDigests := appendUnique (bd_RepoDigests existing) (bd_RepoDigests detail)\<rparr>) grouped) order)"

definition ia_List :: "'w image_adapter \<Rightarrow> 'w \<Rightarrow> gerror + bk_image_detail list" where
  "ia_List ia w = (case ia_store ia of None \<Rightarrow> Inl ErrNoStore_err
   | Some env \<Rightarrow> (case store_List env w of
       Inl e \<Rightarrow> Inl (wrap_pre ''list images: '' e)
     | Inr rs \<Rightarrow> (case group_details ia rs [] [] of (grouped, order) \<Rightarrow>
         Inr (map (\<lambda>k. the (get grouped k)) order))))"

definition isImageID :: "string \<Rightarrow> bool" where
  "isImageID ref = (if HasPrefix ref ''sha256:'' then True
     else if length ref < 12 \<or> length ref > 64 then False
     else list_all (\<lambda>c. is_digit c \<or> CHR ''a'' \<le> c \<and> c \<le> CHR ''f'') ref)"

definition removeByID :: "'w store_env \<Rightarrow> string \<Rightarrow> 'w \<Rightarrow> 'w \<times> gerror option" where
  "removeByID env i w = (case store_List env w of
     Inl e \<Rightarrow> (w, Some (wrap_pre (''list images to remove '' @ quote i @ '': '') e))
   | Inr rs \<Rightarrow> (case sort_key ir_Name (filter (\<lambda>r. recordMatchesID r i) rs) of
       [] \<Rightarrow> (w, Some (wrap_post (Sentinel (Buildkit BErrNotFound)) ('': '' @ i)))
     | m # _ \<Rightarrow> (case store_Delete env (ir_Name m) w of
         (w1, Some e) \<Rightarrow> (w1, Some (wrap_pre (''remove image '' @ quote (ir_Name m) @ '': '') e))
       | (w1, None) \<Rightarrow> (w1, None))))"

definition ia_Remove :: "'w image_adapter \<Rightarrow> string \<Rightarrow> 'w \<Rightarrow> 'w \<times> gerror option" where
  "ia_Remove ia i w = (case ia_store ia of None \<Rightarrow> (w, Some ErrNoStore_err)
   | Some env \<Rightarrow> let ref = TrimSpace i in
      if ref = [] then (w, Some (Sentinel (Dom ErrEmptyIdentity)))
      else if isImageID ref then removeByID env ref w
      else (case store_Delete env ref w of
        (w1, Some e) \<Rightarrow> (w1, Some (wrap_pre (''remove image '' @ quote ref @ '': '') e))
      | (w1, None) \<Rightarrow> (w1, None)))"

section \<open>Behind the image port\<close>

definition registryAuth :: "registry_auth option \<Rightarrow> RegistryAuth option" where
  "registryAuth au = map_option (\<lambda>a. \<lparr>ba_Username = ra_Username a, ba_Password = ra_Password a,
     ba_IdentityToken = ra_IdentityToken a, ba_RegistryToken = ra_RegistryToken a, ba_ServerAddress = ra_ServerAddress a\<rparr>) au"

definition imageDetail :: "bk_image_detail \<Rightarrow> image_detail" where
  "imageDetail d = \<lparr>id_ID = bd_ID d, id_RepoTags = bd_RepoTags d, id_RepoDigests = bd_RepoDigests d,
     id_Platform = bd_Platform d, id_Size = bd_Size d, id_Created = bd_Created d, id_Labels = bd_Labels d, id_Config = None\<rparr>"

definition port_PullImage :: "'w image_adapter \<Rightarrow> string \<Rightarrow> pull_request \<Rightarrow> 'w \<Rightarrow> 'w \<times> (gerror + string)" where
  "port_PullImage ia ref req w = PullImage ia ref \<lparr>po_Platform = pl_Platform req, po_Auth = registryAuth (pl_Auth req)\<rparr> w"

definition port_Inspect :: "'w image_adapter \<Rightarrow> string \<Rightarrow> 'w \<Rightarrow> gerror + image_detail" where
  "port_Inspect ia ref w = (case ia_Inspect ia ref w of Inl e \<Rightarrow> Inl e | Inr d \<Rightarrow> Inr (imageDetail d))"

definition port_List :: "'w image_adapter \<Rightarrow> 'w \<Rightarrow> gerror + image_detail list" where
  "port_List ia w = (case ia_List ia w of Inl e \<Rightarrow> Inl e | Inr ds \<Rightarrow> Inr (map imageDetail ds))"


section \<open>The image list\<close>

text \<open>
  One row per image: the first record of each ID in list order, with the tags and digests of the
  later ones added.
\<close>

definition add_row :: "'w image_adapter \<Rightarrow> ImageRecord \<Rightarrow> bk_image_detail \<Rightarrow> bk_image_detail" where
  "add_row ia r d = d\<lparr>bd_RepoTags := appendUnique (bd_RepoTags d) (ir_RepoTags r),
     bd_RepoDigests := appendUnique (bd_RepoDigests d) (ir_RepoDigests r)\<rparr>"

fun merge_row :: "'w image_adapter \<Rightarrow> ImageRecord list \<Rightarrow> bk_image_detail option" where
  "merge_row ia [] = None"
| "merge_row ia (r # rs) = Some (fold (add_row ia) rs (detailFromRecord ia r))"

definition first_keys :: "ImageRecord list \<Rightarrow> string list" where
  "first_keys rs = rev (remdups (rev (map list_key rs)))"

lemma first_keys_snoc:
  "first_keys (rs @ [r]) = (if list_key r \<in> list_key ` set rs then first_keys rs else first_keys rs @ [list_key r])"
  by (simp add: first_keys_def)

lemma merge_row_snoc: "merge_row ia (rs @ [r]) = (case merge_row ia rs of
    None \<Rightarrow> Some (detailFromRecord ia r) | Some d \<Rightarrow> Some (add_row ia r d))"
  by (cases rs) auto

lemma merge_row_None: "merge_row ia rs = None \<longleftrightarrow> rs = []"
  by (cases rs) auto

lemma group_details_spec:
  assumes "\<forall>k. get g k = merge_row ia (filter (\<lambda>r. list_key r = k) seen)" and "o1 = first_keys seen"
    and "group_details ia rs g o1 = (g', o2)"
  shows "(\<forall>k. get g' k = merge_row ia (filter (\<lambda>r. list_key r = k) (seen @ rs))) \<and> o2 = first_keys (seen @ rs)"
  using assms
proof (induction rs arbitrary: g o1 seen)
  case (Cons r rs)
  let ?k = "list_key r"
  have none: "get g ?k = None \<longleftrightarrow> ?k \<notin> list_key ` set seen"
    using Cons.prems(1) by (auto simp: merge_row_None filter_empty_conv image_iff)
  show ?case
  proof (cases "get g ?k")
    case None
    have m: "\<forall>k. get (put ?k (detailFromRecord ia r) g) k = merge_row ia (filter (\<lambda>r. list_key r = k) (seen @ [r]))"
      using Cons.prems(1) None by (auto simp: update_conv merge_row_snoc)
    have o: "o1 @ [?k] = first_keys (seen @ [r])" using Cons.prems(2) None none by (simp add: first_keys_snoc)
    have "group_details ia rs (put ?k (detailFromRecord ia r) g) (o1 @ [?k]) = (g', o2)"
      using Cons.prems(3) None by (simp add: Let_def)
    from Cons.IH [OF m o this] show ?thesis by simp
  next
    case (Some d)
    have m: "\<forall>k. get (put ?k (add_row ia r d) g) k = merge_row ia (filter (\<lambda>r. list_key r = k) (seen @ [r]))"
      using Cons.prems(1) Some by (auto simp: update_conv merge_row_snoc)
    have o: "o1 = first_keys (seen @ [r])" using Cons.prems(2) Some none by (simp add: first_keys_snoc)
    have "group_details ia rs (put ?k (add_row ia r d) g) o1 = (g', o2)"
      using Cons.prems(3) Some by (simp add: Let_def add_row_def detailFromRecord_def)
    from Cons.IH [OF m o this] show ?thesis by simp
  qed
qed simp

lemma appendUnique_set: "set (appendUnique vs ws) = set vs \<union> (set ws - {[]})"
  by (induction vs ws rule: appendUnique.induct) auto

lemma fold_add_row:
  "bd_ID (fold (add_row ia) rs d) = bd_ID d
   \<and> set (bd_RepoTags (fold (add_row ia) rs d)) - {[]} = (set (bd_RepoTags d) \<union> (\<Union>r\<in>set rs. set (ir_RepoTags r))) - {[]}"
  by (induction rs arbitrary: d) (auto simp: add_row_def appendUnique_set)

lemma merge_row_fields:
  assumes "merge_row ia rs = Some d"
  shows "bd_ID d = record_id (hd rs)" and "set (bd_RepoTags d) - {[]} = (\<Union>r\<in>set rs. set (ir_RepoTags r)) - {[]}"
  using assms fold_add_row [of ia "tl rs" "detailFromRecord ia (hd rs)"]
  by (cases rs; auto simp: detailFromRecord_def)+

lemma ia_List_rows:
  assumes "ia_store ia = Some env" and "store_List env w = Inr rs"
  shows "ia_List ia w = Inr (map (\<lambda>k. the (merge_row ia (filter (\<lambda>r. list_key r = k) rs))) (first_keys rs))"
proof -
  obtain g ks where g: "group_details ia rs [] [] = (g, ks)" by (metis surj_pair)
  have "\<forall>k. get [] k = merge_row ia (filter (\<lambda>r. list_key r = k) [])" by simp
  from group_details_spec [OF this _ g] show ?thesis using assms g by (simp add: ia_List_def first_keys_def)
qed

text \<open>
  The image list has one row per image: the rows' IDs are the IDs of the stored records, each
  once, and a row has exactly the tags of the records that share its ID.
\<close>

theorem image_list_grouped:
  assumes "ia_store ia = Some env" and "store_List env w = Inr rs" and "\<forall>r\<in>set rs. record_id r \<noteq> []"
  shows "\<exists>rows. ia_List ia w = Inr rows \<and> distinct (map bd_ID rows) \<and> set (map bd_ID rows) = record_id ` set rs
    \<and> (\<forall>row\<in>set rows. set (bd_RepoTags row) - {[]}
        = (\<Union>r\<in>{r \<in> set rs. record_id r = bd_ID row}. set (ir_RepoTags r)) - {[]})"
proof (intro exI conjI)
  let ?row = "\<lambda>k. the (merge_row ia (filter (\<lambda>r. list_key r = k) rs))"
  let ?rows = "map ?row (first_keys rs)"
  have key: "list_key r = record_id r" if "r \<in> set rs" for r using assms(3) that by (simp add: list_key_def)
  have keys: "set (first_keys rs) = record_id ` set rs" using key by (auto simp: first_keys_def)
  have row: "bd_ID (?row k) = k \<and> set (bd_RepoTags (?row k)) - {[]}
      = (\<Union>r\<in>{r \<in> set rs. record_id r = k}. set (ir_RepoTags r)) - {[]}" if k: "k \<in> set (first_keys rs)" for k
  proof -
    let ?fs = "filter (\<lambda>r. list_key r = k) rs"
    have fs: "?fs \<noteq> []" using k keys key by (auto simp: filter_empty_conv)
    then obtain d where d: "merge_row ia ?fs = Some d" using merge_row_None [of ia ?fs] by auto
    have "hd ?fs \<in> set ?fs" using fs by (rule hd_in_set)
    then have "record_id (hd ?fs) = k" using key by auto
    moreover have "set ?fs = {r \<in> set rs. record_id r = k}" using key by auto
    ultimately show ?thesis using d merge_row_fields [OF d] by simp
  qed
  show "ia_List ia w = Inr ?rows" by (rule ia_List_rows [OF assms(1,2)])
  have ids: "map bd_ID ?rows = first_keys rs" using row by (simp add: map_idI)
  show "distinct (map bd_ID ?rows)" unfolding ids by (simp add: first_keys_def)
  show "set (map bd_ID ?rows) = record_id ` set rs" unfolding ids by (rule keys)
  show "\<forall>r\<in>set ?rows. set (bd_RepoTags r) - {[]} = (\<Union>x\<in>{x \<in> set rs. record_id x = bd_ID r}. set (ir_RepoTags x)) - {[]}"
    using row by auto
qed


section \<open>Removal by ID\<close>

text \<open>
  What the code relies on of containerd's image service: it lists the images of the namespace, and
  deleting a listed name removes exactly that image, another name is refused as not found.
\<close>

definition image_service :: "'w store_env \<Rightarrow> ('w \<Rightarrow> ctd_image list) \<Rightarrow> bool" where
  "image_service env imgs \<longleftrightarrow> (\<forall>w. sv_ListImages env w = Inr (imgs w))
     \<and> (\<forall>n w. n \<in> cti_Name ` set (imgs w) \<longrightarrow> snd (sv_Delete env n w) = None
          \<and> imgs (fst (sv_Delete env n w)) = filter (\<lambda>i. cti_Name i \<noteq> n) (imgs w))
     \<and> (\<forall>n w. n \<notin> cti_Name ` set (imgs w) \<longrightarrow> (\<exists>e. snd (sv_Delete env n w) = Some e \<and> sv_IsNotFound env e)
          \<and> imgs (fst (sv_Delete env n w)) = imgs w)"

text \<open>The stored names are distinct canonical references, and the images can be read.\<close>

definition canonical_images :: "reference_env \<Rightarrow> ctd_image list \<Rightarrow> bool" where
  "canonical_images rf is \<longleftrightarrow> distinct (map cti_Name is)
     \<and> (\<forall>i\<in>set is. is_ok (recordFromImage i) \<and> NormalizeReference rf (cti_Name i) = Inr (cti_Name i))"

definition image_matches :: "string \<Rightarrow> ctd_image \<Rightarrow> bool" where
  "image_matches i img = (case recordFromImage img of Inl _ \<Rightarrow> False | Inr r \<Rightarrow> recordMatchesID r i)"

fun remove_times :: "'w image_adapter \<Rightarrow> string \<Rightarrow> nat \<Rightarrow> 'w \<Rightarrow> 'w \<times> gerror option list" where
  "remove_times ia i 0 w = (w, [])"
| "remove_times ia i (Suc n) w = (case ia_Remove ia i w of (w1, r) \<Rightarrow>
     (case remove_times ia i n w1 of (w2, rs) \<Rightarrow> (w2, r # rs)))"

lemma add_sibling_id: "recordMatchesID (add_sibling rf t n r) i = recordMatchesID r i \<and> ir_Name (add_sibling rf t n r) = ir_Name r"
  by (simp add: add_sibling_def recordMatchesID_def Let_def split: option.split prod.split)

lemma fold_add_sibling_id:
  "recordMatchesID (fold (\<lambda>s. add_sibling rf t (ir_Name s)) ss r) i = recordMatchesID r i
   \<and> ir_Name (fold (\<lambda>s. add_sibling rf t (ir_Name s)) ss r) = ir_Name r"
  by (induction ss arbitrary: r) (simp_all add: add_sibling_id)

lemma attach_matching:
  "map ir_Name (filter (\<lambda>r. recordMatchesID r i) (attachSiblingReferences rf rs))
    = map ir_Name (filter (\<lambda>r. recordMatchesID r i) rs)"
proof -
  define f where "f r = (let target = ir_TargetDigest r in if target = [] \<or> \<not> rf_ParseDigest rf target then r
     else fold (\<lambda>s. add_sibling rf target (ir_Name s)) (filter (\<lambda>s. ir_TargetDigest s = target) rs) r)" for r
  have "ir_Name (f r) = ir_Name r" "recordMatchesID (f r) i = recordMatchesID r i" for r
    by (simp_all add: f_def Let_def fold_add_sibling_id)
  moreover have "attachSiblingReferences rf rs = map f rs" by (simp add: attachSiblingReferences_def f_def)
  ultimately show ?thesis by (simp add: filter_map comp_def)
qed

lemma records_matching:
  "mapM recordFromImage is = Inr rs \<Longrightarrow>
    map ir_Name (filter (\<lambda>r. recordMatchesID r i) rs) = map cti_Name (filter (image_matches i) is)"
proof (induction "is" arbitrary: rs)
  case (Cons img imgs)
  then obtain r rs' where r: "recordFromImage img = Inr r" "mapM recordFromImage imgs = Inr rs'" "rs = r # rs'"
    by (auto simp: rbind_eq_Inr)
  then have "ir_Name r = cti_Name img" by (auto simp: recordFromImage_def split: sum.splits)
  then show ?case using Cons r by (simp add: image_matches_def)
qed simp


lemma mapM_total: "\<forall>x\<in>set xs. is_ok (f x) \<Longrightarrow> \<exists>ys. mapM f xs = Inr ys"
proof (induction xs)
  case (Cons x xs)
  then obtain y ys where "f x = Inr y" "mapM f xs = Inr ys" by (auto simp: is_ok_iff)
  then show ?case by simp
qed simp

lemma store_List_matching:
  assumes "image_service env imgs" and "canonical_images (sv_ref env) (imgs w)"
  obtains rs where "store_List env w = Inr rs"
    and "map ir_Name (filter (\<lambda>r. recordMatchesID r i) rs) = map cti_Name (filter (image_matches i) (imgs w))"
proof -
  have "\<forall>x\<in>set (imgs w). is_ok (recordFromImage x)" using assms(2) by (simp add: canonical_images_def)
  then obtain rs where rs: "mapM recordFromImage (imgs w) = Inr rs"
    using mapM_total by blast
  have "store_List env w = Inr (attachSiblingReferences (sv_ref env) rs)"
    using assms(1) rs by (simp add: store_List_def store_records_def image_service_def)
  then show thesis using that attach_matching records_matching [OF rs] by metis
qed

lemma removeByID_one:
  assumes srv: "image_service env imgs" and can: "canonical_images (sv_ref env) (imgs w)"
  shows "filter (image_matches i) (imgs w) = [] \<Longrightarrow>
      removeByID env i w = (w, Some (wrap_post (Sentinel (Buildkit BErrNotFound)) ('': '' @ i)))"
    and "filter (image_matches i) (imgs w) \<noteq> [] \<Longrightarrow> \<exists>w' m. removeByID env i w = (w', None)
      \<and> m \<in> set (imgs w) \<and> image_matches i m \<and> imgs w' = filter (\<lambda>x. cti_Name x \<noteq> cti_Name m) (imgs w)"
proof -
  obtain rs where rs: "store_List env w = Inr rs"
      "map ir_Name (filter (\<lambda>r. recordMatchesID r i) rs) = map cti_Name (filter (image_matches i) (imgs w))"
    by (rule store_List_matching [OF srv can])
  let ?ms = "sort_key ir_Name (filter (\<lambda>r. recordMatchesID r i) rs)"
  { assume "filter (image_matches i) (imgs w) = []"
    then have "?ms = []" using rs(2) by simp
    then show "removeByID env i w = (w, Some (wrap_post (Sentinel (Buildkit BErrNotFound)) ('': '' @ i)))"
      using rs(1) by (simp add: removeByID_def) }
  assume ne: "filter (image_matches i) (imgs w) \<noteq> []"
  then have "?ms \<noteq> []" using rs(2) by (metis length_0_conv length_map length_sort)
  then obtain m ms where ms: "?ms = m # ms" by (cases ?ms) auto
  then have "ir_Name m \<in> set (map ir_Name ?ms)" by simp
  then have "ir_Name m \<in> cti_Name ` set (filter (image_matches i) (imgs w))"
    using rs(2) by (metis list.set_map set_sort)
  then obtain x where x: "x \<in> set (imgs w)" "image_matches i x" "ir_Name m = cti_Name x" by auto
  have del: "snd (sv_Delete env (cti_Name x) w) = None"
      "imgs (fst (sv_Delete env (cti_Name x) w)) = filter (\<lambda>y. cti_Name y \<noteq> cti_Name x) (imgs w)"
    using srv x(1) by (auto simp: image_service_def)
  have "store_Delete env (cti_Name x) w = (fst (sv_Delete env (cti_Name x) w), None)"
    using can x(1) del(1) by (auto simp: store_Delete_def canonical_images_def split: prod.splits option.splits)
  then show "\<exists>w' m. removeByID env i w = (w', None)
      \<and> m \<in> set (imgs w) \<and> image_matches i m \<and> imgs w' = filter (\<lambda>x. cti_Name x \<noteq> cti_Name m) (imgs w)"
    using rs(1) ms x del(2) by (auto simp: removeByID_def)
qed

lemma delete_cases:
  assumes "image_service env imgs"
  obtains w1 where "sv_Delete env n w = (w1, None)" "n \<in> cti_Name ` set (imgs w)"
      "imgs w1 = filter (\<lambda>i. cti_Name i \<noteq> n) (imgs w)"
    | w1 e where "sv_Delete env n w = (w1, Some e)" "sv_IsNotFound env e" "n \<notin> cti_Name ` set (imgs w)" "imgs w1 = imgs w"
  using assms unfolding image_service_def by (metis prod.collapse)

lemma store_Delete_one:
  assumes srv: "image_service env imgs" and d: "store_Delete env ref w = (w', r)"
  shows "case r of Some _ \<Rightarrow> imgs w' = imgs w
    | None \<Rightarrow> \<exists>m\<in>set (imgs w). imgs w' = filter (\<lambda>x. cti_Name x \<noteq> cti_Name m) (imgs w)"
proof -
  have raw: "case r of Some _ \<Rightarrow> imgs w' = imgs v
      | None \<Rightarrow> \<exists>m\<in>set (imgs v). imgs w' = filter (\<lambda>x. cti_Name x \<noteq> cti_Name m) (imgs v)"
    if "delete_raw env n v = (w', r)" for n v
    using delete_cases [OF srv, of n v]
  proof cases
    case 1
    then show ?thesis using that by (auto simp: delete_raw_def)
  next
    case 2
    then show ?thesis using that by (auto simp: delete_raw_def)
  qed
  show ?thesis
  proof (cases "NormalizeReference (sv_ref env) ref")
    case (Inl e)
    then show ?thesis using d raw [of ref w] by (simp add: store_Delete_def)
  next
    case (Inr n)
    show ?thesis using delete_cases [OF srv, of n w]
    proof cases
      case 1
      then show ?thesis using d Inr by (auto simp: store_Delete_def)
    next
      case (2 w1 e)
      then have "delete_raw env ref w1 = (w', r)" using d Inr by (simp add: store_Delete_def)
      from raw [OF this] show ?thesis unfolding 2(4) .
    qed
  qed
qed

text \<open>One call of \<^verbatim>\<open>Remove\<close> removes one stored reference or, when it fails, none.\<close>

lemma ia_Remove_one:
  assumes "ia_store ia = Some env" and srv: "image_service env imgs" and "ia_Remove ia i w = (w', r)"
  shows "case r of Some _ \<Rightarrow> imgs w' = imgs w
    | None \<Rightarrow> \<exists>m\<in>set (imgs w). imgs w' = filter (\<lambda>x. cti_Name x \<noteq> cti_Name m) (imgs w)"
proof -
  have del: "case r of Some _ \<Rightarrow> imgs w' = imgs w
      | None \<Rightarrow> \<exists>m\<in>set (imgs w). imgs w' = filter (\<lambda>x. cti_Name x \<noteq> cti_Name m) (imgs w)"
    if "(case store_Delete env n w of (w1, Some e) \<Rightarrow> (w1, Some (f e)) | (w1, None) \<Rightarrow> (w1, None)) = (w', r)" for n f
  proof -
    obtain w1 q where "store_Delete env n w = (w1, q)" by fastforce
    then show ?thesis using store_Delete_one [OF srv, of n w w1 q] that by (cases q) auto
  qed
  show ?thesis
  proof (cases "TrimSpace i = []")
    case True
    then show ?thesis using assms(1,3) by (auto simp: ia_Remove_def)
  next
    case named: False
    show ?thesis
    proof (cases "isImageID (TrimSpace i)")
      case False
      then show ?thesis using assms(1,3) named del [where n = "TrimSpace i"] by (simp add: ia_Remove_def Let_def)
    next
      case True
      then have "removeByID env (TrimSpace i) w = (w', r)" using assms(1,3) named by (simp add: ia_Remove_def Let_def)
      then show ?thesis
        using del by (fastforce simp: removeByID_def split: sum.splits list.splits)
    qed
  qed
qed

lemma filter_remove_one:
  assumes "distinct (map f xs)" and "m \<in> set xs" and "P m"
  shows "length (filter P (filter (\<lambda>x. f x \<noteq> f m) xs)) + 1 = length (filter P xs)"
    and "filter (\<lambda>x. \<not> P x) (filter (\<lambda>x. f x \<noteq> f m) xs) = filter (\<lambda>x. \<not> P x) xs"
proof -
  have inj: "f x = f m \<longleftrightarrow> x = m" if "x \<in> set xs" for x using assms(1,2) that by (auto simp: distinct_map inj_on_def)
  have "filter P (filter (\<lambda>x. f x \<noteq> f m) xs) = remove1 m (filter P xs)"
    using assms inj
    by (auto simp: distinct_map distinct_remove1_removeAll removeAll_filter_not_eq intro: filter_cong)
  then show "length (filter P (filter (\<lambda>x. f x \<noteq> f m) xs)) + 1 = length (filter P xs)"
    using assms(2,3) length_pos_if_in_set [of m "filter P xs"] by (simp add: length_remove1)
  show "filter (\<lambda>x. \<not> P x) (filter (\<lambda>x. f x \<noteq> f m) xs) = filter (\<lambda>x. \<not> P x) xs"
    using assms(3) inj by (auto intro: filter_cong)
qed

text \<open>
  C26: removing an image by its ID or an ID prefix counts its references down. With \<open>n\<close> references
  stored, \<open>n\<close> removals succeed and leave exactly the other images; the next one finds nothing,
  reports \<^verbatim>\<open>ErrNotFound\<close> and changes nothing.
\<close>

theorem image_remove_counts_down:
  assumes "ia_store ia = Some env" and "image_service env imgs" and "canonical_images (sv_ref env) (imgs w)"
    and "TrimSpace i = i" and "isImageID i"
  shows "\<exists>w' e. remove_times ia i (length (filter (image_matches i) (imgs w))) w
        = (w', replicate (length (filter (image_matches i) (imgs w))) None)
      \<and> imgs w' = filter (\<lambda>x. \<not> image_matches i x) (imgs w)
      \<and> ia_Remove ia i w' = (w', Some e) \<and> errors_is e (Buildkit BErrNotFound)"
  using assms(3)
proof (induction "length (filter (image_matches i) (imgs w))" arbitrary: w)
  have "i \<noteq> []" using assms(5) by (auto simp: isImageID_def HasPrefix_def)
  then have rem: "ia_Remove ia i w = removeByID env i w" for w using assms by (simp add: ia_Remove_def Let_def)
  {
    case 0
    then have "filter (image_matches i) (imgs w) = []" by simp
    then show ?case using removeByID_one(1) [OF assms(2) 0(2)] rem
      by (auto simp: filter_empty_conv filter_id_conv)
  next
    case (Suc n)
    then have "filter (image_matches i) (imgs w) \<noteq> []" by auto
    then obtain w1 m where m: "removeByID env i w = (w1, None)" "m \<in> set (imgs w)" "image_matches i m"
        "imgs w1 = filter (\<lambda>x. cti_Name x \<noteq> cti_Name m) (imgs w)"
      using removeByID_one(2) [OF assms(2) Suc(3)] by blast
    have d: "distinct (map cti_Name (imgs w))" using Suc(3) by (simp add: canonical_images_def)
    have n: "n = length (filter (image_matches i) (imgs w1))"
      using filter_remove_one(1) [OF d m(2), of "image_matches i"] m(3,4) Suc(2) by simp
    have "canonical_images (sv_ref env) (imgs w1)"
      using Suc(3) m(4) by (auto simp: canonical_images_def distinct_map_filter)
    from Suc(1) [OF n this] show ?case
      using n Suc(2) m filter_remove_one(2) [OF d m(2), of "image_matches i"] rem by (auto simp flip: Suc(2))
  }
qed


text \<open>A proper prefix of a digest written with its algorithm matches no record.\<close>

lemma sha256_prefix_unmatched:
  assumes "ir_ConfigDigest r = ''sha256:'' @ c" and "ir_TargetDigest r = ''sha256:'' @ t"
    and "CHR '':'' \<notin> set c" and "CHR '':'' \<notin> set t" and "p \<noteq> c" and "p \<noteq> t"
  shows "\<not> recordMatchesID r (''sha256:'' @ p)"
proof -
  have "\<not> HasPrefix v (''sha256:'' @ p)" if "CHR '':'' \<notin> set v" for v
    using that by (auto simp: HasPrefix_def prefix_def)
  moreover have "TrimPrefix (''sha256:'' @ v) ''sha256:'' = v" for v by (rule TrimPrefix_append)
  ultimately show ?thesis using assms by (simp add: recordMatchesID_def Let_def)
qed

text \<open>A store with an image under two tags and another image.\<close>

definition sample_reference :: reference_env where
  "sample_reference = \<lparr>rf_Normalized = (\<lambda>s. if s = ''bad'' then Inl (NewErr ''invalid reference format'') else Inr s),
     rf_Familiar = (\<lambda>s. Some (s, False)), rf_WithDigest = (\<lambda>s d. Some (s @ ''@'' @ d)), rf_ParseDigest = (\<lambda>d. True)\<rparr>"

definition sample_ctd_image :: "string \<Rightarrow> string \<Rightarrow> ctd_image" where
  "sample_ctd_image name i = \<lparr>cti_Name = name, cti_Target = ''sha256:ee'' @ i, cti_CreatedAt = zero_time, cti_Labels = [],
     cti_Config = Inr (''sha256:'' @ i), cti_Spec = Inr (None, \<lparr>pf_OS = ''linux'', pf_Architecture = ''amd64'', pf_Variant = []\<rparr>),
     cti_Size = Inr 5\<rparr>"

definition sample_store_env :: "ctd_image list store_env" where
  "sample_store_env = \<lparr>sv_ref = sample_reference, sv_url_Host = (\<lambda>s. None), sv_snapshotter = [], sv_platform = [],
     sv_IsNotFound = (\<lambda>e. e = NewErr ''not found''),
     sv_Pull = (\<lambda>n r s p w. (w, Inl (NewErr ''offline''))),
     sv_GetImage = (\<lambda>n w. case find (\<lambda>i. cti_Name i = n) w of Some i \<Rightarrow> Inr i | None \<Rightarrow> Inl (NewErr ''not found'')),
     sv_ListImages = (\<lambda>w. Inr w),
     sv_Delete = (\<lambda>n w. if n \<in> cti_Name ` set w then (filter (\<lambda>i. cti_Name i \<noteq> n) w, None) else (w, Some (NewErr ''not found'')))\<rparr>"

definition sample_images :: "ctd_image list" where
  "sample_images = [sample_ctd_image ''app:2'' ''aaaaaaaaaaaa01'', sample_ctd_image ''app:1'' ''aaaaaaaaaaaa01'',
     sample_ctd_image ''db:1'' ''bbbbbbbbbbbb02'']"

definition sample_adapter :: "ctd_image list image_adapter" where
  "sample_adapter = \<lparr>ia_store = Some sample_store_env, ia_Format = (\<lambda>p. pf_OS p @ ''/'' @ pf_Architecture p)\<rparr>"

lemma sample_image_service: "image_service sample_store_env id"
  by (auto simp: image_service_def sample_store_env_def)

lemma sample_canonical: "canonical_images (sv_ref sample_store_env) (id sample_images)"
  by code_simp

theorem image_remove_counts_down_witness:
  "\<exists>w' e. remove_times sample_adapter ''aaaaaaaaaaaa'' 2 sample_images = (w', [None, None])
      \<and> map cti_Name w' = [''db:1''] \<and> ia_Remove sample_adapter ''aaaaaaaaaaaa'' w' = (w', Some e)
      \<and> errors_is e (Buildkit BErrNotFound)"
proof -
  have "ia_store sample_adapter = Some sample_store_env" by (simp add: sample_adapter_def)
  moreover have "TrimSpace ''aaaaaaaaaaaa'' = ''aaaaaaaaaaaa''" "isImageID ''aaaaaaaaaaaa''" by code_simp+
  moreover have "length (filter (image_matches ''aaaaaaaaaaaa'') (id sample_images)) = 2"
    "map cti_Name (filter (\<lambda>x. \<not> image_matches ''aaaaaaaaaaaa'' x) (id sample_images)) = [''db:1'']" by code_simp+
  ultimately show ?thesis
    using image_remove_counts_down [OF _ sample_image_service sample_canonical, of sample_adapter "''aaaaaaaaaaaa''"]
    by (auto simp: numeral_2_eq_2)
qed

theorem image_list_grouped_witness:
  "\<exists>rows. ia_List sample_adapter sample_images = Inr rows \<and> distinct (map bd_ID rows)
     \<and> set (map bd_ID rows) = {''sha256:aaaaaaaaaaaa01'', ''sha256:bbbbbbbbbbbb02''}"
proof -
  have st: "ia_store sample_adapter = Some sample_store_env" by (simp add: sample_adapter_def)
  obtain rs where rs: "store_List sample_store_env sample_images = Inr rs"
    using store_List_matching [OF sample_image_service sample_canonical] by auto
  have "(case store_List sample_store_env sample_images of Inl _ \<Rightarrow> False
     | Inr rs \<Rightarrow> map record_id rs = [''sha256:aaaaaaaaaaaa01'', ''sha256:aaaaaaaaaaaa01'', ''sha256:bbbbbbbbbbbb02''])"
    by code_simp
  then have ids: "map record_id rs = [''sha256:aaaaaaaaaaaa01'', ''sha256:aaaaaaaaaaaa01'', ''sha256:bbbbbbbbbbbb02'']"
    by (simp only: rs sum.case)
  have img: "record_id ` set rs = {''sha256:aaaaaaaaaaaa01'', ''sha256:bbbbbbbbbbbb02''}"
    unfolding list.set_map [symmetric] ids by simp
  have "\<forall>i\<in>record_id ` set rs. i \<noteq> []" unfolding img by simp
  then have "\<forall>r\<in>set rs. record_id r \<noteq> []" by blast
  from image_list_grouped [OF st rs this] obtain rows where "ia_List sample_adapter sample_images = Inr rows"
      "distinct (map bd_ID rows)" "set (map bd_ID rows) = record_id ` set rs"
    by (elim exE conjE)
  then show ?thesis using img by (intro exI [of _ rows] conjI) (simp_all only:)
qed

end
