(* ===== verification/Bk_Build.thy ===== *)
theory Bk_Build
  imports Bk_Context Bk_Progress Bk_Store
begin

text \<open>
  \<^verbatim>\<open>internal/adapters/buildkit/build.go\<close>, the build itself, and the solver of
  \<^verbatim>\<open>client.go\<close>: the archive is materialized, the solver runs while its status batches are
  translated, and the result or the failure ends the progress stream. The file system and BuildKit's
  own solve are parameters; a solve answers the batches it sent before it closed the channel, which
  the translator has drained when \<^verbatim>\<open>Wait\<close> returns, and its result.
\<close>

section \<open>The BuildKit solver\<close>

record SolveOptions =
  so_ContextDir :: string
  so_Dockerfile :: string
  so_Tag :: string
  so_Platform :: string
  so_BuildArgs :: "(string, string) gomap"
  so_Target :: string
  so_NoCache :: bool
  so_Auth :: "RegistryAuth option"

record SolveResult =
  sr_ImageID :: string
  sr_ImageName :: string
  sr_Digest :: string
  sr_ExporterResponse :: "(string, string) gomap"

text \<open>The request handed to the BuildKit client.\<close>

record solve_opt =
  sp_Frontend :: string
  sp_FrontendAttrs :: "(string, string) gomap"
  sp_LocalMounts :: "(string, string) gomap"
  sp_Exports :: "(string \<times> (string, string) gomap) list"
  sp_Session :: "RegistryAuth list"

text \<open>
  The BuildKit client: opening the context, the solve, and the names of its exporter and of the keys
  of its exporter response.
\<close>

record 'w solver_client =
  sc_NewFS :: "string \<Rightarrow> 'w \<Rightarrow> gerror option"
  sc_Solve :: "solve_opt \<Rightarrow> 'w \<Rightarrow> 'w \<times> solve_status option list \<times> (gerror + (string, string) gomap option)"
  sc_ExporterImage :: string
  sc_ImageConfigDigestKey :: string
  sc_ConfigDigestKey :: string
  sc_ImageNameKey :: string
  sc_ImageDigestKey :: string

definition frontend_attrs :: "SolveOptions \<Rightarrow> (string, string) gomap" where
  "frontend_attrs opts =
    (let attrs = [(''filename'', if so_Dockerfile opts = [] then ''Dockerfile'' else so_Dockerfile opts)];
         attrs = (if so_Platform opts \<noteq> [] then put ''platform'' (so_Platform opts) attrs else attrs);
         attrs = (if so_Target opts \<noteq> [] then put ''target'' (so_Target opts) attrs else attrs);
         attrs = (if so_NoCache opts then put ''no-cache'' ''true'' attrs else attrs)
     in fold (\<lambda>(k, v). put (''build-arg:'' @ k) v) (so_BuildArgs opts) attrs)"

definition solve_request :: "'w solver_client \<Rightarrow> SolveOptions \<Rightarrow> solve_opt" where
  "solve_request sc opts = \<lparr>sp_Frontend = ''dockerfile.v0'', sp_FrontendAttrs = frontend_attrs opts,
     sp_LocalMounts = [(''context'', so_ContextDir opts), (''dockerfile'', so_ContextDir opts)],
     sp_Exports = (if so_Tag opts \<noteq> [] then [(sc_ExporterImage sc, [(''name'', so_Tag opts), (''push'', ''false'')])] else []),
     sp_Session = (case so_Auth opts of Some a \<Rightarrow> [a] | None \<Rightarrow> [])\<rparr>"

definition exporter_result :: "'w solver_client \<Rightarrow> (string, string) gomap option \<Rightarrow> SolveResult" where
  "exporter_result sc response = (case response of
     None \<Rightarrow> \<lparr>sr_ImageID = [], sr_ImageName = [], sr_Digest = [], sr_ExporterResponse = []\<rparr>
   | Some exporter \<Rightarrow>
      let i = get_or [] exporter (sc_ImageConfigDigestKey sc);
          i = (if i = [] then get_or [] exporter (sc_ConfigDigestKey sc) else i)
      in \<lparr>sr_ImageID = i, sr_ImageName = get_or [] exporter (sc_ImageNameKey sc),
          sr_Digest = get_or [] exporter (sc_ImageDigestKey sc), sr_ExporterResponse = exporter\<rparr>)"

text \<open>
  A solver answers the batches it sent, whether it closed the status channel, and its result. The
  client's own \<^verbatim>\<open>Solve\<close> closes the channel; the return before it does not.
\<close>

type_synonym 'w solver =
  "SolveOptions \<Rightarrow> 'w \<Rightarrow> 'w \<times> solve_status option list \<times> bool \<times> (gerror + SolveResult)"

definition BuildkitSolver_Solve :: "'w solver_client \<Rightarrow> 'w solver" where
  "BuildkitSolver_Solve sc opts w = (case sc_NewFS sc (so_ContextDir opts) w of
     Some e \<Rightarrow> (w, [], False, Inl (wrap_pre (''open build context '' @ so_ContextDir opts @ '': '') e))
   | None \<Rightarrow> (case sc_Solve sc (solve_request sc opts) w of
       (w1, ss, Inl e) \<Rightarrow> (w1, ss, True, Inl e)
     | (w1, ss, Inr response) \<Rightarrow> (w1, ss, True, Inr (exporter_result sc response))))"

section \<open>The build\<close>

record BuildRequest =
  bq_Context :: "string option"
  bq_Tag :: string
  bq_Dockerfile :: string
  bq_Platform :: string
  bq_BuildArgs :: "(string, string) gomap"
  bq_Target :: string
  bq_NoCache :: bool
  bq_Auth :: "RegistryAuth option"

record 'w build_env =
  be_ctx :: "'w context_env"
  be_progress :: progress_env
  be_ref :: reference_env
  be_tempRoot :: string
  be_solver :: "'w solver option"

definition BuildError_StatusCode :: "gerror \<Rightarrow> int" where
  "BuildError_StatusCode e = (case e of BuildError st m c \<Rightarrow> if st < 400 then 500 else st | _ \<Rightarrow> 500)"

definition errors_Join :: "gerror \<Rightarrow> gerror \<Rightarrow> gerror" where
  "errors_Join a b = Wrapf (err_msg a @ [CHR 0x0A] @ err_msg b) [a, b]"

definition failBuild :: "ProgressWriter \<Rightarrow> int \<Rightarrow> string \<Rightarrow> gerror \<Rightarrow> ProgressWriter \<times> gerror" where
  "failBuild p status m cause = (case pw_ErrorDetail errorDetailCode m p of
     (p1, Some e) \<Rightarrow> (p1, BuildError status m (errors_Join cause e))
   | (p1, None) \<Rightarrow> (p1, BuildError status m cause))"

definition prepareBuildContext ::
  "'w build_env \<Rightarrow> ProgressWriter \<Rightarrow> BuildRequest \<Rightarrow> 'w \<Rightarrow> 'w \<times> ProgressWriter \<times> (gerror + string)" where
  "prepareBuildContext env p req w =
    (if be_solver env = None then (case failBuild p 501 ''build is not available: BuildKit solver is not configured''
          (Sentinel (Buildkit ErrNoSolver)) of (p1, e) \<Rightarrow> (w, p1, Inl e))
     else case bq_Context req of
       None \<Rightarrow> (case failBuild p 400 ''build context is required'' (Sentinel (Buildkit ErrInvalidContext)) of
           (p1, e) \<Rightarrow> (w, p1, Inl e))
     | Some reader \<Rightarrow> (case materializeContext (be_ctx env) (be_tempRoot env) reader (bq_Dockerfile req) w of
         (w1, Inl e) \<Rightarrow> (case failBuild p 400 (err_msg e) e of (p1, be) \<Rightarrow> (w1, p1, Inl be))
       | (w1, Inr dir) \<Rightarrow> (w1, p, Inr dir)))"

definition resolveBuildTag :: "'w build_env \<Rightarrow> ProgressWriter \<Rightarrow> string \<Rightarrow> ProgressWriter \<times> (gerror + string)" where
  "resolveBuildTag env p reference =
    (if TrimSpace reference = [] then (p, Inr [])
     else case NormalizeReference (be_ref env) reference of
       Inl e \<Rightarrow> (case failBuild p 400 (err_msg e) e of (p1, be) \<Rightarrow> (p1, Inl be))
     | Inr tag \<Rightarrow> (p, Inr tag))"

definition solveFailed :: "buildProgress \<Rightarrow> gerror \<Rightarrow> ProgressWriter \<times> gerror" where
  "solveFailed translate e = (let m = err_msg e; p = bp_writer translate in
     (if \<not> bp_sawError translate then fst (pw_ErrorDetail errorDetailCode m p) else p, BuildError 500 m e))"

definition emitBuildResult :: "progress_env \<Rightarrow> ProgressWriter \<Rightarrow> string \<Rightarrow> SolveResult \<Rightarrow> ProgressWriter \<times> gerror option" where
  "emitBuildResult pe p tag result =
    (let imageID = (if sr_ImageID result = [] then sr_Digest result else sr_ImageID result) in
     case pw_Aux imageID p of
       (p1, Some e) \<Rightarrow> (p1, Some (BuildError 500 (err_msg e) e))
     | (p1, None) \<Rightarrow>
        let p2 = (if imageID \<noteq> [] then fst (pw_Stream (''Successfully built '' @ shorthandDigest pe imageID @ [CHR 0x0A]) p1) else p1);
            p3 = (if tag \<noteq> [] then fst (pw_Stream (''Successfully tagged '' @ tag @ [CHR 0x0A]) p2) else p2)
        in (p3, None))"

text \<open>
  The translator runs until the channel is closed, and \<^verbatim>\<open>Wait\<close> until the translator ends: with a
  solver that returns without closing it the call never returns, the value \<open>None\<close>.
\<close>

definition solveBuild ::
  "'w build_env \<Rightarrow> 'w solver \<Rightarrow> ProgressWriter \<Rightarrow> SolveOptions \<Rightarrow> string \<Rightarrow> 'w \<Rightarrow> ('w \<times> ProgressWriter \<times> gerror option) option" where
  "solveBuild env solver p opts tag w = (case solver opts w of (w1, ss, closed, res) \<Rightarrow>
     if \<not> closed then None
     else (case translate_all (be_progress env) ss (newBuildProgress p, None) of (translate, translateErr) \<Rightarrow>
       (case (res, translateErr) of
          (Inl e, _) \<Rightarrow> (case solveFailed translate e of (p1, be) \<Rightarrow> Some (w1, p1, Some be))
        | (Inr _, Some e) \<Rightarrow> (case solveFailed translate e of (p1, be) \<Rightarrow> Some (w1, p1, Some be))
        | (Inr result, None) \<Rightarrow> (case emitBuildResult (be_progress env) (bp_writer translate) tag result of
            (p1, r) \<Rightarrow> Some (w1, p1, r)))))"

definition Build :: "'w build_env \<Rightarrow> BuildRequest \<Rightarrow> (dockerMessage list \<Rightarrow> dockerMessage \<Rightarrow> gerror option) \<Rightarrow> 'w
    \<Rightarrow> ('w \<times> ProgressWriter \<times> gerror option) option" where
  "Build env req out w = (case prepareBuildContext env (NewProgressWriter out) req w of
     (w1, p1, Inl e) \<Rightarrow> Some (w1, p1, Some e)
   | (w1, p1, Inr dir) \<Rightarrow>
      (case resolveBuildTag env p1 (bq_Tag req) of
         (p2, Inl e) \<Rightarrow> Some (cleanupContext (be_ctx env) dir w1, p2, Some e)
       | (p2, Inr tag) \<Rightarrow>
          map_option (\<lambda>(w2, p3, r). (cleanupContext (be_ctx env) dir w2, p3, r))
            (solveBuild env (the (be_solver env)) p2
              \<lparr>so_ContextDir = dir, so_Dockerfile = dockerfileName (bq_Dockerfile req), so_Tag = tag,
               so_Platform = bq_Platform req, so_BuildArgs = bq_BuildArgs req, so_Target = bq_Target req,
               so_NoCache = bq_NoCache req, so_Auth = bq_Auth req\<rparr> tag w1)))"

text \<open>The image port's \<^verbatim>\<open>Build\<close>.\<close>

definition port_Build :: "'w build_env \<Rightarrow> build_request \<Rightarrow> (dockerMessage list \<Rightarrow> dockerMessage \<Rightarrow> gerror option) \<Rightarrow> 'w
    \<Rightarrow> ('w \<times> ProgressWriter \<times> gerror option) option" where
  "port_Build env req out w = Build env \<lparr>bq_Context = br_Context req, bq_Tag = br_Tag req,
     bq_Dockerfile = br_Dockerfile req, bq_Platform = br_Platform req, bq_BuildArgs = br_BuildArgs req,
     bq_Target = br_Target req, bq_NoCache = br_NoCache req, bq_Auth = registryAuth (br_Auth req)\<rparr> out w"


section \<open>The outcome of a build\<close>

text \<open>
  The daemon builds with the BuildKit solver or with none. A request is ready when its archive is
  materialized and its tag, if it has one, is a reference; the image a solve made is the first
  digest of its exporter response that is set.
\<close>

definition builds_with :: "'w build_env \<Rightarrow> 'w solver_client \<Rightarrow> bool" where
  "builds_with env sc \<longleftrightarrow> be_solver env = None \<or> be_solver env = Some (BuildkitSolver_Solve sc)"

definition requested_tag :: "'w build_env \<Rightarrow> BuildRequest \<Rightarrow> string option" where
  "requested_tag env req =
    (if TrimSpace (bq_Tag req) = [] then Some []
     else case NormalizeReference (be_ref env) (bq_Tag req) of Inl e \<Rightarrow> None | Inr tag \<Rightarrow> Some tag)"

definition build_ready :: "'w build_env \<Rightarrow> BuildRequest \<Rightarrow> 'w \<Rightarrow> ('w \<times> string \<times> string) option" where
  "build_ready env req w = (case (be_solver env, bq_Context req) of
     (Some _, Some reader) \<Rightarrow> (case materializeContext (be_ctx env) (be_tempRoot env) reader (bq_Dockerfile req) w of
         (w1, Inr dir) \<Rightarrow> map_option (\<lambda>tag. (w1, dir, tag)) (requested_tag env req)
       | (w1, Inl e) \<Rightarrow> None)
   | _ \<Rightarrow> None)"

definition requested_solve :: "'w solver_client \<Rightarrow> BuildRequest \<Rightarrow> string \<Rightarrow> string \<Rightarrow> solve_opt" where
  "requested_solve sc req dir tag = solve_request sc
     \<lparr>so_ContextDir = dir, so_Dockerfile = dockerfileName (bq_Dockerfile req), so_Tag = tag,
      so_Platform = bq_Platform req, so_BuildArgs = bq_BuildArgs req, so_Target = bq_Target req,
      so_NoCache = bq_NoCache req, so_Auth = bq_Auth req\<rparr>"

definition built_image :: "'w solver_client \<Rightarrow> (string, string) gomap option \<Rightarrow> string" where
  "built_image sc response = (case response of None \<Rightarrow> []
     | Some exporter \<Rightarrow> (case filter (\<lambda>i. i \<noteq> []) (map (get_or [] exporter)
           [sc_ImageConfigDigestKey sc, sc_ConfigDigestKey sc, sc_ImageDigestKey sc]) of [] \<Rightarrow> [] | i # _ \<Rightarrow> i))"

definition has_error :: "ProgressWriter \<Rightarrow> bool" where
  "has_error p \<longleftrightarrow> list_ex (\<lambda>m. dm_ErrorDetail m \<noteq> None) (pw_lines p)"

text \<open>The lines that end the stream of a successful build.\<close>

definition success_lines :: "progress_env \<Rightarrow> string \<Rightarrow> string \<Rightarrow> dockerMessage list" where
  "success_lines pe i tag =
     (if i = [] then [] else [emptyMessage\<lparr>dm_Aux := Some i\<rparr>,
        emptyMessage\<lparr>dm_Stream := ''Successfully built '' @ shorthandDigest pe i @ [CHR 0x0A]\<rparr>])
     @ (if tag = [] then [] else [emptyMessage\<lparr>dm_Stream := ''Successfully tagged '' @ tag @ [CHR 0x0A]\<rparr>])"

text \<open>A failure the client sees: an error with a status, and its message on the stream.\<close>

definition reported_failure :: "int set \<Rightarrow> ProgressWriter \<Rightarrow> gerror \<Rightarrow> bool" where
  "reported_failure sts p e \<longleftrightarrow> (\<exists>st m c. e = BuildError st m c \<and> st \<in> sts) \<and> has_error p"

abbreviation good_writer :: "ProgressWriter \<Rightarrow> bool" where
  "good_writer p \<equiv> pw_enc p = (\<lambda>_ _. None)"

lemma failBuild_reported:
  "good_writer p \<Longrightarrow> \<exists>p1 e. failBuild p st m c = (p1, e) \<and> reported_failure {st} p1 e"
  by (simp add: failBuild_def pw_ErrorDetail_def pw_write_ok reported_failure_def has_error_def)

lemma failBuild_failure: "good_writer p \<Longrightarrow> failBuild p st m c = (p1, e) \<Longrightarrow> reported_failure {st} p1 e"
  using failBuild_reported [of p st m c] by auto

lemma prepare_outcome:
  assumes "good_writer p"
  shows "(\<exists>w1 p1 e. prepareBuildContext env p req w = (w1, p1, Inl e)
        \<and> reported_failure (if be_solver env = None then {501} else {400}) p1 e)
    \<or> (\<exists>w1 dir. prepareBuildContext env p req w = (w1, p, Inr dir) \<and> be_solver env \<noteq> None)"
proof (cases "be_solver env")
  case None
  obtain p1 e where "failBuild p 501 ''build is not available: BuildKit solver is not configured''
      (Sentinel (Buildkit ErrNoSolver)) = (p1, e)" "reported_failure {501} p1 e"
    using failBuild_reported [OF assms] by blast
  then show ?thesis using None by (simp add: prepareBuildContext_def)
next
  case (Some solver)
  show ?thesis
  proof (cases "bq_Context req")
    case None
    obtain p1 e where "failBuild p 400 ''build context is required'' (Sentinel (Buildkit ErrInvalidContext)) = (p1, e)"
        "reported_failure {400} p1 e" using failBuild_reported [OF assms] by blast
    then show ?thesis using None Some by (simp add: prepareBuildContext_def)
  next
    case ctx: (Some reader)
    obtain w1 r where m: "materializeContext (be_ctx env) (be_tempRoot env) reader (bq_Dockerfile req) w = (w1, r)" by fastforce
    show ?thesis
    proof (cases r)
      case (Inl e)
      obtain p1 e' where "failBuild p 400 (err_msg e) e = (p1, e')" "reported_failure {400} p1 e'"
        using failBuild_reported [OF assms] by blast
      then show ?thesis using Inl m ctx Some by (simp add: prepareBuildContext_def)
    next
      case (Inr dir)
      then show ?thesis using m ctx Some by (simp add: prepareBuildContext_def)
    qed
  qed
qed

lemma emit_outcome:
  assumes "good_writer p"
  shows "\<exists>p1. emitBuildResult pe p tag res = (p1, None)
    \<and> pw_lines p1 = pw_lines p @ success_lines pe (if sr_ImageID res = [] then sr_Digest res else sr_ImageID res) tag"
  using assms by (simp add: emitBuildResult_def pw_Aux_def pw_Stream_def pw_write_ok success_lines_def Let_def)

lemma translate_outcome:
  obtains t where "translate_all pe ss (newBuildProgress (NewProgressWriter (\<lambda>_ _. None)), None) = (t, None)"
    and "good_writer (bp_writer t)" and "bp_sawError t = has_error (bp_writer t)"
    and "pw_lines (bp_writer t) = stream_lines pe [] (concat (map batch_events ss))"
  using translate_tracks [OF tracks_new, of pe ss] by (auto simp: tracks_def has_error_def)

lemma built_image_exported:
  "built_image sc response = (let result = exporter_result sc response in
     if sr_ImageID result = [] then sr_Digest result else sr_ImageID result)"
  by (simp add: built_image_def exporter_result_def Let_def split: option.split)

lemma BuildkitSolver_closed:
  "sc_NewFS sc (so_ContextDir opts) w = None \<Longrightarrow> sc_Solve sc (solve_request sc opts) w = (w1, ss, res) \<Longrightarrow>
    BuildkitSolver_Solve sc opts w = (w1, ss, True, map_sum id (exporter_result sc) res)"
  by (simp add: BuildkitSolver_Solve_def split: sum.split)

lemma solveBuild_outcome:
  assumes "sc_NewFS sc (so_ContextDir opts) w = None" and "sc_Solve sc (solve_request sc opts) w = (w1, ss, res)"
  shows "\<exists>p1. case res of
      Inl e \<Rightarrow> solveBuild env (BuildkitSolver_Solve sc) (NewProgressWriter (\<lambda>_ _. None)) opts tag w
          = Some (w1, p1, Some (BuildError 500 (err_msg e) e)) \<and> has_error p1
    | Inr response \<Rightarrow> solveBuild env (BuildkitSolver_Solve sc) (NewProgressWriter (\<lambda>_ _. None)) opts tag w = Some (w1, p1, None)
        \<and> pw_lines p1 = stream_lines (be_progress env) [] (concat (map batch_events ss))
            @ success_lines (be_progress env) (built_image sc response) tag"
proof -
  obtain t where t: "translate_all (be_progress env) ss (newBuildProgress (NewProgressWriter (\<lambda>_ _. None)), None) = (t, None)"
      "good_writer (bp_writer t)" "bp_sawError t = has_error (bp_writer t)"
      "pw_lines (bp_writer t) = stream_lines (be_progress env) [] (concat (map batch_events ss))"
    by (rule translate_outcome)
  note solved = BuildkitSolver_closed [OF assms]
  show ?thesis
  proof (cases res)
    case (Inl e)
    have "has_error (fst (solveFailed t e))" "snd (solveFailed t e) = BuildError 500 (err_msg e) e"
      using t(2,3) by (auto simp: solveFailed_def Let_def has_error_def pw_ErrorDetail_def pw_write_ok)
    then show ?thesis using Inl solved t(1) by (auto simp: solveBuild_def split: prod.split)
  next
    case (Inr response)
    then show ?thesis using solved t(1,4) emit_outcome [OF t(2), of "be_progress env" tag "exporter_result sc response"]
      by (auto simp: solveBuild_def built_image_exported Let_def)
  qed
qed

lemma resolveBuildTag_outcome:
  assumes "good_writer p"
  shows "case requested_tag env req of
      None \<Rightarrow> \<exists>p1 e. resolveBuildTag env p (bq_Tag req) = (p1, Inl e) \<and> reported_failure {400} p1 e
    | Some tag \<Rightarrow> resolveBuildTag env p (bq_Tag req) = (p, Inr tag)"
proof (cases "TrimSpace (bq_Tag req) = []")
  case True
  then show ?thesis by (simp add: requested_tag_def resolveBuildTag_def)
next
  case False
  show ?thesis
  proof (cases "NormalizeReference (be_ref env) (bq_Tag req)")
    case (Inl e)
    with False failBuild_reported [OF assms, of 400 "err_msg e" e] show ?thesis
      by (auto simp: requested_tag_def resolveBuildTag_def)
  qed (use False in \<open>simp add: requested_tag_def resolveBuildTag_def\<close>)
qed

lemma build_ready_None:
  assumes "build_ready env req w = None"
  shows "\<exists>w' p e. Build env req (\<lambda>_ _. None) w = Some (w', p, Some e)
    \<and> reported_failure (if be_solver env = None then {501} else {400}) p e"
proof -
  let ?p = "NewProgressWriter (\<lambda>_ _. None)"
  have good: "good_writer ?p" by (simp add: NewProgressWriter_def)
  from prepare_outcome [OF good, of env req w] show ?thesis
  proof (elim disjE exE conjE)
    fix w1 dir
    assume prep: "prepareBuildContext env ?p req w = (w1, ?p, Inr dir)" "be_solver env \<noteq> None"
    then have "requested_tag env req = None"
      using assms by (auto simp: prepareBuildContext_def build_ready_def split: option.splits sum.splits prod.splits)
    with resolveBuildTag_outcome [OF good, of env req] prep show ?thesis by (auto simp: Build_def)
  qed (auto simp: Build_def)
qed

lemma build_ready_Some:
  assumes "build_ready env req w = Some (w1, dir, tag)" and "be_solver env = Some solver"
  shows "Build env req (\<lambda>_ _. None) w = map_option (\<lambda>(w2, p3, r). (cleanupContext (be_ctx env) dir w2, p3, r))
      (solveBuild env solver (NewProgressWriter (\<lambda>_ _. None))
        \<lparr>so_ContextDir = dir, so_Dockerfile = dockerfileName (bq_Dockerfile req), so_Tag = tag,
         so_Platform = bq_Platform req, so_BuildArgs = bq_BuildArgs req, so_Target = bq_Target req,
         so_NoCache = bq_NoCache req, so_Auth = bq_Auth req\<rparr> tag w1)"
proof -
  let ?p = "NewProgressWriter (\<lambda>_ _. None)"
  have "prepareBuildContext env ?p req w = (w1, ?p, Inr dir)" "requested_tag env req = Some tag"
    using assms by (auto simp: prepareBuildContext_def build_ready_def split: option.splits sum.splits prod.splits)
  moreover have "good_writer ?p" by (simp add: NewProgressWriter_def)
  ultimately show ?thesis
    using resolveBuildTag_outcome [of ?p env req] assms(2) by (simp add: Build_def)
qed

text \<open>
  C9: the outcome of a build, with the BuildKit solver or none, on a stream that can be written. A
  request that is not ready fails with a \<^verbatim>\<open>BuildError\<close> of status 501 (no solver) or 400 (archive,
  Dockerfile or tag) and an \<^verbatim>\<open>errorDetail\<close> message on the stream. A request that is ready is solved as
  asked: when the solve fails, the error is its own, of status 500, again with an
  \<^verbatim>\<open>errorDetail\<close> message; when it succeeds, the stream is exactly the translation of the batches this
  solve sent followed by the ID of the image it made and the requested tag. The one request that is
  never answered is the one whose materialized context BuildKit cannot open.
\<close>

theorem build_outcome:
  assumes "builds_with env sc"
  shows "case build_ready env req w of
      None \<Rightarrow> \<exists>w' p e. Build env req (\<lambda>_ _. None) w = Some (w', p, Some e)
        \<and> reported_failure (if be_solver env = None then {501} else {400}) p e
    | Some (w1, dir, tag) \<Rightarrow>
        if sc_NewFS sc dir w1 \<noteq> None then Build env req (\<lambda>_ _. None) w = None
        else (case sc_Solve sc (requested_solve sc req dir tag) w1 of
            (w2, ss, Inl e) \<Rightarrow> \<exists>w' p. Build env req (\<lambda>_ _. None) w = Some (w', p, Some (BuildError 500 (err_msg e) e)) \<and> has_error p
          | (w2, ss, Inr response) \<Rightarrow> \<exists>w' p. Build env req (\<lambda>_ _. None) w = Some (w', p, None)
              \<and> pw_lines p = stream_lines (be_progress env) [] (concat (map batch_events ss))
                  @ success_lines (be_progress env) (built_image sc response) tag)"
proof (cases "build_ready env req w")
  case None
  with build_ready_None [OF None] show ?thesis by simp
next
  case (Some x)
  obtain w1 dir tag where x: "x = (w1, dir, tag)" by (metis prod_cases3)
  have solver: "be_solver env = Some (BuildkitSolver_Solve sc)"
    using assms Some by (auto simp: builds_with_def build_ready_def)
  note run = build_ready_Some [OF Some [unfolded x] solver]
  show ?thesis
  proof (cases "sc_NewFS sc dir w1")
    case None
    let ?o = "\<lparr>so_ContextDir = dir, so_Dockerfile = dockerfileName (bq_Dockerfile req), so_Tag = tag,
       so_Platform = bq_Platform req, so_BuildArgs = bq_BuildArgs req, so_Target = bq_Target req,
       so_NoCache = bq_NoCache req, so_Auth = bq_Auth req\<rparr>"
    obtain w2 ss res where sol: "sc_Solve sc (solve_request sc ?o) w1 = (w2, ss, res)" by (metis prod_cases3)
    have "sc_NewFS sc (so_ContextDir ?o) w1 = None" using None by simp
    from solveBuild_outcome [where env = env and tag = tag, OF this sol] None Some x run sol show ?thesis
      by (cases res) (auto simp: requested_solve_def)
  next
    case (Some e)
    with run \<open>build_ready env req w = Some x\<close> x show ?thesis by (simp add: solveBuild_def BuildkitSolver_Solve_def)
  qed
qed


section \<open>The temporary context\<close>

text \<open>
  What the code relies on of the file system for the context directories, \<open>live w\<close> being the
  temporary directories there are: \<^verbatim>\<open>MkdirTemp\<close> makes a new one; \<^verbatim>\<open>RemoveAll\<close> removes at most the
  one it is given, and does when it answers no error; and neither the operations inside a directory
  nor BuildKit makes or removes one.
\<close>

definition temp_dirs :: "'w context_env \<Rightarrow> 'w solver_client \<Rightarrow> ('w \<Rightarrow> string set) \<Rightarrow> bool" where
  "temp_dirs ce sc live \<longleftrightarrow>
     (\<forall>r pat w w' d. ce_MkdirTemp ce r pat w = (w', Inr d) \<longrightarrow> d \<noteq> [] \<and> d \<notin> live w \<and> live w' = insert d (live w))
   \<and> (\<forall>r pat w w' e. ce_MkdirTemp ce r pat w = (w', Inl e) \<longrightarrow> live w' = live w)
   \<and> (\<forall>d w w' r. ce_RemoveAll ce d w = (w', r) \<longrightarrow> live w - {d} \<subseteq> live w' \<and> live w' \<subseteq> live w \<and> (r = None \<longrightarrow> d \<notin> live w'))
   \<and> (\<forall>root L. confined ce root (\<lambda>w. live w = L))
   \<and> (\<forall>opt w. live (fst (sc_Solve sc opt w)) = live w)"

text \<open>
  A directory \<open>d\<close> that was not there before is removed again, or its removal was refused and it is
  the only one left behind.
\<close>

definition context_removed :: "'w context_env \<Rightarrow> ('w \<Rightarrow> string set) \<Rightarrow> 'w \<Rightarrow> 'w \<Rightarrow> bool" where
  "context_removed ce live w w' \<longleftrightarrow> live w' = live w
     \<or> (\<exists>d v e. d \<notin> live w \<and> ce_RemoveAll ce d v = (w', Some e) \<and> live w' = insert d (live w))"

lemma mkdir_failed_live:
  "temp_dirs ce sc live \<Longrightarrow> ce_MkdirTemp ce r pat w = (w', Inl e) \<Longrightarrow> live w' = live w"
  unfolding temp_dirs_def by (drule conjunct2, drule conjunct1) blast

lemma mkdir_live:
  "temp_dirs ce sc live \<Longrightarrow> ce_MkdirTemp ce r pat w = (w', Inr d) \<Longrightarrow>
    d \<noteq> [] \<and> d \<notin> live w \<and> live w' = insert d (live w)"
  unfolding temp_dirs_def by (drule conjunct1) blast

lemma cleanup_live:
  assumes "temp_dirs ce sc live" and "d \<noteq> []" and "d \<notin> live w" and "live v = insert d (live w)"
  shows "context_removed ce live w (cleanupContext ce d v)"
proof -
  obtain w' r where rm: "ce_RemoveAll ce d v = (w', r)" by fastforce
  have "live v - {d} \<subseteq> live w'" "live w' \<subseteq> live v" "r = None \<longrightarrow> d \<notin> live w'"
    using assms(1) rm unfolding temp_dirs_def by (drule_tac conjunct2, drule_tac conjunct2, drule_tac conjunct1, blast)+
  then have "live w' = live w \<or> r \<noteq> None \<and> live w' = insert d (live w)" using assms(3,4) by auto
  with rm assms(2,3) show ?thesis by (auto simp: context_removed_def cleanupContext_def)
qed

lemma extract_live:
  assumes "temp_dirs ce sc live"
  shows "live (fst (extractTarContext ce reader root w)) = live w"
  by (rule extractTarContext_inv [where I = "\<lambda>x. live x = live w"]) (use assms in \<open>simp_all add: temp_dirs_def\<close>)

lemma materialize_live:
  assumes "temp_dirs ce sc live" and "materializeContext ce tr reader df w = (w', r)"
  shows "case r of Inl _ \<Rightarrow> context_removed ce live w w' | Inr d \<Rightarrow> d \<noteq> [] \<and> d \<notin> live w \<and> live w' = insert d (live w)"
proof -
  obtain w1 q where q: "ce_MkdirTemp ce tr ''dockerdless-build-*'' w = (w1, q)" by fastforce
  show ?thesis
  proof (cases q)
    case (Inl e)
    then have "live w1 = live w" using mkdir_failed_live [OF assms(1)] q by blast
    then show ?thesis using Inl assms(2) q by (auto simp: materializeContext_def context_removed_def)
  next
    case (Inr d)
    have d: "d \<noteq> []" "d \<notin> live w" "live w1 = insert d (live w)" using mkdir_live [OF assms(1)] q Inr by blast+
    obtain w2 x where x: "extractTarContext ce reader d w1 = (w2, x)" by fastforce
    have w2: "live w2 = insert d (live w)" using extract_live [OF assms(1), of reader d w1] x d(3) by simp
    show ?thesis using assms q Inr x d w2 cleanup_live [OF assms(1) d(1,2) w2]
      by (auto simp: materializeContext_def split: option.splits)
  qed
qed

lemma prepare_live:
  assumes "temp_dirs (be_ctx env) sc live" and "prepareBuildContext env p req w = (w1, p1, r)"
  shows "case r of Inl _ \<Rightarrow> context_removed (be_ctx env) live w w1
    | Inr d \<Rightarrow> d \<noteq> [] \<and> d \<notin> live w \<and> live w1 = insert d (live w)"
proof (cases "be_solver env = None \<or> bq_Context req = None")
  case True
  then show ?thesis using assms(2)
    by (auto simp: prepareBuildContext_def context_removed_def split: if_splits prod.splits option.splits)
next
  case False
  then obtain reader where c: "bq_Context req = Some reader" by auto
  obtain w2 m where m: "materializeContext (be_ctx env) (be_tempRoot env) reader (bq_Dockerfile req) w = (w2, m)" by fastforce
  show ?thesis using materialize_live [OF assms(1) m] assms(2) c m False
    by (auto simp: prepareBuildContext_def split: sum.splits prod.splits)
qed

lemma solveBuild_world:
  assumes "temp_dirs ce sc live" and "solveBuild env (BuildkitSolver_Solve sc) p opts tag w = r"
  shows "case r of None \<Rightarrow> sc_NewFS sc (so_ContextDir opts) w \<noteq> None | Some (w', _) \<Rightarrow> live w' = live w"
proof (cases "sc_NewFS sc (so_ContextDir opts) w")
  case None
  obtain w1 ss res where sol: "sc_Solve sc (solve_request sc opts) w = (w1, ss, res)" by (metis prod_cases3)
  have "live (fst (sc_Solve sc (solve_request sc opts) w)) = live w" using assms(1) unfolding temp_dirs_def by blast
  then have "live w1 = live w" using sol by simp
  with assms(2) BuildkitSolver_closed [OF None sol] show ?thesis
    by (auto simp: solveBuild_def split: prod.splits sum.splits option.splits)
next
  case (Some e)
  with assms(2) show ?thesis by (auto simp: solveBuild_def BuildkitSolver_Solve_def)
qed

text \<open>
  C22: the temporary context of a build. When a build returns, with or without an error and whatever
  the progress writer does, the temporary directories are those there were before, unless
  \<^verbatim>\<open>RemoveAll\<close> itself was refused; then the context of this build is the only one left behind. A
  build that does not return has its context materialized and not removed, and BuildKit could not
  open it.
\<close>

theorem build_removes_context:
  assumes "temp_dirs (be_ctx env) sc live" and "builds_with env sc"
  shows "case Build env req out w of
      Some (w', p, r) \<Rightarrow> context_removed (be_ctx env) live w w'
    | None \<Rightarrow> \<exists>w1 p1 dir. prepareBuildContext env (NewProgressWriter out) req w = (w1, p1, Inr dir)
        \<and> sc_NewFS sc dir w1 \<noteq> None \<and> dir \<notin> live w \<and> live w1 = insert dir (live w)"
proof -
  obtain w1 p1 q where prep: "prepareBuildContext env (NewProgressWriter out) req w = (w1, p1, q)" by (metis prod_cases3)
  note made = prepare_live [OF assms(1) prep]
  show ?thesis
  proof (cases q)
    case (Inl e)
    then show ?thesis using made prep by (simp add: Build_def)
  next
    case (Inr d)
    have d: "d \<noteq> []" "d \<notin> live w" "live w1 = insert d (live w)" using made Inr by simp_all
    obtain p2 t where tag: "resolveBuildTag env p1 (bq_Tag req) = (p2, t)" by fastforce
    show ?thesis
    proof (cases t)
      case (Inl e)
      then show ?thesis using prep Inr tag cleanup_live [OF assms(1) d] by (simp add: Build_def)
    next
      case tg: (Inr tg)
      have solver: "be_solver env = Some (BuildkitSolver_Solve sc)"
        using prep Inr assms(2) by (auto simp: builds_with_def prepareBuildContext_def split: prod.splits)
      let ?o = "\<lparr>so_ContextDir = d, so_Dockerfile = dockerfileName (bq_Dockerfile req), so_Tag = tg,
         so_Platform = bq_Platform req, so_BuildArgs = bq_BuildArgs req, so_Target = bq_Target req,
         so_NoCache = bq_NoCache req, so_Auth = bq_Auth req\<rparr>"
      obtain r where sb: "solveBuild env (BuildkitSolver_Solve sc) p2 ?o tg w1 = r" by blast
      from solveBuild_world [OF assms(1) sb] show ?thesis
        using prep Inr tag tg solver sb d cleanup_live [OF assms(1) d(1,2)]
        by (cases r) (auto simp: Build_def)
    qed
  qed
qed

section \<open>A concrete build\<close>

text \<open>The world is the list of temporary directories; the archive holds a Dockerfile.\<close>

definition dirs_ctx :: "string list context_env" where
  "dirs_ctx = \<lparr>ce_tar = (\<lambda>r. ([(\<lparr>th_Name = ''Dockerfile'', th_Linkname = [], th_Typeflag = TypeReg, th_Mode = 420\<rparr>, (r, None))], None)),
     ce_MkdirTemp = (\<lambda>r p w. if ''/tmp/ctx'' \<in> set w then (w, Inl (NewErr ''exists'')) else (''/tmp/ctx'' # w, Inr ''/tmp/ctx'')),
     ce_RemoveAll = (\<lambda>d w. (removeAll d w, None)), ce_Stat = (\<lambda>p w. StatOk),
     ce_OpenRoot = (\<lambda>d w. None), ce_MkdirAll = (\<lambda>d n m w. (w, None)), ce_OpenFile = (\<lambda>d n m w. (w, None)),
     ce_Copy = (\<lambda>d n b w. (w, None)), ce_Symlink = (\<lambda>d t n w. (w, None)), ce_Link = (\<lambda>d l n w. (w, None))\<rparr>"

definition sample_vertex :: vertex where
  "sample_vertex = \<lparr>v_Digest = ''sha256:0102'', v_Name = ''RUN make'', v_Error = [], v_Cached = False,
     v_Started = Some zero_time, v_Completed = None\<rparr>"

text \<open>
  A solve that starts a step, fails it and then sends the step's remaining output; one that makes an
  image; and a client that cannot open the context.
\<close>

definition sample_sc :: "bool \<Rightarrow> bool \<Rightarrow> 'w solver_client" where
  "sample_sc opens fails = \<lparr>sc_NewFS = (\<lambda>d w. if opens then None else Some (NewErr ''not a directory'')),
     sc_Solve = (\<lambda>opt w. (w, [Some \<lparr>st_Vertexes = [sample_vertex], st_Statuses = [], st_Logs = [], st_Warnings = []\<rparr>,
         Some \<lparr>st_Vertexes = (if fails then [sample_vertex\<lparr>v_Error := ''exit code: 2''\<rparr>] else []), st_Statuses = [],
           st_Logs = [''make: stopped''], st_Warnings = []\<rparr>],
       if fails then Inl (NewErr ''failed to solve'')
       else Inr (Some [(''image.config.digest'', ''sha256:feedfeedfeedfeed''), (''image.name'', ''app:1'')]))),
     sc_ExporterImage = ''image'', sc_ImageConfigDigestKey = ''image.config.digest'', sc_ConfigDigestKey = ''config.digest'',
     sc_ImageNameKey = ''image.name'', sc_ImageDigestKey = ''image.digest''\<rparr>"

definition sample_build_env :: "string list solver_client \<Rightarrow> string list build_env" where
  "sample_build_env sc = \<lparr>be_ctx = dirs_ctx,
     be_progress = \<lparr>pe_Encoded = (\<lambda>d. drop 7 d), pe_HumanSize = Itoa, pe_percent = (\<lambda>a b. Itoa (100 * a div b))\<rparr>,
     be_ref = sample_reference, be_tempRoot = [], be_solver = Some (BuildkitSolver_Solve sc)\<rparr>"

definition sample_build :: BuildRequest where
  "sample_build = \<lparr>bq_Context = Some ''FROM scratch'', bq_Tag = ''app:1'', bq_Dockerfile = [], bq_Platform = [],
     bq_BuildArgs = [], bq_Target = [], bq_NoCache = False, bq_Auth = None\<rparr>"

lemma sample_builds: "builds_with (sample_build_env sc) sc"
  by (simp add: builds_with_def sample_build_env_def)

lemma sample_temp_dirs: "temp_dirs (be_ctx (sample_build_env sc)) (sample_sc opens fails) set"
  by (auto simp: temp_dirs_def sample_build_env_def dirs_ctx_def confined_def sample_sc_def split: if_splits)

lemma sample_ready:
  "build_ready (sample_build_env (sample_sc True b)) sample_build [''/tmp/other'']
    = Some ([''/tmp/ctx'', ''/tmp/other''], ''/tmp/ctx'', ''app:1'')"
  by code_simp

theorem build_outcome_witness:
  "\<exists>w' p. Build (sample_build_env (sample_sc True False)) sample_build (\<lambda>_ _. None) [''/tmp/other''] = Some (w', p, None)
     \<and> drop (length (pw_lines p) - 2) (pw_lines p)
        = [emptyMessage\<lparr>dm_Stream := ''Successfully built feedfeedfeed'' @ [CHR 0x0A]\<rparr>,
           emptyMessage\<lparr>dm_Stream := ''Successfully tagged app:1'' @ [CHR 0x0A]\<rparr>]"
proof -
  let ?env = "sample_build_env (sample_sc True False)"
  have img: "built_image (sample_sc True False) (Some [(''image.config.digest'', ''sha256:feedfeedfeedfeed''), (''image.name'', ''app:1'')])
      = ''sha256:feedfeedfeedfeed''"
    by (simp add: built_image_def sample_sc_def get_or_def)
  have opens: "sc_NewFS (sample_sc True False) ''/tmp/ctx'' w = None" for w :: "string list" by (simp add: sample_sc_def)
  obtain ss where solves: "sc_Solve (sample_sc True False) opt w
      = (w, ss, Inr (Some [(''image.config.digest'', ''sha256:feedfeedfeedfeed''), (''image.name'', ''app:1'')]))"
    for opt and w :: "string list" by (simp add: sample_sc_def)
  obtain w' p where "Build ?env sample_build (\<lambda>_ _. None) [''/tmp/other''] = Some (w', p, None)"
    "pw_lines p = stream_lines (be_progress ?env) [] (concat (map batch_events ss))
      @ success_lines (be_progress ?env) ''sha256:feedfeedfeedfeed'' ''app:1''"
    using build_outcome [OF sample_builds, of "sample_sc True False" sample_build "[''/tmp/other'']"]
    unfolding sample_ready by (auto simp: opens solves img)
  then show ?thesis by (simp add: success_lines_def shorthandDigest_def sample_build_env_def)
qed

theorem build_removes_context_witness:
  "\<exists>w' p r. Build (sample_build_env (sample_sc True True)) sample_build (\<lambda>_ _. None) [''/tmp/other''] = Some (w', p, r)
     \<and> context_removed dirs_ctx set [''/tmp/other''] w'"
proof -
  have "Build (sample_build_env (sample_sc True True)) sample_build (\<lambda>_ _. None) [''/tmp/other''] \<noteq> None" by code_simp
  then obtain w' p r where "Build (sample_build_env (sample_sc True True)) sample_build (\<lambda>_ _. None) [''/tmp/other''] = Some (w', p, r)"
    by (metis not_None_eq prod_cases3)
  then show ?thesis
    using build_removes_context [OF sample_temp_dirs [of _ True True] sample_builds, where req = sample_build and out = "\<lambda>_ _. None" and w = "[''/tmp/other'']"]
    by (simp add: sample_build_env_def)
qed

text \<open>
  The \<^verbatim>\<open>errorDetail\<close> message need not be the last line of a failed build: the translator wrote it
  when the step failed, and the output of the step follows.
\<close>

lemma errorDetail_not_last:
  "(case Build (sample_build_env (sample_sc True True)) sample_build (\<lambda>_ _. None) [] of
      Some (_, p, Some _) \<Rightarrow> dm_ErrorDetail (last (pw_lines p)) = None | _ \<Rightarrow> False)"
  by code_simp

text \<open>
  When the context cannot be opened the BuildKit solver returns without closing the status channel:
  the build does not return and its context is not removed.
\<close>

lemma build_blocks:
  "Build (sample_build_env (sample_sc False b)) sample_build (\<lambda>_ _. None) [] = None"
  by code_simp

end
