(* ===== verification/App_Images.thy ===== *)
theory App_Images
  imports App_Usage App_Runtime Bk_Build
begin

text \<open>
  \<^verbatim>\<open>internal/app/adapters.go\<close> (the image port) and \<^verbatim>\<open>internal/app/imageconfig.go\<close> (the reader
  of image configurations): the image use cases of the service run on the image adapter and its
  store. \<open>with_images\<close> puts the adapter's operations in the place of the image port.
\<close>

section \<open>imageconfig.go\<close>

text \<open>The configuration part of an OCI image; its sets are Go maps to an empty struct.\<close>

record oci_config =
  oc_User :: string
  oc_ExposedPorts :: "(string, unit) gomap"
  oc_Env :: "string list"
  oc_Entrypoint :: "string list"
  oc_Cmd :: "string list"
  oc_Volumes :: "(string, unit) gomap"
  oc_WorkingDir :: string
  oc_Labels :: "(string, string) gomap"
  oc_StopSignal :: string

definition sortedSetKeys :: "(string, unit) gomap \<Rightarrow> string list" where
  "sortedSetKeys m = (if m = [] then [] else sort (map fst m))"

definition imageConfigFromSpec :: "oci_config \<Rightarrow> image_config" where
  "imageConfigFromSpec c = \<lparr>imc_User = oc_User c, imc_ExposedPorts = sortedSetKeys (oc_ExposedPorts c),
     imc_Env = oc_Env c, imc_Entrypoint = oc_Entrypoint c, imc_Cmd = oc_Cmd c, imc_Volumes = sortedSetKeys (oc_Volumes c),
     imc_WorkingDir = oc_WorkingDir c, imc_Labels = oc_Labels c, imc_StopSignal = oc_StopSignal c\<rparr>"

definition configDigestMatches :: "string \<Rightarrow> string \<Rightarrow> bool" where
  "configDigestMatches candidate0 wanted0 =
    (let candidate = TrimPrefix candidate0 ''sha256:''; wanted = TrimPrefix wanted0 ''sha256:'' in
     if candidate = [] \<or> wanted = [] then False
     else candidate = wanted \<or> length wanted \<ge> 12 \<and> HasPrefix candidate wanted)"

text \<open>
  The reader: whether its client has been opened, the client, the error of opening it, and whether
  it was closed. The client answers the listed images, each with its config digest and its
  configuration.
\<close>

record 'w config_reader =
  cr_opened :: bool
  cr_client :: "('w \<Rightarrow> gerror + ((gerror + string) \<times> (gerror + oci_config)) list) option"
  cr_openErr :: "gerror option"
  cr_closed :: bool

definition newContainerdImageConfigs :: "'w config_reader" where
  "newContainerdImageConfigs = \<lparr>cr_opened = False, cr_client = None, cr_openErr = None, cr_closed = False\<rparr>"

definition open_client ::
  "(gerror + ('w \<Rightarrow> gerror + ((gerror + string) \<times> (gerror + oci_config)) list)) \<Rightarrow> 'w config_reader \<Rightarrow> 'w config_reader" where
  "open_client dial c = (if cr_opened c then c
     else (case dial of
        Inl e \<Rightarrow> c\<lparr>cr_opened := True, cr_client := None, cr_openErr := Some e\<rparr>
      | Inr cl \<Rightarrow> c\<lparr>cr_opened := True, cr_client := Some cl, cr_openErr := None\<rparr>))"

definition openLocked ::
  "(gerror + ('w \<Rightarrow> gerror + ((gerror + string) \<times> (gerror + oci_config)) list)) \<Rightarrow> 'w config_reader
    \<Rightarrow> 'w config_reader \<times> (gerror + ('w \<Rightarrow> gerror + ((gerror + string) \<times> (gerror + oci_config)) list))" where
  "openLocked dial c =
    (if cr_closed c then (c, Inl (NewErr ''containerd image config reader is closed''))
     else let c1 = open_client dial c in
       (c1, (case cr_openErr c1 of Some e \<Rightarrow> Inl e
         | None \<Rightarrow> (case cr_client c1 of None \<Rightarrow> Inl (NewErr ''containerd client is not configured'') | Some cl \<Rightarrow> Inr cl))))"

fun find_config :: "string \<Rightarrow> ((gerror + string) \<times> (gerror + oci_config)) list \<Rightarrow> gerror + image_config" where
  "find_config d [] = Inl (wrap_post (Sentinel (Ports PErrNotFound)) ('': image config '' @ d))"
| "find_config d ((Inl e, spec) # imgs) = find_config d imgs"
| "find_config d ((Inr digest, spec) # imgs) =
    (if \<not> configDigestMatches digest d then find_config d imgs
     else (case spec of
        Inl e \<Rightarrow> Inl (Wrapf (ports_msg PErrServerError @ '': read image config '' @ d @ '': '' @ err_msg e)
                   [Sentinel (Ports PErrServerError), e])
      | Inr s \<Rightarrow> Inr (imageConfigFromSpec s)))"

definition ImageConfig ::
  "(gerror + ('w \<Rightarrow> gerror + ((gerror + string) \<times> (gerror + oci_config)) list)) \<Rightarrow> string \<Rightarrow> 'w config_reader \<Rightarrow> 'w
    \<Rightarrow> 'w config_reader \<times> (gerror + image_config)" where
  "ImageConfig dial configDigest c w = (let d = TrimSpace configDigest in
     if d = [] then (c, Inl (wrap_post (Sentinel (Ports PErrInvalidArgument)) '': image config digest is required''))
     else case openLocked dial c of
       (c1, Inl e) \<Rightarrow> (c1, Inl (Wrapf (ports_msg PErrServerError @ '': open containerd for image config: '' @ err_msg e)
            [Sentinel (Ports PErrServerError), e]))
     | (c1, Inr client) \<Rightarrow> (c1, (case client w of
         Inl e \<Rightarrow> Inl (Wrapf (ports_msg PErrServerError @ '': list images for config '' @ d @ '': '' @ err_msg e)
            [Sentinel (Ports PErrServerError), e])
       | Inr imgs \<Rightarrow> find_config d imgs)))"

definition config_Close :: "'w config_reader \<Rightarrow> 'w config_reader" where
  "config_Close c = c\<lparr>cr_closed := True, cr_client := None\<rparr>"

lemma closed_reader_fails:
  "\<exists>e. snd (ImageConfig dial d (config_Close c) w) = Inl e"
  by (simp add: ImageConfig_def openLocked_def config_Close_def Let_def)

section \<open>The image port\<close>

definition with_images :: "reference_env \<Rightarrow> 'w image_adapter \<Rightarrow> 'w service_env \<Rightarrow> 'w service_env" where
  "with_images rf ia env = env\<lparr>
     se_PullImage := port_PullImage ia,
     se_ImageInspect := (\<lambda>r w. (w, port_Inspect ia r w)),
     se_ImageList := (\<lambda>w. (w, port_List ia w)),
     se_ImageRemove := ia_Remove ia,
     se_NormalizeReference := NormalizeReference rf\<rparr>"


text \<open>
  A request to remove an image removes exactly one stored reference when it succeeds and none
  when it is refused, whatever the request names: a reference, an image ID or a prefix of one.
\<close>

theorem image_remove_single:
  assumes "ia_store ia = Some env" and "image_service env imgs"
    and "ImageRemove (with_images rf ia senv) ref force (st, w) = (w', r)"
  shows "case r of Inl _ \<Rightarrow> imgs w' = imgs w
    | Inr _ \<Rightarrow> \<exists>m\<in>set (imgs w). imgs w' = filter (\<lambda>x. cti_Name x \<noteq> cti_Name m) (imgs w)"
proof -
  let ?ref = "TrimPrefix (TrimSpace ref) ''/''"
  obtain w1 q where q: "ia_Remove ia ?ref w = (w1, q)" by fastforce
  show ?thesis
    using assms(3) ia_Remove_one [OF assms(1,2) q] q
    by (auto simp: ImageRemove_def with_images_def Let_def split: if_splits sum.splits option.splits)
qed

section \<open>An image in use is not removed\<close>

text \<open>
  The identity of a stored image, and the image a request names: the one stored under the normalized
  reference or, for an ID or a prefix of one, the one image that matches it, when no image is stored
  under that name. (The two readings of a name of hexadecimal digits are the subject of
  \<open>remove_hex_name_removes_other\<close> below.) A lookup of containerd's image service answers the
  image of the name or not found.
\<close>

definition image_id :: "ctd_image \<Rightarrow> string" where
  "image_id img = (case recordFromImage img of Inl _ \<Rightarrow> [] | Inr r \<Rightarrow> record_id r)"

definition names_image :: "reference_env \<Rightarrow> ctd_image list \<Rightarrow> string \<Rightarrow> ctd_image \<Rightarrow> bool" where
  "names_image rf is ref m \<longleftrightarrow> m \<in> set is \<and>
    (if isImageID ref
     then list_all (\<lambda>x. NormalizeReference rf ref \<noteq> Inr (cti_Name x) \<and> (image_matches ref x \<longrightarrow> image_id x = image_id m)) is
       \<and> image_matches ref m
     else NormalizeReference rf ref = Inr (cti_Name m))"

definition gets_images :: "'w store_env \<Rightarrow> ('w \<Rightarrow> ctd_image list) \<Rightarrow> bool" where
  "gets_images env imgs \<longleftrightarrow> (\<forall>n w. case find (\<lambda>i. cti_Name i = n) (imgs w) of
     Some i \<Rightarrow> sv_GetImage env n w = Inr i
   | None \<Rightarrow> \<exists>e. sv_GetImage env n w = Inl e \<and> sv_IsNotFound env e)"

definition record_of :: "ctd_image \<Rightarrow> ImageRecord \<Rightarrow> bool" where
  "record_of img r \<longleftrightarrow> ir_Name r = cti_Name img \<and> record_id r = image_id img
     \<and> (\<forall>i. recordMatchesID r i = image_matches i img)"

lemma fold_add_sibling_record:
  "record_of img (fold (\<lambda>s. add_sibling rf t (ir_Name s)) ss r) = record_of img r"
proof -
  have "record_id (add_sibling rf t n x) = record_id x" for n x
    by (simp add: add_sibling_def record_id_def Let_def split: option.split prod.split)
  then have "record_of img (add_sibling rf t n x) = record_of img x" for n x
    by (simp add: record_of_def add_sibling_id)
  then show ?thesis by (induction ss arbitrary: r) simp_all
qed

lemma stored_records:
  assumes "image_service env imgs" and "canonical_images (sv_ref env) (imgs w)"
  obtains rs where "store_records env w = Inr rs" and "list_all2 record_of (imgs w) rs"
proof -
  have "\<forall>x\<in>set (imgs w). is_ok (recordFromImage x)" using assms(2) by (simp add: canonical_images_def)
  then obtain rs where rs: "mapM recordFromImage (imgs w) = Inr rs" using mapM_total by blast
  have rec: "record_of img r" if "recordFromImage img = Inr r" for img r
    using that by (auto simp: record_of_def image_id_def image_matches_def) (auto simp: recordFromImage_def split: sum.splits)
  have "list_all2 record_of (imgs w) rs" using rs [unfolded mapM_Inr_iff] by (rule list_all2_mono) (rule rec)
  then have "list_all2 record_of (imgs w) (attachSiblingReferences (sv_ref env) rs)"
    by (simp add: attachSiblingReferences_def list.rel_map Let_def fold_add_sibling_record if_distrib cong: if_cong)
  moreover have "store_records env w = Inr (attachSiblingReferences (sv_ref env) rs)"
    using assms(1) rs by (simp add: store_records_def image_service_def)
  ultimately show thesis using that by blast
qed

lemma find_record:
  assumes "list_all2 record_of is rs" and "\<And>img r. record_of img r \<Longrightarrow> P r = Q img" and "\<exists>m\<in>set is. Q m"
  obtains img r where "find P rs = Some r" and "img \<in> set is" and "Q img" and "record_of img r"
proof -
  have "\<exists>img r. find P rs = Some r \<and> img \<in> set is \<and> Q img \<and> record_of img r"
    using assms(1,3) by (induction rule: list_all2_induct) (use assms(2) in auto)
  then show thesis using that by blast
qed

lemma names_image_named:
  "names_image rf is ref m \<Longrightarrow> \<not> isImageID ref \<Longrightarrow> NormalizeReference rf ref = Inr (cti_Name m)"
  by (simp add: names_image_def)

lemma names_image_id:
  assumes "names_image rf is ref m" and "isImageID ref"
  shows "image_matches ref m" "x \<in> set is \<Longrightarrow> image_matches ref x \<Longrightarrow> image_id x = image_id m"
    "x \<in> set is \<Longrightarrow> NormalizeReference rf ref \<noteq> Inr (cti_Name x)"
proof -
  have "list_all (\<lambda>x. NormalizeReference rf ref \<noteq> Inr (cti_Name x) \<and> (image_matches ref x \<longrightarrow> image_id x = image_id m)) is
      \<and> image_matches ref m"
    using assms unfolding names_image_def by presburger
  then show "image_matches ref m" "x \<in> set is \<Longrightarrow> image_matches ref x \<Longrightarrow> image_id x = image_id m"
    "x \<in> set is \<Longrightarrow> NormalizeReference rf ref \<noteq> Inr (cti_Name x)"
    unfolding list_all_iff by blast+
qed

lemma canonical_same_name:
  "canonical_images rf is \<Longrightarrow> x \<in> set is \<Longrightarrow> m \<in> set is \<Longrightarrow> cti_Name x = cti_Name m \<Longrightarrow> x = m"
  unfolding canonical_images_def distinct_map by (blast dest: inj_onD)

lemma find_named: "m \<in> set is \<Longrightarrow> \<exists>x. find (\<lambda>i. cti_Name i = cti_Name m) is = Some x \<and> cti_Name x = cti_Name m"
  by (induction "is") auto

lemma store_Get_named:
  assumes "image_service env imgs" and "gets_images env imgs" and "canonical_images (sv_ref env) (imgs w)"
    and "TrimSpace ref = ref" and "names_image (sv_ref env) (imgs w) ref m"
  shows "\<exists>r. store_Get env ref w = Inr r \<and> record_id r = image_id m"
proof -
  obtain rs where rs: "store_records env w = Inr rs" "list_all2 record_of (imgs w) rs"
    by (rule stored_records [OF assms(1,3)])
  have m: "m \<in> set (imgs w)" using assms(5) by (simp add: names_image_def)
  have gets: "case find (\<lambda>i. cti_Name i = n) (imgs w) of
      Some i \<Rightarrow> sv_GetImage env n w = Inr i | None \<Rightarrow> \<exists>e. sv_GetImage env n w = Inl e \<and> sv_IsNotFound env e" for n
    using assms(2) unfolding gets_images_def by blast
  show ?thesis
  proof (cases "isImageID ref")
    case False
    note n = names_image_named [OF assms(5) this]
    obtain x where x: "find (\<lambda>i. cti_Name i = cti_Name m) (imgs w) = Some x" and xn: "cti_Name x = cti_Name m"
      using find_named [OF m] by blast
    have gx: "sv_GetImage env (cti_Name m) w = Inr x" using gets [of "cti_Name m"] x by simp
    obtain img r where r: "find (\<lambda>r. ir_Name r = cti_Name m) rs = Some r" "img \<in> set (imgs w)"
        "cti_Name img = cti_Name m" "record_of img r"
      by (rule find_record [OF rs(2), of "\<lambda>r. ir_Name r = cti_Name m" "\<lambda>i. cti_Name i = cti_Name m"])
        (use m in \<open>auto simp: record_of_def\<close>)
    have "store_Get env ref w = Inr r" by (simp add: store_Get_def get_by_name_def n gx rs(1) xn r(1))
    moreover have "record_id r = image_id m" using r(4) canonical_same_name [OF assms(3) r(2) m r(3)] by (simp add: record_of_def)
    ultimately show ?thesis by blast
  next
    case True
    note u = names_image_id [OF assms(5) this]
    have none: "get_by_name env ref w = None"
    proof (cases "NormalizeReference (sv_ref env) ref")
      case (Inr n)
      then have "find (\<lambda>i. cti_Name i = n) (imgs w) = None" using u(3) by (auto simp: find_None_iff)
      then show ?thesis using gets [of n] Inr by (auto simp: get_by_name_def)
    qed (simp add: get_by_name_def)
    obtain img r where r: "find (\<lambda>r. recordMatchesID r ref) rs = Some r" "img \<in> set (imgs w)"
        "image_matches ref img" "record_of img r"
      by (rule find_record [OF rs(2), of "\<lambda>r. recordMatchesID r ref" "image_matches ref"])
        (use m u(1) in \<open>auto simp: record_of_def\<close>)
    have "store_Get env ref w = Inr r" by (simp add: store_Get_def none rs(1) assms(4) r(1))
    moreover have "record_id r = image_id m" using r(4) u(2) [OF r(2,3)] by (simp add: record_of_def)
    ultimately show ?thesis by blast
  qed
qed

lemma ia_Remove_named:
  assumes "ia_store ia = Some env" and "image_service env imgs" and "canonical_images (sv_ref env) (imgs w)"
    and "TrimSpace ref = ref" and "ref \<noteq> []" and "names_image (sv_ref env) (imgs w) ref m"
  shows "\<exists>w' m'. ia_Remove ia ref w = (w', None) \<and> m' \<in> set (imgs w) \<and> image_id m' = image_id m
    \<and> (isImageID ref \<or> m' = m) \<and> imgs w' = filter (\<lambda>x. cti_Name x \<noteq> cti_Name m') (imgs w)"
proof (cases "isImageID ref")
  case True
  note u = names_image_id [OF assms(6) True]
  have "m \<in> set (imgs w)" using assms(6) by (simp add: names_image_def)
  then have "filter (image_matches ref) (imgs w) \<noteq> []" using u(1) by (metis filter_empty_conv)
  then obtain w' x where x: "removeByID env ref w = (w', None)" "x \<in> set (imgs w)" "image_matches ref x"
      "imgs w' = filter (\<lambda>y. cti_Name y \<noteq> cti_Name x) (imgs w)"
    using removeByID_one(2) [OF assms(2,3)] by blast
  have "ia_Remove ia ref w = (w', None)" using True assms(1,4,5) x(1) by (simp add: ia_Remove_def)
  moreover have "image_id x = image_id m" by (rule u(2) [OF x(2,3)])
  ultimately show ?thesis using True x(2,4) by blast
next
  case False
  note n = names_image_named [OF assms(6) this]
  have m: "m \<in> set (imgs w)" using assms(6) by (simp add: names_image_def)
  from delete_cases [OF assms(2), of "cti_Name m" w] show ?thesis
  proof cases
    case (1 w1)
    have "ia_Remove ia ref w = (w1, None)" using n False assms(1,4,5) 1(1) by (simp add: ia_Remove_def store_Delete_def)
    then show ?thesis using m 1(3) by blast
  qed (use m in blast)
qed

text \<open>
  C37: an image in use is not removed. A request that names a stored image, by reference or by an
  unambiguous ID, is refused with a conflict and removes nothing while a container made from that
  image is running or, without force, while there is any such container. Otherwise it fails and
  removes nothing, or it removes exactly one stored reference, of that image, and the answer
  carries its ID.
\<close>

theorem image_remove_protects:
  assumes "ia_store ia = Some env" and "image_service env imgs" and "gets_images env imgs"
    and "canonical_images (sv_ref env) (imgs w)"
    and "TrimPrefix (TrimSpace ref0) ''/'' = ref" and "TrimSpace ref = ref" and "ref \<noteq> []"
    and "names_image (sv_ref env) (imgs w) ref m" and "TrimPrefix (image_id m) ''sha256:'' \<noteq> []"
    and "users = filter (\<lambda>c. c_ImageDigest c = image_id m) (List (sv_registry st))"
    and "ImageRemove (with_images (sv_ref env) ia senv) ref0 force (st, w) = (w', r)"
  shows "if users \<noteq> [] \<and> (\<not> force \<or> list_ex (\<lambda>c. c_State c = ContainerStateRunning) users)
    then imgs w' = imgs w \<and> (\<exists>e. r = Inl e \<and> fst (WriteServiceError (Some e)) = 409)
    else (case r of Inl e \<Rightarrow> imgs w' = imgs w
      | Inr res \<Rightarrow> ir_ID res = image_id m \<and> (\<exists>m'. m' \<in> set (imgs w) \<and> image_id m' = image_id m \<and> (isImageID ref \<or> m' = m)
          \<and> imgs w' = filter (\<lambda>x. cti_Name x \<noteq> cti_Name m') (imgs w)))"
proof -
  obtain rec where rec: "store_Get env ref w = Inr rec" "record_id rec = image_id m"
    using store_Get_named [OF assms(2,3,4,6,8)] by blast
  define d where "d = imageDetail (detailFromRecord ia rec)"
  have d: "port_Inspect ia ref w = Inr d" "id_ID d = image_id m"
    using assms(1) rec by (simp_all add: port_Inspect_def ia_Inspect_def d_def imageDetail_def detailFromRecord_def)
  let ?norm = "NormalizeReference (sv_ref env)"
  define check where "check = checkImageInUse ?norm d force (List (sv_registry st))"
  obtain w1 m' where rm: "ia_Remove ia ref w = (w1, None)" "m' \<in> set (imgs w)" "image_id m' = image_id m"
      "isImageID ref \<or> m' = m" "imgs w1 = filter (\<lambda>x. cti_Name x \<noteq> cti_Name m') (imgs w)"
    using ia_Remove_named [OF assms(1,2,4,6,7,8)] by blast
  have run: "(w', r) = (case check of Some e \<Rightarrow> (w, Inl e)
      | None \<Rightarrow> (w1, Inr (case matchingImageTag ?norm ref (id_RepoTags d) of
            Some tag \<Rightarrow> \<lparr>ir_ID = id_ID d, ir_Untagged = tag, ir_Deleted = []\<rparr>
          | None \<Rightarrow> \<lparr>ir_ID = id_ID d, ir_Untagged = [], ir_Deleted = id_ID d\<rparr>)))"
    using assms(5,7,11) d(1) rm(1)
    by (cases check) (simp_all add: ImageRemove_def with_images_def check_def Let_def)
  have "containerUsesImage ?norm c d" if "c \<in> set users" for c
    using that assms(9,10) d(2) by (simp add: containerUsesImage_def digestsMatch_def Let_def)
  then have used: "check \<noteq> None" if "users \<noteq> [] \<and> (\<not> force \<or> list_ex (\<lambda>c. c_State c = ContainerStateRunning) users)"
    using that assms(10) unfolding check_def checkImageInUse_None
    by (auto simp: list_all_iff list_ex_iff filter_empty_conv)
  show ?thesis
  proof (cases check)
    case (Some e)
    then have "fst (WriteServiceError (Some e)) = 409" using checkImageInUse_conflict by (simp add: check_def)
    with Some run show ?thesis by simp
  next
    case None
    with run have "w' = w1" "\<exists>res. r = Inr res \<and> ir_ID res = image_id m" using d(2) by (auto split: option.split)
    with used None rm(2-5) show ?thesis by auto
  qed
qed

section \<open>A concrete store\<close>

definition sample_image_env :: "ctd_image list service_env" where
  "sample_image_env = with_images sample_reference sample_adapter runtime_env"

theorem image_remove_single_witness:
  "(case ImageRemove sample_image_env ''app:2'' False (sample_service, sample_images) of (w', r) \<Rightarrow>
     is_ok r \<and> (\<exists>m\<in>set sample_images. w' = filter (\<lambda>x. cti_Name x \<noteq> cti_Name m) sample_images))"
proof -
  obtain w' r where x: "ImageRemove sample_image_env ''app:2'' False (sample_service, sample_images) = (w', r)" by fastforce
  have "is_ok (snd (ImageRemove sample_image_env ''app:2'' False (sample_service, sample_images)))" by code_simp
  then have ok: "is_ok r" using x by simp
  have "ia_store sample_adapter = Some sample_store_env" by (simp add: sample_adapter_def)
  from image_remove_single [OF this sample_image_service x [unfolded sample_image_env_def]] show ?thesis
    using x ok by (cases r) simp_all
qed

lemma sample_gets: "gets_images sample_store_env id"
  by (simp add: gets_images_def sample_store_env_def split: option.split)

lemma sample_names: "names_image (sv_ref sample_store_env) (id sample_images) ''aaaaaaaaaaaa'' (sample_ctd_image ''app:2'' ''aaaaaaaaaaaa01'')"
  by code_simp

definition image_user :: container where
  "image_user = sample_container\<lparr>c_ImageDigest := ''sha256:aaaaaaaaaaaa01''\<rparr>"

theorem image_remove_protects_witness:
  "case ImageRemove sample_image_env ''aaaaaaaaaaaa'' False
       (sample_service\<lparr>sv_registry := \<lparr>byID = [(''c7'', image_user)], byName = [(''web'', ''c7'')]\<rparr>\<rparr>, sample_images) of
     (w', r) \<Rightarrow> w' = sample_images \<and> (\<exists>e. r = Inl e \<and> fst (WriteServiceError (Some e)) = 409)"
proof -
  let ?st = "sample_service\<lparr>sv_registry := \<lparr>byID = [(''c7'', image_user)], byName = [(''web'', ''c7'')]\<rparr>\<rparr>"
  let ?m = "sample_ctd_image ''app:2'' ''aaaaaaaaaaaa01''"
  obtain w' r where x: "ImageRemove sample_image_env ''aaaaaaaaaaaa'' False (?st, sample_images) = (w', r)" by fastforce
  have st: "ia_store sample_adapter = Some sample_store_env" by (simp add: sample_adapter_def)
  have t: "TrimPrefix (TrimSpace ''aaaaaaaaaaaa'') ''/'' = ''aaaaaaaaaaaa''" "TrimSpace ''aaaaaaaaaaaa'' = ''aaaaaaaaaaaa''" by code_simp+
  have i: "image_id ?m = ''sha256:aaaaaaaaaaaa01''" "TrimPrefix (image_id ?m) ''sha256:'' \<noteq> []" by code_simp+
  have u: "filter (\<lambda>c. c_ImageDigest c = image_id ?m) (List (sv_registry ?st)) = [image_user]"
    unfolding i(1) by code_simp
  have env: "sample_image_env = with_images (sv_ref sample_store_env) sample_adapter runtime_env"
    by (simp add: sample_image_env_def sample_store_env_def)
  from image_remove_protects [OF st sample_image_service sample_gets sample_canonical t _ sample_names i(2) u [symmetric] x [unfolded env]]
  show ?thesis by (simp add: x)
qed

text \<open>
  By ID the answer reports the image as deleted although another tag of it is still stored.
\<close>

lemma remove_by_id_reports_deleted:
  "(case ImageRemove sample_image_env ''aaaaaaaaaaaa'' False (sample_service, sample_images) of
      (w', Inr res) \<Rightarrow> ir_Deleted res = ''sha256:aaaaaaaaaaaa01'' \<and> map cti_Name w' = [''app:2'', ''db:1'']
    | _ \<Rightarrow> False)"
  by code_simp

text \<open>
  A name of twelve or more hexadecimal digits: the image that is inspected and checked for use is the
  one of that name, the image that is removed the one with that ID prefix.
\<close>

definition hex_named_images :: "ctd_image list" where
  "hex_named_images = [sample_ctd_image ''deadbeefcafe'' ''aaaaaaaaaaaa01'', sample_ctd_image ''db:1'' ''deadbeefcafe02'']"

lemma remove_hex_name_removes_other:
  "(case ImageRemove sample_image_env ''deadbeefcafe'' False (sample_service, hex_named_images) of
      (w', Inr res) \<Rightarrow> ir_ID res = ''sha256:aaaaaaaaaaaa01'' \<and> map cti_Name w' = [''deadbeefcafe'']
    | _ \<Rightarrow> False)"
  by code_simp

text \<open>An ID prefix of fewer than twelve digits is found by an inspection and not by a removal.\<close>

lemma remove_short_prefix_fails:
  "is_ok (snd (ImageInspect sample_image_env ''bbbbbb'' sample_images))
   \<and> \<not> is_ok (snd (ImageRemove sample_image_env ''bbbbbb'' False (sample_service, sample_images)))"
  by code_simp

end
