(* ===== verification/Api_Router.thy ===== *)
theory Api_Router
  imports Error_Mapping
begin

text \<open>
  \<^verbatim>\<open>internal/api/version.go\<close>, \<^verbatim>\<open>routes.go\<close>, \<^verbatim>\<open>router.go\<close> and the
  path helper of \<^verbatim>\<open>handlers.go\<close>: Docker API version negotiation, the route matrix and the
  dispatch of a request. A handler is a name here; what it answers is the business of the other
  components.
\<close>

section \<open>Versions\<close>

abbreviation AdvertisedAPIVersion :: string where "AdvertisedAPIVersion \<equiv> ''1.44''"
abbreviation MinimumAPIVersion :: string where "MinimumAPIVersion \<equiv> ''1.24''"

definition allVersionCharacters :: "string \<Rightarrow> bool" where
  "allVersionCharacters v \<longleftrightarrow> list_all (\<lambda>c. is_digit c \<or> c = CHR ''.'') v"

definition parse_component :: "string \<Rightarrow> gerror + int" where
  "parse_component part =
    (if part = [] then Inl (NewErr ''version contains an empty component'')
     else case Atoi part of
       None \<Rightarrow> Inl (NewErr (''version component '' @ quote part @ '' is not a non-negative integer''))
     | Some v \<Rightarrow> if v < 0
         then Inl (NewErr (''version component '' @ quote part @ '' is not a non-negative integer''))
         else Inr v)"

definition parseAPIVersion :: "string \<Rightarrow> gerror + int list" where
  "parseAPIVersion version = mapM parse_component (Split CHR ''.'' version)"

definition part_at :: "int list \<Rightarrow> nat \<Rightarrow> int" where
  "part_at ps i = (if i < length ps then ps ! i else 0)"

fun compare_from :: "int list \<Rightarrow> int list \<Rightarrow> nat list \<Rightarrow> int" where
  "compare_from ls rs [] = 0"
| "compare_from ls rs (i # is) =
    (if part_at ls i < part_at rs i then -1
     else if part_at ls i > part_at rs i then 1
     else compare_from ls rs is)"

definition compareAPIVersions :: "string \<Rightarrow> string \<Rightarrow> gerror + int" where
  "compareAPIVersions left right =
    rbind (parseAPIVersion left) (\<lambda>ls. rbind (parseAPIVersion right) (\<lambda>rs.
      Inr (compare_from ls rs [0..<max (length ls) (length rs)])))"

text \<open>The three results of \<^verbatim>\<open>versionFromPath\<close>; with an error the path counts as versioned.\<close>

definition versionFromPath :: "string \<Rightarrow> gerror + (string \<times> bool)" where
  "versionFromPath path =
    (if \<not> HasPrefix path ''/v'' then Inr ([], False)
     else
       let rest = TrimPrefix path ''/v'';
           version = (case CutByte CHR ''/'' rest of None \<Rightarrow> rest | Some (v, _) \<Rightarrow> v) in
       if version = [] \<or> \<not> allVersionCharacters version then Inr ([], False)
       else case parseAPIVersion version of
         Inl e \<Rightarrow> Inl (wrap_pre (''invalid API version '' @ quote version @ '': '') e)
       | Inr _ \<Rightarrow> Inr (version, True))"

definition unversionedPath :: "string \<Rightarrow> string" where
  "unversionedPath path = (case versionFromPath path of
     Inr (version, True) \<Rightarrow>
       (let p = TrimPrefix path (''/v'' @ version) in if p = [] then ''/'' else p)
   | _ \<Rightarrow> path)"

definition apiVersionFromRequest :: "string \<Rightarrow> string" where
  "apiVersionFromRequest path = (case versionFromPath path of
     Inr (version, True) \<Rightarrow> version | _ \<Rightarrow> AdvertisedAPIVersion)"

record version_middleware =
  vm_advertisedVersion :: string
  vm_minimumVersion :: string

definition NewVersionMiddleware :: version_middleware where
  "NewVersionMiddleware = \<lparr>vm_advertisedVersion = AdvertisedAPIVersion, vm_minimumVersion = MinimumAPIVersion\<rparr>"

text \<open>The gate in front of a handler: the error it answers, or \<open>None\<close> when the request goes on.\<close>

definition version_gate :: "version_middleware \<Rightarrow> string \<Rightarrow> docker_error option" where
  "version_gate m path = (case versionFromPath path of
     Inl e \<Rightarrow> Some (NewInvalidParameter (err_msg e))
   | Inr (v, versioned) \<Rightarrow>
      if \<not> versioned then None
      else case compareAPIVersions v (vm_minimumVersion m) of
        Inl e \<Rightarrow> Some (NewInvalidParameter (err_msg e))
      | Inr c \<Rightarrow>
          if c < 0 then Some (NewInvalidParameter (''client version '' @ v
            @ '' is too old. Minimum supported API version is '' @ vm_minimumVersion m))
          else (case compareAPIVersions v (vm_advertisedVersion m) of
            Inl e \<Rightarrow> Some (NewInvalidParameter (err_msg e))
          | Inr c' \<Rightarrow>
              if c' > 0 then Some (NewInvalidParameter (''client version '' @ v
                @ '' is too new. Maximum supported API version is '' @ vm_advertisedVersion m))
              else None))"

section \<open>Routes\<close>

datatype http_handler = PingHandler | VersionHandler | Info
  | ImageInspect | ImageCreate | ImageList | ImageRemove | Build
  | ContainerCreateH | ContainerListH | ContainerInspectH | ContainerStartH | ContainerStopH
  | ContainerLogsH | ExecCreateH | ContainerRemoveH
  | NetworkListH | NetworkInspectH | NetworkCreateH | NetworkConnectH | NetworkRemoveH
  | ExecStartH | ExecInspectH

record route_capability =
  rc_Method :: string
  rc_Path :: string
  rc_Supported :: bool
  rc_Handler :: "http_handler option"

definition supported :: "string \<Rightarrow> string \<Rightarrow> http_handler \<Rightarrow> route_capability" where
  "supported m p h = \<lparr>rc_Method = m, rc_Path = p, rc_Supported = True, rc_Handler = Some h\<rparr>"

definition unsupported :: "string \<Rightarrow> string \<Rightarrow> route_capability" where
  "unsupported m p = \<lparr>rc_Method = m, rc_Path = p, rc_Supported = False, rc_Handler = None\<rparr>"

definition MVPRouteMatrix :: "route_capability list" where
  "MVPRouteMatrix =
    [supported ''GET'' ''/_ping'' PingHandler, supported ''HEAD'' ''/_ping'' PingHandler,
     supported ''GET'' ''/version'' VersionHandler, unsupported ''GET'' ''/info'',
     unsupported ''GET'' ''/images/{name}/json'', unsupported ''POST'' ''/images/create'',
     unsupported ''GET'' ''/images/json'', unsupported ''DELETE'' ''/images/{name}'', unsupported ''POST'' ''/build'',
     unsupported ''POST'' ''/containers/create'', unsupported ''GET'' ''/containers/json'',
     unsupported ''GET'' ''/containers/{id}/json'', unsupported ''POST'' ''/containers/{id}/start'',
     unsupported ''POST'' ''/containers/{id}/stop'', unsupported ''GET'' ''/containers/{id}/logs'',
     unsupported ''POST'' ''/containers/{id}/exec'', unsupported ''DELETE'' ''/containers/{id}'',
     unsupported ''GET'' ''/networks'', unsupported ''GET'' ''/networks/{id}'',
     unsupported ''POST'' ''/networks/create'', unsupported ''POST'' ''/networks/{id}/connect'',
     unsupported ''DELETE'' ''/networks/{id}'',
     unsupported ''POST'' ''/exec/{id}/start'', unsupported ''GET'' ''/exec/{id}/json'']"

definition serviceRouteMatrix :: "route_capability list" where
  "serviceRouteMatrix =
    [supported ''GET'' ''/_ping'' PingHandler, supported ''HEAD'' ''/_ping'' PingHandler,
     supported ''GET'' ''/version'' VersionHandler, supported ''GET'' ''/info'' Info,
     supported ''GET'' ''/images/{name}/json'' ImageInspect, supported ''POST'' ''/images/create'' ImageCreate,
     supported ''GET'' ''/images/json'' ImageList, supported ''DELETE'' ''/images/{name}'' ImageRemove,
     supported ''POST'' ''/build'' Build,
     supported ''POST'' ''/containers/create'' ContainerCreateH, supported ''GET'' ''/containers/json'' ContainerListH,
     supported ''GET'' ''/containers/{id}/json'' ContainerInspectH,
     supported ''POST'' ''/containers/{id}/start'' ContainerStartH,
     supported ''POST'' ''/containers/{id}/stop'' ContainerStopH,
     supported ''GET'' ''/containers/{id}/logs'' ContainerLogsH,
     supported ''POST'' ''/containers/{id}/exec'' ExecCreateH,
     supported ''DELETE'' ''/containers/{id}'' ContainerRemoveH,
     supported ''GET'' ''/networks'' NetworkListH, supported ''GET'' ''/networks/{id}'' NetworkInspectH,
     supported ''POST'' ''/networks/create'' NetworkCreateH,
     supported ''POST'' ''/networks/{id}/connect'' NetworkConnectH,
     supported ''DELETE'' ''/networks/{id}'' NetworkRemoveH,
     supported ''POST'' ''/exec/{id}/start'' ExecStartH, supported ''GET'' ''/exec/{id}/json'' ExecInspectH]"

text \<open>
  The compiled pattern: a quoted byte matches itself, \<^verbatim>\<open>.+\<close> a non-empty run without a
  newline, \<^verbatim>\<open>[^/]+\<close> a non-empty run without a slash; both ends are anchored.
\<close>

datatype piece = Byte char | AnyRun | NoSlashRun

fun compile :: "nat \<Rightarrow> string \<Rightarrow> piece list" where
  "compile 0 s = []"
| "compile (Suc n) s =
    (if s = [] then []
     else if HasPrefix s ''{name}'' then AnyRun # compile n (drop 6 s)
     else if HasPrefix s ''{id}'' then NoSlashRun # compile n (drop 4 s)
     else Byte (hd s) # compile n (tl s))"

text \<open>Every round consumes a byte, so the length of the path is enough fuel.\<close>

definition compileRoutePattern :: "string \<Rightarrow> piece list" where
  "compileRoutePattern path = compile (length path) path"

fun run_char :: "piece \<Rightarrow> char \<Rightarrow> bool" where
  "run_char (Byte b) c = (c = b)"
| "run_char AnyRun c = (c \<noteq> CHR 0x0A)"
| "run_char NoSlashRun c = (c \<noteq> CHR ''/'')"

fun MatchString :: "piece list \<Rightarrow> string \<Rightarrow> bool" where
  "MatchString [] s = (s = [])"
| "MatchString (Byte b # ps) s = (case s of [] \<Rightarrow> False | c # cs \<Rightarrow> c = b \<and> MatchString ps cs)"
| "MatchString (p # ps) s =
    list_ex (\<lambda>k. list_all (run_char p) (take k s) \<and> MatchString ps (drop k s)) [1..<Suc (length s)]"

datatype dispatch = Serve http_handler | Refuse docker_error

fun serve_routes :: "route_capability list \<Rightarrow> string \<Rightarrow> string \<Rightarrow> dispatch" where
  "serve_routes [] method path = Refuse (NewNotFound ''page not found'')"
| "serve_routes (r # rs) method path =
    (if rc_Method r \<noteq> method \<or> \<not> MatchString (compileRoutePattern (rc_Path r)) path
     then serve_routes rs method path
     else case (if rc_Supported r then rc_Handler r else None) of
       None \<Rightarrow> Refuse (NewNotImplemented (''endpoint '' @ method @ '' '' @ path @ '' is not implemented''))
     | Some h \<Rightarrow> Serve h)"

definition ServeHTTP :: "route_capability list \<Rightarrow> string \<Rightarrow> string \<Rightarrow> dispatch" where
  "ServeHTTP matrix method url_path = serve_routes matrix method (unversionedPath url_path)"

text \<open>The handler the daemon serves; \<open>has_service\<close> is \<^verbatim>\<open>deps.Service != nil\<close>.\<close>

definition NewRouterWithDependencies :: "bool \<Rightarrow> string \<Rightarrow> string \<Rightarrow> dispatch" where
  "NewRouterWithDependencies has_service method url_path =
    (case version_gate NewVersionMiddleware url_path of
       Some e \<Rightarrow> Refuse e
     | None \<Rightarrow> ServeHTTP (if has_service then serviceRouteMatrix else MVPRouteMatrix) method url_path)"

definition pathParameter :: "string \<Rightarrow> string \<Rightarrow> string \<Rightarrow> string" where
  "pathParameter url_path pre suf = TrimSuffix (TrimPrefix (unversionedPath url_path) pre) suf"

section \<open>Version negotiation\<close>

lemma parse_component_dec:
  assumes "n < 2 ^ 63"
  shows "parse_component (dec_digits n) = Inr (int n)"
  using Atoi_Itoa [of "int n"] assms by (simp add: parse_component_def Itoa_def)

lemma dec_digits_dot: "c \<in> set (dec_digits n) \<Longrightarrow> is_digit c \<and> c \<noteq> CHR ''.'' \<and> c \<noteq> CHR ''/''"
  using dec_digits_all_digits [of n] by (auto simp: list_all_iff is_digit_def)

definition version_text :: "nat \<Rightarrow> nat \<Rightarrow> string" where
  "version_text major minor = dec_digits major @ ''.'' @ dec_digits minor"

lemma parse_version_text:
  assumes "major < 2 ^ 63" and "minor < 2 ^ 63"
  shows "parseAPIVersion (version_text major minor) = Inr [int major, int minor]"
proof -
  have "CHR ''.'' \<notin> set (dec_digits n)" for n using dec_digits_dot by blast
  then have "Split CHR ''.'' (version_text major minor) = [dec_digits major, dec_digits minor]"
    by (simp add: version_text_def Split_append Split_no_sep)
  then show ?thesis using assms by (simp add: parseAPIVersion_def parse_component_dec)
qed

lemma version_text_chars:
  "allVersionCharacters (version_text major minor)" "CHR ''/'' \<notin> set (version_text major minor)"
  "version_text major minor \<noteq> []"
  using dec_digits_all_digits dec_digits_dot
  by (fastforce simp: version_text_def allVersionCharacters_def list_all_iff)+

lemma versionFromPath_text:
  assumes "major < 2 ^ 63" and "minor < 2 ^ 63"
  shows "versionFromPath (''/v'' @ version_text major minor @ ''/'' @ p) = Inr (version_text major minor, True)"
  using version_text_chars [of major minor] parse_version_text [OF assms]
  by (simp add: versionFromPath_def HasPrefix_def TrimPrefix_def Let_def)

lemma compare_two:
  "compare_from [a, b] [c, d] [0..<2] = (if a < c \<or> a = c \<and> b < d then -1 else if a = c \<and> b = d then 0 else 1)"
  by (auto simp: part_at_def upt_rec)

lemma compare_text:
  assumes "major < 2 ^ 63" and "minor < 2 ^ 63" and "parseAPIVersion r = Inr [c, d]"
  shows "compareAPIVersions (version_text major minor) r =
    Inr (if int major < c \<or> int major = c \<and> int minor < d then -1
         else if int major = c \<and> int minor = d then 0 else 1)"
  using compare_two [of "int major" "int minor" c d]
  by (simp add: compareAPIVersions_def parse_version_text [OF assms(1,2)] assms(3) numeral_2_eq_2)

lemma parse_bounds:
  "parseAPIVersion AdvertisedAPIVersion = Inr [1, 44]" "parseAPIVersion MinimumAPIVersion = Inr [1, 24]"
  by code_simp+

text \<open>
  C39: a request under \<^verbatim>\<open>/v<major>.<minor>/\<close> passes the version gate exactly for the versions
  1.24 to 1.44 and is refused with status 400 otherwise; the handlers then see the path without the
  prefix and the version of the client.
\<close>

theorem version_negotiation:
  assumes "major < 2 ^ 63" and "minor < 2 ^ 63"
    and "url = ''/v'' @ version_text major minor @ ''/'' @ p"
  shows "(case version_gate NewVersionMiddleware url of
      None \<Rightarrow> major = 1 \<and> 24 \<le> minor \<and> minor \<le> 44
    | Some e \<Rightarrow> \<not> (major = 1 \<and> 24 \<le> minor \<and> minor \<le> 44) \<and> docker_error_StatusCode (Some e) = 400)
    \<and> unversionedPath url = ''/'' @ p \<and> apiVersionFromRequest url = version_text major minor"
proof -
  note v = versionFromPath_text [OF assms(1,2), of p]
  have "TrimPrefix url (''/v'' @ version_text major minor) = ''/'' @ p"
    unfolding assms(3) using TrimPrefix_append [of "''/v'' @ version_text major minor" "''/'' @ p"] by simp
  with v have "unversionedPath url = ''/'' @ p" "apiVersionFromRequest url = version_text major minor"
    by (simp_all add: unversionedPath_def apiVersionFromRequest_def assms(3))
  moreover have "docker_error_StatusCode (Some (NewInvalidParameter m)) = 400" for m
    by (simp add: docker_error_StatusCode_def api_error_defs)
  ultimately show ?thesis
    using v compare_text [OF assms(1,2) parse_bounds(1)] compare_text [OF assms(1,2) parse_bounds(2)]
    by (auto simp: version_gate_def NewVersionMiddleware_def assms(3))
qed

theorem version_negotiation_witness:
  "version_gate NewVersionMiddleware ''/v1.43/containers/json'' = None
   \<and> unversionedPath ''/v1.43/containers/json'' = ''/containers/json''"
proof -
  have "version_text 1 43 = ''1.43''" by code_simp
  with version_negotiation [of 1 43 "''/v1.43/containers/json''" "''containers/json''"] show ?thesis
    by (auto split: option.splits)
qed

section \<open>Dispatch\<close>

lemma match_bytes: "MatchString (map Byte l @ ps) s \<longleftrightarrow> (\<exists>t. s = l @ t \<and> MatchString ps t)"
  by (induction l arbitrary: s) (auto split: list.splits)

lemma match_run:
  assumes "p = AnyRun \<or> p = NoSlashRun"
  shows "MatchString (p # ps) s \<longleftrightarrow> (\<exists>u v. s = u @ v \<and> u \<noteq> [] \<and> list_all (run_char p) u \<and> MatchString ps v)"
proof -
  have "MatchString (p # ps) s \<longleftrightarrow> (\<exists>k. 1 \<le> k \<and> k \<le> length s \<and> list_all (run_char p) (take k s) \<and> MatchString ps (drop k s))"
  proof -
    have "k \<in> set [1..<Suc (length s)] \<longleftrightarrow> 1 \<le> k \<and> k \<le> length s" for k by auto
    then show ?thesis using assms by (elim disjE) (simp_all only: MatchString.simps list_ex_iff Bex_def conj_assoc)
  qed
  also have "\<dots> \<longleftrightarrow> (\<exists>u v. s = u @ v \<and> u \<noteq> [] \<and> list_all (run_char p) u \<and> MatchString ps v)"
  proof safe
    fix k assume "1 \<le> k" "k \<le> length s" "list_all (run_char p) (take k s)" "MatchString ps (drop k s)"
    then show "\<exists>u v. s = u @ v \<and> u \<noteq> [] \<and> list_all (run_char p) u \<and> MatchString ps v"
      by (intro exI [of _ "take k s"] exI [of _ "drop k s"]) auto
  next
    fix u v assume "u \<noteq> []" "list_all (run_char p) u" "MatchString ps v"
    then show "\<exists>k\<ge>1. k \<le> length (u @ v) \<and> list_all (run_char p) (take k (u @ v)) \<and> MatchString ps (drop k (u @ v))"
      by (intro exI [of _ "length u"]) (auto simp: Suc_le_eq)
  qed
  finally show ?thesis .
qed

definition param_ok :: "piece \<Rightarrow> string \<Rightarrow> bool" where
  "param_ok k x \<longleftrightarrow> x \<noteq> [] \<and> list_all (run_char k) x"

lemma match_param:
  assumes "k = AnyRun \<or> k = NoSlashRun"
  shows "MatchString (map Byte pre @ k # map Byte suf) s \<longleftrightarrow> (\<exists>x. s = pre @ x @ suf \<and> param_ok k x)"
  using match_bytes [of suf "[]"] by (auto simp: match_bytes match_run [OF assms] param_ok_def)

lemma match_literal: "MatchString (map Byte l) s \<longleftrightarrow> s = l"
  using match_bytes [of l "[]" s] by simp

text \<open>The patterns of the matrix as literal text around at most one parameter.\<close>

lemma route_patterns:
  "compileRoutePattern ''/_ping'' = map Byte ''/_ping''"
  "compileRoutePattern ''/version'' = map Byte ''/version''"
  "compileRoutePattern ''/info'' = map Byte ''/info''"
  "compileRoutePattern ''/images/{name}/json'' = map Byte ''/images/'' @ AnyRun # map Byte ''/json''"
  "compileRoutePattern ''/images/create'' = map Byte ''/images/create''"
  "compileRoutePattern ''/images/json'' = map Byte ''/images/json''"
  "compileRoutePattern ''/images/{name}'' = map Byte ''/images/'' @ AnyRun # map Byte []"
  "compileRoutePattern ''/build'' = map Byte ''/build''"
  "compileRoutePattern ''/containers/create'' = map Byte ''/containers/create''"
  "compileRoutePattern ''/containers/json'' = map Byte ''/containers/json''"
  "compileRoutePattern ''/containers/{id}/json'' = map Byte ''/containers/'' @ NoSlashRun # map Byte ''/json''"
  "compileRoutePattern ''/containers/{id}/start'' = map Byte ''/containers/'' @ NoSlashRun # map Byte ''/start''"
  "compileRoutePattern ''/containers/{id}/stop'' = map Byte ''/containers/'' @ NoSlashRun # map Byte ''/stop''"
  "compileRoutePattern ''/containers/{id}/logs'' = map Byte ''/containers/'' @ NoSlashRun # map Byte ''/logs''"
  "compileRoutePattern ''/containers/{id}/exec'' = map Byte ''/containers/'' @ NoSlashRun # map Byte ''/exec''"
  "compileRoutePattern ''/containers/{id}'' = map Byte ''/containers/'' @ NoSlashRun # map Byte []"
  "compileRoutePattern ''/networks'' = map Byte ''/networks''"
  "compileRoutePattern ''/networks/{id}'' = map Byte ''/networks/'' @ NoSlashRun # map Byte []"
  "compileRoutePattern ''/networks/create'' = map Byte ''/networks/create''"
  "compileRoutePattern ''/networks/{id}/connect'' = map Byte ''/networks/'' @ NoSlashRun # map Byte ''/connect''"
  "compileRoutePattern ''/exec/{id}/start'' = map Byte ''/exec/'' @ NoSlashRun # map Byte ''/start''"
  "compileRoutePattern ''/exec/{id}/json'' = map Byte ''/exec/'' @ NoSlashRun # map Byte ''/json''"
  by code_simp+

lemma route_match:
  "MatchString (compileRoutePattern ''/_ping'') s \<longleftrightarrow> s = ''/_ping''"
  "MatchString (compileRoutePattern ''/version'') s \<longleftrightarrow> s = ''/version''"
  "MatchString (compileRoutePattern ''/info'') s \<longleftrightarrow> s = ''/info''"
  "MatchString (compileRoutePattern ''/images/{name}/json'') s \<longleftrightarrow> (\<exists>x. s = ''/images/'' @ x @ ''/json'' \<and> param_ok AnyRun x)"
  "MatchString (compileRoutePattern ''/images/create'') s \<longleftrightarrow> s = ''/images/create''"
  "MatchString (compileRoutePattern ''/images/json'') s \<longleftrightarrow> s = ''/images/json''"
  "MatchString (compileRoutePattern ''/images/{name}'') s \<longleftrightarrow> (\<exists>x. s = ''/images/'' @ x @ [] \<and> param_ok AnyRun x)"
  "MatchString (compileRoutePattern ''/build'') s \<longleftrightarrow> s = ''/build''"
  "MatchString (compileRoutePattern ''/containers/create'') s \<longleftrightarrow> s = ''/containers/create''"
  "MatchString (compileRoutePattern ''/containers/json'') s \<longleftrightarrow> s = ''/containers/json''"
  "MatchString (compileRoutePattern ''/containers/{id}/json'') s \<longleftrightarrow> (\<exists>x. s = ''/containers/'' @ x @ ''/json'' \<and> param_ok NoSlashRun x)"
  "MatchString (compileRoutePattern ''/containers/{id}/start'') s \<longleftrightarrow> (\<exists>x. s = ''/containers/'' @ x @ ''/start'' \<and> param_ok NoSlashRun x)"
  "MatchString (compileRoutePattern ''/containers/{id}/stop'') s \<longleftrightarrow> (\<exists>x. s = ''/containers/'' @ x @ ''/stop'' \<and> param_ok NoSlashRun x)"
  "MatchString (compileRoutePattern ''/containers/{id}/logs'') s \<longleftrightarrow> (\<exists>x. s = ''/containers/'' @ x @ ''/logs'' \<and> param_ok NoSlashRun x)"
  "MatchString (compileRoutePattern ''/containers/{id}/exec'') s \<longleftrightarrow> (\<exists>x. s = ''/containers/'' @ x @ ''/exec'' \<and> param_ok NoSlashRun x)"
  "MatchString (compileRoutePattern ''/containers/{id}'') s \<longleftrightarrow> (\<exists>x. s = ''/containers/'' @ x @ [] \<and> param_ok NoSlashRun x)"
  "MatchString (compileRoutePattern ''/networks'') s \<longleftrightarrow> s = ''/networks''"
  "MatchString (compileRoutePattern ''/networks/{id}'') s \<longleftrightarrow> (\<exists>x. s = ''/networks/'' @ x @ [] \<and> param_ok NoSlashRun x)"
  "MatchString (compileRoutePattern ''/networks/create'') s \<longleftrightarrow> s = ''/networks/create''"
  "MatchString (compileRoutePattern ''/networks/{id}/connect'') s \<longleftrightarrow> (\<exists>x. s = ''/networks/'' @ x @ ''/connect'' \<and> param_ok NoSlashRun x)"
  "MatchString (compileRoutePattern ''/exec/{id}/start'') s \<longleftrightarrow> (\<exists>x. s = ''/exec/'' @ x @ ''/start'' \<and> param_ok NoSlashRun x)"
  "MatchString (compileRoutePattern ''/exec/{id}/json'') s \<longleftrightarrow> (\<exists>x. s = ''/exec/'' @ x @ ''/json'' \<and> param_ok NoSlashRun x)"
  by (simp_all only: route_patterns match_literal match_param [OF disjI1 [OF refl]] match_param [OF disjI2 [OF refl]])

text \<open>
  A route with a parameter: the text before and after it, the kind of run, and the handler. The
  handlers take the parameter back out of the path with the same two texts.
\<close>

definition param_routes :: "(string \<times> string \<times> piece \<times> string \<times> http_handler) list" where
  "param_routes =
    [(''GET'', ''/images/'', AnyRun, ''/json'', ImageInspect), (''DELETE'', ''/images/'', AnyRun, [], ImageRemove),
     (''GET'', ''/containers/'', NoSlashRun, ''/json'', ContainerInspectH),
     (''POST'', ''/containers/'', NoSlashRun, ''/start'', ContainerStartH),
     (''POST'', ''/containers/'', NoSlashRun, ''/stop'', ContainerStopH),
     (''GET'', ''/containers/'', NoSlashRun, ''/logs'', ContainerLogsH),
     (''POST'', ''/containers/'', NoSlashRun, ''/exec'', ExecCreateH),
     (''DELETE'', ''/containers/'', NoSlashRun, [], ContainerRemoveH),
     (''GET'', ''/networks/'', NoSlashRun, [], NetworkInspectH),
     (''POST'', ''/networks/'', NoSlashRun, ''/connect'', NetworkConnectH),
     (''DELETE'', ''/networks/'', NoSlashRun, [], NetworkRemoveH),
     (''POST'', ''/exec/'', NoSlashRun, ''/start'', ExecStartH), (''GET'', ''/exec/'', NoSlashRun, ''/json'', ExecInspectH)]"

lemma append_last_differ:
  assumes "u \<noteq> []" and "v \<noteq> []" and "last u \<noteq> last v"
  shows "x @ u \<noteq> y @ v"
  using assms by (metis last_appendR)

lemma append_longer: "length v < length u \<Longrightarrow> x @ u \<noteq> v"
  by (metis length_append not_add_less2)

lemma serve_param_route:
  assumes "(method, pre, k, suf, h) \<in> set param_routes" and "param_ok k x"
  shows "serve_routes serviceRouteMatrix method (pre @ x @ suf) = Serve h"
    and "serve_routes MVPRouteMatrix method (pre @ x @ suf)
      = Refuse (NewNotImplemented (''endpoint '' @ method @ '' '' @ (pre @ x @ suf) @ '' is not implemented''))"
proof -
  have "x \<noteq> []" using assms(2) by (simp add: param_ok_def)
  note facts = this serviceRouteMatrix_def MVPRouteMatrix_def supported_def unsupported_def
    route_match append_last_differ append_longer
  note cases = assms(1) [unfolded param_routes_def list.set insert_iff empty_iff prod.inject]
  show "serve_routes serviceRouteMatrix method (pre @ x @ suf) = Serve h"
    using cases assms(2)
    by (elim disjE conjE FalseE) (simp_all add: facts del: MatchString.simps)
  show "serve_routes MVPRouteMatrix method (pre @ x @ suf)
      = Refuse (NewNotImplemented (''endpoint '' @ method @ '' '' @ (pre @ x @ suf) @ '' is not implemented''))"
    using cases assms(2)
    by (elim disjE conjE FalseE) (simp_all add: facts del: MatchString.simps)
qed

text \<open>
  C40: a request for an endpoint with a parameter reaches exactly the handler of that endpoint,
  whatever the parameter is (an image name may hold slashes, an identity may not), and the handler
  takes exactly that parameter out of the path; without an application service the same request is
  answered with status 501.
\<close>

theorem request_routing:
  assumes "(method, pre, k, suf, h) \<in> set param_routes" and "param_ok k x"
    and "version_gate NewVersionMiddleware url = None" and "unversionedPath url = pre @ x @ suf"
  shows "NewRouterWithDependencies True method url = Serve h \<and> pathParameter url pre suf = x
    \<and> (case NewRouterWithDependencies False method url of
         Serve h' \<Rightarrow> False | Refuse e \<Rightarrow> docker_error_StatusCode (Some e) = 501)"
proof -
  have "TrimSuffix (TrimPrefix (pre @ x @ suf) pre) suf = x" by simp
  then show ?thesis
    using serve_param_route [OF assms(1,2)] assms(3,4)
    by (simp add: NewRouterWithDependencies_def ServeHTTP_def pathParameter_def
        docker_error_StatusCode_def api_error_defs)
qed

theorem request_routing_witness:
  "NewRouterWithDependencies True ''GET'' ''/v1.43/images/library/redis/json'' = Serve ImageInspect
   \<and> pathParameter ''/v1.43/images/library/redis/json'' ''/images/'' ''/json'' = ''library/redis''"
proof -
  have "version_gate NewVersionMiddleware ''/v1.43/images/library/redis/json'' = None"
    "unversionedPath ''/v1.43/images/library/redis/json'' = ''/images/'' @ ''library/redis'' @ ''/json''"
    "param_ok AnyRun ''library/redis''"
    by code_simp+
  then show ?thesis
    using request_routing [of "''GET''" "''/images/''" AnyRun "''/json''" ImageInspect]
    by (simp add: param_routes_def)
qed

end
