(* ===== verification/Api_Create.thy ===== *)
theory Api_Create
  imports Api_Router Ports_Types Go_Path "HOL-Library.Product_Lexorder"
begin

text \<open>
  \<^verbatim>\<open>internal/api/container_fields.go\<close> and the request side of
  \<^verbatim>\<open>handlers_containers.go\<close>: which fields of a container-create request the daemon honours,
  and the translation of ports, mounts, environment and network mode into the request of the
  application service.

  The records hold the fields of the Moby types that the code reads. A collection whose length
  alone is read is the empty list when it is nil or empty, and a pointer that is only compared with
  nil is a truth value. The embedded \<^verbatim>\<open>Resources\<close> are compared as a whole by
  \<^verbatim>\<open>reflect.DeepEqual\<close>, which tells a nil slice from an empty one: their slices and pointers are
  options, and the elements of their slices stand for themselves as text.
\<close>

section \<open>Requests\<close>

type_synonym port = "u16 \<times> string"

text \<open>\<open>pbm_HostIP\<close> is the text of a valid address, \<open>None\<close> the zero \<^verbatim>\<open>netip.Addr\<close>.\<close>

record moby_port_binding =
  pbm_HostIP :: "string option"
  pbm_HostPort :: string

record tmpfs_options =
  tm_SizeBytes :: int
  tm_Mode :: nat
  tm_Options :: "string list list"

record moby_mount =
  mm_Type :: string
  mm_Source :: string
  mm_Target :: string
  mm_ReadOnly :: bool
  mm_Propagation :: "string option"
  mm_TmpfsOptions :: "tmpfs_options option"

record moby_config =
  mc_Hostname :: string
  mc_Domainname :: string
  mc_User :: string
  mc_ExposedPorts :: "port list"
  mc_Tty :: bool
  mc_OpenStdin :: bool
  mc_Env :: "string list"
  mc_Cmd :: "string list"
  mc_Healthcheck :: bool
  mc_Image :: string
  mc_Volumes :: "string list"
  mc_WorkingDir :: string
  mc_Entrypoint :: "string list"
  mc_NetworkDisabled :: bool
  mc_OnBuild :: "string list"
  mc_Labels :: "(string, string) gomap"
  mc_StopSignal :: string
  mc_StopTimeout :: "int option"

record moby_resources =
  rs_CpuShares :: int
  rs_Memory :: int
  rs_NanoCpus :: int
  rs_CgroupParent :: string
  rs_BlkioWeight :: int
  rs_BlkioWeightDevice :: "string list option"
  rs_BlkioDeviceReadBps :: "string list option"
  rs_BlkioDeviceWriteBps :: "string list option"
  rs_BlkioDeviceReadIOps :: "string list option"
  rs_BlkioDeviceWriteIOps :: "string list option"
  rs_CpuPeriod :: int
  rs_CpuQuota :: int
  rs_CpuRealtimePeriod :: int
  rs_CpuRealtimeRuntime :: int
  rs_CpusetCpus :: string
  rs_CpusetMems :: string
  rs_Devices :: "string list option"
  rs_DeviceCgroupRules :: "string list option"
  rs_DeviceRequests :: "string list option"
  rs_MemoryReservation :: int
  rs_MemorySwap :: int
  rs_MemorySwappiness :: "int option"
  rs_OomKillDisable :: "bool option"
  rs_PidsLimit :: "int option"
  rs_Ulimits :: "string list option"
  rs_CpuCount :: int
  rs_CpuPercent :: int
  rs_IOMaximumIOps :: int
  rs_IOMaximumBandwidth :: int

text \<open>The zero value of the struct.\<close>

definition zero_resources :: moby_resources where
  "zero_resources = \<lparr>rs_CpuShares = 0, rs_Memory = 0, rs_NanoCpus = 0, rs_CgroupParent = [], rs_BlkioWeight = 0,
     rs_BlkioWeightDevice = None, rs_BlkioDeviceReadBps = None, rs_BlkioDeviceWriteBps = None,
     rs_BlkioDeviceReadIOps = None, rs_BlkioDeviceWriteIOps = None, rs_CpuPeriod = 0, rs_CpuQuota = 0,
     rs_CpuRealtimePeriod = 0, rs_CpuRealtimeRuntime = 0, rs_CpusetCpus = [], rs_CpusetMems = [],
     rs_Devices = None, rs_DeviceCgroupRules = None, rs_DeviceRequests = None, rs_MemoryReservation = 0,
     rs_MemorySwap = 0, rs_MemorySwappiness = None, rs_OomKillDisable = None, rs_PidsLimit = None,
     rs_Ulimits = None, rs_CpuCount = 0, rs_CpuPercent = 0, rs_IOMaximumIOps = 0,
     rs_IOMaximumBandwidth = 0\<rparr>"

record moby_host_config =
  hc_Binds :: "string list"
  hc_ContainerIDFile :: string
  hc_NetworkMode :: string
  hc_PortBindings :: "(port, moby_port_binding list) gomap"
  hc_RestartPolicyName :: string
  hc_RestartPolicyMax :: int
  hc_VolumeDriver :: string
  hc_VolumesFrom :: "string list"
  hc_Annotations :: "(string, string) gomap"
  hc_CapAdd :: "string list"
  hc_CapDrop :: "string list"
  hc_CgroupnsMode :: string
  hc_IpcMode :: string
  hc_Cgroup :: string
  hc_Links :: "string list"
  hc_OomScoreAdj :: int
  hc_PidMode :: string
  hc_Privileged :: bool
  hc_ReadonlyRootfs :: bool
  hc_SecurityOpt :: "string list"
  hc_StorageOpt :: "(string, string) gomap"
  hc_UTSMode :: string
  hc_UsernsMode :: string
  hc_Sysctls :: "(string, string) gomap"
  hc_Runtime :: string
  hc_Umask :: bool
  hc_Mounts :: "moby_mount list"
  hc_MaskedPaths :: "string list"
  hc_ReadonlyPaths :: "string list"
  hc_Resources :: moby_resources

record moby_create_request =
  mr_Config :: "moby_config option"
  mr_HostConfig :: "moby_host_config option"
  mr_Endpoints :: "string list option"

section \<open>The field policy\<close>

datatype field_policy = FieldHandled | FieldRejected | FieldIgnored

definition configFieldPolicy :: "(string, field_policy) gomap" where
  "configFieldPolicy =
    [(''Hostname'', FieldHandled), (''Domainname'', FieldRejected), (''User'', FieldHandled),
     (''AttachStdin'', FieldIgnored), (''AttachStdout'', FieldIgnored), (''AttachStderr'', FieldIgnored),
     (''ExposedPorts'', FieldRejected), (''Tty'', FieldHandled), (''OpenStdin'', FieldHandled),
     (''StdinOnce'', FieldIgnored), (''Env'', FieldHandled), (''Cmd'', FieldHandled),
     (''Healthcheck'', FieldRejected), (''ArgsEscaped'', FieldIgnored), (''Image'', FieldHandled),
     (''Volumes'', FieldRejected), (''WorkingDir'', FieldHandled), (''Entrypoint'', FieldHandled),
     (''NetworkDisabled'', FieldRejected), (''OnBuild'', FieldRejected), (''Labels'', FieldHandled),
     (''StopSignal'', FieldRejected), (''StopTimeout'', FieldRejected), (''Shell'', FieldIgnored)]"

definition resource_fields :: "string list" where
  "resource_fields =
    [''CpuShares'', ''Memory'', ''NanoCpus'', ''CgroupParent'', ''BlkioWeight'', ''BlkioWeightDevice'',
     ''BlkioDeviceReadBps'', ''BlkioDeviceWriteBps'', ''BlkioDeviceReadIOps'', ''BlkioDeviceWriteIOps'',
     ''CpuPeriod'', ''CpuQuota'', ''CpuRealtimePeriod'', ''CpuRealtimeRuntime'', ''CpusetCpus'', ''CpusetMems'',
     ''Devices'', ''DeviceCgroupRules'', ''DeviceRequests'', ''MemoryReservation'', ''MemorySwap'',
     ''MemorySwappiness'', ''OomKillDisable'', ''PidsLimit'', ''Ulimits'', ''CpuCount'', ''CpuPercent'',
     ''IOMaximumIOps'', ''IOMaximumBandwidth'']"

definition hostConfigFieldPolicy :: "(string, field_policy) gomap" where
  "hostConfigFieldPolicy =
    [(''Binds'', FieldHandled), (''ContainerIDFile'', FieldRejected), (''LogConfig'', FieldIgnored),
     (''NetworkMode'', FieldHandled), (''PortBindings'', FieldHandled), (''RestartPolicy'', FieldRejected),
     (''AutoRemove'', FieldIgnored), (''VolumeDriver'', FieldRejected), (''VolumesFrom'', FieldRejected),
     (''ConsoleSize'', FieldIgnored), (''Annotations'', FieldRejected),
     (''CapAdd'', FieldRejected), (''CapDrop'', FieldRejected), (''CgroupnsMode'', FieldRejected),
     (''Dns'', FieldIgnored), (''DnsOptions'', FieldIgnored), (''DnsSearch'', FieldIgnored),
     (''ExtraHosts'', FieldIgnored), (''GroupAdd'', FieldIgnored), (''IpcMode'', FieldRejected),
     (''Cgroup'', FieldRejected), (''Links'', FieldRejected), (''OomScoreAdj'', FieldRejected),
     (''PidMode'', FieldRejected), (''Privileged'', FieldRejected), (''PublishAllPorts'', FieldIgnored),
     (''ReadonlyRootfs'', FieldRejected), (''SecurityOpt'', FieldRejected), (''StorageOpt'', FieldRejected),
     (''Tmpfs'', FieldIgnored), (''UTSMode'', FieldRejected), (''UsernsMode'', FieldRejected),
     (''ShmSize'', FieldIgnored), (''Sysctls'', FieldRejected), (''Runtime'', FieldRejected),
     (''Umask'', FieldRejected), (''Isolation'', FieldIgnored), (''Mounts'', FieldHandled),
     (''MaskedPaths'', FieldRejected), (''ReadonlyPaths'', FieldRejected), (''Init'', FieldIgnored)]
    @ map (\<lambda>f. (f, FieldRejected)) resource_fields"

section \<open>Validation\<close>

abbreviation defaultContainerRuntime :: string where
  "defaultContainerRuntime \<equiv> ''io.containerd.runc.v2''"

text \<open>A Go \<^verbatim>\<open>switch\<close> without a tag that refuses the first field set.\<close>

fun reject_first :: "(bool \<times> string) list \<Rightarrow> docker_error option" where
  "reject_first [] = None"
| "reject_first ((b, field) # cs) =
    (if b then Some (NewNotImplemented (field @ '' is not supported'')) else reject_first cs)"

definition exposedPortsPublished :: "port list \<Rightarrow> moby_host_config option \<Rightarrow> bool" where
  "exposedPortsPublished exposed hostConfig = (case hostConfig of
     None \<Rightarrow> False
   | Some h \<Rightarrow> list_all (\<lambda>p. get_or [] (hc_PortBindings h) p \<noteq> []) exposed)"

definition validateConfigFields ::
  "moby_config option \<Rightarrow> moby_host_config option \<Rightarrow> docker_error option" where
  "validateConfigFields config hostConfig = (case config of
     None \<Rightarrow> None
   | Some c \<Rightarrow> reject_first
       [(mc_ExposedPorts c \<noteq> [] \<and> \<not> exposedPortsPublished (mc_ExposedPorts c) hostConfig, ''Config.ExposedPorts''),
        (mc_Domainname c \<noteq> [], ''Config.Domainname''), (mc_Healthcheck c, ''Config.Healthcheck''),
        (mc_Volumes c \<noteq> [], ''Config.Volumes''), (mc_NetworkDisabled c, ''Config.NetworkDisabled''),
        (mc_OnBuild c \<noteq> [], ''Config.OnBuild''), (mc_StopSignal c \<noteq> [], ''Config.StopSignal''),
        (mc_StopTimeout c \<noteq> None, ''Config.StopTimeout'')])"

definition validateHostConfigPrivilegeFields :: "moby_host_config \<Rightarrow> docker_error option" where
  "validateHostConfigPrivilegeFields h = reject_first
    [(hc_Privileged h, ''HostConfig.Privileged''), (hc_CapAdd h \<noteq> [], ''HostConfig.CapAdd''),
     (hc_CapDrop h \<noteq> [], ''HostConfig.CapDrop''), (case_option False (\<lambda>ds. ds \<noteq> []) (rs_Devices (hc_Resources h)), ''HostConfig.Devices''),
     (hc_ReadonlyRootfs h, ''HostConfig.ReadonlyRootfs'')]"

definition validateHostConfigPolicyFields :: "moby_host_config \<Rightarrow> docker_error option" where
  "validateHostConfigPolicyFields h = reject_first
    [(hc_Resources h \<noteq> zero_resources, ''HostConfig.Resources''),
     (hc_RestartPolicyName h \<noteq> [] \<or> hc_RestartPolicyMax h \<noteq> 0, ''HostConfig.RestartPolicy''),
     (hc_SecurityOpt h \<noteq> [], ''HostConfig.SecurityOpt'')]"

definition validateHostConfigNamespaceFields :: "moby_host_config \<Rightarrow> docker_error option" where
  "validateHostConfigNamespaceFields h = reject_first
    [(hc_PidMode h \<noteq> [], ''HostConfig.PidMode''), (hc_IpcMode h \<noteq> [], ''HostConfig.IpcMode''),
     (hc_UTSMode h \<noteq> [], ''HostConfig.UTSMode''), (hc_UsernsMode h \<noteq> [], ''HostConfig.UsernsMode''),
     (hc_CgroupnsMode h \<noteq> [], ''HostConfig.CgroupnsMode'')]"

definition validateHostConfigHardeningFields :: "moby_host_config \<Rightarrow> docker_error option" where
  "validateHostConfigHardeningFields h = reject_first
    [(hc_Sysctls h \<noteq> [], ''HostConfig.Sysctls''), (hc_MaskedPaths h \<noteq> [], ''HostConfig.MaskedPaths''),
     (hc_ReadonlyPaths h \<noteq> [], ''HostConfig.ReadonlyPaths'')]"

definition validateHostConfigRuntimeFields :: "moby_host_config \<Rightarrow> docker_error option" where
  "validateHostConfigRuntimeFields h = reject_first
    [(hc_Runtime h \<noteq> [] \<and> hc_Runtime h \<noteq> defaultContainerRuntime, ''HostConfig.Runtime''),
     (hc_VolumesFrom h \<noteq> [], ''HostConfig.VolumesFrom''), (hc_OomScoreAdj h \<noteq> 0, ''HostConfig.OomScoreAdj''),
     (hc_ContainerIDFile h \<noteq> [], ''HostConfig.ContainerIDFile'')]"

definition validateHostConfigHostPathFields :: "moby_host_config \<Rightarrow> docker_error option" where
  "validateHostConfigHostPathFields h = reject_first
    [(hc_VolumeDriver h \<noteq> [], ''HostConfig.VolumeDriver''), (hc_Annotations h \<noteq> [], ''HostConfig.Annotations''),
     (hc_Cgroup h \<noteq> [], ''HostConfig.Cgroup''), (hc_Links h \<noteq> [], ''HostConfig.Links''),
     (hc_StorageOpt h \<noteq> [], ''HostConfig.StorageOpt''), (hc_Umask h, ''HostConfig.Umask'')]"

definition hostConfigFieldValidators :: "(moby_host_config \<Rightarrow> docker_error option) list" where
  "hostConfigFieldValidators =
    [validateHostConfigPrivilegeFields, validateHostConfigPolicyFields, validateHostConfigNamespaceFields,
     validateHostConfigHardeningFields, validateHostConfigRuntimeFields, validateHostConfigHostPathFields]"

fun validateStructuredMounts :: "moby_mount list \<Rightarrow> docker_error option" where
  "validateStructuredMounts [] = None"
| "validateStructuredMounts (m # ms) =
    (let mountType = (if mm_Type m = [] then ''bind'' else mm_Type m) in
     if mountType = ''bind'' then
       (if \<not> IsAbs (mm_Source m)
        then Some (NewInvalidParameter (''HostConfig.Mounts source '' @ quote (mm_Source m)
               @ '' must be an absolute path for a bind mount''))
        else validateStructuredMounts ms)
     else if mountType = ''tmpfs'' then
       (if mm_Source m \<noteq> []
        then Some (NewInvalidParameter (''HostConfig.Mounts source '' @ quote (mm_Source m)
               @ '' must be empty for a tmpfs mount''))
        else validateStructuredMounts ms)
     else Some (NewNotImplemented (''HostConfig.Mounts type '' @ quote mountType @ '' is not supported'')))"

fun validateBinds :: "string list \<Rightarrow> docker_error option" where
  "validateBinds [] = None"
| "validateBinds (b # bs) =
    (let parts = Split CHR '':'' b in
     if length parts < 2 \<or> TrimSpace (parts ! 0) = [] \<or> TrimSpace (parts ! 1) = []
     then Some (NewInvalidParameter (''invalid bind mount specification: '' @ quote b))
     else validateBinds bs)"

fun first_error :: "('a \<Rightarrow> 'b option) list \<Rightarrow> 'a \<Rightarrow> 'b option" where
  "first_error [] x = None"
| "first_error (f # fs) x = (case f x of Some e \<Rightarrow> Some e | None \<Rightarrow> first_error fs x)"

definition validateHostConfigFields :: "moby_host_config \<Rightarrow> docker_error option" where
  "validateHostConfigFields h = (case first_error hostConfigFieldValidators h of
     Some e \<Rightarrow> Some e
   | None \<Rightarrow> (case validateStructuredMounts (hc_Mounts h) of
       Some e \<Rightarrow> Some e
     | None \<Rightarrow> validateBinds (hc_Binds h)))"

definition api_validateContainerCreate :: "moby_create_request option \<Rightarrow> docker_error option" where
  "api_validateContainerCreate payload = (case payload of
     None \<Rightarrow> None
   | Some p \<Rightarrow> (case validateConfigFields (mr_Config p) (mr_HostConfig p) of
       Some e \<Rightarrow> Some e
     | None \<Rightarrow> (case mr_HostConfig p of None \<Rightarrow> None | Some h \<Rightarrow> validateHostConfigFields h)))"

section \<open>Translation\<close>

text \<open>\<^verbatim>\<open>envMap\<close>: later entries win; an entry without an equals sign has an empty value.\<close>

definition env_entry :: "string \<Rightarrow> string \<times> string" where
  "env_entry e = (case CutByte CHR ''='' e of None \<Rightarrow> (e, []) | Some (k, v) \<Rightarrow> (k, v))"

definition envMap :: "string list \<Rightarrow> (string, string) gomap" where
  "envMap env = foldl (\<lambda>m e. case env_entry e of (k, v) \<Rightarrow> put k v m) [] env"

definition envSlice :: "(string, string) gomap \<Rightarrow> string list" where
  "envSlice env = map (\<lambda>k. k @ ''='' @ get_or [] env k) (sorted_keys env)"

definition requestedNetworkMode :: "moby_create_request \<Rightarrow> string" where
  "requestedNetworkMode payload =
    (let from_endpoints = (case mr_Endpoints payload of
           None \<Rightarrow> [] | Some names \<Rightarrow> (case sort names of [] \<Rightarrow> [] | n # _ \<Rightarrow> n))
     in case mr_HostConfig payload of
          Some h \<Rightarrow> if TrimSpace (hc_NetworkMode h) \<noteq> [] then hc_NetworkMode h else from_endpoints
        | None \<Rightarrow> from_endpoints)"

definition request_binding :: "port \<Rightarrow> moby_port_binding \<Rightarrow> docker_error + port_binding" where
  "request_binding p b =
    (let hostIP = (case pbm_HostIP b of None \<Rightarrow> [] | Some ip \<Rightarrow> ip);
         binding = (\<lambda>hostPort. \<lparr>pb_ContainerPort = fst p, pb_Protocol = ToLower (snd p), pb_HostIP = hostIP,
                      pb_HostPort = word_of_int hostPort\<rparr>)
     in if pbm_HostPort b = [] then Inr (binding 0)
        else case Atoi (pbm_HostPort b) of
          None \<Rightarrow> Inl (NewInvalidParameter ''HostConfig.PortBindings contains an invalid HostPort'')
        | Some n \<Rightarrow> if n < 0 \<or> n > 65535
            then Inl (NewInvalidParameter ''HostConfig.PortBindings contains an invalid HostPort'')
            else Inr (binding n))"

definition requestedPortBindings :: "moby_host_config option \<Rightarrow> docker_error + port_binding list" where
  "requestedPortBindings hostConfig = (case hostConfig of
     None \<Rightarrow> Inr []
   | Some h \<Rightarrow> rbind (mapM (\<lambda>(p, b). request_binding p b)
         (concat (map (\<lambda>(p, bs). map (Pair p) bs) (hc_PortBindings h))))
       (\<lambda>bs. Inr (sort_key (\<lambda>b. (pb_ContainerPort b, pb_HostPort b)) bs)))"

fun apply_bind_options :: "string list \<Rightarrow> mount \<Rightarrow> mount" where
  "apply_bind_options [] m = m"
| "apply_bind_options (opt # opts) m =
    apply_bind_options opts
      (let o' = ToLower (TrimSpace opt) in
       if o' = ''ro'' then m\<lparr>mt_ReadOnly := True\<rparr>
       else if o' = [] then m
       else m\<lparr>mt_Options := mt_Options m @ [opt]\<rparr>)"

definition applyBindOptions :: "string \<Rightarrow> mount \<Rightarrow> mount" where
  "applyBindOptions options m = apply_bind_options (Split CHR '','' options) m"

definition translateBindMount :: "string \<Rightarrow> mount option" where
  "translateBindMount bind =
    (let parts = Split CHR '':'' bind in
     if length parts < 2 \<or> parts ! 0 = [] \<or> parts ! 1 = [] then None
     else
       let m = \<lparr>mt_Type = ''bind'', mt_Source = parts ! 0, mt_Destination = parts ! 1, mt_ReadOnly = False, mt_Options = []\<rparr>
       in Some (if length parts \<ge> 3 then applyBindOptions (parts ! 2) m else m))"

text \<open>\<^verbatim>\<open>%o\<close> of an unsigned number.\<close>

fun oct_digits :: "nat \<Rightarrow> string" where
  "oct_digits n = (if n < 8 then [char_of (48 + n)] else oct_digits (n div 8) @ [char_of (48 + n mod 8)])"

declare oct_digits.simps [simp del]

definition tmpfs_option :: "string list \<Rightarrow> string list" where
  "tmpfs_option opt = (case opt of [k] \<Rightarrow> [k] | [k, v] \<Rightarrow> [k @ ''='' @ v] | _ \<Rightarrow> [])"

definition applyTmpfsOptions :: "tmpfs_options option \<Rightarrow> mount \<Rightarrow> mount" where
  "applyTmpfsOptions options m = (case options of None \<Rightarrow> m
   | Some t \<Rightarrow> m\<lparr>mt_Options := mt_Options m
       @ (if tm_SizeBytes t > 0 then [''size='' @ Itoa (tm_SizeBytes t)] else [])
       @ (if tm_Mode t \<noteq> 0 then [''mode='' @ oct_digits (tm_Mode t)] else [])
       @ concat (map tmpfs_option (tm_Options t))\<rparr>)"

definition translateStructuredMount :: "moby_mount \<Rightarrow> mount" where
  "translateStructuredMount r = applyTmpfsOptions (mm_TmpfsOptions r)
    \<lparr>mt_Type = (if mm_Type r = [] then ''bind'' else mm_Type r), mt_Source = mm_Source r,
     mt_Destination = mm_Target r, mt_ReadOnly = mm_ReadOnly r,
     mt_Options = (case mm_Propagation r of Some p \<Rightarrow> if p \<noteq> [] then [p] else [] | None \<Rightarrow> [])\<rparr>"

definition requestedMounts :: "moby_host_config option \<Rightarrow> mount list" where
  "requestedMounts hostConfig = (case hostConfig of
     None \<Rightarrow> []
   | Some h \<Rightarrow> List.map_filter translateBindMount (hc_Binds h) @ map translateStructuredMount (hc_Mounts h))"

text \<open>
  The handler up to the call of the service: the error it answers or the request it passes on.
  \<open>name\<close> is the query parameter, \<open>payload\<close> the decoded body.
\<close>

definition containerCreate_request :: "string \<Rightarrow> moby_create_request \<Rightarrow> docker_error + container_create_request" where
  "containerCreate_request name payload = (case mr_Config payload of
     None \<Rightarrow> Inl (NewInvalidParameter ''Config is required'')
   | Some c \<Rightarrow> (case api_validateContainerCreate (Some payload) of
       Some e \<Rightarrow> Inl e
     | None \<Rightarrow> rbind (requestedPortBindings (mr_HostConfig payload)) (\<lambda>bindings.
         Inr \<lparr>cc_Name = name, cc_Image = mc_Image c, cc_Command = mc_Cmd c, cc_Entrypoint = mc_Entrypoint c,
           cc_Env = envMap (mc_Env c), cc_WorkingDir = mc_WorkingDir c, cc_User = mc_User c,
           cc_Hostname = mc_Hostname c, cc_Labels = mc_Labels c, cc_TTY = mc_Tty c, cc_OpenStdin = mc_OpenStdin c,
           cc_NetworkMode = requestedNetworkMode payload, cc_PortBindings = bindings,
           cc_Mounts = requestedMounts (mr_HostConfig payload)\<rparr>)))"

section \<open>The policy is what the validators enforce\<close>

text \<open>
  For every rejected field of the two policy tables, when a request sets it to something the daemon
  cannot honour (\<^verbatim>\<open>docs/compatibility.md\<close>, rejected create fields). The lists of the resource limits
  are refused when they are present, the empty list included.
\<close>

definition config_rejected :: "moby_host_config option \<Rightarrow> (string \<times> (moby_config \<Rightarrow> bool)) list" where
  "config_rejected h =
    [(''Domainname'', \<lambda>c. mc_Domainname c \<noteq> []),
     (''ExposedPorts'', \<lambda>c. list_ex (\<lambda>p. case h of None \<Rightarrow> True | Some hc \<Rightarrow> get_or [] (hc_PortBindings hc) p = []) (mc_ExposedPorts c)),
     (''Healthcheck'', mc_Healthcheck), (''Volumes'', \<lambda>c. mc_Volumes c \<noteq> []),
     (''NetworkDisabled'', mc_NetworkDisabled), (''OnBuild'', \<lambda>c. mc_OnBuild c \<noteq> []),
     (''StopSignal'', \<lambda>c. mc_StopSignal c \<noteq> []), (''StopTimeout'', \<lambda>c. mc_StopTimeout c \<noteq> None)]"

definition resource_rejected :: "(string \<times> (moby_resources \<Rightarrow> bool)) list" where
  "resource_rejected =
    [(''CpuShares'', \<lambda>r. rs_CpuShares r \<noteq> 0),
     (''Memory'', \<lambda>r. rs_Memory r \<noteq> 0),
     (''NanoCpus'', \<lambda>r. rs_NanoCpus r \<noteq> 0),
     (''CgroupParent'', \<lambda>r. rs_CgroupParent r \<noteq> []),
     (''BlkioWeight'', \<lambda>r. rs_BlkioWeight r \<noteq> 0),
     (''BlkioWeightDevice'', \<lambda>r. rs_BlkioWeightDevice r \<noteq> None),
     (''BlkioDeviceReadBps'', \<lambda>r. rs_BlkioDeviceReadBps r \<noteq> None),
     (''BlkioDeviceWriteBps'', \<lambda>r. rs_BlkioDeviceWriteBps r \<noteq> None),
     (''BlkioDeviceReadIOps'', \<lambda>r. rs_BlkioDeviceReadIOps r \<noteq> None),
     (''BlkioDeviceWriteIOps'', \<lambda>r. rs_BlkioDeviceWriteIOps r \<noteq> None),
     (''CpuPeriod'', \<lambda>r. rs_CpuPeriod r \<noteq> 0),
     (''CpuQuota'', \<lambda>r. rs_CpuQuota r \<noteq> 0),
     (''CpuRealtimePeriod'', \<lambda>r. rs_CpuRealtimePeriod r \<noteq> 0),
     (''CpuRealtimeRuntime'', \<lambda>r. rs_CpuRealtimeRuntime r \<noteq> 0),
     (''CpusetCpus'', \<lambda>r. rs_CpusetCpus r \<noteq> []),
     (''CpusetMems'', \<lambda>r. rs_CpusetMems r \<noteq> []),
     (''Devices'', \<lambda>r. rs_Devices r \<noteq> None),
     (''DeviceCgroupRules'', \<lambda>r. rs_DeviceCgroupRules r \<noteq> None),
     (''DeviceRequests'', \<lambda>r. rs_DeviceRequests r \<noteq> None),
     (''MemoryReservation'', \<lambda>r. rs_MemoryReservation r \<noteq> 0),
     (''MemorySwap'', \<lambda>r. rs_MemorySwap r \<noteq> 0),
     (''MemorySwappiness'', \<lambda>r. rs_MemorySwappiness r \<noteq> None),
     (''OomKillDisable'', \<lambda>r. rs_OomKillDisable r \<noteq> None),
     (''PidsLimit'', \<lambda>r. rs_PidsLimit r \<noteq> None),
     (''Ulimits'', \<lambda>r. rs_Ulimits r \<noteq> None),
     (''CpuCount'', \<lambda>r. rs_CpuCount r \<noteq> 0),
     (''CpuPercent'', \<lambda>r. rs_CpuPercent r \<noteq> 0),
     (''IOMaximumIOps'', \<lambda>r. rs_IOMaximumIOps r \<noteq> 0),
     (''IOMaximumBandwidth'', \<lambda>r. rs_IOMaximumBandwidth r \<noteq> 0)]"

definition host_rejected :: "(string \<times> (moby_host_config \<Rightarrow> bool)) list" where
  "host_rejected =
    [(''ContainerIDFile'', \<lambda>h. hc_ContainerIDFile h \<noteq> []),
     (''RestartPolicy'', \<lambda>h. hc_RestartPolicyName h \<noteq> [] \<or> hc_RestartPolicyMax h \<noteq> 0),
     (''VolumeDriver'', \<lambda>h. hc_VolumeDriver h \<noteq> []), (''VolumesFrom'', \<lambda>h. hc_VolumesFrom h \<noteq> []),
     (''Annotations'', \<lambda>h. hc_Annotations h \<noteq> []), (''CapAdd'', \<lambda>h. hc_CapAdd h \<noteq> []),
     (''CapDrop'', \<lambda>h. hc_CapDrop h \<noteq> []), (''CgroupnsMode'', \<lambda>h. hc_CgroupnsMode h \<noteq> []),
     (''IpcMode'', \<lambda>h. hc_IpcMode h \<noteq> []), (''Cgroup'', \<lambda>h. hc_Cgroup h \<noteq> []),
     (''Links'', \<lambda>h. hc_Links h \<noteq> []), (''OomScoreAdj'', \<lambda>h. hc_OomScoreAdj h \<noteq> 0),
     (''PidMode'', \<lambda>h. hc_PidMode h \<noteq> []), (''Privileged'', hc_Privileged),
     (''ReadonlyRootfs'', hc_ReadonlyRootfs), (''SecurityOpt'', \<lambda>h. hc_SecurityOpt h \<noteq> []),
     (''StorageOpt'', \<lambda>h. hc_StorageOpt h \<noteq> []), (''UTSMode'', \<lambda>h. hc_UTSMode h \<noteq> []),
     (''UsernsMode'', \<lambda>h. hc_UsernsMode h \<noteq> []), (''Sysctls'', \<lambda>h. hc_Sysctls h \<noteq> []),
     (''Runtime'', \<lambda>h. hc_Runtime h \<noteq> [] \<and> hc_Runtime h \<noteq> defaultContainerRuntime),
     (''Umask'', hc_Umask), (''MaskedPaths'', \<lambda>h. hc_MaskedPaths h \<noteq> []),
     (''ReadonlyPaths'', \<lambda>h. hc_ReadonlyPaths h \<noteq> [])]
    @ map (\<lambda>(f, is_set). (f, \<lambda>h. is_set (hc_Resources h))) resource_rejected"

definition rejected_names :: "(string, field_policy) gomap \<Rightarrow> string list" where
  "rejected_names policy = map fst (filter (\<lambda>(f, p). p = FieldRejected) policy)"

definition mount_ok :: "moby_mount \<Rightarrow> bool" where
  "mount_ok m \<longleftrightarrow> (mm_Type m = [] \<or> mm_Type m = ''bind'') \<and> IsAbs (mm_Source m)
     \<or> mm_Type m = ''tmpfs'' \<and> mm_Source m = []"

definition bind_ok :: "string \<Rightarrow> bool" where
  "bind_ok b \<longleftrightarrow> (let parts = Split CHR '':'' b in
     length parts \<ge> 2 \<and> TrimSpace (parts ! 0) \<noteq> [] \<and> TrimSpace (parts ! 1) \<noteq> [])"

definition refusal_status :: "docker_error option \<Rightarrow> bool" where
  "refusal_status e \<longleftrightarrow> e = None \<or> docker_error_StatusCode e = 501 \<or> docker_error_StatusCode e = 400"

lemma refusal_status_simps [simp]:
  "refusal_status None" "refusal_status (Some (NewNotImplemented m))" "refusal_status (Some (NewInvalidParameter m))"
  by (simp_all add: refusal_status_def docker_error_StatusCode_def api_error_defs)

lemma reject_first_None: "reject_first cs = None \<longleftrightarrow> list_all (\<lambda>(b, f). \<not> b) cs"
  by (induction cs rule: reject_first.induct) auto

lemma reject_first_status [simp]: "refusal_status (reject_first cs)"
  by (induction cs rule: reject_first.induct) auto

lemma validateStructuredMounts_None: "validateStructuredMounts ms = None \<longleftrightarrow> list_all mount_ok ms"
  by (induction ms) (auto simp: mount_ok_def Let_def)

lemma validateStructuredMounts_status [simp]: "refusal_status (validateStructuredMounts ms)"
  by (induction ms) (auto simp: Let_def)

lemma validateBinds_None: "validateBinds bs = None \<longleftrightarrow> list_all bind_ok bs"
  by (induction bs) (auto simp: bind_ok_def Let_def)

lemma validateBinds_status [simp]: "refusal_status (validateBinds bs)"
  by (induction bs) (auto simp: Let_def)

lemmas validator_defs = validateHostConfigPrivilegeFields_def validateHostConfigPolicyFields_def
  validateHostConfigNamespaceFields_def validateHostConfigHardeningFields_def
  validateHostConfigRuntimeFields_def validateHostConfigHostPathFields_def

lemma first_error_None: "first_error fs x = None \<longleftrightarrow> list_all (\<lambda>f. f x = None) fs"
  by (induction fs) (auto split: option.splits)

lemma first_error_status: "list_all (\<lambda>f. refusal_status (f x)) fs \<Longrightarrow> refusal_status (first_error fs x)"
  by (induction fs) (auto split: option.splits)

lemma refusal_status_else:
  "refusal_status a \<Longrightarrow> refusal_status b \<Longrightarrow> refusal_status (case a of Some e \<Rightarrow> Some e | None \<Rightarrow> b)"
  by (cases a) auto

lemma validateConfigFields_status [simp]: "refusal_status (validateConfigFields c h)"
  by (cases c) (simp_all only: validateConfigFields_def option.case reject_first_status refusal_status_simps)

lemma validateHostConfigFields_status [simp]: "refusal_status (validateHostConfigFields h)"
proof -
  have "refusal_status (first_error hostConfigFieldValidators h)"
    by (rule first_error_status) (simp add: hostConfigFieldValidators_def validator_defs del: reject_first.simps)
  then show ?thesis unfolding validateHostConfigFields_def by (intro refusal_status_else) simp_all
qed

lemma validateConfigFields_None:
  "validateConfigFields (Some c) h = None \<longleftrightarrow> list_all (\<lambda>(f, is_set). \<not> is_set c) (config_rejected h)"
proof -
  have "mc_ExposedPorts c \<noteq> [] \<and> \<not> exposedPortsPublished (mc_ExposedPorts c) h
      \<longleftrightarrow> list_ex (\<lambda>p. case h of None \<Rightarrow> True | Some hc \<Rightarrow> get_or [] (hc_PortBindings hc) p = []) (mc_ExposedPorts c)"
    by (cases h; cases "mc_ExposedPorts c") (auto simp: exposedPortsPublished_def list_all_iff list_ex_iff)
  then show ?thesis by (auto simp: validateConfigFields_def config_rejected_def reject_first_None)
qed

lemma resources_rejected: "list_all (\<lambda>(f, is_set). \<not> is_set r) resource_rejected \<longleftrightarrow> r = zero_resources"
  by (cases r) (auto simp: resource_rejected_def zero_resources_def)

lemma host_validators_None:
  "first_error hostConfigFieldValidators h = None \<longleftrightarrow> list_all (\<lambda>(f, is_set). \<not> is_set h) host_rejected"
proof -
  have "list_all (\<lambda>(f, is_set). \<not> is_set h) (map (\<lambda>(f, is_set). (f, \<lambda>h. is_set (hc_Resources h))) resource_rejected)
      \<longleftrightarrow> hc_Resources h = zero_resources"
    using resources_rejected [of "hc_Resources h"] by (simp add: list.pred_map comp_def case_prod_unfold)
  moreover have "rs_Devices zero_resources = None" by (simp add: zero_resources_def)
  ultimately show ?thesis
    by (auto simp: first_error_None hostConfigFieldValidators_def host_rejected_def validator_defs reject_first_None)
qed

lemma rejected_tables:
  "set (map fst (config_rejected hc)) = set (rejected_names configFieldPolicy)"
  "set (map fst host_rejected) = set (rejected_names hostConfigFieldPolicy)"
proof -
  show "set (map fst (config_rejected hc)) = set (rejected_names configFieldPolicy)"
    by (simp add: config_rejected_def configFieldPolicy_def rejected_names_def)
  have "map fst resource_rejected = resource_fields" by (simp add: resource_rejected_def resource_fields_def)
  then have "map fst host_rejected = rejected_names hostConfigFieldPolicy"
    by (simp add: host_rejected_def hostConfigFieldPolicy_def rejected_names_def filter_map comp_def case_prod_unfold)
  then show "set (map fst host_rejected) = set (rejected_names hostConfigFieldPolicy)" by simp
qed

text \<open>An empty list of devices asks for nothing, and the request is refused.\<close>

lemma empty_list_refused:
  assumes "rs_BlkioWeightDevice (hc_Resources h) = Some []"
  shows "validateHostConfigPolicyFields h = Some (NewNotImplemented ''HostConfig.Resources is not supported'')"
proof -
  have "hc_Resources h \<noteq> zero_resources" using assms by (auto simp: zero_resources_def)
  then show ?thesis by (simp add: validateHostConfigPolicyFields_def)
qed

text \<open>
  A request the create path honours: a configuration, no rejected field, and well-formed mounts,
  binds and host ports.
\<close>

definition host_port_ok :: "moby_port_binding \<Rightarrow> bool" where
  "host_port_ok b \<longleftrightarrow> (pbm_HostPort b = [] \<or> (\<exists>n. Atoi (pbm_HostPort b) = Some n \<and> 0 \<le> n \<and> n \<le> 65535))"

definition sets_rejected :: "moby_create_request \<Rightarrow> bool" where
  "sets_rejected p \<longleftrightarrow> (\<exists>c. mr_Config p = Some c \<and> list_ex (\<lambda>(f, is_set). is_set c) (config_rejected (mr_HostConfig p)))
     \<or> (\<exists>h. mr_HostConfig p = Some h \<and> list_ex (\<lambda>(f, is_set). is_set h) host_rejected)"

definition well_formed :: "moby_host_config \<Rightarrow> bool" where
  "well_formed h \<longleftrightarrow> list_all mount_ok (hc_Mounts h) \<and> list_all bind_ok (hc_Binds h)
     \<and> list_all (\<lambda>(p, bs). list_all host_port_ok bs) (hc_PortBindings h)"

definition create_acceptable :: "moby_create_request \<Rightarrow> bool" where
  "create_acceptable p \<longleftrightarrow> mr_Config p \<noteq> None \<and> \<not> sets_rejected p
     \<and> (case mr_HostConfig p of None \<Rightarrow> True | Some h \<Rightarrow> well_formed h)"

lemma request_binding_iff: "(\<exists>x. request_binding p b = Inr x) \<longleftrightarrow> host_port_ok b"
  by (auto simp: request_binding_def host_port_ok_def Let_def split: option.splits)

lemma requestedPortBindings_iff:
  "(\<exists>bs. requestedPortBindings (Some h) = Inr bs) \<longleftrightarrow> list_all (\<lambda>(p, bs). list_all host_port_ok bs) (hc_PortBindings h)"
proof -
  have "(\<exists>ys. mapM f xs = Inr ys) \<longleftrightarrow> list_all (\<lambda>x. \<exists>y. f x = Inr y) xs" for f :: "'a \<Rightarrow> docker_error + 'b" and xs
    by (induction xs) (auto simp: rbind_eq_Inr)
  note m = this
  have "list_all (\<lambda>x. \<exists>y. (case x of (p, b) \<Rightarrow> request_binding p b) = Inr y) (concat (map (\<lambda>(p, bs). map (Pair p) bs) pbs))
      = list_all (\<lambda>(p, bs). list_all host_port_ok bs) pbs" for pbs
    by (induction pbs) (auto simp: list.pred_map comp_def request_binding_iff)
  then show ?thesis by (simp add: requestedPortBindings_def rbind_eq_Inr m)
qed

lemma mapM_status:
  "mapM (\<lambda>(p, b). request_binding p b) xs = Inl e \<Longrightarrow> docker_error_StatusCode (Some e) = 400"
proof (induction xs)
  case (Cons x xs)
  have "request_binding p b = Inl d \<Longrightarrow> docker_error_StatusCode (Some d) = 400" for p b d
    by (auto simp: request_binding_def docker_error_StatusCode_def api_error_defs Let_def split: if_splits option.splits)
  with Cons show ?case by (auto simp: rbind_eq_Inl split: prod.splits)
qed simp

lemma reject_first_501: "reject_first cs = Some e \<Longrightarrow> docker_error_StatusCode (Some e) = 501"
  by (induction cs rule: reject_first.induct) (auto simp: docker_error_StatusCode_def api_error_defs split: if_splits)

lemma first_error_501: "first_error hostConfigFieldValidators h = Some e \<Longrightarrow> docker_error_StatusCode (Some e) = 501"
  by (auto simp: hostConfigFieldValidators_def validator_defs simp del: reject_first.simps
      dest!: reject_first_501 split: option.splits)

lemma sets_rejected_iff:
  assumes "mr_Config p = Some c"
  shows "\<not> sets_rejected p \<longleftrightarrow> validateConfigFields (Some c) (mr_HostConfig p) = None
    \<and> (case mr_HostConfig p of None \<Rightarrow> True | Some h \<Rightarrow> first_error hostConfigFieldValidators h = None)"
  using assms
  by (auto simp: sets_rejected_def validateConfigFields_None host_validators_None list_all_iff list_ex_iff split: option.split)

lemma containerCreate_request_ok: "(\<exists>r. containerCreate_request name p = Inr r) \<longleftrightarrow> create_acceptable p"
proof (cases "mr_Config p")
  case None
  then show ?thesis by (simp add: containerCreate_request_def create_acceptable_def)
next
  case (Some c)
  show ?thesis
  proof (cases "mr_HostConfig p")
    case None
    then show ?thesis
      using Some sets_rejected_iff [OF Some]
      by (auto simp: containerCreate_request_def create_acceptable_def api_validateContainerCreate_def rbind_eq_Inr
          requestedPortBindings_def split: option.splits)
  next
    case h: (Some h)
    then show ?thesis
      using Some sets_rejected_iff [OF Some] requestedPortBindings_iff [of h]
      by (auto simp: containerCreate_request_def create_acceptable_def api_validateContainerCreate_def rbind_eq_Inr
          validateHostConfigFields_def well_formed_def validateStructuredMounts_None [symmetric] validateBinds_None [symmetric]
          split: option.splits)
  qed
qed

lemma containerCreate_request_status:
  assumes "containerCreate_request name p = Inl e"
  shows "docker_error_StatusCode (Some e)
    \<in> (if mr_Config p = None then {400} else if sets_rejected p then {501} else {400, 501})"
proof (cases "mr_Config p")
  case None
  then show ?thesis using assms by (auto simp: containerCreate_request_def docker_error_StatusCode_def api_error_defs)
next
  case (Some c)
  show ?thesis
  proof (cases "api_validateContainerCreate (Some p)")
    case None
    then have "\<not> sets_rejected p"
      using sets_rejected_iff [OF Some] Some
      by (auto simp: api_validateContainerCreate_def validateHostConfigFields_def split: option.splits)
    moreover have "docker_error_StatusCode (Some e) = 400"
      using assms Some None
      by (auto simp: containerCreate_request_def requestedPortBindings_def rbind_eq_Inl dest: mapM_status split: option.splits)
    ultimately show ?thesis using Some by simp
  next
    case (Some x)
    then have x: "x = e" using assms \<open>mr_Config p = Some c\<close> by (simp add: containerCreate_request_def)
    have "refusal_status (api_validateContainerCreate (Some p))"
      unfolding api_validateContainerCreate_def option.case by (rule refusal_status_else) (simp_all split: option.split)
    moreover have "docker_error_StatusCode (Some e) = 501" if "sets_rejected p"
      using that Some x sets_rejected_iff [OF \<open>mr_Config p = Some c\<close>] \<open>mr_Config p = Some c\<close>
      by (auto simp: api_validateContainerCreate_def validateHostConfigFields_def
          dest: first_error_501 reject_first_501 [of _ e] simp: validateConfigFields_def split: option.splits simp del: reject_first.simps)
    ultimately show ?thesis using Some x \<open>mr_Config p = Some c\<close> by (auto simp: refusal_status_def)
  qed
qed

section \<open>Nothing a client asked for is lost\<close>

lemma TrimSpace_nonempty: "TrimSpace s \<noteq> [] \<Longrightarrow> s \<noteq> []"
  by auto

lemma apply_bind_options_fields [simp]:
  "mt_Source (apply_bind_options opts m) = mt_Source m"
  "mt_Destination (apply_bind_options opts m) = mt_Destination m"
  "mt_Type (apply_bind_options opts m) = mt_Type m"
  by (induction opts arbitrary: m) (simp_all add: Let_def)

lemma translate_valid_bind:
  assumes "bind_ok b"
  shows "\<exists>m. translateBindMount b = Some m \<and> mt_Type m = ''bind''
    \<and> mt_Source m = Split CHR '':'' b ! 0 \<and> mt_Destination m = Split CHR '':'' b ! 1"
  using assms by (auto simp: bind_ok_def translateBindMount_def applyBindOptions_def Let_def dest: TrimSpace_nonempty)

lemma translate_valid_binds:
  "list_all bind_ok bs \<Longrightarrow> map Some (List.map_filter translateBindMount bs) = map translateBindMount bs"
  by (induction bs) (auto simp: map_filter_simps dest: translate_valid_bind)

lemma mapM_map_of_ok: "mapM f xs = Inr ys \<Longrightarrow> i < length xs \<Longrightarrow> f (xs ! i) = Inr (ys ! i)"
  by (auto simp: mapM_Inr_iff list_all2_conv_all_nth)

text \<open>The binding of one published port: its container port and, when one was named, its host port.\<close>

definition binding_for :: "port \<times> moby_port_binding \<Rightarrow> port_binding \<Rightarrow> bool" where
  "binding_for pm b \<longleftrightarrow> pb_ContainerPort b = fst (fst pm)
     \<and> (if pbm_HostPort (snd pm) = [] then pb_HostPort b = 0
        else Atoi (pbm_HostPort (snd pm)) = Some (int (unat (pb_HostPort b))))"

lemma request_binding_ok:
  assumes "request_binding p m = Inr b"
  shows "binding_for (p, m) b"
proof -
  have "int (unat (word_of_int n :: u16)) = n" if "0 \<le> n" "n \<le> 65535" for n
    using that by (simp add: unsigned_of_int take_bit_int_eq_self)
  then show ?thesis
    using assms by (auto simp: request_binding_def binding_for_def Let_def split: if_splits option.splits)
qed

text \<open>
  A create request that the handler passes on carries everything the client asked for: one
  mount per legacy bind, with its source and destination, followed by one per structured mount, and
  exactly one port binding per published port with the requested container and host port, sorted.
\<close>

theorem create_request_complete:
  assumes "containerCreate_request name payload = Inr r" and "mr_HostConfig payload = Some h"
  shows "map Some (cc_Mounts r) = map translateBindMount (hc_Binds h) @ map (Some \<circ> translateStructuredMount) (hc_Mounts h)
    \<and> list_all (\<lambda>b. map_option mt_Source (translateBindMount b) = Some (Split CHR '':'' b ! 0)
          \<and> map_option mt_Destination (translateBindMount b) = Some (Split CHR '':'' b ! 1)) (hc_Binds h)
    \<and> (\<exists>bs. cc_PortBindings r = sort_key (\<lambda>b. (pb_ContainerPort b, pb_HostPort b)) bs
        \<and> list_all2 binding_for (concat (map (\<lambda>(p, ms). map (Pair p) ms) (hc_PortBindings h))) bs)"
proof -
  have v: "api_validateContainerCreate (Some payload) = None"
    and m: "cc_Mounts r = requestedMounts (Some h)"
    and b: "requestedPortBindings (Some h) = Inr (cc_PortBindings r)"
    using assms by (auto simp: containerCreate_request_def rbind_eq_Inr split: option.splits)
  have "list_all bind_ok (hc_Binds h)"
    using v assms(2) by (auto simp: api_validateContainerCreate_def validateHostConfigFields_def
        validateBinds_None split: option.splits)
  note binds = this
  have "map Some (cc_Mounts r) = map translateBindMount (hc_Binds h) @ map (Some \<circ> translateStructuredMount) (hc_Mounts h)"
    using translate_valid_binds [OF binds] by (simp add: m requestedMounts_def)
  moreover have "list_all (\<lambda>b. map_option mt_Source (translateBindMount b) = Some (Split CHR '':'' b ! 0)
          \<and> map_option mt_Destination (translateBindMount b) = Some (Split CHR '':'' b ! 1)) (hc_Binds h)"
    using binds translate_valid_bind unfolding list_all_iff by fastforce
  moreover obtain bs where bs: "mapM (\<lambda>(p, b). request_binding p b)
      (concat (map (\<lambda>(p, ms). map (Pair p) ms) (hc_PortBindings h))) = Inr bs"
      "cc_PortBindings r = sort_key (\<lambda>b. (pb_ContainerPort b, pb_HostPort b)) bs"
    using b by (auto simp: requestedPortBindings_def rbind_eq_Inr)
  moreover have "list_all2 binding_for (concat (map (\<lambda>(p, ms). map (Pair p) ms) (hc_PortBindings h))) bs"
    using bs(1) unfolding mapM_Inr_iff
    by (rule list_all2_mono) (auto intro: request_binding_ok)
  ultimately show ?thesis by blast
qed

definition sample_host_config :: moby_host_config where
  "sample_host_config = \<lparr>hc_Binds = [''/srv/data:/data:ro''], hc_ContainerIDFile = [], hc_NetworkMode = ''bridge'',
     hc_PortBindings = [((80, ''tcp''), [\<lparr>pbm_HostIP = None, pbm_HostPort = ''8080''\<rparr>])],
     hc_RestartPolicyName = [], hc_RestartPolicyMax = 0, hc_VolumeDriver = [], hc_VolumesFrom = [], hc_Annotations = [],
     hc_CapAdd = [], hc_CapDrop = [], hc_CgroupnsMode = [], hc_IpcMode = [], hc_Cgroup = [], hc_Links = [],
     hc_OomScoreAdj = 0, hc_PidMode = [], hc_Privileged = False, hc_ReadonlyRootfs = False, hc_SecurityOpt = [],
     hc_StorageOpt = [], hc_UTSMode = [], hc_UsernsMode = [], hc_Sysctls = [], hc_Runtime = [], hc_Umask = False,
     hc_Mounts = [], hc_MaskedPaths = [], hc_ReadonlyPaths = [], hc_Resources = zero_resources\<rparr>"

definition sample_payload :: moby_create_request where
  "sample_payload = \<lparr>mr_Config = Some \<lparr>mc_Hostname = [], mc_Domainname = [], mc_User = [], mc_ExposedPorts = [(80, ''tcp'')],
     mc_Tty = False, mc_OpenStdin = False, mc_Env = [''A=1'', ''B=x=y'', ''A=2''], mc_Cmd = [''serve''], mc_Healthcheck = False,
     mc_Image = ''redis'', mc_Volumes = [], mc_WorkingDir = [], mc_Entrypoint = [], mc_NetworkDisabled = False,
     mc_OnBuild = [], mc_Labels = [], mc_StopSignal = [], mc_StopTimeout = None\<rparr>,
     mr_HostConfig = Some sample_host_config, mr_Endpoints = None\<rparr>"

definition sample_create_request :: container_create_request where
  "sample_create_request = \<lparr>cc_Name = ''web'', cc_Image = ''redis'', cc_Command = [''serve''], cc_Entrypoint = [],
     cc_Env = [(''A'', ''2''), (''B'', ''x=y'')], cc_WorkingDir = [], cc_User = [], cc_Hostname = [], cc_Labels = [],
     cc_TTY = False, cc_OpenStdin = False, cc_NetworkMode = ''bridge'',
     cc_PortBindings = [\<lparr>pb_ContainerPort = 80, pb_Protocol = ''tcp'', pb_HostIP = [], pb_HostPort = 8080\<rparr>],
     cc_Mounts = [\<lparr>mt_Type = ''bind'', mt_Source = ''/srv/data'', mt_Destination = ''/data'', mt_ReadOnly = True, mt_Options = []\<rparr>]\<rparr>"

lemma sample_containerCreate: "containerCreate_request ''web'' sample_payload = Inr sample_create_request"
  by code_simp

theorem create_request_complete_witness:
  "map Some (cc_Mounts sample_create_request) = map translateBindMount [''/srv/data:/data:ro'']"
  using create_request_complete [OF sample_containerCreate, of sample_host_config]
  by (simp add: sample_payload_def sample_host_config_def)

section \<open>Environment\<close>

lemma get_envMap_snoc: "get (envMap (es @ [e])) = (get (envMap es))(fst (env_entry e) \<mapsto> snd (env_entry e))"
  by (simp add: envMap_def split: prod.split)

lemma map_of_snoc_new: "k \<notin> set (map fst ps) \<Longrightarrow> map_of (ps @ [(k, v)]) = (map_of ps)(k \<mapsto> v)"
  by (induction ps) (auto simp: fun_upd_twist)

lemma get_envMap_distinct:
  assumes "distinct (map (fst \<circ> env_entry) es)"
  shows "get (envMap es) = map_of (map env_entry es)"
  using assms
proof (induction es rule: rev_induct)
  case (snoc e es)
  have "fst (env_entry e) \<notin> set (map fst (map env_entry es))" using snoc.prems by (auto simp: image_iff)
  from map_of_snoc_new [OF this, of "snd (env_entry e)"] snoc show ?case
    by (simp add: get_envMap_snoc)
qed (simp add: envMap_def)

text \<open>
  The environment survives the round trip between Docker's list form and the daemon's map:
  listing a map whose names hold no equals sign and reading the list back gives the same map, and
  the listing is sorted by name.
\<close>

theorem env_round_trip:
  assumes "gomap_ok m" and "list_all (\<lambda>(k, v). CHR ''='' \<notin> set k) m"
  shows "get (envMap (envSlice m)) = get m \<and> gomap_ok (envMap (envSlice m))
    \<and> sorted (map (fst \<circ> env_entry) (envSlice m))"
proof -
  have entry: "env_entry (k @ ''='' @ get_or [] m k) = (k, get_or [] m k)" if "k \<in> set (sorted_keys m)" for k
  proof -
    have "CHR ''='' \<notin> set k" using that assms(2) by (auto simp: list_all_iff dest: map_of_SomeD)
    then show ?thesis by (simp add: env_entry_def)
  qed
  have names: "map (fst \<circ> env_entry) (envSlice m) = sorted_keys m"
    unfolding envSlice_def map_map by (rule map_idI) (simp add: entry [unfolded append_Cons append_Nil])
  have pairs: "map env_entry (envSlice m) = map (\<lambda>k. (k, get_or [] m k)) (sorted_keys m)"
    using entry by (simp add: envSlice_def)
  have "distinct (sorted_keys m)" using assms(1) by (simp add: sorted_keys_def)
  then have "get (envMap (envSlice m)) = map_of (map (\<lambda>k. (k, get_or [] m k)) (sorted_keys m))"
    using get_envMap_distinct [of "envSlice m"] names pairs by simp
  also have "\<dots> = get m"
  proof
    fix k
    have "map_of (map (\<lambda>k. (k, get_or [] m k)) (sorted_keys m)) k = (if k \<in> dom (get m) then Some (get_or [] m k) else None)"
      by (simp add: map_of_map_keys [unfolded map_of_map_restrict] map_of_map_restrict restrict_map_def)
    then show "map_of (map (\<lambda>k. (k, get_or [] m k)) (sorted_keys m)) k = get m k"
      by (cases "get m k") (auto simp: get_or_def [of _ _ k])
  qed
  finally have "get (envMap (envSlice m)) = get m" .
  moreover have "gomap_ok (envMap es)" for es
    by (induction es rule: rev_induct) (simp_all add: envMap_def split: prod.split)
  ultimately show ?thesis using names sorted_keys_sorted [of m] by simp
qed

theorem env_round_trip_witness:
  "get (envMap (envSlice [(''PATH'', ''/bin''), (''A'', ''x=y'')])) = get [(''PATH'', ''/bin''), (''A'', ''x=y'')]"
  using env_round_trip [of "[(''PATH'', ''/bin''), (''A'', ''x=y'')]"] by simp

end
