(* ===== verification/Api_Responses.thy ===== *)
theory Api_Responses
  imports Api_Create App_Usage
begin

text \<open>
  The query and response side of \<^verbatim>\<open>internal/api\<close>: \<^verbatim>\<open>handlers.go\<close> (query parameters,
  registry credentials), and the response types of \<^verbatim>\<open>handlers_containers.go\<close>,
  \<^verbatim>\<open>handlers_exec.go\<close>, \<^verbatim>\<open>handlers_networks.go\<close> and
  \<^verbatim>\<open>handlers_images.go\<close>.

  A response is the value that is encoded; its records hold the fields the code sets, and a
  \<^verbatim>\<open>netip.Addr\<close> that may be the zero value is an option. JSON decoding, regular expressions,
  base64 and \<^verbatim>\<open>network.PortFrom\<close> and \<^verbatim>\<open>ParsePort\<close> of the Moby package are parameters.
\<close>

section \<open>handlers.go: query parameters\<close>

text \<open>The first value of every key of \<^verbatim>\<open>r.URL.Query()\<close>; an absent key reads as the empty string.\<close>

type_synonym query = "(string, string) gomap"

definition ParseBool :: "string \<Rightarrow> bool option" where
  "ParseBool s =
    (if s \<in> {''1'', ''t'', ''T'', ''TRUE'', ''true'', ''True''} then Some True
     else if s \<in> {''0'', ''f'', ''F'', ''FALSE'', ''false'', ''False''} then Some False else None)"

definition boolQuery :: "query \<Rightarrow> string \<Rightarrow> bool \<Rightarrow> bool" where
  "boolQuery q key fallback =
    (let v = TrimSpace (get_or [] q key) in
     if v = [] then fallback else case ParseBool v of None \<Rightarrow> fallback | Some b \<Rightarrow> b)"

definition tailQuery :: "query \<Rightarrow> int" where
  "tailQuery q =
    (let v = TrimSpace (get_or [] q ''tail'') in
     if v = [] \<or> v = ''all'' \<or> v = ''-1'' then 0
     else case Atoi v of None \<Rightarrow> 0 | Some n \<Rightarrow> if n < 0 then 0 else n)"

text \<open>\<^verbatim>\<open>time.Duration(seconds) * time.Second\<close> is a product of 64-bit integers.\<close>

definition seconds_duration :: "int \<Rightarrow> int" where
  "seconds_duration n = sint (word_of_int n * 1000000000 :: 64 word)"

fun timeout_keys :: "query \<Rightarrow> string list \<Rightarrow> int option" where
  "timeout_keys q [] = None"
| "timeout_keys q (key # keys) =
    (let v = TrimSpace (get_or [] q key) in
     if v = [] then timeout_keys q keys else map_option seconds_duration (Atoi v))"

definition timeoutQuery :: "query \<Rightarrow> int option" where
  "timeoutQuery q = timeout_keys q [''t'', ''timeout'']"

section \<open>handlers.go: registry credentials\<close>

record registry_auth_payload =
  ap_Username :: string
  ap_Password :: string
  ap_Auth :: string
  ap_IdentityToken :: string
  ap_RegistryToken :: string
  ap_ServerAddress :: string

text \<open>\<open>encodings\<close> are the decoders of the four base64 alphabets, in the order they are tried.\<close>

definition decodeBase64Any :: "(string \<Rightarrow> string option) list \<Rightarrow> string \<Rightarrow> string option" where
  "decodeBase64Any encodings v = first_some (map (\<lambda>d. d v) encodings)"

definition decodeRegistryAuth ::
  "(string \<Rightarrow> string option) list \<Rightarrow> (string \<Rightarrow> registry_auth_payload option) \<Rightarrow> string \<Rightarrow> docker_error + registry_auth option" where
  "decodeRegistryAuth encodings unmarshal header0 =
    (let header = TrimSpace header0 in
     if header = [] then Inr None
     else case decodeBase64Any encodings header of
       None \<Rightarrow> Inl (NewInvalidParameter ''invalid X-Registry-Auth header'')
     | Some raw \<Rightarrow> (case unmarshal raw of
         None \<Rightarrow> Inl (NewInvalidParameter ''invalid X-Registry-Auth header'')
       | Some p \<Rightarrow>
          let (user, pass) = (if ap_Username p = [] \<and> ap_Password p = [] \<and> ap_Auth p \<noteq> [] then
                (case decodeBase64Any encodings (ap_Auth p) of
                   Some decoded \<Rightarrow> (case CutByte CHR '':'' decoded of Some up \<Rightarrow> up | None \<Rightarrow> ([], []))
                 | None \<Rightarrow> ([], []))
                else (ap_Username p, ap_Password p))
          in if user = [] \<and> pass = [] \<and> ap_IdentityToken p = [] \<and> ap_RegistryToken p = [] then Inr None
             else Inr (Some \<lparr>ra_Username = user, ra_Password = pass, ra_IdentityToken = ap_IdentityToken p,
                    ra_RegistryToken = ap_RegistryToken p, ra_ServerAddress = ap_ServerAddress p\<rparr>)))"

section \<open>handlers_containers.go: filters\<close>

text \<open>
  \<open>compile\<close> is \<^verbatim>\<open>regexp.Compile\<close> with the matching function of the result; the two JSON
  decoders are those of the current and of the older form of the filters.
\<close>

record filter_env =
  fe_compile :: "string \<Rightarrow> (string \<Rightarrow> bool) option"
  fe_filters :: "string \<Rightarrow> (string, string list) gomap option"
  fe_legacy :: "string \<Rightarrow> (string, (string, bool) gomap) gomap option"

definition decodeContainerFilters :: "filter_env \<Rightarrow> string \<Rightarrow> (string, string list) gomap" where
  "decodeContainerFilters fe raw = (case fe_filters fe raw of
     Some f \<Rightarrow> f
   | None \<Rightarrow> (case fe_legacy fe raw of
       None \<Rightarrow> []
     | Some legacy \<Rightarrow> filter (\<lambda>(k, vs). vs \<noteq> []) (map (\<lambda>(k, vs). (k, map fst (filter snd vs))) legacy)))"

definition matchesNameFilter :: "filter_env \<Rightarrow> string \<Rightarrow> container \<Rightarrow> bool" where
  "matchesNameFilter fe pattern item =
    (let targets = [c_Name item, ''/'' @ c_Name item, c_ID item] in
     case fe_compile fe pattern of
       Some m \<Rightarrow> list_ex m targets
     | None \<Rightarrow> list_ex (\<lambda>t. Contains t pattern) targets)"

definition matchesLabelFilter :: "string \<Rightarrow> container \<Rightarrow> bool" where
  "matchesLabelFilter wanted item =
    (case CutByte CHR ''='' wanted of
       Some (k, v) \<Rightarrow> get (c_Labels item) k = Some v
     | None \<Rightarrow> get (c_Labels item) wanted \<noteq> None)"

definition matchesContainerFilters :: "filter_env \<Rightarrow> query \<Rightarrow> container \<Rightarrow> bool" where
  "matchesContainerFilters fe q item =
    (let raw = TrimSpace (get_or [] q ''filters'') in
     raw = [] \<or>
     (let f = decodeContainerFilters fe raw in
      list_all (\<lambda>wanted. matchesLabelFilter wanted item) (get_or [] f ''label'')
      \<and> list_all (\<lambda>name. matchesNameFilter fe name item) (get_or [] f ''name'')
      \<and> list_all (\<lambda>status. c_State item = status) (get_or [] f ''status'')
      \<and> list_all (\<lambda>i. HasPrefix (c_ID item) i) (get_or [] f ''id'')))"

section \<open>handlers_containers.go: ports and networks\<close>

type_synonym port_from = "u16 \<Rightarrow> string \<Rightarrow> port option"

record port_entry =
  pt_HostIP :: "addr option"
  pt_HostPort :: string

definition normalizeBindingProtocol :: "string \<Rightarrow> string" where
  "normalizeBindingProtocol protocol =
    (let p = ToLower (TrimSpace protocol) in
     if p = [] \<or> p = ''tcp'' then ''tcp'' else if p = ''udp'' then ''udp'' else p)"

definition setAddr :: "string \<Rightarrow> addr option" where
  "setAddr v = (if v = [] then None else ParseAddr v)"

text \<open>The entry a binding gives and the port it is filed under, if it gives one.\<close>

definition binding_key :: "port_from \<Rightarrow> port_binding \<Rightarrow> port option" where
  "binding_key PortFrom b =
    (if pb_HostPort b = 0 \<or> pb_ContainerPort b = 0 then None
     else PortFrom (pb_ContainerPort b) (normalizeBindingProtocol (pb_Protocol b)))"

definition binding_entry :: "port_binding \<Rightarrow> port_entry" where
  "binding_entry b = \<lparr>pt_HostIP = setAddr (pb_HostIP b), pt_HostPort = Itoa (int (unat (pb_HostPort b)))\<rparr>"

definition portMapFromBindings :: "port_from \<Rightarrow> port_binding list \<Rightarrow> (port, port_entry list) gomap" where
  "portMapFromBindings PortFrom bindings =
    foldl (\<lambda>m b. case binding_key PortFrom b of None \<Rightarrow> m
       | Some p \<Rightarrow> put p (get_or [] m p @ [binding_entry b]) m) [] bindings"

record port_summary =
  ps_PrivatePort :: u16
  ps_Type :: string
  ps_IP :: "addr option"
  ps_PublicPort :: u16

definition port_summary_of :: "port \<times> port_entry list \<Rightarrow> port_summary" where
  "port_summary_of = (\<lambda>(p, es). case es of
     [] \<Rightarrow> \<lparr>ps_PrivatePort = fst p, ps_Type = snd p, ps_IP = None, ps_PublicPort = 0\<rparr>
   | e # _ \<Rightarrow> \<lparr>ps_PrivatePort = fst p, ps_Type = snd p, ps_IP = pt_HostIP e,
       ps_PublicPort = (case Atoi (pt_HostPort e) of Some n \<Rightarrow> word_of_int n | None \<Rightarrow> 0)\<rparr>)"

definition portSummaries :: "(port, port_entry list) gomap \<Rightarrow> port_summary list" where
  "portSummaries portMap = sort_key ps_PrivatePort (map port_summary_of portMap)"

text \<open>\<^verbatim>\<open>net.ParseMAC\<close>: 6, 8 or 20 bytes in pairs of hexadecimal digits, or fours between dots.\<close>

definition hex_value :: "char \<Rightarrow> nat option" where
  "hex_value c = (if is_digit c then Some (digit_val c)
     else if CHR ''a'' \<le> c \<and> c \<le> CHR ''f'' then Some (of_char c - 87)
     else if CHR ''A'' \<le> c \<and> c \<le> CHR ''F'' then Some (of_char c - 55) else None)"

definition hex_byte :: "char \<Rightarrow> char \<Rightarrow> byte option" where
  "hex_byte a b = (case (hex_value a, hex_value b) of
     (Some x, Some y) \<Rightarrow> Some (word_of_nat (16 * x + y)) | _ \<Rightarrow> None)"

fun hex_group :: "string \<Rightarrow> byte list option" where
  "hex_group [] = Some []"
| "hex_group [c] = None"
| "hex_group (a # b # cs) = (case (hex_byte a b, hex_group cs) of (Some x, Some xs) \<Rightarrow> Some (x # xs) | _ \<Rightarrow> None)"

definition mac_groups :: "nat \<Rightarrow> string list \<Rightarrow> byte list option" where
  "mac_groups len parts =
    (if list_all (\<lambda>p. length p = len \<and> hex_group p \<noteq> None) parts \<and> length parts * (len div 2) \<in> {6, 8, 20}
     then Some (concat (map (\<lambda>p. the (hex_group p)) parts)) else None)"

definition ParseMAC :: "string \<Rightarrow> byte list option" where
  "ParseMAC s =
    (if length s < 14 then None
     else if s ! 2 = CHR '':'' \<or> s ! 2 = CHR ''-'' then mac_groups 2 (Split (s ! 2) s)
     else if s ! 4 = CHR ''.'' then mac_groups 4 (Split CHR ''.'' s)
     else None)"

record endpoint_settings =
  es_NetworkID :: string
  es_Aliases :: "string list"
  es_IPAddress :: "addr option"
  es_IPPrefixLen :: int
  es_Gateway :: "addr option"
  es_GlobalIPv6Address :: "addr option"
  es_GlobalIPv6PrefixLen :: int
  es_MacAddress :: "byte list"

definition endpoint_of :: "network_attachment \<Rightarrow> endpoint_settings" where
  "endpoint_of a = \<lparr>es_NetworkID = na_NetworkID a, es_Aliases = na_Aliases a, es_IPAddress = setAddr (na_IPAddress a),
     es_IPPrefixLen = na_IPPrefixLen a, es_Gateway = setAddr (na_Gateway a), es_GlobalIPv6Address = setAddr (na_GlobalIPv6Address a),
     es_GlobalIPv6PrefixLen = na_GlobalIPv6PrefixLen a,
     es_MacAddress = (if na_MACAddress a = [] then [] else case ParseMAC (na_MACAddress a) of Some hw \<Rightarrow> hw | None \<Rightarrow> [])\<rparr>"

definition endpointSettingsMap :: "network_attachment list \<Rightarrow> (string, endpoint_settings) gomap" where
  "endpointSettingsMap attachments =
    foldl (\<lambda>m a. if na_Name a = [] then m else put (na_Name a) (endpoint_of a) m) [] attachments"

section \<open>handlers_containers.go: containers\<close>

definition containerNetworkMode :: "container \<Rightarrow> string" where
  "containerNetworkMode item = (case c_Networks item of
     [] \<Rightarrow> ''default'' | a # _ \<Rightarrow> if na_Name a = [] then ''default'' else na_Name a)"

definition imageIdentity :: "container \<Rightarrow> string" where
  "imageIdentity item = (if c_ImageDigest item \<noteq> [] then c_ImageDigest item else c_ImageReference item)"

definition shortIdentity :: "container_id \<Rightarrow> string" where
  "shortIdentity i = take 12 i"

definition publicLabels :: "(string, string) gomap \<Rightarrow> (string, string) gomap" where
  "publicLabels labels = filter (\<lambda>(k, v). \<not> HasPrefix k ''io.dockerdless.'') labels"

record mount_point =
  mp_Type :: string
  mp_Source :: string
  mp_Destination :: string
  mp_Mode :: string
  mp_RW :: bool

definition mount_point_of :: "mount \<Rightarrow> mount_point" where
  "mount_point_of m = \<lparr>mp_Type = (if mt_Type m = [] then ''bind'' else mt_Type m), mp_Source = mt_Source m,
     mp_Destination = mt_Destination m, mp_Mode = Join '','' (mt_Options m), mp_RW = (\<not> mt_ReadOnly m)\<rparr>"

definition inspectMounts :: "(string \<Rightarrow> mount list option) \<Rightarrow> string \<Rightarrow> mount_point list" where
  "inspectMounts unmarshal encoded =
    (if encoded = [] then [] else case unmarshal encoded of None \<Rightarrow> [] | Some ms \<Rightarrow> map mount_point_of ms)"

record container_state_response =
  sr_Status :: string
  sr_Running :: bool
  sr_Paused :: bool
  sr_Restarting :: bool
  sr_OOMKilled :: bool
  sr_Dead :: bool
  sr_ExitCode :: int
  sr_Error :: string
  sr_StartedAt :: string
  sr_FinishedAt :: string

record inspect_response =
  ci_ID :: string
  ci_Created :: string
  ci_Args :: "string list"
  ci_State :: container_state_response
  ci_Image :: string
  ci_Name :: string
  ci_ExecIDs :: "string list"
  ci_NetworkMode :: string
  ci_Hostname :: string
  ci_Tty :: bool
  ci_ConfigImage :: string
  ci_Labels :: "(string, string) gomap"
  ci_Cmd :: "string list"
  ci_Env :: "string list"
  ci_Mounts :: "mount_point list"
  ci_Ports :: "(port, port_entry list) gomap"
  ci_Networks :: "(string, endpoint_settings) gomap"

definition containerInspectResponse ::
  "port_from \<Rightarrow> (string \<Rightarrow> mount list option) \<Rightarrow> container \<Rightarrow> inspect_response" where
  "containerInspectResponse PortFrom unmarshal item =
    \<lparr>ci_ID = c_ID item, ci_Created = format_rfc3339nano (c_CreatedAt item), ci_Args = cs_Command (c_Spec item),
     ci_State = \<lparr>sr_Status = c_State item, sr_Running = (c_State item = ContainerStateRunning),
       sr_Paused = (c_State item = ContainerStatePaused), sr_Restarting = (c_State item = ContainerStateRestarting),
       sr_OOMKilled = c_OOMKilled item, sr_Dead = c_Dead item, sr_ExitCode = c_ExitCode item, sr_Error = c_Error item,
       sr_StartedAt = format_rfc3339nano (c_StartedAt item), sr_FinishedAt = format_rfc3339nano (c_FinishedAt item)\<rparr>,
     ci_Image = imageIdentity item, ci_Name = ''/'' @ c_Name item, ci_ExecIDs = map er_ID (c_Execs item),
     ci_NetworkMode = containerNetworkMode item, ci_Hostname = shortIdentity (c_ID item),
     ci_Tty = (get (c_Labels item) LabelTTY = Some ''true''), ci_ConfigImage = c_ImageReference item,
     ci_Labels = publicLabels (c_Labels item), ci_Cmd = cs_Command (c_Spec item), ci_Env = envSlice (cs_Env (c_Spec item)),
     ci_Mounts = inspectMounts unmarshal (get_or [] (c_Labels item) LabelMounts),
     ci_Ports = portMapFromBindings PortFrom (c_PortBindings item), ci_Networks = endpointSettingsMap (c_Networks item)\<rparr>"

record container_summary =
  sm_ID :: string
  sm_Names :: "string list"
  sm_ImageRef :: string
  sm_ImageID :: string
  sm_CommandText :: string
  sm_Created :: int
  sm_Ports :: "port_summary list"
  sm_Labels :: "(string, string) gomap"
  sm_State :: string
  sm_Status :: string
  sm_Networks :: "(string, endpoint_settings) gomap"
  sm_NetworkMode :: string

text \<open>\<open>statusText\<close> is \<^verbatim>\<open>containerStatusText\<close>, the phrase with the age of the container.\<close>

definition containerSummaryResponse :: "port_from \<Rightarrow> (container \<Rightarrow> string) \<Rightarrow> container \<Rightarrow> container_summary" where
  "containerSummaryResponse PortFrom statusText item =
    \<lparr>sm_ID = c_ID item, sm_Names = [''/'' @ c_Name item], sm_ImageRef = c_ImageReference item, sm_ImageID = c_ImageDigest item,
     sm_CommandText = Join '' '' (cs_Command (c_Spec item)), sm_Created = instant (c_CreatedAt item) div 1000000000,
     sm_Ports = portSummaries (portMapFromBindings PortFrom (c_PortBindings item)), sm_Labels = publicLabels (c_Labels item),
     sm_State = c_State item, sm_Status = statusText item, sm_Networks = endpointSettingsMap (c_Networks item),
     sm_NetworkMode = containerNetworkMode item\<rparr>"

section \<open>handlers_exec.go\<close>

record exec_inspect_response =
  xi_ID :: string
  xi_Running :: bool
  xi_ExitCode :: "int option"
  xi_Tty :: bool
  xi_Entrypoint :: string
  xi_Arguments :: "string list"
  xi_OpenStdin :: bool
  xi_OpenStdout :: bool
  xi_OpenStderr :: bool
  xi_CanRemove :: bool
  xi_ContainerID :: string
  xi_Pid :: int

definition execInspectResponse :: "exec_record \<Rightarrow> exec_inspect_response" where
  "execInspectResponse r = \<lparr>xi_ID = er_ID r, xi_Running = er_Running r, xi_ExitCode = er_ExitCode r, xi_Tty = er_TTY r,
     xi_Entrypoint = (case er_Command r of [] \<Rightarrow> [] | e # _ \<Rightarrow> e), xi_Arguments = tl (er_Command r),
     xi_OpenStdin = er_OpenStdin r, xi_OpenStdout = er_OpenStdout r, xi_OpenStderr = er_OpenStderr r,
     xi_CanRemove = er_CanRemove r, xi_ContainerID = er_ContainerID r, xi_Pid = er_ProcessID r\<rparr>"

text \<open>The wire order is height, width.\<close>

definition consoleSize :: "(64 word \<times> 64 word) option \<Rightarrow> 64 word \<times> 64 word" where
  "consoleSize sz = (case sz of None \<Rightarrow> (0, 0) | Some (h, w) \<Rightarrow> (w, h))"

section \<open>handlers_networks.go\<close>

record network_summary =
  ns_Name :: string
  ns_ID :: string
  ns_Driver :: string
  ns_Scope :: string
  ns_IPAM :: "((addr \<times> nat) option \<times> addr option) list"
  ns_Labels :: "(string, string) gomap"

definition networkSummaryResponse :: "network_detail \<Rightarrow> network_summary" where
  "networkSummaryResponse d = \<lparr>ns_Name = nd_Name d, ns_ID = nd_ID d, ns_Driver = (if nd_Mode d = ''none'' then ''null'' else nd_Driver d),
     ns_Scope = ''local'',
     ns_IPAM = (if nd_Subnet d = [] then [] else [(ParsePrefix (nd_Subnet d), setAddr (nd_Gateway d))]),
     ns_Labels = nd_Labels d\<rparr>"

section \<open>handlers_images.go\<close>

definition lastIndex :: "char \<Rightarrow> string \<Rightarrow> int" where
  "lastIndex c s = (if c \<in> set s then int (length s) - 1 - int (length (takeWhile (\<lambda>x. x \<noteq> c) (rev s))) else -1)"

definition withTag :: "string \<Rightarrow> string \<Rightarrow> string" where
  "withTag reference tag =
    (if reference = [] \<or> Contains reference ''@'' then reference
     else if lastIndex CHR '':'' reference > lastIndex CHR ''/'' reference then reference
     else reference @ '':'' @ tag)"

definition splitPlatform :: "string \<Rightarrow> string \<times> string \<times> string" where
  "splitPlatform platform =
    (if platform = [] then ([], [], ''linux'')
     else case Split CHR ''/'' platform of
       [] \<Rightarrow> ([], [], ''linux'')
     | os # rest \<Rightarrow> (case rest of
         [] \<Rightarrow> ([], [], os) | [a] \<Rightarrow> (a, [], os) | a # v # _ \<Rightarrow> (a, v, os)))"

text \<open>\<open>ParsePort\<close> is \<^verbatim>\<open>network.ParsePort\<close> followed by \<^verbatim>\<open>String\<close>.\<close>

definition imageConfigResponse :: "(string \<Rightarrow> string option) \<Rightarrow> image_config option \<Rightarrow> image_config" where
  "imageConfigResponse ParsePort config = (case config of
     None \<Rightarrow> \<lparr>imc_User = [], imc_ExposedPorts = [], imc_Env = [], imc_Entrypoint = [], imc_Cmd = [], imc_Volumes = [],
              imc_WorkingDir = [], imc_Labels = [], imc_StopSignal = []\<rparr>
   | Some c \<Rightarrow> c\<lparr>imc_ExposedPorts := remdups (List.map_filter ParsePort (imc_ExposedPorts c)),
       imc_Volumes := remdups (filter (\<lambda>v. TrimSpace v \<noteq> []) (imc_Volumes c))\<rparr>)"

record image_summary =
  im_ID :: string
  im_Created :: int
  im_Labels :: "(string, string) gomap"
  im_RepoTags :: "string list"
  im_RepoDigests :: "string list"
  im_Size :: int

definition imageSummaryResponse :: "image_detail \<Rightarrow> image_summary" where
  "imageSummaryResponse d = \<lparr>im_ID = id_ID d, im_Created = instant (id_Created d) div 1000000000, im_Labels = id_Labels d,
     im_RepoTags = id_RepoTags d, im_RepoDigests = id_RepoDigests d, im_Size = id_Size d\<rparr>"

record image_inspect_response =
  ii_ID :: string
  ii_RepoTags :: "string list"
  ii_RepoDigests :: "string list"
  ii_Created :: string
  ii_Architecture :: string
  ii_Variant :: string
  ii_Os :: string
  ii_Size :: int
  ii_Config :: image_config

definition imageInspectResponse :: "(string \<Rightarrow> string option) \<Rightarrow> image_detail \<Rightarrow> image_inspect_response" where
  "imageInspectResponse ParsePort d = (case splitPlatform (id_Platform d) of (architecture, variant, os) \<Rightarrow>
     \<lparr>ii_ID = id_ID d, ii_RepoTags = id_RepoTags d, ii_RepoDigests = id_RepoDigests d, ii_Created = format_rfc3339nano (id_Created d),
      ii_Architecture = architecture, ii_Variant = variant, ii_Os = os, ii_Size = id_Size d,
      ii_Config = imageConfigResponse ParsePort (id_Config d)\<rparr>)"

definition decodeBuildArgs :: "(string \<Rightarrow> (string, string) gomap option) \<Rightarrow> string \<Rightarrow> (string, string) gomap" where
  "decodeBuildArgs unmarshal raw0 =
    (let raw = TrimSpace raw0 in
     if raw = [] then [] else case unmarshal raw of None \<Rightarrow> [] | Some args \<Rightarrow> args)"

section \<open>What the responses say\<close>

text \<open>
  The port map files every concrete binding exactly once, under its port, in order.
\<close>

lemma portMapFromBindings_get:
  "get_or [] (portMapFromBindings pf bs) p = map binding_entry (filter (\<lambda>b. binding_key pf b = Some p) bs)"
proof (induction bs rule: rev_induct)
  case (snoc b bs)
  then show ?case by (auto simp: portMapFromBindings_def get_or_def split: option.split)
qed (simp add: portMapFromBindings_def get_or_def)

lemma get_publicLabels:
  assumes "gomap_ok labels"
  shows "get (publicLabels labels) k = (if HasPrefix k ''io.dockerdless.'' then None else get labels k)"
proof -
  have "get (filter (\<lambda>(k, v). P k) labels) k = (if P k then get labels k else None)" for P
    using assms by (induction labels) (auto simp: map_of_eq_None_iff)
  then show ?thesis by (simp add: publicLabels_def)
qed

text \<open>A timeout within the range of a duration is what was asked for.\<close>

lemma seconds_duration_exact: "\<bar>n\<bar> \<le> 9223372036 \<Longrightarrow> seconds_duration n = n * 1000000000"
proof -
  assume "\<bar>n\<bar> \<le> 9223372036"
  then have "signed_take_bit 63 (n * 1000000000) = n * 1000000000"
    by (intro signed_take_bit_int_eq_self) (auto simp: abs_if split: if_splits)
  moreover have prod: "(word_of_int n * 1000000000 :: 64 word) = word_of_int (n * 1000000000)" by simp
  have "sint (word_of_int k :: 64 word) = signed_take_bit 63 k" for k by (simp add: signed_of_int)
  ultimately show ?thesis unfolding seconds_duration_def prod by metis
qed

lemma seconds_duration_wraps: "seconds_duration 18446744074 = 290448384"
  by (simp add: seconds_duration_def signed_of_int)

end
