(* ===== verification/Api_Handlers.thy ===== *)
theory Api_Handlers
  imports Api_Responses
begin

text \<open>
  The handlers of \<^verbatim>\<open>internal/api\<close> on the use cases of the application service: what a request
  does to the daemon and what the client gets. A handler takes the path and the query of the
  request, and the outcome of decoding the body where it has one.
\<close>

section \<open>Responses\<close>

datatype api_body =
    NoBody
  | ErrorBody string
  | CreateBody container_id
  | SummariesBody "container_summary list"
  | InspectBody inspect_response
  | ExecCreateBody string
  | ExecInspectBody exec_inspect_response
  | NetworksBody "network_summary list"
  | NetworkBody network_summary
  | NetworkCreateBody network_id
  | ImageBody image_inspect_response
  | ImagesBody "image_summary list"
  | UntaggedBody string
  | DeletedBody string

type_synonym http_response = "int \<times> api_body"

definition service_error :: "gerror \<Rightarrow> http_response" where
  "service_error e = map_prod id ErrorBody (WriteServiceError (Some e))"

definition docker_error_response :: "docker_error \<Rightarrow> http_response" where
  "docker_error_response d = map_prod id ErrorBody (WriteDockerError (Some d))"

text \<open>The outcomes of decoding a bounded body.\<close>

datatype 'a decoded = Decoded 'a | TooLarge | EmptyBody | Malformed string

definition decodeJSONBody :: "'a decoded \<Rightarrow> docker_error + 'a" where
  "decodeJSONBody r = (case r of
     Decoded v \<Rightarrow> Inr v
   | TooLarge \<Rightarrow> Inl (NewInvalidParameter ''request body is too large'')
   | EmptyBody \<Rightarrow> Inl (NewInvalidParameter ''request body must not be empty'')
   | Malformed m \<Rightarrow> Inl (NewInvalidParameter (''invalid JSON body: '' @ m)))"

text \<open>The packages the handlers call.\<close>

record api_env =
  ae_PortFrom :: port_from
  ae_mounts :: "string \<Rightarrow> mount list option"
  ae_filters :: filter_env
  ae_statusText :: "container \<Rightarrow> string"
  ae_ParsePort :: "string \<Rightarrow> string option"
  ae_encodings :: "(string \<Rightarrow> string option) list"
  ae_auth :: "string \<Rightarrow> registry_auth_payload option"
  ae_buildArgs :: "string \<Rightarrow> (string, string) gomap option"

section \<open>handlers_containers.go\<close>

definition containerCreate ::
  "'w service_env \<Rightarrow> query \<Rightarrow> moby_create_request decoded \<Rightarrow> 'w svc \<Rightarrow> 'w svc \<times> http_response" where
  "containerCreate env q body s = (case decodeJSONBody body of
     Inl d \<Rightarrow> (s, docker_error_response d)
   | Inr payload \<Rightarrow> (case containerCreate_request (get_or [] q ''name'') payload of
       Inl d \<Rightarrow> (s, docker_error_response d)
     | Inr req \<Rightarrow> (case ContainerCreate env req s of
         (s1, Inl e) \<Rightarrow> (s1, service_error e)
       | (s1, Inr i) \<Rightarrow> (s1, 201, CreateBody i))))"

definition containerList :: "api_env \<Rightarrow> 'w service_env \<Rightarrow> query \<Rightarrow> 'w svc \<Rightarrow> 'w svc \<times> http_response" where
  "containerList ae env q s = (case ContainerList env (boolQuery q ''all'' False) s of (s1, cs) \<Rightarrow>
     (s1, 200, SummariesBody (map (containerSummaryResponse (ae_PortFrom ae) (ae_statusText ae))
        (filter (matchesContainerFilters (ae_filters ae) q) cs))))"

definition containerInspect :: "api_env \<Rightarrow> 'w service_env \<Rightarrow> string \<Rightarrow> 'w svc \<Rightarrow> 'w svc \<times> http_response" where
  "containerInspect ae env path s = (case ContainerInspect env (pathParameter path ''/containers/'' ''/json'') s of
     (s1, Inl e) \<Rightarrow> (s1, service_error e)
   | (s1, Inr item) \<Rightarrow> (s1, 200, InspectBody (containerInspectResponse (ae_PortFrom ae) (ae_mounts ae) item)))"

definition no_content :: "gerror option \<Rightarrow> http_response" where
  "no_content r = (case r of Some e \<Rightarrow> service_error e | None \<Rightarrow> (204, NoBody))"

definition containerStart :: "'w service_env \<Rightarrow> string \<Rightarrow> 'w svc \<Rightarrow> 'w svc \<times> http_response" where
  "containerStart env path s = map_prod id no_content (ContainerStart env (pathParameter path ''/containers/'' ''/start'') s)"

definition containerStop :: "'w service_env \<Rightarrow> string \<Rightarrow> query \<Rightarrow> 'w svc \<Rightarrow> 'w svc \<times> http_response" where
  "containerStop env path q s =
    map_prod id no_content (ContainerStop env (pathParameter path ''/containers/'' ''/stop'') (timeoutQuery q) s)"

definition containerRemove :: "'w service_env \<Rightarrow> string \<Rightarrow> query \<Rightarrow> 'w svc \<Rightarrow> 'w svc \<times> http_response" where
  "containerRemove env path q s =
    map_prod id no_content (ContainerRemove env (pathParameter path ''/containers/'' []) (boolQuery q ''force'' False) s)"

section \<open>handlers_exec.go\<close>

record moby_exec_create =
  me_Cmd :: "string list"
  me_Env :: "string list"
  me_WorkingDir :: string
  me_User :: string
  me_Tty :: bool
  me_AttachStdin :: bool
  me_AttachStdout :: bool
  me_AttachStderr :: bool

definition execCreate :: "'w service_env \<Rightarrow> string \<Rightarrow> moby_exec_create decoded \<Rightarrow> 'w svc \<Rightarrow> 'w svc \<times> http_response" where
  "execCreate env path body s = (case decodeJSONBody body of
     Inl d \<Rightarrow> (s, docker_error_response d)
   | Inr p \<Rightarrow> (case ExecCreate env (pathParameter path ''/containers/'' ''/exec'')
         \<lparr>xc_Command = me_Cmd p, xc_Env = envMap (me_Env p), xc_WorkingDir = me_WorkingDir p, xc_User = me_User p, xc_TTY = me_Tty p,
          xc_AttachStdin = me_AttachStdin p, xc_AttachStdout = me_AttachStdout p, xc_AttachStderr = me_AttachStderr p\<rparr> s of
       (s1, Inl e) \<Rightarrow> (s1, service_error e)
     | (s1, Inr i) \<Rightarrow> (s1, 201, ExecCreateBody i)))"

definition execInspect :: "'w service_env \<Rightarrow> string \<Rightarrow> 'w svc \<Rightarrow> 'w svc \<times> http_response" where
  "execInspect env path s = (case ExecInspect env (pathParameter path ''/exec/'' ''/json'') s of
     Inl e \<Rightarrow> (s, service_error e)
   | Inr r \<Rightarrow> (s, 200, ExecInspectBody (execInspectResponse r)))"

section \<open>handlers_networks.go\<close>

definition networkList :: "'w service_env \<Rightarrow> 'w svc \<Rightarrow> 'w svc \<times> http_response" where
  "networkList env s = (case NetworkList env s of
     (s1, Inl e) \<Rightarrow> (s1, service_error e)
   | (s1, Inr ds) \<Rightarrow> (s1, 200, NetworksBody (map networkSummaryResponse ds)))"

definition networkInspect :: "'w service_env \<Rightarrow> string \<Rightarrow> 'w svc \<Rightarrow> 'w svc \<times> http_response" where
  "networkInspect env path s = (case NetworkInspect env (pathParameter path ''/networks/'' []) s of
     (s1, Inl e) \<Rightarrow> (s1, service_error e)
   | (s1, Inr d) \<Rightarrow> (s1, 200, NetworkBody (networkSummaryResponse d)))"

record moby_network_create =
  mn_Name :: string
  mn_Driver :: string
  mn_EnableIPv6 :: "bool option"
  mn_Labels :: "(string, string) gomap"

definition networkCreate :: "'w service_env \<Rightarrow> moby_network_create decoded \<Rightarrow> 'w svc \<Rightarrow> 'w svc \<times> http_response" where
  "networkCreate env body s = (case decodeJSONBody body of
     Inl d \<Rightarrow> (s, docker_error_response d)
   | Inr p \<Rightarrow> (case NetworkCreate env \<lparr>ncr_Name = mn_Name p, ncr_Driver = mn_Driver p,
         ncr_EnableIPv6 = (mn_EnableIPv6 p = Some True), ncr_Labels = mn_Labels p\<rparr> s of
       (s1, Inl e) \<Rightarrow> (s1, service_error e)
     | (s1, Inr i) \<Rightarrow> (s1, 201, NetworkCreateBody i)))"

definition networkConnect ::
  "'w service_env \<Rightarrow> string \<Rightarrow> (container_id \<times> string list option) decoded \<Rightarrow> 'w svc \<Rightarrow> 'w svc \<times> http_response" where
  "networkConnect env path body s = (case decodeJSONBody body of
     Inl d \<Rightarrow> (s, docker_error_response d)
   | Inr (i, endpoint) \<Rightarrow> map_prod id no_content (NetworkConnect env
       \<lparr>nc_Network = pathParameter path ''/networks/'' ''/connect'', nc_Container = i, nc_NetNS = [], nc_IfName = [], nc_Ports = [],
        nc_Aliases = (case endpoint of Some aliases \<Rightarrow> aliases | None \<Rightarrow> [])\<rparr> s))"

definition networkRemove :: "'w service_env \<Rightarrow> string \<Rightarrow> 'w svc \<Rightarrow> 'w svc \<times> http_response" where
  "networkRemove env path s = map_prod id no_content (NetworkRemove env (pathParameter path ''/networks/'' []) s)"

section \<open>handlers_images.go\<close>

definition imageInspect :: "api_env \<Rightarrow> 'w service_env \<Rightarrow> string \<Rightarrow> 'w svc \<Rightarrow> 'w svc \<times> http_response" where
  "imageInspect ae env path s = (case s of (st, w) \<Rightarrow> (case ImageInspect env (pathParameter path ''/images/'' ''/json'') w of
     (w1, Inl e) \<Rightarrow> ((st, w1), service_error e)
   | (w1, Inr d) \<Rightarrow> ((st, w1), 200, ImageBody (imageInspectResponse (ae_ParsePort ae) d))))"

definition imageRemove :: "'w service_env \<Rightarrow> string \<Rightarrow> query \<Rightarrow> 'w svc \<Rightarrow> 'w svc \<times> http_response" where
  "imageRemove env path q s = (case ImageRemove env (TrimPrefix (pathParameter path ''/images/'' []) ''/'') (boolQuery q ''force'' False) s of
     (w1, Inl e) \<Rightarrow> ((fst s, w1), service_error e)
   | (w1, Inr r) \<Rightarrow> ((fst s, w1), 200,
       if ir_Untagged r \<noteq> [] then UntaggedBody (ir_Untagged r)
       else if ir_Deleted r \<noteq> [] then DeletedBody (ir_Deleted r) else DeletedBody (ir_ID r)))"

definition imageList :: "'w service_env \<Rightarrow> 'w svc \<Rightarrow> 'w svc \<times> http_response" where
  "imageList env s = (case s of (st, w) \<Rightarrow> (case ImageList env w of
     (w1, Inl e) \<Rightarrow> ((st, w1), service_error e)
   | (w1, Inr ds) \<Rightarrow> ((st, w1), 200, ImagesBody (map imageSummaryResponse ds))))"

section \<open>handlers_images.go: streamed responses\<close>

text \<open>
  The response writer of a streamed response: the status line, once it is written, the content type
  and what has been written, a line of the stream or the error it ends with. Writing the body of an
  error response is the chunk \<open>Envelope\<close>.
\<close>

datatype chunk = Line string | ErrorDetail string | Envelope string

record response_writer =
  rw_Status :: "int option"
  rw_Type :: string
  rw_Chunks :: "chunk list"

definition fresh_writer :: response_writer where
  "fresh_writer = \<lparr>rw_Status = None, rw_Type = [], rw_Chunks = []\<rparr>"

text \<open>Only the first status line counts, and headers change nothing after it.\<close>

definition write_head :: "string \<Rightarrow> int \<Rightarrow> response_writer \<Rightarrow> response_writer" where
  "write_head contentType status w =
    (if rw_Status w = None then w\<lparr>rw_Type := contentType, rw_Status := Some status\<rparr> else w)"

definition write_chunk :: "chunk \<Rightarrow> response_writer \<Rightarrow> response_writer" where
  "write_chunk c w = (let w1 = (if rw_Status w = None then w\<lparr>rw_Status := Some 200\<rparr> else w) in w1\<lparr>rw_Chunks := rw_Chunks w1 @ [c]\<rparr>)"

record lazy_stream_writer =
  lz_writer :: response_writer
  lz_contentType :: string
  lz_started :: bool

definition newLazyStreamWriter :: "response_writer \<Rightarrow> string \<Rightarrow> lazy_stream_writer" where
  "newLazyStreamWriter w contentType = \<lparr>lz_writer = w, lz_contentType = contentType, lz_started = False\<rparr>"

definition ensureStarted :: "lazy_stream_writer \<Rightarrow> lazy_stream_writer" where
  "ensureStarted s = (if lz_started s then s
     else s\<lparr>lz_started := True, lz_writer := write_head (lz_contentType s) 200 (lz_writer s)\<rparr>)"

definition lazy_Write :: "chunk \<Rightarrow> lazy_stream_writer \<Rightarrow> lazy_stream_writer" where
  "lazy_Write c s = (let s1 = ensureStarted s in s1\<lparr>lz_writer := write_chunk c (lz_writer s1)\<rparr>)"

definition writeStreamError :: "lazy_stream_writer \<Rightarrow> gerror \<Rightarrow> lazy_stream_writer" where
  "writeStreamError s e = lazy_Write (ErrorDetail (serviceMessage (Some e))) s"

definition finishStream :: "lazy_stream_writer \<Rightarrow> gerror option \<Rightarrow> response_writer" where
  "finishStream s err = (case err of
     Some e \<Rightarrow>
       if \<not> lz_started s
       then (case WriteServiceError (Some e) of (status, message) \<Rightarrow>
               write_chunk (Envelope message) (write_head ''application/json'' status (lz_writer s)))
       else lz_writer (writeStreamError s e)
   | None \<Rightarrow> lz_writer (ensureStarted s))"

definition error_envelope :: "docker_error \<Rightarrow> response_writer" where
  "error_envelope d = (case WriteDockerError (Some d) of (status, message) \<Rightarrow>
     write_chunk (Envelope message) (write_head ''application/json'' status fresh_writer))"

definition pull_request_of :: "query \<Rightarrow> registry_auth option \<Rightarrow> pull_request" where
  "pull_request_of q auth =
    (let reference = TrimSpace (get_or [] q ''fromImage''); tag = TrimSpace (get_or [] q ''tag'')
     in \<lparr>pl_Reference = (if tag \<noteq> [] then withTag reference tag else reference), pl_Platform = TrimSpace (get_or [] q ''platform''),
         pl_Auth = auth\<rparr>)"

definition imageCreate :: "api_env \<Rightarrow> 'w service_env \<Rightarrow> query \<Rightarrow> string \<Rightarrow> 'w \<Rightarrow> 'w \<times> response_writer" where
  "imageCreate ae env q header w = (case decodeRegistryAuth (ae_encodings ae) (ae_auth ae) header of
     Inl d \<Rightarrow> (w, error_envelope d)
   | Inr auth \<Rightarrow> (case ImagePull env (pull_request_of q auth) w of
       (w1, lines, err) \<Rightarrow>
         (w1, finishStream (fold (\<lambda>l. lazy_Write (Line l)) lines (newLazyStreamWriter fresh_writer ''application/json'')) err)))"

text \<open>
  The stream of a build is written by the image adapter; \<open>lines\<close> is what it writes, \<open>tar\<close> the
  body of the request, cut at the limit of the build context by \<^verbatim>\<open>http.MaxBytesReader\<close>.
\<close>

definition build_request_of :: "api_env \<Rightarrow> query \<Rightarrow> string \<Rightarrow> registry_auth option \<Rightarrow> build_request" where
  "build_request_of ae q tar auth = \<lparr>br_Context = Some tar, br_Tag = TrimSpace (get_or [] q ''t''),
     br_Dockerfile = TrimSpace (get_or [] q ''dockerfile''), br_Platform = TrimSpace (get_or [] q ''platform''),
     br_BuildArgs = decodeBuildArgs (ae_buildArgs ae) (get_or [] q ''buildargs''), br_Target = TrimSpace (get_or [] q ''target''),
     br_NoCache = boolQuery q ''nocache'' False, br_Auth = auth\<rparr>"

definition build :: "api_env \<Rightarrow> 'w service_env \<Rightarrow> query \<Rightarrow> string \<Rightarrow> string \<Rightarrow> ('w \<Rightarrow> string list) \<Rightarrow> 'w \<Rightarrow> 'w \<times> response_writer" where
  "build ae env q header tar streamed w = (case decodeRegistryAuth (ae_encodings ae) (ae_auth ae) header of
     Inl d \<Rightarrow> (w, error_envelope d)
   | Inr auth \<Rightarrow> (case ImageBuild env (build_request_of ae q tar auth) w of
       (w1, err) \<Rightarrow>
         (w1, finishStream (fold (\<lambda>l. lazy_Write (Line l)) (streamed w1) (newLazyStreamWriter fresh_writer ''application/json'')) err)))"

section \<open>A streamed response\<close>

lemma lazy_fold_started:
  assumes "lz_started s" and "rw_Status (lz_writer s) \<noteq> None"
  shows "fold (\<lambda>l. lazy_Write (Line l)) ls s = s\<lparr>lz_writer := (lz_writer s)\<lparr>rw_Chunks := rw_Chunks (lz_writer s) @ map Line ls\<rparr>\<rparr>"
  using assms
proof (induction ls arbitrary: s)
  case (Cons l ls)
  have "lazy_Write (Line l) s = s\<lparr>lz_writer := (lz_writer s)\<lparr>rw_Chunks := rw_Chunks (lz_writer s) @ [Line l]\<rparr>\<rparr>"
    using Cons.prems by (auto simp: lazy_Write_def ensureStarted_def write_chunk_def Let_def)
  then show ?case using Cons by simp
qed simp

text \<open>What a stream of lines that ends with \<open>err\<close> is to the client.\<close>

definition streamed_response :: "string list \<Rightarrow> gerror option \<Rightarrow> response_writer" where
  "streamed_response ls err = (case err of
     None \<Rightarrow> \<lparr>rw_Status = Some 200, rw_Type = ''application/json'', rw_Chunks = map Line ls\<rparr>
   | Some e \<Rightarrow>
      if ls = [] then \<lparr>rw_Status = Some (fst (WriteServiceError err)), rw_Type = ''application/json'', rw_Chunks = [Envelope (snd (WriteServiceError err))]\<rparr>
      else \<lparr>rw_Status = Some 200, rw_Type = ''application/json'', rw_Chunks = map Line ls @ [ErrorDetail (serviceMessage err)]\<rparr>)"

lemma finishStream_lines:
  "finishStream (fold (\<lambda>l. lazy_Write (Line l)) ls (newLazyStreamWriter fresh_writer ''application/json'')) err = streamed_response ls err"
proof (cases ls)
  case Nil
  then show ?thesis
    by (simp add: finishStream_def streamed_response_def newLazyStreamWriter_def fresh_writer_def ensureStarted_def write_head_def
        write_chunk_def Let_def split: option.split prod.split)
next
  case (Cons l ls')
  let ?s = "lazy_Write (Line l) (newLazyStreamWriter fresh_writer ''application/json'')"
  have s: "?s = \<lparr>lz_writer = \<lparr>rw_Status = Some 200, rw_Type = ''application/json'', rw_Chunks = [Line l]\<rparr>,
      lz_contentType = ''application/json'', lz_started = True\<rparr>"
    by (simp add: lazy_Write_def ensureStarted_def newLazyStreamWriter_def fresh_writer_def write_head_def write_chunk_def Let_def)
  have "fold (\<lambda>l. lazy_Write (Line l)) ls (newLazyStreamWriter fresh_writer ''application/json'')
      = \<lparr>lz_writer = \<lparr>rw_Status = Some 200, rw_Type = ''application/json'', rw_Chunks = map Line ls\<rparr>,
         lz_contentType = ''application/json'', lz_started = True\<rparr>"
    using lazy_fold_started [of ?s ls'] by (simp add: Cons s)
  then show ?thesis
    using Cons by (simp add: finishStream_def streamed_response_def ensureStarted_def writeStreamError_def lazy_Write_def write_chunk_def Let_def
        split: option.split)
qed

text \<open>
  The answer to an image pull. A pull that is refused before anything was streamed is answered with
  the status and message of the error; once a line was streamed the status is 200 and an error is the
  last chunk of the stream; a pull that succeeds has status 200 and exactly its lines. Credentials
  that cannot be decoded are refused with status 400 and nothing is pulled.
\<close>

theorem pull_response:
  "imageCreate ae env q header w = (case decodeRegistryAuth (ae_encodings ae) (ae_auth ae) header of
     Inl d \<Rightarrow> (w, \<lparr>rw_Status = Some 400, rw_Type = ''application/json'', rw_Chunks = [Envelope ''invalid X-Registry-Auth header'']\<rparr>)
   | Inr auth \<Rightarrow> (case ImagePull env (pull_request_of q auth) w of (w1, ls, err) \<Rightarrow> (w1, streamed_response ls err)))"
proof -
  have "d = NewInvalidParameter ''invalid X-Registry-Auth header''"
    if "decodeRegistryAuth (ae_encodings ae) (ae_auth ae) header = Inl d" for d
    using that by (auto simp: decodeRegistryAuth_def Let_def split: if_splits option.splits prod.splits)
  moreover have "error_envelope (NewInvalidParameter m) = \<lparr>rw_Status = Some 400, rw_Type = ''application/json'', rw_Chunks = [Envelope m]\<rparr>"
    if "m \<noteq> []" for m
    using that by (simp add: error_envelope_def WriteDockerError_def api_error_defs docker_error_StatusCode_def write_chunk_def write_head_def
        fresh_writer_def Let_def)
  ultimately show ?thesis
    by (auto simp: imageCreate_def finishStream_lines split: sum.split prod.split)
qed

section \<open>From the create request to the inspect response\<close>

text \<open>The container a create request leaves in the registry.\<close>

lemma ContainerCreate_stored:
  assumes "ContainerCreate env req (st, w) = ((st', w'), Inr i)"
  shows "\<exists>d now bs att. get (byID (sv_registry st')) i
     = Some (fill_image (created_container env i (TrimPrefix (TrimSpace (cc_Name req)) ''/'') req d now bs att)) \<and> i \<noteq> []"
proof -
  let ?name = "TrimPrefix (TrimSpace (cc_Name req)) ''/''"
  have "\<exists>d mode n bs s2. provision env ?name req d mode n bs s2 = ((st', w'), Inr i)"
    using assms by (auto simp: ContainerCreate_def Let_def split: option.splits prod.splits sum.splits) blast
  then obtain d mode n bs st2 w2 where p: "provision env ?name req d mode n bs (st2, w2) = ((st', w'), Inr i)"
    by (metis surj_pair)
  obtain w3 r3 where e3: "se_CreateContainer env (create_spec env ?name req d) w2 = (w3, r3)" by (metis surj_pair)
  obtain w4 now where e4: "se_now env w3 = (w4, now)" by (metis surj_pair)
  have r3: "r3 = Inr i"
    using p by (cases r3) (auto simp: provision_def e3 e4 split: sum.splits)
  let ?c = "created_container env i ?name req d now bs (networkAttachment mode n)"
  obtain r where sv: "Save (se_ctx env w4) ?c (sv_registry st2) = Inr r" and st': "st' = st2\<lparr>sv_registry := r\<rparr>"
    using p by (auto simp: provision_def e3 e4 r3 split: sum.splits)
  have "get (byID r) i = Some (fill_image ?c)" "i \<noteq> []"
    using sv by (auto simp: Save_def Let_def created_container_def fill_image_def split: option.splits if_splits)
  then show ?thesis using st' by auto
qed

text \<open>
  A container that was never started is inspected as it is stored, unless the runtime reports it as
  running: then only the state and the start time differ.
\<close>

definition reported_state :: "'w service_env \<Rightarrow> container_id \<Rightarrow> 'w \<Rightarrow> string" where
  "reported_state env i w =
    (if snd (se_Status env i w) = Inr ContainerStateRunning then ContainerStateRunning else ContainerStateCreated)"

lemma ContainerInspect_created:
  assumes "resolveContainer env ref (st, w) = Inr c" and "c_State c = ContainerStateCreated"
  shows "\<exists>t. snd (ContainerInspect env ref (st, w)) = Inr (c\<lparr>c_State := reported_state env (c_ID c) w, c_StartedAt := t\<rparr>)"
proof -
  obtain w1 r where q: "se_Status env (c_ID c) w = (w1, r)" by (metis surj_pair)
  let ?u = "c\<lparr>c_State := reported_state env (c_ID c) w\<rparr>"
  have same: "c\<lparr>c_State := ContainerStateCreated\<rparr> = c" using assms(2) by simp
  have "\<exists>ch. refresh env c (st, w) = ((st, w1), ?u, ch)"
  proof (cases "r = Inr ContainerStateRunning")
    case True
    then show ?thesis using assms(2) q by (intro exI [of _ True]) (simp add: refresh_def reported_state_def)
  next
    case False
    then show ?thesis using assms(2) q by (intro exI [of _ False], cases r) (simp_all add: refresh_def reported_state_def same)
  qed
  then obtain ch where ref: "refresh env c (st, w) = ((st, w1), ?u, ch)" ..
  have "\<exists>t. normalizeContainerTimestamps ?u now = ?u\<lparr>c_StartedAt := t\<rparr>" for now
  proof -
    have self: "?u = ?u\<lparr>c_StartedAt := c_StartedAt c\<rparr>" by simp
    have "c_State ?u \<noteq> ContainerStateExited" by (simp add: reported_state_def)
    then show ?thesis
      by (cases "(c_State ?u = ContainerStateRunning \<or> c_State ?u = ContainerStatePaused) \<and> IsZero (c_StartedAt ?u)")
        (simp_all only: normalizeContainerTimestamps_def Let_def if_True if_False, simp, blast, use self in metis)
  qed
  moreover have "snd (ContainerInspect env ref (st, w)) = Inr (normalizeContainerTimestamps ?u (snd (se_now env w1)))"
    using assms(1) ref by (simp add: ContainerInspect_def refresh_and_save_def Let_def split: prod.split)
  ultimately show ?thesis by simp
qed

text \<open>Labels under keys the daemon keeps for itself.\<close>

definition no_reserved_labels :: "(string, string) gomap \<Rightarrow> bool" where
  "no_reserved_labels labels \<longleftrightarrow> (\<forall>k. HasPrefix k ''io.dockerdless.'' \<longrightarrow> get labels k = None)"

lemma created_labels:
  assumes "no_reserved_labels (cc_Labels req)" and "gomap_ok (cc_Labels req)"
  shows "get (publicLabels (buildCreateLabels env req d)) = get (cc_Labels req)"
    and "(get (buildCreateLabels env req d) LabelTTY = Some ''true'') = cc_TTY req"
    and "get_or [] (buildCreateLabels env req d) LabelMounts = (if cc_Mounts req = [] then [] else se_encodeMounts env (cc_Mounts req))"
proof -
  have ok: "gomap_ok (buildCreateLabels env req d)" using assms(2) by (simp add: buildCreateLabels_def Let_def)
  show "get (publicLabels (buildCreateLabels env req d)) = get (cc_Labels req)"
  proof
    fix k
    show "get (publicLabels (buildCreateLabels env req d)) k = get (cc_Labels req) k"
      using assms(1) unfolding get_publicLabels [OF ok]
      by (auto simp: no_reserved_labels_def buildCreateLabels_def Let_def HasPrefix_def)
  qed
  have "get (cc_Labels req) LabelTTY = None" "get (cc_Labels req) LabelMounts = None"
    using assms(1) by (auto simp: no_reserved_labels_def HasPrefix_def)
  then show "(get (buildCreateLabels env req d) LabelTTY = Some ''true'') = cc_TTY req"
    and "get_or [] (buildCreateLabels env req d) LabelMounts = (if cc_Mounts req = [] then [] else se_encodeMounts env (cc_Mounts req))"
    by (auto simp: buildCreateLabels_def Let_def get_or_def)
qed

lemma error_not_created: "service_error e \<noteq> (n, CreateBody i)" "docker_error_response d \<noteq> (n, CreateBody i)"
  by (simp_all add: service_error_def docker_error_response_def prod_eq_iff)

text \<open>What the client asked for, as the inspect response shows it.\<close>

definition shows_request :: "string \<Rightarrow> string \<Rightarrow> moby_config \<Rightarrow> moby_host_config option \<Rightarrow> inspect_response \<Rightarrow> bool" where
  "shows_request state name c h r \<longleftrightarrow>
     ci_Name r = ''/'' @ TrimPrefix (TrimSpace name) ''/'' \<and> ci_ConfigImage r = mc_Image c \<and> ci_Cmd r = mc_Cmd c
     \<and> ci_Args r = mc_Cmd c \<and> ci_Env r = envSlice (envMap (mc_Env c)) \<and> ci_Tty r = mc_Tty c
     \<and> get (ci_Labels r) = get (mc_Labels c) \<and> ci_Mounts r = map mount_point_of (requestedMounts h)
     \<and> sr_Status (ci_State r) = state \<and> sr_Running (ci_State r) = (state = ContainerStateRunning)"

text \<open>
  C6: creating and inspecting a container over the API. When the create request is answered with
  status 201, inspecting the container under the identity of the answer gives status 200 and a
  response that shows the name, image, command, environment, terminal, labels and mounts the client
  asked for; the state shown is created, unless the runtime reports the container as running, which
  is then shown; each concrete port binding of the container appears exactly once in the port map,
  under its port. The labels are none of the daemon's own keys, and the mounts are read back from
  their label as they were written.
\<close>

theorem create_then_inspect:
  assumes "containerCreate env q (Decoded payload) (st, w) = ((st', w'), 201, CreateBody i)" and "mr_Config payload = Some c"
    and "live env" and "gomap_ok (mc_Labels c)" and "no_reserved_labels (mc_Labels c)"
    and "ae_mounts ae (se_encodeMounts env (requestedMounts (mr_HostConfig payload))) = Some (requestedMounts (mr_HostConfig payload))"
    and "se_encodeMounts env (requestedMounts (mr_HostConfig payload)) \<noteq> []"
    and "pathParameter path ''/containers/'' ''/json'' = i" and "TrimPrefix (TrimSpace i) ''/'' = i"
  shows "\<exists>r item. snd (containerInspect ae env path (st', w')) = (200, InspectBody r) \<and> ci_ID r = i
    \<and> shows_request (reported_state env i w') (get_or [] q ''name'') c (mr_HostConfig payload) r
    \<and> get (byID (sv_registry st')) i = Some item
    \<and> (\<forall>p. get_or [] (ci_Ports r) p = map binding_entry (filter (\<lambda>b. binding_key (ae_PortFrom ae) b = Some p) (c_PortBindings item)))"
proof -
  obtain req where req: "containerCreate_request (get_or [] q ''name'') payload = Inr req"
    and create: "ContainerCreate env req (st, w) = ((st', w'), Inr i)"
    using assms(1) by (auto simp: containerCreate_def decodeJSONBody_def error_not_created split: sum.splits prod.splits)
  have fields: "cc_Name req = get_or [] q ''name''" "cc_Image req = mc_Image c" "cc_Command req = mc_Cmd c" "cc_Env req = envMap (mc_Env c)"
    "cc_Labels req = mc_Labels c" "cc_TTY req = mc_Tty c" "cc_Mounts req = requestedMounts (mr_HostConfig payload)"
    using req assms(2) by (auto simp: containerCreate_request_def rbind_eq_Inr split: option.splits)
  obtain d now bs att where stored: "get (byID (sv_registry st')) i
      = Some (fill_image (created_container env i (TrimPrefix (TrimSpace (cc_Name req)) ''/'') req d now bs att))" and i: "i \<noteq> []"
    using ContainerCreate_stored [OF create] by blast
  define item where "item = fill_image (created_container env i (TrimPrefix (TrimSpace (cc_Name req)) ''/'') req d now bs att)"
  have item: "c_ID item = i" "c_Name item = TrimPrefix (TrimSpace (cc_Name req)) ''/''" "c_State item = ContainerStateCreated"
    "c_Labels item = buildCreateLabels env req d" "cs_Command (c_Spec item) = cc_Command req" "cs_Env (c_Spec item) = cc_Env req"
    "c_ImageReference item = cc_Image req"
    by (simp_all add: item_def fill_image_def created_container_def Let_def)
  have "resolveContainer env i (st', w') = Inr item"
    by (rule resolveContainer_by_id) (use stored i assms(3,9) in \<open>simp_all add: item_def\<close>)
  from ContainerInspect_created [OF this item(3)] item(1) obtain t where
    insp: "snd (ContainerInspect env i (st', w')) = Inr (item\<lparr>c_State := reported_state env i w', c_StartedAt := t\<rparr>)" by auto
  let ?r = "containerInspectResponse (ae_PortFrom ae) (ae_mounts ae) (item\<lparr>c_State := reported_state env i w', c_StartedAt := t\<rparr>)"
  have resp: "snd (containerInspect ae env path (st', w')) = (200, InspectBody ?r)"
    using insp assms(8) by (auto simp: containerInspect_def split: prod.splits sum.splits)
  have labels: "get (publicLabels (buildCreateLabels env req d)) = get (mc_Labels c)"
    "(get (buildCreateLabels env req d) LabelTTY = Some ''true'') = mc_Tty c"
    "get_or [] (buildCreateLabels env req d) LabelMounts = (if cc_Mounts req = [] then [] else se_encodeMounts env (cc_Mounts req))"
    using created_labels [of req env d] assms(4,5) by (simp_all add: fields)
  have mounts: "inspectMounts (ae_mounts ae) (get_or [] (buildCreateLabels env req d) LabelMounts) = map mount_point_of (cc_Mounts req)"
    unfolding labels(3) inspectMounts_def using assms(6,7) by (simp add: fields)
  have "shows_request (reported_state env i w') (get_or [] q ''name'') c (mr_HostConfig payload) ?r"
    using labels(1,2) mounts by (simp add: shows_request_def containerInspectResponse_def item fields)
  moreover have "ci_ID ?r = i" by (simp add: containerInspectResponse_def item)
  moreover have "get_or [] (ci_Ports ?r) p = map binding_entry (filter (\<lambda>b. binding_key (ae_PortFrom ae) b = Some p) (c_PortBindings item))" for p
    by (simp add: containerInspectResponse_def portMapFromBindings_get)
  ultimately show ?thesis using resp stored unfolding item_def [symmetric] by blast
qed

section \<open>The field policy over the API\<close>


section \<open>A concrete request\<close>

definition inspect_payload :: moby_create_request where
  "inspect_payload = sample_payload\<lparr>mr_Config := map_option (\<lambda>c. c\<lparr>mc_ExposedPorts := [], mc_Labels := [(''tier'', ''db'')]\<rparr>) (mr_Config sample_payload),
     mr_HostConfig := Some (sample_host_config\<lparr>hc_NetworkMode := ''host'', hc_PortBindings := []\<rparr>)\<rparr>"

definition sample_api_env :: api_env where
  "sample_api_env = \<lparr>ae_PortFrom = (\<lambda>n p. Some (n, p)), ae_mounts = (\<lambda>raw. Some (requestedMounts (mr_HostConfig inspect_payload))),
     ae_filters = \<lparr>fe_compile = (\<lambda>p. None), fe_filters = (\<lambda>r. None), fe_legacy = (\<lambda>r. None)\<rparr>, ae_statusText = c_State,
     ae_ParsePort = Some, ae_encodings = [], ae_auth = (\<lambda>r. None), ae_buildArgs = (\<lambda>r. None)\<rparr>"

theorem create_then_inspect_witness:
  "\<exists>st' r. fst (fst (containerCreate (sample_service_env []) [(''name'', ''web'')] (Decoded inspect_payload) (sample_service, 7))) = st'
     \<and> snd (containerInspect sample_api_env (sample_service_env []) ''/containers/c7/json'' (st', 8)) = (200, InspectBody r)
     \<and> ci_Name r = ''/web'' \<and> ci_Cmd r = [''serve''] \<and> get (ci_Labels r) ''tier'' = Some ''db''"
proof -
  have "snd (containerCreate (sample_service_env []) [(''name'', ''web'')] (Decoded inspect_payload) (sample_service, 7)) = (201, CreateBody ''c7'')"
    "snd (fst (containerCreate (sample_service_env []) [(''name'', ''web'')] (Decoded inspect_payload) (sample_service, 7))) = 8" by code_simp+
  then obtain st' where create: "containerCreate (sample_service_env []) [(''name'', ''web'')] (Decoded inspect_payload) (sample_service, 7)
      = ((st', 8), 201, CreateBody ''c7'')" by (metis prod.collapse)
  obtain c where c: "mr_Config inspect_payload = Some c" and cf: "mc_Cmd c = [''serve'']" "mc_Labels c = [(''tier'', ''db'')]"
    by (simp add: inspect_payload_def sample_payload_def)
  have paths: "pathParameter ''/containers/c7/json'' ''/containers/'' ''/json'' = ''c7''" "TrimPrefix (TrimSpace ''c7'') ''/'' = ''c7''"
    "TrimPrefix (TrimSpace ''web'') ''/'' = ''web''" by code_simp+
  have labels: "gomap_ok (mc_Labels c)" "no_reserved_labels (mc_Labels c)" unfolding no_reserved_labels_def cf by (auto simp: HasPrefix_def)
  have env: "se_encodeMounts (sample_service_env []) ms \<noteq> []"
    "ae_mounts sample_api_env raw = Some (requestedMounts (mr_HostConfig inspect_payload))" for ms raw
    by (simp_all add: sample_service_env_def sample_api_env_def)
  have name: "get_or [] [(''name'', ''web'')] ''name'' = ''web''" by (simp add: get_or_def)
  obtain r where "snd (containerInspect sample_api_env (sample_service_env []) ''/containers/c7/json'' (st', 8)) = (200, InspectBody r)"
    "shows_request (reported_state (sample_service_env []) ''c7'' 8) ''web'' c (mr_HostConfig inspect_payload) r"
    using create_then_inspect [OF create c sample_live labels env(2) env(1) paths(1,2)] unfolding name by blast
  then show ?thesis unfolding create fst_conv by (auto simp: shows_request_def cf paths(3))
qed

end
