(* ===== verification/Log_Stream.thy ===== *)
theory Log_Stream
  imports Go_Errors Go_Time
begin

text \<open>
  \<^verbatim>\<open>internal/streams/logs.go\<close>: decoding of CRI log lines, the tail search, and the reader
  that follows a growing log file. A log file is its contents (a string) with the identity of its
  inode; each polling iteration sees one snapshot of the file system and of the context, so a read
  is a run over a list of such observations. The destinations are state-passing sinks. Seek and
  read errors on an open file are not modelled: an open file is readable.
\<close>

abbreviation NL :: char where "NL \<equiv> CHR 0x0A"
abbreviation SP :: char where "SP \<equiv> CHR 0x20"

type_synonym 's sink = "'s \<Rightarrow> string \<Rightarrow> 's \<times> gerror option"

datatype log_format = LogFormatAuto | LogFormatCRI | LogFormatRaw

record log_options =
  lo_Follow :: bool
  lo_Tail :: int
  lo_Since :: gotime
  lo_Until :: gotime
  lo_Timestamps :: bool
  lo_Format :: log_format

record log_entry =
  le_Timestamp :: gotime
  le_Stream :: string
  le_Partial :: bool
  le_Content :: string

abbreviation LogStreamStdout :: string where "LogStreamStdout \<equiv> ''stdout''"
abbreviation LogStreamStderr :: string where "LogStreamStderr \<equiv> ''stderr''"

section \<open>CRI lines\<close>

definition cutToken :: "string \<Rightarrow> (string \<times> string) option" where
  "cutToken line = CutByte SP line"

text \<open>The message of \<^verbatim>\<open>time.ParseError\<close> is abbreviated to its first words.\<close>

definition ParseCRIEntry :: "string \<Rightarrow> gerror + log_entry" where
  "ParseCRIEntry line = (case cutToken line of
     None \<Rightarrow> Inl (NewErr ''streams: CRI line missing timestamp'')
   | Some (timestamp, rest) \<Rightarrow> (case parse_rfc3339nano timestamp of
       None \<Rightarrow> Inl (wrap_pre (''streams: CRI timestamp '' @ quote timestamp @ '': '')
                (NewErr (''parsing time '' @ quote timestamp)))
     | Some ts \<Rightarrow> (case cutToken rest of
         None \<Rightarrow> Inl (NewErr ''streams: CRI line missing stream'')
       | Some (stream, rest) \<Rightarrow>
           if stream \<noteq> LogStreamStdout \<and> stream \<noteq> LogStreamStderr
           then Inl (NewErr (''streams: CRI line has unexpected stream '' @ quote stream))
           else (case cutToken rest of
             None \<Rightarrow> Inl (NewErr ''streams: CRI line missing log tag'')
           | Some (tag, content) \<Rightarrow>
               Inr \<lparr>le_Timestamp = ts, le_Stream = stream,
                 le_Partial = (takeWhile (\<lambda>c. c \<noteq> CHR '':'') tag = ''P''),
                 le_Content = content\<rparr>))))"

definition raw_entry :: "string \<Rightarrow> log_entry" where
  "raw_entry line = \<lparr>le_Timestamp = zero_time, le_Stream = LogStreamStdout, le_Partial = False,
     le_Content = line\<rparr>"

definition decodeLogLine :: "string \<Rightarrow> log_format \<Rightarrow> log_entry option" where
  "decodeLogLine line fmt = (case fmt of
     LogFormatRaw \<Rightarrow> Some (raw_entry line)
   | LogFormatCRI \<Rightarrow> (case ParseCRIEntry line of Inl e \<Rightarrow> None | Inr en \<Rightarrow> Some en)
   | LogFormatAuto \<Rightarrow> (case ParseCRIEntry line of Inl e \<Rightarrow> Some (raw_entry line)
                        | Inr en \<Rightarrow> Some en))"

definition entryTooOld :: "log_entry \<Rightarrow> log_options \<Rightarrow> bool" where
  "entryTooOld en opts \<longleftrightarrow> \<not> IsZero (lo_Since opts) \<and> \<not> IsZero (le_Timestamp en)
     \<and> Before (le_Timestamp en) (lo_Since opts)"

definition entryOutOfRange :: "log_entry \<Rightarrow> log_options \<Rightarrow> bool" where
  "entryOutOfRange en opts \<longleftrightarrow> \<not> IsZero (lo_Until opts) \<and> \<not> IsZero (le_Timestamp en)
     \<and> After (le_Timestamp en) (lo_Until opts)"

definition writeLogEntry ::
  "'s sink \<Rightarrow> 's sink \<Rightarrow> log_entry \<Rightarrow> log_options \<Rightarrow> 's \<Rightarrow> 's \<times> gerror option" where
  "writeLogEntry wo we en opts s =
    (let dst = (if le_Stream en = LogStreamStderr then we else wo) in
     case (if lo_Timestamps opts \<and> \<not> IsZero (le_Timestamp en)
           then dst s (format_rfc3339nano (le_Timestamp en) @ '' '') else (s, None)) of
       (s1, Some e) \<Rightarrow> (s1, Some e)
     | (s1, None) \<Rightarrow> dst s1 (le_Content en))"

section \<open>The tail search\<close>

definition tailReadBlockSize :: nat where "tailReadBlockSize = 32768"

text \<open>
  One block read backwards: \<open>Inl i\<close> when the newline that completes the count is at index
  \<open>i\<close>, \<open>Inr seen\<close> with the newlines seen so far otherwise. The list is the block reversed.
\<close>

fun scan_back :: "nat \<Rightarrow> string \<Rightarrow> nat \<Rightarrow> nat + nat" where
  "scan_back wanted [] seen = Inr seen"
| "scan_back wanted (c # cs) seen =
    (if c \<noteq> NL then scan_back wanted cs seen
     else if Suc seen = wanted then Inl (length cs)
     else scan_back wanted cs (Suc seen))"

function tail_loop :: "string \<Rightarrow> nat \<Rightarrow> nat \<Rightarrow> nat \<Rightarrow> nat" where
  "tail_loop content wanted offset seen =
    (if offset = 0 then 0
     else let readLen = min tailReadBlockSize offset;
              start = offset - readLen;
              chunk = take readLen (drop start content)
          in case scan_back wanted (rev chunk) seen of
               Inl i \<Rightarrow> start + i + 1
             | Inr seen' \<Rightarrow> tail_loop content wanted start seen')"
  by pat_completeness auto
termination
  by (relation "measure (\<lambda>(content, wanted, offset, seen). offset)")
    (auto simp: tailReadBlockSize_def)

declare tail_loop.simps [simp del]

definition FindTailStart :: "string \<Rightarrow> int \<Rightarrow> nat" where
  "FindTailStart content n =
    (if n \<le> 0 then 0 else tail_loop content (nat n + 1) (length content) 0)"

section \<open>Emitting lines\<close>

text \<open>
  The slices \<^verbatim>\<open>reader.ReadBytes\<close> returns until the end of the file: every line with its
  newline, the last one possibly without.
\<close>

function read_lines :: "string \<Rightarrow> string list" where
  "read_lines s = (if s = [] then []
     else case CutByte NL s of None \<Rightarrow> [s] | Some (u, v) \<Rightarrow> (u @ [NL]) # read_lines v)"
  by pat_completeness auto
termination
  by (relation "measure length") (auto simp: CutByte_Some_iff)

declare read_lines.simps [simp del]

fun emit_lines ::
  "'s sink \<Rightarrow> 's sink \<Rightarrow> log_options \<Rightarrow> string list \<Rightarrow> nat \<Rightarrow> 's \<Rightarrow> 's \<times> nat \<times> bool \<times> gerror option"
  where
  "emit_lines wo we opts [] offset s = (s, offset, False, None)"
| "emit_lines wo we opts (l # ls) offset s =
    (if last l \<noteq> NL \<and> lo_Follow opts then (s, offset, False, None)
     else case decodeLogLine l (lo_Format opts) of
       None \<Rightarrow> emit_lines wo we opts ls (offset + length l) s
     | Some en \<Rightarrow>
         if entryOutOfRange en opts then (s, offset, True, None)
         else if entryTooOld en opts then emit_lines wo we opts ls (offset + length l) s
         else case writeLogEntry wo we en opts s of
           (s1, Some e) \<Rightarrow> (s1, offset, False, Some e)
         | (s1, None) \<Rightarrow> emit_lines wo we opts ls (offset + length l) s1)"

definition emitLogLines ::
  "'s sink \<Rightarrow> 's sink \<Rightarrow> log_options \<Rightarrow> string \<Rightarrow> nat \<Rightarrow> 's \<Rightarrow> 's \<times> nat \<times> bool \<times> gerror option" where
  "emitLogLines wo we opts content offset s =
     emit_lines wo we opts (read_lines (drop offset content)) offset s"

section \<open>Polling\<close>

text \<open>
  A file as one iteration sees it, and the observations of one iteration: whether the context was
  done at its start, what opening gave (an error, with its not-exist class, or a file whose stat
  may fail), whether the context ended the sleep, and what the final flush would find.
\<close>

record log_file =
  lf_inode :: nat
  lf_content :: string

record open_error =
  oe_err :: gerror
  oe_not_exist :: bool

record log_poll =
  lp_done :: bool
  lp_open :: "open_error + log_file"
  lp_stat_err :: "gerror option"
  lp_sleep_done :: bool
  lp_flush_open :: "open_error + log_file"
  lp_flush_stat_err :: "gerror option"

record log_read_state =
  rs_started :: bool
  rs_offset :: nat
  rs_lastStat :: "nat option"

definition init_read_state :: log_read_state where
  "init_read_state = \<lparr>rs_started = False, rs_offset = 0, rs_lastStat = None\<rparr>"

definition track :: "log_file \<Rightarrow> log_options \<Rightarrow> log_read_state \<Rightarrow> log_read_state" where
  "track f opts st =
    (let st1 = (if \<not> rs_started st
           then st\<lparr>rs_offset := FindTailStart (lf_content f) (lo_Tail opts), rs_started := True\<rparr>
           else if rs_lastStat st \<noteq> Some (lf_inode f) \<or> length (lf_content f) < rs_offset st
           then st\<lparr>rs_offset := 0\<rparr> else st)
     in st1\<lparr>rs_lastStat := Some (lf_inode f)\<rparr>)"

definition flushAvailableLogs ::
  "'s sink \<Rightarrow> 's sink \<Rightarrow> string \<Rightarrow> log_options \<Rightarrow> log_poll \<Rightarrow> nat \<Rightarrow> 's \<Rightarrow> 's \<times> nat \<times> gerror option" where
  "flushAvailableLogs wo we path opts p offset s = (case lp_flush_open p of
     Inl oe \<Rightarrow> if oe_not_exist oe then (s, offset, None)
       else (s, offset, Some (wrap_pre (''streams: opening log file '' @ quote path
              @ '' for final flush: '') (oe_err oe)))
   | Inr f \<Rightarrow> (case lp_flush_stat_err p of
       Some e \<Rightarrow> (s, offset, Some (wrap_pre (''streams: stat log file '' @ quote path
              @ '' for final flush: '') e))
     | None \<Rightarrow>
         let offset' = (if length (lf_content f) < offset then 0 else offset) in
         case emitLogLines wo we opts (lf_content f) offset' s of
           (s', next, dn, err) \<Rightarrow> (s', next, err)))"

definition flush_logs ::
  "'s sink \<Rightarrow> 's sink \<Rightarrow> string \<Rightarrow> log_options \<Rightarrow> log_poll \<Rightarrow> log_read_state \<Rightarrow> 's \<Rightarrow>
    's \<times> log_read_state \<times> gerror option" where
  "flush_logs wo we path opts p st s =
    (if \<not> rs_started st then (s, st, None)
     else case flushAvailableLogs wo we path opts p (rs_offset st) s of
       (s', off, err) \<Rightarrow> (s', st\<lparr>rs_offset := off\<rparr>, err))"

definition awaitLogFile :: "string \<Rightarrow> log_options \<Rightarrow> log_poll \<Rightarrow> gerror \<Rightarrow> bool \<times> gerror option" where
  "awaitLogFile path opts p openErr =
    (if \<not> lo_Follow opts
     then (False, Some (wrap_pre (''streams: opening log file '' @ quote path @ '': '') openErr))
     else if \<not> lp_sleep_done p then (False, None) else (True, None))"

definition readLogsOnce ::
  "'s sink \<Rightarrow> 's sink \<Rightarrow> string \<Rightarrow> log_options \<Rightarrow> log_poll \<Rightarrow> log_read_state \<Rightarrow> 's \<Rightarrow>
    's \<times> log_read_state \<times> bool \<times> gerror option" where
  "readLogsOnce wo we path opts p st s =
    (if lp_done p then
       (case flush_logs wo we path opts p st s of (s', st', err) \<Rightarrow> (s', st', True, err))
     else case lp_open p of
       Inl oe \<Rightarrow> (case awaitLogFile path opts p (oe_err oe) of (dn, err) \<Rightarrow> (s, st, dn, err))
     | Inr f \<Rightarrow> (case lp_stat_err p of
         Some e \<Rightarrow> (s, st, False, Some (wrap_pre (''streams: stat '' @ quote path @ '': '') e))
       | None \<Rightarrow>
           let st1 = track f opts st in
           case emitLogLines wo we opts (lf_content f) (rs_offset st1) s of
             (s1, next, dn, err) \<Rightarrow>
               let st2 = st1\<lparr>rs_offset := next\<rparr> in
               (case err of
                  Some e \<Rightarrow> (s1, st2, False, Some e)
                | None \<Rightarrow>
                    if dn \<or> \<not> lo_Follow opts then (s1, st2, True, None)
                    else if lp_sleep_done p then
                      (case flush_logs wo we path opts p st2 s1 of
                         (s3, st3, err3) \<Rightarrow> (s3, st3, True, err3))
                    else (s1, st2, False, None))))"

text \<open>
  The polling loop over a list of observations: the last component is \<open>None\<close> when the loop is
  still running after them.
\<close>

fun ReadLogs ::
  "'s sink \<Rightarrow> 's sink \<Rightarrow> string \<Rightarrow> log_options \<Rightarrow> log_poll list \<Rightarrow> log_read_state \<Rightarrow> 's \<Rightarrow>
    's \<times> log_read_state \<times> gerror option option" where
  "ReadLogs wo we path opts [] st s = (s, st, None)"
| "ReadLogs wo we path opts (p # ps) st s =
    (case readLogsOnce wo we path opts p st s of
       (s', st', dn, err) \<Rightarrow>
         if err \<noteq> None then (s', st', Some err)
         else if dn then (s', st', Some None)
         else ReadLogs wo we path opts ps st' s')"

section \<open>Lines\<close>

lemma read_lines_Nil [simp]: "read_lines [] = []"
  by (simp add: read_lines.simps)

lemma read_lines_line [simp]: "NL \<notin> set u \<Longrightarrow> read_lines (u @ NL # v) = (u @ [NL]) # read_lines v"
  by (simp add: read_lines.simps [of "u @ NL # v"])

lemma read_lines_rest: "NL \<notin> set s \<Longrightarrow> s \<noteq> [] \<Longrightarrow> read_lines s = [s]"
  using CutByte_None_iff [of NL s] by (simp add: read_lines.simps [of s])

text \<open>Induction over a file line by line.\<close>

lemma lines_induct [case_names rest line]:
  assumes "\<And>s. NL \<notin> set s \<Longrightarrow> P s" and "\<And>u v. NL \<notin> set u \<Longrightarrow> P v \<Longrightarrow> P (u @ NL # v)"
  shows "P s"
proof (induction s rule: length_induct)
  case (1 s)
  show ?case
  proof (cases "NL \<in> set s")
    case True
    then obtain u v where s: "s = u @ NL # v" "NL \<notin> set u" by (metis split_list_first)
    with 1 assms(2) show ?thesis by simp
  next
    case False
    then show ?thesis by (rule assms(1))
  qed
qed

lemma concat_read_lines: "concat (read_lines s) = s"
proof (induction s rule: lines_induct)
  case (rest s)
  then show ?case by (cases "s = []") (simp_all add: read_lines_rest)
qed simp

lemma read_lines_append:
  assumes "u = [] \<or> last u = NL"
  shows "read_lines (u @ v) = read_lines u @ read_lines v"
  using assms
proof (induction u rule: lines_induct)
  case (rest s)
  then have "s = []" using last_in_set by force
  then show ?case by simp
next
  case (line u w)
  then show ?case by (cases "w = []") auto
qed

lemma length_read_lines:
  "u = [] \<or> last u = NL \<Longrightarrow> length (read_lines u) = count_list u NL"
proof (induction u rule: lines_induct)
  case (rest s)
  then have "s = []" using last_in_set by force
  then show ?case by simp
next
  case (line u w)
  then show ?case by (cases "w = []") (auto simp: count_notin)
qed

section \<open>The tail search finds the last lines\<close>

text \<open>The same search one byte at a time, on the reversed prefix of the file.\<close>

fun tail_ref :: "nat \<Rightarrow> string \<Rightarrow> nat \<Rightarrow> nat" where
  "tail_ref wanted [] seen = 0"
| "tail_ref wanted (c # cs) seen =
    (if c \<noteq> NL then tail_ref wanted cs seen
     else if Suc seen = wanted then Suc (length cs)
     else tail_ref wanted cs (Suc seen))"

lemma scan_back_ref:
  "tail_ref wanted (cs @ ds) seen = (case scan_back wanted cs seen of
     Inl i \<Rightarrow> length ds + i + 1 | Inr seen' \<Rightarrow> tail_ref wanted ds seen')"
  by (induction cs arbitrary: seen) auto

lemma tail_loop_ref:
  "offset \<le> length content \<Longrightarrow>
    tail_loop content wanted offset seen = tail_ref wanted (rev (take offset content)) seen"
proof (induction content wanted offset seen rule: tail_loop.induct)
  case (1 content wanted offset seen)
  show ?case
  proof (cases "offset = 0")
    case True
    then show ?thesis by (simp add: tail_loop.simps)
  next
    case False
    define r where "r = min tailReadBlockSize offset"
    define st where "st = offset - r"
    define ch where "ch = take r (drop st content)"
    have "take offset content = take st content @ ch"
      using take_add [of st r content] by (simp add: ch_def st_def r_def)
    then have eq: "rev (take offset content) = rev ch @ rev (take st content)" by simp
    have st: "st \<le> length content" using "1.prems" by (simp add: st_def)
    have IH: "tail_loop content wanted st x = tail_ref wanted (rev (take st content)) x"
      if "scan_back wanted (rev ch) seen = Inr x" for x
      using "1.IH" [OF False r_def st_def ch_def that st] .
    show ?thesis
      using False st IH
      unfolding tail_loop.simps [of content wanted offset seen] Let_def r_def [symmetric]
        st_def [symmetric] ch_def [symmetric] eq scan_back_ref
      by (auto split: sum.split)
  qed
qed

lemma tail_ref_spec:
  assumes "seen < wanted"
  shows "\<exists>u v. s = u @ v \<and> tail_ref wanted (rev s) seen = length u
    \<and> (u = [] \<or> last u = NL)
    \<and> (if seen + count_list s NL < wanted then u = [] else seen + count_list v NL + 1 = wanted)"
  using assms
proof (induction s arbitrary: seen rule: rev_induct)
  case Nil
  then show ?case by simp
next
  case (snoc c s)
  show ?case
  proof (cases "c = NL \<and> Suc seen = wanted")
    case True
    then show ?thesis by (intro exI [of _ "s @ [c]"] exI [of _ "[]"]) simp
  next
    case False
    let ?seen = "if c = NL then Suc seen else seen"
    have "?seen < wanted" using False snoc.prems by auto
    from snoc.IH [OF this] obtain u v where uv: "s = u @ v"
      "tail_ref wanted (rev s) ?seen = length u" "u = [] \<or> last u = NL"
      "if ?seen + count_list s NL < wanted then u = [] else ?seen + count_list v NL + 1 = wanted"
      by blast
    have "tail_ref wanted (rev (s @ [c])) seen = length u"
      using False uv(2) by auto
    moreover have "?seen + count_list w NL = seen + count_list (w @ [c]) NL" for w
      by simp
    ultimately show ?thesis
      using uv(1,3,4) by (intro exI [of _ u] exI [of _ "v @ [c]"]) (simp only: append_assoc simp_thms)
  qed
qed

text \<open>
  C31: reading from the offset the tail search returns gives exactly the last \<open>n\<close> complete lines
  of the file followed by the incomplete line at its end, if there is one (the whole file when it
  has no more than \<open>n\<close> lines), although the search only reads blocks of 32 KiB from the end.
\<close>

theorem FindTailStart_lines:
  assumes "0 < n"
  shows "read_lines (drop (FindTailStart content n) content)
    = drop (count_list content NL - nat n) (read_lines content)"
proof -
  have F: "FindTailStart content n = tail_ref (nat n + 1) (rev content) 0"
    using assms by (simp add: FindTailStart_def tail_loop_ref)
  obtain u v where uv: "content = u @ v" "FindTailStart content n = length u"
    "u = [] \<or> last u = NL"
    "if count_list content NL < nat n + 1 then u = [] else count_list v NL + 1 = nat n + 1"
    using tail_ref_spec [of 0 "nat n + 1" content, OF add_nonneg_pos] unfolding F add_0
    by (metis zero_le zero_less_one)
  have c: "count_list content NL = count_list u NL + count_list v NL"
    by (simp add: uv(1))
  have k: "count_list content NL - nat n = length (read_lines u)"
  proof (cases "count_list content NL < nat n + 1")
    case True
    with uv(4) show ?thesis by simp
  next
    case False
    with uv(4) have "count_list v NL = nat n" by simp
    with c show ?thesis by (simp add: length_read_lines [OF uv(3)])
  qed
  have "read_lines content = read_lines u @ read_lines v"
    unfolding uv(1) by (rule read_lines_append [OF uv(3)])
  moreover have "drop (length u) content = v"
    by (simp add: uv(1))
  ultimately show ?thesis
    unfolding k uv(2) by simp
qed

theorem FindTailStart_lines_witness:
  "read_lines (drop (FindTailStart (''a'' @ [NL] @ ''b'' @ [NL] @ ''c'' @ [NL] @ ''d'') 2)
      (''a'' @ [NL] @ ''b'' @ [NL] @ ''c'' @ [NL] @ ''d''))
    = [''b'' @ [NL], ''c'' @ [NL], ''d'']"
  using FindTailStart_lines [of 2 "''a'' @ [NL] @ ''b'' @ [NL] @ ''c'' @ [NL] @ ''d''"]
  by (simp add: read_lines.simps [of "_ # _"] CutByte_def)

section \<open>What a read emits\<close>

text \<open>Two in-memory destinations and the effect of one line on them.\<close>

definition log_out :: "(string \<times> string) sink" where
  "log_out s p = ((fst s @ p, snd s), None)"

definition log_err :: "(string \<times> string) sink" where
  "log_err s p = ((fst s, snd s @ p), None)"

definition entry_text :: "log_options \<Rightarrow> log_entry \<Rightarrow> string" where
  "entry_text opts en =
    (if lo_Timestamps opts \<and> \<not> IsZero (le_Timestamp en)
     then format_rfc3339nano (le_Timestamp en) @ '' '' else []) @ le_Content en"

definition render :: "log_options \<Rightarrow> string \<Rightarrow> string \<times> string \<Rightarrow> string \<times> string" where
  "render opts l s = (case decodeLogLine l (lo_Format opts) of None \<Rightarrow> s
     | Some en \<Rightarrow> if entryTooOld en opts then s
         else if le_Stream en = LogStreamStderr then (fst s, snd s @ entry_text opts en)
         else (fst s @ entry_text opts en, snd s))"

definition readable :: "log_options \<Rightarrow> string list \<Rightarrow> string list" where
  "readable opts ls = (if lo_Follow opts then takeWhile (\<lambda>l. last l = NL) ls else ls)"

lemma writeLogEntry_pure:
  "writeLogEntry log_out log_err en opts s =
    ((if le_Stream en = LogStreamStderr then (fst s, snd s @ entry_text opts en)
      else (fst s @ entry_text opts en, snd s)), None)"
  by (simp add: writeLogEntry_def entry_text_def log_out_def log_err_def)

lemma emit_lines_pure:
  assumes "IsZero (lo_Until opts)"
  shows "emit_lines log_out log_err opts ls offset s
    = (fold (render opts) (readable opts ls) s, offset + length (concat (readable opts ls)), False, None)"
proof (induction ls arbitrary: offset s)
  case Nil
  then show ?case by (simp add: readable_def)
next
  case (Cons l ls)
  have "\<not> entryOutOfRange en opts" for en using assms by (simp add: entryOutOfRange_def)
  with Cons show ?case
    by (auto simp: readable_def render_def writeLogEntry_pure split: option.split)
qed

definition complete_lines :: "string \<Rightarrow> string list" where
  "complete_lines s = takeWhile (\<lambda>l. last l = NL) (read_lines s)"

lemma emitLogLines_follow:
  assumes "IsZero (lo_Until opts)" and "lo_Follow opts"
  shows "emitLogLines log_out log_err opts content offset s
    = (fold (render opts) (complete_lines (drop offset content)) s,
       offset + length (concat (complete_lines (drop offset content))), False, None)"
  using assms by (simp add: emitLogLines_def emit_lines_pure readable_def complete_lines_def)

lemma emitLogLines_once:
  assumes "IsZero (lo_Until opts)" and "\<not> lo_Follow opts"
  shows "emitLogLines log_out log_err opts content offset s
    = (fold (render opts) (read_lines (drop offset content)) s, offset + length (drop offset content),
       False, None)"
  using assms concat_read_lines [of "drop offset content"]
  by (simp add: emitLogLines_def emit_lines_pure readable_def)

lemma read_lines_complete:
  "u = [] \<or> last u = NL \<Longrightarrow> l \<in> set (read_lines u) \<Longrightarrow> last l = NL"
proof (induction u rule: lines_induct)
  case (rest s)
  then have "s = []" using last_in_set by force
  with rest show ?case by simp
next
  case (line u w)
  then show ?case by (cases "w = []") auto
qed

lemma complete_lines_append:
  assumes "u = [] \<or> last u = NL"
  shows "complete_lines (u @ v) = read_lines u @ complete_lines v"
  using read_lines_complete [OF assms]
  by (simp add: complete_lines_def read_lines_append [OF assms] takeWhile_append2)

lemma complete_lines_split:
  obtains u v where "s = u @ v" and "concat (complete_lines s) = u" and "u = [] \<or> last u = NL"
    and "complete_lines s = read_lines u" and "NL \<notin> set v"
proof -
  have "\<exists>u v. s = u @ v \<and> concat (complete_lines s) = u \<and> (u = [] \<or> last u = NL)
    \<and> complete_lines s = read_lines u \<and> NL \<notin> set v"
  proof (induction s rule: lines_induct)
    case (rest s)
    then have "complete_lines s = []"
      by (cases "s = []") (auto simp: complete_lines_def read_lines_rest dest: last_in_set)
    with rest show ?case by (intro exI [of _ "[]"] exI [of _ s]) simp
  next
    case (line x y)
    then obtain u v where uv: "y = u @ v" "concat (complete_lines y) = u" "u = [] \<or> last u = NL"
      "complete_lines y = read_lines u" "NL \<notin> set v"
      by blast
    with line(1) show ?case
      by (intro exI [of _ "x @ NL # u"] exI [of _ v]) (auto simp: complete_lines_def)
  qed
  then show ?thesis using that by blast
qed

lemma complete_lines_extend:
  assumes "prefix c c'" and "o1 = length (concat (complete_lines c))"
  shows "o1 \<le> length c" and "complete_lines c' = complete_lines c @ complete_lines (drop o1 c')"
proof -
  obtain u v where u: "c = u @ v" "concat (complete_lines c) = u" "u = [] \<or> last u = NL"
    "complete_lines c = read_lines u"
    by (rule complete_lines_split)
  obtain w where "c' = u @ v @ w" using assms(1) u(1) by (auto simp: prefix_def)
  with u complete_lines_append [OF u(3), of "v @ w"] assms(2)
  show "o1 \<le> length c" and "complete_lines c' = complete_lines c @ complete_lines (drop o1 c')"
    by simp_all
qed

section \<open>Following a growing file\<close>

text \<open>An iteration that finds the file, and one that finds the context done.\<close>

definition follow_poll :: "nat \<Rightarrow> string \<Rightarrow> log_poll" where
  "follow_poll ino c = \<lparr>lp_done = False, lp_open = Inr \<lparr>lf_inode = ino, lf_content = c\<rparr>,
     lp_stat_err = None, lp_sleep_done = False, lp_flush_open = Inr \<lparr>lf_inode = ino, lf_content = c\<rparr>,
     lp_flush_stat_err = None\<rparr>"

definition final_poll :: "nat \<Rightarrow> string \<Rightarrow> log_poll" where
  "final_poll ino d = (follow_poll ino d)\<lparr>lp_done := True\<rparr>"

text \<open>
  The last observations of a follow that the context ends after it saw \<open>c\<close>, when the final flush
  finds \<open>d\<close>: the context ends the sleep of that iteration, or the check of the next one sees it.
\<close>

definition follow_end :: "bool \<Rightarrow> nat \<Rightarrow> string \<Rightarrow> string \<Rightarrow> log_poll list" where
  "follow_end in_sleep ino c d =
    (if in_sleep
     then [(follow_poll ino c)\<lparr>lp_sleep_done := True,
             lp_flush_open := Inr \<lparr>lf_inode = ino, lf_content = d\<rparr>\<rparr>]
     else [follow_poll ino c, final_poll ino d])"

fun growing :: "string list \<Rightarrow> bool" where
  "growing [] = True"
| "growing [c] = True"
| "growing (c # d # cs) = (prefix c d \<and> growing (d # cs))"

text \<open>The reader has emitted the complete lines after the tail offset of the contents it saw.\<close>

definition seen_until :: "nat \<Rightarrow> nat \<Rightarrow> string \<Rightarrow> log_read_state" where
  "seen_until ino t0 c = \<lparr>rs_started = True,
     rs_offset = t0 + length (concat (complete_lines (drop t0 c))), rs_lastStat = Some ino\<rparr>"

definition emitted :: "log_options \<Rightarrow> nat \<Rightarrow> string \<Rightarrow> string \<times> string \<Rightarrow> string \<times> string" where
  "emitted opts t0 c s = fold (render opts) (complete_lines (drop t0 c)) s"

lemma follow_emit:
  assumes opts: "IsZero (lo_Until opts)" "lo_Follow opts" and "prefix c d" and "t0 \<le> length c"
  shows "rs_offset (seen_until ino t0 c) \<le> length d"
    and "emitLogLines log_out log_err opts d (rs_offset (seen_until ino t0 c)) (emitted opts t0 c s)
      = (emitted opts t0 d s, rs_offset (seen_until ino t0 d), False, None)"
proof -
  define k where "k = length (concat (complete_lines (drop t0 c)))"
  have pre: "prefix (drop t0 c) (drop t0 d)"
    using assms(3,4) by (auto simp: prefix_def)
  note ext = complete_lines_extend [OF pre k_def]
  have off: "rs_offset (seen_until ino t0 c) = t0 + k" by (simp add: seen_until_def k_def)
  show "rs_offset (seen_until ino t0 c) \<le> length d"
    using ext(1) assms(3,4) prefix_length_le [OF assms(3)] by (simp add: off)
  have "drop (t0 + k) d = drop k (drop t0 d)" by (simp add: add.commute)
  then show "emitLogLines log_out log_err opts d (rs_offset (seen_until ino t0 c)) (emitted opts t0 c s)
      = (emitted opts t0 d s, rs_offset (seen_until ino t0 d), False, None)"
    unfolding off emitLogLines_follow [OF opts] emitted_def
    using ext(2) by (simp add: seen_until_def k_def)
qed

lemma follow_poll_step:
  assumes opts: "IsZero (lo_Until opts)" "lo_Follow opts"
    and "track \<lparr>lf_inode = ino, lf_content = c\<rparr> opts st = st1"
    and "emitLogLines log_out log_err opts c (rs_offset st1) s
      = (emitted opts t0 c r, rs_offset (seen_until ino t0 c), False, None)"
    and "st1\<lparr>rs_offset := rs_offset (seen_until ino t0 c)\<rparr> = seen_until ino t0 c"
    and "prefix c d" and "t0 \<le> length c"
  shows "readLogsOnce log_out log_err path opts (follow_poll ino c) st s
      = (emitted opts t0 c r, seen_until ino t0 c, False, None)"
    and "ReadLogs log_out log_err path opts (follow_end b ino c d) st s
      = (emitted opts t0 d r, seen_until ino t0 d, Some None)"
proof -
  note e = follow_emit [OF opts assms(6,7), of ino]
  have st: "rs_started (seen_until ino t0 c)" by (simp add: seen_until_def)
  have upd: "(seen_until ino t0 c)\<lparr>rs_offset := rs_offset (seen_until ino t0 d)\<rparr> = seen_until ino t0 d"
    by (simp add: seen_until_def)
  show poll: "readLogsOnce log_out log_err path opts (follow_poll ino c) st s
      = (emitted opts t0 c r, seen_until ino t0 c, False, None)"
    using assms(2-5) by (simp add: readLogsOnce_def follow_poll_def Let_def)
  show "ReadLogs log_out log_err path opts (follow_end b ino c d) st s
      = (emitted opts t0 d r, seen_until ino t0 d, Some None)"
  proof (cases b)
    case True
    then show ?thesis
      using assms(2-5) e st upd
      by (simp add: follow_end_def readLogsOnce_def follow_poll_def Let_def flush_logs_def
          flushAvailableLogs_def)
  next
    case False
    have "readLogsOnce log_out log_err path opts (final_poll ino d) (seen_until ino t0 c) (emitted opts t0 c r)
        = (emitted opts t0 d r, seen_until ino t0 d, True, None)"
      using e st upd
      by (simp add: readLogsOnce_def final_poll_def follow_poll_def flush_logs_def flushAvailableLogs_def)
    with False poll show ?thesis by (simp add: follow_end_def)
  qed
qed

lemma follow_once:
  assumes opts: "IsZero (lo_Until opts)" "lo_Follow opts" and "prefix c d" "prefix d e" and "t0 \<le> length c"
  shows "readLogsOnce log_out log_err path opts (follow_poll ino d) (seen_until ino t0 c) (emitted opts t0 c s)
      = (emitted opts t0 d s, seen_until ino t0 d, False, None)"
    and "ReadLogs log_out log_err path opts (follow_end b ino d e) (seen_until ino t0 c) (emitted opts t0 c s)
      = (emitted opts t0 e s, seen_until ino t0 e, Some None)"
proof -
  note em = follow_emit [OF opts assms(3,5), of ino]
  have "track \<lparr>lf_inode = ino, lf_content = d\<rparr> opts (seen_until ino t0 c) = seen_until ino t0 c"
    using em(1) by (simp add: track_def seen_until_def)
  moreover have "(seen_until ino t0 c)\<lparr>rs_offset := rs_offset (seen_until ino t0 d)\<rparr> = seen_until ino t0 d"
    by (simp add: seen_until_def)
  moreover have "t0 \<le> length d" using assms(3,5) prefix_length_le [of c d] by simp
  ultimately show "readLogsOnce log_out log_err path opts (follow_poll ino d) (seen_until ino t0 c) (emitted opts t0 c s)
      = (emitted opts t0 d s, seen_until ino t0 d, False, None)"
    and "ReadLogs log_out log_err path opts (follow_end b ino d e) (seen_until ino t0 c) (emitted opts t0 c s)
      = (emitted opts t0 e s, seen_until ino t0 e, Some None)"
    using follow_poll_step [OF opts _ em(2)] assms(4) by simp_all
qed

lemma follow_first:
  assumes opts: "IsZero (lo_Until opts)" "lo_Follow opts" and "prefix c d"
    and "t0 = FindTailStart c (lo_Tail opts)" and "t0 \<le> length c"
  shows "readLogsOnce log_out log_err path opts (follow_poll ino c) init_read_state s
      = (emitted opts t0 c s, seen_until ino t0 c, False, None)"
    and "ReadLogs log_out log_err path opts (follow_end b ino c d) init_read_state s
      = (emitted opts t0 d s, seen_until ino t0 d, Some None)"
  by (rule follow_poll_step [OF opts refl _ _ assms(3,5)];
      simp add: init_read_state_def track_def assms(4) emitLogLines_follow [OF opts] emitted_def seen_until_def)+

lemma follow_run:
  assumes opts: "IsZero (lo_Until opts)" "lo_Follow opts"
    and "growing (a # cs @ [c, d])" and "t0 \<le> length a"
  shows "ReadLogs log_out log_err path opts (map (follow_poll ino) cs @ follow_end b ino c d)
       (seen_until ino t0 a) (emitted opts t0 a s)
    = (emitted opts t0 d s, seen_until ino t0 d, Some None)"
  using assms(3,4)
proof (induction cs arbitrary: a)
  case Nil
  with follow_once(2) [OF opts] show ?case by simp
next
  case (Cons e cs)
  then have "t0 \<le> length e" using prefix_length_le [of a e] by simp
  with Cons follow_once(1) [OF opts _ prefix_order.refl, of a e t0] show ?case by simp
qed

lemma FindTailStart_le: "FindTailStart c n \<le> length c"
proof -
  have "tail_ref w rs k \<le> length rs" for w rs k
    by (induction rs arbitrary: k) (auto intro: le_SucI)
  then show ?thesis by (simp add: FindTailStart_def tail_loop_ref) (metis length_rev)
qed

text \<open>
  C30: following a log file that is only appended to emits every complete line exactly once and in
  order. The polls see the contents \<open>cs @ [c]\<close>, each extending the one before, and the context then
  ends the follow, in the sleep after the last poll or before the next one, when the file has
  grown to \<open>d\<close>. The output is what one read of \<open>d\<close> from the initial tail position produces,
  without an unfinished last line (so the lines written after the last poll are included), and
  the follow ends without an error.
\<close>

theorem follow_emits_each_line_once:
  assumes "IsZero (lo_Until opts)" and "lo_Follow opts" and "growing (cs @ [c, d])"
  shows "\<exists>st. ReadLogs log_out log_err path opts
      (map (follow_poll ino) cs @ follow_end in_sleep ino c d) init_read_state s
    = (fold (render opts) (complete_lines
         (drop (FindTailStart (hd (cs @ [c])) (lo_Tail opts)) d)) s, st, Some None)"
proof (cases cs)
  case Nil
  with assms(3) follow_first(2) [OF assms(1,2) _ refl FindTailStart_le] show ?thesis
    by (simp add: emitted_def)
next
  case (Cons a as)
  note start = follow_first(1) [OF assms(1,2) prefix_order.refl refl FindTailStart_le, of path ino a s]
  from follow_run [OF assms(1,2) _ FindTailStart_le, of a as c d] assms(3) Cons start show ?thesis
    by (simp add: emitted_def)
qed

definition plain_options :: "bool \<Rightarrow> log_options" where
  "plain_options f = \<lparr>lo_Follow = f, lo_Tail = 0, lo_Since = zero_time, lo_Until = zero_time,
     lo_Timestamps = False, lo_Format = LogFormatAuto\<rparr>"

theorem follow_emits_each_line_once_witness:
  "fst (ReadLogs log_out log_err ''x.log'' (plain_options True)
      (map (follow_poll 7) [''a'' @ [NL] @ ''b'']
        @ follow_end True 7 (''a'' @ [NL] @ ''bc'' @ [NL]) (''a'' @ [NL] @ ''bc'' @ [NL] @ ''d'' @ [NL] @ ''e''))
      init_read_state ([], []))
    = (''a'' @ [NL] @ ''bc'' @ [NL] @ ''d'' @ [NL], [])"
proof -
  let ?ds = "[''a'' @ [NL] @ ''b'']" and ?c = "''a'' @ [NL] @ ''bc'' @ [NL]"
    and ?d = "''a'' @ [NL] @ ''bc'' @ [NL] @ ''d'' @ [NL] @ ''e''"
  have "IsZero (lo_Until (plain_options True))" "lo_Follow (plain_options True)" "growing (?ds @ [?c, ?d])"
    by (simp_all add: plain_options_def)
  from follow_emits_each_line_once [OF this, of "''x.log''" 7 True "([], [])"] obtain st where
    "ReadLogs log_out log_err ''x.log'' (plain_options True)
      (map (follow_poll 7) ?ds @ follow_end True 7 ?c ?d) init_read_state ([], [])
    = (fold (render (plain_options True)) (complete_lines (drop
        (FindTailStart (hd (?ds @ [?c])) (lo_Tail (plain_options True))) ?d)) ([], []), st, Some None)"
    by blast
  moreover have "fold (render (plain_options True)) (complete_lines (drop
        (FindTailStart (hd (?ds @ [?c])) (lo_Tail (plain_options True))) ?d)) ([], [])
      = (''a'' @ [NL] @ ''bc'' @ [NL] @ ''d'' @ [NL], [])"
    by code_simp
  ultimately show ?thesis by simp
qed

end
