(* ===== verification/Cri_Writer.thy ===== *)
theory Cri_Writer
  imports Log_Stream Domain_Model
begin

text \<open>
  \<^verbatim>\<open>internal/app/logs.go\<close>: the writer that records container output as CRI log lines. The
  clock is a function from ticks to times, one tick per line; the destination is a sink. The round
  trip with the reader of \<open>Log_Stream\<close> is stated for a file in append mode.
\<close>

section \<open>The writer\<close>

definition writeLine ::
  "(nat \<Rightarrow> gotime) \<Rightarrow> 's sink \<Rightarrow> string \<Rightarrow> 's \<times> nat \<Rightarrow> string \<Rightarrow> ('s \<times> nat) \<times> gerror option" where
  "writeLine clock dst stream st line =
    (case dst (fst st) (format_rfc3339nano (clock (snd st)) @ '' '' @ stream @ '' F '' @ line @ [NL]) of
       (s', err) \<Rightarrow> ((s', Suc (snd st)), err))"

function cri_write ::
  "(nat \<Rightarrow> gotime) \<Rightarrow> 's sink \<Rightarrow> string \<Rightarrow> 's \<times> nat \<Rightarrow> string \<Rightarrow> nat \<Rightarrow>
    ('s \<times> nat) \<times> nat \<times> gerror option" where
  "cri_write clock dst stream st p consumed =
    (if p = [] then (st, consumed, None)
     else case CutByte NL p of
       None \<Rightarrow> (case writeLine clock dst stream st p of
           (st', Some e) \<Rightarrow> (st', consumed, Some e)
         | (st', None) \<Rightarrow> (st', length p + consumed, None))
     | Some (line, rest) \<Rightarrow> (case writeLine clock dst stream st line of
           (st', Some e) \<Rightarrow> (st', consumed, Some e)
         | (st', None) \<Rightarrow> cri_write clock dst stream st' rest (consumed + (length line + 1))))"
  by pat_completeness auto
termination
  by (relation "measure (\<lambda>(clock, dst, stream, st, p, consumed). length p)")
    (auto simp: CutByte_Some_iff)

declare cri_write.simps [simp del]

definition logPath :: "string \<Rightarrow> container_id \<Rightarrow> string" where
  "logPath logDir i = logDir @ ''/'' @ i @ ''.log''"

section \<open>What the file holds\<close>

definition file_append :: "string sink" where
  "file_append s p = (s @ p, None)"

definition cri_line :: "gotime \<Rightarrow> string \<Rightarrow> string \<Rightarrow> string" where
  "cri_line ts stream line = format_rfc3339nano ts @ '' '' @ stream @ '' F '' @ line @ [NL]"

text \<open>The lines of a payload without their newline.\<close>

definition pieces :: "string \<Rightarrow> string list" where
  "pieces p = map (takeWhile (\<lambda>c. c \<noteq> NL)) (read_lines p)"

fun cri_lines :: "(nat \<Rightarrow> gotime) \<Rightarrow> nat \<Rightarrow> string \<Rightarrow> string list \<Rightarrow> string list" where
  "cri_lines clock k stream [] = []"
| "cri_lines clock k stream (l # ls) = cri_line (clock k) stream l # cri_lines clock (Suc k) stream ls"

lemma pieces_Nil [simp]: "pieces [] = []"
  by (simp add: pieces_def)

lemma before_NL:
  "NL \<notin> set u \<Longrightarrow> takeWhile (\<lambda>c. c \<noteq> NL) (u @ NL # v) = u"
  "NL \<notin> set u \<Longrightarrow> takeWhile (\<lambda>c. c \<noteq> NL) u = u"
  by (induction u) auto

lemma pieces_line [simp]: "NL \<notin> set u \<Longrightarrow> pieces (u @ NL # v) = u # pieces v"
  by (simp add: pieces_def before_NL)

lemma pieces_rest: "NL \<notin> set s \<Longrightarrow> s \<noteq> [] \<Longrightarrow> pieces s = [s]"
  by (simp add: pieces_def read_lines_rest before_NL)

lemma pieces_no_NL: "l \<in> set (pieces p) \<Longrightarrow> NL \<notin> set l"
  by (auto simp: pieces_def dest: set_takeWhileD)

lemma cri_write_append:
  "cri_write clock file_append stream (f, k) p n
    = ((f @ concat (cri_lines clock k stream (pieces p)), k + length (pieces p)), n + length p, None)"
proof (induction p arbitrary: f k n rule: lines_induct)
  case (rest s)
  then show ?case
    using CutByte_None_iff [of NL s]
    by (cases "s = []")
      (simp_all add: cri_write.simps pieces_rest writeLine_def file_append_def [of f] cri_line_def)
next
  case (line u v)
  then show ?case
    by (simp add: cri_write.simps [of clock file_append stream _ "u @ NL # v"] writeLine_def
        file_append_def [of f] cri_line_def)
qed

section \<open>Reading it back\<close>

lemma ParseCRIEntry_line:
  assumes "wf_time ts" and "stream \<in> {LogStreamStdout, LogStreamStderr}"
  shows "ParseCRIEntry (cri_line ts stream l)
    = Inr \<lparr>le_Timestamp = ts, le_Stream = stream, le_Partial = False, le_Content = l @ [NL]\<rparr>"
proof -
  have 1: "cutToken (format_rfc3339nano ts @ SP # r) = Some (format_rfc3339nano ts, r)" for r
    unfolding cutToken_def by (rule CutByte_append) (use format_chars in blast)
  have 2: "cutToken (stream @ SP # r) = Some (stream, r)" for r
    unfolding cutToken_def by (rule CutByte_append) (use assms(2) in auto)
  have 3: "cutToken (CHR ''F'' # SP # r) = Some (''F'', r)" for r
    using CutByte_append [of SP "''F''" r] by (simp add: cutToken_def)
  show ?thesis
    using assms(2)
    by (simp add: ParseCRIEntry_def cri_line_def 1 2 3 parse_format_rfc3339nano [OF assms(1)])
qed

lemma cri_line_shape: "NL \<notin> set l \<Longrightarrow> stream \<in> {LogStreamStdout, LogStreamStderr} \<Longrightarrow>
    \<exists>u. NL \<notin> set u \<and> cri_line ts stream l = u @ [NL]"
  using format_chars [of NL ts]
  by (intro exI [of _ "format_rfc3339nano ts @ '' '' @ stream @ '' F '' @ l"])
    (auto simp: cri_line_def)

lemma read_lines_concat:
  "(\<And>l. l \<in> set ls \<Longrightarrow> \<exists>u. NL \<notin> set u \<and> l = u @ [NL]) \<Longrightarrow> read_lines (concat ls) = ls"
  by (induction ls) fastforce+

text \<open>A sequence of writes on the two streams of one container.\<close>

fun record_output :: "(nat \<Rightarrow> gotime) \<Rightarrow> (string \<times> string) list \<Rightarrow> string \<times> nat \<Rightarrow> string \<times> nat" where
  "record_output clock [] st = st"
| "record_output clock ((stream, p) # ws) st =
     record_output clock ws (fst (cri_write clock file_append stream st p 0))"

definition with_newline :: "string \<Rightarrow> string" where
  "with_newline p = (if p = [] \<or> last p = NL then p else p @ [NL])"

lemma concat_pieces: "concat (map (\<lambda>l. l @ [NL]) (pieces p)) = with_newline p"
proof (induction p rule: lines_induct)
  case (rest s)
  then show ?case
    by (cases "s = []") (auto simp: pieces_rest with_newline_def dest: last_in_set)
next
  case (line u v)
  then show ?case by (auto simp: with_newline_def)
qed

definition wf_clock :: "(nat \<Rightarrow> gotime) \<Rightarrow> bool" where
  "wf_clock clock \<longleftrightarrow> (\<forall>k. wf_time (clock k))"

definition log_deliver :: "string \<Rightarrow> string \<Rightarrow> string \<times> string \<Rightarrow> string \<times> string" where
  "log_deliver stream p s = (if stream = LogStreamStderr then (fst s, snd s @ p) else (fst s @ p, snd s))"

text \<open>Options that select every line and print its content only.\<close>

definition unfiltered :: "log_options \<Rightarrow> bool" where
  "unfiltered opts \<longleftrightarrow> lo_Tail opts \<le> 0 \<and> IsZero (lo_Since opts) \<and> IsZero (lo_Until opts)
     \<and> \<not> lo_Timestamps opts \<and> lo_Format opts \<noteq> LogFormatRaw"

lemma unfiltered_plain [simp]: "unfiltered (plain_options b)"
  by (simp add: unfiltered_def plain_options_def)

lemma plain_not_follow [simp]: "\<not> lo_Follow (plain_options False)"
  by (simp add: plain_options_def)

lemma render_cri_lines:
  assumes "wf_clock clock" and "stream \<in> {LogStreamStdout, LogStreamStderr}" and "unfiltered opts"
  shows "fold (render opts) (cri_lines clock k stream ls) s
    = log_deliver stream (concat (map (\<lambda>l. l @ [NL]) ls)) s"
proof (induction ls arbitrary: k s)
  case Nil
  then show ?case by (simp add: log_deliver_def)
next
  case (Cons l ls)
  have "decodeLogLine (cri_line (clock k) stream l) (lo_Format opts)
      = Some \<lparr>le_Timestamp = clock k, le_Stream = stream, le_Partial = False, le_Content = l @ [NL]\<rparr>"
    using assms
    by (cases "lo_Format opts") (simp_all add: wf_clock_def unfiltered_def decodeLogLine_def ParseCRIEntry_line)
  then have "render opts (cri_line (clock k) stream l) s = log_deliver stream (l @ [NL]) s" for s
    using assms(3) by (simp add: render_def unfiltered_def entryTooOld_def entry_text_def log_deliver_def)
  with Cons show ?case by (simp add: log_deliver_def)
qed

definition streams_ok :: "(string \<times> string) list \<Rightarrow> bool" where
  "streams_ok ws \<longleftrightarrow> list_all (\<lambda>w. fst w \<in> {LogStreamStdout, LogStreamStderr}) ws"

lemma cri_lines_shape:
  assumes "\<And>l. l \<in> set ls \<Longrightarrow> NL \<notin> set l" and "stream \<in> {LogStreamStdout, LogStreamStderr}"
    and "x \<in> set (cri_lines clock k stream ls)"
  shows "\<exists>u. NL \<notin> set u \<and> x = u @ [NL]"
  using assms(1,3)
proof (induction ls arbitrary: k)
  case (Cons l ls)
  show ?case
  proof (cases "x = cri_line (clock k) stream l")
    case True
    with cri_line_shape [OF _ assms(2)] Cons.prems(1) [of l] show ?thesis by simp
  next
    case False
    with Cons.prems have "x \<in> set (cri_lines clock (Suc k) stream ls)" by simp
    with Cons.IH Cons.prems(1) show ?thesis by (meson list.set_intros(2))
  qed
qed simp

lemma record_output_lines:
  assumes "wf_clock clock" and "streams_ok ws" and "unfiltered opts"
  shows "\<exists>ls. fst (record_output clock ws (f, k)) = f @ concat ls
    \<and> (\<forall>l\<in>set ls. \<exists>u. NL \<notin> set u \<and> l = u @ [NL])
    \<and> fold (render opts) ls = fold (\<lambda>(stream, p). log_deliver stream (with_newline p)) ws"
  using assms(2)
proof (induction ws arbitrary: f k)
  case Nil
  then show ?case by (intro exI [of _ "[]"]) simp
next
  case (Cons w ws)
  obtain stream p where w: "w = (stream, p)" by (cases w)
  let ?l1 = "cri_lines clock k stream (pieces p)"
  have st: "stream \<in> {LogStreamStdout, LogStreamStderr}" and ok: "streams_ok ws"
    using Cons.prems by (simp_all add: streams_ok_def w)
  from Cons.IH [OF ok, of "f @ concat ?l1" "k + length (pieces p)"] obtain ls where
    ls: "fst (record_output clock ws (f @ concat ?l1, k + length (pieces p))) = (f @ concat ?l1) @ concat ls"
    "\<forall>l\<in>set ls. \<exists>u. NL \<notin> set u \<and> l = u @ [NL]"
    "fold (render opts) ls = fold (\<lambda>(stream, p). log_deliver stream (with_newline p)) ws"
    by blast
  have "\<forall>l\<in>set ?l1. \<exists>u. NL \<notin> set u \<and> l = u @ [NL]"
    using cri_lines_shape [of "pieces p" stream _ clock k] pieces_no_NL st by blast
  with ls show ?case
    by (intro exI [of _ "?l1 @ ls"])
      (auto simp: w cri_write_append render_cri_lines [OF assms(1) st assms(3)] concat_pieces)
qed

lemma fold_log_deliver:
  assumes "streams_ok ws"
  shows "fold (\<lambda>(stream, p). log_deliver stream (with_newline p)) ws (o0, e0)
    = (o0 @ concat (map (with_newline \<circ> snd) (filter (\<lambda>w. fst w = LogStreamStdout) ws)),
       e0 @ concat (map (with_newline \<circ> snd) (filter (\<lambda>w. fst w = LogStreamStderr) ws)))"
  using assms
  by (induction ws arbitrary: o0 e0) (auto simp: streams_ok_def log_deliver_def)

definition read_poll :: "string \<Rightarrow> log_poll" where
  "read_poll c = follow_poll 1 c"

lemma read_recorded:
  assumes "wf_clock clock" and "streams_ok ws" and "unfiltered opts" and "\<not> lo_Follow opts"
  shows "\<exists>st. ReadLogs log_out log_err path opts
      [read_poll (fst (record_output clock ws ([], 0)))] init_read_state ([], [])
    = ((concat (map (with_newline \<circ> snd) (filter (\<lambda>w. fst w = LogStreamStdout) ws)),
        concat (map (with_newline \<circ> snd) (filter (\<lambda>w. fst w = LogStreamStderr) ws))),
       st, Some None)"
proof -
  obtain ls where ls: "fst (record_output clock ws ([], 0)) = concat ls"
    "\<forall>l\<in>set ls. \<exists>u. NL \<notin> set u \<and> l = u @ [NL]"
    "fold (render opts) ls = fold (\<lambda>(stream, p). log_deliver stream (with_newline p)) ws"
    using record_output_lines [OF assms(1-3), where f = "[]" and k = 0] by auto
  have "read_lines (concat ls) = ls" using ls(2) by (intro read_lines_concat) blast
  then show ?thesis
    using ls(1,3) fold_log_deliver [OF assms(2), of "[]" "[]"] assms(3,4)
    by (simp add: read_poll_def follow_poll_def readLogsOnce_def init_read_state_def track_def Let_def
        FindTailStart_def emitLogLines_once unfiltered_def)
qed

text \<open>
  What a container wrote comes back from its log: after any sequence of writes on stdout and
  stderr, reading the log file returns on each stream the concatenation of the payloads written to
  it, in order, where a payload that does not end in a newline has got one.
\<close>

theorem log_round_trip:
  assumes "wf_clock clock" and "streams_ok ws"
  shows "\<exists>st. ReadLogs log_out log_err path (plain_options False)
      [read_poll (fst (record_output clock ws ([], 0)))] init_read_state ([], [])
    = ((concat (map (with_newline \<circ> snd) (filter (\<lambda>w. fst w = LogStreamStdout) ws)),
        concat (map (with_newline \<circ> snd) (filter (\<lambda>w. fst w = LogStreamStderr) ws))),
       st, Some None)"
  by (rule read_recorded [OF assms unfiltered_plain plain_not_follow])

definition sample_clock :: "nat \<Rightarrow> gotime" where
  "sample_clock k = \<lparr>t_year = 2025, t_month = 3, t_day = 1, t_hour = 12, t_min = 30, t_sec = 5,
     t_nsec = 120000000, t_off = 60\<rparr>"

lemma wf_sample_clock: "wf_clock sample_clock"
  by (simp add: wf_clock_def wf_time_def sample_clock_def days_in_month_def)

theorem log_round_trip_witness:
  "fst (ReadLogs log_out log_err ''c.log'' (plain_options False)
      [read_poll (fst (record_output sample_clock
         [(''stdout'', ''hi'' @ [NL]), (''stderr'', ''warn''), (''stdout'', ''a b'' @ [NL])] ([], 0)))]
      init_read_state ([], []))
    = (''hi'' @ [NL] @ ''a b'' @ [NL], ''warn'' @ [NL])"
proof -
  have "streams_ok [(''stdout'', ''hi'' @ [NL]), (''stderr'', ''warn''), (''stdout'', ''a b'' @ [NL])]"
    by (simp add: streams_ok_def)
  from log_round_trip [OF wf_sample_clock this, of "''c.log''"] show ?thesis
    by (auto simp: with_newline_def)
qed

text \<open>
  A write that stops in the middle of a line gains a newline in the log, so two writes that make up
  one line of output are read back as two.
\<close>

theorem split_line_gains_newline:
  "fst (ReadLogs log_out log_err ''c.log'' (plain_options False)
      [read_poll (fst (record_output sample_clock
         [(''stdout'', ''ab''), (''stdout'', ''cd'' @ [NL])] ([], 0)))] init_read_state ([], []))
    = (''ab'' @ [NL] @ ''cd'' @ [NL], [])"
proof -
  have "streams_ok [(''stdout'', ''ab''), (''stdout'', ''cd'' @ [NL])]"
    by (simp add: streams_ok_def)
  from read_recorded [OF wf_sample_clock this unfiltered_plain plain_not_follow, of "''c.log''"] show ?thesis
    by (auto simp: with_newline_def)
qed

end
