(* ===== verification/Stdcopy.thy ===== *)
theory Stdcopy
  imports Go_Errors Go_Binary
begin

text \<open>
  \<^verbatim>\<open>internal/streams/stdcopy.go\<close>: Docker's framing of several streams on one connection, an
  eight-byte header (stream, three zero bytes, payload size in big-endian order) before each
  payload. A byte slice is a list of 8-bit words; the nil slice, which the writer treats
  differently from the empty one, is \<open>None\<close>. The stream numbers are constants of the moby
  package, which is not part of the repository: they are the parameter \<open>code\<close>, and what the
  framing needs of them is that they differ.

  An \<^verbatim>\<open>io.Writer\<close> is a state-passing function with the number of bytes it took and its
  error; an \<^verbatim>\<open>io.Reader\<close> is the bytes it will deliver and the error that ends it.
\<close>

type_synonym 's writer = "'s \<Rightarrow> bytes \<Rightarrow> 's \<times> nat \<times> gerror option"
type_synonym reader = "bytes \<times> gerror"

abbreviation eof :: gerror where "eof \<equiv> Sentinel (Std EOF)"
abbreviation unexpected_eof :: gerror where "unexpected_eof \<equiv> Sentinel (Std ErrUnexpectedEOF)"
abbreviation short_write :: gerror where "short_write \<equiv> Sentinel (Std ErrShortWrite)"

section \<open>Writer\<close>

datatype stream_type = Stdin | Stdout | Stderr | Systemerr

abbreviation frameHeaderLen :: nat where "frameHeaderLen \<equiv> 8"

definition maxWriteChunk :: nat where "maxWriteChunk = 1048576"

definition DefaultMaxFrameLen :: nat where "DefaultMaxFrameLen = 33554432"

definition frame_bytes :: "(stream_type \<Rightarrow> byte) \<Rightarrow> stream_type \<Rightarrow> bytes \<Rightarrow> bytes" where
  "frame_bytes code st p = [code st, 0, 0, 0] @ PutUint32 (word_of_nat (length p)) @ p"

definition writeChunk ::
  "(stream_type \<Rightarrow> byte) \<Rightarrow> stream_type \<Rightarrow> 's writer \<Rightarrow> 's \<Rightarrow> bytes \<Rightarrow> 's \<times> nat \<times> gerror option" where
  "writeChunk code st wr s p =
    (let buf = frame_bytes code st p in
     case wr s buf of (s', n, err) \<Rightarrow>
       (case err of
          None \<Rightarrow>
            if n = length buf then (s', length p, None)
            else if n < frameHeaderLen then (s', 0, Some short_write)
            else (s', n - frameHeaderLen, Some short_write)
        | Some e \<Rightarrow>
            if n < frameHeaderLen then (s', 0, Some e)
            else if n - frameHeaderLen < length p then (s', n - frameHeaderLen, Some e)
            else (s', length p, Some e)))"

lemma writeChunk_None: "writeChunk code st wr s p = (s', n, None) \<Longrightarrow> n = length p"
  by (auto simp: writeChunk_def Let_def split: prod.splits option.splits if_splits)

lemma maxWriteChunk_pos [simp]: "0 < maxWriteChunk"
  by (simp add: maxWriteChunk_def)

function write_loop ::
  "(stream_type \<Rightarrow> byte) \<Rightarrow> stream_type \<Rightarrow> 's writer \<Rightarrow> 's \<Rightarrow> bytes \<Rightarrow> nat \<Rightarrow>
    's \<times> nat \<times> gerror option" where
  "write_loop code st wr s p written =
    (if p = [] then (s, written, None)
     else case writeChunk code st wr s (take maxWriteChunk p) of
       (s', n, Some e) \<Rightarrow> (s', written + n, Some e)
     | (s', n, None) \<Rightarrow> write_loop code st wr s' (drop n p) (written + n))"
  by pat_completeness auto
termination
  by (relation "measure (\<lambda>(code, st, wr, s, p, written). length p)")
    (auto dest!: writeChunk_None [OF sym])

declare write_loop.simps [simp del]

text \<open>\<open>None\<close> as the destination is a nil receiver or a writer without one.\<close>

definition Write ::
  "(stream_type \<Rightarrow> byte) \<Rightarrow> stream_type \<Rightarrow> 's writer option \<Rightarrow> 's \<Rightarrow> bytes option \<Rightarrow>
    's \<times> nat \<times> gerror option" where
  "Write code st w s p0 = (case w of
     None \<Rightarrow> (s, 0, Some (Sentinel (Streams ErrWriterUninitialized)))
   | Some wr \<Rightarrow> (case p0 of None \<Rightarrow> (s, 0, None)
       | Some p \<Rightarrow>
           if p = [] then (case writeChunk code st wr s [] of (s', n, err) \<Rightarrow> (s', 0, err))
           else write_loop code st wr s p 0))"

section \<open>Reader\<close>

record frame =
  f_Stream :: stream_type
  f_Data :: bytes

text \<open>\<^verbatim>\<open>io.ReadFull\<close> of \<open>n\<close> bytes.\<close>

definition ReadFull :: "nat \<Rightarrow> reader \<Rightarrow> gerror + (bytes \<times> reader)" where
  "ReadFull n r = (case r of (bs, e) \<Rightarrow>
     if n \<le> length bs then Inr (take n bs, (drop n bs, e))
     else Inl (if bs = [] then e else if e = eof then unexpected_eof else e))"

definition stream_of :: "(stream_type \<Rightarrow> byte) \<Rightarrow> byte \<Rightarrow> stream_type option" where
  "stream_of code b = find (\<lambda>st. code st = b) [Stdin, Stdout, Stderr, Systemerr]"

definition ReadFrame :: "(stream_type \<Rightarrow> byte) \<Rightarrow> reader \<Rightarrow> gerror + (frame \<times> reader)" where
  "ReadFrame code r =
    rbind (ReadFull frameHeaderLen r) (\<lambda>(header, r).
      case stream_of code (header ! 0) of
        None \<Rightarrow> Inl (wrap_post (Sentinel (Streams ErrUnknownStream))
                   ('': '' @ dec_digits (unat (header ! 0))))
      | Some st \<Rightarrow>
          let size = unat (Uint32 (drop 4 header)) in
          if size > DefaultMaxFrameLen
          then Inl (wrap_post (Sentinel (Streams ErrFrameTooLarge))
                 ('': '' @ dec_digits size @ '' bytes''))
          else rbind (ReadFull size r) (\<lambda>(data, r). Inr (\<lparr>f_Stream = st, f_Data = data\<rparr>, r)))"

lemma ReadFull_Inr: "ReadFull n r = Inr (d, r') \<Longrightarrow> fst r = d @ fst r' \<and> length d = n \<and> snd r' = snd r"
  by (auto simp: ReadFull_def split: prod.splits if_splits)

lemma ReadFrame_shorter: "ReadFrame code r = Inr (f, r') \<Longrightarrow> length (fst r') < length (fst r)"
  by (auto simp: ReadFrame_def rbind_eq_Inr Let_def split: option.splits if_splits
      dest!: ReadFull_Inr)

text \<open>
  \<^verbatim>\<open>Demux\<close>: both destinations share a state, so that two names of one connection can be
  modelled; the result has the bytes written and the error. The text of a system error is the
  payload, as characters.
\<close>

definition payload_text :: "bytes \<Rightarrow> string" where
  "payload_text bs = map (\<lambda>b. char_of (unat b)) bs"

function Demux ::
  "(stream_type \<Rightarrow> byte) \<Rightarrow> 's writer \<Rightarrow> 's writer \<Rightarrow> 's \<Rightarrow> reader \<Rightarrow> nat \<Rightarrow> 's \<times> nat \<times> gerror option"
  where
  "Demux code wo we s r written =
    (case ReadFrame code r of
       Inl e \<Rightarrow> if errors_is e (Std EOF) \<or> errors_is e (Std ErrUnexpectedEOF)
                then (s, written, None) else (s, written, Some e)
     | Inr (f, r') \<Rightarrow>
         if f_Stream f = Systemerr
         then (s, written, Some (NewErr (''streams: error from daemon in stream: ''
                @ payload_text (f_Data f))))
         else case (if f_Stream f = Stderr then we else wo) s (f_Data f) of (s', n, err) \<Rightarrow>
           (case err of
              Some e \<Rightarrow> (s', written + n, Some e)
            | None \<Rightarrow> if n \<noteq> length (f_Data f) then (s', written + n, Some short_write)
                      else Demux code wo we s' r' (written + n)))"
  by pat_completeness auto
termination
  by (relation "measure (\<lambda>(code, wo, we, s, r, written). length (fst r))")
    (auto dest!: ReadFrame_shorter)

declare Demux.simps [simp del]

section \<open>The io.Writer contract\<close>

text \<open>
  The documented contract of \<^verbatim>\<open>io.Writer\<close>: a writer takes at most the bytes it is given,
  and reports an error when it took fewer.
\<close>

locale io_writer =
  fixes wr :: "'s writer"
  assumes at_most: "wr s p = (s', n, err) \<Longrightarrow> n \<le> length p"
    and all_or_error: "wr s p = (s', n, None) \<Longrightarrow> n = length p"
begin

lemma writeChunk_at_most: "writeChunk code st wr s p = (s', n, err) \<Longrightarrow> n \<le> length p"
  using at_most [of s "frame_bytes code st p"]
  by (auto simp: writeChunk_def Let_def frame_bytes_def split: prod.splits option.splits if_splits)

lemma write_loop_contract:
  "write_loop code st wr s p k = (s', n, err) \<Longrightarrow>
     k \<le> n \<and> n \<le> k + length p \<and> (err = None \<longrightarrow> n = k + length p)"
proof (induction p arbitrary: s k rule: measure_induct_rule [of length])
  case (less p)
  obtain s1 m e where c: "writeChunk code st wr s (take maxWriteChunk p) = (s1, m, e)"
    by (cases "writeChunk code st wr s (take maxWriteChunk p)") auto
  note step = less.prems [unfolded write_loop.simps [of code st wr s p k] c]
  consider "p = []" | "p \<noteq> []" "e = None" | x where "p \<noteq> []" "e = Some x"
    by (cases e) auto
  then show ?case
  proof cases
    case 2
    then have m: "m = length (take maxWriteChunk p)"
      using c by (auto dest: writeChunk_None)
    with 2 have "length (drop m p) < length p" by simp
    from less.IH [OF this, of s1 "k + m"] step 2 m show ?thesis by simp
  qed (use step writeChunk_at_most [OF c] in auto)
qed

end

text \<open>The framing writer is itself a writer of that kind, over any destination that is one.\<close>

context io_writer
begin

lemma framed_contract: "io_writer (\<lambda>s p. Write code st (Some wr) s (Some p))"
  by unfold_locales
    (auto simp: Write_def dest: write_loop_contract writeChunk_None split: if_splits prod.splits)

end

text \<open>An in-memory buffer, the destination the round trip is stated for.\<close>

definition buffer_write :: "bytes writer" where
  "buffer_write s p = (s @ p, length p, None)"

interpretation buffer: io_writer buffer_write
  by unfold_locales (auto simp: buffer_write_def)

interpretation framed_buffer: io_writer "\<lambda>s p. Write code st (Some buffer_write) s (Some p)" for code st
  by (rule buffer.framed_contract)

text \<open>
  The multiplexing writer keeps the contract of \<^verbatim>\<open>io.Writer\<close> over every destination
  that keeps it: it never claims more payload bytes than it was given, and without an error it
  took them all.
\<close>

theorem Write_keeps_contract:
  assumes "\<And>s p s' n err. wr s p = (s', n, err) \<Longrightarrow> n \<le> length p \<and> (err = None \<longrightarrow> n = length p)"
    and "Write code st (Some wr) s (Some p) = (s', n, err)"
  shows "n \<le> length p \<and> (err = None \<longrightarrow> n = length p)"
proof -
  have "io_writer wr" using assms(1) by unfold_locales blast+
  note framed = io_writer.framed_contract [OF this, of code st]
  from framed assms(2) show ?thesis by (metis io_writer.at_most io_writer.all_or_error)
qed

text \<open>A destination that takes nine bytes of each write and reports a short write for the rest.\<close>

definition nine_write :: "bytes writer" where
  "nine_write s p = (s @ take 9 p, min 9 (length p), if length p > 9 then Some short_write else None)"

definition sample_code :: "stream_type \<Rightarrow> byte" where
  "sample_code st = (case st of Stdin \<Rightarrow> 0 | Stdout \<Rightarrow> 1 | Stderr \<Rightarrow> 2 | Systemerr \<Rightarrow> 3)"

theorem Write_keeps_contract_witness:
  "Write sample_code Stdout (Some nine_write) [] (Some [104, 105])
     = ([1, 0, 0, 0, 0, 0, 0, 2, 104], 1, Some short_write)
   \<and> 1 \<le> length [104, 105 :: byte]"
proof -
  have w: "Write sample_code Stdout (Some nine_write) [] (Some [104, 105])
      = ([1, 0, 0, 0, 0, 0, 0, 2, 104], 1, Some short_write)"
    by (simp add: Write_def write_loop.simps [of _ _ _ _ "[104, 105]"] maxWriteChunk_def
        writeChunk_def frame_bytes_def nine_write_def PutUint32_def sample_code_def Let_def)
  have "1 \<le> length [104, 105 :: byte]"
    using Write_keeps_contract [OF _ w] by (force simp: nine_write_def)
  with w show ?thesis by simp
qed

section \<open>Frames on the wire\<close>

function chunks :: "bytes \<Rightarrow> bytes list" where
  "chunks p = (if length p \<le> maxWriteChunk then [p]
     else take maxWriteChunk p # chunks (drop maxWriteChunk p))"
  by pat_completeness auto
termination
  by (relation "measure length") (simp_all add: maxWriteChunk_def)

declare chunks.simps [simp del]

lemma concat_chunks: "concat (chunks p) = p"
proof (induction p rule: chunks.induct)
  case (1 p)
  then show ?case by (cases "length p \<le> maxWriteChunk") (simp_all add: chunks.simps [of p])
qed

lemma chunks_length: "c \<in> set (chunks p) \<Longrightarrow> length c \<le> maxWriteChunk"
proof (induction p rule: chunks.induct)
  case (1 p)
  then show ?case by (cases "length p \<le> maxWriteChunk") (auto simp: chunks.simps [of p])
qed

lemma writeChunk_buffer:
  "writeChunk code st buffer_write s p = (s @ frame_bytes code st p, length p, None)"
  by (simp add: writeChunk_def buffer_write_def)

lemma write_loop_buffer:
  "p \<noteq> [] \<Longrightarrow> write_loop code st buffer_write s p k
     = (s @ concat (map (frame_bytes code st) (chunks p)), k + length p, None)"
proof (induction p arbitrary: s k rule: chunks.induct)
  case (1 p)
  show ?case
  proof (cases "length p \<le> maxWriteChunk")
    case True
    with "1.prems" show ?thesis
      by (simp add: write_loop.simps [of code st buffer_write] writeChunk_buffer chunks.simps [of p])
  next
    case False
    then have d: "drop maxWriteChunk p \<noteq> []" by simp
    from False "1.prems" show ?thesis
      by (simp add: write_loop.simps [of code st buffer_write s p] writeChunk_buffer
          chunks.simps [of p] "1.IH" [OF False d] min_def)
  qed
qed

lemma Write_buffer:
  "Write code st (Some buffer_write) s (Some p)
     = (s @ concat (map (frame_bytes code st) (chunks p)), length p, None)"
  by (cases "p = []") (simp_all add: Write_def write_loop_buffer writeChunk_buffer chunks.simps [of "[]"])

lemma length_frame_bytes: "length (frame_bytes code st p) = 8 + length p"
  by (simp add: frame_bytes_def)

lemma stream_of_code [simp]: "inj code \<Longrightarrow> stream_of code (code st) = Some st"
  by (cases st) (auto simp: stream_of_def inj_eq)

lemma ReadFrame_header:
  assumes "inj code" and "length p \<le> DefaultMaxFrameLen"
  shows "ReadFrame code (take 8 (frame_bytes code st p) @ rest, e)
    = rbind (ReadFull (length p) (rest, e)) (\<lambda>(data, r). Inr (\<lparr>f_Stream = st, f_Data = data\<rparr>, r))"
proof -
  have "unat (word_of_nat (length p) :: u32) = length p"
    using assms(2) by (simp add: unat_of_nat DefaultMaxFrameLen_def)
  moreover have "take 8 (frame_bytes code st p) = [code st, 0, 0, 0] @ PutUint32 (word_of_nat (length p))"
    by (simp add: frame_bytes_def)
  moreover have "Uint32 (PutUint32 (word_of_nat (length p))) = word_of_nat (length p)"
    using Uint32_PutUint32 [of _ "[]"] by simp
  ultimately show ?thesis
    using assms by (simp add: ReadFrame_def ReadFull_def [of 8] Let_def)
qed

lemma ReadFrame_frame:
  assumes "inj code" and "length p \<le> DefaultMaxFrameLen"
  shows "ReadFrame code (frame_bytes code st p @ rest, e)
    = Inr (\<lparr>f_Stream = st, f_Data = p\<rparr>, (rest, e))"
proof -
  have "frame_bytes code st p = take 8 (frame_bytes code st p) @ p"
    by (simp add: frame_bytes_def)
  then show ?thesis
    using ReadFrame_header [OF assms, of st "p @ rest" e]
    by (simp add: ReadFull_def) (metis append_assoc)
qed

section \<open>Demultiplexing what was written\<close>

text \<open>The two destinations of the round trip: a pair of buffers.\<close>

definition out_write :: "(bytes \<times> bytes) writer" where
  "out_write s p = ((fst s @ p, snd s), length p, None)"

definition err_write :: "(bytes \<times> bytes) writer" where
  "err_write s p = ((fst s, snd s @ p), length p, None)"

definition deliver :: "stream_type \<times> bytes \<Rightarrow> bytes \<times> bytes \<Rightarrow> bytes \<times> bytes" where
  "deliver f s = (if fst f = Stderr then (fst s, snd s @ snd f) else (fst s @ snd f, snd s))"

text \<open>A wire of frames, and the frames that are complete in its first \<open>k\<close> bytes.\<close>

definition wire :: "(stream_type \<Rightarrow> byte) \<Rightarrow> (stream_type \<times> bytes) list \<Rightarrow> bytes" where
  "wire code fs = concat (map (\<lambda>(st, p). frame_bytes code st p) fs)"

fun complete :: "nat \<Rightarrow> (stream_type \<times> bytes) list \<Rightarrow> (stream_type \<times> bytes) list" where
  "complete k [] = []"
| "complete k (f # fs) = (if k < 8 + length (snd f) then [] else f # complete (k - (8 + length (snd f))) fs)"

definition demuxable :: "stream_type \<times> bytes \<Rightarrow> bool" where
  "demuxable f \<longleftrightarrow> fst f \<noteq> Systemerr \<and> length (snd f) \<le> DefaultMaxFrameLen"

lemma take_frame_bytes:
  "take k (frame_bytes code st p) = take k (take 8 (frame_bytes code st p)) @ take (k - 8) p"
proof -
  have "frame_bytes code st p = take 8 (frame_bytes code st p) @ p"
    and "length (take 8 (frame_bytes code st p)) = 8"
    by (simp_all add: frame_bytes_def)
  then show ?thesis by (metis take_append)
qed

lemma ReadFrame_truncated:
  assumes "inj code" and "length p \<le> DefaultMaxFrameLen" and "k < 8 + length p"
  shows "ReadFrame code (take k (frame_bytes code st p), eof)
    = Inl (if k = 0 \<or> k = 8 then eof else unexpected_eof)"
proof (cases "k < 8")
  case True
  then show ?thesis
    by (auto simp: ReadFrame_def ReadFull_def length_frame_bytes simp flip: length_0_conv)
next
  case False
  then have "take k (frame_bytes code st p) = take 8 (frame_bytes code st p) @ take (k - 8) p"
    by (subst take_frame_bytes) (simp add: min_def)
  with False assms(3) show ?thesis
    by (auto simp: ReadFrame_header [OF assms(1,2)] ReadFull_def simp flip: length_0_conv)
qed

lemma Demux_wire:
  assumes "inj code" and "list_all demuxable fs"
  shows "Demux code out_write err_write s (take k (wire code fs), eof) n
    = (fold deliver (complete k fs) s, n + sum_list (map (length \<circ> snd) (complete k fs)), None)"
  using assms(2)
proof (induction fs arbitrary: s k n)
  case Nil
  then show ?case
    by (subst Demux.simps) (simp add: wire_def ReadFrame_def ReadFull_def)
next
  case (Cons f fs)
  obtain st p where f: "f = (st, p)" by (cases f)
  with Cons.prems have p: "st \<noteq> Systemerr" "length p \<le> DefaultMaxFrameLen"
    by (simp_all add: demuxable_def)
  have w: "wire code (f # fs) = frame_bytes code st p @ wire code fs"
    by (simp add: wire_def f)
  show ?case
  proof (cases "k < 8 + length p")
    case True
    then have "take k (wire code (f # fs)) = take k (frame_bytes code st p)"
      by (simp add: w length_frame_bytes)
    with True show ?thesis
      by (subst Demux.simps) (simp add: ReadFrame_truncated [OF assms(1) p(2)] f)
  next
    case False
    then have "take k (wire code (f # fs))
        = frame_bytes code st p @ take (k - (8 + length p)) (wire code fs)"
      by (simp add: w length_frame_bytes)
    moreover have "(if st = Stderr then err_write else out_write) s p = (deliver f s, length p, None)"
      by (simp add: f out_write_def err_write_def deliver_def)
    ultimately show ?thesis
      using False p(1) Cons.IH [of "deliver f s" "k - (8 + length p)" "n + length p"] Cons.prems
      by (subst Demux.simps) (simp add: ReadFrame_frame [OF assms(1) p(2)] f add.assoc comp_def)
  qed
qed

text \<open>A sequence of writes on the streams of one connection, each split into frames.\<close>

definition mux :: "(stream_type \<Rightarrow> byte) \<Rightarrow> (stream_type \<times> bytes) list \<Rightarrow> bytes" where
  "mux code ws = fold (\<lambda>(st, p) s. fst (Write code st (Some buffer_write) s (Some p))) ws []"

definition frames :: "(stream_type \<times> bytes) list \<Rightarrow> (stream_type \<times> bytes) list" where
  "frames ws = concat (map (\<lambda>(st, p). map (Pair st) (chunks p)) ws)"

lemma mux_wire: "mux code ws = wire code (frames ws)"
proof -
  have "fold (\<lambda>(st, p) s. fst (Write code st (Some buffer_write) s (Some p))) ws s
      = s @ wire code (frames ws)" for s
    by (induction ws arbitrary: s)
      (auto simp: wire_def frames_def Write_buffer comp_def split: prod.splits)
  then show ?thesis by (simp add: mux_def)
qed

lemma frames_demuxable:
  assumes "list_all (\<lambda>w. fst w \<noteq> Systemerr) ws"
  shows "list_all demuxable (frames ws)"
proof -
  have "maxWriteChunk \<le> DefaultMaxFrameLen"
    by (simp add: maxWriteChunk_def DefaultMaxFrameLen_def)
  with assms show ?thesis
    by (force simp: list_all_iff demuxable_def frames_def dest: chunks_length)
qed

lemma fold_deliver_chunks:
  "fold deliver (map (Pair st) cs) s = deliver (st, concat cs) s"
  by (induction cs arbitrary: s) (auto simp: deliver_def)

lemma fold_deliver_frames: "fold deliver (frames ws) s = fold deliver ws s"
  by (induction ws arbitrary: s)
    (auto simp: frames_def fold_deliver_chunks concat_chunks split: prod.split)

lemma sum_length_frames: "sum_list (map (length \<circ> snd) (frames ws)) = sum_list (map (length \<circ> snd) ws)"
proof (induction ws)
  case Nil
  then show ?case by (simp add: frames_def)
next
  case (Cons w ws)
  have "sum_list (map length (chunks p)) = length p" for p
    using concat_chunks [of p] by (metis length_concat)
  with Cons show ?case by (simp add: frames_def comp_def split: prod.split)
qed

lemma complete_all: "length (wire code fs) \<le> k \<Longrightarrow> complete k fs = fs"
  by (induction fs arbitrary: k) (auto simp: wire_def length_frame_bytes)

lemma complete_prefix: "prefix (complete k fs) fs"
  by (induction fs arbitrary: k) auto

lemma complete_maximal:
  "length (wire code (complete k fs)) \<le> k
   \<and> (\<forall>f. prefix (complete k fs @ [f]) fs \<longrightarrow> k < length (wire code (complete k fs @ [f])))"
proof (induction fs arbitrary: k)
  case Nil
  then show ?case by (simp add: wire_def)
next
  case (Cons f fs)
  have w: "length (wire code (f # gs)) = 8 + length (snd f) + length (wire code gs)" for gs
    by (simp add: wire_def length_frame_bytes split: prod.split)
  show ?case
  proof (cases "k < 8 + length (snd f)")
    case True
    then show ?thesis using w [of "[]"] by (auto simp: wire_def)
  next
    case False
    with Cons.IH [of "k - (8 + length (snd f))"] show ?thesis
      by (auto simp: w) (metis add.commute less_diff_conv2 not_less)
  qed
qed

lemma Demux_written:
  assumes "inj code" and "list_all (\<lambda>w. fst w \<noteq> Systemerr) ws"
  shows "Demux code out_write err_write ([], []) (mux code ws, eof) 0
    = ((concat (map snd (filter (\<lambda>w. fst w \<noteq> Stderr) ws)),
        concat (map snd (filter (\<lambda>w. fst w = Stderr) ws))),
       sum_list (map (length \<circ> snd) ws), None)"
proof -
  have d: "fold deliver ws (o0, e0)
      = (o0 @ concat (map snd (filter (\<lambda>w. fst w \<noteq> Stderr) ws)),
         e0 @ concat (map snd (filter (\<lambda>w. fst w = Stderr) ws)))" for o0 e0
    by (induction ws arbitrary: o0 e0) (auto simp: deliver_def)
  show ?thesis
    using Demux_wire [OF assms(1) frames_demuxable [OF assms(2)],
        of "([], [])" "length (wire code (frames ws))" 0]
      complete_all [of code "frames ws", OF order.refl]
    by (simp add: mux_wire fold_deliver_frames sum_length_frames d)
qed

text \<open>
  C27: demultiplexing what the writers multiplexed gives every stream its bytes back: whatever
  writes were made on stdin, stdout and stderr, in whatever order and of whatever size (a write
  above one MiB is several frames), the reader delivers the concatenation of the stderr payloads
  to one destination and of the others to the other, in order, without an error, and counts them.
\<close>

theorem Demux_mux:
  assumes "inj code" and "list_all (\<lambda>w. fst w \<noteq> Systemerr) ws"
  shows "Demux code out_write err_write ([], []) (mux code ws, eof) 0
    = ((concat (map snd (filter (\<lambda>w. fst w \<noteq> Stderr) ws)),
        concat (map snd (filter (\<lambda>w. fst w = Stderr) ws))),
       sum_list (map (length \<circ> snd) ws), None)"
  by (rule Demux_written [OF assms])

lemma inj_sample_code: "inj sample_code"
  by (auto simp: inj_def sample_code_def split: stream_type.splits)

theorem Demux_mux_witness:
  "Demux sample_code out_write err_write ([], [])
     (mux sample_code [(Stdout, [104, 105]), (Stderr, [33]), (Stdout, [10])], eof) 0
   = (([104, 105, 10], [33]), 4, None)"
  using Demux_mux [OF inj_sample_code, of "[(Stdout, [104, 105]), (Stderr, [33]), (Stdout, [10])]"]
  by simp

text \<open>
  Cutting the connection anywhere loses only the frame it falls into: the demultiplexer reports
  a clean end and has delivered exactly the frames that are complete before the cut.
\<close>

theorem Demux_cut:
  assumes "inj code" and "list_all (\<lambda>w. fst w \<noteq> Systemerr) ws"
  shows "\<exists>fs. prefix fs (frames ws) \<and> length (wire code fs) \<le> k
    \<and> (\<forall>f. prefix (fs @ [f]) (frames ws) \<longrightarrow> k < length (wire code (fs @ [f])))
    \<and> fst (Demux code out_write err_write s (take k (mux code ws), eof) n) = fold deliver fs s
    \<and> snd (snd (Demux code out_write err_write s (take k (mux code ws), eof) n)) = None"
proof -
  show ?thesis
    by (rule exI [of _ "complete k (frames ws)"])
      (use Demux_wire [OF assms(1) frames_demuxable [OF assms(2)]] complete_prefix complete_maximal
        in \<open>simp add: mux_wire\<close>)
qed

theorem Demux_cut_witness:
  "fst (Demux sample_code out_write err_write ([], [])
     (take 12 (mux sample_code [(Stdout, [104]), (Stderr, [33])]), eof) 0) = ([104], [])"
proof -
  have "list_all (\<lambda>w. fst w \<noteq> Systemerr) [(Stdout, [104 :: byte]), (Stderr, [33])]" by simp
  from Demux_cut [OF inj_sample_code this, of 12 "([], [])" 0] obtain fs where
    fs: "prefix fs (frames [(Stdout, [104]), (Stderr, [33])])" "length (wire sample_code fs) \<le> 12"
    "\<forall>f. prefix (fs @ [f]) (frames [(Stdout, [104]), (Stderr, [33])])
       \<longrightarrow> 12 < length (wire sample_code (fs @ [f]))"
    "fst (Demux sample_code out_write err_write ([], [])
      (take 12 (mux sample_code [(Stdout, [104]), (Stderr, [33])]), eof) 0) = fold deliver fs ([], [])"
    by blast
  have fr: "frames [(Stdout, [104]), (Stderr, [33])] = [(Stdout, [104]), (Stderr, [33])]"
    by (simp add: frames_def chunks.simps maxWriteChunk_def)
  from fs(1-3) have "fs = [(Stdout, [104])]"
    by (auto simp: fr prefix_Cons wire_def length_frame_bytes)
  with fs(4) show ?thesis by (simp add: deliver_def)
qed

text \<open>
  The documentation of \<^verbatim>\<open>ReadFrame\<close> announces an unexpected-EOF error for a truncated
  frame; a frame cut right after its header ends the stream like a clean end.
\<close>

theorem ReadFrame_cut_after_header:
  assumes "inj code" and "p \<noteq> []" and "length p \<le> DefaultMaxFrameLen"
  shows "ReadFrame code (take 8 (frame_bytes code st p), eof) = Inl eof"
  using ReadFrame_truncated [OF assms(1,3), of 8] assms(2) by simp

end
