(* ===== verification/Api_Logs.thy ===== *)
theory Api_Logs
  imports Api_Handlers Cri_Writer Stdcopy
begin

text \<open>
  The log request from end to end: \<^verbatim>\<open>ContainerLogs\<close> of \<^verbatim>\<open>internal/app/containers.go\<close>, the
  handler \<^verbatim>\<open>containerLogs\<close> of \<^verbatim>\<open>internal/api/handlers_containers.go\<close> and the limiter of long
  streams of \<^verbatim>\<open>internal/api/errors.go\<close>. The log file is what the polls of the reader see of it
  (\<open>Log_Stream\<close>); the response body is the bytes written to it.
\<close>

section \<open>errors.go: the limiter of streams\<close>

text \<open>The buffered channel of slots: its capacity and the number of slots taken.\<close>

record streamLimiter =
  sl_limit :: nat
  sl_used :: nat

definition DefaultStreamLimit :: nat where "DefaultStreamLimit = 64"

definition newStreamLimiter :: "int \<Rightarrow> streamLimiter" where
  "newStreamLimiter limit = \<lparr>sl_limit = nat (if limit \<le> 0 then int DefaultStreamLimit else limit), sl_used = 0\<rparr>"

text \<open>
  \<open>ctx_err\<close> is the error of the context when it is done and \<open>choice\<close> the branch \<^verbatim>\<open>select\<close> takes
  when both are ready; \<open>None\<close> is a call that waits for another request or for its context.
\<close>

definition acquire :: "gerror option \<Rightarrow> bool \<Rightarrow> streamLimiter option \<Rightarrow> (streamLimiter option \<times> gerror option) option" where
  "acquire ctx_err choice l0 = (case l0 of
     None \<Rightarrow> Some (None, None)
   | Some l \<Rightarrow>
      let free = sl_used l < sl_limit l; take_slot = Some (Some (l\<lparr>sl_used := sl_used l + 1\<rparr>), None) in
      (case ctx_err of
         None \<Rightarrow> if free then take_slot else None
       | Some e \<Rightarrow> if free \<and> choice then take_slot else Some (Some l, Some e)))"

definition release :: "streamLimiter option \<Rightarrow> streamLimiter option" where
  "release l0 = map_option (\<lambda>l. if 0 < sl_used l then l\<lparr>sl_used := sl_used l - 1\<rparr> else l) l0"

definition limiter_ok :: "streamLimiter option \<Rightarrow> bool" where
  "limiter_ok l0 = (case l0 of None \<Rightarrow> True | Some l \<Rightarrow> sl_used l \<le> sl_limit l)"

lemma acquire_ok:
  assumes "limiter_ok l" and "acquire c b l = Some (l', r)"
  shows "limiter_ok l' \<and> limiter_ok (release l') \<and> (r = None \<longrightarrow> release l' = l) \<and> (r \<noteq> None \<longrightarrow> l' = l)"
  using assms
  by (auto simp: acquire_def limiter_ok_def release_def Let_def split: option.splits if_splits)

section \<open>containers.go: ContainerLogs\<close>

definition discard_sink :: "'s sink" where
  "discard_sink s p = (s, None)"

definition log_options_of :: "log_request \<Rightarrow> log_options" where
  "log_options_of q = \<lparr>lo_Follow = lr_Follow q, lo_Tail = lr_Tail q, lo_Since = lr_Since q, lo_Until = lr_Until q,
     lo_Timestamps = lr_Timestamps q, lo_Format = LogFormatCRI\<rparr>"

text \<open>
  The watcher of a followed container: what the runtime answers at each tick, with whether the
  context had ended by then. The watcher goes on, ends the follow, or returns without doing so.
\<close>

type_synonym watch_tick = "bool \<times> (gerror + string)"

datatype watch_end = Watching | CancelsFollow | Returns

fun cancelFollowWhenExited :: "watch_tick list \<Rightarrow> watch_end" where
  "cancelFollowWhenExited [] = Watching"
| "cancelFollowWhenExited ((gone, Inl e) # ts) = (if \<not> gone then CancelsFollow else Returns)"
| "cancelFollowWhenExited ((gone, Inr state) # ts) =
    (if state \<noteq> ContainerStateRunning \<and> state \<noteq> ContainerStateCreated then CancelsFollow else cancelFollowWhenExited ts)"

text \<open>
  The context of the reader is done when that of the request is or when the watcher has cancelled it.
  \<open>ticks n\<close> are the answers between the iterations \<open>n - 1\<close> and \<open>n\<close> of the reader and those during
  the sleep of iteration \<open>n\<close>; \<open>seen\<close> are the earlier ones.
\<close>

type_synonym watch_ticks = "nat \<Rightarrow> watch_tick list \<times> watch_tick list"

fun watched_polls :: "watch_ticks \<Rightarrow> nat \<Rightarrow> watch_tick list \<Rightarrow> log_poll list \<Rightarrow> log_poll list" where
  "watched_polls ticks n seen [] = []"
| "watched_polls ticks n seen (p # ps) =
    (let seen1 = seen @ fst (ticks n); seen2 = seen1 @ snd (ticks n)
     in p\<lparr>lp_done := lp_done p \<or> cancelFollowWhenExited seen1 = CancelsFollow,
          lp_sleep_done := lp_sleep_done p \<or> cancelFollowWhenExited seen2 = CancelsFollow\<rparr>
        # watched_polls ticks (Suc n) seen2 ps)"

text \<open>
  What the request sees of the outside: whether the file of a path can be stat'ed, what the
  iterations of the reader observe, and the ticks of the watcher.
\<close>

record log_fs =
  fs_dir :: string
  fs_stat :: "string \<Rightarrow> bool"
  fs_polls :: "string \<Rightarrow> log_poll list"
  fs_ticks :: watch_ticks

text \<open>The last component of the result is \<open>None\<close> while the follow is still running.\<close>

definition ContainerLogs ::
  "'w service_env \<Rightarrow> log_fs \<Rightarrow> string \<Rightarrow> log_request \<Rightarrow> 's sink \<Rightarrow> 's sink \<Rightarrow> 'w svc \<Rightarrow> 's \<Rightarrow> 's \<times> gerror option option" where
  "ContainerLogs env fs ref q stdout stderr s b = (case resolveContainer env ref s of
     Inl e \<Rightarrow> (b, Some (Some e))
   | Inr c \<Rightarrow>
      let path = logPath (fs_dir fs) (c_ID c) in
      if \<not> fs_stat fs path \<and> \<not> lr_Follow q then (b, Some None)
      else
        let out = (if \<not> lr_Stdout q then discard_sink else stdout);
            errOut = (if \<not> lr_Stderr q then discard_sink else stderr);
                    polls = (if lr_Follow q then watched_polls (fs_ticks fs) 0 [] (fs_polls fs path) else fs_polls fs path)
        in (case ReadLogs out errOut path (log_options_of q) polls init_read_state b of
             (b', st, r) \<Rightarrow> (b', r)))"

section \<open>logs.go: CloseLogSinks\<close>

text \<open>
  \<open>closer\<close> says whether the service owns the reader of image configurations. The result has the state
  afterwards, whether that reader was closed and the log files that were.
\<close>

definition CloseLogSinks :: "bool \<times> service_state \<Rightarrow> (bool \<times> service_state) \<times> bool \<times> container_id list" where
  "CloseLogSinks s = (case s of (closer, st) \<Rightarrow> ((False, st\<lparr>sv_logs := []\<rparr>), closer, sv_logs st))"

text \<open>No sink stays open, nothing else changes, and closing again closes nothing.\<close>

lemma CloseLogSinks_all:
  "CloseLogSinks (closer, st) = (s1, b, closed) \<Longrightarrow>
    closed = sv_logs st \<and> sv_logs (snd s1) = [] \<and> sv_registry (snd s1) = sv_registry st \<and> CloseLogSinks s1 = (s1, False, [])"
  by (auto simp: CloseLogSinks_def)

section \<open>handlers_containers.go: containerLogs\<close>

definition to_bytes :: "string \<Rightarrow> bytes" where
  "to_bytes p = map (\<lambda>c. word_of_nat (of_char c)) p"

text \<open>The response writer takes every byte; a write that fails ends the stream without a trace in the response.\<close>

definition raw_sink :: "bytes sink" where
  "raw_sink s p = (s @ to_bytes p, None)"

definition framed_sink :: "(stream_type \<Rightarrow> byte) \<Rightarrow> stream_type \<Rightarrow> bytes sink" where
  "framed_sink code st s p = (case Write code st (Some buffer_write) s (Some (to_bytes p)) of (s', n, e) \<Rightarrow> (s', e))"

text \<open>\<open>unix\<close> is the time a decimal number of seconds denotes: the parsing and arithmetic of floats.\<close>

definition timeQuery :: "(string \<Rightarrow> gotime option) \<Rightarrow> query \<Rightarrow> string \<Rightarrow> gotime" where
  "timeQuery unix q key = (let v = TrimSpace (get_or [] q key) in
     if v = [] then zero_time
     else case unix v of Some t \<Rightarrow> t
     | None \<Rightarrow> (case parse_rfc3339nano v of Some t \<Rightarrow> t | None \<Rightarrow> zero_time))"

definition log_query :: "(string \<Rightarrow> gotime option) \<Rightarrow> query \<Rightarrow> log_request" where
  "log_query unix q = \<lparr>lr_Follow = boolQuery q ''follow'' False, lr_Tail = tailQuery q, lr_Since = timeQuery unix q ''since'',
     lr_Until = timeQuery unix q ''until'', lr_Timestamps = boolQuery q ''timestamps'' False,
     lr_Stdout = boolQuery q ''stdout'' True, lr_Stderr = boolQuery q ''stderr'' True\<rparr>"

text \<open>
  A response is an error, or a stream with its content type and body and whether it has ended.
  \<open>None\<close> is a request that waits for a slot.
\<close>

datatype log_response = LogError http_response | LogStream string bytes bool

record logs_env =
  ge_code :: "stream_type \<Rightarrow> byte"
  ge_raw :: string
  ge_mux :: string
  ge_unix :: "string \<Rightarrow> gotime option"
  ge_fs :: log_fs

definition stream_logs :: "logs_env \<Rightarrow> 'w service_env \<Rightarrow> string \<Rightarrow> log_request \<Rightarrow> container \<Rightarrow> 'w svc \<Rightarrow> log_response" where
  "stream_logs ge env i options item s =
    (let tty = (get_or [] (c_Labels item) LabelTTY = ''true'');
         contentType = (if tty then ge_raw ge else ge_mux ge);
         stdout = (if tty then raw_sink else framed_sink (ge_code ge) Stdout);
         stderr = (if tty then raw_sink else framed_sink (ge_code ge) Stderr)
     in case ContainerLogs env (ge_fs ge) i options stdout stderr s [] of
       (body, r) \<Rightarrow> LogStream contentType body (r \<noteq> None))"

text \<open>
  The slot of a follow is released when the handler returns: a stream that has not ended within the
  observations still holds it.
\<close>

definition log_ended :: "log_response \<Rightarrow> bool" where
  "log_ended r = (case r of LogError _ \<Rightarrow> True | LogStream _ _ ended \<Rightarrow> ended)"

definition containerLogs ::
  "logs_env \<Rightarrow> 'w service_env \<Rightarrow> gerror option \<Rightarrow> bool \<Rightarrow> string \<Rightarrow> query \<Rightarrow> streamLimiter option \<Rightarrow> 'w svc
    \<Rightarrow> (streamLimiter option \<times> 'w svc \<times> log_response) option" where
  "containerLogs ge env ctx_err choice path q l s =
    (let i = pathParameter path ''/containers/'' ''/logs'' in
     case ContainerInspect env i s of
       (s1, Inl e) \<Rightarrow> Some (l, s1, LogError (service_error e))
     | (s1, Inr item) \<Rightarrow>
        let options = log_query (ge_unix ge) q in
        if \<not> lr_Follow options then Some (l, s1, stream_logs ge env i options item s1)
        else (case acquire ctx_err choice l of
           None \<Rightarrow> None
         | Some (l1, Some e) \<Rightarrow> Some (l1, s1, LogError (service_error e))
         | Some (l1, None) \<Rightarrow>
            let r = stream_logs ge env i options item s1 in Some (if log_ended r then release l1 else l1, s1, r)))"

section \<open>Reading does not depend on the destination\<close>

text \<open>
  \<open>h\<close> maps the state of one pair of destinations to that of another that receives the same writes
  and answers alike; then it maps every result of the reader.
\<close>

definition sink_hom :: "('s \<Rightarrow> 't) \<Rightarrow> 's sink \<Rightarrow> 't sink \<Rightarrow> bool" where
  "sink_hom h k k' \<longleftrightarrow> (\<forall>s p. k' (h s) p = map_prod h id (k s p))"

lemma writeLogEntry_hom:
  assumes "sink_hom h wo wo'" and "sink_hom h we we'"
  shows "writeLogEntry wo' we' en opts (h s) = map_prod h id (writeLogEntry wo we en opts s)"
proof -
  have d: "wo' (h s) p = map_prod h id (wo s p)" "we' (h s) p = map_prod h id (we s p)" for s p
    using assms by (simp_all add: sink_hom_def)
  show ?thesis
    by (cases "le_Stream en = LogStreamStderr") (simp_all add: writeLogEntry_def Let_def d split: prod.split option.split)
qed

lemma emit_lines_hom:
  assumes "sink_hom h wo wo'" and "sink_hom h we we'"
  shows "emit_lines wo' we' opts ls off (h s) = map_prod h id (emit_lines wo we opts ls off s)"
proof (induction ls arbitrary: off s)
  case (Cons l ls)
  show ?case
    by (simp add: Cons.IH writeLogEntry_hom [OF assms] split: option.split prod.split)
qed simp

lemma readLogsOnce_hom:
  assumes "sink_hom h wo wo'" and "sink_hom h we we'"
  shows "readLogsOnce wo' we' path opts p st (h s) = map_prod h id (readLogsOnce wo we path opts p st s)"
proof -
  have flush: "flush_logs wo' we' path opts p st (h s) = map_prod h id (flush_logs wo we path opts p st s)" for st s
    by (simp add: flush_logs_def flushAvailableLogs_def emitLogLines_def emit_lines_hom [OF assms] Let_def
        split: sum.split option.split prod.split)
  show ?thesis
    by (simp add: readLogsOnce_def flush emitLogLines_def emit_lines_hom [OF assms] Let_def
        split: sum.split option.split prod.split)
qed

lemma ReadLogs_hom:
  assumes "sink_hom h wo wo'" and "sink_hom h we we'"
  shows "ReadLogs wo' we' path opts ps st (h s) = map_prod h id (ReadLogs wo we path opts ps st s)"
  by (induction ps arbitrary: st s) (simp_all add: readLogsOnce_hom [OF assms] split: prod.split)


section \<open>From the file to the client\<close>

text \<open>A destination that records the writes, stream by stream.\<close>

definition event_sink :: "stream_type \<Rightarrow> (stream_type \<times> bytes) list sink" where
  "event_sink st es p = (es @ [(st, to_bytes p)], None)"

definition stream_texts :: "(stream_type \<times> bytes) list \<Rightarrow> string \<times> string" where
  "stream_texts es = (payload_text (concat (map snd (filter (\<lambda>w. fst w \<noteq> Stderr) es))),
     payload_text (concat (map snd (filter (\<lambda>w. fst w = Stderr) es))))"

definition selected :: "bool \<Rightarrow> bool \<Rightarrow> (stream_type \<times> bytes) list \<Rightarrow> (stream_type \<times> bytes) list" where
  "selected so se es = filter (\<lambda>w. if fst w = Stderr then se else so) es"

lemma payload_to_bytes [simp]: "payload_text (to_bytes p) = p"
proof -
  have "unat (word_of_nat (of_char c) :: byte) = of_char c" for c
    by (simp add: unat_of_nat)
  then show ?thesis by (simp add: payload_text_def to_bytes_def comp_def map_idI)
qed

lemma to_bytes_payload [simp]: "to_bytes (payload_text b) = b"
proof -
  have "unat x < 256" for x :: byte
    using unsigned_less [of x] by simp
  then have "(word_of_nat (of_char (char_of (unat x))) :: byte) = x" for x :: byte
    by simp
  then show ?thesis by (simp add: payload_text_def to_bytes_def comp_def map_idI)
qed

lemma payload_append [simp]: "payload_text (a @ b) = payload_text a @ payload_text b"
  by (simp add: payload_text_def)

lemma mux_snoc: "mux code (ws @ [(st, p)]) = fst (Write code st (Some buffer_write) (mux code ws) (Some p))"
  by (simp add: mux_def)

lemma event_homs:
  "sink_hom stream_texts (event_sink Stdout) log_out" "sink_hom stream_texts (event_sink Stderr) log_err"
  "sink_hom (mux code \<circ> selected so se) (event_sink Stdout) (if \<not> so then discard_sink else framed_sink code Stdout)"
  "sink_hom (mux code \<circ> selected so se) (event_sink Stderr) (if \<not> se then discard_sink else framed_sink code Stderr)"
  "sink_hom (filter (\<lambda>w. fst w \<noteq> Systemerr)) (event_sink Stdout) (event_sink Stdout)"
  "sink_hom (filter (\<lambda>w. fst w \<noteq> Systemerr)) (event_sink Stderr) (event_sink Stderr)"
  by (auto simp: sink_hom_def event_sink_def stream_texts_def log_out_def log_err_def selected_def discard_sink_def
      framed_sink_def mux_snoc Write_buffer split: prod.split)

lemma framed_logs:
  assumes "ReadLogs log_out log_err path opts ps st ([], []) = ((out, err), st', r)"
  shows "\<exists>es. ReadLogs (if \<not> so then discard_sink else framed_sink code Stdout)
        (if \<not> se then discard_sink else framed_sink code Stderr) path opts ps st [] = (mux code (selected so se es), st', r)
    \<and> stream_texts es = (out, err) \<and> list_all (\<lambda>w. fst w \<noteq> Systemerr) es"
proof -
  obtain es st1 r1 where e: "ReadLogs (event_sink Stdout) (event_sink Stderr) path opts ps st [] = (es, st1, r1)"
    by (metis prod_cases3)
  note hom = ReadLogs_hom [of _ "event_sink Stdout" _ "event_sink Stderr" _ path opts ps st "[]"]
  have "stream_texts [] = ([], [])" by (simp add: stream_texts_def payload_text_def)
  then have "(stream_texts es, st1, r1) = ((out, err), st', r)"
    using hom [OF event_homs(1,2)] e assms by simp
  moreover have "(mux code \<circ> selected so se) [] = []" by (simp add: selected_def mux_def)
  moreover have "filter (\<lambda>w. fst w \<noteq> Systemerr) es = es" using hom [OF event_homs(5,6)] e by simp
  ultimately show ?thesis
    using hom [OF event_homs(3) [of code so se] event_homs(4) [of code so se]] e
    by (intro exI [of _ es]) (auto simp: list_all_iff filter_id_conv)
qed

lemma selected_texts:
  "stream_texts (selected so se es)
    = (if so then fst (stream_texts es) else [], if se then snd (stream_texts es) else [])"
proof -
  have "filter (\<lambda>w. fst w \<noteq> Stderr) (selected so se es) = (if so then filter (\<lambda>w. fst w \<noteq> Stderr) es else [])"
    "filter (\<lambda>w. fst w = Stderr) (selected so se es) = (if se then filter (\<lambda>w. fst w = Stderr) es else [])"
    by (induction es) (auto simp: selected_def)
  then show ?thesis by (simp add: stream_texts_def payload_text_def)
qed

text \<open>What the client gets out of a multiplexed body, as text.\<close>

definition client_texts :: "(stream_type \<Rightarrow> byte) \<Rightarrow> bytes \<Rightarrow> (string \<times> string) \<times> gerror option" where
  "client_texts code body = (case Demux code out_write err_write ([], []) (body, eof) 0 of
     ((out, err), n, e) \<Rightarrow> ((payload_text out, payload_text err), e))"

lemma client_texts_mux:
  assumes "inj code" and "list_all (\<lambda>w. fst w \<noteq> Systemerr) es"
  shows "client_texts code (mux code es) = (stream_texts es, None)"
  by (simp add: client_texts_def Demux_written [OF assms] stream_texts_def)

lemma list_all_selected: "list_all P es \<Longrightarrow> list_all P (selected so se es)"
  by (simp add: selected_def list_all_iff)

section \<open>The whole request\<close>

text \<open>A query that asks for the whole recorded log.\<close>

definition whole_log :: "query \<Rightarrow> bool" where
  "whole_log q \<longleftrightarrow> list_all (\<lambda>k. get_or [] q k = []) [''follow'', ''tail'', ''since'', ''until'', ''timestamps'']"

lemma whole_log_options:
  assumes "whole_log q"
  shows "unfiltered (log_options_of (log_query unix q))" "\<not> lr_Follow (log_query unix q)"
  using assms
  by (simp_all add: whole_log_def unfiltered_def log_options_of_def log_query_def boolQuery_def tailQuery_def
      timeQuery_def)

definition stream_of_log :: "string \<Rightarrow> (string \<times> string) list \<Rightarrow> string" where
  "stream_of_log stream ws = concat (map (with_newline \<circ> snd) (filter (\<lambda>w. fst w = stream) ws))"

lemma stream_logs_recorded:
  assumes "inj (ge_code ge)" and "wf_clock clock" and "streams_ok ws" and "whole_log q"
    and "resolveContainer env i s = Inr c" and "get_or [] (c_Labels item) LabelTTY \<noteq> ''true''"
    and "fs_stat (ge_fs ge) (logPath (fs_dir (ge_fs ge)) (c_ID c))"
    and "fs_polls (ge_fs ge) (logPath (fs_dir (ge_fs ge)) (c_ID c)) = [read_poll (fst (record_output clock ws ([], 0)))]"
  shows "\<exists>body. stream_logs ge env i (log_query unix q) item s = LogStream (ge_mux ge) body True
    \<and> client_texts (ge_code ge) body
      = ((if boolQuery q ''stdout'' True then stream_of_log LogStreamStdout ws else [],
          if boolQuery q ''stderr'' True then stream_of_log LogStreamStderr ws else []), None)"
proof -
  let ?path = "logPath (fs_dir (ge_fs ge)) (c_ID c)" and ?o = "log_options_of (log_query unix q)"
  let ?so = "boolQuery q ''stdout'' True" and ?se = "boolQuery q ''stderr'' True"
  note opts = whole_log_options [OF assms(4), of unix]
  have "\<not> lo_Follow ?o" using opts(2) by (simp add: log_options_of_def)
  from read_recorded [OF assms(2,3) opts(1) this, of ?path] obtain st where
    "ReadLogs log_out log_err ?path ?o [read_poll (fst (record_output clock ws ([], 0)))] init_read_state ([], [])
      = ((stream_of_log LogStreamStdout ws, stream_of_log LogStreamStderr ws), st, Some None)"
    by (auto simp: stream_of_log_def)
  from framed_logs [OF this, of ?so "ge_code ge" ?se] obtain es where
    es: "ReadLogs (if \<not> ?so then discard_sink else framed_sink (ge_code ge) Stdout)
        (if \<not> ?se then discard_sink else framed_sink (ge_code ge) Stderr) ?path ?o
        [read_poll (fst (record_output clock ws ([], 0)))] init_read_state [] = (mux (ge_code ge) (selected ?so ?se es), st, Some None)"
      "stream_texts es = (stream_of_log LogStreamStdout ws, stream_of_log LogStreamStderr ws)"
      "list_all (\<lambda>w. fst w \<noteq> Systemerr) es"
    by blast
  have "lr_Stdout (log_query unix q) = ?so" "lr_Stderr (log_query unix q) = ?se" by (simp_all add: log_query_def)
  then have "stream_logs ge env i (log_query unix q) item s = LogStream (ge_mux ge) (mux (ge_code ge) (selected ?so ?se es)) True"
    using assms(5-8) es(1) opts(2) by (cases ?so; cases ?se) (simp_all add: stream_logs_def ContainerLogs_def Let_def del: ReadLogs.simps)
  then show ?thesis
    using client_texts_mux [OF assms(1) list_all_selected [OF es(3)], of ?so ?se] es(2) by (simp add: selected_texts)
qed

text \<open>
  C12: a container's output travels to the client unchanged: when the streams of a container
  without a terminal were recorded by the log writer, the log request answers with a multiplexed
  stream, and a client that demultiplexes the body gets back, on each stream it asked for, the
  concatenation of the payloads written to it (a payload without a final newline has got one), and
  nothing on a stream it did not ask for. No slot of the stream limiter is taken.
\<close>

theorem logs_end_to_end:
  assumes "inj (ge_code ge)" and "wf_clock clock" and "streams_ok ws" and "whole_log q"
    and "ContainerInspect env (pathParameter path ''/containers/'' ''/logs'') s = (s1, Inr item)"
    and "resolveContainer env (pathParameter path ''/containers/'' ''/logs'') s1 = Inr c"
    and "get_or [] (c_Labels item) LabelTTY \<noteq> ''true''"
    and "fs_stat (ge_fs ge) (logPath (fs_dir (ge_fs ge)) (c_ID c))"
    and "fs_polls (ge_fs ge) (logPath (fs_dir (ge_fs ge)) (c_ID c)) = [read_poll (fst (record_output clock ws ([], 0)))]"
  shows "\<exists>body. containerLogs ge env ctx_err choice path q l s = Some (l, s1, LogStream (ge_mux ge) body True)
    \<and> client_texts (ge_code ge) body
      = ((if boolQuery q ''stdout'' True then stream_of_log LogStreamStdout ws else [],
          if boolQuery q ''stderr'' True then stream_of_log LogStreamStderr ws else []), None)"
  using stream_logs_recorded [OF assms(1-4,6-9), of "ge_unix ge"] whole_log_options(2) [OF assms(4), of "ge_unix ge"] assms(5)
  by (simp add: containerLogs_def)

text \<open>A file system with one log, in which a container wrote on both streams.\<close>

definition sample_writes :: "(string \<times> string) list" where
  "sample_writes = [(''stdout'', ''hi'' @ [NL]), (''stderr'', ''warn''), (''stdout'', ''a b'' @ [NL])]"

definition sample_logs_env :: logs_env where
  "sample_logs_env = \<lparr>ge_code = sample_code, ge_raw = ''raw'', ge_mux = ''multiplexed'', ge_unix = (\<lambda>v. None),
     ge_fs = \<lparr>fs_dir = ''/run/logs'', fs_stat = (\<lambda>p. True),
       fs_polls = (\<lambda>p. [read_poll (fst (record_output sample_clock sample_writes ([], 0)))]), fs_ticks = (\<lambda>n. ([], []))\<rparr>\<rparr>"

definition sample_logs_item :: container where
  "sample_logs_item = projr (snd (ContainerInspect (sample_service_env ContainerStateRunning) ''web'' (sample_after_create, 8)))"

definition sample_logs_state :: "nat svc" where
  "sample_logs_state = fst (ContainerInspect (sample_service_env ContainerStateRunning) ''web'' (sample_after_create, 8))"

lemma sample_logs_inspect:
  "ContainerInspect (sample_service_env ContainerStateRunning) ''web'' (sample_after_create, 8) = (sample_logs_state, Inr sample_logs_item)"
  "resolveContainer (sample_service_env ContainerStateRunning) ''web'' sample_logs_state = Inr sample_logs_item"
  "get_or [] (c_Labels sample_logs_item) LabelTTY \<noteq> ''true''"
  by code_simp+

theorem logs_end_to_end_witness:
  "\<exists>body. containerLogs sample_logs_env (sample_service_env ContainerStateRunning) None True ''/v1.44/containers/web/logs''
      [(''stdout'', ''1'')] None (sample_after_create, 8) = Some (None, sample_logs_state, LogStream ''multiplexed'' body True)
    \<and> client_texts sample_code body = ((''hi'' @ [NL] @ ''a b'' @ [NL], ''warn'' @ [NL]), None)"
proof -
  have p: "pathParameter ''/v1.44/containers/web/logs'' ''/containers/'' ''/logs'' = ''web''" by code_simp
  have w: "streams_ok sample_writes" "whole_log [(''stdout'', ''1'')]" by code_simp+
  have t: "boolQuery [(''stdout'', ''1'')] ''stdout'' True" "boolQuery [(''stdout'', ''1'')] ''stderr'' True"
    "stream_of_log ''stdout'' sample_writes = ''hi'' @ [NL] @ ''a b'' @ [NL]" "stream_of_log ''stderr'' sample_writes = ''warn'' @ [NL]"
    by code_simp+
  show ?thesis
    using logs_end_to_end [where ge = sample_logs_env and path = "''/v1.44/containers/web/logs''", OF _ wf_sample_clock w, unfolded p, OF _ sample_logs_inspect] t
    by (simp add: sample_logs_env_def inj_sample_code)
qed

section \<open>Following ends with the container\<close>

definition live_answer :: "watch_tick \<Rightarrow> bool" where
  "live_answer t = (case snd t of Inl e \<Rightarrow> False | Inr state \<Rightarrow> state = ContainerStateRunning \<or> state = ContainerStateCreated)"

definition ended_answer :: "watch_tick \<Rightarrow> bool" where
  "ended_answer t = (case snd t of Inl e \<Rightarrow> \<not> fst t | Inr state \<Rightarrow> state \<noteq> ContainerStateRunning \<and> state \<noteq> ContainerStateCreated)"

text \<open>The answers the watcher has got before iteration \<open>n\<close> begins.\<close>

definition ticks_before :: "watch_ticks \<Rightarrow> nat \<Rightarrow> watch_tick list" where
  "ticks_before ticks n = concat (map (\<lambda>i. fst (ticks i) @ snd (ticks i)) [0..<n]) @ fst (ticks n)"

lemma watch_live: "list_all live_answer ts \<Longrightarrow> cancelFollowWhenExited (ts @ us) = cancelFollowWhenExited us"
  by (induction ts rule: cancelFollowWhenExited.induct) (auto simp: live_answer_def)

lemma watch_ends: "list_all live_answer ts \<Longrightarrow> ended_answer t \<Longrightarrow> cancelFollowWhenExited (ts @ t # us) = CancelsFollow"
  by (cases t; cases "snd t") (auto simp: watch_live ended_answer_def)

lemma watched_polls_live:
  assumes "list_all live_answer seen" and "\<And>i. list_all live_answer (fst (ticks i) @ snd (ticks i))"
  shows "watched_polls ticks n seen ps = ps"
  using assms(1)
proof (induction ps arbitrary: n seen)
  case (Cons p ps)
  have "cancelFollowWhenExited ts \<noteq> CancelsFollow" if "list_all live_answer ts" for ts
    using watch_live [OF that, of "[]"] by simp
  then show ?case
    using Cons assms(2) [of n] by (simp add: Let_def)
qed simp

lemma watched_polls_done:
  assumes "k < length ps"
    and "cancelFollowWhenExited (seen @ concat (map (\<lambda>i. fst (ticks i) @ snd (ticks i)) [n..<n + k]) @ fst (ticks (n + k))) = CancelsFollow"
  shows "lp_done (watched_polls ticks n seen ps ! k)"
  using assms
proof (induction ps arbitrary: n seen k)
  case (Cons p ps)
  show ?case
  proof (cases k)
    case 0
    then show ?thesis using Cons.prems by (simp add: Let_def)
  next
    case (Suc m)
    then have "[n..<n + k] = n # [Suc n..<Suc n + m]" by (simp add: upt_conv_Cons)
    then show ?thesis using Cons.IH [of m "seen @ fst (ticks n) @ snd (ticks n)" "Suc n"] Cons.prems Suc by (simp add: Let_def)
  qed
qed simp

lemma length_watched_polls [simp]: "length (watched_polls ticks n seen ps) = length ps"
  by (induction ps arbitrary: n seen) (simp_all add: Let_def)

lemma ReadLogs_returns:
  assumes "\<exists>p \<in> set ps. lp_done p"
  shows "snd (snd (ReadLogs wo we path opts ps st s)) \<noteq> None"
  using assms
  by (induction ps arbitrary: st s) (auto simp: readLogsOnce_def split: prod.split)

lemma ContainerLogs_ends:
  assumes "resolveContainer env i s = Inr c" and "lr_Follow q"
    and "n < length (fs_polls fs (logPath (fs_dir fs) (c_ID c)))"
    and "ticks_before (fs_ticks fs) n = ts @ t # us" and "list_all live_answer ts" and "ended_answer t"
  shows "snd (ContainerLogs env fs i q so se s b) \<noteq> None"
proof -
  let ?ps = "fs_polls fs (logPath (fs_dir fs) (c_ID c))"
  have "lp_done (watched_polls (fs_ticks fs) 0 [] ?ps ! n)"
    using watched_polls_done [of n ?ps "[]" "fs_ticks fs" 0] assms(3) watch_ends [OF assms(5,6), of us] assms(4)
    by (simp add: ticks_before_def)
  then have "\<exists>p \<in> set (watched_polls (fs_ticks fs) 0 [] ?ps). lp_done p"
    using assms(3) by (metis length_watched_polls nth_mem)
  then show ?thesis
    using assms(1,2) by (simp add: ContainerLogs_def Let_def case_prod_beta ReadLogs_returns del: not_None_eq)
qed

lemma stream_logs_ends:
  assumes "resolveContainer env i s = Inr c" and "lr_Follow q"
    and "n < length (fs_polls (ge_fs ge) (logPath (fs_dir (ge_fs ge)) (c_ID c)))"
    and "ticks_before (fs_ticks (ge_fs ge)) n = ts @ t # us" and "list_all live_answer ts" and "ended_answer t"
  shows "\<exists>contentType body. stream_logs ge env i q item s = LogStream contentType body True"
  by (simp add: stream_logs_def Let_def case_prod_beta ContainerLogs_ends [OF assms] del: not_None_eq)

lemma ContainerLogs_live:
  assumes "\<And>k. list_all live_answer (fst (fs_ticks fs k) @ snd (fs_ticks fs k))"
  shows "ContainerLogs env (fs\<lparr>fs_ticks := (\<lambda>k. ([], []))\<rparr>) i q so se s b = ContainerLogs env fs i q so se s b"
proof -
  have "watched_polls (fs_ticks fs) 0 [] ps = ps" "watched_polls (\<lambda>k. ([], [])) 0 [] ps = ps" for ps
    using assms by (simp_all add: watched_polls_live)
  then show ?thesis by (cases "resolveContainer env i s") (simp_all add: ContainerLogs_def Let_def)
qed

text \<open>
  C19: following the log of a container ends when the container does. Whatever happens to the log
  file, once the runtime has answered the watcher that the container no longer runs (or cannot
  answer while the client is connected), having reported it alive before, the follow request ends by
  the next iteration of the reader, and the slot it took is free again. While the runtime reports the
  container alive the watcher changes nothing the client sees.
\<close>

theorem follow_ends_with_container:
  assumes "ContainerInspect env (pathParameter path ''/containers/'' ''/logs'') s = (s1, Inr item)"
    and "resolveContainer env (pathParameter path ''/containers/'' ''/logs'') s1 = Inr c"
    and "lr_Follow (log_query (ge_unix ge) q)" and "limiter_ok l" and "acquire None choice l = Some (l1, None)"
  shows "(\<forall>n ts t us. n < length (fs_polls (ge_fs ge) (logPath (fs_dir (ge_fs ge)) (c_ID c)))
        \<and> ticks_before (fs_ticks (ge_fs ge)) n = ts @ t # us \<and> list_all live_answer ts \<and> ended_answer t
      \<longrightarrow> (\<exists>contentType body. containerLogs ge env None choice path q l s = Some (l, s1, LogStream contentType body True)))
    \<and> ((\<forall>k. list_all live_answer (fst (fs_ticks (ge_fs ge) k) @ snd (fs_ticks (ge_fs ge) k)))
      \<longrightarrow> containerLogs (ge\<lparr>ge_fs := (ge_fs ge)\<lparr>fs_ticks := (\<lambda>k. ([], []))\<rparr>\<rparr>) env None choice path q l s
        = containerLogs ge env None choice path q l s)"
proof (intro conjI allI impI)
  fix n ts t us
  assume h: "n < length (fs_polls (ge_fs ge) (logPath (fs_dir (ge_fs ge)) (c_ID c)))
    \<and> ticks_before (fs_ticks (ge_fs ge)) n = ts @ t # us \<and> list_all live_answer ts \<and> ended_answer t"
  have "release l1 = l" using acquire_ok [OF assms(4,5)] by simp
  moreover have "\<exists>contentType body. stream_logs ge env (pathParameter path ''/containers/'' ''/logs'') (log_query (ge_unix ge) q) item s1
      = LogStream contentType body True"
    using h by (intro stream_logs_ends [OF assms(2,3)]) blast+
  ultimately show "\<exists>contentType body. containerLogs ge env None choice path q l s = Some (l, s1, LogStream contentType body True)"
    using assms(1,3,5) by (auto simp: containerLogs_def log_ended_def)
next
  assume "\<forall>k. list_all live_answer (fst (fs_ticks (ge_fs ge) k) @ snd (fs_ticks (ge_fs ge) k))"
  then have "stream_logs (ge\<lparr>ge_fs := (ge_fs ge)\<lparr>fs_ticks := (\<lambda>k. ([], []))\<rparr>\<rparr>) env = stream_logs ge env"
    by (intro ext) (simp add: stream_logs_def Let_def ContainerLogs_live)
  then show "containerLogs (ge\<lparr>ge_fs := (ge_fs ge)\<lparr>fs_ticks := (\<lambda>k. ([], []))\<rparr>\<rparr>) env None choice path q l s
      = containerLogs ge env None choice path q l s"
    using assms(1,5) by (simp add: containerLogs_def Let_def)
qed

text \<open>The container is reported as running, then as exited, while the log is polled three times.\<close>

definition sample_follow_env :: logs_env where
  "sample_follow_env = sample_logs_env\<lparr>ge_fs := (ge_fs sample_logs_env)\<lparr>fs_polls := (\<lambda>p. replicate 3 (follow_poll 1 [])),
     fs_ticks := (\<lambda>n. if n = 0 then ([(False, Inr ContainerStateRunning)], []) else ([(False, Inr ContainerStateExited)], []))\<rparr>\<rparr>"

theorem follow_ends_with_container_witness:
  "\<exists>contentType body. containerLogs sample_follow_env (sample_service_env ContainerStateRunning) None True ''/v1.44/containers/web/logs''
      [(''follow'', ''1'')] (Some (newStreamLimiter 1)) (sample_after_create, 8)
    = Some (Some (newStreamLimiter 1), sample_logs_state, LogStream contentType body True)"
proof -
  have p: "pathParameter ''/v1.44/containers/web/logs'' ''/containers/'' ''/logs'' = ''web''" by code_simp
  have "boolQuery [(''follow'', ''1'')] ''follow'' False" by code_simp
  then have f: "lr_Follow (log_query (ge_unix sample_follow_env) [(''follow'', ''1'')])" by (simp add: log_query_def)
  have l: "limiter_ok (Some (newStreamLimiter 1))"
    "acquire None True (Some (newStreamLimiter 1)) = Some (Some ((newStreamLimiter 1)\<lparr>sl_used := 1\<rparr>), None)" by code_simp+
  have t: "ticks_before (fs_ticks (ge_fs sample_follow_env)) 1 = [(False, Inr ContainerStateRunning)] @ (False, Inr ContainerStateExited) # []"
    "list_all live_answer [(False, Inr ContainerStateRunning)]" "ended_answer (False, Inr ContainerStateExited)"
    "1 < length (fs_polls (ge_fs sample_follow_env) x)" for x
    by (simp_all add: ticks_before_def sample_follow_env_def live_answer_def ended_answer_def)
  show ?thesis
    using follow_ends_with_container [where path = "''/v1.44/containers/web/logs''" and ge = sample_follow_env, unfolded p,
        OF sample_logs_inspect(1,2) f l, THEN conjunct1, rule_format, OF conjI [OF t(4) conjI [OF t(1) conjI [OF t(2,3)]]]] .
qed

end
