(* ===== verification/Hijack.thy ===== *)
theory Hijack
  imports Api_Router
begin

text \<open>
  \<^verbatim>\<open>internal/streams/hijack.go\<close>: taking over the connection of a request and answering the
  upgrade. A response writer is its chain of wrappers; the connection is a value of the type
  \<open>'c\<close>, writing to it a parameter. The two media types are constants of the Docker API module.
\<close>

datatype 'c response_writer =
    Hijackable "gerror + 'c"
  | Unwrapping "'c response_writer option"
  | UnwrappingSelf
  | Opaque

fun stream_Hijack :: "'c response_writer \<Rightarrow> gerror + 'c" where
  "stream_Hijack (Hijackable r) = r"
| "stream_Hijack (Unwrapping (Some w)) = stream_Hijack w"
| "stream_Hijack (Unwrapping None) = Inl (Sentinel (Streams ErrNotHijackable))"
| "stream_Hijack UnwrappingSelf = Inl (Sentinel (Streams ErrNotHijackable))"
| "stream_Hijack Opaque = Inl (Sentinel (Streams ErrNotHijackable))"

definition stream_parseAPIVersion :: "string \<Rightarrow> (int \<times> int) option" where
  "stream_parseAPIVersion version = (case CutByte CHR ''.'' (TrimPrefix version ''v'') of
     None \<Rightarrow> None
   | Some (major, minor) \<Rightarrow> (case (Atoi major, Atoi minor) of
       (Some a, Some b) \<Rightarrow> Some (a, b) | _ \<Rightarrow> None))"

definition apiVersionAtLeast :: "string \<Rightarrow> string \<Rightarrow> bool" where
  "apiVersionAtLeast version minimum =
    (if TrimSpace version = [] then True
     else case stream_parseAPIVersion version of
       None \<Rightarrow> False
     | Some (a, b) \<Rightarrow> (case (case stream_parseAPIVersion minimum of Some f \<Rightarrow> f | None \<Rightarrow> (0, 0)) of
         (c, d) \<Rightarrow> a > c \<or> a = c \<and> b \<ge> d))"

definition crlf :: string where
  "crlf = [CHR 0x0D, CHR 0x0A]"

definition upgrade_response :: "string \<Rightarrow> string \<Rightarrow> bool \<Rightarrow> bool \<Rightarrow> string \<Rightarrow> string" where
  "upgrade_response raw mux upgrade_header multiplexed apiVersion =
    (let contentType = (if multiplexed \<and> apiVersionAtLeast apiVersion ''1.42'' then mux else raw) in
     if upgrade_header then ''HTTP/1.1 101 UPGRADED'' @ crlf @ ''Content-Type: '' @ contentType @ crlf
       @ ''Connection: Upgrade'' @ crlf @ ''Upgrade: tcp'' @ crlf @ crlf
     else ''HTTP/1.1 200 OK'' @ crlf @ ''Content-Type: '' @ raw @ crlf @ crlf)"

text \<open>\<open>write\<close> is the write to the connection; the result carries what was written to it.\<close>

definition Upgrade :: "string \<Rightarrow> string \<Rightarrow> ('c \<Rightarrow> string \<Rightarrow> gerror option) \<Rightarrow> 'c response_writer \<Rightarrow> bool \<Rightarrow> bool \<Rightarrow> string
    \<Rightarrow> gerror + ('c \<times> string)" where
  "Upgrade raw mux write w upgrade_header multiplexed apiVersion = (case stream_Hijack w of
     Inl e \<Rightarrow> Inl e
   | Inr conn \<Rightarrow> let response = upgrade_response raw mux upgrade_header multiplexed apiVersion in
      (case write conn response of
         Some e \<Rightarrow> Inl (wrap_pre ''streams: writing upgrade response: '' e)
       | None \<Rightarrow> Inr (conn, response)))"

section \<open>The chain of wrappers\<close>

text \<open>The observability middleware's recorder and any other wrapper around a hijackable writer.\<close>

fun wrapped :: "nat \<Rightarrow> 'c response_writer \<Rightarrow> 'c response_writer" where
  "wrapped 0 w = w"
| "wrapped (Suc n) w = Unwrapping (Some (wrapped n w))"

lemma Hijack_wrapped: "stream_Hijack (wrapped n w) = stream_Hijack w"
  by (induction n) simp_all

section \<open>Agreement with the version gate\<close>

text \<open>
  The stream package compares versions with a parser of its own. On the versions the gate of the
  router lets through the two agree: frames are announced exactly from version 1.42 on.
\<close>

lemma stream_parse_version_text:
  assumes "major < 2 ^ 63" and "minor < 2 ^ 63"
  shows "stream_parseAPIVersion (version_text major minor) = Some (int major, int minor)"
proof -
  have dot: "CHR ''.'' \<notin> set (dec_digits n)" for n using dec_digits_dot by blast
  have "is_digit (hd (dec_digits major))"
    using dec_digits_all_digits [of major] hd_in_set [OF dec_digits_nonempty [of major]] by (simp add: list_all_iff)
  then have "hd (dec_digits major) \<noteq> CHR ''v''" by (auto simp: is_digit_def less_eq_char_def)
  then have "TrimPrefix (version_text major minor) ''v'' = version_text major minor"
    by (cases "dec_digits major") (auto simp: version_text_def TrimPrefix_def)
  moreover have "CutByte CHR ''.'' (version_text major minor) = Some (dec_digits major, dec_digits minor)"
    using dot by (simp add: version_text_def)
  moreover have "Atoi (dec_digits n) = Some (int n)" if "n < 2 ^ 63" for n
    using Atoi_Itoa [of "int n"] that by (simp add: Itoa_def)
  ultimately show ?thesis using assms by (simp add: stream_parseAPIVersion_def)
qed


lemma version_text_not_blank: "TrimSpace (version_text major minor) \<noteq> []"
proof -
  have "hd (version_text major minor) = hd (dec_digits major)" "last (version_text major minor) = last (dec_digits minor)"
    by (simp_all add: version_text_def)
  moreover have "is_digit (hd (dec_digits major))" "is_digit (last (dec_digits minor))"
    using dec_digits_all_digits [of major] dec_digits_all_digits [of minor] by (simp_all add: list_all_iff)
  moreover have "\<not> is_digit c" if "c \<in> space_head_bytes \<union> space_last_bytes" for c
    using that by (auto simp: space_head_bytes_def space_last_bytes_def space_runes_def is_digit_def less_eq_char_def)
  ultimately have "TrimSpace (version_text major minor) = version_text major minor"
    by (intro TrimSpace_id disjI2) (auto dest: sym)
  then show ?thesis by (simp add: version_text_def)
qed

lemma apiVersionAtLeast_gate:
  assumes "major < 2 ^ 63" and "minor < 2 ^ 63"
  shows "apiVersionAtLeast (version_text major minor) ''1.42''
    \<longleftrightarrow> (\<exists>c\<ge>0. compareAPIVersions (version_text major minor) ''1.42'' = Inr c)"
proof -
  have "stream_parseAPIVersion ''1.42'' = Some (1, 42)" "parseAPIVersion ''1.42'' = Inr [1, 42]" by code_simp+
  then show ?thesis
    using stream_parse_version_text [OF assms] compare_text [OF assms, of "''1.42''" 1 42] version_text_not_blank [of major minor]
    by (auto simp: apiVersionAtLeast_def)
qed

end
