(* ===== verification/Go_Json.thy ===== *)
theory Go_Json
  imports Go_Strings
begin

text \<open>
  The part of Go's \<^verbatim>\<open>encoding/json\<close> the terminal resize messages use: scanning the first JSON
  value of a buffer, which reports how far it reached, and storing an object into a struct of
  unsigned fields. A scan ends with a value and the rest of the input, at the end of the input in
  the middle of a value, or at a byte no value has there. \<open>NoFuel\<close> is the result of a bound on the
  recursion that is too small, which \<open>parse_fuel\<close> excludes.
\<close>

datatype json = JNull | JBool bool | JNum string | JStr string | JArr "json list" | JObj "(string \<times> json) list"

datatype 'a scan = Scanned 'a string | ScanEnd | ScanBad | NoFuel

definition json_space :: "char \<Rightarrow> bool" where
  "json_space c \<longleftrightarrow> c \<in> {CHR '' '', CHR 0x09, CHR 0x0D, CHR 0x0A}"

definition skip_ws :: "string \<Rightarrow> string" where
  "skip_ws s = dropWhile json_space s"

definition hex_char :: "char \<Rightarrow> bool" where
  "hex_char c \<longleftrightarrow> is_digit c \<or> (CHR ''a'' \<le> c \<and> c \<le> CHR ''f'') \<or> (CHR ''A'' \<le> c \<and> c \<le> CHR ''F'')"

section \<open>Strings and numbers\<close>

text \<open>The bytes of a string up to its closing quote, escapes included.\<close>

fun scan_str :: "string \<Rightarrow> string \<Rightarrow> string scan" where
  "scan_str acc [] = ScanEnd"
| "scan_str acc (c # cs) =
    (if c = CHR 0x22 then Scanned (rev acc) cs
     else if c = CHR 0x5C then
       (case cs of [] \<Rightarrow> ScanEnd
        | e # es \<Rightarrow>
           if e \<in> {CHR ''b'', CHR ''f'', CHR ''n'', CHR ''r'', CHR ''t'', CHR 0x5C, CHR ''/'', CHR 0x22} then scan_str (e # c # acc) es
           else if e = CHR ''u'' then
             (case es of h1 # h2 # h3 # h4 # r \<Rightarrow>
                if list_all hex_char [h1, h2, h3, h4] then scan_str (h4 # h3 # h2 # h1 # e # c # acc) r else ScanBad
              | _ \<Rightarrow> if list_all hex_char es then ScanEnd else ScanBad)
           else ScanBad)
     else if of_char c < (32::nat) then ScanBad
     else scan_str (c # acc) cs)"

definition scan_exp :: "string \<Rightarrow> string \<Rightarrow> string scan" where
  "scan_exp acc s = (case s of
     c # r \<Rightarrow> if c \<in> {CHR ''e'', CHR ''E''} then
         (let (sg, r1) = (case r of d # r' \<Rightarrow> if d \<in> {CHR ''+'', CHR ''-''} then ([d], r') else ([], r) | [] \<Rightarrow> ([], []))
          in case r1 of [] \<Rightarrow> ScanEnd
             | d # _ \<Rightarrow> if is_digit d then Scanned (acc @ [c] @ sg @ takeWhile is_digit r1) (dropWhile is_digit r1) else ScanBad)
       else Scanned acc s
   | [] \<Rightarrow> Scanned acc s)"

definition scan_frac :: "string \<Rightarrow> string \<Rightarrow> string scan" where
  "scan_frac acc s = (case s of
     c # r \<Rightarrow> if c = CHR ''.'' then
         (case r of [] \<Rightarrow> ScanEnd
          | d # _ \<Rightarrow> if is_digit d then scan_exp (acc @ [c] @ takeWhile is_digit r) (dropWhile is_digit r) else ScanBad)
       else scan_exp acc s
   | [] \<Rightarrow> Scanned acc s)"

definition scan_num :: "string \<Rightarrow> string scan" where
  "scan_num s = (let (sg, s1) = (case s of c # r \<Rightarrow> if c = CHR ''-'' then ([c], r) else ([], s) | [] \<Rightarrow> ([], [])) in
     case s1 of [] \<Rightarrow> ScanEnd
     | c # r \<Rightarrow> if c = CHR ''0'' then scan_frac (sg @ [c]) r
         else if is_digit c then scan_frac (sg @ takeWhile is_digit s1) (dropWhile is_digit s1)
         else ScanBad)"

definition scan_lit :: "string \<Rightarrow> json \<Rightarrow> string \<Rightarrow> json scan" where
  "scan_lit lit v s = (if prefix lit s then Scanned v (drop (length lit) s) else if prefix s lit then ScanEnd else ScanBad)"

section \<open>Values\<close>

definition maxNestingDepth :: nat where "maxNestingDepth = 10000"

fun parse_value :: "nat \<Rightarrow> nat \<Rightarrow> string \<Rightarrow> json scan"
  and parse_members :: "nat \<Rightarrow> nat \<Rightarrow> string \<Rightarrow> (string \<times> json) list \<Rightarrow> json scan"
  and parse_elems :: "nat \<Rightarrow> nat \<Rightarrow> string \<Rightarrow> json list \<Rightarrow> json scan" where
  "parse_value 0 d s = NoFuel"
| "parse_value (Suc n) d s = (case skip_ws s of
     [] \<Rightarrow> ScanEnd
   | c # r \<Rightarrow>
      if c = CHR ''{'' then
        (if d \<ge> maxNestingDepth then ScanBad
         else case skip_ws r of [] \<Rightarrow> ScanEnd
           | c' # r' \<Rightarrow> if c' = CHR ''}'' then Scanned (JObj []) r' else parse_members n (Suc d) r [])
      else if c = CHR ''['' then
        (if d \<ge> maxNestingDepth then ScanBad
         else case skip_ws r of [] \<Rightarrow> ScanEnd
           | c' # r' \<Rightarrow> if c' = CHR '']'' then Scanned (JArr []) r' else parse_elems n (Suc d) r [])
      else if c = CHR 0x22 then map_scan JStr (scan_str [] r)
      else if c = CHR ''-'' \<or> is_digit c then map_scan JNum (scan_num (c # r))
      else if c = CHR ''t'' then scan_lit ''true'' (JBool True) (c # r)
      else if c = CHR ''f'' then scan_lit ''false'' (JBool False) (c # r)
      else if c = CHR ''n'' then scan_lit ''null'' JNull (c # r)
      else ScanBad)"
| "parse_members 0 d s acc = NoFuel"
| "parse_members (Suc n) d s acc = (case skip_ws s of
     [] \<Rightarrow> ScanEnd
   | c # r \<Rightarrow>
      if c \<noteq> CHR 0x22 then ScanBad
      else case scan_str [] r of
        Scanned k r1 \<Rightarrow> (case skip_ws r1 of
          [] \<Rightarrow> ScanEnd
        | c2 # r2 \<Rightarrow>
           if c2 \<noteq> CHR '':'' then ScanBad
           else case parse_value n d r2 of
             Scanned v r3 \<Rightarrow> (case skip_ws r3 of
               [] \<Rightarrow> ScanEnd
             | c4 # r4 \<Rightarrow> if c4 = CHR '','' then parse_members n d r4 (acc @ [(k, v)])
                 else if c4 = CHR ''}'' then Scanned (JObj (acc @ [(k, v)])) r4 else ScanBad)
           | ScanEnd \<Rightarrow> ScanEnd | ScanBad \<Rightarrow> ScanBad | NoFuel \<Rightarrow> NoFuel)
      | ScanEnd \<Rightarrow> ScanEnd | ScanBad \<Rightarrow> ScanBad | NoFuel \<Rightarrow> NoFuel)"
| "parse_elems 0 d s acc = NoFuel"
| "parse_elems (Suc n) d s acc = (case parse_value n d s of
     Scanned v r3 \<Rightarrow> (case skip_ws r3 of
       [] \<Rightarrow> ScanEnd
     | c4 # r4 \<Rightarrow> if c4 = CHR '','' then parse_elems n d r4 (acc @ [v])
         else if c4 = CHR '']'' then Scanned (JArr (acc @ [v])) r4 else ScanBad)
   | ScanEnd \<Rightarrow> ScanEnd | ScanBad \<Rightarrow> ScanBad | NoFuel \<Rightarrow> NoFuel)"

text \<open>The first value of a buffer: every call consumes a byte before the next, so this fuel is enough.\<close>

definition scan_value :: "string \<Rightarrow> json scan" where
  "scan_value s = parse_value (2 * length s + 2) 0 s"

section \<open>Keys\<close>

definition hex_digit_val :: "char \<Rightarrow> nat" where
  "hex_digit_val c = (if is_digit c then of_char c - 48 else if CHR ''a'' \<le> c then of_char c - 87 else of_char c - 55)"

definition hex4 :: "string \<Rightarrow> nat" where
  "hex4 hs = foldl (\<lambda>n c. 16 * n + hex_digit_val c) 0 hs"

definition utf8 :: "nat \<Rightarrow> string" where
  "utf8 n = map char_of
    (if n < 0x80 then [n]
     else if n < 0x800 then [0xC0 + n div 64, 0x80 + n mod 64]
     else if n < 0x10000 then [0xE0 + n div 4096, 0x80 + n div 64 mod 64, 0x80 + n mod 64]
     else [0xF0 + n div 262144, 0x80 + n div 4096 mod 64, 0x80 + n div 64 mod 64, 0x80 + n mod 64])"

definition unescape :: "char \<Rightarrow> char" where
  "unescape e = (if e = CHR ''b'' then CHR 0x08 else if e = CHR ''f'' then CHR 0x0C else if e = CHR ''n'' then CHR 0x0A
     else if e = CHR ''r'' then CHR 0x0D else if e = CHR ''t'' then CHR 0x09 else e)"

text \<open>
  The text of a scanned string. A surrogate that is not followed by its other half is the
  replacement character; ill-formed UTF-8, which Go replaces too, is left as it is.
\<close>

function unquote :: "string \<Rightarrow> string" where
  "unquote s = (case s of [] \<Rightarrow> []
     | c # r \<Rightarrow> if c \<noteq> CHR 0x5C then c # unquote r
         else case r of [] \<Rightarrow> []
           | e # es \<Rightarrow> if e \<noteq> CHR ''u'' then unescape e # unquote es
               else let u = hex4 (take 4 es); t = drop 4 es in
                 if 0xD800 \<le> u \<and> u < 0xE000 then
                   (let u2 = hex4 (take 4 (drop 2 t)) in
                    if take 2 t = [CHR 0x5C, CHR ''u''] \<and> u < 0xDC00 \<and> 0xDC00 \<le> u2 \<and> u2 < 0xE000
                    then utf8 (0x10000 + (u - 0xD800) * 1024 + (u2 - 0xDC00)) @ unquote (drop 6 t)
                    else utf8 0xFFFD @ unquote t)
                 else utf8 u @ unquote t)"
  by pat_completeness auto
termination
  by (relation "measure length") auto

declare unquote.simps [simp del]

section \<open>Storing into a struct of unsigned fields\<close>

text \<open>
  The field of a name, by its exact name or else ignoring case; for names of ASCII letters other
  than \<^verbatim>\<open>k\<close> and \<^verbatim>\<open>s\<close> case folding is ASCII. A number that is no unsigned 64-bit integer and
  a value of another kind are errors that are reported after the rest has been stored; null leaves
  the field alone.
\<close>

definition field_of :: "string list \<Rightarrow> string \<Rightarrow> string option" where
  "field_of names key = (let k = unquote key in
     if k \<in> set names then Some k else find (\<lambda>nm. map lower_ascii nm = map lower_ascii k) names)"

fun store_uint :: "string list \<Rightarrow> (string \<times> json) list \<Rightarrow> (string \<Rightarrow> nat) \<Rightarrow> bool \<Rightarrow> (string \<Rightarrow> nat) \<times> bool" where
  "store_uint names [] m bad = (m, bad)"
| "store_uint names ((k, v) # ms) m bad = (case field_of names k of
     None \<Rightarrow> store_uint names ms m bad
   | Some f \<Rightarrow> (case v of
       JNull \<Rightarrow> store_uint names ms m bad
     | JNum t \<Rightarrow> (case ParseUint 64 t of
         Some n \<Rightarrow> store_uint names ms (m(f := n)) bad
       | None \<Rightarrow> store_uint names ms m True)
     | _ \<Rightarrow> store_uint names ms m True))"

section \<open>Every value takes part of the input\<close>

lemma skip_ws_length: "length (skip_ws s) \<le> length s"
  by (simp add: skip_ws_def length_dropWhile_le)

lemma skip_ws_Cons: "skip_ws s = c # r \<Longrightarrow> length r < length s"
  using skip_ws_length [of s] by simp

lemma scan_str_shorter: "scan_str acc s = Scanned k r \<Longrightarrow> length r < length s"
proof (induction "length s" arbitrary: acc s rule: less_induct)
  case less
  have IH: "scan_str acc t = Scanned k r \<Longrightarrow> length t < length s \<Longrightarrow> length r < length t" for acc t
    using less.hyps by blast
  from less.prems show ?case
    by (cases s) (auto split: if_splits list.splits dest!: IH)
qed

lemma scan_exp_length: "scan_exp acc s = Scanned k r \<Longrightarrow> length r \<le> length s"
  by (auto simp: scan_exp_def Let_def split: list.splits if_splits prod.splits intro: le_SucI order.trans [OF length_dropWhile_le])

lemma scan_frac_length: "scan_frac acc s = Scanned k r \<Longrightarrow> length r \<le> length s"
  using length_dropWhile_le [of is_digit "tl s"]
  by (auto simp: scan_frac_def split: list.splits if_splits dest!: scan_exp_length)

lemma scan_num_shorter: "scan_num s = Scanned k r \<Longrightarrow> length r < length s"
  using length_dropWhile_le [of is_digit "tl s"] length_dropWhile_le [of is_digit "tl (tl s)"]
  by (auto simp: scan_num_def split: list.splits if_splits dest!: scan_frac_length)

lemma scan_lit_shorter: "scan_lit lit v s = Scanned w r \<Longrightarrow> lit \<noteq> [] \<Longrightarrow> length r < length s"
  by (auto simp: scan_lit_def prefix_def split: if_splits)

lemma map_scan_Scanned: "map_scan f x = Scanned v r \<longleftrightarrow> (\<exists>a. x = Scanned a r \<and> v = f a)"
  by (cases x) auto

lemma parse_shorter:
  "parse_value n d s = Scanned v r \<Longrightarrow> length r < length s"
  "parse_members n d s acc = Scanned v r \<Longrightarrow> length r < length s"
  "parse_elems n d s acc' = Scanned v r \<Longrightarrow> length r < length s"
proof (induction n d s and n d s acc and n d s acc' arbitrary: v r and v r and v r
    rule: parse_value_parse_members_parse_elems.induct)
  case (2 n d s)
  then show ?case
    by (auto simp: map_scan_Scanned split: list.splits if_splits
        dest!: skip_ws_Cons scan_str_shorter scan_num_shorter scan_lit_shorter) fastforce+
next
  case (4 n d s acc)
  then show ?case
    by (auto split: list.splits if_splits scan.splits dest!: skip_ws_Cons scan_str_shorter) fastforce+
next
  case (6 n d s acc)
  then show ?case
    by (auto split: list.splits if_splits scan.splits dest!: skip_ws_Cons) fastforce+
qed simp_all

lemma scan_no_NoFuel: "scan_str acc s \<noteq> NoFuel" "scan_num s \<noteq> NoFuel" "scan_lit lit v s \<noteq> NoFuel"
proof -
  show "scan_str acc s \<noteq> NoFuel"
    by (induction acc s rule: scan_str.induct) (auto split: if_splits list.splits)
  have e: "scan_exp acc s \<noteq> NoFuel" for acc s by (auto simp: scan_exp_def Let_def split: list.split prod.split)
  then have "scan_frac acc s \<noteq> NoFuel" for acc s by (auto simp: scan_frac_def split: list.split)
  then show "scan_num s \<noteq> NoFuel" by (auto simp: scan_num_def Let_def split: list.split prod.split)
qed (simp add: scan_lit_def)

lemma map_scan_NoFuel [simp]: "map_scan f x = NoFuel \<longleftrightarrow> x = NoFuel"
  by (cases x) auto

lemma parse_fuel:
  "(2 * length s < n \<longrightarrow> parse_value n d s \<noteq> NoFuel)
   \<and> (2 * length s < n \<longrightarrow> parse_members n d s acc \<noteq> NoFuel)
   \<and> (2 * length s + 1 < n \<longrightarrow> parse_elems n d s acc' \<noteq> NoFuel)"
proof (induction n arbitrary: d s acc acc')
  case (Suc n)
  have v: "parse_value n d s = NoFuel \<Longrightarrow> n \<le> 2 * length s"
    and m: "parse_members n d s acc = NoFuel \<Longrightarrow> n \<le> 2 * length s"
    and e: "parse_elems n d s acc' = NoFuel \<Longrightarrow> n \<le> 2 * length s + 1" for d s acc acc'
    using Suc.IH not_less by blast+
  have "parse_value (Suc n) d s \<noteq> NoFuel" if len: "2 * length s < Suc n"
  proof (cases "skip_ws s")
    case (Cons c r)
    with skip_ws_Cons [OF Cons] len
    have "parse_members n (Suc d) r [] \<noteq> NoFuel" "parse_elems n (Suc d) r [] \<noteq> NoFuel"
      using m [of "Suc d" r "[]"] e [of "Suc d" r "[]"] by linarith+
    with Cons show ?thesis by (simp add: scan_no_NoFuel split: list.split)
  qed simp
  moreover have "parse_members (Suc n) d s acc \<noteq> NoFuel" if len: "2 * length s < Suc n"
  proof
    assume "parse_members (Suc n) d s acc = NoFuel"
    then obtain r k r1 r2 where r: "skip_ws s = CHR 0x22 # r" "scan_str [] r = Scanned k r1" "skip_ws r1 = CHR '':'' # r2"
      and "parse_value n d r2 = NoFuel \<or> (\<exists>w r3 r4. parse_value n d r2 = Scanned w r3 \<and> skip_ws r3 = CHR '','' # r4
        \<and> parse_members n d r4 (acc @ [(k, w)]) = NoFuel)"
      by (auto simp: scan_no_NoFuel split: list.splits if_splits scan.splits)
    with skip_ws_Cons [OF r(1)] scan_str_shorter [OF r(2)] skip_ws_Cons [OF r(3)] len show False
      by (auto dest!: v m parse_shorter(1) skip_ws_Cons)
  qed
  moreover have "parse_elems (Suc n) d s acc' \<noteq> NoFuel" if len: "2 * length s + 1 < Suc n"
  proof
    assume "parse_elems (Suc n) d s acc' = NoFuel"
    then have "parse_value n d s = NoFuel \<or> (\<exists>w r3 r4. parse_value n d s = Scanned w r3 \<and> skip_ws r3 = CHR '','' # r4
        \<and> parse_elems n d r4 (acc' @ [w]) = NoFuel)"
      by (auto split: list.splits if_splits scan.splits)
    with len show False by (auto dest!: v e parse_shorter(1) skip_ws_Cons)
  qed
  ultimately show ?case by blast
qed simp

lemma scan_value_total: "scan_value s \<noteq> NoFuel"
  unfolding scan_value_def using parse_fuel [of s "2 * length s + 2"] by simp

end
