(* ===== verification/Api_Exec.thy ===== *)
theory Api_Exec
  imports Api_Logs Hijack Go_Json
begin

text \<open>
  Starting an exec session: the handler \<^verbatim>\<open>execStart\<close> of \<^verbatim>\<open>internal/api/handlers_exec.go\<close>,
  the terminal resize messages that may precede and interrupt its input, and the codec of
  \<^verbatim>\<open>internal/streams/hijack.go\<close>.

  The input of a session is a \<^verbatim>\<open>bufio.Reader\<close>: what is buffered, and what the following reads of
  the connection deliver (the deadline of the peek is one of the errors). After the last of them the
  connection is at its end.
\<close>

section \<open>hijack.go: resize messages\<close>

type_synonym uint = "64 word"

record resize_message =
  rm_Width :: uint
  rm_Height :: uint

definition json_key :: "string \<Rightarrow> string" where
  "json_key k = [CHR 0x22] @ k @ [CHR 0x22]"

definition resize_text :: "uint \<Rightarrow> uint \<Rightarrow> string" where
  "resize_text width height = ''{'' @ json_key ''Width'' @ '':'' @ dec_digits (unat width) @ '','' @ json_key ''Height'' @ '':''
     @ dec_digits (unat height) @ ''}''"

definition EncodeResize :: "uint \<Rightarrow> uint \<Rightarrow> string" where
  "EncodeResize width height = resize_text width height @ [NL]"

text \<open>
  \<^verbatim>\<open>json.Decoder.Decode\<close> into a resize message: the message and the input behind it. The decoder
  knows an input that ends within a value from one that ends before it.
\<close>

definition decode_message :: "string \<Rightarrow> gerror + (resize_message \<times> string)" where
  "decode_message s = (case scan_value s of
     Scanned (JObj ms) r \<Rightarrow> (case store_uint [''Width'', ''Height''] ms (\<lambda>f. 0) False of
       (m, bad) \<Rightarrow> if bad then Inl (NewErr ''json: cannot unmarshal into Go struct field of type uint'')
         else Inr (\<lparr>rm_Width = word_of_nat (m ''Width''), rm_Height = word_of_nat (m ''Height'')\<rparr>, r))
   | Scanned JNull r \<Rightarrow> Inr (\<lparr>rm_Width = 0, rm_Height = 0\<rparr>, r)
   | Scanned _ r \<Rightarrow> Inl (NewErr ''json: cannot unmarshal into Go value of type streams.ResizeMessage'')
   | ScanEnd \<Rightarrow> Inl (if skip_ws s = [] then eof else unexpected_eof)
   | _ \<Rightarrow> Inl (NewErr ''invalid character''))"

definition DecodeResize :: "string \<Rightarrow> gerror + resize_message" where
  "DecodeResize s = (case decode_message s of
     Inl e \<Rightarrow> Inl (wrap_pre ''streams: decoding resize message: '' e) | Inr (m, r) \<Rightarrow> Inr m)"

section \<open>hijack.go: Proxy\<close>

text \<open>
  One direction: the source gives its bytes and then ends, cleanly or with an error; the destination
  takes them, or a part of them and an error. What is then done to the destination depends on what
  it offers.
\<close>

datatype closing = ClosedWrite | ClosedBoth | LeftOpen

record direction =
  di_data :: string
  di_end :: "gerror option"
  di_write :: "string \<Rightarrow> nat \<times> gerror option"
  di_closing :: closing

definition copyHalfClose :: "direction \<Rightarrow> string \<times> closing \<times> gerror option" where
  "copyHalfClose d = (case di_write d (di_data d) of
     (n, Some e) \<Rightarrow> (take n (di_data d), di_closing d, Some e)
   | (n, None) \<Rightarrow> (di_data d, di_closing d, di_end d))"

definition torn_down :: "gerror \<Rightarrow> bool" where
  "torn_down e \<longleftrightarrow> errors_is e (Std ErrNetClosed) \<or> errors_is e (Std ErrClosedPipe)"

fun proxy_error :: "gerror option list \<Rightarrow> gerror option" where
  "proxy_error [] = None"
| "proxy_error (None # es) = proxy_error es"
| "proxy_error (Some e # es) = (if torn_down e then proxy_error es else Some e)"

definition Proxy :: "direction \<Rightarrow> direction \<Rightarrow> (string \<times> closing) \<times> (string \<times> closing) \<times> gerror option" where
  "Proxy toA toB = (case copyHalfClose toA of (da, ca, ea) \<Rightarrow> case copyHalfClose toB of (db, cb, eb) \<Rightarrow>
     ((da, ca), (db, cb), proxy_error [ea, eb]))"

text \<open>A proxy without an error has delivered everything, unless a direction was torn down.\<close>

lemma Proxy_delivers:
  assumes "Proxy toA toB = ((da, ca), (db, cb), None)"
  shows "(da = di_data toA \<or> (\<exists>n e. di_write toA (di_data toA) = (n, Some e) \<and> torn_down e))
    \<and> (db = di_data toB \<or> (\<exists>n e. di_write toB (di_data toB) = (n, Some e) \<and> torn_down e))"
  using assms by (cases "di_end toA"; cases "di_end toB") (auto simp: Proxy_def copyHalfClose_def split: prod.splits option.splits if_splits)

section \<open>handlers_exec.go: recognising a resize message\<close>

definition decodeResize :: "string \<Rightarrow> (uint \<times> uint \<times> nat) option" where
  "decodeResize buf = (let trimmed = TrimSpace buf in
     if trimmed = [] \<or> hd trimmed \<noteq> CHR ''{'' then None
     else case decode_message trimmed of
       Inl e \<Rightarrow> None
     | Inr (m, r) \<Rightarrow>
        if rm_Width m = 0 \<and> rm_Height m = 0 then None
        else let offset = length trimmed - length r; leading = length buf - length trimmed
             in Some (rm_Width m, rm_Height m, leading + offset))"

text \<open>\<^verbatim>\<open>json.Unmarshal\<close> into a raw message: every error is a syntax error, one without an error inside it.\<close>

definition unmarshal_raw :: "string \<Rightarrow> gerror option" where
  "unmarshal_raw s = (case scan_value s of
     Scanned v r \<Rightarrow> if skip_ws r = [] then None else Some (NewErr ''invalid character after top-level value'')
   | ScanEnd \<Rightarrow> Some (NewErr ''unexpected end of JSON input'')
   | _ \<Rightarrow> Some (NewErr ''invalid character''))"

definition completeJSONPrefix :: "string \<Rightarrow> bool" where
  "completeJSONPrefix buf = (let trimmed = TrimSpace buf in
     if trimmed = [] \<or> hd trimmed \<noteq> CHR ''{'' then False
     else case unmarshal_raw trimmed of None \<Rightarrow> False
       | Some e \<Rightarrow> errors_is e (Std ErrUnexpectedEOF) \<or> errors_is e (Std EOF))"

section \<open>The buffered connection\<close>

datatype arrival = Chunk char string | ReadFails gerror

record bufio =
  bf_buf :: string
  bf_src :: "arrival list"
  bf_size :: nat

definition chunk :: "string \<Rightarrow> arrival list" where
  "chunk s = (case s of [] \<Rightarrow> [] | c # cs \<Rightarrow> [Chunk c cs])"

definition fill :: "bufio \<Rightarrow> bufio \<times> gerror option" where
  "fill b = (case bf_src b of
     [] \<Rightarrow> (b, Some eof)
   | ReadFails e # as \<Rightarrow> (b\<lparr>bf_src := as\<rparr>, Some e)
   | Chunk c cs # as \<Rightarrow> let room = bf_size b - length (bf_buf b) in
       (b\<lparr>bf_buf := bf_buf b @ take room (c # cs), bf_src := chunk (drop room (c # cs)) @ as\<rparr>, None))"

text \<open>\<^verbatim>\<open>Peek(available + 1)\<close>, and \<^verbatim>\<open>Read\<close> into a slice of \<open>n\<close> bytes.\<close>

definition peek_more :: "bufio \<Rightarrow> bufio \<times> gerror option" where
  "peek_more b = (if bf_size b \<le> length (bf_buf b) then (b, Some (NewErr ''bufio: buffer full'')) else fill b)"

definition bufio_Read :: "nat \<Rightarrow> bufio \<Rightarrow> bufio \<times> string \<times> gerror option" where
  "bufio_Read n b =
    (if n = 0 then (b, [], None)
     else if bf_buf b \<noteq> [] then (b\<lparr>bf_buf := drop n (bf_buf b)\<rparr>, take n (bf_buf b), None)
     else if bf_size b \<le> n then (case bf_src b of
         [] \<Rightarrow> (b, [], Some eof)
       | ReadFails e # as \<Rightarrow> (b\<lparr>bf_src := as\<rparr>, [], Some e)
       | Chunk c cs # as \<Rightarrow> (b\<lparr>bf_src := chunk (drop n (c # cs)) @ as\<rparr>, take n (c # cs), None))
     else case fill b of
         (b1, Some e) \<Rightarrow> (b1, [], Some e)
       | (b1, None) \<Rightarrow> (b1\<lparr>bf_buf := drop n (bf_buf b1)\<rparr>, take n (bf_buf b1), None))"

fun arrival_size :: "arrival \<Rightarrow> nat" where
  "arrival_size (Chunk c cs) = Suc (length cs)"
| "arrival_size (ReadFails e) = 1"

lemma chunk_size: "sum_list (map arrival_size (chunk s)) = length s"
  by (cases s) (simp_all add: chunk_def)

lemma peek_more_size:
  assumes "peek_more b = (b', None)"
  shows "sum_list (map arrival_size (bf_src b')) < sum_list (map arrival_size (bf_src b))"
  using assms
  by (auto simp: peek_more_def fill_def Let_def chunk_size split: if_splits list.splits arrival.splits)

section \<open>handlers_exec.go: peekResize and resizeFilterReader\<close>

function peek_loop :: "bufio \<Rightarrow> bufio \<times> (uint \<times> uint) option" where
  "peek_loop b =
    (case (if bf_buf b \<noteq> [] then decodeResize (bf_buf b) else None) of
       Some (width, height, consumed) \<Rightarrow> (b\<lparr>bf_buf := drop consumed (bf_buf b)\<rparr>, Some (width, height))
     | None \<Rightarrow>
        if bf_buf b \<noteq> [] \<and> \<not> completeJSONPrefix (bf_buf b) then (b, None)
        else case peek_more b of
          (b1, Some e) \<Rightarrow> (b1, None)
        | (b1, None) \<Rightarrow> peek_loop b1)"
  by pat_completeness auto
termination
  by (relation "measure (\<lambda>b. sum_list (map arrival_size (bf_src b)))") (auto dest!: peek_more_size [OF sym])

declare peek_loop.simps [simp del]

definition peekResize :: "gerror option \<Rightarrow> bufio \<Rightarrow> bufio \<times> (uint \<times> uint) option" where
  "peekResize deadline_err b = (if deadline_err \<noteq> None then (b, None) else peek_loop b)"

lemma scan_value_shorter: "scan_value s = Scanned v r \<Longrightarrow> length r < length s"
  unfolding scan_value_def by (rule parse_shorter)

lemma decode_message_shorter: "decode_message s = Inr (m, r) \<Longrightarrow> length r < length s"
  by (auto simp: decode_message_def split: scan.splits json.splits prod.splits if_splits dest: scan_value_shorter)

lemma TrimSpace_length: "length (TrimSpace s) \<le> length s"
  using TrimSpace_sublist [of s] by (metis le_add1 le_add2 length_append order.trans)

lemma decodeResize_bounds:
  assumes "decodeResize buf = Some (w, h, n)"
  shows "0 < n \<and> n \<le> length buf \<and> (w \<noteq> 0 \<or> h \<noteq> 0)"
  using assms TrimSpace_length [of buf]
  by (auto simp: decodeResize_def Let_def split: if_splits sum.splits dest!: decode_message_shorter)

text \<open>The reader also returns the resize messages it reported.\<close>

function filter_Read :: "nat \<Rightarrow> bufio \<Rightarrow> bufio \<times> string \<times> gerror option \<times> (uint \<times> uint) list" where
  "filter_Read n b =
    (if bf_buf b = [] then (case bufio_Read n b of (b1, p, e) \<Rightarrow> (b1, p, e, []))
     else case decodeResize (bf_buf b) of
       None \<Rightarrow> (case bufio_Read n b of (b1, p, e) \<Rightarrow> (b1, p, e, []))
     | Some (width, height, consumed) \<Rightarrow>
         (case filter_Read n (b\<lparr>bf_buf := drop consumed (bf_buf b)\<rparr>) of
            (b1, p, e, rs) \<Rightarrow> (b1, p, e, (width, height) # rs)))"
  by pat_completeness auto
termination
  by (relation "measure (\<lambda>(n, b). length (bf_buf b))") (auto dest!: decodeResize_bounds)

declare filter_Read.simps [simp del]

section \<open>handlers_exec.go: execStart\<close>

record exec_start_payload =
  ep_Detach :: bool
  ep_Tty :: bool
  ep_ConsoleSize :: "(uint \<times> uint) option"

text \<open>The connection of a request: the response writer, whether it asks for an upgrade, and the input behind it.\<close>

record 'c exec_conn =
  ec_writer :: "'c response_writer"
  ec_upgrade :: bool
  ec_write :: "'c \<Rightarrow> string \<Rightarrow> gerror option"
  ec_deadline :: "gerror option"
  ec_input :: bufio

datatype exec_response = ExecFailed http_response | ExecDetached | ExecStreamed string bool bufio

definition execStart ::
  "logs_env \<Rightarrow> 'w service_env \<Rightarrow> gerror option \<Rightarrow> bool \<Rightarrow> string \<Rightarrow> exec_start_payload decoded \<Rightarrow> 'c exec_conn
    \<Rightarrow> streamLimiter option \<Rightarrow> 'w svc \<Rightarrow> (streamLimiter option \<times> 'w svc \<times> exec_response) option" where
  "execStart ge env ctx_err choice path body conn l s =
    (let execID = pathParameter path ''/exec/'' ''/start'' in
     case decodeJSONBody body of
       Inl d \<Rightarrow> Some (l, s, ExecFailed (docker_error_response d))
     | Inr payload \<Rightarrow> (case acquire ctx_err choice l of
         None \<Rightarrow> None
       | Some (l1, Some e) \<Rightarrow> Some (l1, s, ExecFailed (service_error e))
       | Some (l1, None) \<Rightarrow>
          (case consoleSize (ep_ConsoleSize payload) of (width, height) \<Rightarrow>
            if ep_Detach payload then
              (case ExecStart env execID \<lparr>xs_Detach = True, xs_TTY = ep_Tty payload, xs_Width = width, xs_Height = height,
                  xs_Stdin = False, xs_Stdout = False, xs_Stderr = False\<rparr> s of
                 (s1, Inl e) \<Rightarrow> Some (release l1, s1, ExecFailed (service_error e))
               | (s1, Inr code) \<Rightarrow> Some (release l1, s1, ExecDetached))
            else (case Upgrade (ge_raw ge) (ge_mux ge) (ec_write conn) (ec_writer conn) (ec_upgrade conn) (\<not> ep_Tty payload)
                (apiVersionFromRequest path) of
               Inl e \<Rightarrow> Some (release l1, s, ExecFailed (service_error e))
             | Inr (c, response) \<Rightarrow>
                let (input, size) = (if ep_Tty payload then peekResize (ec_deadline conn) (ec_input conn) else (ec_input conn, None));
                    (w', h') = (case size of Some (pw, ph) \<Rightarrow> (pw, ph) | None \<Rightarrow> (width, height))
                in (case ExecStart env execID \<lparr>xs_Detach = False, xs_TTY = ep_Tty payload, xs_Width = w', xs_Height = h',
                      xs_Stdin = True, xs_Stdout = True, xs_Stderr = True\<rparr> s of
                    (s1, r) \<Rightarrow> Some (release l1, s1, ExecStreamed response (\<not> ep_Tty payload) input))))))"

section \<open>Scanning an encoded message\<close>

lemma dec_digits_zero: "dec_digits n = CHR ''0'' # ds \<Longrightarrow> ds = [] \<and> n = 0"
proof (induction n arbitrary: ds rule: dec_digits.induct)
  case (1 n)
  show ?case
  proof (cases "n < 10")
    case True
    have "n = 0" if "char_of (48 + n) = CHR ''0''"
      using arg_cong [OF that, of "of_char :: char \<Rightarrow> nat"] True by simp
    with True "1.prems" show ?thesis by (simp add: dec_digits.simps [of n])
  next
    case False
    from dec_digits_nonempty [of "n div 10"] obtain c cs where "dec_digits (n div 10) = c # cs" by (cases "dec_digits (n div 10)") auto
    with False "1.IH" [OF False] "1.prems" show ?thesis by (auto simp: dec_digits.simps [of n])
  qed
qed

lemma span_digits:
  assumes "list_all is_digit ds" and "\<not> is_digit c"
  shows "takeWhile is_digit (ds @ c # r) = ds" "dropWhile is_digit (ds @ c # r) = c # r"
  using assms by (induction ds) auto

lemma scan_num_dec:
  assumes "c \<in> {CHR '','', CHR ''}''}"
  shows "scan_num (dec_digits n @ c # r) = Scanned (dec_digits n) (c # r)"
proof -
  have c: "\<not> is_digit c" "c \<noteq> CHR ''.''" "c \<noteq> CHR ''e''" "c \<noteq> CHR ''E''"
    using assms by (auto simp: is_digit_def less_eq_char_def)
  obtain d ds where d: "dec_digits n = d # ds" using dec_digits_nonempty by (cases "dec_digits n") auto
  with dec_digits_all_digits [of n] have dd: "is_digit d" by simp
  have "d \<noteq> CHR ''-''" using dec_digits_not_sign [OF d] by simp
  have rest: "scan_frac acc (c # r) = Scanned acc (c # r)" for acc
    using c by (simp add: scan_frac_def scan_exp_def)
  show ?thesis
  proof (cases "d = CHR ''0''")
    case True
    with d dec_digits_zero [of n ds] have "dec_digits n = [CHR ''0'']" by simp
    then show ?thesis by (simp add: scan_num_def rest)
  next
    case False
    have "scan_num (dec_digits n @ c # r)
        = scan_frac (takeWhile is_digit (dec_digits n @ c # r)) (dropWhile is_digit (dec_digits n @ c # r))"
      using d dd False \<open>d \<noteq> CHR ''-''\<close> by (simp add: scan_num_def)
    with span_digits [OF dec_digits_all_digits c(1), of n r] rest show ?thesis by simp
  qed
qed

lemma dec_digits_value:
  assumes "c \<in> {CHR '','', CHR ''}''}"
  shows "parse_value (Suc m) d (dec_digits n @ c # r) = Scanned (JNum (dec_digits n)) (c # r)"
proof -
  obtain x ds where x: "dec_digits n = x # ds" using dec_digits_nonempty by (cases "dec_digits n") auto
  with dec_digits_all_digits [of n] have dx: "is_digit x" by simp
  then have "\<not> json_space x" "x \<noteq> CHR ''{''" "x \<noteq> CHR ''[''" "x \<noteq> CHR 0x22"
    by (auto simp: json_space_def is_digit_def less_eq_char_def)
  with x dx have "parse_value (Suc m) d (dec_digits n @ c # r) = map_scan JNum (scan_num (dec_digits n @ c # r))"
    by (simp add: skip_ws_def)
  with scan_num_dec [OF assms] show ?thesis by simp
qed

lemma scan_resize:
  "scan_value (resize_text w h @ t)
    = Scanned (JObj [(''Width'', JNum (dec_digits (unat w))), (''Height'', JNum (dec_digits (unat h)))]) t"
proof -
  have "\<exists>m. 2 * length (resize_text w h @ t) + 2 = Suc (Suc (Suc (Suc m)))"
    by (rule exI [of _ "2 * (length (resize_text w h @ t) - 1)"]) (simp add: resize_text_def)
  then obtain m where m: "2 * length (resize_text w h @ t) + 2 = Suc (Suc (Suc (Suc m)))" ..
  have ws: "skip_ws (CHR 0x22 # r) = CHR 0x22 # r" "skip_ws (CHR '':'' # r) = CHR '':'' # r"
    "skip_ws (CHR '','' # r) = CHR '','' # r" "skip_ws (CHR ''}'' # r) = CHR ''}'' # r" "skip_ws (CHR ''{'' # r) = CHR ''{'' # r" for r
    by (simp_all add: skip_ws_def json_space_def)
  show ?thesis
    unfolding scan_value_def m
    by (subst parse_value.simps(2))
      (simp add: resize_text_def json_key_def ws maxNestingDepth_def dec_digits_value del: parse_value.simps(2))
qed

definition TrimRight :: "string \<Rightarrow> string" where
  "TrimRight t = rev (strip (map rev space_runes) (rev t))"

lemma prefix_append_other: "c \<notin> set r \<Longrightarrow> prefix r (x @ c # y) \<longleftrightarrow> prefix r x"
  by (induction r arbitrary: x) (auto simp: prefix_Cons Cons_eq_append_conv, (case_tac x; force)+)

lemma strip_append:
  assumes "\<And>r. r \<in> set rs \<Longrightarrow> c \<notin> set r"
  shows "strip rs (x @ c # y) = strip rs x @ c # y"
  using assms
proof (induction rs x rule: strip.induct)
  case (1 rs x)
  have f: "find (\<lambda>r. r \<noteq> [] \<and> prefix r (x @ c # y)) rs = find (\<lambda>r. r \<noteq> [] \<and> prefix r x) rs"
    using "1.prems" prefix_append_other [of c _ x y] by (intro find_cong) auto
  show ?case
  proof (cases "find (\<lambda>r. r \<noteq> [] \<and> prefix r x) rs")
    case None
    with f show ?thesis by (simp add: strip.simps [of rs "x @ c # y"] strip.simps [of rs x])
  next
    case (Some r)
    then have "length r \<le> length x" by (auto simp: find_Some_iff prefix_length_le)
    with f Some "1.IH" [OF Some "1.prems"] show ?thesis
      by (simp add: strip.simps [of rs "x @ c # y"] strip.simps [of rs x])
  qed
qed

lemma TrimSpace_message: "TrimSpace (resize_text w h @ t) = resize_text w h @ TrimRight t"
proof -
  let ?u = "''{'' @ json_key ''Width'' @ '':'' @ dec_digits (unat w) @ '','' @ json_key ''Height'' @ '':'' @ dec_digits (unat h)"
  have front: "strip space_runes (resize_text w h @ t) = resize_text w h @ t"
    by (rule strip_spaces_id) (simp add: resize_text_def space_head_bytes_eq)
  have brace: "CHR ''}'' \<notin> set r" if "r \<in> set (map rev space_runes)" for r
    using that by (auto simp: space_runes_def)
  have split_text: "resize_text w h = ?u @ [CHR ''}'']" by (simp add: resize_text_def)
  have "rev (resize_text w h @ t) = rev t @ CHR ''}'' # rev ?u" unfolding split_text by simp
  then have "strip (map rev space_runes) (rev (resize_text w h @ t)) = strip (map rev space_runes) (rev t) @ CHR ''}'' # rev ?u"
    using strip_append [OF brace] by metis
  moreover have "rev (strip (map rev space_runes) (rev t) @ CHR ''}'' # rev ?u) = resize_text w h @ TrimRight t"
    by (simp add: split_text TrimRight_def)
  ultimately show ?thesis by (simp add: TrimSpace_def front)
qed

lemma decode_resize_text:
  "decode_message (resize_text w h @ t) = Inr (\<lparr>rm_Width = w, rm_Height = h\<rparr>, t)"
proof -
  have "field_of [''Width'', ''Height''] ''Width'' = Some ''Width''" "field_of [''Width'', ''Height''] ''Height'' = Some ''Height''"
    by code_simp+
  moreover have "ParseUint 64 (dec_digits (unat x)) = Some (unat x)" for x :: uint
    using unsigned_less [of x] by (simp add: ParseUint_def)
  ultimately show ?thesis by (simp add: decode_message_def scan_resize)
qed

lemma decodeResize_text:
  assumes "w \<noteq> 0 \<or> h \<noteq> 0"
  shows "decodeResize (resize_text w h @ t) = Some (w, h, length (resize_text w h) + (length t - length (TrimRight t)))"
proof -
  have "length (TrimRight t) \<le> length t"
    using suffix_strip [of "map rev space_runes" "rev t"] by (auto simp: TrimRight_def dest!: suffix_length_le)
  moreover have "hd (resize_text w h @ TrimRight t) = CHR ''{''" "resize_text w h \<noteq> []" by (simp_all add: resize_text_def)
  ultimately show ?thesis
    using assms by (auto simp: decodeResize_def Let_def TrimSpace_message decode_resize_text)
qed

lemma decodeResize_zero: "decodeResize (resize_text 0 0 @ t) = None"
  by (simp add: decodeResize_def Let_def TrimSpace_message decode_resize_text)

lemma TrimRight_NL: "TrimRight [NL] = []"
  by code_simp

text \<open>The codec alone: a message on its own is read back as it was written.\<close>

lemma resize_codec:
  "DecodeResize (EncodeResize w h) = Inr \<lparr>rm_Width = w, rm_Height = h\<rparr>
    \<and> decodeResize (EncodeResize w h) = (if w = 0 \<and> h = 0 then None else Some (w, h, length (EncodeResize w h)))"
  by (auto simp: DecodeResize_def EncodeResize_def decode_resize_text decodeResize_text decodeResize_zero TrimRight_NL)

lemma filter_after_message:
  assumes "w \<noteq> 0 \<or> h \<noteq> 0" and "bf_buf b = resize_text w h @ t"
  shows "filter_Read n b = (case filter_Read n (b\<lparr>bf_buf := drop (length t - length (TrimRight t)) t\<rparr>) of
      (b1, p, e, rs) \<Rightarrow> (b1, p, e, (w, h) # rs))"
proof -
  have "resize_text w h \<noteq> []" by (simp add: resize_text_def)
  with decodeResize_text [OF assms(1), of t] assms(2) show ?thesis
    by (subst filter_Read.simps) simp
qed

section \<open>A message that arrives in pieces\<close>

text \<open>
  The test whether more input could complete a message looks for an error \<^verbatim>\<open>json.Unmarshal\<close>
  does not report, so it never holds and the peek gives up at the first bytes that are no message.
\<close>

lemma completeJSONPrefix_False: "\<not> completeJSONPrefix buf"
  by (auto simp: completeJSONPrefix_def unmarshal_raw_def Let_def split: scan.splits if_splits option.splits)

lemma peek_loop_first:
  "bf_buf b \<noteq> [] \<Longrightarrow> peek_loop b = (case decodeResize (bf_buf b) of
     None \<Rightarrow> (b, None) | Some (w, h, n) \<Rightarrow> (b\<lparr>bf_buf := drop n (bf_buf b)\<rparr>, Some (w, h)))"
  by (subst peek_loop.simps) (simp add: completeJSONPrefix_False split: option.split)



text \<open>Input that is typed ahead of a message and ends in two bytes of white space loses its first byte.\<close>

lemma typed_ahead_loses_byte:
  "filter_Read 8 \<lparr>bf_buf = EncodeResize 80 24 @ ''ls'' @ [CHR 0x0D, NL], bf_src = [], bf_size = 4096\<rparr>
    = (\<lparr>bf_buf = [], bf_src = [], bf_size = 4096\<rparr>, ''s'' @ [CHR 0x0D, NL], None, [(80, 24)])"
proof -
  have t: "TrimRight (NL # ''ls'' @ [CHR 0x0D, NL]) = NL # ''ls''" "decodeResize (''s'' @ [CHR 0x0D, NL]) = None"
    by code_simp+
  have "filter_Read 8 \<lparr>bf_buf = ''s'' @ [CHR 0x0D, NL], bf_src = [], bf_size = 4096\<rparr>
      = (\<lparr>bf_buf = [], bf_src = [], bf_size = 4096\<rparr>, ''s'' @ [CHR 0x0D, NL], None, [])"
    using t(2) by (subst filter_Read.simps) (simp add: bufio_Read_def)
  then show ?thesis
    using filter_after_message [of 80 24 "\<lparr>bf_buf = EncodeResize 80 24 @ ''ls'' @ [CHR 0x0D, NL], bf_src = [], bf_size = 4096\<rparr>"
        "NL # ''ls'' @ [CHR 0x0D, NL]" 8] t(1)
    by (simp add: EncodeResize_def)
qed

lemma split_message_missed:
  assumes "bf_size b = 4096" and "bf_buf b = []"
    and "bf_src b = [Chunk CHR ''{'' m, Chunk c r]" and "length m < 4096" and "decodeResize (CHR ''{'' # m) = None"
  shows "peekResize None b = (b\<lparr>bf_buf := CHR ''{'' # m, bf_src := [Chunk c r]\<rparr>, None)"
proof -
  have "peek_more b = (b\<lparr>bf_buf := CHR ''{'' # m, bf_src := [Chunk c r]\<rparr>, None)"
    using assms(1-4) by (simp add: peek_more_def fill_def chunk_def)
  with assms(2,5) show ?thesis
    by (simp add: peekResize_def peek_loop.simps [of b] peek_loop_first)
qed

section \<open>Stream slots\<close>

text \<open>
  C28: no request keeps a slot of the stream limiter: when the log request or the exec session
  returns, whatever it answered, the slots in use are those that were in use when it came. A follow
  that is still streaming holds exactly the slot it acquired.
\<close>

theorem slots_released:
  assumes "limiter_ok l"
  shows "(\<forall>l1 s1 r. containerLogs ge env ctx_err choice path q l s = Some (l1, s1, r)
      \<longrightarrow> (if log_ended r \<or> \<not> lr_Follow (log_query (ge_unix ge) q) then l1 = l else acquire ctx_err choice l = Some (l1, None)))
    \<and> (\<forall>l1 s1 r. execStart ge env ctx_err choice path body conn l s = Some (l1, s1, r) \<longrightarrow> l1 = l)"
proof (intro conjI allI impI)
  fix l1 s1 r
  {
    assume "containerLogs ge env ctx_err choice path q l s = Some (l1, s1, r)"
    then show "if log_ended r \<or> \<not> lr_Follow (log_query (ge_unix ge) q) then l1 = l else acquire ctx_err choice l = Some (l1, None)"
      using acquire_ok [OF assms, of ctx_err choice]
      by (auto simp: containerLogs_def log_ended_def Let_def split: prod.splits sum.splits option.splits if_splits)
  next
    assume "execStart ge env ctx_err choice path body conn l s = Some (l1, s1, r)"
    then show "l1 = l"
      using acquire_ok [OF assms, of ctx_err choice]
      by (auto simp: execStart_def Let_def split: prod.splits sum.splits option.splits if_splits)
  }
qed

definition sample_conn :: "unit exec_conn" where
  "sample_conn = \<lparr>ec_writer = Unwrapping (Some (Hijackable (Inr ()))), ec_upgrade = True, ec_write = (\<lambda>c t. None), ec_deadline = None,
     ec_input = \<lparr>bf_buf = [], bf_src = [], bf_size = 4096\<rparr>\<rparr>"

definition sample_limiter :: "streamLimiter option" where
  "sample_limiter = Some (newStreamLimiter 2)"

theorem slots_released_witness:
  "\<exists>s1 r. execStart sample_logs_env (sample_service_env ContainerStateRunning) None True ''/v1.44/exec/e1/start''
      (Decoded \<lparr>ep_Detach = True, ep_Tty = False, ep_ConsoleSize = None\<rparr>) sample_conn sample_limiter (sample_after_create, 8)
    = Some (sample_limiter, s1, r)"
proof -
  let ?run = "execStart sample_logs_env (sample_service_env ContainerStateRunning) None True ''/v1.44/exec/e1/start''
      (Decoded \<lparr>ep_Detach = True, ep_Tty = False, ep_ConsoleSize = None\<rparr>) sample_conn sample_limiter (sample_after_create, 8)"
  have "?run \<noteq> None" by (simp add: execStart_def decodeJSONBody_def acquire_def sample_limiter_def newStreamLimiter_def Let_def
      DefaultStreamLimit_def consoleSize_def split: prod.split sum.split)
  moreover have "limiter_ok sample_limiter" by code_simp
  ultimately show ?thesis
    using slots_released [of sample_limiter sample_logs_env "sample_service_env ContainerStateRunning" None True
        "''/v1.44/exec/e1/start''" "[]" "(sample_after_create, 8)" "Decoded \<lparr>ep_Detach = True, ep_Tty = False, ep_ConsoleSize = None\<rparr>" sample_conn]
    by (cases ?run) auto
qed

end
