(* ===== verification/Api_System.thy ===== *)
theory Api_System
  imports Api_Handlers Log_Stream
begin

text \<open>
  \<^verbatim>\<open>internal/api/handlers_system.go\<close>: the handlers of \<^verbatim>\<open>/_ping\<close>, \<^verbatim>\<open>/version\<close> and
  \<^verbatim>\<open>/info\<close>. The host (files under \<^verbatim>\<open>/proc\<close>, the Go runtime) is a record of what the handlers
  read of it; a file that cannot be read is \<open>None\<close>.
\<close>

record host =
  ho_GOOS :: string
  ho_GOARCH :: string
  ho_Version :: string
  ho_NumCPU :: int
  ho_osrelease :: "string option"
  ho_meminfo :: "string option"

definition daemonVersion :: string where "daemonVersion = ''0.0.0-dev''"
definition daemonName :: string where "daemonName = ''dockerdless''"

section \<open>Ping and version\<close>

definition ping_headers :: "(string \<times> string) list" where
  "ping_headers = [(''Content-Type'', ''text/plain; charset=utf-8''), (''Cache-Control'', ''no-cache, no-store, must-revalidate''),
     (''Pragma'', ''no-cache''), (''Docker-Experimental'', ''false''), (''Swarm'', ''inactive'')]"

text \<open>Headers, status and body.\<close>

definition pingHandler :: "string \<Rightarrow> (string \<times> string) list \<times> int \<times> string" where
  "pingHandler method = (ping_headers, 200, if method = ''HEAD'' then [] else ''OK'')"

definition kernelVersion :: "host \<Rightarrow> string" where
  "kernelVersion h = (case ho_osrelease h of None \<Rightarrow> [] | Some raw \<Rightarrow> TrimSpace raw)"

record version_response =
  vr_Version :: string
  vr_APIVersion :: string
  vr_MinAPIVersion :: string
  vr_Os :: string
  vr_Arch :: string
  vr_GoVersion :: string
  vr_KernelVersion :: string
  vr_Platform :: string
  vr_Components :: "(string \<times> string \<times> (string, string) gomap) list"

definition versionHandler :: "host \<Rightarrow> int \<times> version_response" where
  "versionHandler h = (200, \<lparr>vr_Version = daemonVersion, vr_APIVersion = AdvertisedAPIVersion, vr_MinAPIVersion = MinimumAPIVersion,
     vr_Os = ho_GOOS h, vr_Arch = ho_GOARCH h, vr_GoVersion = ho_Version h, vr_KernelVersion = kernelVersion h,
     vr_Platform = daemonName,
     vr_Components = [(''Engine'', daemonVersion, [(''ApiVersion'', AdvertisedAPIVersion), (''Arch'', ho_GOARCH h),
        (''GoVersion'', ho_Version h), (''KernelVersion'', kernelVersion h), (''MinAPIVersion'', MinimumAPIVersion), (''Os'', ho_GOOS h)])]\<rparr>)"

section \<open>The memory of the host\<close>

text \<open>\<^verbatim>\<open>strings.Fields\<close>: the maximal runs without a space rune.\<close>

fun field_head :: "string \<Rightarrow> string" where
  "field_head [] = []"
| "field_head (c # s) = (if list_ex (\<lambda>r. prefix r (c # s)) space_runes then [] else c # field_head s)"

lemma field_head_stripped: "strip space_runes s = c # t \<Longrightarrow> field_head (c # t) = c # field_head t"
  using strip_no_prefix [of _ space_runes s] space_runes_nonempty by (auto simp: list_ex_iff)

function Fields :: "string \<Rightarrow> string list" where
  "Fields s = (case strip space_runes s of [] \<Rightarrow> []
     | c # t \<Rightarrow> field_head (c # t) # Fields (drop (length (field_head (c # t))) (c # t)))"
  by pat_completeness auto
termination
proof (relation "measure length")
  fix s c t
  assume st: "strip space_runes s = c # t"
  have "length (c # t) \<le> length s" using suffix_strip [of space_runes s] st by (metis suffix_length_le)
  then show "(drop (length (field_head (c # t))) (c # t), s) \<in> measure length"
    using field_head_stripped [OF st] by simp
qed simp

declare Fields.simps [simp del]

fun mem_lines :: "string list \<Rightarrow> int" where
  "mem_lines [] = 0"
| "mem_lines (l # ls) =
    (if \<not> HasPrefix l ''MemTotal:'' then mem_lines ls
     else case Fields (TrimPrefix l ''MemTotal:'') of
       [] \<Rightarrow> 0
     | f # fs \<Rightarrow> (case Atoi f of None \<Rightarrow> 0 | Some kilobytes \<Rightarrow> sint (word_of_int kilobytes * 1024 :: 64 word)))"

definition memTotal :: "host \<Rightarrow> int" where
  "memTotal h = (case ho_meminfo h of None \<Rightarrow> 0 | Some raw \<Rightarrow> mem_lines (read_lines raw))"

section \<open>Info\<close>

record info_response =
  ir_Containers :: int
  ir_ContainersRunning :: int
  ir_ContainersPaused :: int
  ir_ContainersStopped :: int
  ir_Images :: int
  ir_Driver :: string
  ir_OSType :: string
  ir_Architecture :: string
  ir_OperatingSystem :: string
  ir_ServerVersion :: string
  ir_KernelVersion :: string
  ir_NCPU :: int
  ir_MemTotal :: int
  ir_LoggingDriver :: string
  ir_IndexServerAddress :: string
  ir_Runtimes :: "string list"
  ir_DefaultRuntime :: string
  ir_Containerd :: "string \<times> string"
  ir_Warnings :: "string list"

text \<open>The service's \<^verbatim>\<open>Info\<close> fails only where listing containers does, which it never does.\<close>

definition info_handler :: "host \<Rightarrow> 'w service_env \<Rightarrow> 'w svc \<Rightarrow> 'w svc \<times> int \<times> info_response" where
  "info_handler h env s = (case svc_Info env s of (s1, status) \<Rightarrow>
     (s1, 200, \<lparr>ir_Containers = ss_Containers status, ir_ContainersRunning = ss_ContainersRunning status,
        ir_ContainersPaused = ss_ContainersPaused status, ir_ContainersStopped = ss_ContainersStopped status,
        ir_Images = ss_Images status, ir_Driver = ''containerd'', ir_OSType = ho_GOOS h, ir_Architecture = ho_GOARCH h,
        ir_OperatingSystem = daemonName, ir_ServerVersion = daemonVersion, ir_KernelVersion = kernelVersion h, ir_NCPU = ho_NumCPU h,
        ir_MemTotal = memTotal h, ir_LoggingDriver = ''cri'', ir_IndexServerAddress = ''https://index.docker.io/v1/'',
        ir_Runtimes = [''io.containerd.runc.v2''], ir_DefaultRuntime = ''io.containerd.runc.v2'',
        ir_Containerd = (ss_ContainerdSocket status, ss_Namespace status), ir_Warnings = ss_Warnings status\<rparr>))"

section \<open>What the numbers mean\<close>

lemma count_states:
  "ss_ContainersRunning (foldl count_state z cs) = ss_ContainersRunning z + int (length (filter (\<lambda>c. c_State c = ContainerStateRunning) cs))
   \<and> ss_ContainersPaused (foldl count_state z cs) = ss_ContainersPaused z + int (length (filter (\<lambda>c. c_State c = ContainerStatePaused) cs))
   \<and> ss_ContainersStopped (foldl count_state z cs) = ss_ContainersStopped z
      + int (length (filter (\<lambda>c. c_State c \<noteq> ContainerStateRunning \<and> c_State c \<noteq> ContainerStatePaused) cs))
   \<and> ss_Containers (foldl count_state z cs) = ss_Containers z"
  by (induction cs arbitrary: z) (auto simp: count_state_def)

lemma states_partition:
  "length (filter (\<lambda>c. c_State c = ContainerStateRunning) cs) + length (filter (\<lambda>c. c_State c = ContainerStatePaused) cs)
    + length (filter (\<lambda>c. c_State c \<noteq> ContainerStateRunning \<and> c_State c \<noteq> ContainerStatePaused) cs) = length cs"
  by (induction cs) auto

lemma info_counts:
  assumes "info_handler h env s = (s1, code, r)" and "ContainerList env True s = (s2, cs)"
  shows "code = 200 \<and> ir_Containers r = int (length cs)
    \<and> ir_ContainersRunning r = int (length (filter (\<lambda>c. c_State c = ContainerStateRunning) cs))
    \<and> ir_ContainersRunning r + ir_ContainersPaused r + ir_ContainersStopped r = ir_Containers r"
  using assms states_partition [of cs]
  by (auto simp: info_handler_def svc_Info_def Let_def count_states split: prod.splits sum.splits)

lemma strip_blanks: "x \<noteq> [] \<Longrightarrow> hd x \<notin> space_head_bytes \<Longrightarrow> strip space_runes (replicate k CHR 0x20 @ x) = x"
proof (induction k)
  case 0
  then show ?case using strip_spaces_id [of x] by simp
next
  case (Suc k)
  have "find (\<lambda>r. r \<noteq> [] \<and> prefix r (CHR 0x20 # y)) space_runes = Some [CHR 0x20]" for y
    by (simp add: space_runes_def)
  with Suc show ?case by (simp add: strip.simps [of space_runes "CHR 0x20 # y" for y])
qed

lemma field_head_digits: "list_all is_digit ds \<Longrightarrow> field_head (ds @ CHR 0x20 # y) = ds"
proof (induction ds)
  case Nil
  show ?case by (simp add: space_runes_def)
next
  case (Cons d ds)
  have "\<not> prefix r (d # ds @ CHR 0x20 # y)" if "r \<in> set space_runes" for r
    using that Cons.prems by (auto simp: space_runes_def is_digit_def less_eq_char_def)
  with Cons show ?case by (simp add: list_ex_iff)
qed

text \<open>The first line of the kernel's file gives the memory in bytes, as long as it fits 63 bits.\<close>

lemma memTotal_bytes:
  assumes "n * 1024 < 2 ^ 63" and "NL \<notin> set u"
    and "ho_meminfo h = Some (''MemTotal:'' @ replicate k CHR 0x20 @ dec_digits n @ '' '' @ u @ NL # rest)"
  shows "memTotal h = int n * 1024"
proof -
  let ?v = "replicate k CHR 0x20 @ dec_digits n @ CHR 0x20 # u @ [NL]"
  have dd: "dec_digits n \<noteq> []" "list_all is_digit (dec_digits n)" by (simp_all add: dec_digits_all_digits)
  then have hd: "is_digit (hd (dec_digits n))" by (cases "dec_digits n") auto
  then have "hd (dec_digits n @ CHR 0x20 # u @ [NL]) \<notin> space_head_bytes"
    using dd(1) by (auto simp: space_head_bytes_eq is_digit_def less_eq_char_def)
  then have st: "strip space_runes ?v = dec_digits n @ CHR 0x20 # u @ [NL]" using strip_blanks dd(1) by simp
  obtain c t where ct: "dec_digits n @ CHR 0x20 # u @ [NL] = c # t" using dd(1) by (cases "dec_digits n") auto
  have f: "\<exists>fs. Fields ?v = dec_digits n # fs"
    using field_head_digits [OF dd(2), of "u @ [NL]"] st by (subst Fields.simps) (simp add: ct)
  have nl: "NL \<notin> set (''MemTotal:'' @ replicate k CHR 0x20 @ dec_digits n @ '' '' @ u)"
    using assms(2) dd(2) by (auto simp: list_all_iff is_digit_def less_eq_char_def)
  have "read_lines (''MemTotal:'' @ replicate k CHR 0x20 @ dec_digits n @ '' '' @ u @ NL # rest) = (''MemTotal:'' @ ?v) # read_lines rest"
    using read_lines_line [OF nl, of rest] by simp
  moreover have "Atoi (dec_digits n) = Some (int n)" using Atoi_Itoa [of "int n"] assms(1) by (simp add: Itoa_def)
  moreover have "sint (word_of_int (int n) * 1024 :: 64 word) = int n * 1024"
  proof -
    have "(word_of_int (int n) * 1024 :: 64 word) = word_of_int (int n * 1024)" by simp
    then show ?thesis using assms(1) by (simp only: sint_sbintrunc') (simp add: signed_take_bit_int_eq_self)
  qed
  ultimately show ?thesis using f assms(3) by (auto simp: memTotal_def HasPrefix_def TrimPrefix_def)
qed

end
