(* ===== verification/Cni_Inspect.thy ===== *)
theory Cni_Inspect
  imports Api_Responses
begin

text \<open>
  \<^verbatim>\<open>internal/adapters/cni/inspect.go\<close>: the network settings of a container as the network
  adapter builds them, with an error for everything that cannot be shown. The inspect handler of
  \<^verbatim>\<open>internal/api\<close> has a lenient version of its own; the two agree wherever the strict one
  succeeds on the bindings the service stores. A nil map and an empty one are the same value here:
  without bindings or networks the adapter has empty maps where the handler may have nil ones.
\<close>

section \<open>inspect.go\<close>

text \<open>The text of a failed address or hardware address is not modelled, only that it is one.\<close>

fun published_loop :: "port_from \<Rightarrow> port_binding list \<Rightarrow> (port, port_entry list) gomap \<Rightarrow> gerror + (port, port_entry list) gomap" where
  "published_loop PortFrom [] ports = Inr ports"
| "published_loop PortFrom (b # bs) ports =
    (if pb_HostPort b = 0
     then Inl (wrap_pre (''container port '' @ dec_digits (unat (pb_ContainerPort b)) @ ''/'' @ pb_Protocol b @ '': '') (Sentinel (Cni ErrUnallocatedPort)))
     else case normalizeProtocol (pb_Protocol b) of
       Inl e \<Rightarrow> Inl e
     | Inr protocol \<Rightarrow> (case PortFrom (pb_ContainerPort b) protocol of
         None \<Rightarrow> Inl (NewErr (''cni: invalid container port '' @ dec_digits (unat (pb_ContainerPort b)) @ ''/'' @ protocol))
       | Some p \<Rightarrow> (case ParseAddr (normalizeHostIP (pb_HostIP b)) of
           None \<Rightarrow> Inl (NewErr (''cni: invalid host ip '' @ quote (pb_HostIP b)))
         | Some hostIP \<Rightarrow> published_loop PortFrom bs
             (put p (get_or [] ports p @ [\<lparr>pt_HostIP = Some hostIP, pt_HostPort = Itoa (int (unat (pb_HostPort b)))\<rparr>]) ports))))"

definition PublishedPorts :: "port_from \<Rightarrow> port_binding list \<Rightarrow> gerror + (port, port_entry list) gomap" where
  "PublishedPorts PortFrom bindings = published_loop PortFrom bindings []"

definition parse_field :: "string \<Rightarrow> gerror + addr option" where
  "parse_field source = (if source = [] then Inr None
     else case ParseAddr source of None \<Rightarrow> Inl (NewErr (''cni: endpoint address '' @ quote source)) | Some a \<Rightarrow> Inr (Some a))"

definition endpointSettings :: "network_attachment \<Rightarrow> gerror + endpoint_settings" where
  "endpointSettings a = (case parse_field (na_IPAddress a) of
     Inl e \<Rightarrow> Inl e
   | Inr ip \<Rightarrow> (case parse_field (na_Gateway a) of
       Inl e \<Rightarrow> Inl e
     | Inr gateway \<Rightarrow> (case parse_field (na_GlobalIPv6Address a) of
         Inl e \<Rightarrow> Inl e
       | Inr ip6 \<Rightarrow>
          (case (if na_MACAddress a = [] then Some [] else ParseMAC (na_MACAddress a)) of
             None \<Rightarrow> Inl (NewErr (''cni: endpoint mac '' @ quote (na_MACAddress a)))
           | Some hardware \<Rightarrow> Inr \<lparr>es_NetworkID = na_NetworkID a, es_Aliases = na_Aliases a, es_IPAddress = ip,
               es_IPPrefixLen = na_IPPrefixLen a, es_Gateway = gateway, es_GlobalIPv6Address = ip6,
               es_GlobalIPv6PrefixLen = na_GlobalIPv6PrefixLen a, es_MacAddress = hardware\<rparr>))))"

fun networks_loop :: "network_attachment list \<Rightarrow> (string, endpoint_settings) gomap \<Rightarrow> gerror + (string, endpoint_settings) gomap" where
  "networks_loop [] m = Inr m"
| "networks_loop (a # as) m = (case endpointSettings a of
     Inl e \<Rightarrow> Inl e | Inr endpoint \<Rightarrow> networks_loop as (put (na_Name a) endpoint m))"

record network_settings =
  ns_Ports :: "(port, port_entry list) gomap"
  ns_Networks :: "(string, endpoint_settings) gomap"

definition SynthesizeSettings :: "port_from \<Rightarrow> network_attachment list \<Rightarrow> port_binding list \<Rightarrow> gerror + network_settings" where
  "SynthesizeSettings PortFrom attachments ports = (case PublishedPorts PortFrom ports of
     Inl e \<Rightarrow> Inl e
   | Inr portMap \<Rightarrow> (case networks_loop attachments [] of
       Inl e \<Rightarrow> Inl e | Inr networks \<Rightarrow> Inr \<lparr>ns_Ports = portMap, ns_Networks = networks\<rparr>))"

section \<open>Agreement with the handler\<close>

text \<open>A binding as the service stores it: a container port and the normalised address of the allocator.\<close>

definition stored_binding :: "port_binding \<Rightarrow> bool" where
  "stored_binding b \<longleftrightarrow> pb_ContainerPort b \<noteq> 0 \<and> normalizeHostIP (pb_HostIP b) = pb_HostIP b"

lemma stored_binding_ip: "stored_binding b \<Longrightarrow> pb_HostIP b \<noteq> []"
  by (auto simp: stored_binding_def normalizeHostIP_def split: if_splits)

lemma normalize_protocols: "normalizeProtocol p = Inr q \<Longrightarrow> normalizeBindingProtocol p = q"
  by (auto simp: normalizeProtocol_def normalizeBindingProtocol_def Let_def split: if_splits)

lemma published_loop_agrees:
  assumes "list_all stored_binding bs" and "published_loop pf bs m = Inr r"
  shows "r = foldl (\<lambda>m b. case binding_key pf b of None \<Rightarrow> m | Some p \<Rightarrow> put p (get_or [] m p @ [binding_entry b]) m) m bs"
  using assms
proof (induction bs arbitrary: m)
  case (Cons b bs)
  from Cons.prems(2) obtain q p ip where h: "pb_HostPort b \<noteq> 0" "normalizeProtocol (pb_Protocol b) = Inr q"
      "pf (pb_ContainerPort b) q = Some p" "ParseAddr (normalizeHostIP (pb_HostIP b)) = Some ip"
      "published_loop pf bs (put p (get_or [] m p @ [\<lparr>pt_HostIP = Some ip, pt_HostPort = Itoa (int (unat (pb_HostPort b)))\<rparr>]) m) = Inr r"
    by (auto split: if_splits sum.splits option.splits)
  have b: "stored_binding b" using Cons.prems(1) by simp
  have "binding_key pf b = Some p" using b h normalize_protocols [OF h(2)] by (simp add: binding_key_def stored_binding_def)
  moreover have "binding_entry b = \<lparr>pt_HostIP = Some ip, pt_HostPort = Itoa (int (unat (pb_HostPort b)))\<rparr>"
    using b h(4) stored_binding_ip [OF b] by (simp add: binding_entry_def setAddr_def stored_binding_def)
  ultimately show ?case using Cons.IH [OF _ h(5)] Cons.prems(1) by simp
qed simp

lemma parse_field_setAddr: "parse_field s = Inr a \<Longrightarrow> setAddr s = a"
  by (auto simp: parse_field_def setAddr_def split: if_splits option.splits)

lemma endpointSettings_agrees: "endpointSettings a = Inr e \<Longrightarrow> endpoint_of a = e"
  by (auto simp: endpointSettings_def endpoint_of_def dest!: parse_field_setAddr split: sum.splits option.splits if_splits)

lemma networks_loop_agrees:
  assumes "list_all (\<lambda>a. na_Name a \<noteq> []) as" and "networks_loop as m = Inr r"
  shows "r = foldl (\<lambda>m a. if na_Name a = [] then m else put (na_Name a) (endpoint_of a) m) m as"
  using assms by (induction as arbitrary: m) (auto simp: endpointSettings_agrees split: sum.splits)

text \<open>
  C25: the two renderings of the network settings agree. For every container whose bindings are as the
  service stores them and whose networks have names, whenever the adapter can build the settings at
  all, the inspect response shows the same ports and the same networks.
\<close>

theorem network_settings_agree:
  assumes "SynthesizeSettings pf (c_Networks item) (c_PortBindings item) = Inr settings"
    and "list_all stored_binding (c_PortBindings item)" and "list_all (\<lambda>a. na_Name a \<noteq> []) (c_Networks item)"
  shows "ci_Ports (containerInspectResponse pf dec item) = ns_Ports settings
    \<and> ci_Networks (containerInspectResponse pf dec item) = ns_Networks settings"
proof -
  from assms(1) obtain p n where "PublishedPorts pf (c_PortBindings item) = Inr p" "networks_loop (c_Networks item) [] = Inr n"
    "settings = \<lparr>ns_Ports = p, ns_Networks = n\<rparr>"
    by (auto simp: SynthesizeSettings_def split: sum.splits)
  with published_loop_agrees [OF assms(2)] networks_loop_agrees [OF assms(3)] show ?thesis
    by (simp add: PublishedPorts_def containerInspectResponse_def portMapFromBindings_def endpointSettingsMap_def)
qed

definition published_item :: container where
  "published_item = zero_container\<lparr>
     c_PortBindings := [\<lparr>pb_ContainerPort = 80, pb_Protocol = ''tcp'', pb_HostIP = ''0.0.0.0'', pb_HostPort = 4096\<rparr>],
     c_Networks := [\<lparr>na_NetworkID = ''n1'', na_Name = ''bridge'', na_EndpointID = [], na_IPAddress = ''10.88.0.2'', na_IPPrefixLen = 24,
       na_Gateway = ''10.88.0.1'', na_GlobalIPv6Address = [], na_GlobalIPv6PrefixLen = 0, na_MACAddress = ''02:42:0a:58:00:02'', na_Aliases = []\<rparr>]\<rparr>"

theorem network_settings_agree_witness:
  "\<exists>settings. SynthesizeSettings (\<lambda>n p. Some (n, p)) (c_Networks published_item) (c_PortBindings published_item) = Inr settings
     \<and> ci_Ports (containerInspectResponse (\<lambda>n p. Some (n, p)) (\<lambda>raw. None) published_item) = ns_Ports settings
     \<and> ci_Networks (containerInspectResponse (\<lambda>n p. Some (n, p)) (\<lambda>raw. None) published_item) = ns_Networks settings"
proof -
  have "is_ok (SynthesizeSettings (\<lambda>n p. Some (n, p)) (c_Networks published_item) (c_PortBindings published_item))"
    "list_all stored_binding (c_PortBindings published_item)" "list_all (\<lambda>a. na_Name a \<noteq> []) (c_Networks published_item)"
    by code_simp+
  then show ?thesis using network_settings_agree by (auto simp: is_ok_iff simp del: split_paired_Ex)
qed

end
