(* ===== verification/Reconcile.thy ===== *)
theory Reconcile
  imports Registry
begin

text \<open>
  \<^verbatim>\<open>internal/domain/reconcile.go\<close> and the startup path of
  \<^verbatim>\<open>cmd/dockerdless/reconciliation.go\<close>: the containers recovered from containerd's metadata
  are merged with the task snapshots of the runtime and saved in the registry. Reading the
  snapshot is third-party client code; the loader is the argument of
  \<open>reconcileAtStartup\<close> it also is in the Go source.
\<close>

section \<open>Reconcile\<close>

record task_snapshot =
  ts_ID :: container_id
  ts_ContainerID :: container_id
  ts_Status :: string
  ts_ExitCode :: int
  ts_OOMKilled :: bool
  ts_Error :: string
  ts_StartedAt :: gotime
  ts_FinishedAt :: gotime

record reconcile_result =
  rr_Containers :: "container list"
  rr_Stale :: "container_id list"
  rr_Cleanup :: "container_id list"

abbreviation invalid_task :: "string \<Rightarrow> gerror" where
  "invalid_task s \<equiv> wrap_post (Sentinel (Dom ErrInvalidTaskSnapshot)) s"

definition taskIdentity :: "task_snapshot \<Rightarrow> gerror + container_id" where
  "taskIdentity t =
    (if ts_ContainerID t \<noteq> [] \<and> ts_ID t \<noteq> [] \<and> ts_ContainerID t \<noteq> ts_ID t
     then Inl (invalid_task '': task IDs disagree'')
     else if ts_ContainerID t \<noteq> [] then Inr (ts_ContainerID t)
     else if ts_ID t \<noteq> [] then Inr (ts_ID t)
     else Inl (invalid_task '': task identity is empty''))"

text \<open>The Docker state and the dead flag of a task status, or none for an unsupported one.\<close>

definition task_state :: "string \<Rightarrow> (string \<times> bool) option" where
  "task_state st =
    (if st = ''created'' then Some (ContainerStateCreated, False)
     else if st = ''running'' then Some (ContainerStateRunning, False)
     else if st = ''paused'' then Some (ContainerStatePaused, False)
     else if st = ''restarting'' then Some (ContainerStateRestarting, False)
     else if st = ''stopped'' \<or> st = ''exited'' then Some (ContainerStateExited, False)
     else if st = ''dead'' then Some (ContainerStateDead, True)
     else None)"

definition applyTask :: "container \<Rightarrow> task_snapshot \<Rightarrow> gerror + container" where
  "applyTask c0 t =
    (let c1 = c0\<lparr>c_ExitCode := ts_ExitCode t, c_OOMKilled := ts_OOMKilled t, c_Error := ts_Error t,
           c_StartedAt := ts_StartedAt t, c_FinishedAt := ts_FinishedAt t\<rparr>;
         c = (if \<not> IsZero (ts_FinishedAt t) then c1\<lparr>c_UpdatedAt := ts_FinishedAt t\<rparr> else c1)
     in case task_state (ts_Status t) of
          Some (st, dead) \<Rightarrow> Inr (c\<lparr>c_State := st, c_Dead := dead\<rparr>)
        | None \<Rightarrow> Inl (invalid_task ('': unsupported task status '' @ quote (ts_Status t))))"

text \<open>The first loop: IDs must be present and distinct.\<close>

fun check_metadata :: "container_id list \<Rightarrow> container list \<Rightarrow> gerror option" where
  "check_metadata seen [] = None"
| "check_metadata seen (c # cs) =
    (if c_ID c = [] then Some (wrap_pre ''metadata: '' (Sentinel (Dom ErrEmptyIdentity)))
     else if c_ID c \<in> set seen
     then Some (wrap_pre (''metadata '' @ c_ID c @ '': '') (Sentinel (Dom ErrDuplicateContainerMetadata)))
     else check_metadata (c_ID c # seen) cs)"

text \<open>The second loop: the tasks by identity.\<close>

fun index_tasks :: "(container_id, task_snapshot) gomap \<Rightarrow> task_snapshot list \<Rightarrow>
    gerror + (container_id, task_snapshot) gomap" where
  "index_tasks m [] = Inr m"
| "index_tasks m (t # ts) = (case taskIdentity t of Inl e \<Rightarrow> Inl e
     | Inr i \<Rightarrow> if get m i \<noteq> None
         then Inl (wrap_pre (''task '' @ i @ '': '') (Sentinel (Dom ErrDuplicateTaskSnapshot)))
         else index_tasks (put i (t\<lparr>ts_ContainerID := i\<rparr>) m) ts)"

text \<open>The third loop: every container gets its task's state, or counts as exited and stale.\<close>

fun merge_tasks :: "(container_id, task_snapshot) gomap \<Rightarrow> container list \<Rightarrow> reconcile_result \<Rightarrow>
    gerror + (reconcile_result \<times> (container_id, task_snapshot) gomap)" where
  "merge_tasks m [] res = Inr (res, m)"
| "merge_tasks m (c # cs) res = (case get m (c_ID c) of
     None \<Rightarrow>
       let c' = c\<lparr>c_State := ContainerStateExited, c_Dead := False\<rparr>
       in merge_tasks m cs (res\<lparr>rr_Stale := rr_Stale res @ [c_ID c],
            rr_Containers := rr_Containers res @ [fill_image c']\<rparr>)
   | Some t \<Rightarrow> (case applyTask c t of
       Inl e \<Rightarrow> Inl (wrap_pre (''container '' @ c_ID c @ '': '') e)
     | Inr c' \<Rightarrow> merge_tasks (del (c_ID c) m) cs
         (res\<lparr>rr_Containers := rr_Containers res @ [fill_image c']\<rparr>)))"

definition Reconcile :: "container list \<Rightarrow> task_snapshot list \<Rightarrow> gerror + reconcile_result" where
  "Reconcile metadata tasks = (case check_metadata [] metadata of Some e \<Rightarrow> Inl e
     | None \<Rightarrow> (case index_tasks [] tasks of Inl e \<Rightarrow> Inl e
       | Inr m \<Rightarrow> (case merge_tasks m metadata \<lparr>rr_Containers = [], rr_Stale = [], rr_Cleanup = []\<rparr> of
           Inl e \<Rightarrow> Inl e
         | Inr (res, rest) \<Rightarrow> Inr (res\<lparr>rr_Cleanup := sort (map fst rest)\<rparr>))))"

section \<open>Startup\<close>

definition recovered_topic :: "string \<Rightarrow> string" where
  "recovered_topic st =
    (if st = ContainerStateRunning then ''/tasks/start''
     else if st = ContainerStateExited \<or> st = ContainerStateDead then ''/tasks/exit''
     else [])"

text \<open>
  The registry after startup, the log lines for recovered containers (ID, state and Docker action)
  and the error, if any. A failing save leaves what was saved before.
\<close>

fun save_recovered :: "ctx \<Rightarrow> container list \<Rightarrow> registry \<Rightarrow> (string \<times> string \<times> string) list \<Rightarrow>
    registry \<times> (string \<times> string \<times> string) list \<times> gerror option" where
  "save_recovered ctx [] r logged = (r, logged, None)"
| "save_recovered ctx (c # cs) r logged = (case Save ctx c r of
     Inl e \<Rightarrow> (r, logged, Some (wrap_pre (''save recovered container '' @ c_ID c @ '': '') e))
   | Inr r' \<Rightarrow> (case LookupDockerAction (recovered_topic (c_State c)) of (action, found) \<Rightarrow>
       save_recovered ctx cs r'
         (if found then logged @ [(c_ID c, c_State c, action)] else logged)))"

definition reconcileAtStartup ::
  "ctx \<Rightarrow> registry \<Rightarrow> gerror + (container list \<times> task_snapshot list) \<Rightarrow>
    registry \<times> (string \<times> string \<times> string) list \<times> gerror option" where
  "reconcileAtStartup ctx r load = (case load of Inl e \<Rightarrow> (r, [], Some e)
     | Inr (metadata, tasks) \<Rightarrow> (case Reconcile metadata tasks of
         Inl e \<Rightarrow> (r, [], Some e)
       | Inr res \<Rightarrow> save_recovered ctx (rr_Containers res) r []))"

text \<open>\<^verbatim>\<open>digestFromReference\<close>: what follows the last at sign, if anything does.\<close>

definition digestFromReference :: "image_id \<Rightarrow> image_id" where
  "digestFromReference img =
    (if CHR ''@'' \<in> set img then rev (takeWhile (\<lambda>c. c \<noteq> CHR ''@'') (rev img)) else [])"

text \<open>
  \<^verbatim>\<open>restoredContainer\<close>; the JSON decoder of the command label is the parameter
  \<open>decode_command\<close>.
\<close>

definition restoredContainer ::
  "(string \<Rightarrow> gerror + string list) \<Rightarrow> string \<Rightarrow> string \<Rightarrow> (string, string) gomap \<Rightarrow>
    gotime \<Rightarrow> gotime \<Rightarrow> gerror + container" where
  "restoredContainer decode_command i img labels createdAt updatedAt =
    (let label_digest = get_or [] labels ''io.dockerdless.image-digest'';
         digest = (if label_digest = [] then digestFromReference img else label_digest);
         raw = get_or [] labels ''io.dockerdless.command''
     in case (if raw \<noteq> [] then decode_command raw else Inr []) of
          Inl e \<Rightarrow> Inl (wrap_pre (''decode command label for container '' @ i @ '': '') e)
        | Inr command \<Rightarrow> Inr (zero_container\<lparr>c_ID := i,
            c_Name := get_or [] labels ''io.dockerdless.name'',
            c_Spec := zero_spec\<lparr>cs_Image := img, cs_Command := command\<rparr>,
            c_ImageReference := img, c_ImageDigest := digest, c_Labels := labels,
            c_CreatedAt := createdAt, c_UpdatedAt := updatedAt\<rparr>))"

section \<open>Facts about the loops\<close>

lemma check_metadata_None:
  "check_metadata seen cs = None \<longleftrightarrow>
     list_all (\<lambda>c. c_ID c \<noteq> []) cs \<and> distinct (map c_ID cs) \<and> set (map c_ID cs) \<inter> set seen = {}"
  by (induction cs arbitrary: seen) auto

lemma applyTask_Inr:
  "applyTask c t = Inr c' \<Longrightarrow> c_ID c' = c_ID c \<and> c_Name c' = c_Name c
     \<and> task_state (ts_Status t) = Some (c_State c', c_Dead c')"
  by (auto simp: applyTask_def Let_def split: option.splits if_splits)

lemma applyTask_Inr_iff:
  "(\<exists>c'. applyTask c t = Inr c') \<longleftrightarrow> task_state (ts_Status t) \<noteq> None"
  by (auto simp: applyTask_def Let_def split: option.splits)

lemma task_state_docker: "task_state st = Some (s, d) \<Longrightarrow> IsDockerState s \<and> (d \<longleftrightarrow> s = ContainerStateDead)"
  by (auto simp: task_state_def IsDockerState_def split: if_splits)

text \<open>The task of a container: the one snapshot that identifies it.\<close>

definition task_of :: "task_snapshot list \<Rightarrow> container_id \<Rightarrow> task_snapshot option" where
  "task_of ts i = map_option (\<lambda>t. t\<lparr>ts_ContainerID := i\<rparr>) (find (\<lambda>t. taskIdentity t = Inr i) ts)"

lemma index_tasks_Inr:
  assumes "index_tasks m ts = Inr m'"
  shows "\<forall>t\<in>set ts. \<exists>i. taskIdentity t = Inr i \<and> get m i = None"
    and "get m' i = (case task_of ts i of Some t \<Rightarrow> Some t | None \<Rightarrow> get m i)"
    and "distinct (map taskIdentity ts)"
    and "gomap_ok m \<Longrightarrow> gomap_ok m'"
proof -
  have "(\<forall>t\<in>set ts. \<exists>i. taskIdentity t = Inr i \<and> get m i = None)
    \<and> (\<forall>i. get m' i = (case task_of ts i of Some t \<Rightarrow> Some t | None \<Rightarrow> get m i))
    \<and> distinct (map taskIdentity ts) \<and> (gomap_ok m \<longrightarrow> gomap_ok m')"
    using assms
  proof (induction ts arbitrary: m)
    case Nil
    then show ?case by (simp add: task_of_def)
  next
    case (Cons t ts)
    then obtain j where j: "taskIdentity t = Inr j" "get m j = None"
      "index_tasks (put j (t\<lparr>ts_ContainerID := j\<rparr>) m) ts = Inr m'"
      by (auto split: sum.splits if_splits)
    note IH = Cons.IH [OF j(3)]
    have other: "taskIdentity u \<noteq> Inr j \<and> (\<exists>i. taskIdentity u = Inr i \<and> get m i = None)"
      if "u \<in> set ts" for u
      using IH that by (auto split: if_splits)
    then have none: "find (\<lambda>u. taskIdentity u = Inr j) ts = None"
      by (auto simp: find_None_iff)
    have "get m' i = (case task_of (t # ts) i of Some t \<Rightarrow> Some t | None \<Rightarrow> get m i)" for i
      using IH j(1) none by (cases "i = j") (auto simp: task_of_def split: option.split)
    with IH j(1,2) other show ?case by (auto simp: image_iff)
  qed
  then show "\<forall>t\<in>set ts. \<exists>i. taskIdentity t = Inr i \<and> get m i = None"
    and "get m' i = (case task_of ts i of Some t \<Rightarrow> Some t | None \<Rightarrow> get m i)"
    and "distinct (map taskIdentity ts)"
    and "gomap_ok m \<Longrightarrow> gomap_ok m'"
    by blast+
qed

text \<open>
  What reconciliation does with one container: the state its task reports, or exited when it has
  none. \<open>tasks\<close> is the task map at the start of the merge.
\<close>

definition merged :: "(container_id, task_snapshot) gomap \<Rightarrow> container \<Rightarrow> container \<Rightarrow> bool" where
  "merged m c c' \<longleftrightarrow> (case get m (c_ID c) of
     None \<Rightarrow> c' = fill_image (c\<lparr>c_State := ContainerStateExited, c_Dead := False\<rparr>)
   | Some t \<Rightarrow> (\<exists>d. applyTask c t = Inr d \<and> c' = fill_image d))"

lemma merged_None:
  "get m (c_ID c) = None \<Longrightarrow>
    merged m c (fill_image (c\<lparr>c_State := ContainerStateExited, c_Dead := False\<rparr>))"
  by (simp add: merged_def)

lemma merged_Some: "get m (c_ID c) = Some t \<Longrightarrow> applyTask c t = Inr d \<Longrightarrow> merged m c (fill_image d)"
  by (simp add: merged_def)

lemma merge_tasks_Inr:
  assumes "merge_tasks m cs res = Inr (res', rest)" and "distinct (map c_ID cs)"
  shows "\<exists>out. rr_Containers res' = rr_Containers res @ out \<and> list_all2 (merged m) cs out
    \<and> rr_Stale res' = rr_Stale res @ filter (\<lambda>i. get m i = None) (map c_ID cs)
    \<and> get rest = (\<lambda>i. if i \<in> set (map c_ID cs) then None else get m i)
    \<and> (gomap_ok m \<longrightarrow> gomap_ok rest)"
  using assms
proof (induction cs arbitrary: m res)
  case Nil
  then show ?case by simp
next
  case (Cons c cs)
  have later: "c_ID d \<noteq> c_ID c" if "d \<in> set cs" for d
    using distinct_map_head [OF Cons.prems(2) that] .
  show ?case
  proof (cases "get m (c_ID c)")
    case None
    from None Cons.prems obtain out where
      "rr_Containers res' = (rr_Containers res
        @ [fill_image (c\<lparr>c_State := ContainerStateExited, c_Dead := False\<rparr>)]) @ out"
      "list_all2 (merged m) cs out"
      "rr_Stale res' = (rr_Stale res @ [c_ID c]) @ filter (\<lambda>i. get m i = None) (map c_ID cs)"
      "get rest = (\<lambda>i. if i \<in> set (map c_ID cs) then None else get m i)"
      "gomap_ok m \<longrightarrow> gomap_ok rest"
      using Cons.IH by (fastforce simp: Let_def)
    with None show ?thesis
      by (intro exI [of _ "fill_image (c\<lparr>c_State := ContainerStateExited, c_Dead := False\<rparr>) # out"])
        (auto intro: merged_None)
  next
    case (Some t)
    from Some Cons.prems obtain d where d: "applyTask c t = Inr d"
      "merge_tasks (del (c_ID c) m) cs (res\<lparr>rr_Containers := rr_Containers res @ [fill_image d]\<rparr>)
        = Inr (res', rest)"
      by (auto split: sum.splits)
    from Cons.IH [OF d(2)] Cons.prems(2) obtain out where
      out: "rr_Containers res' = (rr_Containers res @ [fill_image d]) @ out"
      "list_all2 (merged (del (c_ID c) m)) cs out"
      "rr_Stale res' = rr_Stale res @ filter (\<lambda>i. get (del (c_ID c) m) i = None) (map c_ID cs)"
      "get rest = (\<lambda>i. if i \<in> set (map c_ID cs) then None else get (del (c_ID c) m) i)"
      "gomap_ok (del (c_ID c) m) \<longrightarrow> gomap_ok rest"
      by auto
    have "list_all2 (merged m) cs out"
      using out(2) by (rule list.rel_mono_strong) (auto simp: merged_def later)
    moreover have "filter (\<lambda>i. get (del (c_ID c) m) i = None) (map c_ID cs)
        = filter (\<lambda>i. get m i = None) (map c_ID cs)"
      using later by (intro filter_cong) auto
    ultimately show ?thesis
      using Some d(1) out
      by (intro exI [of _ "fill_image d # out"]) (auto intro: merged_Some)
  qed
qed

section \<open>Reconciliation\<close>

lemma merged_same: "merged m c c' \<Longrightarrow> c_ID c' = c_ID c \<and> c_Name c' = c_Name c"
  by (auto simp: merged_def dest: applyTask_Inr split: option.splits)

lemma merged_state:
  assumes "merged m c c'"
  shows "(case get m (c_ID c) of None \<Rightarrow> c_State c' = ContainerStateExited \<and> \<not> c_Dead c'
     | Some t \<Rightarrow> task_state (ts_Status t) = Some (c_State c', c_Dead c'))"
  using assms by (auto simp: merged_def dest: applyTask_Inr split: option.splits)

lemma list_all2_map_eq:
  "list_all2 P xs ys \<Longrightarrow> (\<And>x y. P x y \<Longrightarrow> f y = f x) \<Longrightarrow> map f ys = map f xs"
  by (induction rule: list_all2_induct) auto

text \<open>The successful run, in terms of the snapshot list only.\<close>

lemma Reconcile_InrD:
  assumes "Reconcile metadata tasks = Inr res"
  obtains m where "index_tasks [] tasks = Inr m" and "get m = task_of tasks"
    and "list_all2 (merged m) metadata (rr_Containers res)"
    and "rr_Stale res = filter (\<lambda>i. task_of tasks i = None) (map c_ID metadata)"
    and "set (rr_Cleanup res) = {i. task_of tasks i \<noteq> None} - set (map c_ID metadata)"
    and "sorted_wrt (<) (rr_Cleanup res)"
    and "list_all (\<lambda>c. c_ID c \<noteq> []) metadata" and "distinct (map c_ID metadata)"
proof -
  from assms obtain m res' rest where
    c: "check_metadata [] metadata = None" and i: "index_tasks [] tasks = Inr m"
    and g: "merge_tasks m metadata \<lparr>rr_Containers = [], rr_Stale = [], rr_Cleanup = []\<rparr> = Inr (res', rest)"
    and r: "res = res'\<lparr>rr_Cleanup := sort (map fst rest)\<rparr>"
    by (auto simp: Reconcile_def split: option.splits sum.splits)
  from c have ids: "list_all (\<lambda>c. c_ID c \<noteq> []) metadata" "distinct (map c_ID metadata)"
    by (simp_all add: check_metadata_None)
  have m: "get m = task_of tasks"
    using index_tasks_Inr(2) [OF i] by (auto split: option.split)
  from merge_tasks_Inr [OF g ids(2)] index_tasks_Inr(4) [OF i] have
    "list_all2 (merged m) metadata (rr_Containers res')"
    "rr_Stale res' = filter (\<lambda>i. get m i = None) (map c_ID metadata)"
    and rest: "get rest = (\<lambda>i. if i \<in> set (map c_ID metadata) then None else get m i)"
    "gomap_ok rest"
    by auto
  moreover have "set (map fst rest) = dom (get rest)"
    by (simp add: dom_map_of_conv_image_fst)
  then have "set (rr_Cleanup res) = {i. task_of tasks i \<noteq> None} - set (map c_ID metadata)"
    by (auto simp: r rest(1) m split: if_splits)
  moreover have "sorted_wrt (<) (rr_Cleanup res)"
    using rest(2) by (simp add: r strict_sorted_iff)
  ultimately show ?thesis
    using that [OF i m] ids by (simp add: r m)
qed

text \<open>
  C33: a successful reconciliation keeps the containers of the metadata in order with their names,
  gives every one a state Docker knows (the state its task reports, exited when it has none, dead
  exactly with the dead flag), lists as stale exactly the containers without a task, and as
  cleanup, sorted and without duplicates, exactly the tasks without a container.
\<close>

theorem Reconcile_spec:
  assumes "Reconcile metadata tasks = Inr res"
  shows "map c_ID (rr_Containers res) = map c_ID metadata
    \<and> map c_Name (rr_Containers res) = map c_Name metadata
    \<and> (\<forall>c\<in>set (rr_Containers res). IsDockerState (c_State c)
         \<and> (case task_of tasks (c_ID c) of
              None \<Rightarrow> c_State c = ContainerStateExited \<and> \<not> c_Dead c
            | Some t \<Rightarrow> task_state (ts_Status t) = Some (c_State c, c_Dead c)))
    \<and> rr_Stale res = filter (\<lambda>i. task_of tasks i = None) (map c_ID metadata)
    \<and> sorted_wrt (<) (rr_Cleanup res)
    \<and> set (rr_Cleanup res) = {i. task_of tasks i \<noteq> None} - set (map c_ID metadata)"
proof (rule Reconcile_InrD [OF assms])
  fix m
  assume m: "get m = task_of tasks" and g: "list_all2 (merged m) metadata (rr_Containers res)"
    and rest: "rr_Stale res = filter (\<lambda>i. task_of tasks i = None) (map c_ID metadata)"
    "set (rr_Cleanup res) = {i. task_of tasks i \<noteq> None} - set (map c_ID metadata)"
    "sorted_wrt (<) (rr_Cleanup res)"
  have st: "case task_of tasks (c_ID c') of
        None \<Rightarrow> c_State c' = ContainerStateExited \<and> \<not> c_Dead c'
      | Some t \<Rightarrow> task_state (ts_Status t) = Some (c_State c', c_Dead c')"
    if "c' \<in> set (rr_Containers res)" for c'
  proof -
    from that g obtain c where "merged m c c'"
      by (metis in_set_conv_nth list_all2_conv_all_nth)
    with merged_state [OF this] merged_same [OF this] m show ?thesis by simp
  qed
  moreover have "IsDockerState (c_State c')" if "c' \<in> set (rr_Containers res)" for c'
    using st [OF that] task_state_docker
    by (cases "task_of tasks (c_ID c')") (auto simp: IsDockerState_def)
  ultimately show ?thesis
    using rest list_all2_map_eq [OF g, of c_ID] list_all2_map_eq [OF g, of c_Name]
    by (auto dest: merged_same)
qed

definition sample_task :: "string \<Rightarrow> string \<Rightarrow> task_snapshot" where
  "sample_task i st = \<lparr>ts_ID = [], ts_ContainerID = i, ts_Status = st, ts_ExitCode = 0,
     ts_OOMKilled = False, ts_Error = [], ts_StartedAt = zero_time, ts_FinishedAt = zero_time\<rparr>"

definition sample_reconcile :: reconcile_result where
  "sample_reconcile = (case Reconcile [sample_container ''a1'' ''web'', sample_container ''b2'' ''db'']
     [sample_task ''b2'' ''running'', sample_task ''c3'' ''running''] of
       Inr r \<Rightarrow> r | Inl e \<Rightarrow> \<lparr>rr_Containers = [], rr_Stale = [], rr_Cleanup = []\<rparr>)"

lemma sample_reconcile_eq:
  "Reconcile [sample_container ''a1'' ''web'', sample_container ''b2'' ''db'']
     [sample_task ''b2'' ''running'', sample_task ''c3'' ''running''] = Inr sample_reconcile"
  by code_simp

theorem Reconcile_spec_witness:
  "map c_ID (rr_Containers sample_reconcile) = [''a1'', ''b2'']
   \<and> rr_Stale sample_reconcile = [''a1''] \<and> rr_Cleanup sample_reconcile = [''c3'']
   \<and> map c_State (rr_Containers sample_reconcile) = [''exited'', ''running'']"
proof -
  have "rr_Stale sample_reconcile = [''a1''] \<and> rr_Cleanup sample_reconcile = [''c3'']
    \<and> map c_State (rr_Containers sample_reconcile) = [''exited'', ''running'']"
    by code_simp
  with Reconcile_spec [OF sample_reconcile_eq] show ?thesis
    by (simp add: sample_container_def)
qed

lemma merge_tasks_is_ok:
  assumes "distinct (map c_ID cs)"
  shows "is_ok (merge_tasks m cs res) \<longleftrightarrow>
      list_all (\<lambda>c. case get m (c_ID c) of None \<Rightarrow> True
                     | Some t \<Rightarrow> task_state (ts_Status t) \<noteq> None) cs"
  using assms
proof (induction cs arbitrary: m res)
  case Nil
  then show ?case by simp
next
  case (Cons c cs)
  have d: "list_all (\<lambda>d. case get (del (c_ID c) m) (c_ID d) of None \<Rightarrow> True
         | Some t \<Rightarrow> task_state (ts_Status t) \<noteq> None) cs
      \<longleftrightarrow> list_all (\<lambda>d. case get m (c_ID d) of None \<Rightarrow> True
         | Some t \<Rightarrow> task_state (ts_Status t) \<noteq> None) cs"
    using distinct_map_head [OF Cons.prems] by (auto simp: list_all_iff)
  show ?case
  proof (cases "get m (c_ID c)")
    case None
    with Cons show ?thesis by (simp add: Let_def)
  next
    case (Some t)
    with Cons d applyTask_Inr_iff [of c t] show ?thesis
      by (cases "applyTask c t") auto
  qed
qed

lemma index_tasks_is_ok:
  "is_ok (index_tasks m ts) \<longleftrightarrow> list_all (\<lambda>t. is_ok (taskIdentity t)) ts
      \<and> distinct (map taskIdentity ts) \<and> (\<forall>t\<in>set ts. \<forall>i. taskIdentity t = Inr i \<longrightarrow> get m i = None)"
proof (induction ts arbitrary: m)
  case Nil
  then show ?case by simp
next
  case (Cons t ts)
  show ?case
  proof (cases "taskIdentity t")
    case (Inl e)
    then show ?thesis by simp
  next
    case (Inr b)
    have "taskIdentity t \<notin> set (map taskIdentity ts) \<longleftrightarrow> (\<forall>u\<in>set ts. taskIdentity u \<noteq> Inr b)"
      using Inr by force
    moreover have "(\<forall>u\<in>set ts. \<forall>i. taskIdentity u = Inr i \<longrightarrow>
          get (put b (t\<lparr>ts_ContainerID := b\<rparr>) m) i = None)
        \<longleftrightarrow> (\<forall>u\<in>set ts. taskIdentity u \<noteq> Inr b)
          \<and> (\<forall>u\<in>set ts. \<forall>i. taskIdentity u = Inr i \<longrightarrow> get m i = None)" if "get m b = None"
      using that by (auto split: if_splits)
    ultimately show ?thesis
      using Inr Cons.IH [of "put b (t\<lparr>ts_ContainerID := b\<rparr>) m"] by (cases "get m b") auto
  qed
qed

text \<open>
  Reconciliation fails exactly for the reasons the code names: a container without an ID or
  two with the same, a snapshot without a usable identity or two with the same, or a container
  whose task reports a status outside Docker's vocabulary.
\<close>

theorem Reconcile_succeeds_iff:
  "is_ok (Reconcile metadata tasks) \<longleftrightarrow>
     list_all (\<lambda>c. c_ID c \<noteq> []) metadata \<and> distinct (map c_ID metadata)
     \<and> list_all (\<lambda>t. is_ok (taskIdentity t)) tasks \<and> distinct (map taskIdentity tasks)
     \<and> list_all (\<lambda>c. case task_of tasks (c_ID c) of None \<Rightarrow> True
                     | Some t \<Rightarrow> task_state (ts_Status t) \<noteq> None) metadata"
proof (cases "check_metadata [] metadata = None \<and> is_ok (index_tasks [] tasks)")
  case True
  then obtain t where t: "index_tasks [] tasks = Inr t" by (auto simp: is_ok_iff)
  have g: "get t = task_of tasks"
    using index_tasks_Inr(2) [OF t] by (auto split: option.split)
  have "is_ok (Reconcile metadata tasks)
      \<longleftrightarrow> is_ok (merge_tasks t metadata \<lparr>rr_Containers = [], rr_Stale = [], rr_Cleanup = []\<rparr>)"
    using True t by (auto simp: Reconcile_def is_ok_iff split: sum.split)
  with True g merge_tasks_is_ok show ?thesis
    by (simp add: check_metadata_None index_tasks_is_ok)
next
  case False
  then show ?thesis
    using index_tasks_is_ok [of "[]" tasks]
    by (auto simp: Reconcile_def check_metadata_None is_ok_iff split: option.splits sum.splits)
qed

section \<open>The registry after startup\<close>

text \<open>Startup is the store's save loop, so the contract of the store applies to it.\<close>

abbreviation wrap_recovered :: "container \<Rightarrow> gerror \<Rightarrow> gerror" where
  "wrap_recovered c e \<equiv> wrap_pre (''save recovered container '' @ c_ID c @ '': '') e"

lemma save_recovered_loop:
  "(fst (save_recovered ctx cs r l), snd (snd (save_recovered ctx cs r l)))
     = save_loop (Save ctx) wrap_recovered cs r"
  by (induction cs arbitrary: r l) (auto split: sum.split prod.split)

lemma merged_filled:
  assumes "list_all2 (merged m) cs cs'" and "c \<in> set cs'"
  shows "fill_image c = c"
proof -
  from assms obtain d where "merged m d c"
    by (metis in_set_conv_nth list_all2_conv_all_nth)
  then show ?thesis by (auto simp: merged_def split: option.splits)
qed

lemma names_distinct_cong:
  assumes "map c_ID cs' = map c_ID cs" and "map c_Name cs' = map c_Name cs"
  shows "names_distinct cs' \<longleftrightarrow> names_distinct cs"
proof -
  have "list_all (\<lambda>c. c_ID c \<noteq> []) ds \<longleftrightarrow> [] \<notin> set (map c_ID ds)" for ds
    by (auto simp: list_all_iff image_iff)
  with assms show ?thesis unfolding names_distinct_def by metis
qed

text \<open>
  C34: when the recovered containers carry distinct names, startup succeeds on a fresh registry and
  every recovered container can be read back by its ID, by its name if it has one, and nothing
  else is there.
\<close>

theorem startup_restores_containers:
  assumes rec: "Reconcile metadata tasks = Inr res" and names: "names_distinct metadata"
  shows "case reconcileAtStartup Live NewRegistry (Inr (metadata, tasks)) of
    (r, logged, err) \<Rightarrow> err = None \<and> registry_ok r
      \<and> set (List r) = set (rr_Containers res)
      \<and> (\<forall>c\<in>set (rr_Containers res). Get Live (c_ID c) r = Inr c
           \<and> (c_Name c \<noteq> [] \<longrightarrow> GetByName (c_Name c) r = Inr c))"
proof (rule Reconcile_InrD [OF rec])
  fix m
  assume g: "list_all2 (merged m) metadata (rr_Containers res)"
  let ?cs = "rr_Containers res"
  have nd: "names_distinct ?cs"
    using names names_distinct_cong list_all2_map_eq [OF g] merged_same by metis
  then obtain r where r: "save_loop (Save Live) wrap_recovered ?cs NewRegistry = (r, None)"
    "registry_ok r"
    "get (byID r) = (\<lambda>i. case map_of (map (\<lambda>c. (c_ID c, fill_image c)) ?cs) i of
         Some c \<Rightarrow> Some c | None \<Rightarrow> get (byID NewRegistry) i)"
    using reg.save_loop_all [OF NewRegistry_ok nd, of wrap_recovered]
    by (auto simp: NewRegistry_def)
  have "map (\<lambda>c. (c_ID c, fill_image c)) ?cs = map (\<lambda>c. (c_ID c, c)) ?cs"
    using merged_filled [OF g] by simp
  with r(3) have lk: "get (byID r) = map_of (map (\<lambda>c. (c_ID c, c)) ?cs)"
    by (auto simp: NewRegistry_def split: option.split)
  have dist: "distinct (map fst (map (\<lambda>c. (c_ID c, c)) ?cs))"
    using nd by (simp add: names_distinct_def comp_def)
  have all: "get (byID r) (c_ID c) = Some c" if "c \<in> set ?cs" for c
    unfolding lk by (rule map_of_is_SomeI [OF dist]) (use that in simp)
  have "set (List r) = set ?cs"
    unfolding set_List [OF r(2)] lk ran_distinct [OF dist] by force
  moreover have "get (byName r) (c_Name c) = Some (c_ID c)" if "c \<in> set ?cs" "c_Name c \<noteq> []" for c
    using all [OF that(1)] that(2) by (simp add: reg.owner_iff [OF r(2)])
  ultimately show ?thesis
    using r(1,2) all save_recovered_loop [of Live ?cs NewRegistry "[]"] rec
    by (auto simp: reconcileAtStartup_def Get_def GetByName_def get_or_def split: prod.split)
qed

theorem startup_restores_containers_witness:
  "case reconcileAtStartup Live NewRegistry
      (Inr ([sample_container ''a1'' ''web'', sample_container ''b2'' ''db''],
            [sample_task ''b2'' ''running'', sample_task ''c3'' ''running''])) of
    (r, logged, err) \<Rightarrow> err = None \<and> set (List r) = set (rr_Containers sample_reconcile)
      \<and> rr_Containers sample_reconcile \<noteq> []"
proof -
  have "names_distinct [sample_container ''a1'' ''web'', sample_container ''b2'' ''db'']"
    and "rr_Containers sample_reconcile \<noteq> []"
    by code_simp+
  with startup_restores_containers [OF sample_reconcile_eq] show ?thesis
    by (auto split: prod.splits)
qed

text \<open>
  When two recovered containers share a name, startup reports an error but the registry is not
  empty: the first of them stays saved.
\<close>

theorem startup_error_keeps_first:
  "case reconcileAtStartup Live NewRegistry
      (Inr ([sample_container ''a1'' ''web'', sample_container ''b2'' ''web''], [])) of
    (r, logged, err) \<Rightarrow>
      (\<exists>e. err = Some e \<and> errors_is e (Dom ErrContainerNameConflict)) \<and> map c_ID (List r) = [''a1'']"
proof -
  have "case reconcileAtStartup Live NewRegistry
      (Inr ([sample_container ''a1'' ''web'', sample_container ''b2'' ''web''], [])) of
    (r, logged, err) \<Rightarrow>
      (case err of None \<Rightarrow> False | Some e \<Rightarrow> errors_is e (Dom ErrContainerNameConflict))
      \<and> map c_ID (List r) = [''a1'']"
    by code_simp
  then show ?thesis by (auto split: prod.splits option.splits)
qed

end
