(* ===== verification/App_Restart.thy ===== *)
theory App_Restart
  imports App_Runtime Reconcile
begin

text \<open>
  The snapshot loader of \<^verbatim>\<open>cmd/dockerdless/reconciliation.go\<close>, and what a restart of the daemon
  keeps of a container: the registry is in memory, so the identity of a container survives in the
  labels and annotations the runtime adapter gives containerd.
\<close>

section \<open>The snapshot loader\<close>

text \<open>The fields of \<^verbatim>\<open>containers.Container\<close> the loader reads, and the calls of the client it makes.\<close>

record ctd_info =
  in_ID :: string
  in_Image :: string
  in_Labels :: "(string, string) gomap"
  in_CreatedAt :: gotime
  in_UpdatedAt :: gotime

record 'w snapshot_client =
  sc_errdefs :: errdefs
  sc_Containers :: "'w \<Rightarrow> 'w \<times> (gerror + container_id list)"
  sc_Info :: "container_id \<Rightarrow> 'w \<Rightarrow> 'w \<times> (gerror + ctd_info)"
  sc_Annotations :: "container_id \<Rightarrow> 'w \<Rightarrow> 'w \<times> (gerror + (string, string) gomap)"
  sc_Task :: "container_id \<Rightarrow> 'w \<Rightarrow> 'w \<times> gerror option"
  sc_Status :: "container_id \<Rightarrow> 'w \<Rightarrow> 'w \<times> (gerror + (string \<times> u32 \<times> gotime))"

text \<open>\<^verbatim>\<open>maps.Copy(dst, src)\<close>.\<close>

definition copy_map :: "('k, 'v) gomap \<Rightarrow> ('k, 'v) gomap \<Rightarrow> ('k, 'v) gomap" where
  "copy_map src dst = fold (\<lambda>(k, v). put k v) src dst"

definition load_metadata ::
  "(string \<Rightarrow> gerror + string list) \<Rightarrow> 'w snapshot_client \<Rightarrow> container_id \<Rightarrow> 'w \<Rightarrow> 'w \<times> (gerror + container)" where
  "load_metadata decode_command sc i w = (case sc_Info sc i w of
     (w1, Inl e) \<Rightarrow> (w1, Inl (wrap_pre (''read container '' @ i @ '': '') e))
   | (w1, Inr info) \<Rightarrow> (case sc_Annotations sc i w1 of
       (w2, Inl e) \<Rightarrow> (w2, Inl (wrap_pre (''read container spec '' @ in_ID info @ '': '') e))
     | (w2, Inr annotations) \<Rightarrow>
        let labels = copy_map annotations (copy_map (in_Labels info) [])
        in (w2, restoredContainer decode_command (in_ID info) (in_Image info) labels (in_CreatedAt info) (in_UpdatedAt info))))"

definition load_task :: "'w snapshot_client \<Rightarrow> container_id \<Rightarrow> 'w \<Rightarrow> 'w \<times> (gerror + task_snapshot option)" where
  "load_task sc i w = (case sc_Task sc i w of
     (w1, Some e) \<Rightarrow> if IsNotFound (sc_errdefs sc) e then (w1, Inr None) else (w1, Inl (wrap_pre (''read task '' @ i @ '': '') e))
   | (w1, None) \<Rightarrow> (case sc_Status sc i w1 of
       (w2, Inl e) \<Rightarrow> (w2, Inl (wrap_pre (''read task status '' @ i @ '': '') e))
     | (w2, Inr (status, code, exited)) \<Rightarrow> (w2, Inr (Some
         \<lparr>ts_ID = [], ts_ContainerID = i, ts_Status = status, ts_ExitCode = int (unat code), ts_OOMKilled = False, ts_Error = [],
          ts_StartedAt = zero_time, ts_FinishedAt = exited\<rparr>))))"

fun load_loop ::
  "(string \<Rightarrow> gerror + string list) \<Rightarrow> 'w snapshot_client \<Rightarrow> container_id list \<Rightarrow> container list \<Rightarrow> task_snapshot list \<Rightarrow> 'w
    \<Rightarrow> 'w \<times> (gerror + (container list \<times> task_snapshot list))" where
  "load_loop dec sc [] metadata tasks w = (w, Inr (metadata, tasks))"
| "load_loop dec sc (i # is) metadata tasks w = (case load_metadata dec sc i w of
     (w1, Inl e) \<Rightarrow> (w1, Inl e)
   | (w1, Inr c) \<Rightarrow> (case load_task sc (c_ID c) w1 of
       (w2, Inl e) \<Rightarrow> (w2, Inl e)
     | (w2, Inr t) \<Rightarrow> load_loop dec sc is (metadata @ [c]) (tasks @ (case t of Some s \<Rightarrow> [s] | None \<Rightarrow> [])) w2))"

definition loadContainerdSnapshot ::
  "(string \<Rightarrow> gerror + string list) \<Rightarrow> 'w snapshot_client \<Rightarrow> 'w \<Rightarrow> 'w \<times> (gerror + (container list \<times> task_snapshot list))" where
  "loadContainerdSnapshot dec sc w = (case sc_Containers sc w of
     (w1, Inl e) \<Rightarrow> (w1, Inl (wrap_pre ''list container metadata: '' e))
   | (w1, Inr is) \<Rightarrow> load_loop dec sc is [] [] w1)"

section \<open>What containerd keeps\<close>

text \<open>The annotations the options of a specification leave, one option after the other.\<close>

fun apply_annotations :: "spec_opt \<Rightarrow> (string, string) gomap \<Rightarrow> (string, string) gomap" where
  "apply_annotations (WithAnnotations a) m = copy_map a m"
| "apply_annotations _ m = m"

text \<open>
  Containerd keeps a new container as it was asked to: the image, the labels and the specification
  of the request, whose annotations are those of the options it was generated from.
\<close>

definition keeps_containers :: "('w, 'spec) ctd_client \<Rightarrow> 'w snapshot_client \<Rightarrow> ('spec \<Rightarrow> (string, string) gomap) \<Rightarrow> bool" where
  "keeps_containers cl sc annots \<longleftrightarrow>
     (\<forall>r w w'. cl_NewContainer cl r w = (w', None) \<longrightarrow>
        (\<exists>created updated w1 w2. sc_Info sc (nr_ID r) w' = (w1, Inr \<lparr>in_ID = nr_ID r, in_Image = nr_Image r, in_Labels = nr_Labels r,
            in_CreatedAt = created, in_UpdatedAt = updated\<rparr>)
          \<and> sc_Annotations sc (nr_ID r) w1 = (w2, Inr (annots (nr_Spec r)))))
   \<and> (\<forall>n i m os spec. cl_generate cl n i m os = Inr spec \<longrightarrow> annots spec = fold apply_annotations os [])"

lemma get_copy_map: "gomap_ok src \<Longrightarrow> get (copy_map src dst) k = (case get src k of Some v \<Rightarrow> Some v | None \<Rightarrow> get dst k)"
proof (induction src arbitrary: dst)
  case (Cons x src)
  obtain a v where x: "x = (a, v)" by (cases x)
  have "get src a = None" using Cons.prems by (simp add: x map_of_eq_None_iff)
  with Cons x show ?case by (auto simp: copy_map_def split: option.split)
qed (simp add: copy_map_def)

lemma fold_no_annotations:
  "\<forall>o'\<in>set os. \<forall>a. o' \<noteq> WithAnnotations a \<Longrightarrow> fold apply_annotations os m = m"
proof (induction os arbitrary: m)
  case (Cons x os)
  then show ?case by (cases x) auto
qed simp

lemma buildSpecOpts_annotations:
  assumes "userSpecOpt u = Inr userOpt"
  shows "fold apply_annotations (buildSpecOpts cfg img args userOpt mounts) [] = copy_map (cg_Labels cfg) []"
proof -
  have "\<forall>a. o' \<noteq> WithAnnotations a" if "userOpt = Some o'" for o'
    using assms that by (auto simp: userSpecOpt_def Let_def split: if_splits option.splits list.splits)
  then have u: "fold apply_annotations (case userOpt of Some u \<Rightarrow> [u] | None \<Rightarrow> []) m = m" for m
    by (intro fold_no_annotations) (auto split: option.splits)
  have c: "fold apply_annotations (if b then [WithProcessCwd s] else []) m = m"
    "fold apply_annotations (if b then [WithHostname s] else []) m = m"
    "fold apply_annotations (if b then [WithMounts ms] else []) m = m"
    "fold apply_annotations (if b then [WithTTY] else []) m = m" for b s ms m by simp_all
  show ?thesis unfolding buildSpecOpts_def Let_def fold_append comp_def u c by (simp add: copy_map_def)
qed

text \<open>A container that was created: the request containerd has seen.\<close>

lemma create_checked_request:
  assumes "create_checked cl cfg w = (w', Inr i)"
  shows "\<exists>w1 spec os. cl_NewContainer cl \<lparr>nr_ID = cg_ID cfg, nr_Image = cg_Image cfg, nr_Snapshotter = cg_Snapshotter cfg,
      nr_SnapshotID = cg_SnapshotID cfg, nr_Spec = spec, nr_Labels = containerLabels cfg\<rparr> w1 = (w', None) \<and> i = cg_ID cfg
    \<and> (\<exists>n im. cl_generate cl n (cg_ID cfg) im os = Inr spec) \<and> fold apply_annotations os [] = copy_map (cg_Labels cfg) []"
proof -
  let ?req = "\<lambda>spec. \<lparr>nr_ID = cg_ID cfg, nr_Image = cg_Image cfg, nr_Snapshotter = cg_Snapshotter cfg,
      nr_SnapshotID = cg_SnapshotID cfg, nr_Spec = spec, nr_Labels = containerLabels cfg\<rparr>"
  obtain w1 r1 where e1: "cl_GetImage cl (cg_Image cfg) w = (w1, r1)" by (metis surj_pair)
  obtain w2 r2 where e2: "ensureUnpacked cl (cg_Image cfg) (cg_Snapshotter cfg) w1 = (w2, r2)" by (metis surj_pair)
  obtain w3 r3 where e3: "cl_ImageSpec cl (cg_Image cfg) w2 = (w3, r3)" by (metis surj_pair)
  have "r1 = None" "r2 = None" using assms by (auto simp: create_checked_def e1 e2 split: option.splits)
  moreover obtain img where img: "r3 = Inr img"
    using assms by (cases r3) (auto simp: create_checked_def e1 e2 e3 split: option.splits)
  ultimately obtain spec where spec: "buildSpec (cl_generate cl) (Some (namespaceContext cl)) cfg img (cl_namespace cl) = Inr spec"
    using assms by (auto simp: create_checked_def e1 e2 e3 split: sum.splits)
  have new: "cl_NewContainer cl (?req spec) w3 = (w', None)" and i: "i = cg_ID cfg"
    using assms \<open>r1 = None\<close> \<open>r2 = None\<close> img spec
    by (auto simp: create_checked_def e1 e2 e3 split: prod.splits option.splits)
  obtain n im args userOpt mounts u where gen: "cl_generate cl n (cg_ID cfg) im (buildSpecOpts cfg img args userOpt mounts) = Inr spec"
    and u: "userSpecOpt u = Inr userOpt"
    using spec by (auto simp: buildSpec_def resolveSpecInputs_def rbind_eq_Inr Let_def split: if_splits)
  show ?thesis using new i gen buildSpecOpts_annotations [OF u] by blast
qed

lemma CreateContainer_request:
  assumes "CreateContainer cl cfg w = (w', Inr i)"
  shows "\<exists>snapshotter snapshot w1 spec os. cl_NewContainer cl \<lparr>nr_ID = i, nr_Image = cg_Image cfg, nr_Snapshotter = snapshotter,
      nr_SnapshotID = snapshot, nr_Spec = spec, nr_Labels = containerLabels cfg\<rparr> w1 = (w', None)
    \<and> (\<exists>n im. cl_generate cl n i im os = Inr spec) \<and> fold apply_annotations os [] = copy_map (cg_Labels cfg) []"
proof -
  obtain cfg' w0 where c: "create_checked cl cfg' w0 = (w', Inr i)"
    and same: "cg_Image cfg' = cg_Image cfg" "containerLabels cfg' = containerLabels cfg" "cg_Labels cfg' = cg_Labels cfg"
    using assms
    by (auto simp: CreateContainer_def Let_def containerLabels_def split: option.splits if_splits prod.splits sum.splits)
  from create_checked_request [OF c] same show ?thesis by fastforce
qed

section \<open>Restarting the daemon\<close>

definition reserved_labels :: "string list" where
  "reserved_labels = [containerCommandLabel, containerImageDigestLabel, LabelMounts, LabelTTY, labelName, labelTerminal, labelOpenStdin]"

lemma get_containerLabels:
  "get (containerLabels cfg) k =
     (if k = labelOpenStdin \<and> cg_OpenStdin cfg then Some ''true'' else if k = labelTerminal \<and> cg_Terminal cfg then Some ''true''
      else if k = labelName \<and> cg_Name cfg \<noteq> [] then Some (cg_Name cfg) else None)"
  by (simp add: containerLabels_def Let_def)

lemma gomap_ok_containerLabels: "gomap_ok (containerLabels cfg)"
  by (simp add: containerLabels_def Let_def)

lemma gomap_ok_buildCreateLabels: "gomap_ok (cc_Labels req) \<Longrightarrow> gomap_ok (buildCreateLabels env req d)"
  by (simp add: buildCreateLabels_def Let_def)

lemma get_buildCreateLabels:
  "get (buildCreateLabels env req d) containerCommandLabel = Some (se_encodeCommand env (cc_Command req))"
  "get (buildCreateLabels env req d) containerImageDigestLabel = Some (id_ID d)"
  "get (buildCreateLabels env req d) labelName = get (cc_Labels req) labelName"
  "k \<notin> set reserved_labels \<Longrightarrow> get (buildCreateLabels env req d) k = get (cc_Labels req) k"
  by (auto simp: buildCreateLabels_def Let_def reserved_labels_def)

lemma gomap_ok_copy_map: "gomap_ok dst \<Longrightarrow> gomap_ok (copy_map src dst)"
  by (induction src arbitrary: dst) (auto simp: copy_map_def split_def)

text \<open>
  C8: restarting the daemon. What the loader reads back of a container the service created has the
  identity, command and image of the request, and every label of the client under a key that is
  not the daemon's own. The name is that of the request unless the client itself set the label the
  name is kept under, which then replaces it.
\<close>

theorem restart_keeps_identity:
  assumes "keeps_containers cl sc annots" and "dec (se_encodeCommand env (cc_Command req)) = Inr (cc_Command req)" and "se_encodeCommand env (cc_Command req) \<noteq> []"
    and "gomap_ok (cc_Labels req)"
    and "se_CreateContainer (with_runtime cl env) (create_spec env name req d) (cs, w) = ((cs', w'), Inr i)"
  shows "\<exists>w'' c. load_metadata dec sc i w' = (w'', Inr c) \<and> c_ID c = i
    \<and> c_Name c = (case get (cc_Labels req) labelName of Some n \<Rightarrow> n | None \<Rightarrow> name)
    \<and> cs_Command (c_Spec c) = cc_Command req
    \<and> c_ImageReference c = runtimeImageReference env (cc_Image req) d
    \<and> c_ImageDigest c = (if id_ID d = [] then digestFromReference (c_ImageReference c) else id_ID d)
    \<and> (\<forall>k. k \<notin> set reserved_labels \<longrightarrow> get (c_Labels c) k = get (cc_Labels req) k)"
proof -
  let ?cfg = "ctd_config_of (create_spec env name req d)"
  have "CreateContainer cl ?cfg w = (w', Inr i)"
    using assms(5) by (auto simp: with_runtime_def on_world_def split: prod.splits)
  from CreateContainer_request [OF this] obtain r os n im where new: "\<exists>w1. cl_NewContainer cl r w1 = (w', None)"
    and r: "nr_ID r = i" "nr_Image r = cg_Image ?cfg" "nr_Labels r = containerLabels ?cfg"
    and gen: "cl_generate cl n i im os = Inr (nr_Spec r)" and ann: "fold apply_annotations os [] = copy_map (cg_Labels ?cfg) []"
    by (metis new_container_request.select_convs)
  obtain created updated w1 w2 where
    info: "sc_Info sc i w' = (w1, Inr \<lparr>in_ID = i, in_Image = cg_Image ?cfg, in_Labels = containerLabels ?cfg, in_CreatedAt = created, in_UpdatedAt = updated\<rparr>)"
    and an: "sc_Annotations sc i w1 = (w2, Inr (annots (nr_Spec r)))"
    using assms(1) new unfolding keeps_containers_def r [symmetric] by blast
  have spec: "annots (nr_Spec r) = copy_map (cg_Labels ?cfg) []" using assms(1) gen ann unfolding keeps_containers_def by auto
  define labels where "labels = copy_map (annots (nr_Spec r)) (copy_map (containerLabels ?cfg) [])"
  have ok: "gomap_ok (buildCreateLabels env req d)" using assms(4) by (rule gomap_ok_buildCreateLabels)
  have labels: "get labels k = (case get (buildCreateLabels env req d) k of Some v \<Rightarrow> Some v | None \<Rightarrow> get (containerLabels ?cfg) k)" for k
    unfolding labels_def spec
    by (simp add: get_copy_map gomap_ok_copy_map gomap_ok_containerLabels ok ctd_config_of_def create_spec_def split: option.split)
  have name: "get_or [] labels labelName = (case get (cc_Labels req) labelName of Some n \<Rightarrow> n | None \<Rightarrow> name)"
    unfolding get_or_def labels get_buildCreateLabels get_containerLabels
    by (simp add: ctd_config_of_def create_spec_def split: option.split)
  have cmd: "get_or [] labels containerCommandLabel = se_encodeCommand env (cc_Command req)"
    "get_or [] labels containerImageDigestLabel = id_ID d"
    unfolding get_or_def labels get_buildCreateLabels by simp_all
  have user: "k \<notin> set reserved_labels \<Longrightarrow> get labels k = get (cc_Labels req) k" for k
    unfolding labels get_containerLabels by (auto simp: get_buildCreateLabels reserved_labels_def split: option.split)
  have img: "cg_Image ?cfg = runtimeImageReference env (cc_Image req) d" by (simp add: ctd_config_of_def create_spec_def)
  show ?thesis
    using info an name cmd user assms(2,3)
    by (cases "id_ID d = []") (simp_all add: load_metadata_def labels_def [symmetric] restoredContainer_def img)
qed

section \<open>A concrete restart\<close>

text \<open>A containerd that keeps the requests it has seen; a specification is the annotations in it.\<close>

type_synonym kept = "(string, string) gomap new_container_request"

definition keeping_client :: "(kept list, (string, string) gomap) ctd_client" where
  "keeping_client = \<lparr>cl_errdefs = cl_errdefs sample_client,
     cl_GetImage = (\<lambda>r w. (w, None)), cl_ImageSpec = (\<lambda>r w. (w, Inr \<lparr>oi_User = [], oi_Env = [], oi_Entrypoint = [], oi_Cmd = [], oi_WorkingDir = []\<rparr>)),
     cl_IsUnpacked = (\<lambda>r s w. (w, Inr True)), cl_Unpack = (\<lambda>r s w. (w, None)), cl_NewContainer = (\<lambda>r w. (r # w, None)),
     cl_LoadContainer = (\<lambda>i w. (w, Inr ([], []))), cl_FindContainerByName = (\<lambda>n w. (w, Some (NewErr ''not found''))),
     cl_RemoveSnapshot = (\<lambda>s k w. (w, None)), cl_Labels = (\<lambda>i w. (w, Inr [])),
     cl_Process = (\<lambda>i w. (w, Inr None)), cl_NewTask = (\<lambda>i io w. (w, None)), cl_Task = (\<lambda>i w. (w, None)),
     cl_DeleteContainer = (\<lambda>i w. (w, None)), cl_Exec = (\<lambda>i x p io w. (w, None)), cl_Pid = (\<lambda>p w. 42),
     cl_Start = (\<lambda>p w. (w, None)), cl_Wait = (\<lambda>p w. (w, None)), cl_Kill = (\<lambda>p sig w. (w, None)),
     cl_Resize = (\<lambda>p a b w. (w, None)), cl_CloseIO = (\<lambda>p w. (w, None)), cl_Delete = (\<lambda>p w. (w, Inr (Inr (0, zero_time)))),
     cl_Status = (\<lambda>p w. (w, Inr TsCreated)), cl_await = (\<lambda>p w. (w, ChanClosed)), cl_awaitTimer = (\<lambda>p t w. (w, None)),
     cl_now = (\<lambda>w. zero_time), cl_newID = (\<lambda>w. (w, Inr ''c1'')), cl_generate = (\<lambda>n i m os. Inr (fold apply_annotations os [])),
     cl_applyOpts = (\<lambda>p os. Inr p), cl_ctxNamespace = None, cl_namespace = ''moby'', cl_snapshotter = []\<rparr>
     \<lparr>cl_errdefs := (cl_errdefs sample_client)\<lparr>IsNotFound := (\<lambda>e. True)\<rparr>\<rparr>"

definition keeping_snapshot :: "kept list snapshot_client" where
  "keeping_snapshot = \<lparr>sc_errdefs = cl_errdefs sample_client, sc_Containers = (\<lambda>w. (w, Inr (map nr_ID w))),
     sc_Info = (\<lambda>i w. (w, case find (\<lambda>r. nr_ID r = i) w of None \<Rightarrow> Inl (NewErr ''not found'')
       | Some r \<Rightarrow> Inr \<lparr>in_ID = i, in_Image = nr_Image r, in_Labels = nr_Labels r, in_CreatedAt = zero_time, in_UpdatedAt = zero_time\<rparr>)),
     sc_Annotations = (\<lambda>i w. (w, case find (\<lambda>r. nr_ID r = i) w of None \<Rightarrow> Inl (NewErr ''not found'') | Some r \<Rightarrow> Inr (nr_Spec r))),
     sc_Task = (\<lambda>i w. (w, None)), sc_Status = (\<lambda>i w. (w, Inr (''stopped'', 0, zero_time)))\<rparr>"

lemma keeping_keeps: "keeps_containers keeping_client keeping_snapshot id"
  by (auto simp: keeps_containers_def keeping_client_def keeping_snapshot_def)

definition command_request :: container_create_request where
  "command_request = sample_request\<lparr>cc_Command := [''sleep''], cc_Labels := [(''tier'', ''db''), (''io.dockerdless.name'', ''other'')]\<rparr>"

definition command_env :: "kept list ctd service_env" where
  "command_env = runtime_env\<lparr>se_encodeCommand := (\<lambda>c. ''[sleep]'')\<rparr>"

text \<open>A client label replaces the name \<^verbatim>\<open>web\<close> of the container by \<^verbatim>\<open>other\<close>.\<close>

theorem restart_keeps_identity_witness:
  "\<exists>w c. load_metadata (\<lambda>raw. Inr [''sleep'']) keeping_snapshot ''c1''
       (snd (fst (se_CreateContainer (with_runtime keeping_client command_env) (create_spec command_env ''web'' command_request sample_image)
          (\<lparr>ct_stdin = [], ct_execs = []\<rparr>, [])))) = (w, Inr c)
     \<and> c_ID c = ''c1'' \<and> c_Name c = ''other'' \<and> cs_Command (c_Spec c) = [''sleep''] \<and> get (c_Labels c) ''tier'' = Some ''db''"
proof -
  obtain cs' w' where create: "se_CreateContainer (with_runtime keeping_client command_env) (create_spec command_env ''web'' command_request sample_image)
      (\<lparr>ct_stdin = [], ct_execs = []\<rparr>, []) = ((cs', w'), Inr ''c1'')"
  proof -
    have "snd (se_CreateContainer (with_runtime keeping_client command_env) (create_spec command_env ''web'' command_request sample_image)
      (\<lparr>ct_stdin = [], ct_execs = []\<rparr>, [])) = Inr ''c1''" by code_simp
    then show ?thesis using that by (metis prod.collapse)
  qed
  have "se_encodeCommand command_env x = ''[sleep]''" for x by (simp add: command_env_def)
  moreover have "gomap_ok (cc_Labels command_request)" "cc_Command command_request = [''sleep'']"
    "get (cc_Labels command_request) labelName = Some ''other''" "get (cc_Labels command_request) ''tier'' = Some ''db''"
    "''tier'' \<notin> set reserved_labels"
    by (simp_all add: command_request_def reserved_labels_def)
  ultimately show ?thesis
    using restart_keeps_identity [where dec = "\<lambda>raw. Inr [''sleep'']", OF keeping_keeps _ _ _ create] create by auto
qed

end
