(* ===== verification/Ctd_Client.thy ===== *)
theory Ctd_Client
  imports App_Restart
begin

text \<open>
  \<^verbatim>\<open>internal/adapters/containerd/client.go\<close>: the seam of the runtime adapter on the containerd
  library. The library is the record \<open>containerd_lib\<close>; a handle is the identity it stands for, as in
  \<open>ctd_client\<close>. Together with the adapter: the name of a container is unique in containerd.
\<close>

section \<open>The library\<close>

datatype io_opt = WithStreams bool bool bool | WithTerminal

datatype io_creator = NullIO | NewCreator "io_opt list"

datatype 'spec container_opt =
    WithImage string
  | WithSnapshotter string
  | WithNewSnapshot string string
  | WithSpec 'spec
  | WithContainerLabels "(string, string) gomap"

text \<open>The methods tasks and processes share.\<close>

record 'w process_ops =
  po_Pid :: "'w \<Rightarrow> u32"
  po_Start :: "'w \<Rightarrow> 'w \<times> gerror option"
  po_Wait :: "'w \<Rightarrow> 'w \<times> gerror option"
  po_Kill :: "int \<Rightarrow> 'w \<Rightarrow> 'w \<times> gerror option"
  po_Resize :: "u32 \<Rightarrow> u32 \<Rightarrow> 'w \<Rightarrow> 'w \<times> gerror option"
  po_CloseIO :: "'w \<Rightarrow> 'w \<times> gerror option"
  po_Delete :: "'w \<Rightarrow> 'w \<times> (gerror + exit_status)"
  po_Status :: "'w \<Rightarrow> 'w \<times> (gerror + task_status)"

record ('w, 'spec) containerd_lib =
  lb_ErrNotFound :: gerror
  lb_GetImage :: "string \<Rightarrow> 'w \<Rightarrow> 'w \<times> gerror option"
  lb_ImageSpec :: "string \<Rightarrow> 'w \<Rightarrow> 'w \<times> (gerror + oci_image_config)"
  lb_IsUnpacked :: "string \<Rightarrow> string \<Rightarrow> 'w \<Rightarrow> 'w \<times> (gerror + bool)"
  lb_Unpack :: "string \<Rightarrow> string \<Rightarrow> 'w \<Rightarrow> 'w \<times> gerror option"
  lb_NewContainer :: "container_id \<Rightarrow> 'spec container_opt list \<Rightarrow> 'w \<Rightarrow> 'w \<times> gerror option"
  lb_LoadContainer :: "container_id \<Rightarrow> 'w \<Rightarrow> 'w \<times> gerror option"
  lb_Containers :: "string \<Rightarrow> 'w \<Rightarrow> 'w \<times> (gerror + container_id list)"
  lb_Info :: "container_id \<Rightarrow> 'w \<Rightarrow> 'w \<times> (gerror + (string \<times> string))"
  lb_RemoveSnapshot :: "string \<Rightarrow> string \<Rightarrow> 'w \<Rightarrow> 'w \<times> gerror option"
  lb_Labels :: "container_id \<Rightarrow> 'w \<Rightarrow> 'w \<times> (gerror + (string, string) gomap)"
  lb_Process :: "container_id \<Rightarrow> 'w \<Rightarrow> 'w \<times> (gerror + oci_process option)"
  lb_NewTask :: "container_id \<Rightarrow> io_creator \<Rightarrow> 'w \<Rightarrow> 'w \<times> gerror option"
  lb_Task :: "container_id \<Rightarrow> 'w \<Rightarrow> 'w \<times> gerror option"
  lb_Delete :: "container_id \<Rightarrow> 'w \<Rightarrow> 'w \<times> gerror option"
  lb_Exec :: "container_id \<Rightarrow> string \<Rightarrow> oci_process \<Rightarrow> io_creator \<Rightarrow> 'w \<Rightarrow> 'w \<times> gerror option"
  lb_task :: "container_id \<Rightarrow> 'w process_ops"
  lb_process :: "container_id \<Rightarrow> string \<Rightarrow> 'w process_ops"

section \<open>client.go\<close>

definition creator :: "task_io \<Rightarrow> io_creator" where
  "creator s = (if \<not> io_Stdin s \<and> \<not> io_Stdout s \<and> \<not> io_Stderr s \<and> \<not> io_Terminal s then NullIO
     else NewCreator (WithStreams (io_Stdin s) (io_Stdout s) (io_Stderr s) # (if io_Terminal s then [WithTerminal] else [])))"

record containerd_container =
  hc_id :: container_id
  hc_snapshotter :: string
  hc_snapshotKey :: string

definition wrapContainer :: "('w, 'spec) containerd_lib \<Rightarrow> container_id \<Rightarrow> 'w \<Rightarrow> 'w \<times> (gerror + containerd_container)" where
  "wrapContainer lib i w = (case lb_Info lib i w of
     (w1, Inl e) \<Rightarrow> (w1, Inl e)
   | (w1, Inr (snapshotter, key)) \<Rightarrow> (w1, Inr \<lparr>hc_id = i, hc_snapshotter = snapshotter, hc_snapshotKey = key\<rparr>))"

text \<open>
  Every image of the daemon comes from \<^verbatim>\<open>GetImage\<close> of this client and every request carries a
  specification, so the branches for other images and for no specification do not arise.
\<close>

definition new_container_opts :: "'spec new_container_request \<Rightarrow> 'spec container_opt list" where
  "new_container_opts req =
    (let snapshotID = (if nr_SnapshotID req = [] then nr_ID req else nr_SnapshotID req) in
     [WithImage (nr_Image req)]
     @ (if nr_Snapshotter req \<noteq> [] then [WithSnapshotter (nr_Snapshotter req)] else [])
     @ [WithNewSnapshot snapshotID (nr_Image req)]
     @ [WithSpec (nr_Spec req)]
     @ (if nr_Labels req \<noteq> [] then [WithContainerLabels (nr_Labels req)] else []))"

definition client_NewContainer :: "('w, 'spec) containerd_lib \<Rightarrow> 'spec new_container_request \<Rightarrow> 'w \<Rightarrow> 'w \<times> (gerror + containerd_container)" where
  "client_NewContainer lib req w = (case lb_NewContainer lib (nr_ID req) (new_container_opts req) w of
     (w1, Some e) \<Rightarrow> (w1, Inl e) | (w1, None) \<Rightarrow> wrapContainer lib (nr_ID req) w1)"

definition client_LoadContainer :: "('w, 'spec) containerd_lib \<Rightarrow> container_id \<Rightarrow> 'w \<Rightarrow> 'w \<times> (gerror + containerd_container)" where
  "client_LoadContainer lib i w = (case lb_LoadContainer lib i w of
     (w1, Some e) \<Rightarrow> (w1, Inl e) | (w1, None) \<Rightarrow> wrapContainer lib i w1)"

definition name_filter :: "string \<Rightarrow> string" where
  "name_filter name = ''labels.'' @ labelName @ ''=='' @ name"

definition client_FindContainerByName :: "('w, 'spec) containerd_lib \<Rightarrow> string \<Rightarrow> 'w \<Rightarrow> 'w \<times> (gerror + containerd_container)" where
  "client_FindContainerByName lib name w = (case lb_Containers lib (name_filter name) w of
     (w1, Inl e) \<Rightarrow> (w1, Inl e)
   | (w1, Inr []) \<Rightarrow> (w1, Inl (wrap_pre (''container name '' @ quote name @ '': '') (lb_ErrNotFound lib)))
   | (w1, Inr (i # is)) \<Rightarrow> wrapContainer lib i w1)"

definition client_RemoveSnapshot :: "('w, 'spec) containerd_lib \<Rightarrow> string \<Rightarrow> string \<Rightarrow> 'w \<Rightarrow> 'w \<times> gerror option" where
  "client_RemoveSnapshot lib snapshotter key w = (if key = [] then (w, None) else lb_RemoveSnapshot lib snapshotter key w)"

definition Snapshot :: "containerd_container \<Rightarrow> string \<times> string" where
  "Snapshot c = (hc_snapshotter c, hc_snapshotKey c)"

definition container_NewTask :: "('w, 'spec) containerd_lib \<Rightarrow> container_id \<Rightarrow> task_io \<Rightarrow> 'w \<Rightarrow> 'w \<times> gerror option" where
  "container_NewTask lib i streams w = lb_NewTask lib i (creator streams) w"

definition task_Exec :: "('w, 'spec) containerd_lib \<Rightarrow> container_id \<Rightarrow> string \<Rightarrow> oci_process \<Rightarrow> task_io \<Rightarrow> 'w \<Rightarrow> 'w \<times> gerror option" where
  "task_Exec lib i x spec streams w = lb_Exec lib i x spec (creator streams) w"

text \<open>A process handle is the task of a container or a process in it.\<close>

definition process_of :: "('w, 'spec) containerd_lib \<Rightarrow> process_handle \<Rightarrow> 'w process_ops" where
  "process_of lib h = (case snd h of None \<Rightarrow> lb_task lib (fst h) | Some x \<Rightarrow> lb_process lib (fst h) x)"

definition outcome :: "'w \<times> (gerror + 'a) \<Rightarrow> 'w \<times> gerror option" where
  "outcome r = (fst r, case snd r of Inl e \<Rightarrow> Some e | Inr x \<Rightarrow> None)"

text \<open>
  The client: everything of the seam that reaches the library. What remains (clock, identities,
  specification generator, namespace and channels) is kept from the given client.
\<close>

definition newContainerdClient :: "('w, 'spec) containerd_lib \<Rightarrow> ('w, 'spec) ctd_client \<Rightarrow> ('w, 'spec) ctd_client" where
  "newContainerdClient lib cl = cl\<lparr>
     cl_GetImage := lb_GetImage lib, cl_ImageSpec := lb_ImageSpec lib,
     cl_IsUnpacked := lb_IsUnpacked lib, cl_Unpack := lb_Unpack lib,
     cl_NewContainer := (\<lambda>req w. outcome (client_NewContainer lib req w)),
     cl_LoadContainer := (\<lambda>i w. map_prod id (map_sum id Snapshot) (client_LoadContainer lib i w)),
     cl_FindContainerByName := (\<lambda>name w. outcome (client_FindContainerByName lib name w)),
     cl_RemoveSnapshot := client_RemoveSnapshot lib,
     cl_Labels := lb_Labels lib, cl_Process := lb_Process lib, cl_NewTask := container_NewTask lib,
     cl_Task := lb_Task lib, cl_DeleteContainer := lb_Delete lib, cl_Exec := task_Exec lib,
     cl_Pid := (\<lambda>h. po_Pid (process_of lib h)), cl_Start := (\<lambda>h. po_Start (process_of lib h)),
     cl_Wait := (\<lambda>h. po_Wait (process_of lib h)), cl_Kill := (\<lambda>h. po_Kill (process_of lib h)),
     cl_Resize := (\<lambda>h. po_Resize (process_of lib h)), cl_CloseIO := (\<lambda>h. po_CloseIO (process_of lib h)),
     cl_Delete := (\<lambda>h. po_Delete (process_of lib h)), cl_Status := (\<lambda>h. po_Status (process_of lib h))\<rparr>"

section \<open>What the streams ask for\<close>

text \<open>A task runs detached exactly when no stream and no terminal is asked for.\<close>

lemma creator_null_iff: "creator s = NullIO \<longleftrightarrow> s = \<lparr>io_Stdin = False, io_Stdout = False, io_Stderr = False, io_Terminal = False\<rparr>"
  by (cases s) (auto simp: creator_def)

lemma creator_inj: "creator s = creator t \<Longrightarrow> s = t"
  by (cases s; cases t) (auto simp: creator_def split: if_splits)

section \<open>Names in containerd are unique\<close>

type_synonym stored = "container_id \<times> (string, string) gomap"

definition stored_names :: "stored list \<Rightarrow> string list" where
  "stored_names st = List.map_filter (\<lambda>(i, ls). get ls labelName) st"

fun opt_labels :: "'spec container_opt list \<Rightarrow> (string, string) gomap" where
  "opt_labels [] = []"
| "opt_labels (WithContainerLabels ls # os) = ls"
| "opt_labels (_ # os) = opt_labels os"

text \<open>
  What is documented of the library, with \<open>store\<close> the containers it keeps: images, lookups and the
  generation of identities leave them alone; a filter on a label selects the containers with that
  label, for values that need no quoting; a new container is added with its labels or an error is
  returned and none is added; the information of a handle that has just been obtained is kept in
  it; a missing container is a not-found error and a failed listing is another one.
\<close>

definition keeps_store :: "('w, 'spec) containerd_lib \<Rightarrow> ('w, 'spec) ctd_client \<Rightarrow> ('w \<Rightarrow> stored list) \<Rightarrow> bool" where
  "keeps_store lib cl store \<longleftrightarrow>
     (\<forall>r w. store (fst (lb_GetImage lib r w)) = store w) \<and> (\<forall>r w. store (fst (lb_ImageSpec lib r w)) = store w)
   \<and> (\<forall>r s w. store (fst (lb_IsUnpacked lib r s w)) = store w) \<and> (\<forall>r s w. store (fst (lb_Unpack lib r s w)) = store w)
   \<and> (\<forall>w. store (fst (cl_newID cl w)) = store w)
   \<and> (\<forall>i w. store (fst (lb_Info lib i w)) = store w \<and> is_ok (snd (lb_Info lib i w)))
   \<and> (\<forall>i os w. store (fst (lb_NewContainer lib i os w))
        = (if snd (lb_NewContainer lib i os w) = None then store w @ [(i, opt_labels os)] else store w))
   \<and> (\<forall>f w. store (fst (lb_Containers lib f w)) = store w)
   \<and> (\<forall>f w e. snd (lb_Containers lib f w) = Inl e \<longrightarrow> \<not> IsNotFound (cl_errdefs cl) e)
   \<and> (\<forall>v w is. match_name v \<and> snd (lb_Containers lib (name_filter v) w) = Inr is
        \<longrightarrow> is = map fst (filter (\<lambda>(i, ls). get ls labelName = Some v) (store w)))
   \<and> (\<forall>m. IsNotFound (cl_errdefs cl) (wrap_pre m (lb_ErrNotFound lib)))"

lemma keeps_storeD:
  assumes "keeps_store lib cl store"
  shows "lb_GetImage lib r w = (w1, g) \<Longrightarrow> store w1 = store w" "lb_ImageSpec lib r w = (w1, m) \<Longrightarrow> store w1 = store w"
    "lb_IsUnpacked lib r s w = (w1, u) \<Longrightarrow> store w1 = store w" "lb_Unpack lib r s w = (w1, g) \<Longrightarrow> store w1 = store w"
    "cl_newID cl w = (w1, n) \<Longrightarrow> store w1 = store w" "lb_Info lib i w = (w1, f) \<Longrightarrow> store w1 = store w \<and> is_ok f"
    "lb_NewContainer lib i os w = (w1, g) \<Longrightarrow> store w1 = (if g = None then store w @ [(i, opt_labels os)] else store w)"
    "lb_Containers lib q w = (w1, ids) \<Longrightarrow> store w1 = store w"
  using assms unfolding keeps_store_def by (metis fst_conv snd_conv)+

lemma stored_names_simps [simp]:
  "stored_names [] = []"
  "stored_names ((i, ls) # st) = (case get ls labelName of Some n \<Rightarrow> [n] | None \<Rightarrow> []) @ stored_names st"
  "stored_names (a @ b) = stored_names a @ stored_names b"
  by (auto simp: stored_names_def List.map_filter_def split: option.split)

lemma stored_names_iff: "n \<in> set (stored_names st) \<longleftrightarrow> filter (\<lambda>(i, ls). get ls labelName = Some n) st \<noteq> []"
  by (induction st) (auto split: option.splits)

lemma opt_labels_new: "opt_labels (new_container_opts req) = nr_Labels req"
  by (simp add: new_container_opts_def Let_def)

lemma name_label: "get (containerLabels cfg) labelName = (if cg_Name cfg = [] then None else Some (cg_Name cfg))"
  by (simp add: containerLabels_def Let_def)

lemma wrapContainer_store:
  assumes "keeps_store lib cl store" and "wrapContainer lib i w = (w1, r)"
  shows "store w1 = store w \<and> is_ok r"
  using assms(2) keeps_storeD(6) [OF assms(1)] by (fastforce simp: wrapContainer_def is_ok_iff split: prod.splits sum.splits)

lemma NewContainer_store:
  assumes "keeps_store lib cl store" and "cl_NewContainer (newContainerdClient lib cl) req w = (w1, r)"
  shows "store w1 = (if r = None then store w @ [(nr_ID req, nr_Labels req)] else store w)"
proof -
  obtain w2 e where n: "lb_NewContainer lib (nr_ID req) (new_container_opts req) w = (w2, e)" by fastforce
  note s = keeps_storeD(7) [OF assms(1) n]
  show ?thesis
  proof (cases e)
    case None
    obtain w3 f where f: "wrapContainer lib (nr_ID req) w2 = (w3, f)" by fastforce
    with assms(2) n None have "w1 = w3" "r = (case f of Inl e \<Rightarrow> Some e | Inr x \<Rightarrow> None)"
      by (simp_all add: newContainerdClient_def client_NewContainer_def outcome_def)
    with wrapContainer_store [OF assms(1) f] s None show ?thesis by (auto simp: is_ok_iff opt_labels_new)
  next
    case (Some x)
    with assms(2) n s show ?thesis by (auto simp: newContainerdClient_def client_NewContainer_def outcome_def)
  qed
qed

lemma FindContainerByName_store:
  assumes "keeps_store lib cl store" and "match_name name"
    and "cl_FindContainerByName (newContainerdClient lib cl) name w = (w1, r)"
  shows "store w1 = store w \<and> (r = None \<longrightarrow> name \<in> set (stored_names (store w)))
    \<and> (\<forall>e. r = Some e \<and> name \<in> set (stored_names (store w))
        \<longrightarrow> snd (lb_Containers lib (name_filter name) w) = Inl e)"
proof -
  obtain w2 ids where c: "lb_Containers lib (name_filter name) w = (w2, ids)" by fastforce
  note s = keeps_storeD(8) [OF assms(1) c]
  have sel: "is = map fst (filter (\<lambda>(i, ls). get ls labelName = Some name) (store w))" if "ids = Inr is" for "is"
    using assms(1,2) c that by (auto simp: keeps_store_def)
  show ?thesis
  proof (cases ids)
    case (Inl e)
    with assms(3) c s show ?thesis by (auto simp: newContainerdClient_def client_FindContainerByName_def outcome_def)
  next
    case (Inr "is")
    show ?thesis
    proof (cases "is")
      case Nil
      with sel [OF Inr] have "name \<notin> set (stored_names (store w))" by (simp add: stored_names_iff)
      with assms(3) c s Inr Nil show ?thesis
        by (auto simp: newContainerdClient_def client_FindContainerByName_def outcome_def)
    next
      case (Cons i js)
      obtain w3 f where f: "wrapContainer lib i w2 = (w3, f)" by fastforce
      have "name \<in> set (stored_names (store w))" using sel [OF Inr] Cons by (auto simp: stored_names_iff)
      with assms(3) c s Inr Cons f wrapContainer_store [OF assms(1) f] show ?thesis
        by (auto simp: newContainerdClient_def client_FindContainerByName_def outcome_def is_ok_iff)
    qed
  qed
qed

lemma create_checked_store:
  assumes "keeps_store lib cl store" and "create_checked (newContainerdClient lib cl) cfg w = (w1, r)"
  shows "store w1 = (case r of Inr i \<Rightarrow> store w @ [(i, containerLabels cfg)] | Inl e \<Rightarrow> store w)"
proof -
  note keep = keeps_storeD(1-4) [OF assms(1)] NewContainer_store [OF assms(1)]
  have unpacked: "store w3 = store w2" if "ensureUnpacked (newContainerdClient lib cl) img sn w2 = (w3, x)" for img sn w2 w3 x
    using that by (auto simp: ensureUnpacked_def newContainerdClient_def map_prod_def dest!: keep(3,4)
        split: prod.splits sum.splits bool.splits)
  have sel: "cl_GetImage (newContainerdClient lib cl) = lb_GetImage lib" "cl_ImageSpec (newContainerdClient lib cl) = lb_ImageSpec lib"
    by (simp_all add: newContainerdClient_def)
  show ?thesis
    using assms(2)
    by (auto simp: create_checked_def sel dest!: keep(1,2,5) unpacked split: prod.splits sum.splits option.splits)
qed

lemma CreateContainer_store:
  assumes "keeps_store lib cl store" and "CreateContainer (newContainerdClient lib cl) cfg w = (w1, r)"
  shows "case r of
      Inl e \<Rightarrow> store w1 = store w
    | Inr i \<Rightarrow> (\<exists>ls. store w1 = store w @ [(i, ls)] \<and> get ls labelName = (if cg_Name cfg = [] then None else Some (cg_Name cfg)))
        \<and> (cg_Name cfg \<noteq> [] \<longrightarrow> cg_Name cfg \<notin> set (stored_names (store w)))"
proof (cases "validateIdentity cfg \<noteq> None \<or> TrimSpace (cg_Image cfg) = []")
  case True
  with assms(2) show ?thesis by (auto simp: CreateContainer_def split: option.splits if_splits)
next
  case False
  let ?cl = "newContainerdClient lib cl"
  obtain w2 n where n: "(if cg_ID cfg = [] then cl_newID ?cl w else (w, Inr (cg_ID cfg))) = (w2, n)" by fastforce
  have s: "store w2 = store w"
    using n keeps_storeD(5) [OF assms(1)] by (auto simp: newContainerdClient_def split: if_splits)
  show ?thesis
  proof (cases n)
    case (Inl e)
    with assms(2) False n s show ?thesis by (auto simp: CreateContainer_def)
  next
    case (Inr i)
    define cfg1 where "cfg1 = cfg\<lparr>cg_ID := i, cg_Snapshotter := (if cg_Snapshotter cfg = [] then cl_snapshotter ?cl else cg_Snapshotter cfg)\<rparr>"
    have same: "cg_Name cfg1 = cg_Name cfg" by (simp add: cfg1_def)
    show ?thesis
    proof (cases "cg_Name cfg = []")
      case True
      with assms(2) False n Inr have "create_checked ?cl cfg1 w2 = (w1, r)"
        by (simp add: CreateContainer_def Let_def cfg1_def)
      from create_checked_store [OF assms(1) this] True s show ?thesis by (auto simp: name_label same split: sum.splits)
    next
      case named: False
      have valid: "match_name (cg_Name cfg)" using False named by (auto simp: validateIdentity_def split: if_splits)
      obtain w3 f where f: "cl_FindContainerByName ?cl (cg_Name cfg) w2 = (w3, f)" by fastforce
      note found = FindContainerByName_store [OF assms(1) valid f]
      have ed: "cl_errdefs ?cl = cl_errdefs cl" by (simp add: newContainerdClient_def)
      show ?thesis
      proof (cases "\<exists>e. f = Some e \<and> IsNotFound (cl_errdefs cl) e")
        case True
        then obtain e where e: "f = Some e" "IsNotFound (cl_errdefs cl) e" by blast
        have "cg_Name cfg \<notin> set (stored_names (store w2))"
          using found e assms(1) unfolding keeps_store_def by metis
        moreover have "create_checked ?cl cfg1 w3 = (w1, r)"
          using assms(2) False n Inr named f e by (simp add: CreateContainer_def Let_def cfg1_def ed)
        note create_checked_store [OF assms(1) this]
        ultimately show ?thesis using found s named by (auto simp: name_label same split: sum.splits)
      next
        case no: False
        have "r = (case f of None \<Rightarrow> Inl (wrap_pre (''container name '' @ quote (cg_Name cfg) @ '' is already in use: '') (Sentinel (Ctd CErrConflict)))
            | Some e \<Rightarrow> Inl (mapError (cl_errdefs cl) e))" "w1 = w3"
          using assms(2) False n Inr named f no by (auto simp: CreateContainer_def Let_def ed split: option.splits)
        then show ?thesis using found s by (auto split: option.splits)
      qed
    qed
  qed
qed

text \<open>Requests one after the other, whatever each of them answers.\<close>

definition creates :: "('w, 'spec) ctd_client \<Rightarrow> ctd_config list \<Rightarrow> 'w \<Rightarrow> 'w" where
  "creates cl cfgs w = fold (\<lambda>cfg w. fst (CreateContainer cl cfg w)) cfgs w"

lemma CreateContainer_distinct:
  assumes "keeps_store lib cl store" and "distinct (stored_names (store w))"
  shows "distinct (stored_names (store (fst (CreateContainer (newContainerdClient lib cl) cfg w))))"
proof -
  obtain w1 r where c: "CreateContainer (newContainerdClient lib cl) cfg w = (w1, r)" by fastforce
  from CreateContainer_store [OF assms(1) c] assms(2) c show ?thesis by (cases r) (auto split: if_splits)
qed

lemma creates_distinct:
  assumes "keeps_store lib cl store" and "distinct (stored_names (store w))"
  shows "distinct (stored_names (store (creates (newContainerdClient lib cl) cfgs w)))"
  using assms(2) by (induction cfgs arbitrary: w) (simp_all add: creates_def CreateContainer_distinct [OF assms(1)])

text \<open>
  C7: the names of containers are unique in containerd. After any sequence of create requests,
  whatever each of them answers and whatever else the library does, no two stored containers carry
  the same name; and a further request either leaves the stored containers as they are or adds one
  container with the requested name, which no stored container had.
\<close>

theorem containerd_names_unique:
  assumes "keeps_store lib cl store" and "distinct (stored_names (store initial))"
    and "w = creates (newContainerdClient lib cl) cfgs initial" and "CreateContainer (newContainerdClient lib cl) cfg w = (w1, r)"
  shows "distinct (stored_names (store w))
    \<and> (case r of
        Inl e \<Rightarrow> store w1 = store w
      | Inr i \<Rightarrow> (\<exists>ls. store w1 = store w @ [(i, ls)] \<and> get ls labelName = (if cg_Name cfg = [] then None else Some (cg_Name cfg)))
          \<and> (cg_Name cfg \<noteq> [] \<longrightarrow> cg_Name cfg \<notin> set (stored_names (store w))))"
  using creates_distinct [OF assms(1,2)] CreateContainer_store [OF assms(1,4)] assms(3) by simp

section \<open>A concrete library\<close>

text \<open>The library keeps the requests it has seen and answers a filter by comparing it with their names.\<close>

definition sample_ops :: "'w process_ops" where
  "sample_ops = \<lparr>po_Pid = (\<lambda>w. 42), po_Start = (\<lambda>w. (w, None)), po_Wait = (\<lambda>w. (w, None)), po_Kill = (\<lambda>sig w. (w, None)),
     po_Resize = (\<lambda>a b w. (w, None)), po_CloseIO = (\<lambda>w. (w, None)), po_Delete = (\<lambda>w. (w, Inr (Inr (0, zero_time)))),
     po_Status = (\<lambda>w. (w, Inr TsStopped))\<rparr>"

definition kept_store :: "kept list \<Rightarrow> stored list" where
  "kept_store w = map (\<lambda>r. (nr_ID r, nr_Labels r)) w"

definition sample_lib :: "(kept list, (string, string) gomap) containerd_lib" where
  "sample_lib = \<lparr>lb_ErrNotFound = NewErr ''not found'', lb_GetImage = (\<lambda>r w. (w, None)),
     lb_ImageSpec = (\<lambda>r w. (w, Inr \<lparr>oi_User = [], oi_Env = [], oi_Entrypoint = [], oi_Cmd = [], oi_WorkingDir = []\<rparr>)),
     lb_IsUnpacked = (\<lambda>r s w. (w, Inr True)), lb_Unpack = (\<lambda>r s w. (w, None)),
     lb_NewContainer = (\<lambda>i os w. (w @ [\<lparr>nr_ID = i, nr_Image = [], nr_Snapshotter = [], nr_SnapshotID = [], nr_Spec = [], nr_Labels = opt_labels os\<rparr>], None)),
     lb_LoadContainer = (\<lambda>i w. (w, None)),
     lb_Containers = (\<lambda>f w. (w, Inr (map fst (filter (\<lambda>(i, ls). map_option name_filter (get ls labelName) = Some f) (kept_store w))))),
     lb_Info = (\<lambda>i w. (w, Inr ([], i))), lb_RemoveSnapshot = (\<lambda>s k w. (w, None)), lb_Labels = (\<lambda>i w. (w, Inr [])),
     lb_Process = (\<lambda>i w. (w, Inr None)), lb_NewTask = (\<lambda>i io w. (w, None)), lb_Task = (\<lambda>i w. (w, None)),
     lb_Delete = (\<lambda>i w. (w, None)), lb_Exec = (\<lambda>i x p io w. (w, None)), lb_task = (\<lambda>i. sample_ops), lb_process = (\<lambda>i x. sample_ops)\<rparr>"

lemma sample_keeps_store: "keeps_store sample_lib keeping_client kept_store"
proof -
  have "map_option name_filter x = Some (name_filter v) \<longleftrightarrow> x = Some v" for x v
    by (cases x) (simp_all add: name_filter_def)
  then show ?thesis
    by (simp add: keeps_store_def sample_lib_def keeping_client_def is_ok_iff kept_store_def split_def del: map_option_eq_Some)
qed

definition web_config :: "container_id \<Rightarrow> ctd_config" where
  "web_config i = \<lparr>cg_ID = i, cg_Name = ''web'', cg_Image = ''alpine'', cg_Command = [''sleep''], cg_Entrypoint = [], cg_Env = [],
     cg_WorkingDir = [], cg_User = [], cg_Hostname = [], cg_Labels = [], cg_Mounts = [], cg_Terminal = False, cg_OpenStdin = False,
     cg_Snapshotter = [], cg_SnapshotID = []\<rparr>"

theorem containerd_names_unique_witness:
  "distinct (stored_names (kept_store (creates (newContainerdClient sample_lib keeping_client) [web_config ''c1'', web_config ''c2''] [])))
    \<and> kept_store (creates (newContainerdClient sample_lib keeping_client) [web_config ''c1'', web_config ''c2''] []) = [(''c1'', [(labelName, ''web'')])]"
proof
  show "distinct (stored_names (kept_store (creates (newContainerdClient sample_lib keeping_client) [web_config ''c1'', web_config ''c2''] [])))"
    using containerd_names_unique [OF sample_keeps_store, where initial = "[]" and cfgs = "[web_config ''c1'', web_config ''c2'']",
        OF _ refl surjective_pairing] by (simp add: kept_store_def)
  show "kept_store (creates (newContainerdClient sample_lib keeping_client) [web_config ''c1'', web_config ''c2''] []) = [(''c1'', [(labelName, ''web'')])]"
    by code_simp
qed

end
