(* ===== verification/Observability.thy ===== *)
theory Observability
  imports Go_Errors Go_Binary
begin

text \<open>
  \<^verbatim>\<open>internal/observability\<close>: the request context, the HTTP middleware with its status recorder
  (\<^verbatim>\<open>middleware.go\<close>), the logger and its level (\<^verbatim>\<open>logger.go\<close>), the telemetry providers
  (\<^verbatim>\<open>exporters.go\<close>, \<^verbatim>\<open>telemetry.go\<close>) and their bootstrap (\<^verbatim>\<open>runtime.go\<close>).

  Zap, OpenTelemetry and the URL parser are parameters (\<open>obs_env\<close>). Calls that leave the process or
  change its global providers are events of a trace, in the order the code makes them.
\<close>

section \<open>context.go\<close>

text \<open>A context is the values attached to it; \<open>None\<close> is nil.\<close>

type_synonym obs_ctx = "(string, string) gomap"

definition requestIDContextKey :: string where "requestIDContextKey = ''requestID''"

definition ContextWithRequestID :: "obs_ctx option \<Rightarrow> string \<Rightarrow> obs_ctx" where
  "ContextWithRequestID c requestID = put requestIDContextKey requestID (case c of None \<Rightarrow> [] | Some m \<Rightarrow> m)"

definition RequestIDFromContext :: "obs_ctx option \<Rightarrow> string" where
  "RequestIDFromContext c = (case c of None \<Rightarrow> [] | Some m \<Rightarrow> get_or [] m requestIDContextKey)"

section \<open>middleware.go: statusRecorder\<close>

text \<open>
  A response as the client gets it: the status once it is sent, and the bytes of the body. What a
  handler does with the writer; \<open>Flushed\<close> is a flush through \<^verbatim>\<open>http.ResponseController\<close>, which
  reaches the writer below the recorder. The last argument of \<open>BodyWrite\<close> is the number of bytes the
  connection takes.
\<close>

record response =
  rs_status :: "int option"
  rs_body :: nat

datatype writer_op = HeaderWrite int | BodyWrite nat | Flushed

text \<open>
  \<^verbatim>\<open>net/http\<close>: the first final status is sent, informational ones (100 to 199 except 101) do not
  count, a write or a flush before it sends 200.
\<close>

definition informational :: "int \<Rightarrow> bool" where
  "informational code \<longleftrightarrow> 100 \<le> code \<and> code \<le> 199 \<and> code \<noteq> 101"

definition http_commit :: "int \<Rightarrow> response \<Rightarrow> response" where
  "http_commit code r = (if rs_status r = None then r\<lparr>rs_status := Some code\<rparr> else r)"

definition http_WriteHeader :: "int \<Rightarrow> response \<Rightarrow> response" where
  "http_WriteHeader code r = (if informational code then r else http_commit code r)"

definition http_Write :: "nat \<Rightarrow> response \<Rightarrow> response" where
  "http_Write n r = (let r1 = http_commit 200 r in r1\<lparr>rs_body := rs_body r1 + n\<rparr>)"

record statusRecorder =
  sr_response :: response
  sr_status :: int
  sr_bytesWritten :: nat

definition statusCode :: "statusRecorder \<Rightarrow> int" where
  "statusCode r = (if sr_status r = 0 then 200 else sr_status r)"

definition recorder_WriteHeader :: "int \<Rightarrow> statusRecorder \<Rightarrow> statusRecorder" where
  "recorder_WriteHeader code r =
    (if sr_status r \<noteq> 0 then r
     else r\<lparr>sr_status := code, sr_response := http_WriteHeader code (sr_response r)\<rparr>)"

definition recorder_Write :: "nat \<Rightarrow> statusRecorder \<Rightarrow> statusRecorder" where
  "recorder_Write n r = (let r1 = (if sr_status r = 0 then r\<lparr>sr_status := 200\<rparr> else r) in
     r1\<lparr>sr_response := http_Write n (sr_response r1), sr_bytesWritten := sr_bytesWritten r1 + n\<rparr>)"

fun recorder_op :: "writer_op \<Rightarrow> statusRecorder \<Rightarrow> statusRecorder" where
  "recorder_op (HeaderWrite code) r = recorder_WriteHeader code r"
| "recorder_op (BodyWrite n) r = recorder_Write n r"
| "recorder_op Flushed r = r\<lparr>sr_response := http_commit 200 (sr_response r)\<rparr>"

definition new_recorder :: statusRecorder where
  "new_recorder = \<lparr>sr_response = \<lparr>rs_status = None, rs_body = 0\<rparr>, sr_status = 0, sr_bytesWritten = 0\<rparr>"

text \<open>What the client sees when the handler has returned: a response without a status is 200.\<close>

definition sent_status :: "response \<Rightarrow> int" where
  "sent_status r = (case rs_status r of None \<Rightarrow> 200 | Some c \<Rightarrow> c)"

section \<open>middleware.go: Middleware\<close>

record http_req =
  hr_method :: string
  hr_path :: string
  hr_requestID :: string
  hr_ctx :: obs_ctx

record access_log =
  al_request_id :: string
  al_method :: string
  al_path :: string
  al_status :: int
  al_bytes :: nat

text \<open>The random bytes, or the clock when the source of randomness fails.\<close>

definition hex_text :: "bytes \<Rightarrow> string" where
  "hex_text bs = concat (map (\<lambda>b. [hex_digit (unat b div 16), hex_digit (unat b mod 16)]) bs)"

definition newRequestID :: "bytes option \<Rightarrow> string \<Rightarrow> string" where
  "newRequestID random clock = (case random of Some bs \<Rightarrow> hex_text bs | None \<Rightarrow> clock)"

text \<open>
  The wrapped handler gets the request with its context and answers with the operations it makes on
  the writer. The result has the header echoed to the client, the response, the access log entry and
  the status the span reports as an error.
\<close>

definition Middleware ::
  "(obs_ctx \<Rightarrow> obs_ctx) \<Rightarrow> bytes option \<Rightarrow> string \<Rightarrow> (http_req \<Rightarrow> writer_op list) option \<Rightarrow> http_req
    \<Rightarrow> string \<times> response \<times> access_log \<times> int option" where
  "Middleware extract random clock nxt req =
    (let handler = (case nxt of Some h \<Rightarrow> h | None \<Rightarrow> (\<lambda>r. [HeaderWrite 404, BodyWrite 19]));
         trimmed = TrimSpace (hr_requestID req);
         requestID = (if trimmed = [] then newRequestID random clock else trimmed);
         c = ContextWithRequestID (Some (extract (hr_ctx req))) requestID;
         recorder = fold recorder_op (handler (req\<lparr>hr_ctx := c\<rparr>)) new_recorder;
         status = statusCode recorder
     in (requestID, sr_response recorder,
         \<lparr>al_request_id = requestID, al_method = hr_method req, al_path = hr_path req, al_status = status,
          al_bytes = sr_bytesWritten recorder\<rparr>,
         if status \<ge> 500 then Some status else None))"

section \<open>exporters.go\<close>

record obs_env =
  oe_url :: "string \<Rightarrow> gerror + string \<times> string"
  oe_resource :: "gerror option"
  oe_traceExporter :: "string \<Rightarrow> bool \<Rightarrow> gerror option"
  oe_metricExporter :: "string \<Rightarrow> bool \<Rightarrow> gerror option"
  oe_logExporter :: "string \<Rightarrow> bool \<Rightarrow> gerror option"
  oe_ParseLevel :: "string \<Rightarrow> gerror + int"

text \<open>The result is the target and whether transport security is required.\<close>

definition parseOTLPEndpoint :: "obs_env \<Rightarrow> string \<Rightarrow> gerror + string \<times> bool" where
  "parseOTLPEndpoint env endpoint = (let trimmed = TrimSpace endpoint in
     if trimmed = [] then Inr ([], False)
     else if \<not> Contains trimmed ''://'' then Inr (trimmed, False)
     else case oe_url env trimmed of
       Inl e \<Rightarrow> Inl (wrap_pre (''invalid OpenTelemetry endpoint '' @ quote endpoint @ '': '') e)
     | Inr (scheme, host) \<Rightarrow>
        if scheme \<notin> {''http'', ''https''}
        then Inl (NewErr (''invalid OpenTelemetry endpoint scheme '' @ quote scheme @ '': use http or https''))
        else if host = [] then Inl (NewErr (''invalid OpenTelemetry endpoint '' @ quote endpoint @ '': missing host''))
        else Inr (host, scheme = ''https''))"

section \<open>telemetry.go\<close>

datatype provider = TracerProvider | MeterProvider | LoggerProvider

datatype obs_event =
    NewExporter provider string bool
  | SetProvider provider
  | SetPropagator
  | ForceFlush provider
  | StopProvider provider
  | SyncLogger

record telemetry =
  tl_tracer :: bool
  tl_meter :: bool
  tl_loggerProvider :: bool
  tl_otlp :: bool
  tl_logger :: bool
  tl_once :: bool
  tl_err :: "gerror option"

definition BootstrapTelemetry :: "obs_env \<Rightarrow> string \<Rightarrow> string \<Rightarrow> obs_event list \<times> (gerror + telemetry)" where
  "BootstrapTelemetry env serviceName endpoint =
    (if TrimSpace serviceName = [] then ([], Inl (NewErr ''OpenTelemetry service name must not be empty''))
     else case parseOTLPEndpoint env endpoint of
       Inl e \<Rightarrow> ([], Inl e)
     | Inr (target, secure) \<Rightarrow> (case oe_resource env of
         Some e \<Rightarrow> ([], Inl (wrap_pre ''build OpenTelemetry resource: '' e))
       | None \<Rightarrow>
          let otlp = (target \<noteq> []);
              made = (if otlp then [NewExporter TracerProvider target secure, NewExporter MeterProvider target secure,
                        NewExporter LoggerProvider target secure] else []);
              done = [SetProvider TracerProvider, SetProvider MeterProvider, SetPropagator]
                @ (if otlp then [SetProvider LoggerProvider] else []);
              t = \<lparr>tl_tracer = True, tl_meter = True, tl_loggerProvider = otlp, tl_otlp = otlp, tl_logger = False, tl_once = False, tl_err = None\<rparr>
          in if \<not> otlp then (done, Inr t)
             else (case oe_traceExporter env target secure of
               Some e \<Rightarrow> (take 1 made, Inl (wrap_pre ''initialize OTLP trace exporter: '' e))
             | None \<Rightarrow> (case oe_metricExporter env target secure of
                 Some e \<Rightarrow> (take 2 made, Inl (wrap_pre ''initialize OTLP metric exporter: '' e))
               | None \<Rightarrow> (case oe_logExporter env target secure of
                   Some e \<Rightarrow> (made, Inl (wrap_pre ''initialize OTLP log exporter: '' e))
                 | None \<Rightarrow> (made @ done, Inr t))))))"

definition OTLPEnabled :: "telemetry option \<Rightarrow> bool" where
  "OTLPEnabled t = (case t of None \<Rightarrow> False | Some t \<Rightarrow> tl_otlp t)"

definition telemetry_LoggerProvider :: "telemetry option \<Rightarrow> bool" where
  "telemetry_LoggerProvider t = (case t of None \<Rightarrow> False | Some t \<Rightarrow> tl_loggerProvider t)"

definition AttachLogger :: "bool \<Rightarrow> telemetry option \<Rightarrow> telemetry option" where
  "AttachLogger logger t = map_option (\<lambda>t. t\<lparr>tl_logger := logger\<rparr>) t"

text \<open>\<open>result\<close> is what each call returns. Every provider is flushed before it is stopped.\<close>

definition shutdown_calls :: "telemetry \<Rightarrow> obs_event list" where
  "shutdown_calls t =
     (if tl_tracer t then [ForceFlush TracerProvider, StopProvider TracerProvider] else [])
   @ (if tl_meter t then [ForceFlush MeterProvider, StopProvider MeterProvider] else [])
   @ (if tl_loggerProvider t then [ForceFlush LoggerProvider, StopProvider LoggerProvider] else [])
   @ (if tl_logger t then [SyncLogger] else [])"

definition telemetry_Shutdown :: "(obs_event \<Rightarrow> gerror option) \<Rightarrow> telemetry option \<Rightarrow> telemetry option \<times> obs_event list \<times> gerror option" where
  "telemetry_Shutdown result t0 = (case t0 of
     None \<Rightarrow> (None, [], None)
   | Some t \<Rightarrow>
      if tl_once t then (Some t, [], tl_err t)
      else let err = join_errors (map result (shutdown_calls t))
           in (Some (t\<lparr>tl_once := True, tl_err := err\<rparr>), shutdown_calls t, err))"

section \<open>logger.go\<close>

record logger =
  lg_level :: int
  lg_bridge :: bool

definition parseLogLevel :: "obs_env \<Rightarrow> string \<Rightarrow> gerror + int" where
  "parseLogLevel env level0 = (let level = (if TrimSpace level0 = [] then ''info'' else level0) in
     case oe_ParseLevel env level of
       Inl e \<Rightarrow> Inl (wrap_pre (''invalid log level '' @ quote level @ '': '') e)
     | Inr lv \<Rightarrow> Inr lv)"

definition NewLogger :: "obs_env \<Rightarrow> string \<Rightarrow> bool \<Rightarrow> gerror + logger" where
  "NewLogger env level bridge = (case parseLogLevel env level of
     Inl e \<Rightarrow> Inl e | Inr lv \<Rightarrow> Inr \<lparr>lg_level = lv, lg_bridge = bridge\<rparr>)"

definition SetLevel :: "int \<Rightarrow> logger option \<Rightarrow> logger option" where
  "SetLevel lv l = map_option (\<lambda>l. l\<lparr>lg_level := lv\<rparr>) l"

definition logger_Sync :: "logger option \<Rightarrow> gerror option \<Rightarrow> gerror option" where
  "logger_Sync l err = (case l of None \<Rightarrow> None
     | Some _ \<Rightarrow> (case err of None \<Rightarrow> None
         | Some e \<Rightarrow> if errors_is e (Std EINVAL) \<or> errors_is e (Std ENOTTY) then None else Some e))"

text \<open>
  A core says whether it takes entries of a level (\<open>enabled\<close>) and adds itself to the entry that is
  checked; the bridge takes what its provider takes (\<open>otel\<close>).
\<close>

datatype log_core = OutputCore | BridgeCore

definition level_Enabled :: "int \<Rightarrow> int \<Rightarrow> bool" where
  "level_Enabled threshold lv \<longleftrightarrow> threshold \<le> lv"

definition filtered_Enabled :: "(int \<Rightarrow> bool) \<Rightarrow> int \<Rightarrow> int \<Rightarrow> bool" where
  "filtered_Enabled otel threshold lv \<longleftrightarrow> level_Enabled threshold lv \<and> otel lv"

definition filtered_Check :: "(int \<Rightarrow> bool) \<Rightarrow> int \<Rightarrow> int \<Rightarrow> log_core list \<Rightarrow> log_core list" where
  "filtered_Check otel threshold lv checked =
    (if \<not> level_Enabled threshold lv then checked
     else if otel lv then checked @ [BridgeCore] else checked)"

definition newLoggerCore_Check :: "(int \<Rightarrow> bool) \<Rightarrow> logger \<Rightarrow> int \<Rightarrow> log_core list" where
  "newLoggerCore_Check otel l lv =
    (let checked = (if level_Enabled (lg_level l) lv then [OutputCore] else []) in
     if lg_bridge l then filtered_Check otel (lg_level l) lv checked else checked)"

section \<open>runtime.go\<close>

record obs_runtime =
  rt_logger :: logger
  rt_telemetry :: telemetry

definition Bootstrap ::
  "obs_env \<Rightarrow> (obs_event \<Rightarrow> gerror option) \<Rightarrow> string \<Rightarrow> string \<Rightarrow> string \<Rightarrow> obs_event list \<times> (gerror + obs_runtime)" where
  "Bootstrap env result serviceName level endpoint = (case BootstrapTelemetry env serviceName endpoint of
     (evs, Inl e) \<Rightarrow> (evs, Inl (wrap_pre ''initialize telemetry: '' e))
   | (evs, Inr t) \<Rightarrow> (case NewLogger env level (telemetry_LoggerProvider (Some t)) of
       Inl e \<Rightarrow> (case telemetry_Shutdown result (Some t) of (_, evs2, err) \<Rightarrow>
          (evs @ evs2, case join_errors [Some (wrap_pre ''initialize logging: '' e), err] of Some x \<Rightarrow> Inl x | None \<Rightarrow> Inl e))
     | Inr l \<Rightarrow> (evs, Inr \<lparr>rt_logger = l, rt_telemetry = t\<lparr>tl_logger := True\<rparr>\<rparr>)))"

definition runtime_Shutdown :: "(obs_event \<Rightarrow> gerror option) \<Rightarrow> obs_runtime option \<Rightarrow> obs_runtime option \<times> obs_event list \<times> gerror option" where
  "runtime_Shutdown result r0 = (case r0 of
     None \<Rightarrow> (None, [], None)
   | Some r \<Rightarrow> (case telemetry_Shutdown result (Some (rt_telemetry r)) of
       (Some t, evs, err) \<Rightarrow> (Some (r\<lparr>rt_telemetry := t\<rparr>), evs, err)
     | (None, evs, err) \<Rightarrow> (Some r, evs, err)))"

section \<open>What the access log says\<close>

text \<open>A handler that sends final statuses and does not flush before one.\<close>

fun plain_op :: "writer_op \<Rightarrow> bool" where
  "plain_op (HeaderWrite code) = (200 \<le> code)"
| "plain_op (BodyWrite n) = True"
| "plain_op Flushed = False"

definition recorder_ok :: "statusRecorder \<Rightarrow> bool" where
  "recorder_ok r \<longleftrightarrow> rs_status (sr_response r) = (if sr_status r = 0 then None else Some (sr_status r))
     \<and> rs_body (sr_response r) = sr_bytesWritten r"

lemma recorder_op_ok: "recorder_ok r \<Longrightarrow> plain_op op \<Longrightarrow> recorder_ok (recorder_op op r)"
  by (cases op) (auto simp: recorder_ok_def recorder_WriteHeader_def recorder_Write_def http_WriteHeader_def http_Write_def
      http_commit_def informational_def Let_def)

lemma recorder_ops_ok: "recorder_ok r \<Longrightarrow> list_all plain_op ops \<Longrightarrow> recorder_ok (fold recorder_op ops r)"
  by (induction ops arbitrary: r) (simp_all add: recorder_op_ok)

lemma recorder_status: "recorder_ok r \<Longrightarrow> statusCode r = sent_status (sr_response r)"
  by (auto simp: recorder_ok_def statusCode_def sent_status_def split: option.splits)

text \<open>
  The access log tells what the client got: for every handler that sends final statuses and
  does not flush early, however many headers and bodies it writes, the logged status and size are
  those of the response, the identifier logged is the one echoed to the client and the one the
  handler finds in its context, and a request that brought an identifier keeps it.
\<close>

theorem access_log_faithful:
  assumes "\<And>r. list_all plain_op (h r)"
    and "Middleware extract random clock (Some h) req = (echoed, resp, entry, err)"
  shows "al_status entry = sent_status resp \<and> al_bytes entry = rs_body resp \<and> al_request_id entry = echoed
    \<and> (TrimSpace (hr_requestID req) \<noteq> [] \<longrightarrow> echoed = TrimSpace (hr_requestID req))
    \<and> (err \<noteq> None \<longleftrightarrow> 500 \<le> sent_status resp)
    \<and> (\<exists>c. RequestIDFromContext (Some c) = echoed \<and> resp = sr_response (fold recorder_op (h (req\<lparr>hr_ctx := c\<rparr>)) new_recorder))"
proof -
  define i where "i = (if TrimSpace (hr_requestID req) = [] then newRequestID random clock else TrimSpace (hr_requestID req))"
  define c where "c = ContextWithRequestID (Some (extract (hr_ctx req))) i"
  define r where "r = fold recorder_op (h (req\<lparr>hr_ctx := c\<rparr>)) new_recorder"
  have "recorder_ok new_recorder" by (simp add: recorder_ok_def new_recorder_def)
  then have ok: "recorder_ok r" unfolding r_def using assms(1) by (rule recorder_ops_ok)
  have res: "echoed = i" "resp = sr_response r" "err = (if 500 \<le> statusCode r then Some (statusCode r) else None)"
    "al_status entry = statusCode r" "al_bytes entry = sr_bytesWritten r" "al_request_id entry = i"
    using assms(2) by (auto simp: Middleware_def Let_def i_def c_def r_def)
  have "RequestIDFromContext (Some c) = i"
    by (simp add: RequestIDFromContext_def ContextWithRequestID_def get_or_def c_def)
  moreover have "rs_body resp = sr_bytesWritten r" using ok by (simp add: res(2) recorder_ok_def)
  moreover have "TrimSpace (hr_requestID req) \<noteq> [] \<longrightarrow> i = TrimSpace (hr_requestID req)" by (simp add: i_def)
  moreover have "resp = sr_response (fold recorder_op (h (req\<lparr>hr_ctx := c\<rparr>)) new_recorder)" by (simp add: res(2) r_def)
  ultimately show ?thesis using res recorder_status [OF ok] by auto
qed

definition sample_req :: http_req where
  "sample_req = \<lparr>hr_method = ''GET'', hr_path = ''/info'', hr_requestID = '' r1 '', hr_ctx = []\<rparr>"

theorem access_log_faithful_witness:
  "al_status (fst (snd (snd (Middleware id None [] (Some (\<lambda>r. [HeaderWrite 404, BodyWrite 5, HeaderWrite 200])) sample_req)))) = 404
   \<and> fst (Middleware id None [] (Some (\<lambda>r. [HeaderWrite 404, BodyWrite 5, HeaderWrite 200])) sample_req) = ''r1''"
proof -
  let ?m = "Middleware id None [] (Some (\<lambda>r. [HeaderWrite 404, BodyWrite 5, HeaderWrite 200])) sample_req"
  obtain e r a x where m: "?m = (e, r, a, x)" by (metis prod_cases4)
  have "TrimSpace (hr_requestID sample_req) = ''r1''" "sent_status (fst (snd ?m)) = 404" by code_simp+
  with access_log_faithful [OF _ m] m show ?thesis by simp
qed

text \<open>A flush that precedes the header goes out with status 200, but the recorder notes the later one.\<close>

lemma early_flush_logged_wrong:
  "Middleware extract random clock (Some (\<lambda>r. [Flushed, HeaderWrite 500])) req = (echoed, resp, entry, err)
    \<Longrightarrow> sent_status resp = 200 \<and> al_status entry = 500"
  by (auto simp: Middleware_def Let_def new_recorder_def recorder_WriteHeader_def http_commit_def http_WriteHeader_def
      informational_def sent_status_def statusCode_def)

section \<open>Levels and shutdown\<close>

lemma bridge_follows_level:
  "BridgeCore \<in> set (newLoggerCore_Check otel l lv) \<longleftrightarrow> lg_bridge l \<and> lg_level l \<le> lv \<and> otel lv"
  "OutputCore \<in> set (newLoggerCore_Check otel l lv) \<longleftrightarrow> lg_level l \<le> lv"
  by (auto simp: newLoggerCore_Check_def filtered_Check_def level_Enabled_def Let_def)

lemma offline_makes_no_exporter:
  "TrimSpace endpoint = [] \<Longrightarrow> BootstrapTelemetry env name endpoint = (evs, r) \<Longrightarrow> NewExporter p t sec \<notin> set evs"
  by (auto simp: BootstrapTelemetry_def parseOTLPEndpoint_def Let_def split: if_splits option.splits)

text \<open>
  Telemetry is shut down once: the first shutdown flushes every provider before it stops it
  and syncs the logger last, its error is the join of what the calls returned, and every later
  shutdown makes no call and returns the same error.
\<close>

theorem telemetry_shutdown_once:
  assumes "\<not> tl_once t" and "telemetry_Shutdown result (Some t) = (t1, calls, err)"
  shows "(err = None \<longleftrightarrow> (\<forall>c\<in>set calls. result c = None)) \<and> distinct calls
    \<and> (\<forall>p us vs. calls = us @ StopProvider p # vs \<longrightarrow> ForceFlush p \<in> set us)
    \<and> (SyncLogger \<in> set calls \<longrightarrow> last calls = SyncLogger)
    \<and> (\<forall>result'. telemetry_Shutdown result' t1 = (t1, [], err))"
proof -
  have c: "calls = shutdown_calls t" and e: "err = join_errors (map result (shutdown_calls t))"
    and t1: "t1 = Some (t\<lparr>tl_once := True, tl_err := err\<rparr>)"
    using assms by (auto simp: telemetry_Shutdown_def Let_def)
  have "ForceFlush p \<in> set us" if "shutdown_calls t = us @ StopProvider p # vs" for p us vs
    using that by (auto simp: shutdown_calls_def Cons_eq_append_conv split: if_splits)
  moreover have "distinct (shutdown_calls t)" "SyncLogger \<in> set (shutdown_calls t) \<longrightarrow> last (shutdown_calls t) = SyncLogger"
    by (auto simp: shutdown_calls_def)
  moreover have "err = None \<longleftrightarrow> (\<forall>c\<in>set calls. result c = None)"
    by (simp add: e c join_errors_None_iff list_all_iff)
  moreover have "telemetry_Shutdown result' t1 = (t1, [], err)" for result'
    by (simp add: telemetry_Shutdown_def t1)
  ultimately show ?thesis by (simp add: c)
qed

definition sample_telemetry :: telemetry where
  "sample_telemetry = \<lparr>tl_tracer = True, tl_meter = True, tl_loggerProvider = False, tl_otlp = False, tl_logger = True, tl_once = False, tl_err = None\<rparr>"

theorem telemetry_shutdown_once_witness:
  "\<exists>t1. telemetry_Shutdown (\<lambda>c. None) (Some sample_telemetry)
      = (t1, [ForceFlush TracerProvider, StopProvider TracerProvider, ForceFlush MeterProvider, StopProvider MeterProvider, SyncLogger], None)
    \<and> telemetry_Shutdown (\<lambda>c. Some (NewErr ''down'')) t1 = (t1, [], None)"
proof -
  let ?t1 = "Some (sample_telemetry\<lparr>tl_once := True, tl_err := None\<rparr>)"
  have a: "telemetry_Shutdown (\<lambda>c. None) (Some sample_telemetry)
      = (?t1, [ForceFlush TracerProvider, StopProvider TracerProvider, ForceFlush MeterProvider, StopProvider MeterProvider, SyncLogger], None)"
    by code_simp
  have "telemetry_Shutdown (\<lambda>c. Some (NewErr ''down'')) ?t1 = (?t1, [], None)"
    using telemetry_shutdown_once [OF _ a] by (simp add: sample_telemetry_def)
  with a show ?thesis by blast
qed

end
