(* ===== verification/Api_Server.thy ===== *)
theory Api_Server
  imports Go_Local Go_Errors
begin

text \<open>
  \<^verbatim>\<open>internal/api/server.go\<close>: the Unix socket of the daemon, from the checks before it is bound to
  its removal at shutdown.

  The file system maps the cleaned names to nodes with a kind, permission bits and an owner; a socket
  some process listens on carries the number of that listener. Each call site of the code has a name:
  before the call other processes may have changed the file system (\<open>sy_between\<close>), and the call may
  report an error of its own (\<open>sy_fault\<close>). Without such an error a call has the effect the system
  documents. A connection that the permission bits of the socket forbid is such an error of the dial:
  group membership and the bits of the socket play no part in \<open>sys_Dial\<close> itself.
\<close>

unbundle bit_operations_syntax

section \<open>The file system\<close>

datatype node_kind = NodeSocket | NodeDirectory | NodeOther

record inode =
  in_kind :: node_kind
  in_mode :: u32
  in_uid :: int
  in_listener :: "nat option"

type_synonym files = "string \<Rightarrow> inode option"

datatype call_site = AtMkdir | AtLstatStale | AtDial | AtChmodStale | AtRemoveStale | AtBind | AtChmod | AtLstat
  | AtUnlinkOnClose | AtClose | AtRemove

record sys_env =
  sy_euid :: int
  sy_umask :: u32
  sy_stat :: bool
  sy_listener :: nat
  sy_fault :: "call_site \<Rightarrow> gerror option"
  sy_between :: "call_site \<Rightarrow> files \<Rightarrow> files"

abbreviation not_exist :: gerror where "not_exist \<equiv> Sentinel (Std ErrNotExist)"

definition node :: "files \<Rightarrow> string \<Rightarrow> inode option" where
  "node fs p = fs (Clean p)"

definition set_node :: "string \<Rightarrow> inode option \<Rightarrow> files \<Rightarrow> files" where
  "set_node p n fs = fs(Clean p := n)"

definition perm_bits :: u32 where "perm_bits = 511"

definition sys_Lstat :: "sys_env \<Rightarrow> call_site \<Rightarrow> string \<Rightarrow> files \<Rightarrow> files \<times> (gerror + inode)" where
  "sys_Lstat env at p fs0 = (let fs = sy_between env at fs0 in
     (fs, case sy_fault env at of Some e \<Rightarrow> Inl e
       | None \<Rightarrow> (case node fs p of None \<Rightarrow> Inl not_exist | Some n \<Rightarrow> Inr n)))"

definition sys_Dial :: "sys_env \<Rightarrow> call_site \<Rightarrow> string \<Rightarrow> files \<Rightarrow> files \<times> bool" where
  "sys_Dial env at p fs0 = (let fs = sy_between env at fs0 in
     (fs, case sy_fault env at of Some e \<Rightarrow> False
       | None \<Rightarrow> (case node fs p of None \<Rightarrow> False | Some n \<Rightarrow> in_kind n = NodeSocket \<and> in_listener n \<noteq> None)))"

definition sys_Chmod :: "sys_env \<Rightarrow> call_site \<Rightarrow> string \<Rightarrow> u32 \<Rightarrow> files \<Rightarrow> files \<times> gerror option" where
  "sys_Chmod env at p mode fs0 = (let fs = sy_between env at fs0 in
     case sy_fault env at of Some e \<Rightarrow> (fs, Some e)
     | None \<Rightarrow> (case node fs p of None \<Rightarrow> (fs, Some not_exist)
       | Some n \<Rightarrow> if in_uid n \<noteq> sy_euid env \<and> sy_euid env \<noteq> 0 then (fs, Some (NewErr ''operation not permitted''))
           else (set_node p (Some (n\<lparr>in_mode := mode\<rparr>)) fs, None)))"

definition sys_Remove :: "sys_env \<Rightarrow> call_site \<Rightarrow> string \<Rightarrow> files \<Rightarrow> files \<times> gerror option" where
  "sys_Remove env at p fs0 = (let fs = sy_between env at fs0 in
     case sy_fault env at of Some e \<Rightarrow> (fs, Some e)
     | None \<Rightarrow> (case node fs p of None \<Rightarrow> (fs, Some not_exist) | Some n \<Rightarrow> (set_node p None fs, None)))"

text \<open>The directories \<^verbatim>\<open>os.MkdirAll\<close> passes on its way, the outermost first.\<close>

definition ancestors :: "string \<Rightarrow> string list" where
  "ancestors p = (let es = clean_elems (IsAbs p) [] (Split CHR ''/'' p) in
     map (\<lambda>k. (if IsAbs p then ''/'' else []) @ Join ''/'' (take (Suc k) es)) [0..<length es])"

fun make_dirs :: "sys_env \<Rightarrow> u32 \<Rightarrow> string list \<Rightarrow> files \<Rightarrow> files \<times> gerror option" where
  "make_dirs env mode [] fs = (fs, None)"
| "make_dirs env mode (d # ds) fs = (case fs d of
     None \<Rightarrow> make_dirs env mode ds (fs(d \<mapsto> \<lparr>in_kind = NodeDirectory, in_mode = mode AND NOT (sy_umask env),
        in_uid = sy_euid env, in_listener = None\<rparr>))
   | Some n \<Rightarrow> if in_kind n = NodeDirectory then make_dirs env mode ds fs
       else (fs, Some (NewErr (''mkdir '' @ d @ '': not a directory''))))"

definition sys_MkdirAll :: "sys_env \<Rightarrow> call_site \<Rightarrow> string \<Rightarrow> u32 \<Rightarrow> files \<Rightarrow> files \<times> gerror option" where
  "sys_MkdirAll env at p mode fs0 = (let fs = sy_between env at fs0 in
     case sy_fault env at of Some e \<Rightarrow> (fs, Some e) | None \<Rightarrow> make_dirs env mode (ancestors p) fs)"

text \<open>
  A listening socket. A name that starts with \<^verbatim>\<open>@\<close> is an abstract address and has no file.
  Closing a listener unlinks the name it was bound to.
\<close>

record listener =
  ln_id :: nat
  ln_path :: string
  ln_closed :: bool

definition abstract_addr :: "string \<Rightarrow> bool" where
  "abstract_addr p \<longleftrightarrow> HasPrefix p ''@''"

definition dir_exists :: "files \<Rightarrow> string \<Rightarrow> bool" where
  "dir_exists fs p \<longleftrightarrow> ancestors p = [] \<or> (case node fs p of None \<Rightarrow> False | Some n \<Rightarrow> in_kind n = NodeDirectory)"

definition sys_Bind :: "sys_env \<Rightarrow> call_site \<Rightarrow> string \<Rightarrow> files \<Rightarrow> files \<times> (gerror + listener)" where
  "sys_Bind env at p fs0 = (let fs = sy_between env at fs0; l = \<lparr>ln_id = sy_listener env, ln_path = p, ln_closed = False\<rparr> in
     case sy_fault env at of Some e \<Rightarrow> (fs, Inl e)
     | None \<Rightarrow>
        if abstract_addr p then (fs, Inr l)
        else if node fs p \<noteq> None then (fs, Inl (Sentinel (Std EADDRINUSE)))
        else if \<not> dir_exists fs (Dir p) then (fs, Inl not_exist)
        else (set_node p (Some \<lparr>in_kind = NodeSocket, in_mode = perm_bits AND NOT (sy_umask env), in_uid = sy_euid env,
               in_listener = Some (sy_listener env)\<rparr>) fs, Inr l))"

definition hang_up :: "nat \<Rightarrow> files \<Rightarrow> files" where
  "hang_up i fs = (\<lambda>p. map_option (\<lambda>n. if in_listener n = Some i then n\<lparr>in_listener := None\<rparr> else n) (fs p))"

definition listener_Close :: "sys_env \<Rightarrow> listener \<Rightarrow> files \<Rightarrow> files \<times> listener \<times> gerror option" where
  "listener_Close env l fs0 =
    (if ln_closed l then (fs0, l, Some (Sentinel (Std ErrNetClosed)))
     else let fs = sy_between env AtUnlinkOnClose fs0;
              fs1 = (if abstract_addr (ln_path l) \<or> sy_fault env AtUnlinkOnClose \<noteq> None then fs
                     else set_node (ln_path l) None fs)
          in (hang_up (ln_id l) fs1, l\<lparr>ln_closed := True\<rparr>, sy_fault env AtClose))"

section \<open>The server\<close>

record 'h http_server =
  hs_Handler :: 'h
  hs_ReadHeaderTimeout :: int
  hs_IdleTimeout :: int

text \<open>\<open>srv_logger\<close> says whether a logger is attached; \<open>srv_audit\<close> holds what it was given.\<close>

record 'h server =
  srv_socketPath :: string
  srv_handler :: 'h
  srv_shutdownTimeout :: int
  srv_logger :: bool
  srv_audit :: "(string \<times> string \<times> string) list"
  srv_listener :: "listener option"
  srv_http :: "'h http_server option"

definition socketMode :: u32 where "socketMode = 432"
definition socketDirectoryMode :: u32 where "socketDirectoryMode = 493"
definition serverReadHeaderWait :: int where "serverReadHeaderWait = 30 * 10 ^ 9"
definition serverIdleWait :: int where "serverIdleWait = 120 * 10 ^ 9"
definition DefaultShutdownTimeout :: int where "DefaultShutdownTimeout = 10 * 10 ^ 9"

datatype server_option = WithShutdownTimeout int | WithSocketLogger bool

fun apply_option :: "server_option option \<Rightarrow> 'h server \<Rightarrow> 'h server" where
  "apply_option None s = s"
| "apply_option (Some (WithShutdownTimeout timeout)) s = (if timeout > 0 then s\<lparr>srv_shutdownTimeout := timeout\<rparr> else s)"
| "apply_option (Some (WithSocketLogger given)) s = (if given then s\<lparr>srv_logger := True\<rparr> else s)"

definition NewServer :: "string \<Rightarrow> 'h option \<Rightarrow> server_option option list \<Rightarrow> gerror + 'h server" where
  "NewServer socketPath handler options =
    (if TrimSpace socketPath = [] then Inl (NewErr ''API socket path must not be empty'')
     else case handler of
       None \<Rightarrow> Inl (NewErr ''API handler must not be nil'')
     | Some h \<Rightarrow> Inr (fold apply_option options
         \<lparr>srv_socketPath = socketPath, srv_handler = h, srv_shutdownTimeout = DefaultShutdownTimeout, srv_logger = False,
          srv_audit = [], srv_listener = None, srv_http = None\<rparr>))"

definition server_SocketPath :: "'h server option \<Rightarrow> string" where
  "server_SocketPath s = (case s of None \<Rightarrow> [] | Some s \<Rightarrow> srv_socketPath s)"

section \<open>The checks\<close>

fun oct_digits :: "nat \<Rightarrow> string" where
  "oct_digits n = (if n < 8 then [char_of (48 + n)] else oct_digits (n div 8) @ [char_of (48 + n mod 8)])"

declare oct_digits.simps [simp del]

text \<open>\<^verbatim>\<open>%04o\<close>\<close>

definition octal04 :: "u32 \<Rightarrow> string" where
  "octal04 m = (let d = oct_digits (unat m) in replicate (4 - length d) CHR ''0'' @ d)"

definition Perm :: "inode \<Rightarrow> u32" where
  "Perm info = in_mode info AND perm_bits"

definition unsafeSocketMode :: "u32 \<Rightarrow> bool" where
  "unsafeSocketMode mode \<longleftrightarrow> mode AND NOT socketMode \<noteq> 0 \<or> mode AND 384 \<noteq> 384"

definition probeLiveSocket :: "sys_env \<Rightarrow> string \<Rightarrow> files \<Rightarrow> files \<times> gerror option" where
  "probeLiveSocket env p fs = (case sys_Dial env AtDial p fs of
     (fs1, True) \<Rightarrow> (fs1, Some (NewErr (''socket '' @ p @ '' is already in use'')))
   | (fs1, False) \<Rightarrow> (fs1, None))"

definition ensureSocketOwnership :: "sys_env \<Rightarrow> string \<Rightarrow> inode \<Rightarrow> gerror option" where
  "ensureSocketOwnership env p info =
    (if \<not> sy_stat env then None
     else if in_uid info \<noteq> sy_euid env
       then Some (NewErr (''refusing to remove socket '' @ p @ '' owned by uid '' @ Itoa (in_uid info) @ '' (daemon uid ''
         @ Itoa (sy_euid env) @ '')''))
     else None)"

definition repairUnsafeSocketMode :: "sys_env \<Rightarrow> inode \<Rightarrow> 'h server \<Rightarrow> files \<Rightarrow> 'h server \<times> files \<times> gerror option" where
  "repairUnsafeSocketMode env info s fs =
    (let perm = Perm info in
     if \<not> unsafeSocketMode perm then (s, fs, None)
     else case sys_Chmod env AtChmodStale (srv_socketPath s) socketMode fs of
       (fs1, Some e) \<Rightarrow> (s, fs1, Some (wrap_pre (''socket '' @ srv_socketPath s @ '' has unsafe permissions '' @ octal04 perm
          @ '' and could not be repaired: '') e))
     | (fs1, None) \<Rightarrow> (if srv_logger s
          then s\<lparr>srv_audit := srv_audit s @ [(srv_socketPath s, octal04 perm, octal04 socketMode)]\<rparr> else s, fs1, None))"

definition removeStaleSocket :: "sys_env \<Rightarrow> 'h server \<Rightarrow> files \<Rightarrow> 'h server \<times> files \<times> gerror option" where
  "removeStaleSocket env s fs = (let p = srv_socketPath s in
     case sys_Lstat env AtLstatStale p fs of
       (fs1, Inl e) \<Rightarrow> (s, fs1, if errors_is e (Std ErrNotExist) then None
          else Some (wrap_pre (''inspect socket '' @ p @ '': '') e))
     | (fs1, Inr info) \<Rightarrow>
        if in_kind info \<noteq> NodeSocket then (s, fs1, Some (NewErr (''path '' @ p @ '' exists and is not a socket'')))
        else (case probeLiveSocket env p fs1 of
          (fs2, Some e) \<Rightarrow> (s, fs2, Some e)
        | (fs2, None) \<Rightarrow> (case ensureSocketOwnership env p info of
            Some e \<Rightarrow> (s, fs2, Some e)
          | None \<Rightarrow> (case repairUnsafeSocketMode env info s fs2 of
              (s3, fs3, Some e) \<Rightarrow> (s3, fs3, Some e)
            | (s3, fs3, None) \<Rightarrow> (case sys_Remove env AtRemoveStale p fs3 of
                (fs4, Some e) \<Rightarrow> (s3, fs4, Some (wrap_pre (''remove stale socket '' @ p @ '': '') e))
              | (fs4, None) \<Rightarrow> (s3, fs4, None))))))"

definition verifySocketBinding :: "sys_env \<Rightarrow> string \<Rightarrow> files \<Rightarrow> files \<times> gerror option" where
  "verifySocketBinding env p fs = (case sys_Lstat env AtLstat p fs of
     (fs1, Inl e) \<Rightarrow> (fs1, Some (wrap_pre (''verify socket '' @ p @ '': '') e))
   | (fs1, Inr info) \<Rightarrow> (fs1,
        if in_kind info \<noteq> NodeSocket then Some (NewErr (''verify socket '' @ p @ '': not a socket after bind''))
        else if Perm info \<noteq> socketMode
          then Some (NewErr (''verify socket '' @ p @ '': permissions '' @ octal04 (Perm info) @ '', want '' @ octal04 socketMode))
        else if \<not> sy_stat env then None
        else if in_uid info \<noteq> sy_euid env
          then Some (NewErr (''verify socket '' @ p @ '': owned by uid '' @ Itoa (in_uid info) @ '', want daemon uid '' @ Itoa (sy_euid env)))
        else None))"

section \<open>Listen, Run, Shutdown\<close>

definition bind_socket :: "sys_env \<Rightarrow> 'h server \<Rightarrow> files \<Rightarrow> 'h server \<times> files \<times> (gerror + listener)" where
  "bind_socket env s fs = (let p = srv_socketPath s in
     case sys_Bind env AtBind p fs of
       (fs1, Inl e) \<Rightarrow> (s, fs1, Inl (wrap_pre (''listen on '' @ p @ '': '') e))
     | (fs1, Inr l) \<Rightarrow> (case sys_Chmod env AtChmod p socketMode fs1 of
         (fs2, Some e) \<Rightarrow> (s, fst (listener_Close env l fs2), Inl (wrap_pre (''set socket permissions on '' @ p @ '': '') e))
       | (fs2, None) \<Rightarrow> (case verifySocketBinding env p fs2 of
           (fs3, Some e) \<Rightarrow> (s, fst (listener_Close env l fs3), Inl e)
         | (fs3, None) \<Rightarrow> (s\<lparr>srv_listener := Some l,
              srv_http := Some \<lparr>hs_Handler = srv_handler s, hs_ReadHeaderTimeout = serverReadHeaderWait,
                hs_IdleTimeout = serverIdleWait\<rparr>\<rparr>, fs3, Inr l))))"

definition Listen :: "sys_env \<Rightarrow> 'h server \<Rightarrow> files \<Rightarrow> 'h server \<times> files \<times> (gerror + listener)" where
  "Listen env s fs = (case srv_listener s of
     Some l \<Rightarrow> (s, fs, Inr l)
   | None \<Rightarrow> let directory = Dir (srv_socketPath s) in
      (case (if directory \<noteq> [] then sys_MkdirAll env AtMkdir directory socketDirectoryMode fs else (fs, None)) of
         (fs1, Some e) \<Rightarrow> (s, fs1, Inl (wrap_pre (''create socket directory '' @ directory @ '': '') e))
       | (fs1, None) \<Rightarrow> (case removeStaleSocket env s fs1 of
           (s2, fs2, Some e) \<Rightarrow> (s2, fs2, Inl e)
         | (s2, fs2, None) \<Rightarrow> bind_socket env s2 fs2)))"

definition server_listen :: "sys_env \<Rightarrow> 'h server option \<Rightarrow> files \<Rightarrow> 'h server option \<times> files \<times> (gerror + listener)" where
  "server_listen env s0 fs = (case s0 of
     None \<Rightarrow> (None, fs, Inl (NewErr ''API server is nil''))
   | Some s \<Rightarrow> (case Listen env s fs of (s1, fs1, r) \<Rightarrow> (Some s1, fs1, r)))"

text \<open>
  \<open>serving\<close> says whether \<^verbatim>\<open>http.Server.Serve\<close> runs on the listener, which
  \<^verbatim>\<open>http.Server.Shutdown\<close> then closes; \<open>http_err\<close> is what the latter returns.
\<close>

definition Shutdown :: "sys_env \<Rightarrow> bool \<Rightarrow> gerror option \<Rightarrow> 'h server \<Rightarrow> files \<Rightarrow> 'h server \<times> files \<times> gerror option" where
  "Shutdown env serving http_err s fs =
    (let p = srv_socketPath s;
         s1 = s\<lparr>srv_listener := None\<rparr>;
         (fs1, l1) = (case srv_listener s of None \<Rightarrow> (fs, None)
           | Some l \<Rightarrow> if srv_http s \<noteq> None \<and> serving then (case listener_Close env l fs of (fs', l', e) \<Rightarrow> (fs', Some l')) else (fs, Some l));
         errs1 = (case srv_http s of None \<Rightarrow> [] | Some h \<Rightarrow> [http_err]);
         (fs2, errs2) = (case l1 of None \<Rightarrow> (fs1, [])
           | Some l \<Rightarrow> (case listener_Close env l fs1 of (fs', l', e) \<Rightarrow>
               (fs', case e of None \<Rightarrow> [] | Some x \<Rightarrow> if errors_is x (Std ErrNetClosed) then [] else [e])));
         (fs3, errs3) = (case sys_Remove env AtRemove p fs2 of (fs', e) \<Rightarrow>
           (fs', case e of None \<Rightarrow> [] | Some x \<Rightarrow> if errors_is x (Std ErrNotExist) then []
              else [Some (wrap_pre (''remove socket '' @ p @ '': '') x)]))
     in (s1, fs3, join_errors (errs1 @ errs2 @ errs3)))"

definition server_Shutdown :: "sys_env \<Rightarrow> bool \<Rightarrow> gerror option \<Rightarrow> 'h server option \<Rightarrow> files \<Rightarrow> 'h server option \<times> files \<times> gerror option" where
  "server_Shutdown env serving http_err s0 fs = (case s0 of
     None \<Rightarrow> (None, fs, None) | Some s \<Rightarrow> (case Shutdown env serving http_err s fs of (s1, fs1, e) \<Rightarrow> (Some s1, fs1, e)))"

text \<open>
  How serving ends: \<^verbatim>\<open>Serve\<close> returns an error, having closed the listener, or the context is done;
  then \<open>serving\<close> says whether \<^verbatim>\<open>Serve\<close> had begun.
\<close>

datatype serve_end = ServeFailed gerror | ContextDone bool

definition Run :: "sys_env \<Rightarrow> serve_end \<Rightarrow> gerror option \<Rightarrow> 'h server \<Rightarrow> files \<Rightarrow> 'h server \<times> files \<times> gerror option" where
  "Run env outcome http_err s fs = (case Listen env s fs of
     (s1, fs1, Inl e) \<Rightarrow> (s1, fs1, Some e)
   | (s1, fs1, Inr l) \<Rightarrow> (case outcome of
       ServeFailed e \<Rightarrow> (case listener_Close env l fs1 of (fs2, l', _) \<Rightarrow>
          (s1\<lparr>srv_listener := Some l'\<rparr>, fs2, if errors_is e (Std ErrServerClosed) then None else Some (wrap_pre ''serve API: '' e)))
     | ContextDone serving \<Rightarrow> Shutdown env serving http_err s1 fs1))"

section \<open>A bound socket is private\<close>

lemma verifySocketBinding_ok:
  assumes "verifySocketBinding env p fs = (fs', None)"
  shows "\<exists>n. node fs' p = Some n \<and> in_kind n = NodeSocket \<and> Perm n = socketMode \<and> (sy_stat env \<longrightarrow> in_uid n = sy_euid env)"
  using assms
  by (auto simp: verifySocketBinding_def sys_Lstat_def Let_def split: prod.splits sum.splits option.splits if_splits)

lemma bind_socket_ok:
  assumes "bind_socket env s fs = (s', fs', Inr l)"
  shows "(\<exists>n. node fs' (srv_socketPath s) = Some n \<and> in_kind n = NodeSocket \<and> Perm n = socketMode
      \<and> (sy_stat env \<longrightarrow> in_uid n = sy_euid env))
    \<and> srv_listener s' = Some l \<and> ln_path l = srv_socketPath s \<and> \<not> ln_closed l \<and> srv_http s' \<noteq> None
    \<and> srv_socketPath s' = srv_socketPath s \<and> ln_id l = sy_listener env"
proof -
  from assms obtain fs1 fs2 where "sys_Bind env AtBind (srv_socketPath s) fs = (fs1, Inr l)"
    "verifySocketBinding env (srv_socketPath s) fs2 = (fs', None)" "srv_listener s' = Some l" "srv_http s' \<noteq> None"
    "srv_socketPath s' = srv_socketPath s"
    by (auto simp: bind_socket_def Let_def split: prod.splits sum.splits option.splits)
  then show ?thesis
    using verifySocketBinding_ok [of env "srv_socketPath s" fs2 fs']
    by (auto simp: sys_Bind_def Let_def split: option.splits if_splits)
qed

lemma repair_keeps: "repairUnsafeSocketMode env info s fs = (s', fs', r)
    \<Longrightarrow> srv_socketPath s' = srv_socketPath s \<and> srv_listener s' = srv_listener s"
  by (auto simp: repairUnsafeSocketMode_def Let_def split: prod.splits option.splits if_splits)

lemma removeStaleSocket_keeps: "removeStaleSocket env s fs = (s', fs', r)
    \<Longrightarrow> srv_socketPath s' = srv_socketPath s \<and> srv_listener s' = srv_listener s"
  by (auto simp: removeStaleSocket_def Let_def split: prod.splits sum.splits option.splits if_splits dest: repair_keeps)

lemma Listen_bound:
  assumes "srv_listener s = None" and "Listen env s fs = (s', fs', Inr l)"
  shows "(\<exists>n. node fs' (srv_socketPath s) = Some n \<and> in_kind n = NodeSocket \<and> Perm n = socketMode
      \<and> (sy_stat env \<longrightarrow> in_uid n = sy_euid env))
    \<and> srv_listener s' = Some l \<and> ln_path l = srv_socketPath s \<and> \<not> ln_closed l \<and> srv_http s' \<noteq> None
    \<and> srv_socketPath s' = srv_socketPath s \<and> ln_id l = sy_listener env"
proof -
  from assms obtain s2 fs2 where "bind_socket env s2 fs2 = (s', fs', Inr l)" "srv_socketPath s2 = srv_socketPath s"
    by (auto simp: Listen_def Let_def split: prod.splits option.splits if_splits dest: removeStaleSocket_keeps)
  then show ?thesis using bind_socket_ok by metis
qed

text \<open>
  C10: whatever other processes do to the file system between the calls the daemon makes, and
  whichever of them fail, a listen that succeeds has found at its last check a socket at the
  configured path with permissions exactly 0660 that belongs to the daemon, and the listener is
  recorded.
\<close>

theorem listen_private:
  assumes "srv_listener s = None" and "Listen env s fs = (s', fs', Inr l)"
  shows "(\<exists>n. node fs' (srv_socketPath s) = Some n \<and> in_kind n = NodeSocket \<and> Perm n = socketMode
      \<and> (sy_stat env \<longrightarrow> in_uid n = sy_euid env))
    \<and> srv_listener s' = Some l \<and> ln_path l = srv_socketPath s \<and> \<not> ln_closed l"
  using Listen_bound [OF assms] by blast

section \<open>What the checks decide\<close>

text \<open>No call fails on its own and no other process interferes.\<close>

definition quiet :: "sys_env \<Rightarrow> bool" where
  "quiet env \<longleftrightarrow> (\<forall>at. sy_fault env at = None \<and> sy_between env at = id)"

lemma quiet_sys_simps [simp]: "quiet env \<Longrightarrow> sy_fault env at = None" "quiet env \<Longrightarrow> sy_between env at fs = fs"
  by (simp_all add: quiet_def)

lemma node_set [simp]: "node (set_node p n fs) p = n"
  by (simp add: node_def set_node_def)

lemma IsAbs_not_abstract: "IsAbs p \<Longrightarrow> \<not> abstract_addr p"
  by (cases p) (auto simp: IsAbs_def abstract_addr_def HasPrefix_def)

lemma Join_nonempty: "es \<noteq> [] \<Longrightarrow> \<forall>e\<in>set es. e \<noteq> [] \<Longrightarrow> Join sep es \<noteq> []"
  by (cases "(sep, es)" rule: Join.cases) auto

lemma ancestors_self:
  assumes "ancestors p \<noteq> []"
  shows "Clean p \<in> set (ancestors p)"
proof -
  let ?es = "clean_elems (IsAbs p) [] (Split CHR ''/'' p)"
  have ne: "?es \<noteq> []" using assms by (auto simp: ancestors_def Let_def)
  moreover have "\<forall>e\<in>set ?es. e \<noteq> []" using clean_stack_elems [of "IsAbs p" p] by (simp add: clean_stack_def)
  ultimately have "Clean p = (if IsAbs p then ''/'' else []) @ Join ''/'' (take (Suc (length ?es - 1)) ?es)"
    using Join_nonempty [of ?es "''/''"] by (cases "IsAbs p") (simp_all add: Clean_def Let_def)
  moreover have "length ?es - 1 \<in> set [0..<length ?es]" using ne by (simp add: Suc_le_eq)
  ultimately show ?thesis unfolding ancestors_def Let_def set_map by (metis (no_types, lifting) imageI)
qed

lemma make_dirs_keeps: "make_dirs env mode ds fs = (fs', r) \<Longrightarrow> fs p = Some n \<Longrightarrow> fs' p = Some n"
proof (induction ds arbitrary: fs)
  case (Cons a ds)
  then show ?case by (cases "a = p") (auto split: option.splits if_splits)
qed simp

lemma make_dirs_dirs:
  "make_dirs env mode ds fs = (fs', None) \<Longrightarrow> d \<in> set ds \<Longrightarrow> \<exists>n. fs' d = Some n \<and> in_kind n = NodeDirectory"
proof (induction ds arbitrary: fs)
  case (Cons a ds)
  show ?case
  proof (cases "d = a")
    case True
    with Cons.prems make_dirs_keeps show ?thesis
      by (fastforce split: option.splits if_splits)
  qed (use Cons in \<open>auto split: option.splits if_splits\<close>)
qed simp

text \<open>A socket file nobody listens on that belongs to the daemon.\<close>

definition stale_own :: "sys_env \<Rightarrow> inode \<Rightarrow> bool" where
  "stale_own env n \<longleftrightarrow> in_kind n = NodeSocket \<and> in_listener n = None \<and> in_uid n = sy_euid env"

definition audited :: "inode \<Rightarrow> 'h server \<Rightarrow> 'h server" where
  "audited n s = (if unsafeSocketMode (Perm n) \<and> srv_logger s
     then s\<lparr>srv_audit := srv_audit s @ [(srv_socketPath s, octal04 (Perm n), octal04 socketMode)]\<rparr> else s)"

definition bound_node :: "sys_env \<Rightarrow> inode" where
  "bound_node env = \<lparr>in_kind = NodeSocket, in_mode = socketMode, in_uid = sy_euid env, in_listener = Some (sy_listener env)\<rparr>"

definition listening :: "sys_env \<Rightarrow> 'h server \<Rightarrow> 'h server" where
  "listening env s = s\<lparr>srv_listener := Some \<lparr>ln_id = sy_listener env, ln_path = srv_socketPath s, ln_closed = False\<rparr>,
     srv_http := Some \<lparr>hs_Handler = srv_handler s, hs_ReadHeaderTimeout = serverReadHeaderWait, hs_IdleTimeout = serverIdleWait\<rparr>\<rparr>"

lemma removeStaleSocket_quiet:
  assumes "quiet env" and "sy_stat env"
  shows "node fs (srv_socketPath s) = None \<Longrightarrow> removeStaleSocket env s fs = (s, fs, None)"
    and "node fs (srv_socketPath s) = Some n \<Longrightarrow> \<not> stale_own env n \<Longrightarrow> \<exists>e. removeStaleSocket env s fs = (s, fs, Some e)"
    and "node fs (srv_socketPath s) = Some n \<Longrightarrow> stale_own env n
      \<Longrightarrow> removeStaleSocket env s fs = (audited n s, set_node (srv_socketPath s) None fs, None)"
  using assms
  by (auto simp: removeStaleSocket_def sys_Lstat_def probeLiveSocket_def sys_Dial_def ensureSocketOwnership_def stale_own_def
      repairUnsafeSocketMode_def sys_Chmod_def sys_Remove_def audited_def set_node_def node_def Let_def
      split: bool.splits)

lemma audited_same [simp]:
  "srv_socketPath (audited n s) = srv_socketPath s" "srv_handler (audited n s) = srv_handler s" "srv_listener (audited n s) = srv_listener s"
  by (simp_all add: audited_def)

lemma bind_socket_quiet:
  assumes "quiet env" and "\<not> abstract_addr (srv_socketPath s)" and "node fs (srv_socketPath s) = None"
    and "dir_exists fs (Dir (srv_socketPath s))"
  shows "bind_socket env s fs = (listening env s, set_node (srv_socketPath s) (Some (bound_node env)) fs,
      Inr \<lparr>ln_id = sy_listener env, ln_path = srv_socketPath s, ln_closed = False\<rparr>)"
proof -
  have "socketMode AND perm_bits = socketMode" by (simp add: socketMode_def perm_bits_def)
  with assms show ?thesis
    by (simp add: bind_socket_def sys_Bind_def sys_Chmod_def verifySocketBinding_def sys_Lstat_def Perm_def Let_def
        listening_def bound_node_def)
      (simp add: set_node_def)
qed

lemma dir_exists_made:
  assumes "make_dirs env mode (ancestors d) fs = (fs1, None)"
  shows "dir_exists fs1 d"
  using make_dirs_dirs [OF assms ancestors_self]
  by (cases "ancestors d = []") (auto simp: dir_exists_def node_def)

lemma dir_exists_set_node:
  assumes "dir_exists fs d" and "\<And>n. node fs p = Some n \<Longrightarrow> in_kind n \<noteq> NodeDirectory"
  shows "dir_exists (set_node p m fs) d"
  using assms by (auto simp: dir_exists_def node_def set_node_def split: option.splits if_splits)

text \<open>What a quiet listen does, the directories of the socket being made.\<close>

lemma Listen_quiet:
  assumes "quiet env" and "sy_stat env" and "IsAbs (srv_socketPath s)" and "srv_listener s = None"
    and "make_dirs env socketDirectoryMode (ancestors (Dir (srv_socketPath s))) fs = (fs1, None)"
  shows "node fs1 (srv_socketPath s) = None \<Longrightarrow> Listen env s fs = (listening env s,
      set_node (srv_socketPath s) (Some (bound_node env)) fs1, Inr \<lparr>ln_id = sy_listener env, ln_path = srv_socketPath s, ln_closed = False\<rparr>)"
    and "node fs1 (srv_socketPath s) = Some n \<Longrightarrow> stale_own env n \<Longrightarrow> Listen env s fs = (listening env (audited n s),
      set_node (srv_socketPath s) (Some (bound_node env)) fs1, Inr \<lparr>ln_id = sy_listener env, ln_path = srv_socketPath s, ln_closed = False\<rparr>)"
    and "node fs1 (srv_socketPath s) = Some n \<Longrightarrow> \<not> stale_own env n \<Longrightarrow> \<exists>e. Listen env s fs = (s, fs1, Inl e)"
proof -
  let ?p = "srv_socketPath s"
  have d: "dir_exists fs1 (Dir ?p)" by (rule dir_exists_made [OF assms(5)])
  have start: "Listen env s fs = (case removeStaleSocket env s fs1 of
      (s2, fs2, Some e) \<Rightarrow> (s2, fs2, Inl e) | (s2, fs2, None) \<Rightarrow> bind_socket env s2 fs2)"
    using assms(1,4,5) by (cases "Dir ?p = []") (simp_all add: Listen_def sys_MkdirAll_def ancestors_def Let_def IsAbs_def)
  note na = IsAbs_not_abstract [OF assms(3)]
  {
    assume "node fs1 ?p = None"
    with start removeStaleSocket_quiet(1) [OF assms(1,2) this] bind_socket_quiet [OF assms(1) na this d]
    show "Listen env s fs = (listening env s, set_node ?p (Some (bound_node env)) fs1,
        Inr \<lparr>ln_id = sy_listener env, ln_path = ?p, ln_closed = False\<rparr>)" by simp
  next
    assume n: "node fs1 ?p = Some n" "stale_own env n"
    have "dir_exists (set_node ?p None fs1) (Dir ?p)"
      using n by (intro dir_exists_set_node [OF d]) (simp add: stale_own_def)
    then have "bind_socket env (audited n s) (set_node ?p None fs1) = (listening env (audited n s),
        set_node ?p (Some (bound_node env)) fs1, Inr \<lparr>ln_id = sy_listener env, ln_path = ?p, ln_closed = False\<rparr>)"
      using bind_socket_quiet [OF assms(1), of "audited n s" "set_node ?p None fs1"] na by simp (simp add: set_node_def)
    with start removeStaleSocket_quiet(3) [OF assms(1,2) n]
    show "Listen env s fs = (listening env (audited n s), set_node ?p (Some (bound_node env)) fs1,
        Inr \<lparr>ln_id = sy_listener env, ln_path = ?p, ln_closed = False\<rparr>)" by simp
  next
    assume "node fs1 ?p = Some n" "\<not> stale_own env n"
    with start removeStaleSocket_quiet(2) [OF assms(1,2) this] show "\<exists>e. Listen env s fs = (s, fs1, Inl e)" by auto
  }
qed

text \<open>
  C21: when no call fails on its own (nor the dial for want of permission) and nobody interferes, the
  daemon takes the configured path exactly when it is free or names a socket of its own that nobody
  listens on; then the path names a socket of mode 0660 whatever the umask. Otherwise it refuses,
  and neither the server nor any file that existed has changed.
\<close>

theorem listen_decides:
  assumes "quiet env" and "sy_stat env" and "IsAbs (srv_socketPath s)" and "srv_listener s = None"
    and "make_dirs env socketDirectoryMode (ancestors (Dir (srv_socketPath s))) fs = (fs1, None)"
  shows "if (case node fs1 (srv_socketPath s) of None \<Rightarrow> True | Some n \<Rightarrow> stale_own env n)
    then \<exists>s' l. Listen env s fs = (s', set_node (srv_socketPath s) (Some (bound_node env)) fs1, Inr l)
      \<and> srv_audit s' = srv_audit s @ (case node fs1 (srv_socketPath s) of None \<Rightarrow> []
          | Some n \<Rightarrow> if unsafeSocketMode (Perm n) \<and> srv_logger s
              then [(srv_socketPath s, octal04 (Perm n), octal04 socketMode)] else [])
    else \<exists>e. Listen env s fs = (s, fs1, Inl e) \<and> (\<forall>q. fs q = None \<or> fs1 q = fs q)"
proof (cases "node fs1 (srv_socketPath s)")
  case None
  then show ?thesis using Listen_quiet(1) [OF assms None] by (simp add: listening_def)
next
  case (Some n)
  have "fs q = None \<or> fs1 q = fs q" for q
    using make_dirs_keeps [OF assms(5)] by (cases "fs q") auto
  then show ?thesis
    using Listen_quiet(2,3) [OF assms Some] Some
    by (cases "stale_own env n") (auto simp: listening_def audited_def)
qed

section \<open>Shutdown\<close>

lemma Shutdown_listening:
  assumes "quiet env" and "srv_listener s = Some l" and "\<not> ln_closed l" and "ln_path l = srv_socketPath s"
    and "srv_http s \<noteq> None" and "\<not> abstract_addr (srv_socketPath s)"
  shows "Shutdown env serving e s fs = (s\<lparr>srv_listener := None\<rparr>, hang_up (ln_id l) (set_node (srv_socketPath s) None fs), join_errors [e])"
proof -
  have "node (hang_up i (set_node p None fs)) p = None" for i p
    by (simp add: node_def hang_up_def set_node_def)
  with assms show ?thesis
    by (cases serving) (auto simp: Shutdown_def listener_Close_def sys_Remove_def Let_def)
qed

lemma Shutdown_again:
  assumes "quiet env" and "srv_listener s = None"
  shows "Shutdown env serving e s fs = (s, set_node (srv_socketPath s) None fs, if srv_http s = None then None else join_errors [e])"
proof -
  have "node fs p = None \<Longrightarrow> set_node p None fs = fs" for p by (simp add: node_def set_node_def fun_upd_idem)
  with assms show ?thesis
    by (auto simp: Shutdown_def sys_Remove_def Let_def join_errors_def split: option.splits)
qed

text \<open>
  A daemon whose context ends removes its socket and nothing else: the path is free
  afterwards, every other file is as it was while the daemon was serving, the listener is gone,
  the only error is that of the HTTP server, and shutting down once more changes nothing.
\<close>

theorem run_cleans_up:
  assumes "quiet env" and "IsAbs (srv_socketPath s)" and "srv_listener s = None" and "Listen env s fs = (s1, fs1, Inr l)"
    and "\<forall>q n. q \<noteq> Clean (srv_socketPath s) \<longrightarrow> fs1 q = Some n \<longrightarrow> in_listener n \<noteq> Some (sy_listener env)"
    and "Run env (ContextDone serving) http_err s fs = (s2, fs2, r)"
  shows "node fs2 (srv_socketPath s) = None \<and> (\<forall>q. q = Clean (srv_socketPath s) \<or> fs2 q = fs1 q) \<and> srv_listener s2 = None
    \<and> (r = None \<longleftrightarrow> http_err = None) \<and> Shutdown env serving None s2 fs2 = (s2, fs2, None)"
proof -
  note b = Listen_bound [OF assms(3,4)]
  have "Shutdown env serving http_err s1 fs1
      = (s1\<lparr>srv_listener := None\<rparr>, hang_up (ln_id l) (set_node (srv_socketPath s) None fs1), join_errors [http_err])"
    using Shutdown_listening [OF assms(1), of s1 l serving http_err fs1] b IsAbs_not_abstract [OF assms(2)] by simp
  with assms(4,6) have r: "s2 = s1\<lparr>srv_listener := None\<rparr>" "fs2 = hang_up (ln_id l) (set_node (srv_socketPath s) None fs1)"
    "r = join_errors [http_err]"
    by (simp_all add: Run_def)
  have "node fs2 (srv_socketPath s) = None" by (simp add: r(2) node_def hang_up_def set_node_def)
  moreover have "fs2 q = fs1 q" if "q \<noteq> Clean (srv_socketPath s)" for q
    using that assms(5) b by (cases "fs1 q") (auto simp: r(2) hang_up_def set_node_def)
  moreover have "Shutdown env serving None s2 fs2 = (s2, set_node (srv_socketPath s2) None fs2, if srv_http s2 = None then None else join_errors [None])"
    by (rule Shutdown_again [OF assms(1)]) (simp add: r(1))
  moreover have "join_errors [None] = None" by (simp add: join_errors_None_iff)
  moreover have "set_node (srv_socketPath s2) None fs2 = fs2"
    using b by (auto simp: r(1,2) set_node_def hang_up_def)
  ultimately show ?thesis using r by (auto simp: join_errors_None_iff)
qed

section \<open>A concrete start\<close>

definition sample_sys :: sys_env where
  "sample_sys = \<lparr>sy_euid = 1000, sy_umask = 18, sy_stat = True, sy_listener = 1, sy_fault = (\<lambda>at. None), sy_between = (\<lambda>at. id)\<rparr>"

definition sample_server :: "unit server" where
  "sample_server = projr (NewServer ''/run/d.sock'' (Some ()) [Some (WithSocketLogger True), None])"

definition socket_file :: "u32 \<Rightarrow> nat option \<Rightarrow> inode" where
  "socket_file mode l = \<lparr>in_kind = NodeSocket, in_mode = mode, in_uid = 1000, in_listener = l\<rparr>"

definition sample_files :: "inode \<Rightarrow> files" where
  "sample_files n = (\<lambda>q. if q = ''/run'' then Some \<lparr>in_kind = NodeDirectory, in_mode = 493, in_uid = 0, in_listener = None\<rparr>
     else if q = ''/run/d.sock'' then Some n else None)"

lemma sample_server_simps [simp]:
  "srv_socketPath sample_server = ''/run/d.sock''" "srv_listener sample_server = None" "srv_audit sample_server = []"
  "srv_logger sample_server" "sy_stat sample_sys" "sy_euid sample_sys = 1000" "sy_listener sample_sys = 1" "IsAbs ''/run/d.sock''" "Clean ''/run/d.sock'' = ''/run/d.sock''"
  "ancestors (Dir ''/run/d.sock'') = [''/run'']"
  by code_simp+

lemma sample_quiet [simp]: "quiet sample_sys"
  by (simp add: quiet_def sample_sys_def)

lemma sample_make_dirs: "make_dirs sample_sys socketDirectoryMode (ancestors (Dir (srv_socketPath sample_server))) (sample_files n) = (sample_files n, None)"
  by (simp add: sample_files_def)

lemma sample_stale: "stale_own sample_sys (socket_file m None)"
  by (simp add: stale_own_def socket_file_def sample_sys_def)

lemma sample_listen:
  "Listen sample_sys sample_server (sample_files (socket_file 511 None))
    = (listening sample_sys (audited (socket_file 511 None) sample_server),
       set_node ''/run/d.sock'' (Some (bound_node sample_sys)) (sample_files (socket_file 511 None)),
       Inr \<lparr>ln_id = 1, ln_path = ''/run/d.sock'', ln_closed = False\<rparr>)"
  using Listen_quiet(2) [OF _ _ _ _ sample_make_dirs [of "socket_file 511 None"], of "socket_file 511 None"] sample_stale [of 511]
  by (simp add: node_def sample_files_def)

theorem listen_private_witness:
  "\<exists>n. node (fst (snd (Listen sample_sys sample_server (sample_files (socket_file 511 None))))) ''/run/d.sock'' = Some n
    \<and> Perm n = socketMode \<and> in_uid n = 1000"
  using listen_private [OF _ sample_listen] by (auto simp: sample_listen)

theorem listen_decides_witness:
  "srv_audit (fst (Listen sample_sys sample_server (sample_files (socket_file 511 None)))) = [(''/run/d.sock'', ''0777'', ''0660'')]
   \<and> (\<exists>e. Listen sample_sys sample_server (sample_files (socket_file 432 (Some 7))) = (sample_server, sample_files (socket_file 432 (Some 7)), Inl e))"
proof -
  have "unsafeSocketMode (Perm (socket_file 511 None))" "octal04 (Perm (socket_file 511 None)) = ''0777''" "octal04 socketMode = ''0660''"
    by code_simp+
  moreover have "\<not> stale_own sample_sys (socket_file 432 (Some 7))" by (simp add: stale_own_def socket_file_def)
  ultimately show ?thesis
    using listen_decides [OF _ _ _ _ sample_make_dirs [of "socket_file 511 None"]]
      listen_decides [OF _ _ _ _ sample_make_dirs [of "socket_file 432 (Some 7)"]] sample_stale [of 511]
    by (auto simp: node_def sample_files_def)
qed

theorem run_cleans_up_witness:
  "node (fst (snd (Run sample_sys (ContextDone True) None sample_server (sample_files (socket_file 511 None))))) ''/run/d.sock'' = None"
proof -
  obtain s2 fs2 r where run: "Run sample_sys (ContextDone True) None sample_server (sample_files (socket_file 511 None)) = (s2, fs2, r)"
    by (metis prod_cases3)
  have "\<forall>q n. q \<noteq> ''/run/d.sock'' \<longrightarrow> set_node ''/run/d.sock'' (Some (bound_node sample_sys)) (sample_files (socket_file 511 None)) q = Some n
      \<longrightarrow> in_listener n \<noteq> Some (sy_listener sample_sys)"
    by (auto simp: sample_files_def set_node_def split: if_splits)
  then show ?thesis
    using run_cleans_up [OF _ _ _ sample_listen _ run] by (simp add: run)
qed

section \<open>Two ways to lose a live socket\<close>

text \<open>
  The probe takes every failure to connect for a dead socket: a socket somebody listens on is
  removed when the connection attempt fails for another reason (a full backlog, an expired or
  cancelled context).
\<close>

lemma unanswered_live_socket_removed:
  "removeStaleSocket (sample_sys\<lparr>sy_fault := (\<lambda>at. if at = AtDial then Some (Sentinel (Std Canceled)) else None)\<rparr>) sample_server
      (sample_files (socket_file 432 (Some 7)))
    = (sample_server, set_node ''/run/d.sock'' None (sample_files (socket_file 432 (Some 7))), None)"
proof -
  have "\<not> unsafeSocketMode (Perm (socket_file 432 l))" for l by (simp add: unsafeSocketMode_def Perm_def socket_file_def socketMode_def perm_bits_def)
  then show ?thesis
    by (simp add: removeStaleSocket_def sys_Lstat_def probeLiveSocket_def sys_Dial_def ensureSocketOwnership_def
        repairUnsafeSocketMode_def sys_Remove_def Let_def sample_sys_def node_def sample_files_def)
      (simp add: socket_file_def)
qed

text \<open>Shutting down a second time removes whatever has taken the path since.\<close>

lemma second_shutdown_removes_successor:
  assumes "quiet env" and "srv_listener s = None"
  shows "fst (snd (Shutdown env serving e s (set_node (srv_socketPath s) (Some successor) fs))) = set_node (srv_socketPath s) None fs"
  by (simp add: Shutdown_again [OF assms] set_node_def)

end
