(* ===== verification/Config.thy ===== *)
theory Config
  imports Go_Path Go_Errors
begin

text \<open>
  \<^verbatim>\<open>internal/config\<close>: the settings of the daemon, their validation
  (\<^verbatim>\<open>config.go\<close>), the store that publishes validated snapshots (\<^verbatim>\<open>store.go\<close>) and the
  watcher that reloads them while the daemon runs (\<^verbatim>\<open>watch.go\<close>).

  Viper, the watcher of fsnotify and the file system are parameters: \<open>config_env\<close> holds the calls
  the store makes of them on a world \<open>'w\<close>. A \<^verbatim>\<open>time.Duration\<close> is the number of its
  nanoseconds.
\<close>

section \<open>config.go\<close>

record config =
  SocketPath :: string
  LogLevel :: string
  OTelServiceName :: string
  OTelEndpoint :: string
  ContainerdNamespace :: string
  ContainerdSocket :: string
  CNIConfigDir :: string
  CNIPluginDir :: string
  BuildKitSocket :: string
  DefaultStopTimeout :: int
  RequestTimeout :: int
  EnableCRI :: bool
  EnableRootless :: bool

definition Defaults :: config where
  "Defaults = \<lparr>SocketPath = ''/var/run/dockerdless.sock'', LogLevel = ''info'', OTelServiceName = ''dockerdless'',
     OTelEndpoint = [], ContainerdNamespace = ''moby'', ContainerdSocket = ''/run/containerd/containerd.sock'',
     CNIConfigDir = ''/etc/cni/net.d'', CNIPluginDir = ''/opt/cni/bin'', BuildKitSocket = ''/run/buildkit/buildkitd.sock'',
     DefaultStopTimeout = 10 * 10 ^ 9, RequestTimeout = 30 * 10 ^ 9, EnableCRI = False, EnableRootless = False\<rparr>"

definition validateNonEmpty :: "string \<Rightarrow> string \<Rightarrow> gerror option" where
  "validateNonEmpty name v = (if TrimSpace v = [] then Some (NewErr (name @ '' must not be empty'')) else None)"

definition validateAbsolutePath :: "string \<Rightarrow> string \<Rightarrow> gerror option" where
  "validateAbsolutePath name v = (case validateNonEmpty name v of
     Some e \<Rightarrow> Some e
   | None \<Rightarrow> if \<not> IsAbs v then Some (NewErr (name @ '' must be absolute: '' @ quote v)) else None)"

definition known_levels :: "string list" where
  "known_levels = [''debug'', ''info'', ''warn'', ''error'', ''dpanic'', ''panic'', ''fatal'']"

text \<open>The checks run in order and the first that fails is the result.\<close>

definition Validate :: "config \<Rightarrow> gerror option" where
  "Validate c = first_some
    [if TrimSpace (SocketPath c) = [] then Some (Sentinel (Conf ErrEmptySocketPath)) else None,
     validateAbsolutePath ''socket path'' (SocketPath c),
     if ToLower (TrimSpace (LogLevel c)) \<in> set known_levels then None
       else Some (NewErr ''log level must be one of debug, info, warn, error, dpanic, panic, or fatal''),
     if TrimSpace (OTelServiceName c) = [] then Some (NewErr ''OpenTelemetry service name must not be empty'') else None,
     if TrimSpace (OTelEndpoint c) \<noteq> OTelEndpoint c
       then Some (NewErr ''OpenTelemetry endpoint must not have leading or trailing whitespace'') else None,
     validateNonEmpty ''containerd namespace'' (ContainerdNamespace c),
     validateAbsolutePath ''containerd socket'' (ContainerdSocket c),
     validateAbsolutePath ''CNI config directory'' (CNIConfigDir c),
     validateAbsolutePath ''CNI plugin directory'' (CNIPluginDir c),
     validateAbsolutePath ''BuildKit socket'' (BuildKitSocket c),
     if DefaultStopTimeout c \<le> 0 then Some (NewErr ''default stop timeout must be greater than zero'') else None,
     if RequestTimeout c \<le> 0 then Some (NewErr ''request timeout must be greater than zero'') else None]"

section \<open>The world of the store\<close>

text \<open>
  \<open>cv_Unmarshal c w\<close> is \<^verbatim>\<open>v.Unmarshal\<close> into a configuration that holds \<open>c\<close>;
  \<open>cv_newViper\<close> the error of \<^verbatim>\<open>newViper\<close>; \<open>cv_Getwd\<close> and \<open>cv_EvalSymlinks\<close>
  read the file system.
\<close>

record 'w config_env =
  cv_newViper :: "gerror option"
  cv_SetConfigFile :: "string \<Rightarrow> 'w \<Rightarrow> 'w"
  cv_ReadInConfig :: "'w \<Rightarrow> 'w \<times> gerror option"
  cv_Unmarshal :: "config \<Rightarrow> 'w \<Rightarrow> gerror + config"
  cv_Getwd :: "'w \<Rightarrow> gerror + string"
  cv_EvalSymlinks :: "string \<Rightarrow> 'w \<Rightarrow> gerror + string"
  cv_NewWatcher :: "'w \<Rightarrow> 'w \<times> gerror option"
  cv_Add :: "string \<Rightarrow> 'w \<Rightarrow> 'w \<times> gerror option"
  cv_CloseWatcher :: "'w \<Rightarrow> 'w \<times> gerror option"

definition decodeConfig :: "'w config_env \<Rightarrow> 'w \<Rightarrow> gerror + config" where
  "decodeConfig ce w = (case cv_Unmarshal ce Defaults w of
     Inl e \<Rightarrow> Inl (wrap_pre ''decode configuration: '' e)
   | Inr cfg \<Rightarrow> (case Validate cfg of
       Some e \<Rightarrow> Inl (wrap_pre ''validate configuration: '' e)
     | None \<Rightarrow> Inr cfg))"

text \<open>The package's \<^verbatim>\<open>Load\<close>, on a decoder of its own.\<close>

definition config_Load :: "'w config_env \<Rightarrow> 'w \<Rightarrow> gerror + config" where
  "config_Load ce w = (case cv_newViper ce of Some e \<Rightarrow> Inl e | None \<Rightarrow> decodeConfig ce w)"

section \<open>store.go\<close>

text \<open>
  Operations of an event and their names in fsnotify's \<^verbatim>\<open>Op.String\<close>; only three of the
  bits matter to the store.
\<close>

record fs_event =
  ev_Name :: string
  ev_Create :: bool
  ev_Write :: bool
  ev_Rename :: bool
  ev_OpString :: string

text \<open>
  The callbacks the daemon registers see the world and, through \<^verbatim>\<open>Current\<close>, the snapshot.
  \<open>st_decoder\<close> says that \<^verbatim>\<open>v\<close> is not nil, \<open>st_watching\<close> that \<^verbatim>\<open>watcher\<close>
  is not; \<open>st_closing\<close> that the body of \<^verbatim>\<open>closeOnce\<close> has started.
\<close>

record 'w store =
  st_current :: "config option"
  st_decoder :: bool
  st_initErr :: "gerror option"
  st_configFile :: string
  st_errorHandler :: "(gerror \<Rightarrow> config \<Rightarrow> 'w \<Rightarrow> 'w) option"
  st_hook :: "(fs_event \<Rightarrow> config \<Rightarrow> 'w \<Rightarrow> 'w) option"
  st_closed :: bool
  st_watching :: bool
  st_closeErr :: "gerror option"

definition NewStore :: "'w config_env \<Rightarrow> 'w store" where
  "NewStore ce = \<lparr>st_current = Some Defaults, st_decoder = (cv_newViper ce = None), st_initErr = cv_newViper ce,
     st_configFile = [], st_errorHandler = None, st_hook = None, st_closed = False, st_watching = False, st_closeErr = None\<rparr>"

definition Current :: "'w store \<Rightarrow> config" where
  "Current s = (case st_current s of Some c \<Rightarrow> c | None \<Rightarrow> Defaults)"

definition SetConfigFile :: "'w config_env \<Rightarrow> string \<Rightarrow> 'w store \<times> 'w \<Rightarrow> 'w store \<times> 'w" where
  "SetConfigFile ce path = (\<lambda>(s, w).
    let cleanPath = TrimSpace path;
        cleanPath = (if cleanPath \<noteq> [] then (case Abs (cv_Getwd ce w) cleanPath of Inr a \<Rightarrow> a | Inl _ \<Rightarrow> Clean cleanPath)
                     else cleanPath)
    in (s\<lparr>st_configFile := cleanPath\<rparr>,
        if st_decoder s \<and> cleanPath \<noteq> [] then cv_SetConfigFile ce cleanPath w else w))"

definition NewStoreWithConfigFile :: "'w config_env \<Rightarrow> string \<Rightarrow> 'w \<Rightarrow> 'w store \<times> 'w" where
  "NewStoreWithConfigFile ce path w = SetConfigFile ce path (NewStore ce, w)"

definition SetErrorHandler :: "(gerror \<Rightarrow> config \<Rightarrow> 'w \<Rightarrow> 'w) option \<Rightarrow> 'w store \<Rightarrow> 'w store" where
  "SetErrorHandler h s = s\<lparr>st_errorHandler := h\<rparr>"

definition Load :: "'w config_env \<Rightarrow> 'w store \<times> 'w \<Rightarrow> ('w store \<times> 'w) \<times> gerror option" where
  "Load ce = (\<lambda>(s, w).
    if st_closed s then ((s, w), Some (Sentinel (Conf ErrStoreClosed)))
    else case st_initErr s of
      Some e \<Rightarrow> ((s, w), Some (wrap_pre ''initialize configuration decoder: '' e))
    | None \<Rightarrow>
      if \<not> st_decoder s then ((s, w), Some (NewErr ''configuration decoder is unavailable''))
      else
        let (w1, r) = (if st_configFile s \<noteq> [] then cv_ReadInConfig ce (cv_SetConfigFile ce (st_configFile s) w) else (w, None))
        in case r of
          Some e \<Rightarrow> ((s, w1), Some (wrap_pre (''read configuration file '' @ quote (st_configFile s) @ '': '') e))
        | None \<Rightarrow> (case decodeConfig ce w1 of
            Inl e \<Rightarrow> ((s, w1), Some e)
          | Inr cfg \<Rightarrow> ((s\<lparr>st_current := Some cfg\<rparr>, w1), None)))"

section \<open>watch.go\<close>

definition OnConfigChange :: "(fs_event \<Rightarrow> config \<Rightarrow> 'w \<Rightarrow> 'w) option \<Rightarrow> 'w store \<Rightarrow> 'w store" where
  "OnConfigChange h s = s\<lparr>st_hook := h\<rparr>"

text \<open>The part of \<^verbatim>\<open>WatchConfig\<close> that holds the lock, after the load; the file the loop will watch on success.\<close>

definition watch_locked :: "'w config_env \<Rightarrow> 'w store \<times> 'w \<Rightarrow> ('w store \<times> 'w) \<times> (gerror + string)" where
  "watch_locked ce = (\<lambda>(s, w).
    if st_closed s then ((s, w), Inl (Sentinel (Conf ErrStoreClosed)))
    else if st_configFile s = [] then ((s, w), Inl (Sentinel (Conf ErrConfigFileNotSet)))
    else if st_watching s then ((s, w), Inl (Sentinel (Conf ErrConfigWatchStarted)))
    else case cv_NewWatcher ce w of
      (w1, Some e) \<Rightarrow> ((s, w1), Inl (wrap_pre ''create configuration watcher: '' e))
    | (w1, None) \<Rightarrow>
      let configFile = Clean (st_configFile s) in
      (case cv_Add ce (Dir configFile) w1 of
         (w2, Some e) \<Rightarrow> (case cv_CloseWatcher ce w2 of
             (w3, Some e') \<Rightarrow> ((s, w3), Inl (Wrapf (''watch configuration directory: '' @ err_msg e @ ''; close watcher: '' @ err_msg e') [e, e']))
           | (w3, None) \<Rightarrow> ((s, w3), Inl (wrap_pre ''watch configuration directory: '' e)))
       | (w2, None) \<Rightarrow> ((s\<lparr>st_watching := True\<rparr>, w2), Inr configFile)))"

definition WatchConfig :: "'w config_env \<Rightarrow> 'w store \<times> 'w \<Rightarrow> ('w store \<times> 'w) \<times> (gerror + string)" where
  "WatchConfig ce sw = (case Load ce sw of (sw1, Some e) \<Rightarrow> (sw1, Inl e) | (sw1, None) \<Rightarrow> watch_locked ce sw1)"

text \<open>The event is about the file; the path the file resolves to, as the loop remembers it, is the other result.\<close>

definition isConfigEvent :: "'w config_env \<Rightarrow> fs_event \<Rightarrow> string \<Rightarrow> string \<Rightarrow> 'w \<Rightarrow> bool \<times> string" where
  "isConfigEvent ce ev configFile realConfigFile w =
    (if Clean (ev_Name ev) = configFile \<and> (ev_Write ev \<or> ev_Create ev \<or> ev_Rename ev) then (True, realConfigFile)
     else case cv_EvalSymlinks ce configFile w of
       Inl _ \<Rightarrow> (False, realConfigFile)
     | Inr currentRealPath \<Rightarrow>
         if currentRealPath = [] \<or> realConfigFile = [] then (False, realConfigFile)
         else if currentRealPath = realConfigFile then (False, realConfigFile)
         else (True, currentRealPath))"

text \<open>
  \<^verbatim>\<open>reportError\<close> and the tail of \<^verbatim>\<open>handleConfigChange\<close> read a callback under the lock and
  call it after the lock is released.
\<close>

definition report_locked :: "'w store \<Rightarrow> (gerror \<Rightarrow> config \<Rightarrow> 'w \<Rightarrow> 'w) option" where
  "report_locked s = (if st_closed s then None else st_errorHandler s)"

definition hook_locked :: "'w store \<Rightarrow> (fs_event \<Rightarrow> config \<Rightarrow> 'w \<Rightarrow> 'w) option" where
  "hook_locked s = (if st_closed s then None else st_hook s)"

definition reload_error :: "fs_event \<Rightarrow> gerror \<Rightarrow> gerror" where
  "reload_error ev e = wrap_pre (''reload configuration after '' @ ev_OpString ev @ '': '') e"

definition watcher_error :: "gerror \<Rightarrow> gerror" where
  "watcher_error e = wrap_pre ''configuration watcher: '' e"

text \<open>\<^verbatim>\<open>handleConfigChange\<close> run alone, without another goroutine between its sections.\<close>

definition reportError :: "gerror \<Rightarrow> 'w store \<times> 'w \<Rightarrow> 'w store \<times> 'w" where
  "reportError e = (\<lambda>(s, w). (s, case report_locked s of Some h \<Rightarrow> h e (Current s) w | None \<Rightarrow> w))"

definition handleConfigChange :: "'w config_env \<Rightarrow> fs_event \<Rightarrow> 'w store \<times> 'w \<Rightarrow> 'w store \<times> 'w" where
  "handleConfigChange ce ev sw =
    (let (s, w) = (case Load ce sw of (sw1, Some e) \<Rightarrow> reportError (reload_error ev e) sw1 | (sw1, None) \<Rightarrow> sw1)
     in (s, case hook_locked s of Some h \<Rightarrow> h ev (Current s) w | None \<Rightarrow> w))"

text \<open>
  \<^verbatim>\<open>Close\<close>: the section of the body of \<^verbatim>\<open>closeOnce\<close> that holds the lock, with the
  watcher to close; and the body run alone, up to the wait for the loop.
\<close>

definition close_locked :: "'w store \<Rightarrow> 'w store \<times> bool" where
  "close_locked s = (s\<lparr>st_closed := True, st_watching := False\<rparr>, st_watching s)"

definition close_watcher :: "'w config_env \<Rightarrow> 'w store \<times> 'w \<Rightarrow> 'w store \<times> 'w" where
  "close_watcher ce = (\<lambda>(s, w). case cv_CloseWatcher ce w of (w1, r) \<Rightarrow> (s\<lparr>st_closeErr := r\<rparr>, w1))"

definition Close :: "'w config_env \<Rightarrow> 'w store \<times> 'w \<Rightarrow> 'w store \<times> 'w" where
  "Close ce = (\<lambda>(s, w). case close_locked s of (s1, watcher) \<Rightarrow> if watcher then close_watcher ce (s1, w) else (s1, w))"

section \<open>What the sections keep\<close>

named_theorems store_sections "definitions of the operations of the store"

declare SetConfigFile_def [store_sections] SetErrorHandler_def [store_sections] OnConfigChange_def [store_sections]
  Load_def [store_sections] watch_locked_def [store_sections] close_locked_def [store_sections] close_watcher_def [store_sections]

text \<open>A configuration is valid when \<^verbatim>\<open>Validate\<close> accepts it; the defaults are.\<close>

abbreviation valid :: "config \<Rightarrow> bool" where
  "valid c \<equiv> Validate c = None"

lemma first_some_None_iff: "first_some xs = None \<longleftrightarrow> (\<forall>x\<in>set xs. x = None)"
  by (induction xs rule: first_some.induct) auto

lemma validateAbsolutePath_None: "validateAbsolutePath n v = None \<longleftrightarrow> TrimSpace v \<noteq> [] \<and> IsAbs v"
  by (simp add: validateAbsolutePath_def validateNonEmpty_def)

lemma valid_iff:
  "valid c \<longleftrightarrow> (\<forall>p\<in>{SocketPath c, ContainerdSocket c, CNIConfigDir c, CNIPluginDir c, BuildKitSocket c}. TrimSpace p \<noteq> [] \<and> IsAbs p)
    \<and> ToLower (TrimSpace (LogLevel c)) \<in> set known_levels
    \<and> TrimSpace (OTelServiceName c) \<noteq> [] \<and> TrimSpace (ContainerdNamespace c) \<noteq> [] \<and> TrimSpace (OTelEndpoint c) = OTelEndpoint c
    \<and> DefaultStopTimeout c > 0 \<and> RequestTimeout c > 0"
  unfolding Validate_def first_some_None_iff by (auto simp: validateAbsolutePath_None validateNonEmpty_def)

lemma valid_Defaults [simp]: "valid Defaults"
  unfolding valid_iff Defaults_def known_levels_def
  by (simp add: IsAbs_def HasPrefix_def) code_simp

lemma decodeConfig_valid: "decodeConfig ce w = Inr cfg \<Longrightarrow> valid cfg"
  by (auto simp: decodeConfig_def split: sum.splits option.splits)

text \<open>A load that fails changes nothing of the store; one that succeeds publishes a valid snapshot and nothing else.\<close>

lemma Load_cases:
  assumes "Load ce (s, w) = ((s', w'), r)"
  shows "(\<exists>e. r = Some e \<and> s' = s) \<or> (r = None \<and> \<not> st_closed s \<and> (\<exists>cfg. valid cfg \<and> s' = s\<lparr>st_current := Some cfg\<rparr>))"
  using assms decodeConfig_valid [of ce]
  by (fastforce simp: Load_def Let_def split: if_splits option.splits sum.splits prod.splits)

lemma Load_closed: "st_closed s \<Longrightarrow> Load ce (s, w) = ((s, w), Some (Sentinel (Conf ErrStoreClosed)))"
  by (simp add: Load_def)

lemma watch_locked_cases:
  assumes "watch_locked ce (s, w) = ((s', w'), r)"
  shows "(\<exists>e. r = Inl e \<and> s' = s)
    \<or> (\<exists>f. r = Inr f \<and> s' = s\<lparr>st_watching := True\<rparr> \<and> \<not> st_closed s \<and> \<not> st_watching s)"
  using assms by (auto simp: watch_locked_def Let_def split: if_splits option.splits prod.splits)

lemma Current_simps [simp]:
  "Current (s\<lparr>st_current := Some c\<rparr>) = c" "Current (s\<lparr>st_configFile := p\<rparr>) = Current s"
  "Current (s\<lparr>st_errorHandler := h\<rparr>) = Current s" "Current (s\<lparr>st_hook := k\<rparr>) = Current s"
  "Current (s\<lparr>st_closed := b\<rparr>) = Current s" "Current (s\<lparr>st_watching := b'\<rparr>) = Current s"
  "Current (s\<lparr>st_closeErr := x\<rparr>) = Current s"
  by (simp_all add: Current_def)

end
