(* ===== verification/Config_Watch.thy ===== *)
theory Config_Watch
  imports Config
begin

text \<open>
  The goroutines around the configuration store: the callers of its operations, the watch loop of
  \<^verbatim>\<open>watch.go\<close>, a \<^verbatim>\<open>Close\<close> under way, and the file system that changes between them. Each
  section that holds the mutex is one step, and so is each callback, which runs without it; any
  step may come between two others.
\<close>

text \<open>
  Where the loop is: between events, about to reload after an event, about to look up the error
  handler (with the event to go on with, if there is one), inside the handler, about to look up
  the hook, inside the hook.
\<close>

datatype 'w watch_pc =
    NotStarted | Starting | Waiting
  | Reloading fs_event
  | Reporting gerror "fs_event option"
  | InHandler "gerror \<Rightarrow> config \<Rightarrow> 'w \<Rightarrow> 'w" gerror "fs_event option"
  | Hooking fs_event
  | InHook "fs_event \<Rightarrow> config \<Rightarrow> 'w \<Rightarrow> 'w" fs_event
  | Done

datatype close_pc = Opened | Marked bool | AwaitLoop | Closed

text \<open>\<open>sy_chanClosed\<close>: the channels of the watcher are closed, some time after the watcher was.\<close>

record 'w system =
  sy_store :: "'w store"
  sy_world :: 'w
  sy_loop :: "'w watch_pc"
  sy_configFile :: string
  sy_real :: string
  sy_close :: close_pc
  sy_chanClosed :: bool

definition with_store :: "'w system \<Rightarrow> 'w store \<times> 'w \<Rightarrow> 'w system" where
  "with_store s sw = s\<lparr>sy_store := fst sw, sy_world := snd sw\<rparr>"

fun resume :: "fs_event option \<Rightarrow> 'w watch_pc" where
  "resume None = Waiting"
| "resume (Some ev) = Hooking ev"

definition at_rest :: "'w watch_pc \<Rightarrow> bool" where
  "at_rest pc \<longleftrightarrow> pc = NotStarted \<or> pc = Done"

text \<open>What an observer sees of a step: a callback that runs, or nothing.\<close>

datatype label = Silent | ErrorCallback gerror config | HookCallback fs_event config

text \<open>The steps of the loop's goroutine.\<close>

inductive loop_step :: "'w config_env \<Rightarrow> 'w system \<Rightarrow> label \<Rightarrow> 'w system \<Rightarrow> bool" for ce where
  start: "sy_loop s = Starting \<Longrightarrow>
    loop_step ce s Silent (s\<lparr>sy_loop := Waiting,
      sy_real := (case cv_EvalSymlinks ce (sy_configFile s) (sy_world s) of Inr p \<Rightarrow> p | Inl _ \<Rightarrow> [])\<rparr>)"
| event: "sy_loop s = Waiting \<Longrightarrow> \<not> sy_chanClosed s \<Longrightarrow>
    isConfigEvent ce ev (sy_configFile s) (sy_real s) (sy_world s) = (hit, real) \<Longrightarrow>
    loop_step ce s Silent (s\<lparr>sy_loop := (if hit then Reloading ev else Waiting), sy_real := real\<rparr>)"
| watcher_failed: "sy_loop s = Waiting \<Longrightarrow> \<not> sy_chanClosed s \<Longrightarrow>
    loop_step ce s Silent (s\<lparr>sy_loop := Reporting (watcher_error e) None\<rparr>)"
| channel_closed: "sy_loop s = Waiting \<Longrightarrow> sy_chanClosed s \<Longrightarrow> loop_step ce s Silent (s\<lparr>sy_loop := Done\<rparr>)"
| reload: "sy_loop s = Reloading ev \<Longrightarrow> Load ce (sy_store s, sy_world s) = (sw, r) \<Longrightarrow>
    loop_step ce s Silent ((with_store s sw)\<lparr>sy_loop :=
      (case r of Some e \<Rightarrow> Reporting (reload_error ev e) (Some ev) | None \<Rightarrow> Hooking ev)\<rparr>)"
| report: "sy_loop s = Reporting e k \<Longrightarrow>
    loop_step ce s Silent (s\<lparr>sy_loop := (case report_locked (sy_store s) of Some h \<Rightarrow> InHandler h e k | None \<Rightarrow> resume k)\<rparr>)"
| handler: "sy_loop s = InHandler h e k \<Longrightarrow>
    loop_step ce s (ErrorCallback e (Current (sy_store s)))
      (s\<lparr>sy_world := h e (Current (sy_store s)) (sy_world s), sy_loop := resume k\<rparr>)"
| look_hook: "sy_loop s = Hooking ev \<Longrightarrow>
    loop_step ce s Silent (s\<lparr>sy_loop := (case hook_locked (sy_store s) of Some h \<Rightarrow> InHook h ev | None \<Rightarrow> Waiting)\<rparr>)"
| hook: "sy_loop s = InHook h ev \<Longrightarrow>
    loop_step ce s (HookCallback ev (Current (sy_store s)))
      (s\<lparr>sy_world := h ev (Current (sy_store s)) (sy_world s), sy_loop := Waiting\<rparr>)"

text \<open>
  The steps of everything else. The locked part of \<^verbatim>\<open>WatchConfig\<close> is a step of its own since
  another goroutine may run after the load that comes before it.
\<close>

inductive other_step :: "'w config_env \<Rightarrow> 'w system \<Rightarrow> 'w system \<Rightarrow> bool" for ce where
  world: "other_step ce s (s\<lparr>sy_world := w\<rparr>)"
| set_file: "other_step ce s (with_store s (SetConfigFile ce p (sy_store s, sy_world s)))"
| set_handler: "other_step ce s (s\<lparr>sy_store := SetErrorHandler h (sy_store s)\<rparr>)"
| set_hook: "other_step ce s (s\<lparr>sy_store := OnConfigChange k (sy_store s)\<rparr>)"
| load: "other_step ce s (with_store s (fst (Load ce (sy_store s, sy_world s))))"
| watch_fails: "watch_locked ce (sy_store s, sy_world s) = (sw, Inl e) \<Longrightarrow> other_step ce s (with_store s sw)"
| watch_starts: "watch_locked ce (sy_store s, sy_world s) = (sw, Inr f) \<Longrightarrow>
    other_step ce s ((with_store s sw)\<lparr>sy_loop := Starting, sy_configFile := f\<rparr>)"
| close_mark: "sy_close s = Opened \<Longrightarrow> close_locked (sy_store s) = (st, b) \<Longrightarrow>
    other_step ce s (s\<lparr>sy_store := st, sy_close := Marked b\<rparr>)"
| close_watch: "sy_close s = Marked b \<Longrightarrow>
    other_step ce s ((if b then with_store s (close_watcher ce (sy_store s, sy_world s)) else s)\<lparr>sy_close := AwaitLoop\<rparr>)"
| channels_close: "sy_close s = AwaitLoop \<Longrightarrow> other_step ce s (s\<lparr>sy_chanClosed := True\<rparr>)"
| close_returns: "sy_close s = AwaitLoop \<Longrightarrow> at_rest (sy_loop s) \<Longrightarrow> other_step ce s (s\<lparr>sy_close := Closed\<rparr>)"

definition config_step :: "'w config_env \<Rightarrow> 'w system \<Rightarrow> label \<Rightarrow> 'w system \<Rightarrow> bool" where
  "config_step ce s l s' \<longleftrightarrow> loop_step ce s l s' \<or> (l = Silent \<and> other_step ce s s')"

definition initial :: "'w config_env \<Rightarrow> 'w \<Rightarrow> 'w system" where
  "initial ce w = \<lparr>sy_store = NewStore ce, sy_world = w, sy_loop = NotStarted, sy_configFile = [], sy_real = [],
     sy_close = Opened, sy_chanClosed = False\<rparr>"

inductive reachable :: "'w config_env \<Rightarrow> 'w system \<Rightarrow> bool" for ce where
  reach_init: "reachable ce (initial ce w)"
| reach_step: "reachable ce s \<Longrightarrow> config_step ce s l s' \<Longrightarrow> reachable ce s'"

section \<open>The invariant\<close>

definition system_inv :: "'w system \<Rightarrow> bool" where
  "system_inv s \<longleftrightarrow> valid (Current (sy_store s))
    \<and> st_closed (sy_store s) = (sy_close s \<noteq> Opened)
    \<and> (st_watching (sy_store s) \<longrightarrow> sy_close s = Opened)
    \<and> (sy_close s = Opened \<and> \<not> st_watching (sy_store s) \<longrightarrow> sy_loop s = NotStarted)
    \<and> (sy_chanClosed s \<longrightarrow> sy_close s = AwaitLoop \<or> sy_close s = Closed)
    \<and> (sy_close s = Closed \<longrightarrow> at_rest (sy_loop s))"

lemma resume_not_rest [simp]: "\<not> at_rest (resume k)"
  by (cases k) (simp_all add: at_rest_def)

lemma NewStore_fields [simp]:
  "Current (NewStore ce) = Defaults" "\<not> st_closed (NewStore ce)" "\<not> st_watching (NewStore ce)"
  by (simp_all add: NewStore_def Current_def)

lemma inv_initial: "system_inv (initial ce w)"
  by (simp add: system_inv_def initial_def)

lemma Load_keeps:
  assumes "Load ce (s, w) = (sw, r)"
  shows "st_closed (fst sw) = st_closed s" "st_watching (fst sw) = st_watching s"
    "valid (Current s) \<Longrightarrow> valid (Current (fst sw))" "st_closed s \<Longrightarrow> Current (fst sw) = Current s"
  using Load_cases [of ce s w "fst sw" "snd sw" r] assms by auto

lemma SetConfigFile_keeps:
  "Current (fst (SetConfigFile ce p (s, w))) = Current s" "st_closed (fst (SetConfigFile ce p (s, w))) = st_closed s"
  "st_watching (fst (SetConfigFile ce p (s, w))) = st_watching s"
  by (simp_all add: SetConfigFile_def Let_def)

lemmas system_simps = with_store_def SetConfigFile_keeps SetErrorHandler_def OnConfigChange_def close_locked_def
  close_watcher_def

lemma inv_loop_step: "loop_step ce s l s' \<Longrightarrow> system_inv s \<Longrightarrow> system_inv s'"
proof (induction rule: loop_step.induct)
  case (reload s ev sw r)
  then show ?case
    using Load_keeps [OF reload(2)] by (auto simp: system_inv_def with_store_def at_rest_def split: option.splits)
qed (auto simp: system_inv_def at_rest_def split: option.splits)

lemma inv_other_step: "other_step ce s s' \<Longrightarrow> system_inv s \<Longrightarrow> system_inv s'"
proof (induction rule: other_step.induct)
  case (load s)
  then show ?case
    using Load_keeps [of ce "sy_store s" "sy_world s" "fst (Load ce (sy_store s, sy_world s))"
        "snd (Load ce (sy_store s, sy_world s))"]
    by (auto simp: system_inv_def with_store_def)
next
  case (watch_fails s sw e)
  then show ?case
    using watch_locked_cases [of ce "sy_store s" "sy_world s" "fst sw" "snd sw"] by (auto simp: with_store_def system_inv_def)
next
  case (watch_starts s sw f)
  then show ?case
    using watch_locked_cases [of ce "sy_store s" "sy_world s" "fst sw" "snd sw"] by (auto simp: with_store_def system_inv_def)
qed (auto simp: system_inv_def system_simps split: prod.splits if_splits)

lemma reachable_inv: "reachable ce s \<Longrightarrow> system_inv s"
  by (induction rule: reachable.induct) (auto simp: config_step_def inv_initial intro: inv_loop_step inv_other_step)

section \<open>Snapshots\<close>

text \<open>A step of a closed store leaves the snapshot alone; a step after \<^verbatim>\<open>Close\<close> has returned is silent.\<close>

lemma closed_loop_step:
  "loop_step ce s l s' \<Longrightarrow> st_closed (sy_store s) \<Longrightarrow> Current (sy_store s') = Current (sy_store s) \<and> st_closed (sy_store s')"
proof (induction rule: loop_step.induct)
  case (reload s ev sw r)
  then show ?case using Load_keeps [OF reload(2)] by (auto simp: with_store_def split: option.splits)
qed (auto split: option.splits)

lemma closed_other_step:
  "other_step ce s s' \<Longrightarrow> st_closed (sy_store s) \<Longrightarrow> Current (sy_store s') = Current (sy_store s) \<and> st_closed (sy_store s')"
proof (induction rule: other_step.induct)
  case (watch_starts s sw f)
  then show ?case using watch_locked_cases [of ce "sy_store s" "sy_world s" "fst sw" "snd sw"] by auto
next
  case (watch_fails s sw f)
  then show ?case using watch_locked_cases [of ce "sy_store s" "sy_world s" "fst sw" "snd sw"] by (auto simp: with_store_def)
qed (auto simp: system_simps Load_closed split: prod.splits if_splits)

lemma at_rest_no_loop_step: "loop_step ce s l s' \<Longrightarrow> \<not> at_rest (sy_loop s)"
  by (induction rule: loop_step.induct) (auto simp: at_rest_def)

text \<open>
  C17: however the goroutines interleave, the snapshot a caller reads is valid: a step replaces it only
  by a successful load, never once the store is closed, and no callback runs after
  \<^verbatim>\<open>Close\<close> has returned.
\<close>

theorem config_snapshots_valid:
  assumes "reachable ce s" and "config_step ce s l s'"
  shows "valid (Current (sy_store s)) \<and> valid (Current (sy_store s'))
    \<and> (st_closed (sy_store s) \<longrightarrow> Current (sy_store s') = Current (sy_store s) \<and> st_closed (sy_store s'))
    \<and> (sy_close s = Closed \<longrightarrow> l = Silent \<and> at_rest (sy_loop s'))"
proof -
  have inv: "system_inv s" "system_inv s'"
    using reachable_inv [OF assms(1)] reachable_inv [OF reach_step [OF assms]] by auto
  have "Current (sy_store s') = Current (sy_store s) \<and> st_closed (sy_store s')" if "st_closed (sy_store s)"
    using assms(2) that closed_loop_step closed_other_step unfolding config_step_def by blast
  moreover have "l = Silent \<and> at_rest (sy_loop s')" if closed: "sy_close s = Closed"
  proof -
    have "at_rest (sy_loop s)" using inv closed by (auto simp: system_inv_def)
    then have other: "other_step ce s s'" "l = Silent"
      using assms(2) at_rest_no_loop_step by (auto simp: config_step_def)
    have "sy_close s' = Closed" using other(1) closed by (induction rule: other_step.induct) (auto simp: with_store_def)
    with inv other show ?thesis by (simp add: system_inv_def)
  qed
  ultimately show ?thesis using inv by (simp add: system_inv_def)
qed

section \<open>The loop ends\<close>

text \<open>How many steps the loop has left once its channels are closed.\<close>

fun loop_rank :: "'w watch_pc \<Rightarrow> nat" where
  "loop_rank NotStarted = 0"
| "loop_rank Done = 0"
| "loop_rank Waiting = 1"
| "loop_rank Starting = 2"
| "loop_rank (InHook h ev) = 2"
| "loop_rank (Hooking ev) = 3"
| "loop_rank (InHandler h e k) = 4"
| "loop_rank (Reporting e k) = 5"
| "loop_rank (Reloading ev) = 6"

text \<open>\<open>config_run ce s n s'\<close>: a run from \<open>s\<close> to \<open>s'\<close> in which the loop takes \<open>n\<close> steps.\<close>

inductive config_run :: "'w config_env \<Rightarrow> 'w system \<Rightarrow> nat \<Rightarrow> 'w system \<Rightarrow> bool" for ce where
  run_refl: "config_run ce s 0 s"
| run_loop: "config_run ce s n t \<Longrightarrow> loop_step ce t l u \<Longrightarrow> config_run ce s (Suc n) u"
| run_other: "config_run ce s n t \<Longrightarrow> other_step ce t u \<Longrightarrow> config_run ce s n u"

lemma loop_rank_resume: "loop_rank (resume k) < 4" "loop_rank (resume k) < 5"
  by (cases k; simp)+

lemma loop_step_rank:
  "loop_step ce s l s' \<Longrightarrow> sy_chanClosed s \<Longrightarrow> loop_rank (sy_loop s') < loop_rank (sy_loop s) \<and> sy_chanClosed s'"
proof (induction rule: loop_step.induct)
  case (report s e k)
  then show ?case by (auto simp: loop_rank_resume split: option.splits)
next
  case (handler s h e k)
  then show ?case by (simp add: loop_rank_resume)
qed (auto simp: with_store_def split: option.splits)

lemma other_step_rank:
  "other_step ce s s' \<Longrightarrow> system_inv s \<Longrightarrow> sy_chanClosed s \<Longrightarrow> sy_loop s' = sy_loop s \<and> sy_chanClosed s'"
proof (induction rule: other_step.induct)
  case (watch_starts s sw f)
  then show ?case
    using watch_locked_cases [of ce "sy_store s" "sy_world s" "fst sw" "snd sw"] by (auto simp: system_inv_def)
qed (auto simp: with_store_def)

lemma loop_enabled:
  assumes "\<not> at_rest (sy_loop s)" and "sy_chanClosed s"
  shows "\<exists>l s'. loop_step ce s l s'"
proof (cases "sy_loop s")
  case (Reloading ev)
  then show ?thesis
    using loop_step.reload [of s ev ce "fst (Load ce (sy_store s, sy_world s))" "snd (Load ce (sy_store s, sy_world s))"] by auto
qed (use assms in \<open>auto simp: at_rest_def intro: loop_step.start loop_step.channel_closed loop_step.report
      loop_step.handler loop_step.look_hook loop_step.hook\<close>)

lemma config_run_inv: "config_run ce s n s' \<Longrightarrow> reachable ce s \<Longrightarrow> reachable ce s'"
  by (induction rule: config_run.induct) (auto simp: config_step_def intro: reach_step)

lemma config_run_rank:
  "config_run ce s n s' \<Longrightarrow> reachable ce s \<Longrightarrow> sy_chanClosed s
    \<Longrightarrow> n + loop_rank (sy_loop s') \<le> loop_rank (sy_loop s) \<and> sy_chanClosed s'"
proof (induction rule: config_run.induct)
  case (run_loop s n t l u)
  then show ?case using loop_step_rank [OF run_loop(2)] by simp
next
  case (run_other s n t u)
  then show ?case using other_step_rank [OF run_other(2)] reachable_inv [OF config_run_inv [OF run_other(1)]] by auto
qed simp

text \<open>
  C18: \<^verbatim>\<open>Close\<close> returns. Once the channels of the watcher are closed, the loop takes at most six
  more steps in any run, whatever the other goroutines do; as long as it is not at rest one of its
  own steps is enabled, and when it is at rest the wait of \<^verbatim>\<open>Close\<close> is over.
\<close>

theorem close_ends_loop:
  assumes "reachable ce s" and "sy_chanClosed s" and "config_run ce s n s'"
  shows "n \<le> 6
    \<and> (\<not> at_rest (sy_loop s') \<longrightarrow> (\<exists>l s''. loop_step ce s' l s''))
    \<and> (at_rest (sy_loop s') \<longrightarrow> sy_close s' = Closed \<or> other_step ce s' (s'\<lparr>sy_close := Closed\<rparr>))"
proof -
  have "loop_rank pc \<le> 6" for pc :: "'a watch_pc" by (cases pc) simp_all
  then have "n \<le> 6" using config_run_rank [OF assms(3,1,2)] by (meson le_add1 le_trans)
  moreover have ch: "sy_chanClosed s'" using config_run_rank [OF assms(3,1,2)] by simp
  moreover have "sy_close s' = Closed \<or> other_step ce s' (s'\<lparr>sy_close := Closed\<rparr>)" if "at_rest (sy_loop s')"
    using reachable_inv [OF config_run_inv [OF assms(3,1)]] ch that other_step.close_returns [of s' ce]
    by (auto simp: system_inv_def)
  ultimately show ?thesis using loop_enabled by blast
qed

section \<open>A concrete store\<close>

text \<open>The world is the file: the settings it decodes to, or nothing when it cannot be read.\<close>

definition sample_config_env :: "config option config_env" where
  "sample_config_env = \<lparr>cv_newViper = None, cv_SetConfigFile = (\<lambda>p w. w),
     cv_ReadInConfig = (\<lambda>w. (w, if w = None then Some (NewErr ''no such file'') else None)),
     cv_Unmarshal = (\<lambda>c w. case w of None \<Rightarrow> Inr c | Some cfg \<Rightarrow> Inr cfg), cv_Getwd = (\<lambda>w. Inr ''/''),
     cv_EvalSymlinks = (\<lambda>p w. Inr p), cv_NewWatcher = (\<lambda>w. (w, None)), cv_Add = (\<lambda>d w. (w, None)),
     cv_CloseWatcher = (\<lambda>w. (w, None))\<rparr>"

definition relative_socket :: config where
  "relative_socket = Defaults\<lparr>SocketPath := ''dockerdless.sock'', RequestTimeout := 0\<rparr>"

theorem config_snapshots_valid_witness:
  "\<not> valid relative_socket
   \<and> valid (Current (sy_store (with_store (initial sample_config_env (Some relative_socket))
       (fst (Load sample_config_env (NewStore sample_config_env, Some relative_socket))))))"
proof
  show "\<not> valid relative_socket" by (simp add: valid_iff relative_socket_def)
  have "config_step sample_config_env (initial sample_config_env (Some relative_socket)) Silent
      (with_store (initial sample_config_env (Some relative_socket))
        (fst (Load sample_config_env (NewStore sample_config_env, Some relative_socket))))"
    using other_step.load [of sample_config_env "initial sample_config_env (Some relative_socket)"]
    by (simp add: config_step_def initial_def)
  from config_snapshots_valid [OF reach_init this]
  show "valid (Current (sy_store (with_store (initial sample_config_env (Some relative_socket))
       (fst (Load sample_config_env (NewStore sample_config_env, Some relative_socket))))))" by (elim conjE)
qed

text \<open>A watching store with \<^verbatim>\<open>Close\<close> under way.\<close>

definition sample_store :: "config option store" where
  "sample_store = (NewStore sample_config_env)\<lparr>st_configFile := ''/etc/d.toml''\<rparr>"

definition sample_system :: "config option watch_pc \<Rightarrow> close_pc \<Rightarrow> bool \<Rightarrow> config option system" where
  "sample_system pc cl ch = \<lparr>sy_store = (if cl = Opened then sample_store\<lparr>st_watching := True\<rparr> else sample_store\<lparr>st_closed := True\<rparr>),
     sy_world = None, sy_loop = pc, sy_configFile = ''/etc/d.toml'', sy_real = [], sy_close = cl, sy_chanClosed = ch\<rparr>"

lemma reach_other: "reachable ce s \<Longrightarrow> other_step ce s s' \<Longrightarrow> reachable ce s'"
  by (rule reach_step [of ce s Silent]) (simp_all add: config_step_def)

lemma sample_set_file:
  "with_store (initial sample_config_env None) (SetConfigFile sample_config_env ''/etc/d.toml'' (NewStore sample_config_env, None))
    = (initial sample_config_env None)\<lparr>sy_store := sample_store\<rparr>"
proof -
  have "TrimSpace ''/etc/d.toml'' = ''/etc/d.toml''" "Clean ''/etc/d.toml'' = ''/etc/d.toml''" by code_simp+
  then show ?thesis
    by (simp add: with_store_def initial_def SetConfigFile_def Abs_def IsAbs_def HasPrefix_def sample_store_def
        sample_config_env_def NewStore_def)
qed

lemma sample_watch:
  "watch_locked sample_config_env (sample_store, None) = ((sample_store\<lparr>st_watching := True\<rparr>, None), Inr ''/etc/d.toml'')"
proof -
  have "Clean ''/etc/d.toml'' = ''/etc/d.toml''" by code_simp
  then show ?thesis by (simp add: watch_locked_def sample_store_def sample_config_env_def NewStore_def Let_def)
qed

lemma sample_closing: "reachable sample_config_env (sample_system Starting AwaitLoop True)"
proof -
  let ?ce = sample_config_env
  have "reachable ?ce ((initial ?ce None)\<lparr>sy_store := sample_store\<rparr>)"
    using reach_other [OF reach_init [of ?ce None] other_step.set_file [of ?ce _ "''/etc/d.toml''"]] sample_set_file
    by (simp add: initial_def)
  then have "reachable ?ce (sample_system Starting Opened False)"
    using reach_other [OF _ other_step.watch_starts [of ?ce "(initial ?ce None)\<lparr>sy_store := sample_store\<rparr>"]] sample_watch
    by (auto simp: initial_def with_store_def sample_system_def)
  then have "reachable ?ce (sample_system Starting (Marked True) False)"
    using reach_other [OF _ other_step.close_mark [of "sample_system Starting Opened False" _ _ ?ce]]
    by (auto simp: sample_system_def close_locked_def sample_store_def NewStore_def)
  then have "reachable ?ce (sample_system Starting AwaitLoop False)"
    using reach_other [OF _ other_step.close_watch [of "sample_system Starting (Marked True) False" True ?ce]]
    by (auto simp: sample_system_def close_watcher_def with_store_def sample_config_env_def sample_store_def NewStore_def)
  then show ?thesis
    using reach_other [OF _ other_step.channels_close [of "sample_system Starting AwaitLoop False" ?ce]]
    by (auto simp: sample_system_def)
qed

theorem close_ends_loop_witness:
  "\<exists>s. reachable sample_config_env s \<and> sy_loop s = Starting \<and> (\<exists>l s'. loop_step sample_config_env s l s')"
proof -
  have "\<not> at_rest (sy_loop (sample_system Starting AwaitLoop True))" "sy_chanClosed (sample_system Starting AwaitLoop True)"
    by (simp_all add: sample_system_def at_rest_def)
  then have "\<exists>l s'. loop_step sample_config_env (sample_system Starting AwaitLoop True) l s'"
    using close_ends_loop [OF sample_closing _ run_refl] by blast
  then show ?thesis
    using sample_closing by (intro exI [of _ "sample_system Starting AwaitLoop True"]) (simp add: sample_system_def)
qed

end
