(* ===== verification/Config_Reload.thy ===== *)
theory Config_Reload
  imports Config_Watch
begin

text \<open>
  \<^verbatim>\<open>cmd/dockerdless/reload.go\<close>: what the daemon does with a changed configuration. The world of
  the store's callbacks holds the variable \<^verbatim>\<open>previous\<close> they share, the level of the logger and
  the messages logged; \<^verbatim>\<open>zapcore.ParseLevel\<close> is a parameter.
\<close>

datatype reload_entry =
    ReloadRejected gerror
  | InvalidLevel gerror
  | LevelReloaded string
  | RestartRequired string

record 'lv reload =
  rl_previous :: config
  rl_level :: 'lv
  rl_log :: "reload_entry list"

text \<open>The text a change report is made of, one field after the other.\<close>

definition startupOnlyChanges :: "config \<Rightarrow> config \<Rightarrow> string list" where
  "startupOnlyChanges previous current =
     (if SocketPath previous \<noteq> SocketPath current then [''socket-path''] else [])
   @ (if OTelServiceName previous \<noteq> OTelServiceName current then [''otel-service-name''] else [])
   @ (if OTelEndpoint previous \<noteq> OTelEndpoint current then [''otel-endpoint''] else [])
   @ (if ContainerdNamespace previous \<noteq> ContainerdNamespace current then [''containerd-namespace''] else [])
   @ (if ContainerdSocket previous \<noteq> ContainerdSocket current then [''containerd-socket''] else [])
   @ (if CNIConfigDir previous \<noteq> CNIConfigDir current then [''cni-config-dir''] else [])
   @ (if CNIPluginDir previous \<noteq> CNIPluginDir current then [''cni-plugin-dir''] else [])
   @ (if BuildKitSocket previous \<noteq> BuildKitSocket current then [''buildkit-socket''] else [])
   @ (if EnableCRI previous \<noteq> EnableCRI current then [''enable-cri''] else [])
   @ (if EnableRootless previous \<noteq> EnableRootless current then [''enable-rootless''] else [])"

definition applyConfigChange :: "(string \<Rightarrow> gerror + 'lv) \<Rightarrow> config \<Rightarrow> config \<Rightarrow> 'lv reload \<Rightarrow> 'lv reload" where
  "applyConfigChange ParseLevel previous current r =
    (let r1 = (if LogLevel previous \<noteq> LogLevel current then
                 (case ParseLevel (LogLevel current) of
                    Inl e \<Rightarrow> r\<lparr>rl_log := rl_log r @ [InvalidLevel e]\<rparr>
                  | Inr lv \<Rightarrow> r\<lparr>rl_level := lv, rl_log := rl_log r @ [LevelReloaded (LogLevel current)]\<rparr>)
               else r)
     in r1\<lparr>rl_log := rl_log r1
          @ (if DefaultStopTimeout previous \<noteq> DefaultStopTimeout current then [RestartRequired ''default-stop-timeout''] else [])
          @ (if RequestTimeout previous \<noteq> RequestTimeout current then [RestartRequired ''request-timeout''] else [])
          @ map RestartRequired (startupOnlyChanges previous current)\<rparr>)"

text \<open>The callbacks of \<^verbatim>\<open>wireConfigReload\<close>, on a world whose first part is the state above.\<close>

definition reload_rejected :: "gerror \<Rightarrow> config \<Rightarrow> 'lv reload \<times> 'x \<Rightarrow> 'lv reload \<times> 'x" where
  "reload_rejected e current = map_prod (\<lambda>r. r\<lparr>rl_log := rl_log r @ [ReloadRejected e]\<rparr>) id"

definition reload_hook :: "(string \<Rightarrow> gerror + 'lv) \<Rightarrow> fs_event \<Rightarrow> config \<Rightarrow> 'lv reload \<times> 'x \<Rightarrow> 'lv reload \<times> 'x" where
  "reload_hook ParseLevel ev current = map_prod (\<lambda>r.
     if current = rl_previous r then r
     else (applyConfigChange ParseLevel (rl_previous r) current r)\<lparr>rl_previous := current\<rparr>) id"

definition wireConfigReload ::
  "(string \<Rightarrow> gerror + 'lv) \<Rightarrow> ('lv reload \<times> 'x) store \<times> ('lv reload \<times> 'x) \<Rightarrow> ('lv reload \<times> 'x) store \<times> ('lv reload \<times> 'x)" where
  "wireConfigReload ParseLevel = (\<lambda>(s, w).
     (OnConfigChange (Some (reload_hook ParseLevel)) (SetErrorHandler (Some reload_rejected) s),
      map_prod (\<lambda>r. r\<lparr>rl_previous := Current s\<rparr>) id w))"

text \<open>\<open>env\<close> is the value of \<^verbatim>\<open>DOCKERDLESS_CONFIG_FILE\<close>.\<close>

definition loadConfigStore :: "'w config_env \<Rightarrow> string \<Rightarrow> 'w \<Rightarrow> ('w store \<times> 'w) \<times> gerror option" where
  "loadConfigStore cv env w =
    (case Load cv (NewStoreWithConfigFile cv (TrimSpace env) w) of
       (sw, Some e) \<Rightarrow> (Close cv sw, Some (wrap_pre ''load configuration: '' e))
     | (sw, None) \<Rightarrow> (sw, None))"

definition configFileConfigured :: "string \<Rightarrow> bool" where
  "configFileConfigured env \<longleftrightarrow> TrimSpace env \<noteq> []"

section \<open>Reports are complete\<close>

text \<open>The settings that take effect only after a restart, by the name of their key.\<close>

definition restart_settings :: "(string \<times> (config \<Rightarrow> config \<Rightarrow> bool)) list" where
  "restart_settings =
    [(''default-stop-timeout'', \<lambda>p c. DefaultStopTimeout p = DefaultStopTimeout c), (''request-timeout'', \<lambda>p c. RequestTimeout p = RequestTimeout c),
     (''socket-path'', \<lambda>p c. SocketPath p = SocketPath c), (''otel-service-name'', \<lambda>p c. OTelServiceName p = OTelServiceName c),
     (''otel-endpoint'', \<lambda>p c. OTelEndpoint p = OTelEndpoint c), (''containerd-namespace'', \<lambda>p c. ContainerdNamespace p = ContainerdNamespace c),
     (''containerd-socket'', \<lambda>p c. ContainerdSocket p = ContainerdSocket c), (''cni-config-dir'', \<lambda>p c. CNIConfigDir p = CNIConfigDir c),
     (''cni-plugin-dir'', \<lambda>p c. CNIPluginDir p = CNIPluginDir c), (''buildkit-socket'', \<lambda>p c. BuildKitSocket p = BuildKitSocket c),
     (''enable-cri'', \<lambda>p c. EnableCRI p = EnableCRI c), (''enable-rootless'', \<lambda>p c. EnableRootless p = EnableRootless c)]"

definition restart_report :: "config \<Rightarrow> config \<Rightarrow> reload_entry list" where
  "restart_report p c = map (\<lambda>(k, same). RestartRequired k) (filter (\<lambda>(k, same). \<not> same p c) restart_settings)"

lemma map_filter_step: "map f (filter P (x # xs)) = (if P x then [f x] else []) @ map f (filter P xs)"
  by simp

lemma map_if_single: "map f (if b then [x] else []) = (if b then [f x] else [])"
  by simp

lemma startupOnlyChanges_report:
  "(if DefaultStopTimeout p \<noteq> DefaultStopTimeout c then [RestartRequired ''default-stop-timeout''] else [])
     @ (if RequestTimeout p \<noteq> RequestTimeout c then [RestartRequired ''request-timeout''] else [])
     @ map RestartRequired (startupOnlyChanges p c) = restart_report p c"
  unfolding restart_report_def restart_settings_def startupOnlyChanges_def map_filter_step map_append map_if_single prod.case
  by simp

lemma applyConfigChange_fields:
  "rl_log (applyConfigChange pl p c r) = rl_log r
     @ (if LogLevel p = LogLevel c then [] else [case pl (LogLevel c) of Inl e \<Rightarrow> InvalidLevel e | Inr _ \<Rightarrow> LevelReloaded (LogLevel c)])
     @ restart_report p c"
  "rl_previous (applyConfigChange pl p c r) = rl_previous r"
  "rl_level (applyConfigChange pl p c r) = (if LogLevel p = LogLevel c then rl_level r
     else case pl (LogLevel c) of Inl _ \<Rightarrow> rl_level r | Inr lv \<Rightarrow> lv)"
  unfolding applyConfigChange_def startupOnlyChanges_report by (simp_all add: Let_def split: sum.split)

lemma restart_report_Nil: "restart_report p c = [] \<and> LogLevel p = LogLevel c \<longleftrightarrow> p = c"
proof -
  have "restart_report p c = [] \<longleftrightarrow> (\<forall>x\<in>set restart_settings. snd x p c)"
    by (auto simp: restart_report_def filter_empty_conv split_def)
  then show ?thesis by (auto simp: restart_settings_def intro!: config.equality)
qed

section \<open>The reload history\<close>

text \<open>
  The daemon between two file events: the file system and the rest of the world change, then one
  event is handled. What the callbacks share is only changed by the callbacks.
\<close>

definition reload_event ::
  "('lv reload \<times> 'x) config_env \<Rightarrow> fs_event \<times> 'x \<Rightarrow> ('lv reload \<times> 'x) store \<times> 'lv reload \<times> 'x \<Rightarrow> ('lv reload \<times> 'x) store \<times> 'lv reload \<times> 'x" where
  "reload_event cv = (\<lambda>(ev, x') (s, r, x). handleConfigChange cv ev (s, r, x'))"

text \<open>The decoder works on its own part of the world.\<close>

definition decoder_local :: "('lv reload \<times> 'x) config_env \<Rightarrow> bool" where
  "decoder_local cv \<longleftrightarrow> (\<forall>p w. fst (cv_SetConfigFile cv p w) = fst w) \<and> (\<forall>w. fst (fst (cv_ReadInConfig cv w)) = fst w)"

definition wired :: "(string \<Rightarrow> gerror + 'lv) \<Rightarrow> ('lv reload \<times> 'x) store \<times> 'lv reload \<times> 'x \<Rightarrow> bool" where
  "wired pl = (\<lambda>(s, r, x). valid (Current s) \<and> \<not> st_closed s \<and> st_hook s = Some (reload_hook pl)
     \<and> st_errorHandler s = Some reload_rejected \<and> rl_previous r = Current s
     \<and> (\<forall>lv. pl (LogLevel (Current s)) = Inr lv \<longrightarrow> rl_level r = lv))"

lemma Load_world:
  assumes "decoder_local cv" and "Load cv (s, w) = ((s', w'), e)"
  shows "fst w' = fst w"
proof -
  have "fst (fst (if st_configFile s \<noteq> [] then cv_ReadInConfig cv (cv_SetConfigFile cv (st_configFile s) w) else (w, None))) = fst w"
  proof -
    have "fst (cv_SetConfigFile cv p v) = fst v" "fst (fst (cv_ReadInConfig cv v)) = fst v" for p v
      using assms(1) unfolding decoder_local_def by blast+
    then show ?thesis by simp
  qed
  then show ?thesis
    using assms(2) by (auto simp: Load_def Let_def split: if_splits option.splits prod.splits sum.splits)
qed

text \<open>One event handled: either the load failed, or the snapshot was replaced by a valid one.\<close>

lemma reload_event_cases:
  assumes "decoder_local cv" and "wired pl (s, r, x)" and "reload_event cv (ev, x1) (s, r, x) = (s', r', x')"
  shows "(\<exists>e. s' = s \<and> r' = r\<lparr>rl_log := rl_log r @ [ReloadRejected (reload_error ev e)]\<rparr>)
    \<or> (\<exists>c. valid c \<and> s' = s\<lparr>st_current := Some c\<rparr> \<and> r' = (if c = Current s then r
          else (applyConfigChange pl (Current s) c r)\<lparr>rl_previous := c\<rparr>))"
proof -
  obtain s1 r1 x2 e where l: "Load cv (s, r, x1) = ((s1, r1, x2), e)" by (metis prod_cases3 surj_pair)
  have r1: "r1 = r" using Load_world [OF assms(1) l] by simp
  show ?thesis
    using Load_cases [OF l] assms(2,3) l r1
    by (auto simp: reload_event_def handleConfigChange_def reportError_def report_locked_def hook_locked_def wired_def
        reload_rejected_def reload_hook_def split: if_splits)
qed

lemma wired_event:
  assumes "decoder_local cv" and "wired pl srx"
  shows "wired pl (reload_event cv evx srx)"
proof -
  obtain s r x ev x1 s' r' x' where eqs: "srx = (s, r, x)" "evx = (ev, x1)" "reload_event cv (ev, x1) (s, r, x) = (s', r', x')"
    by (metis prod_cases3 surj_pair)
  have w: "wired pl (s, r, x)" using assms(2) eqs by simp
  from reload_event_cases [OF assms(1) w eqs(3)] w show ?thesis
    by (auto simp: wired_def eqs applyConfigChange_fields split: sum.splits if_splits)
qed

lemma wired_history: "decoder_local cv \<Longrightarrow> wired pl srx \<Longrightarrow> wired pl (fold (reload_event cv) evs srx)"
  by (induction evs arbitrary: srx) (simp_all add: wired_event)

lemma wired_wire:
  assumes "valid (Current s)" and "\<not> st_closed s" and "pl (LogLevel (Current s)) = Inr (rl_level r)"
  shows "wired pl (wireConfigReload pl (s, r, x))"
  using assms by (simp add: wireConfigReload_def wired_def OnConfigChange_def SetErrorHandler_def Current_def split: option.splits)

text \<open>
  C20: reloading. From the wiring of the callbacks on, after any sequence of file events the daemon
  acts on the published snapshot: it is valid, the callbacks compare the next one with it, and
  the logger runs at its level whenever that level parses. An event either is rejected, with the
  snapshot kept and one error logged, or publishes a valid snapshot, with a report for every
  setting that differs and none for the others: nothing at all is logged only if no setting differs.
\<close>

theorem reload_follows_snapshot:
  assumes "decoder_local cv" and "valid (Current s0)" and "\<not> st_closed s0"
    and "pl (LogLevel (Current s0)) = Inr (rl_level r0)"
    and "fold (reload_event cv) evs (wireConfigReload pl (s0, r0, x0)) = (s, r, x)"
    and "reload_event cv (ev, x1) (s, r, x) = (s', r', x')"
  shows "valid (Current s) \<and> rl_previous r = Current s \<and> (\<forall>lv. pl (LogLevel (Current s)) = Inr lv \<longrightarrow> rl_level r = lv)
    \<and> ((\<exists>e. s' = s \<and> r' = r\<lparr>rl_log := rl_log r @ [ReloadRejected (reload_error ev e)]\<rparr>)
      \<or> (\<exists>report. rl_log r' = rl_log r @ report \<and> (report = [] \<longleftrightarrow> Current s' = Current s)
          \<and> filter (\<lambda>m. \<exists>k. m = RestartRequired k) report = restart_report (Current s) (Current s')))"
proof -
  have w: "wired pl (s, r, x)"
    using wired_history [OF assms(1) wired_wire [where pl = pl, OF assms(2-4)], of evs x0] assms(5) by simp
  then have inv: "valid (Current s) \<and> rl_previous r = Current s \<and> (\<forall>lv. pl (LogLevel (Current s)) = Inr lv \<longrightarrow> rl_level r = lv)"
    by (simp add: wired_def)
  have all: "filter (\<lambda>m. \<exists>k. m = RestartRequired k) (restart_report p c) = restart_report p c" for p c
    by (auto simp: restart_report_def filter_id_conv)
  have none: "restart_report c c = []" for c using restart_report_Nil [of c c] by simp
  from reload_event_cases [OF assms(1) w assms(6)]
  consider e where "s' = s" "r' = r\<lparr>rl_log := rl_log r @ [ReloadRejected (reload_error ev e)]\<rparr>"
    | c where "s' = s\<lparr>st_current := Some c\<rparr>" "c = Current s" "r' = r"
    | c where "s' = s\<lparr>st_current := Some c\<rparr>" "c \<noteq> Current s" "r' = (applyConfigChange pl (Current s) c r)\<lparr>rl_previous := c\<rparr>"
    by (auto split: if_splits)
  then have "(\<exists>e. s' = s \<and> r' = r\<lparr>rl_log := rl_log r @ [ReloadRejected (reload_error ev e)]\<rparr>)
      \<or> (\<exists>report. rl_log r' = rl_log r @ report \<and> (report = [] \<longleftrightarrow> Current s' = Current s)
          \<and> filter (\<lambda>m. \<exists>k. m = RestartRequired k) report = restart_report (Current s) (Current s'))"
  proof cases
    case (3 c)
    let ?lv = "if LogLevel (Current s) = LogLevel c then []
      else [case pl (LogLevel c) of Inl e \<Rightarrow> InvalidLevel e | Inr _ \<Rightarrow> LevelReloaded (LogLevel c)]"
    have "rl_log r' = rl_log r @ ?lv @ restart_report (Current s) c" using 3 by (simp add: applyConfigChange_fields)
    moreover have "?lv @ restart_report (Current s) c \<noteq> []" using restart_report_Nil [of "Current s" c] 3(2) by auto
    moreover have "filter (\<lambda>m. \<exists>k. m = RestartRequired k) (?lv @ restart_report (Current s) c) = restart_report (Current s) c"
      by (simp add: all split: sum.split)
    ultimately show ?thesis using 3(1,2) by (intro disjI2 exI [of _ "?lv @ restart_report (Current s) c"]) simp
  qed (auto simp: none)
  with inv show ?thesis by blast
qed

section \<open>A concrete reload\<close>

definition reload_config_env :: "(nat reload \<times> config option) config_env" where
  "reload_config_env = \<lparr>cv_newViper = None, cv_SetConfigFile = (\<lambda>p w. w),
     cv_ReadInConfig = (\<lambda>w. (w, if snd w = None then Some (NewErr ''no such file'') else None)),
     cv_Unmarshal = (\<lambda>c w. case snd w of None \<Rightarrow> Inr c | Some cfg \<Rightarrow> Inr cfg), cv_Getwd = (\<lambda>w. Inr ''/''),
     cv_EvalSymlinks = (\<lambda>p w. Inr p), cv_NewWatcher = (\<lambda>w. (w, None)), cv_Add = (\<lambda>d w. (w, None)),
     cv_CloseWatcher = (\<lambda>w. (w, None))\<rparr>"

definition sample_level :: "string \<Rightarrow> gerror + nat" where
  "sample_level l = (if l = ''info'' then Inr 0 else if l = ''debug'' then Inr 1 else Inl (NewErr ''unrecognized level''))"

definition sample_reload :: "nat reload" where
  "sample_reload = \<lparr>rl_previous = Defaults, rl_level = 0, rl_log = []\<rparr>"

definition write_event :: fs_event where
  "write_event = \<lparr>ev_Name = ''/etc/d.toml'', ev_Create = False, ev_Write = True, ev_Rename = False, ev_OpString = ''WRITE''\<rparr>"

definition sample_reloaded :: "(nat reload \<times> config option) store \<times> nat reload \<times> config option" where
  "sample_reloaded = fold (reload_event reload_config_env)
     [(write_event, Some (Defaults\<lparr>LogLevel := ''debug''\<rparr>)), (write_event, Some (Defaults\<lparr>RequestTimeout := 0\<rparr>))]
     (wireConfigReload sample_level (NewStore reload_config_env, sample_reload, None))"

text \<open>The file is changed to the level debug, then to an invalid timeout: the logger stays at debug.\<close>

theorem reload_follows_snapshot_witness:
  "LogLevel (Current (fst sample_reloaded)) = ''debug'' \<and> rl_level (fst (snd sample_reloaded)) = 1"
proof -
  have lv: "LogLevel (Current (fst sample_reloaded)) = ''debug''" by code_simp
  have "decoder_local reload_config_env" by (simp add: decoder_local_def reload_config_env_def)
  moreover have "sample_level (LogLevel (Current (NewStore reload_config_env))) = Inr (rl_level sample_reload)" by code_simp
  moreover obtain s r x where "sample_reloaded = (s, r, x)" by (metis prod_cases3)
  moreover obtain s' r' x' where "reload_event reload_config_env (write_event, None) (s, r, x) = (s', r', x')" by (metis prod_cases3)
  moreover have "sample_level ''debug'' = Inr 1" by code_simp
  ultimately show ?thesis
    using reload_follows_snapshot [of reload_config_env "NewStore reload_config_env" sample_level sample_reload
        "[(write_event, Some (Defaults\<lparr>LogLevel := ''debug''\<rparr>)), (write_event, Some (Defaults\<lparr>RequestTimeout := 0\<rparr>))]" None s r x
        write_event None s' r' x'] lv
    by (auto simp add: sample_reloaded_def simp del: fold_simps)
qed

end
