(* ===== verification/Daemon.thy ===== *)
theory Daemon
  imports Observability Api_Server Config_Reload Go_Local
begin

text \<open>
  \<^verbatim>\<open>cmd/dockerdless/main.go\<close>: the start, the service and the end of the daemon, on top of the
  configuration, the observability runtime and the API server. The constructor of the application
  service is \<^verbatim>\<open>New\<close> of \<^verbatim>\<open>internal/app/service.go\<close>.

  The results of the calls that leave the daemon (flags, configuration, backends, reconciliation) are
  parameters; what the daemon opens and closes is a trace of events. Deferred calls run when the
  function that deferred them returns, the last one first.
\<close>

section \<open>service.go: New\<close>

datatype image_configs = NoConfigs | GivenConfigs | OwnReader string string

record app_config =
  ac_Runtime :: bool
  ac_Images :: bool
  ac_Networks :: bool
  ac_Registry :: bool
  ac_StopTimeout :: int
  ac_RequestTimeout :: int
  ac_LogDir :: string
  ac_Namespace :: string
  ac_ContainerdSocket :: string
  ac_BuildKitSocket :: string
  ac_ImageConfigs :: bool

record app_service =
  as_stopTimeout :: int
  as_requestTimeout :: int
  as_logDir :: string
  as_namespace :: string
  as_containerdSocket :: string
  as_buildkitSocket :: string
  as_imageConfigs :: image_configs

definition app_DefaultStopTimeout :: int where "app_DefaultStopTimeout = 10 * 10 ^ 9"
definition app_DefaultRequestTimeout :: int where "app_DefaultRequestTimeout = 30 * 10 ^ 9"

definition app_New :: "app_config \<Rightarrow> gerror + app_service" where
  "app_New cfg =
    (if \<not> ac_Runtime cfg then Inl (NewErr ''application runtime port is required'')
     else if \<not> ac_Images cfg then Inl (NewErr ''application image port is required'')
     else if \<not> ac_Networks cfg then Inl (NewErr ''application network port is required'')
     else if \<not> ac_Registry cfg then Inl (NewErr ''application registry is required'')
     else Inr \<lparr>as_stopTimeout = (if ac_StopTimeout cfg \<le> 0 then app_DefaultStopTimeout else ac_StopTimeout cfg),
       as_requestTimeout = (if ac_RequestTimeout cfg \<le> 0 then app_DefaultRequestTimeout else ac_RequestTimeout cfg),
       as_logDir = (if TrimSpace (ac_LogDir cfg) = [] then ''dockerdless-logs'' else ac_LogDir cfg),
       as_namespace = ac_Namespace cfg, as_containerdSocket = ac_ContainerdSocket cfg, as_buildkitSocket = ac_BuildKitSocket cfg,
       as_imageConfigs = (if ac_ImageConfigs cfg then GivenConfigs
         else if TrimSpace (ac_ContainerdSocket cfg) \<noteq> [] then OwnReader (ac_ContainerdSocket cfg) (ac_Namespace cfg)
         else NoConfigs)\<rparr>)"

section \<open>main.go: helpers\<close>

definition daemon_shutdownTimeout :: int where "daemon_shutdownTimeout = 5 * 10 ^ 9"
definition sharedContainerdNamespace :: string where "sharedContainerdNamespace = ''default''"
definition logDirectoryName :: string where "logDirectoryName = ''dockerdless-logs''"

definition alignedNamespace :: "string \<Rightarrow> string" where
  "alignedNamespace configured = (if configured \<noteq> ContainerdNamespace Defaults then configured else sharedContainerdNamespace)"

definition logDirFor :: "string \<Rightarrow> string" where
  "logDirFor socketPath = PathJoin [Dir socketPath, logDirectoryName]"

section \<open>main.go: buildService\<close>

datatype resource = ConfigStore | ConfigReload | ObsRuntime | ContainerdClient | BuildKitClient | Sinks | Signals

datatype daemon_event = Acquired resource | Released resource | Reconciled bool | Serving string | UsagePrinted

datatype flags_result = FlagsParsed bool | FlagsFailed gerror

record daemon_env =
  dm_flags :: flags_result
  dm_load :: "gerror + config"
  dm_fileConfigured :: bool
  dm_watch :: "gerror option"
  dm_obs :: obs_env
  dm_obs_result :: "obs_event \<Rightarrow> gerror option"
  dm_containerd :: "string \<Rightarrow> gerror option"
  dm_buildkit :: "string \<Rightarrow> gerror option"
  dm_reconcile :: "gerror option"
  dm_sys :: sys_env
  dm_serve :: serve_end
  dm_http :: "gerror option"

definition daemon_app_config :: "config \<Rightarrow> string \<Rightarrow> app_config" where
  "daemon_app_config cfg namespace = \<lparr>ac_Runtime = True, ac_Images = True, ac_Networks = True, ac_Registry = True,
     ac_StopTimeout = DefaultStopTimeout cfg, ac_RequestTimeout = RequestTimeout cfg, ac_LogDir = logDirFor (SocketPath cfg),
     ac_Namespace = namespace, ac_ContainerdSocket = ContainerdSocket cfg, ac_BuildKitSocket = BuildKitSocket cfg, ac_ImageConfigs = False\<rparr>"

definition buildService :: "daemon_env \<Rightarrow> config \<Rightarrow> string \<Rightarrow> daemon_event list \<times> (gerror + app_service)" where
  "buildService env cfg namespace = (case dm_containerd env (ContainerdSocket cfg) of
     Some e \<Rightarrow> ([], Inl (wrap_pre (''connect to containerd at '' @ ContainerdSocket cfg @ '': '') e))
   | None \<Rightarrow> (case dm_buildkit env (''unix://'' @ BuildKitSocket cfg) of
       Some e \<Rightarrow> ([Acquired ContainerdClient, Released ContainerdClient],
          Inl (wrap_pre (''connect to BuildKit at '' @ BuildKitSocket cfg @ '': '') e))
     | None \<Rightarrow> (case app_New (daemon_app_config cfg namespace) of
         Inl e \<Rightarrow> ([Acquired ContainerdClient, Acquired BuildKitClient, Released BuildKitClient, Released ContainerdClient], Inl e)
       | Inr service \<Rightarrow> ([Acquired ContainerdClient, Acquired BuildKitClient, Acquired Sinks], Inr service))))"

section \<open>main.go: run\<close>

text \<open>\<^verbatim>\<open>runtime.Shutdown\<close>\<close>

definition stop_obs :: "daemon_env \<Rightarrow> obs_runtime \<Rightarrow> gerror option" where
  "stop_obs env rt = snd (snd (runtime_Shutdown (dm_obs_result env) (Some rt)))"

definition serve_api :: "daemon_env \<Rightarrow> config \<Rightarrow> obs_runtime \<Rightarrow> files \<Rightarrow> daemon_event list \<times> files \<times> gerror option" where
  "serve_api env cfg rt fs =
    (case NewServer (SocketPath cfg) (Some ()) [Some (WithShutdownTimeout daemon_shutdownTimeout), Some (WithSocketLogger True)] of
       Inl e \<Rightarrow> ([Released ObsRuntime], fs, join_errors [Some (wrap_pre ''initialize API server: '' e), stop_obs env rt])
     | Inr server \<Rightarrow> (case Run (dm_sys env) (dm_serve env) (dm_http env) server fs of
         (server1, fs1, serveErr) \<Rightarrow>
           ([Acquired Signals] @ (case snd (snd (Listen (dm_sys env) server fs)) of Inr l \<Rightarrow> [Serving (srv_socketPath server)] | Inl e \<Rightarrow> [])
              @ [Released ObsRuntime, Released Signals], fs1, join_errors [serveErr, stop_obs env rt])))"

definition run_backends :: "daemon_env \<Rightarrow> config \<Rightarrow> obs_runtime \<Rightarrow> files \<Rightarrow> daemon_event list \<times> files \<times> gerror option" where
  "run_backends env cfg rt fs = (case buildService env cfg (alignedNamespace (ContainerdNamespace cfg)) of
     (evs, Inl e) \<Rightarrow> (evs @ [Released ObsRuntime], fs, join_errors [Some (wrap_pre ''initialize application: '' e), stop_obs env rt])
   | (evs, Inr service) \<Rightarrow> (case serve_api env cfg rt fs of (evs1, fs1, r) \<Rightarrow>
       (evs @ [Reconciled (dm_reconcile env = None)] @ evs1 @ [Released Sinks, Released BuildKitClient, Released ContainerdClient], fs1, r)))"

definition run_configured :: "daemon_env \<Rightarrow> config \<Rightarrow> files \<Rightarrow> daemon_event list \<times> files \<times> gerror option" where
  "run_configured env cfg fs =
    (case snd (Bootstrap (dm_obs env) (dm_obs_result env) (OTelServiceName cfg) (LogLevel cfg) (OTelEndpoint cfg)) of
       Inl e \<Rightarrow> ([], fs, Some (wrap_pre ''initialize observability: '' e))
     | Inr rt \<Rightarrow>
        (case (if dm_fileConfigured env then dm_watch env else None) of
           Some e \<Rightarrow> ([Acquired ObsRuntime, Acquired ConfigReload, Released ObsRuntime, Released ConfigReload], fs,
              join_errors [Some (wrap_pre ''watch configuration: '' e), stop_obs env rt])
         | None \<Rightarrow> (case run_backends env cfg rt fs of (evs, fs1, r) \<Rightarrow>
              ([Acquired ObsRuntime, Acquired ConfigReload] @ evs @ [Released ConfigReload], fs1, r))))"

definition run :: "daemon_env \<Rightarrow> files \<Rightarrow> daemon_event list \<times> files \<times> gerror option" where
  "run env fs = (case dm_flags env of
     FlagsFailed e \<Rightarrow> ([], fs, if errors_is e (Std ErrHelp) then None else Some (wrap_pre ''parse command-line flags: '' e))
   | FlagsParsed asked \<Rightarrow>
      if asked then ([UsagePrinted], fs, None)
      else case dm_load env of
        Inl e \<Rightarrow> ([Acquired ConfigStore, Released ConfigStore], fs, Some e)
      | Inr cfg \<Rightarrow> (case run_configured env cfg fs of (evs, fs1, r) \<Rightarrow>
          ([Acquired ConfigStore] @ evs @ [Released ConfigStore], fs1, r)))"

section \<open>Everything that is opened is closed\<close>

definition uses :: "resource \<Rightarrow> daemon_event list \<Rightarrow> daemon_event list" where
  "uses r evs = filter (\<lambda>e. e = Acquired r \<or> e = Released r) evs"

definition released :: "resource \<Rightarrow> daemon_event list \<Rightarrow> bool" where
  "released r evs \<longleftrightarrow> uses r evs = [] \<or> uses r evs = [Acquired r, Released r]"

lemma uses_simps [simp]:
  "uses r [] = []" "uses r (e # evs) = (if e = Acquired r \<or> e = Released r then [e] else []) @ uses r evs"
  "uses r (a @ b) = uses r a @ uses r b"
  by (simp_all add: uses_def)

lemma join_first [simp]: "join_errors (Some e # es) \<noteq> None" "\<exists>x. join_errors (Some e # es) = Some x"
proof -
  show "join_errors (Some e # es) \<noteq> None" by (simp add: join_errors_None_iff)
  then show "\<exists>x. join_errors (Some e # es) = Some x" by blast
qed

definition served :: "string \<Rightarrow> gerror option \<Rightarrow> daemon_event list \<Rightarrow> bool" where
  "served p r evs \<longleftrightarrow> evs = [Acquired Signals, Serving p, Released ObsRuntime, Released Signals]
     \<or> (r \<noteq> None \<and> evs \<in> {[Released ObsRuntime], [Acquired Signals, Released ObsRuntime, Released Signals]})"

lemma serve_api_trace:
  assumes "serve_api env cfg rt fs = (evs, fs1, r)"
  shows "served (SocketPath cfg) r evs"
proof (cases "NewServer (SocketPath cfg) (Some ()) [Some (WithShutdownTimeout daemon_shutdownTimeout), Some (WithSocketLogger True)]")
  case (Inl e)
  with assms show ?thesis by (auto simp: serve_api_def served_def)
next
  case (Inr server)
  then have p: "srv_socketPath server = SocketPath cfg" by (auto simp: NewServer_def split: if_splits)
  obtain s1 fs2 e where l: "Run (dm_sys env) (dm_serve env) (dm_http env) server fs = (s1, fs2, e)" by (metis prod_cases3)
  show ?thesis
  proof (cases "snd (snd (Listen (dm_sys env) server fs))")
    case (Inl x)
    with l have "e = Some x" by (auto simp: Run_def split: prod.splits)
    with assms Inr Inl l show ?thesis by (auto simp: serve_api_def served_def)
  qed (use assms Inr l p in \<open>auto simp: serve_api_def served_def\<close>)
qed

lemma buildService_trace:
  "buildService env cfg ns = (evs, r) \<Longrightarrow> (case r of Inr s \<Rightarrow> evs = [Acquired ContainerdClient, Acquired BuildKitClient, Acquired Sinks]
     | Inl e \<Rightarrow> evs = [] \<or> evs = [Acquired ContainerdClient, Released ContainerdClient])"
  by (auto simp: buildService_def app_New_def daemon_app_config_def split: option.splits)

lemma run_backends_trace:
  assumes "run_backends env cfg rt fs = (evs, fs1, r)"
  shows "(r \<noteq> None \<and> (evs = [Released ObsRuntime] \<or> evs = [Acquired ContainerdClient, Released ContainerdClient, Released ObsRuntime]))
    \<or> (\<exists>b evs1. evs = [Acquired ContainerdClient, Acquired BuildKitClient, Acquired Sinks, Reconciled b] @ evs1
          @ [Released Sinks, Released BuildKitClient, Released ContainerdClient]
        \<and> served (SocketPath cfg) r evs1)"
proof (cases "buildService env cfg (alignedNamespace (ContainerdNamespace cfg))")
  case (Pair bevs br)
  note b = buildService_trace [OF Pair]
  show ?thesis
  proof (cases br)
    case (Inl e)
    with b Pair assms show ?thesis by (auto simp: run_backends_def)
  next
    case (Inr s)
    obtain evs1 fs2 r1 where sa: "serve_api env cfg rt fs = (evs1, fs2, r1)" by (metis prod_cases3)
    with Inr b Pair assms serve_api_trace [OF sa] show ?thesis by (auto simp: run_backends_def)
  qed
qed

lemma run_configured_trace:
  assumes "run_configured env cfg fs = (cevs, fs1, r)"
  shows "(\<forall>res. released res ([Acquired ConfigStore] @ cevs @ [Released ConfigStore]))
    \<and> (r = None \<longrightarrow> Serving (SocketPath cfg) \<in> set ([Acquired ConfigStore] @ cevs @ [Released ConfigStore]))"
proof (cases "snd (Bootstrap (dm_obs env) (dm_obs_result env) (OTelServiceName cfg) (LogLevel cfg) (OTelEndpoint cfg))")
  case (Inl e)
  with assms show ?thesis by (auto simp: run_configured_def released_def)
next
  case (Inr rt)
  show ?thesis
  proof (cases "if dm_fileConfigured env then dm_watch env else None")
    case (Some e)
    with assms Inr show ?thesis by (auto simp: run_configured_def released_def split: if_splits)
  next
    case None
    obtain bevs where b: "run_backends env cfg rt fs = (bevs, fs1, r)"
      and cevs: "cevs = [Acquired ObsRuntime, Acquired ConfigReload] @ bevs @ [Released ConfigReload]"
      using assms Inr None by (auto simp: run_configured_def split: prod.splits)
    from run_backends_trace [OF b] show ?thesis
      unfolding cevs served_def by (elim disjE conjE exE) (auto simp: released_def)
  qed
qed

text \<open>
  C11: the daemon leaves nothing open: on every path through its start and end (bad flags,
  configuration, telemetry or watcher failures, unreachable backends, a socket it cannot take, a
  failing or a regular end of service) each of its resources is either never opened or opened once
  and then closed once; and it ends without an error only when it has served the configured socket
  or was asked for help.
\<close>

theorem daemon_releases:
  assumes "run env fs = (evs, fs1, r)"
  shows "(\<forall>res. released res evs)
    \<and> (r = None \<longrightarrow> (\<exists>p. Serving p \<in> set evs) \<or> dm_flags env = FlagsParsed True
        \<or> (\<exists>e. dm_flags env = FlagsFailed e \<and> errors_is e (Std ErrHelp)))"
proof (cases "dm_flags env")
  case (FlagsFailed e)
  with assms show ?thesis by (auto simp: run_def released_def split: if_splits)
next
  case (FlagsParsed asked)
  show ?thesis
  proof (cases "asked \<or> \<not> is_ok (dm_load env)")
    case True
    with assms FlagsParsed show ?thesis by (cases asked; cases "dm_load env") (auto simp: run_def released_def)
  next
    case False
    then obtain cfg where cfg: "dm_load env = Inr cfg" "\<not> asked" by (auto simp: is_ok_iff)
    obtain cevs where c: "run_configured env cfg fs = (cevs, fs1, r)" and evs: "evs = [Acquired ConfigStore] @ cevs @ [Released ConfigStore]"
      using assms FlagsParsed cfg by (auto simp: run_def split: prod.splits)
    have "(\<forall>res. released res evs) \<and> (r = None \<longrightarrow> Serving (SocketPath cfg) \<in> set evs)"
      using run_configured_trace [OF c] unfolding evs by blast
    then show ?thesis by blast
  qed
qed

section \<open>A start with a valid configuration\<close>

text \<open>The documented levels of zap: the seven names, in lower or upper case letters.\<close>

definition zap_levels :: "(string \<Rightarrow> gerror + int) \<Rightarrow> bool" where
  "zap_levels parse \<longleftrightarrow> (\<forall>s. is_ok (parse s) \<longleftrightarrow> ToLower s \<in> set known_levels)"

lemma valid_level_accepted:
  assumes "zap_levels (oe_ParseLevel oenv)" and "Validate cfg = None" and "TrimSpace (LogLevel cfg) = LogLevel cfg"
  shows "is_ok (parseLogLevel oenv (LogLevel cfg))"
proof -
  have "ToLower (LogLevel cfg) \<in> set known_levels"
    using assms(2,3) unfolding Validate_def first_some_None_iff by (auto split: if_splits)
  then have "is_ok (oe_ParseLevel oenv (LogLevel cfg))" and "LogLevel cfg \<noteq> []"
    using assms(1) unfolding zap_levels_def by (blast, auto simp: known_levels_def)
  then show ?thesis using assms(3) by (cases "oe_ParseLevel oenv (LogLevel cfg)") (auto simp: parseLogLevel_def)
qed

text \<open>A level with blanks around it passes the validation of the configuration, but the logger refuses it.\<close>

lemma padded_level_refused:
  assumes "zap_levels (oe_ParseLevel oenv)"
  shows "Validate (Defaults\<lparr>LogLevel := '' info''\<rparr>) = None \<and> \<not> is_ok (parseLogLevel oenv '' info'')"
proof -
  have "Validate (Defaults\<lparr>LogLevel := '' info''\<rparr>) = None" "TrimSpace '' info'' \<noteq> []" "ToLower '' info'' \<notin> set known_levels"
    by code_simp+
  moreover from this have "\<not> is_ok (oe_ParseLevel oenv '' info'')" using assms unfolding zap_levels_def by blast
  ultimately show ?thesis by (cases "oe_ParseLevel oenv '' info''") (auto simp: parseLogLevel_def)
qed

definition sample_daemon :: daemon_env where
  "sample_daemon = \<lparr>dm_flags = FlagsParsed False, dm_load = Inr (Defaults\<lparr>SocketPath := ''/run/d.sock''\<rparr>), dm_fileConfigured = False, dm_watch = None,
     dm_obs = \<lparr>oe_url = (\<lambda>u. Inl (NewErr ''bad url'')), oe_resource = None, oe_traceExporter = (\<lambda>t s. None), oe_metricExporter = (\<lambda>t s. None),
       oe_logExporter = (\<lambda>t s. None), oe_ParseLevel = (\<lambda>l. Inr 0)\<rparr>,
     dm_obs_result = (\<lambda>c. None), dm_containerd = (\<lambda>a. None), dm_buildkit = (\<lambda>a. None), dm_reconcile = None, dm_sys = sample_sys,
     dm_serve = ContextDone True, dm_http = None\<rparr>"

theorem daemon_releases_witness:
  "\<exists>evs fs1. run sample_daemon (sample_files (socket_file 511 None)) = (evs, fs1, None) \<and> (\<exists>p. Serving p \<in> set evs)
    \<and> released ContainerdClient evs"
proof -
  obtain evs fs1 r where r: "run sample_daemon (sample_files (socket_file 511 None)) = (evs, fs1, r)" by (metis prod_cases3)
  have "snd (snd (run sample_daemon (sample_files (socket_file 511 None)))) = None" by code_simp
  with r have "r = None" by simp
  with r show ?thesis using daemon_releases [OF r] by (auto simp: sample_daemon_def)
qed

end
