(* ===== verification/Harness.thy ===== *)
theory Harness
  imports Daemon Ctd_Adapter
begin

text \<open>
  \<^verbatim>\<open>integration/\<close>, the harness that runs the daemon against a live containerd: the names of its
  resources, the chain of cleanup steps, the sweep of what a failed run left behind
  (\<^verbatim>\<open>cleanup.go\<close>), the prerequisites (\<^verbatim>\<open>harness.go\<close>) and the daemon process
  (\<^verbatim>\<open>daemonprocess.go\<close>). Containerd is the record \<open>sweep_env\<close>, the kernel links and the
  configuration directory the record \<open>bridge_env\<close>.
\<close>

section \<open>harness.go: names\<close>

definition kept_char :: "char \<Rightarrow> bool" where
  "kept_char c \<longleftrightarrow> (CHR ''a'' \<le> c \<and> c \<le> CHR ''z'') \<or> (CHR ''A'' \<le> c \<and> c \<le> CHR ''Z'') \<or> (CHR ''0'' \<le> c \<and> c \<le> CHR ''9'')
     \<or> c = CHR ''.'' \<or> c = CHR ''_''"

text \<open>A rune outside ASCII is a run of bytes none of which is kept, which gives one dash like the rune.\<close>

fun sanitize :: "bool \<Rightarrow> string \<Rightarrow> string" where
  "sanitize previousDash [] = []"
| "sanitize previousDash (c # s) =
    (if kept_char c then c # sanitize False s
     else if \<not> previousDash then CHR ''-'' # sanitize True s
     else sanitize True s)"

definition trim_dashes :: "string \<Rightarrow> string" where
  "trim_dashes s = rev (dropWhile (\<lambda>c. c = CHR ''-'') (rev (dropWhile (\<lambda>c. c = CHR ''-'') s)))"

definition sanitizeName :: "string \<Rightarrow> string" where
  "sanitizeName value = trim_dashes (sanitize False (ToLower value))"

text \<open>\<open>counter\<close> is the value \<^verbatim>\<open>uniqueCounter.Add(1)\<close> returned.\<close>

definition uniqueName :: "nat \<Rightarrow> nat \<Rightarrow> string \<Rightarrow> string" where
  "uniqueName pid counter test =
    (let name = ''dls-'' @ dec_digits pid @ ''-'' @ dec_digits counter @ ''-'' @ sanitizeName test
     in if 120 < length name then take 120 name else name)"

definition daemon_namePrefix :: "nat \<Rightarrow> string" where
  "daemon_namePrefix pid = ''dls-'' @ dec_digits pid @ ''-''"

section \<open>harness.go: prerequisites\<close>

definition envOr :: "(string, string) gomap \<Rightarrow> string \<Rightarrow> string \<Rightarrow> string" where
  "envOr env key fallback = (let value = TrimSpace (get_or [] env key) in if value \<noteq> [] then value else fallback)"

text \<open>The host: its files, the errors of \<^verbatim>\<open>stat\<close> and \<^verbatim>\<open>dial\<close> and the text of a mode.\<close>

record host_env =
  ho_files :: files
  ho_statErr :: "string \<Rightarrow> gerror option"
  ho_dialErr :: "string \<Rightarrow> gerror option"
  ho_modeText :: "inode \<Rightarrow> string"
  ho_euid :: int
  ho_environ :: "(string, string) gomap"

definition host_Stat :: "host_env \<Rightarrow> string \<Rightarrow> gerror + inode" where
  "host_Stat h p = (case ho_statErr h p of Some e \<Rightarrow> Inl e
     | None \<Rightarrow> (case node (ho_files h) p of None \<Rightarrow> Inl not_exist | Some n \<Rightarrow> Inr n))"

definition probeUnixSocket :: "host_env \<Rightarrow> string \<Rightarrow> string \<Rightarrow> string list" where
  "probeUnixSocket h name path = (case host_Stat h path of
     Inl e \<Rightarrow> [name @ '' socket '' @ path @ '' unavailable: '' @ err_msg e]
   | Inr info \<Rightarrow>
      if in_kind info \<noteq> NodeSocket then [name @ '' path '' @ path @ '' is not a Unix socket (mode '' @ ho_modeText h info @ '')'']
      else (case ho_dialErr h path of
        Some e \<Rightarrow> [name @ '' socket '' @ path @ '' is not dialable: '' @ err_msg e] | None \<Rightarrow> []))"

definition requiredCNIPlugins :: "string list" where
  "requiredCNIPlugins = [''bridge'', ''host-local'', ''portmap'', ''firewall'', ''loopback'']"

definition executable_mode :: "inode \<Rightarrow> bool" where
  "executable_mode info \<longleftrightarrow> and (Perm info) 73 \<noteq> 0"

definition probeCNIPlugins :: "host_env \<Rightarrow> string \<Rightarrow> string list" where
  "probeCNIPlugins h dir = concat (map (\<lambda>plugin. let path = PathJoin [dir, plugin] in
     case host_Stat h path of
       Inl e \<Rightarrow> [''CNI plugin '' @ path @ '' unavailable: '' @ err_msg e]
     | Inr info \<Rightarrow> if \<not> executable_mode info then [''CNI plugin '' @ path @ '' is not executable (mode '' @ ho_modeText h info @ '')''] else [])
     requiredCNIPlugins)"

record prerequisites =
  pr_euid :: int
  pr_containerdSocket :: string
  pr_buildkitSocket :: string
  pr_cniPluginDir :: string
  pr_namespace :: string
  pr_missing :: "string list"

definition detectPrerequisites :: "host_env \<Rightarrow> prerequisites" where
  "detectPrerequisites h =
    (let cs = envOr (ho_environ h) ''DOCKERDLESS_CONTAINERD_SOCKET'' ''/run/containerd/containerd.sock'';
         bs = envOr (ho_environ h) ''DOCKERDLESS_BUILDKIT_SOCKET'' ''/run/buildkit/buildkitd.sock'';
         pd = envOr (ho_environ h) ''DOCKERDLESS_CNI_PLUGIN_DIR'' ''/opt/cni/bin'';
         ns = envOr (ho_environ h) ''DOCKERDLESS_CONTAINERD_NAMESPACE'' ''default''
     in \<lparr>pr_euid = ho_euid h, pr_containerdSocket = cs, pr_buildkitSocket = bs, pr_cniPluginDir = pd, pr_namespace = ns,
         pr_missing = (if ho_euid h \<noteq> 0 then [''root (euid 0) required for containerd/BuildKit/CNI, running as euid '' @ Itoa (ho_euid h)] else [])
           @ probeUnixSocket h ''containerd'' cs @ probeUnixSocket h ''BuildKit'' bs @ probeCNIPlugins h pd\<rparr>)"

text \<open>\<^verbatim>\<open>t.Skipf\<close> with the reason, or the test goes on.\<close>

definition require :: "prerequisites \<Rightarrow> string option" where
  "require p = (if pr_missing p \<noteq> [] then Some (''integration prerequisites missing: '' @ Join ''; '' (pr_missing p)) else None)"

section \<open>cleanup.go: the chain of steps\<close>

type_synonym 'w cleanup_step = "string \<times> ('w \<Rightarrow> 'w \<times> gerror option)"

definition cleanup_add :: "string \<Rightarrow> ('w \<Rightarrow> 'w \<times> gerror option) \<Rightarrow> 'w cleanup_step list \<Rightarrow> 'w cleanup_step list" where
  "cleanup_add name f steps = steps @ [(name, f)]"

text \<open>The result lists the steps that failed, with what \<^verbatim>\<open>t.Errorf\<close> says of them.\<close>

fun run_steps :: "'w cleanup_step list \<Rightarrow> 'w \<Rightarrow> 'w \<times> string list" where
  "run_steps [] w = (w, [])"
| "run_steps ((name, f) # steps) w = (case f w of (w1, e) \<Rightarrow> case run_steps steps w1 of (w2, reports) \<Rightarrow>
     (w2, (case e of Some x \<Rightarrow> [''cleanup '' @ quote name @ '': '' @ err_msg x] | None \<Rightarrow> []) @ reports))"

definition cleanup_run :: "'w cleanup_step list \<Rightarrow> 'w \<Rightarrow> 'w \<times> string list" where
  "cleanup_run steps w = run_steps (rev steps) w"

section \<open>cleanup.go: the sweep\<close>

record 'w sweep_env =
  sv_errdefs :: errdefs
  sv_connect :: "'w \<Rightarrow> 'w \<times> gerror option"
  sv_Containers :: "'w \<Rightarrow> 'w \<times> (gerror + container_id list)"
  sv_Labels :: "container_id \<Rightarrow> 'w \<Rightarrow> 'w \<times> (gerror + (string, string) gomap)"
  sv_Task :: "container_id \<Rightarrow> 'w \<Rightarrow> 'w \<times> gerror option"
  sv_Status :: "container_id \<Rightarrow> 'w \<Rightarrow> 'w \<times> (gerror + task_status)"
  sv_Kill :: "container_id \<Rightarrow> int \<Rightarrow> 'w \<Rightarrow> 'w \<times> gerror option"
  sv_DeleteTask :: "container_id \<Rightarrow> 'w \<Rightarrow> 'w \<times> gerror option"
  sv_attempts :: nat
  sv_Info :: "container_id \<Rightarrow> 'w \<Rightarrow> 'w \<times> (gerror + (string \<times> string))"
  sv_Delete :: "container_id \<Rightarrow> 'w \<Rightarrow> 'w \<times> gerror option"
  sv_RemoveSnapshot :: "string \<Rightarrow> string \<Rightarrow> 'w \<Rightarrow> 'w \<times> gerror option"
  sv_Images :: "'w \<Rightarrow> 'w \<times> (gerror + string list)"
  sv_DeleteImage :: "string \<Rightarrow> 'w \<Rightarrow> 'w \<times> gerror option"

definition failed :: "'w sweep_env \<Rightarrow> gerror option \<Rightarrow> bool" where
  "failed env r = (case r of None \<Rightarrow> False | Some e \<Rightarrow> \<not> IsNotFound (sv_errdefs env) e)"

text \<open>The argument is the number of further attempts before the deadline has passed.\<close>

primrec settle_task :: "'w sweep_env \<Rightarrow> container_id \<Rightarrow> nat \<Rightarrow> 'w \<Rightarrow> 'w \<times> gerror option" where
  "settle_task env i 0 w = (case sv_DeleteTask env i w of (w1, r) \<Rightarrow>
     if \<not> failed env r then (w1, None) else (w1, Some (NewErr (''task '' @ i @ '' did not settle after SIGKILL''))))"
| "settle_task env i (Suc n) w = (case sv_DeleteTask env i w of (w1, r) \<Rightarrow>
     if \<not> failed env r then (w1, None) else settle_task env i n w1)"

definition killAndDeleteContainerTask :: "'w sweep_env \<Rightarrow> container_id \<Rightarrow> 'w \<Rightarrow> 'w \<times> gerror option" where
  "killAndDeleteContainerTask env i w = (case sv_Task env i w of
     (w1, Some e) \<Rightarrow> (w1, None)
   | (w1, None) \<Rightarrow> (case sv_Status env i w1 of (w2, st) \<Rightarrow>
       settle_task env i (sv_attempts env) (if st = Inr TsRunning then fst (sv_Kill env i SIGKILL w2) else w2)))"

definition removeContainerRecordAndSnapshot :: "'w sweep_env \<Rightarrow> container_id \<Rightarrow> 'w \<Rightarrow> 'w \<times> gerror option" where
  "removeContainerRecordAndSnapshot env i w = (case sv_Info env i w of (w1, info) \<Rightarrow>
     case info of
       Inl e \<Rightarrow> if \<not> IsNotFound (sv_errdefs env) e then (w1, Some (wrap_pre (''inspect container '' @ i @ '': '') e))
         else (case sv_Delete env i w1 of (w2, r) \<Rightarrow>
           if failed env r then (w2, map_option (wrap_pre (''delete container '' @ i @ '': '')) r) else (w2, None))
     | Inr (snapshotter, key) \<Rightarrow> (case sv_Delete env i w1 of (w2, r) \<Rightarrow>
         if failed env r then (w2, map_option (wrap_pre (''delete container '' @ i @ '': '')) r)
         else if key = [] then (w2, None)
         else (case sv_RemoveSnapshot env snapshotter key w2 of (w3, r3) \<Rightarrow>
           if failed env r3 then (w3, map_option (wrap_pre (''remove snapshot '' @ key @ '': '')) r3) else (w3, None))))"

definition forceRemoveContainer :: "'w sweep_env \<Rightarrow> container_id \<Rightarrow> 'w \<Rightarrow> 'w \<times> gerror option" where
  "forceRemoveContainer env i w = (case killAndDeleteContainerTask env i w of
     (w1, Some e) \<Rightarrow> (w1, Some e) | (w1, None) \<Rightarrow> removeContainerRecordAndSnapshot env i w1)"

fun sweep_containers :: "'w sweep_env \<Rightarrow> string \<Rightarrow> container_id list \<Rightarrow> 'w \<Rightarrow> 'w \<times> gerror list" where
  "sweep_containers env pre [] w = (w, [])"
| "sweep_containers env pre (i # is) w = (case sv_Labels env i w of
     (w1, Inl e) \<Rightarrow> (case sweep_containers env pre is w1 of (w2, ps) \<Rightarrow>
        (w2, wrap_pre (''read labels of container '' @ i @ '': '') e # ps))
   | (w1, Inr labels) \<Rightarrow>
      if \<not> HasPrefix (get_or [] labels labelName) pre then sweep_containers env pre is w1
      else (case forceRemoveContainer env i w1 of (w2, r) \<Rightarrow> case sweep_containers env pre is w2 of (w3, ps) \<Rightarrow>
        (w3, (case r of Some e \<Rightarrow> [wrap_pre (''remove leftover container '' @ i @ '': '') e] | None \<Rightarrow> []) @ ps)))"

text \<open>\<open>wanted\<close> selects the images; \<open>what\<close> is the beginning of an error.\<close>

fun remove_images :: "'w sweep_env \<Rightarrow> string \<Rightarrow> (string \<Rightarrow> bool) \<Rightarrow> string list \<Rightarrow> 'w \<Rightarrow> 'w \<times> gerror list" where
  "remove_images env what wanted [] w = (w, [])"
| "remove_images env what wanted (n # ns) w =
    (if \<not> wanted n then remove_images env what wanted ns w
     else case sv_DeleteImage env n w of (w1, r) \<Rightarrow> case remove_images env what wanted ns w1 of (w2, ps) \<Rightarrow>
       (w2, (case r of Some e \<Rightarrow> if failed env r then [wrap_pre (what @ n @ '': '') e] else [] | None \<Rightarrow> []) @ ps))"

definition sweepAdapterState :: "'w sweep_env \<Rightarrow> string \<Rightarrow> 'w \<Rightarrow> 'w \<times> gerror option" where
  "sweepAdapterState env namePrefix w = (case sv_connect env w of
     (w1, Some e) \<Rightarrow> (w1, Some (wrap_pre ''connect containerd for leftover sweep: '' e))
   | (w1, None) \<Rightarrow> (case sv_Containers env w1 of
       (w2, Inl e) \<Rightarrow> (w2, Some (wrap_pre ''list containers for leftover sweep: '' e))
     | (w2, Inr is) \<Rightarrow> (case sweep_containers env namePrefix is w2 of (w3, ps) \<Rightarrow>
         case sv_Images env w3 of
           (w4, Inl e) \<Rightarrow> (w4, join_errors (map Some (ps @ [wrap_pre ''list images for leftover sweep: '' e])))
         | (w4, Inr ns) \<Rightarrow> (case remove_images env ''remove leftover image '' (\<lambda>n. Contains n namePrefix) ns w4 of (w5, qs) \<Rightarrow>
             (w5, join_errors (map Some (ps @ qs)))))))"

definition removeImageFromContainerd :: "'w sweep_env \<Rightarrow> string \<Rightarrow> 'w \<Rightarrow> 'w \<times> gerror option" where
  "removeImageFromContainerd env reference w = (case sv_connect env w of
     (w1, Some e) \<Rightarrow> (w1, Some (wrap_pre (''connect containerd to remove image '' @ reference @ '': '') e))
   | (w1, None) \<Rightarrow> (case sv_Images env w1 of
       (w2, Inl e) \<Rightarrow> (w2, Some (wrap_pre (''list images to remove '' @ reference @ '': '') e))
     | (w2, Inr ns) \<Rightarrow> (case remove_images env ''remove image '' (\<lambda>n. n = reference) ns w2 of (w3, ps) \<Rightarrow>
         (w3, join_errors (map Some ps)))))"

section \<open>cleanup.go: leftover bridges\<close>

text \<open>
  The directory of the network configurations and \<^verbatim>\<open>ip link del\<close>, which returns its output with
  the error; \<open>be_bridges\<close> is the list of bridge names \<^verbatim>\<open>json.Unmarshal\<close> finds in a file, an
  empty one for a plugin without a bridge.
\<close>

record 'w bridge_env =
  be_ReadDir :: "gerror + (string \<times> bool) list"
  be_ReadFile :: "string \<Rightarrow> gerror + string"
  be_bridges :: "string \<Rightarrow> gerror + string list"
  be_del :: "string \<Rightarrow> 'w \<Rightarrow> 'w \<times> (string \<times> gerror) option"

text \<open>\<^verbatim>\<open>filepath.Ext\<close> of a name without separators: from the last dot on.\<close>

definition Ext :: "string \<Rightarrow> string" where
  "Ext name = (if CHR ''.'' \<in> set name then CHR ''.'' # rev (takeWhile (\<lambda>c. c \<noteq> CHR ''.'') (rev name)) else [])"

definition deleteNetworkLink :: "'w bridge_env \<Rightarrow> string \<Rightarrow> 'w \<Rightarrow> 'w \<times> gerror option" where
  "deleteNetworkLink env name w = (case be_del env name w of
     (w1, None) \<Rightarrow> (w1, None)
   | (w1, Some (output, e)) \<Rightarrow> let t = ToLower output in
      if Contains t ''cannot find device'' \<or> Contains t ''does not exist'' then (w1, None)
      else (w1, Some (Wrapf (''delete bridge '' @ name @ '': '' @ err_msg e @ '' ('' @ TrimSpace output @ '')'') [e])))"

fun delete_bridges :: "'w bridge_env \<Rightarrow> string list \<Rightarrow> string list \<Rightarrow> 'w \<Rightarrow> 'w \<times> string list \<times> gerror list" where
  "delete_bridges env [] seen w = (w, seen, [])"
| "delete_bridges env (b # bs) seen w =
    (if b = [] \<or> b \<in> set seen then delete_bridges env bs seen w
     else case deleteNetworkLink env b w of (w1, r) \<Rightarrow> case delete_bridges env bs (b # seen) w1 of (w2, seen2, ps) \<Rightarrow>
       (w2, seen2, (case r of Some e \<Rightarrow> [e] | None \<Rightarrow> []) @ ps))"

fun bridge_entries :: "'w bridge_env \<Rightarrow> (string \<times> bool) list \<Rightarrow> string list \<Rightarrow> 'w \<Rightarrow> 'w \<times> string list \<times> gerror list" where
  "bridge_entries env [] seen w = (w, seen, [])"
| "bridge_entries env ((name, isDir) # es) seen w =
    (if isDir \<or> (Ext name \<noteq> ''.conflist'' \<and> Ext name \<noteq> ''.conf'') then bridge_entries env es seen w
     else case be_ReadFile env name of
       Inl e \<Rightarrow> (case bridge_entries env es seen w of (w1, seen1, ps) \<Rightarrow> (w1, seen1, wrap_pre (''read '' @ name @ '': '') e # ps))
     | Inr raw \<Rightarrow> (case be_bridges env raw of
         Inl e \<Rightarrow> (case bridge_entries env es seen w of (w1, seen1, ps) \<Rightarrow> (w1, seen1, wrap_pre (''parse '' @ name @ '': '') e # ps))
       | Inr bs \<Rightarrow> (case delete_bridges env bs seen w of (w1, seen1, ps) \<Rightarrow> case bridge_entries env es seen1 w1 of (w2, seen2, qs) \<Rightarrow>
           (w2, seen2, ps @ qs))))"

definition deleteLeftoverBridges :: "'w bridge_env \<Rightarrow> string \<Rightarrow> 'w \<Rightarrow> 'w \<times> gerror option" where
  "deleteLeftoverBridges env dir w = (case be_ReadDir env of
     Inl e \<Rightarrow> if errors_is e (Std ErrNotExist) then (w, None) else (w, Some (wrap_pre (''read CNI config dir '' @ dir @ '': '') e))
   | Inr es \<Rightarrow> (case bridge_entries env es [] w of (w1, seen, ps) \<Rightarrow> (w1, join_errors (map Some ps))))"

section \<open>daemonprocess.go\<close>

text \<open>What one attempt to reach the daemon observes: the answer to the ping, then which case of the select is ready.\<close>

datatype ready_select = ReadyTimeout | ReadyExited | ReadyTick

fun waitForDaemonReady :: "((gerror + int) \<times> ready_select) list \<Rightarrow> gerror option option" where
  "waitForDaemonReady [] = None"
| "waitForDaemonReady ((ping, sel) # obs) =
    (if ping = Inr 200 then Some None
     else let lastError = (case ping of Inl e \<Rightarrow> e | Inr code \<Rightarrow> NewErr (''GET /_ping returned HTTP '' @ Itoa code)) in
       case sel of
         ReadyTimeout \<Rightarrow> Some (Some (wrap_pre ''last readiness error: '' lastError))
       | ReadyExited \<Rightarrow> Some (Some (NewErr ''daemon exited during startup''))
       | ReadyTick \<Rightarrow> waitForDaemonReady obs)"

text \<open>
  What stopping observes: whether the process has exited before, the error of the signal, whether it
  exits within the timeout, its exit status and the error of \<^verbatim>\<open>stat\<close> on the socket, none when
  the socket is there.
\<close>

record stop_view =
  sw_exited :: bool
  sw_signal :: "gerror option"
  sw_inTime :: bool
  sw_exit :: "gerror option"
  sw_stat :: "gerror option"

definition proc_stop :: "string \<Rightarrow> (gerror \<Rightarrow> bool) \<Rightarrow> stop_view \<Rightarrow> gerror option" where
  "proc_stop socketPath process_done v =
    join_errors (map Some (
      (if \<not> sw_exited v then
         (case sw_signal v of Some e \<Rightarrow> if \<not> process_done e then [wrap_pre ''signal SIGTERM: '' e] else [] | None \<Rightarrow> [])
         @ (if \<not> sw_inTime v then [NewErr ''daemon did not exit within 15s after SIGTERM''] else [])
       else [])
      @ (case sw_exit v of None \<Rightarrow> [] | Some e \<Rightarrow>
           if sw_exited v then [wrap_pre ''daemon had already exited before stop: '' e]
           else [wrap_pre ''daemon exited with error after SIGTERM: '' e])
      @ (if \<not> (case sw_stat v of Some e \<Rightarrow> errors_is e (Std ErrNotExist) | None \<Rightarrow> False)
         then [Wrapf (''socket '' @ socketPath @ '' still present after daemon exit (stat error ''
             @ (case sw_stat v of Some e \<Rightarrow> err_msg e | None \<Rightarrow> ''%!w(<nil>)'') @ '')'') (case sw_stat v of Some e \<Rightarrow> [e] | None \<Rightarrow> [])] else [])))"

text \<open>\<^verbatim>\<open>stopOnce\<close> with \<^verbatim>\<open>stopErr\<close>: the first call decides, later ones return what it returned.\<close>

definition proc_Stop :: "string \<Rightarrow> (gerror \<Rightarrow> bool) \<Rightarrow> stop_view \<Rightarrow> gerror option option \<Rightarrow> gerror option option \<times> gerror option" where
  "proc_Stop socketPath process_done v stopErr = (case stopErr of
     Some r \<Rightarrow> (stopErr, r) | None \<Rightarrow> let r = proc_stop socketPath process_done v in (Some r, r))"

text \<open>The steps \<^verbatim>\<open>startDaemon\<close> registers, in the order it does; a test adds its own behind them.\<close>

definition daemon_cleanups :: "('w \<Rightarrow> 'w \<times> gerror option) \<Rightarrow> 'w bridge_env \<Rightarrow> string \<Rightarrow> 'w sweep_env \<Rightarrow> nat \<Rightarrow> 'w cleanup_step list" where
  "daemon_cleanups stop bridges dir env pid =
     cleanup_add ''sweep leftover adapter containers and images'' (sweepAdapterState env (daemon_namePrefix pid))
       (cleanup_add ''delete leftover CNI bridge devices'' (deleteLeftoverBridges bridges dir)
         (cleanup_add ''stop dockerdless daemon'' stop []))"

section \<open>fixtures.go\<close>

definition looksLikeConnectivityFailure :: "gerror option \<Rightarrow> bool" where
  "looksLikeConnectivityFailure err = (case err of None \<Rightarrow> False
   | Some e \<Rightarrow> list_ex (Contains (ToLower (err_msg e)))
       [''dial tcp'', ''no such host'', ''connection refused'', ''i/o timeout'', ''tls handshake timeout'',
        ''context deadline exceeded'', ''network is unreachable'', ''connection reset by peer'', ''temporary failure in name resolution''])"

text \<open>What the API client sees; a test that is skipped or fails does not go on.\<close>

datatype fixture_result = FixtureSkipped | FixtureFailed | FixtureReady string

record 'w fixture_env =
  fx_inspect :: "string \<Rightarrow> 'w \<Rightarrow> 'w \<times> (gerror + string list)"
  fx_pull :: "string \<Rightarrow> 'w \<Rightarrow> 'w \<times> gerror option"
  fx_wait :: "'w \<Rightarrow> 'w \<times> gerror option"

definition ensureFixtureImage ::
  "'w fixture_env \<Rightarrow> 'w sweep_env \<Rightarrow> (string, string) gomap \<Rightarrow> 'w cleanup_step list \<Rightarrow> 'w \<Rightarrow> 'w \<times> 'w cleanup_step list \<times> fixture_result" where
  "ensureFixtureImage fx env environ steps w =
    (let reference = envOr environ ''DOCKERDLESS_TEST_IMAGE'' ''docker.io/library/alpine:3.20'';
         stopped = (\<lambda>e. if looksLikeConnectivityFailure (Some e) then FixtureSkipped else FixtureFailed) in
     case fx_inspect fx reference w of
       (w1, Inr tags) \<Rightarrow> (w1, steps, FixtureReady reference)
     | (w1, Inl _) \<Rightarrow> (case fx_pull fx reference w1 of
         (w2, Some e) \<Rightarrow> (w2, steps, stopped e)
       | (w2, None) \<Rightarrow> (case fx_wait fx w2 of
           (w3, Some e) \<Rightarrow> (w3, steps, stopped e)
         | (w3, None) \<Rightarrow> (case fx_inspect fx reference w3 of
             (w4, Inl e) \<Rightarrow> (w4, steps, FixtureFailed)
           | (w4, Inr tags) \<Rightarrow>
               let storedReference = (case tags of [] \<Rightarrow> reference | t # ts \<Rightarrow> t) in
               (w4, cleanup_add (''remove pulled fixture image '' @ storedReference) (removeImageFromContainerd env storedReference) steps,
                FixtureReady reference)))))"

section \<open>The names of a run\<close>

lemma kept_name_char: "kept_char c \<Longrightarrow> name_char c"
  by (auto simp: kept_char_def name_char_def is_alnum_def is_digit_def less_eq_char_def Let_def)

lemma dash_name_char: "name_char (CHR ''-'')"
  by (simp add: name_char_def)

lemma sanitizeName_chars: "list_all name_char (sanitizeName t)"
proof -
  have "list_all name_char (sanitize b s)" for b s
    by (induction b s rule: sanitize.induct) (auto simp: kept_name_char dash_name_char)
  then show ?thesis
    unfolding sanitizeName_def trim_dashes_def list_all_iff by (metis set_dropWhileD set_rev)
qed

lemma length_dec_digits: "n < 10 ^ k \<Longrightarrow> 0 < k \<Longrightarrow> length (dec_digits n) \<le> k"
proof (induction n arbitrary: k rule: dec_digits.induct)
  case (1 n)
  show ?case
  proof (cases "n < 10")
    case True
    then show ?thesis using "1.prems" by (simp add: dec_digits.simps [of n])
  next
    case False
    then obtain m where k: "k = Suc m" "0 < m" using "1.prems" by (cases k; cases "k - 1") auto
    then have "n div 10 < 10 ^ m" using "1.prems" by (simp add: less_mult_imp_div_less mult.commute)
    from "1.IH" [OF False this k(2)] False k show ?thesis by (simp add: dec_digits.simps [of n])
  qed
qed

lemma dec_digits_no_dash: "CHR ''-'' \<notin> set (dec_digits n)"
  using dec_digits_all_digits [of n] by (auto simp: list_all_iff is_digit_def less_eq_char_def)

lemma uniqueName_front:
  assumes "pid < 2 ^ 63" and "counter < 2 ^ 63"
  shows "\<exists>t. uniqueName pid counter test = ''dls-'' @ dec_digits pid @ ''-'' @ dec_digits counter @ ''-'' @ t \<and> list_all name_char t"
proof -
  define front where "front = ''dls-'' @ dec_digits pid @ ''-'' @ dec_digits counter @ ''-''"
  have "(2::nat) ^ 63 < 10 ^ 19" by simp
  then have "length front \<le> 120"
    using length_dec_digits [of pid 19] length_dec_digits [of counter 19] assms by (simp add: front_def)
  then have "take 120 (front @ sanitizeName test) = front @ take (120 - length front) (sanitizeName test)" by simp
  moreover have "list_all name_char (take n (sanitizeName test))" for n
    using sanitizeName_chars [of test] in_set_takeD by (fastforce simp: list_all_iff)
  moreover have "uniqueName pid counter test
      = (if 120 < length (front @ sanitizeName test) then take 120 (front @ sanitizeName test) else front @ sanitizeName test)"
    by (simp add: uniqueName_def front_def Let_def)
  ultimately have "\<exists>t. uniqueName pid counter test = front @ t \<and> list_all name_char t"
    using sanitizeName_chars [of test] by (metis (full_types))
  then show ?thesis by (simp add: front_def)
qed

lemma split_at_dash:
  assumes "CHR ''-'' \<notin> set a" and "CHR ''-'' \<notin> set b" and "a @ CHR ''-'' # u = b @ CHR ''-'' # v"
  shows "a = b"
proof -
  have "takeWhile (\<lambda>c. c \<noteq> CHR ''-'') (x @ CHR ''-'' # y) = x" if "CHR ''-'' \<notin> set x" for x y
    using that by (induction x) auto
  then show ?thesis using assms by metis
qed

text \<open>
  The names the harness makes. Every name is one the daemon accepts, whatever the test is
  called, and begins with the prefix the sweep of this process looks for; two names of a process
  are different when their counters are, even after they were cut to 120 bytes.
\<close>

theorem unique_names:
  assumes "pid < 2 ^ 63" and "counter < 2 ^ 63"
  shows "match_name (uniqueName pid counter test) \<and> HasPrefix (uniqueName pid counter test) (daemon_namePrefix pid)
    \<and> (\<forall>counter' test'. counter' < 2 ^ 63 \<and> uniqueName pid counter' test' = uniqueName pid counter test \<longrightarrow> counter' = counter)"
proof (intro conjI allI impI)
  obtain t where t: "uniqueName pid counter test = ''dls-'' @ dec_digits pid @ ''-'' @ dec_digits counter @ ''-'' @ t" "list_all name_char t"
    using uniqueName_front [OF assms] by blast
  have d: "list_all name_char (dec_digits n)" for n
    using dec_digits_all_digits [of n] by (simp add: list_all_iff name_char_def is_alnum_def)
  show "match_name (uniqueName pid counter test)" using d t(2) by (simp add: t(1) is_alnum_def name_char_def)
  show "HasPrefix (uniqueName pid counter test) (daemon_namePrefix pid)"
    by (simp add: t(1) HasPrefix_def daemon_namePrefix_def)
  fix counter' test'
  assume h: "counter' < 2 ^ 63 \<and> uniqueName pid counter' test' = uniqueName pid counter test"
  obtain t' where t': "uniqueName pid counter' test' = ''dls-'' @ dec_digits pid @ ''-'' @ dec_digits counter' @ ''-'' @ t'"
    using uniqueName_front [OF assms(1)] h by blast
  with h t(1) have "dec_digits counter' @ CHR ''-'' # t' = dec_digits counter @ CHR ''-'' # t" by simp
  then show "counter' = counter" by (intro dec_digits_inj) (rule split_at_dash [OF dec_digits_no_dash dec_digits_no_dash])
qed

theorem unique_names_witness:
  "match_name (uniqueName 7 3 ''T/a b'') \<and> HasPrefix (uniqueName 7 3 ''T/a b'') (daemon_namePrefix 7)
   \<and> uniqueName 7 3 ''T/a b'' = ''dls-7-3-t-a-b''"
proof -
  have "uniqueName 7 3 ''T/a b'' = ''dls-7-3-t-a-b''" by code_simp
  then show ?thesis using unique_names [of 7 3 "''T/a b''"] by simp
qed

section \<open>The sweep\<close>

text \<open>
  A containerd that does what it is asked: \<open>conts\<close> are its containers with the name each carries in
  its labels, \<open>imgs\<close> its images. Tasks and snapshots are removed or turn out to be missing.
\<close>

definition obliging :: "'w sweep_env \<Rightarrow> ('w \<Rightarrow> (container_id \<times> string) list) \<Rightarrow> ('w \<Rightarrow> string list) \<Rightarrow> bool" where
  "obliging env conts imgs \<longleftrightarrow>
     (\<forall>w. snd (sv_connect env w) = None \<and> snd (sv_Containers env w) = Inr (map fst (conts w)) \<and> snd (sv_Images env w) = Inr (imgs w))
   \<and> (\<forall>i n w. distinct (map fst (conts w)) \<and> (i, n) \<in> set (conts w) \<longrightarrow> (\<exists>ls. snd (sv_Labels env i w) = Inr ls \<and> get_or [] ls labelName = n))
   \<and> (\<forall>i w. \<not> failed env (snd (sv_DeleteTask env i w)) \<and> \<not> failed env (snd (sv_Delete env i w)))
   \<and> (\<forall>i w e. snd (sv_Info env i w) = Inl e \<longrightarrow> IsNotFound (sv_errdefs env) e)
   \<and> (\<forall>a k w. \<not> failed env (snd (sv_RemoveSnapshot env a k w))) \<and> (\<forall>n w. \<not> failed env (snd (sv_DeleteImage env n w)))
   \<and> (\<forall>i k a n w. \<forall>w' \<in> {fst (sv_connect env w), fst (sv_Containers env w), fst (sv_Labels env i w), fst (sv_Task env i w),
        fst (sv_Status env i w), fst (sv_Kill env i k w), fst (sv_DeleteTask env i w), fst (sv_Info env i w),
        fst (sv_RemoveSnapshot env a n w), fst (sv_Images env w)}. conts w' = conts w \<and> imgs w' = imgs w)
   \<and> (\<forall>i w. conts (fst (sv_Delete env i w)) = filter (\<lambda>c. fst c \<noteq> i) (conts w) \<and> imgs (fst (sv_Delete env i w)) = imgs w)
   \<and> (\<forall>n w. imgs (fst (sv_DeleteImage env n w)) = filter (\<lambda>m. m \<noteq> n) (imgs w) \<and> conts (fst (sv_DeleteImage env n w)) = conts w)"

lemma obligingD:
  assumes "obliging env conts imgs"
  shows "sv_connect env w = (w1, r1) \<Longrightarrow> r1 = None \<and> conts w1 = conts w \<and> imgs w1 = imgs w"
    "sv_Containers env w = (w1, r2) \<Longrightarrow> r2 = Inr (map fst (conts w)) \<and> conts w1 = conts w \<and> imgs w1 = imgs w"
    "sv_Images env w = (w1, r3) \<Longrightarrow> r3 = Inr (imgs w) \<and> conts w1 = conts w \<and> imgs w1 = imgs w"
    "sv_Labels env i w = (w1, r4) \<Longrightarrow> conts w1 = conts w \<and> imgs w1 = imgs w
      \<and> (distinct (map fst (conts w)) \<and> (i, n) \<in> set (conts w) \<longrightarrow> (\<exists>ls. r4 = Inr ls \<and> get_or [] ls labelName = n))"
    "sv_Task env i w = (w1, r5) \<Longrightarrow> conts w1 = conts w \<and> imgs w1 = imgs w"
    "sv_Status env i w = (w1, r6) \<Longrightarrow> conts w1 = conts w \<and> imgs w1 = imgs w"
    "conts (fst (sv_Kill env i k w)) = conts w \<and> imgs (fst (sv_Kill env i k w)) = imgs w"
    "sv_DeleteTask env i w = (w1, r7) \<Longrightarrow> \<not> failed env r7 \<and> conts w1 = conts w \<and> imgs w1 = imgs w"
    "sv_Info env i w = (w1, r8) \<Longrightarrow> conts w1 = conts w \<and> imgs w1 = imgs w \<and> (\<forall>e. r8 = Inl e \<longrightarrow> IsNotFound (sv_errdefs env) e)"
    "sv_RemoveSnapshot env a m w = (w1, r9) \<Longrightarrow> \<not> failed env r9 \<and> conts w1 = conts w \<and> imgs w1 = imgs w"
    "sv_Delete env i w = (w1, r10) \<Longrightarrow> \<not> failed env r10 \<and> conts w1 = filter (\<lambda>c. fst c \<noteq> i) (conts w) \<and> imgs w1 = imgs w"
    "sv_DeleteImage env m w = (w1, r11) \<Longrightarrow> \<not> failed env r11 \<and> imgs w1 = filter (\<lambda>x. x \<noteq> m) (imgs w) \<and> conts w1 = conts w"
  using assms unfolding obliging_def by (simp_all, (metis fst_conv snd_conv)+)

lemma forceRemoveContainer_obliging:
  assumes "obliging env conts imgs"
  shows "\<exists>w1. forceRemoveContainer env i w = (w1, None) \<and> conts w1 = filter (\<lambda>c. fst c \<noteq> i) (conts w) \<and> imgs w1 = imgs w"
proof -
  note ob = obligingD [OF assms]
  have settle: "\<exists>w1. settle_task env i n w = (w1, None) \<and> conts w1 = conts w \<and> imgs w1 = imgs w" for n w
    using ob(8) [of i w] by (cases n) (auto split: prod.splits)
  have kill: "\<exists>w1. killAndDeleteContainerTask env i w = (w1, None) \<and> conts w1 = conts w \<and> imgs w1 = imgs w" for w
  proof -
    obtain w1 r where t: "sv_Task env i w = (w1, r)" by fastforce
    obtain w2 st where st: "sv_Status env i w1 = (w2, st)" by fastforce
    define w3 where "w3 = (if st = Inr TsRunning then fst (sv_Kill env i SIGKILL w2) else w2)"
    have "conts w3 = conts w \<and> imgs w3 = imgs w"
      using ob(5) [OF t] ob(6) [OF st] ob(7) [of i SIGKILL w2] by (simp add: w3_def)
    with settle [of "sv_attempts env" w3] t st ob(5) [OF t] show ?thesis
      by (cases r) (auto simp: killAndDeleteContainerTask_def w3_def)
  qed
  obtain w1 where w1: "killAndDeleteContainerTask env i w = (w1, None)" "conts w1 = conts w" "imgs w1 = imgs w" using kill by blast
  obtain w2 info where w2: "sv_Info env i w1 = (w2, info)" by fastforce
  obtain w3 r where w3: "sv_Delete env i w2 = (w3, r)" by fastforce
  note facts = ob(9) [OF w2] ob(11) [OF w3]
  show ?thesis
  proof (cases info)
    case (Inl e)
    with facts w1 w2 w3 show ?thesis by (auto simp: forceRemoveContainer_def removeContainerRecordAndSnapshot_def)
  next
    case (Inr p)
    obtain a k where p: "p = (a, k)" by fastforce
    obtain w4 r4 where w4: "sv_RemoveSnapshot env a k w3 = (w4, r4)" by fastforce
    with Inr p facts w1 w2 w3 ob(10) [OF w4] show ?thesis
      by (auto simp: forceRemoveContainer_def removeContainerRecordAndSnapshot_def)
  qed
qed

lemma sweep_containers_obliging:
  assumes "obliging env conts imgs" and "distinct (map fst (conts w))" and "distinct (map fst cs)" and "set cs \<subseteq> set (conts w)"
  shows "\<exists>w1. sweep_containers env pre (map fst cs) w = (w1, [])
    \<and> conts w1 = filter (\<lambda>c. \<not> (c \<in> set cs \<and> HasPrefix (snd c) pre)) (conts w) \<and> imgs w1 = imgs w"
  using assms(2-4)
proof (induction cs arbitrary: w)
  case (Cons c cs)
  obtain i n where c: "c = (i, n)" by fastforce
  obtain w1 r where l: "sv_Labels env i w = (w1, r)" by fastforce
  note lab = obligingD(4) [OF assms(1) l, of n]
  then obtain ls where ls: "r = Inr ls" "get_or [] ls labelName = n" "conts w1 = conts w" "imgs w1 = imgs w"
    using Cons.prems(1,3) c by auto
  show ?case
  proof (cases "HasPrefix n pre")
    case False
    with Cons.IH [of w1] Cons.prems ls c l show ?thesis by (auto intro!: filter_cong)
  next
    case True
    obtain w2 where w2: "forceRemoveContainer env i w1 = (w2, None)" "conts w2 = filter (\<lambda>c. fst c \<noteq> i) (conts w)" "imgs w2 = imgs w"
      using forceRemoveContainer_obliging [OF assms(1), of i w1] ls by auto
    have "set cs \<subseteq> set (conts w2)" "distinct (map fst (conts w2))"
      using Cons.prems c w2(2) by (force, simp add: distinct_map inj_on_def)
    with Cons.IH [of w2] Cons.prems(2) obtain w3 where w3: "sweep_containers env pre (map fst cs) w2 = (w3, [])"
      "conts w3 = filter (\<lambda>c. \<not> (c \<in> set cs \<and> HasPrefix (snd c) pre)) (conts w2)" "imgs w3 = imgs w2" by auto
    have only: "x = (i, n)" if "x \<in> set (conts w)" "fst x = i" for x
      using that Cons.prems(1,3) c by (metis eq_key_imp_eq_value list.set_intros(1) prod.collapse subset_code(1))
    have "(fst x \<noteq> i \<and> \<not> (x \<in> set cs \<and> HasPrefix (snd x) pre)) \<longleftrightarrow> \<not> (x \<in> set (c # cs) \<and> HasPrefix (snd x) pre)"
      if "x \<in> set (conts w)" for x
    proof (cases "fst x = i")
      case True
      with only [OF that] c \<open>HasPrefix n pre\<close> show ?thesis by simp
    qed (auto simp: c)
    then have "conts w3 = filter (\<lambda>x. \<not> (x \<in> set (c # cs) \<and> HasPrefix (snd x) pre)) (conts w)"
      unfolding w3(2) w2(2) filter_filter by (rule filter_cong [OF refl])
    moreover have "sweep_containers env pre (map fst (c # cs)) w = (w3, [])"
      using w2(1) w3(1) c l ls True by simp
    moreover have "imgs w3 = imgs w" using w2(3) w3(3) by simp
    ultimately show ?thesis by blast
  qed
qed simp

lemma remove_images_obliging:
  assumes "obliging env conts imgs"
  shows "\<exists>w1. remove_images env what wanted ns w = (w1, []) \<and> conts w1 = conts w
    \<and> imgs w1 = filter (\<lambda>m. \<not> (m \<in> set ns \<and> wanted m)) (imgs w)"
proof (induction ns arbitrary: w)
  case (Cons n ns)
  show ?case
  proof (cases "wanted n")
    case False
    with Cons.IH [of w] show ?thesis by (auto intro!: filter_cong)
  next
    case True
    obtain w1 r where d: "sv_DeleteImage env n w = (w1, r)" by fastforce
    note facts = obligingD(12) [OF assms d]
    from Cons.IH [of w1] obtain w2 where "remove_images env what wanted ns w1 = (w2, [])" "conts w2 = conts w1"
      "imgs w2 = filter (\<lambda>m. \<not> (m \<in> set ns \<and> wanted m)) (imgs w1)" by blast
    with facts d True show ?thesis by (auto split: option.splits intro!: filter_cong)
  qed
qed simp

text \<open>
  The sweep removes what a run left behind and nothing else. Against a containerd that does what
  it is asked, it ends without an error, and what is left are exactly the containers whose name does
  not begin with the prefix of the run and the images whose name does not contain it.
\<close>

theorem sweep_exact:
  assumes "obliging env conts imgs" and "distinct (map fst (conts w))"
  shows "\<exists>w1. sweepAdapterState env pre w = (w1, None)
    \<and> conts w1 = filter (\<lambda>c. \<not> HasPrefix (snd c) pre) (conts w) \<and> imgs w1 = filter (\<lambda>n. \<not> Contains n pre) (imgs w)"
proof -
  obtain w1 r1 where c: "sv_connect env w = (w1, r1)" by fastforce
  obtain w2 r2 where l: "sv_Containers env w1 = (w2, r2)" by fastforce
  note start = obligingD(1) [OF assms(1) c] obligingD(2) [OF assms(1) l]
  obtain w3 where w3: "sweep_containers env pre (map fst (conts w)) w2 = (w3, [])"
    "conts w3 = filter (\<lambda>c. \<not> (c \<in> set (conts w) \<and> HasPrefix (snd c) pre)) (conts w)" "imgs w3 = imgs w"
    using sweep_containers_obliging [OF assms(1), of w2 "conts w" pre] start assms(2) by auto
  obtain w4 r4 where i: "sv_Images env w3 = (w4, r4)" by fastforce
  note im = obligingD(3) [OF assms(1) i]
  obtain w5 where w5: "remove_images env ''remove leftover image '' (\<lambda>n. Contains n pre) (imgs w3) w4 = (w5, [])"
    "conts w5 = conts w4" "imgs w5 = filter (\<lambda>m. \<not> (m \<in> set (imgs w3) \<and> Contains m pre)) (imgs w4)"
    using remove_images_obliging [OF assms(1), of "''remove leftover image ''" "\<lambda>n. Contains n pre" "imgs w3" w4] by blast
  have "conts w5 = filter (\<lambda>c. \<not> HasPrefix (snd c) pre) (conts w)" "imgs w5 = filter (\<lambda>n. \<not> Contains n pre) (imgs w)"
    using w5 w3 im by (auto intro!: filter_cong)
  with c l start w3(1) i im w5(1) show ?thesis by (simp add: sweepAdapterState_def join_errors_def)
qed

text \<open>A containerd whose state is the list of its containers and of its images.\<close>

definition sample_sweep :: "((container_id \<times> string) list \<times> string list) sweep_env" where
  "sample_sweep = \<lparr>sv_errdefs = \<lparr>IsNotFound = (\<lambda>e. False), IsAlreadyExists = (\<lambda>e. False), IsConflict = (\<lambda>e. False),
       IsFailedPrecondition = (\<lambda>e. False), IsInvalidArgument = (\<lambda>e. False), IsOutOfRange = (\<lambda>e. False),
       IsUnavailable = (\<lambda>e. False), IsInternal = (\<lambda>e. False), IsUnknown = (\<lambda>e. False), IsAborted = (\<lambda>e. False), IsDataLoss = (\<lambda>e. False)\<rparr>,
     sv_connect = (\<lambda>w. (w, None)), sv_Containers = (\<lambda>w. (w, Inr (map fst (fst w)))),
     sv_Labels = (\<lambda>i w. (w, Inr (case get (fst w) i of Some n \<Rightarrow> [(labelName, n)] | None \<Rightarrow> []))),
     sv_Task = (\<lambda>i w. (w, None)), sv_Status = (\<lambda>i w. (w, Inr TsRunning)), sv_Kill = (\<lambda>i k w. (w, None)),
     sv_DeleteTask = (\<lambda>i w. (w, None)), sv_attempts = 3, sv_Info = (\<lambda>i w. (w, Inr (''overlayfs'', i))),
     sv_Delete = (\<lambda>i w. ((filter (\<lambda>c. fst c \<noteq> i) (fst w), snd w), None)), sv_RemoveSnapshot = (\<lambda>s k w. (w, None)),
     sv_Images = (\<lambda>w. (w, Inr (snd w))), sv_DeleteImage = (\<lambda>n w. ((fst w, filter (\<lambda>m. m \<noteq> n) (snd w)), None))\<rparr>"

text \<open>The process ignores a container with the prefix of another process.\<close>

theorem sweep_exact_witness:
  "\<exists>w1. sweepAdapterState sample_sweep ''dls-7-'' ([(''c1'', ''dls-7-1-t''), (''c2'', ''dls-71-1-t''), (''c3'', ''web'')], [''x/dls-7-2-t:latest'', ''alpine''])
      = (w1, None) \<and> fst w1 = [(''c2'', ''dls-71-1-t''), (''c3'', ''web'')] \<and> snd w1 = [''alpine'']"
proof -
  have "obliging sample_sweep fst snd"
    by (auto simp: obliging_def sample_sweep_def failed_def get_or_def)
  from sweep_exact [OF this, of "([(''c1'', ''dls-7-1-t''), (''c2'', ''dls-71-1-t''), (''c3'', ''web'')], [''x/dls-7-2-t:latest'', ''alpine''])" "''dls-7-''"]
  show ?thesis by (simp add: HasPrefix_def)
qed

section \<open>Steps, bridges and the end of the daemon\<close>

lemma run_steps_append:
  "run_steps (a @ b) w = (case run_steps a w of (w1, r1) \<Rightarrow> case run_steps b w1 of (w2, r2) \<Rightarrow> (w2, r1 @ r2))"
  by (induction a w rule: run_steps.induct) (auto split: prod.splits)

text \<open>Steps registered later run first, and a failing step stops none of the others.\<close>

lemma cleanup_run_lifo:
  "cleanup_run (a @ b) w = (case cleanup_run b w of (w1, r1) \<Rightarrow> case cleanup_run a w1 of (w2, r2) \<Rightarrow> (w2, r1 @ r2))"
  by (simp add: cleanup_run_def run_steps_append)

lemma daemon_stopped_last:
  "cleanup_run (daemon_cleanups stop bridges dir env pid @ tests) w
    = (case cleanup_run tests w of (w1, r1) \<Rightarrow> case sweepAdapterState env (daemon_namePrefix pid) w1 of (w2, e2) \<Rightarrow>
        case deleteLeftoverBridges bridges dir w2 of (w3, e3) \<Rightarrow> case stop w3 of (w4, e4) \<Rightarrow>
          (w4, r1 @ concat (map (\<lambda>(n, e). case e of Some x \<Rightarrow> [''cleanup '' @ quote n @ '': '' @ err_msg x] | None \<Rightarrow> [])
             [(''sweep leftover adapter containers and images'', e2), (''delete leftover CNI bridge devices'', e3), (''stop dockerdless daemon'', e4)])))"
  unfolding cleanup_run_lifo by (simp add: daemon_cleanups_def cleanup_add_def cleanup_run_def split: prod.split option.split)

text \<open>When deleting a link is recorded in the world, the bridges of the readable files are deleted once each.\<close>

definition recorded_del :: "string list bridge_env \<Rightarrow> bool" where
  "recorded_del env \<longleftrightarrow> (\<forall>b w. fst (be_del env b w) = w @ [b])"

lemma deleteNetworkLink_recorded: "recorded_del env \<Longrightarrow> fst (deleteNetworkLink env b w) = w @ [b]"
proof -
  assume "recorded_del env"
  then have "fst (be_del env b w) = w @ [b]" by (simp add: recorded_del_def)
  then show ?thesis by (cases "be_del env b w") (simp add: deleteNetworkLink_def Let_def split: option.split)
qed

lemma delete_bridges_once:
  assumes "recorded_del env" and "delete_bridges env bs seen w = (w1, seen1, ps)"
  shows "\<exists>new. w1 = w @ new \<and> set seen1 = set seen \<union> set new \<and> distinct new \<and> set new = {b \<in> set bs. b \<noteq> []} - set seen"
  using assms(2)
proof (induction bs arbitrary: seen w w1 seen1 ps)
  case (Cons b bs)
  show ?case
  proof (cases "b = [] \<or> b \<in> set seen")
    case True
    with Cons show ?thesis by fastforce
  next
    case False
    obtain w2 r where d: "deleteNetworkLink env b w = (w2, r)" by fastforce
    obtain ps2 where rec: "delete_bridges env bs (b # seen) w2 = (w1, seen1, ps2)"
      using Cons.prems False d by (auto split: prod.splits)
    have "w2 = w @ [b]" using deleteNetworkLink_recorded [OF assms(1), of b w] d by simp
    with Cons.IH [OF rec] False show ?thesis by (elim exE) (rule_tac x = "b # new" in exI, auto)
  qed
qed simp

lemma bridge_entries_once:
  assumes "recorded_del env" and "bridge_entries env es seen w = (w1, seen1, ps)"
  shows "\<exists>new. w1 = w @ new \<and> set seen1 = set seen \<union> set new \<and> distinct new \<and> set new \<inter> set seen = {}"
  using assms(2)
proof (induction es arbitrary: seen w w1 seen1 ps)
  case (Cons entry es)
  obtain name isDir where entry: "entry = (name, isDir)" by fastforce
  consider (unchanged) ps1 where "bridge_entries env es seen w = (w1, seen1, ps1)"
    | (config) bs w2 seen2 ps2 ps3 where "delete_bridges env bs seen w = (w2, seen2, ps2)" and "bridge_entries env es seen2 w2 = (w1, seen1, ps3)"
    using Cons.prems entry by (auto split: if_splits sum.splits prod.splits)
  then show ?case
  proof cases
    case unchanged
    then show ?thesis by (rule Cons.IH)
  next
    case config
    from delete_bridges_once [OF assms(1) config(1)] Cons.IH [OF config(2)] show ?thesis
      by (elim exE conjE) (rule_tac x = "new @ newa" in exI, auto)
  qed
qed simp

lemma leftover_bridges_once:
  assumes "recorded_del env"
  shows "distinct (fst (deleteLeftoverBridges env dir []))"
proof (cases "be_ReadDir env")
  case (Inr es)
  obtain w1 seen ps where b: "bridge_entries env es [] [] = (w1, seen, ps)" by (metis prod_cases3)
  from bridge_entries_once [OF assms b] Inr b show ?thesis by (auto simp: deleteLeftoverBridges_def)
qed (simp add: deleteLeftoverBridges_def)

text \<open>Stopping reports nothing exactly after a clean end that has removed the socket.\<close>

lemma proc_stop_clean_iff:
  "proc_stop p process_done v = None \<longleftrightarrow> sw_exit v = None \<and> (\<exists>e. sw_stat v = Some e \<and> errors_is e (Std ErrNotExist))
    \<and> (sw_exited v \<or> sw_inTime v \<and> (\<forall>e. sw_signal v = Some e \<longrightarrow> process_done e))"
  by (auto simp: proc_stop_def join_errors_None_iff split: option.splits)

lemma proc_Stop_idempotent: "proc_Stop p d v' (fst (proc_Stop p d v s)) = (fst (proc_Stop p d v s), snd (proc_Stop p d v s))"
  by (auto simp: proc_Stop_def Let_def split: option.split)

text \<open>
  The daemon passes the check of its own harness: the socket is gone when the server has ended on a
  signal, so stopping a daemon that exits in time without an error reports nothing.
\<close>

lemma served_daemon_stops_clean:
  assumes "quiet env" and "IsAbs (srv_socketPath s)" and "srv_listener s = None" and "Listen env s fs = (s1, fs1, Inr l)"
    and "\<forall>q n. q \<noteq> Clean (srv_socketPath s) \<longrightarrow> fs1 q = Some n \<longrightarrow> in_listener n \<noteq> Some (sy_listener env)"
    and "Run env (ContextDone serving) None s fs = (s2, fs2, r)" and "ho_files h = fs2" and "ho_statErr h (srv_socketPath s) = None"
  shows "proc_stop (srv_socketPath s) d \<lparr>sw_exited = False, sw_signal = None, sw_inTime = True, sw_exit = r,
      sw_stat = (case host_Stat h (srv_socketPath s) of Inl e \<Rightarrow> Some e | Inr n \<Rightarrow> None)\<rparr> = None"
  using run_cleans_up [OF assms(1-6)] assms(7,8) by (simp add: proc_stop_clean_iff host_Stat_def)

end
