(* ===== verification/Spec2Isabelle.thy ===== *)
theory Spec2Isabelle
  imports Cni_Networks App_Images Api_Exec Api_System Cni_Inspect Ctd_Client Harness
begin

text \<open>
  A verification library of \<^bold>\<open>dockerdless\<close>, a daemon that serves the Docker Engine API on a
  Unix socket without dockerd: containers run on containerd, networks are CNI configurations and
  images are pulled into containerd's store and built by BuildKit. All code named below is under
  \<^verbatim>\<open>src/\<close>.

  \<^bold>\<open>The program and its parts.\<close> A request passes the version gate and the route table
  (\<^verbatim>\<open>internal/api\<close>), a handler decodes and validates it and calls a use case of the application
  service (\<^verbatim>\<open>internal/app\<close>), and the use case drives three ports (\<^verbatim>\<open>internal/ports\<close>): the
  runtime (\<^verbatim>\<open>internal/adapters/containerd\<close>), the networks with their port reservations
  (\<^verbatim>\<open>internal/adapters/cni\<close>) and the images (\<^verbatim>\<open>internal/adapters/buildkit\<close>). What the
  service knows of containers is the registry of \<^verbatim>\<open>internal/domain\<close>, rebuilt at startup from
  containerd (\<^verbatim>\<open>reconcile.go\<close> and \<^verbatim>\<open>cmd/dockerdless/reconciliation.go\<close>). Attached output is
  framed and logs are written and followed by \<^verbatim>\<open>internal/streams\<close>; settings come from
  \<^verbatim>\<open>internal/config\<close>, whose changes \<^verbatim>\<open>cmd/dockerdless/reload.go\<close> applies. The daemon
  (\<^verbatim>\<open>cmd/dockerdless/main.go\<close>) starts telemetry (\<^verbatim>\<open>internal/observability\<close>), connects the
  backends and serves the socket (\<^verbatim>\<open>internal/api/server.go\<close>) until a signal ends it.

  \<^bold>\<open>How it is modelled.\<close> A Go struct is a \<^theory_text>\<open>record\<close>, an enumeration or an interface with
  known implementations a \<^theory_text>\<open>datatype\<close>, a map an association list with distinct keys whose order
  stands for the unspecified iteration order, a string its bytes. A fallible call returns a sum with
  the error on the left; errors keep their message and the chain \<^verbatim>\<open>errors.Is\<close> walks. A method that
  changes state takes and returns it; what lies outside the program is a world \<open>'w\<close> threaded
  through the operations of an environment record (\<open>service_env\<close>, \<open>cni_env\<close>, \<open>ctd_client\<close>,
  \<open>config_env\<close>, \<open>store_env\<close>, \<open>context_env\<close>, \<open>build_env\<close>, \<open>sys_env\<close>, \<open>obs_env\<close>, \<open>daemon_env\<close>), so that every statement holds for every
  behaviour of containerd, the CNI plugins, BuildKit, Viper and the file system; where a statement
  needs documented behaviour of one of them it is a named hypothesis with a concrete instance in its
  witness. A method that runs under a mutex is one step.

  \<^bold>\<open>The theories.\<close>
  \<^item> \<open>Prelude\<close>, \<open>Go_Strings\<close>, \<open>Go_Errors\<close>, \<open>Go_Time\<close>, \<open>Go_Binary\<close>, \<open>Go_Sha256\<close>, \<open>Go_Path\<close>,
    \<open>Go_Local\<close>, \<open>Go_Json\<close>, \<open>Net_Addr\<close>: results, maps and the parts of Go's library the daemon calls, with
    the facts the components share (trimming, splitting, decimal numbers and their round trips,
    cleaned and local paths, addresses and prefixes).
  \<^item> \<open>Domain_Model\<close>, \<open>Registry\<close>, \<open>Reconcile\<close>: \<^verbatim>\<open>internal/domain\<close> and the startup path. The
    registry keeps two indexes and refines one map with unique names (through the locale
    \<open>container_store\<close>); reconciliation is characterised exactly, errors included.
  \<^item> \<open>Error_Mapping\<close>: the three layers an error crosses; classes and messages survive.
  \<^item> \<open>Stdcopy\<close>, \<open>Log_Stream\<close>, \<open>Cri_Writer\<close>, \<open>Hijack\<close>: \<^verbatim>\<open>internal/streams\<close> and the log
    writer. Framing and log records are read back as written; the block-wise tail search equals its
    line-wise meaning; following a growing log emits each line once.
  \<^item> \<open>Port_Allocator\<close>, \<open>Cni_Config\<close>, \<open>Cni_Adapter\<close>, \<open>Cni_Networks\<close>: \<^verbatim>\<open>internal/adapters/cni\<close>.
    Reservations never clash (locale \<open>port_reservation\<close>), subnets and names stay unique over every
    history, attach and detach restore what they took.
  \<^item> \<open>Ctd_Spec\<close>, \<open>Ctd_Adapter\<close>, \<open>Ctd_Client\<close>: \<^verbatim>\<open>internal/adapters/containerd\<close>, the
    translation of a container configuration, every method of the adapter with its table of input
    pipes and processes, and the seam on the containerd library; names in containerd stay unique.
  \<^item> \<open>Bk_Auth\<close>, \<open>Bk_Store\<close>, \<open>Bk_Progress\<close>, \<open>Bk_Context\<close>, \<open>Bk_Build\<close>:
    \<^verbatim>\<open>internal/adapters/buildkit\<close>. Credentials are given to the registry they name, with the two
    paths on which any host gets them stated; a removal by ID counts references down; the progress
    stream equals its description event by event; no archive entry leaves the build context; a build
    that returns has removed its context, or met an error doing so, and has reported the image and
    the tag of its own solve or the error; the one build that never returns is described too.
  \<^item> \<open>Ports_Types\<close>, \<open>App_Service\<close>, \<open>App_Lifecycle\<close>, \<open>App_Effects\<close>, \<open>App_Resources\<close>,
    \<open>App_Usage\<close>: \<^verbatim>\<open>internal/app\<close>. Every use case keeps the invariant of the whole service;
    creating is all or nothing; start, stop and remove change exactly the container they name.
  \<^item> \<open>App_Runtime\<close>, \<open>App_Restart\<close>, \<open>App_Images\<close>: the service composed with its adapters: a
    stop that reports success has ended the process, and with a containerd that answers every stop
    does, failing at most with its not-found error; a restart reads back what was created; a removal
    of a stored image is refused while a container uses it, and otherwise removes one reference of it.
  \<^item> \<open>Api_Router\<close>, \<open>Api_Create\<close>, \<open>Api_Responses\<close>, \<open>Api_Handlers\<close>, \<open>Api_System\<close>,
    \<open>Cni_Inspect\<close>: \<^verbatim>\<open>internal/api\<close>. The version gate, the routes, exactly which create requests
    reach the service, create followed by inspect, the numbers of info, and the agreement of the inspect
    response with the network settings of the adapter.
  \<^item> \<open>Api_Logs\<close>, \<open>Api_Exec\<close>: the two kinds of stream. What a container wrote reaches the client of
    the log request unchanged, a follow ends with its container, every stream slot is given back
    when its request returns, and what the resize filter takes out of the input of a session is
    stated for every input that follows the message.
  \<^item> \<open>Api_Server\<close>, \<open>Observability\<close>, \<open>Daemon\<close>: the socket on a file system whose calls fail and
    interleave with other processes, the access log and telemetry, and \<^verbatim>\<open>run\<close>, which releases
    whatever it has acquired on every path.
  \<^item> \<open>Harness\<close>: \<^verbatim>\<open>integration/\<close>. Generated names are valid and unique, the sweep removes exactly
    the resources of its run, and a daemon that ends on a signal passes the harness's check.
  \<^item> \<open>Config\<close>, \<open>Config_Watch\<close>, \<open>Config_Reload\<close>: \<^verbatim>\<open>internal/config\<close> and the reload. The watch
    loop, the callers and \<^verbatim>\<open>Close\<close> are a step relation over their mutex sections; in every
    reachable state the published settings are valid, and a closed store stops its loop.

  \<^bold>\<open>Loops and bounds.\<close> Loops over data are structural recursion or carry a measure. The log
  follower takes the list of the points at which it polls, so its statement covers every finite run
  and cancellation ends it; the reservation of a host port tries a fixed number of probes, as the
  code does; the watch loop has a rank of at most six once its channels are closed. \<open>Build\<close> returns
  an option: \<open>None\<close> is a call that never returns, which happens exactly when a solver leaves the
  status channel open, as the repository's own does when it cannot open the build context. Ports, exit codes and frame sizes are words of their Go width; the conversion
  of timeouts wraps at 64 bits where the code multiplies. A request that waits for a stream slot is
  \<open>None\<close>; the scanner of \<open>Go_Json\<close> has two steps of fuel for each byte and two more, which
  always suffice (\<open>scan_value_total\<close>); the sweep has
  the number of attempts it makes before its deadline as a parameter.

  \<^bold>\<open>Parameters.\<close> Code that is not in the repository is an argument: containerd and its
  \<^verbatim>\<open>errdefs\<close>, libcni, BuildKit and \<^verbatim>\<open>go-digest\<close>, the reference grammar, \<^verbatim>\<open>platforms.Format\<close>,
  Viper and fsnotify, zap and OpenTelemetry. So are, of the standard library, \<^verbatim>\<open>encoding/json\<close>
  (except where a stream is scanned for resize messages), \<^verbatim>\<open>url.Parse\<close>, the decoding of tar
  headers and the arithmetic and formatting of floats: their results enter as values. A digest
  passed to \<^verbatim>\<open>Encoded\<close> is taken to be well formed: on another one the library panics, which is
  not modelled.

  \<^bold>\<open>Simplifications.\<close> Requests to the service run one after another. \<^verbatim>\<open>CreateNetwork\<close> takes no
  lock between listing the networks and writing its file; it is one step, so the statements on
  histories of networks are about sequential use. The socket operations keep modes and owners, but
  a probe of the socket that the kernel refuses for lack of permission is one of the injected
  faults. A nil map and an empty one are the same value, so a JSON \<^verbatim>\<open>null\<close> and \<^verbatim>\<open>{}\<close> are not
  told apart in the network settings; the lists of a create request do tell nil from empty, because
  its policy depends on it. \<^verbatim>\<open>EqualFold\<close> and the case conversions are written for the ASCII letters
  and the characters outside ASCII that fold onto them.

  \<^bold>\<open>Not modelled.\<close> The log calls of every component, spans and instruments beyond their start and
  end; the kernel calls of \<^verbatim>\<open>netns\<close> and \<^verbatim>\<open>netlink\<close>, which stand behind an interface the
  network adapter calls; the copying of the streams of an attached process, one observation of the
  world here; the phrase with the age of a container, a float; in the harness starting processes and
  building binaries and the build context. They are input and output around the modelled operations.
\<close>

end
